(* ===== verification/Prelude.thy ===== *)
theory Prelude
  imports Main "HOL-Library.Word" "HOL-Library.Char_ord" "HOL-Library.List_Lexorder"
begin

text \<open>
  Shared base of the development: the types every component uses (byte strings,
  UUIDs, times), hexadecimal and decimal rendering as Go's \<^verbatim>\<open>hex\<close>,
  \<^verbatim>\<open>uuid\<close> and \<^verbatim>\<open>fmt\<close> packages do it, generic facts on lists, and the
  collections of hints the component theories fill.

  A Go \<^verbatim>\<open>string\<close> and a Go \<^verbatim>\<open>[]byte\<close> are both a \<^verbatim>\<open>char list\<close>
  (one \<^verbatim>\<open>char\<close> is one byte), so \<^verbatim>\<open>len\<close> is \<^verbatim>\<open>length\<close>.  A UUID is its
  128-bit value; \<^verbatim>\<open>uuid.Nil\<close> is 0.  Times are integers (microseconds since
  the Unix epoch, the resolution of a PostgreSQL \<^verbatim>\<open>timestamptz\<close>).
\<close>

named_theorems run_defs \<open>defining equations, to run the model on a concrete input\<close>
named_theorems guar_intros \<open>operations that respect the guarantees of the development\<close>
named_theorems op_succ \<open>what a run that returned a given outcome has done\<close>

type_synonym uuid = "128 word"
type_synonym bytes = string
type_synonym time = int

abbreviation nil_uuid :: uuid where "nil_uuid \<equiv> 0"

section \<open>Hexadecimal rendering\<close>

definition hex_digit :: "nat \<Rightarrow> char" where [run_defs]:
  "hex_digit n = ''0123456789abcdef'' ! n"

fun digits16 :: "nat \<Rightarrow> nat \<Rightarrow> nat list" where
  "digits16 0 n = []"
| "digits16 (Suc k) n = digits16 k (n div 16) @ [n mod 16]"

lemma digits16_step [run_defs]:
  "digits16 (numeral k) (numeral n) = digits16 (pred_numeral k) (numeral n div 16) @ [numeral n mod 16]"
  "digits16 (numeral k) 0 = digits16 (pred_numeral k) 0 @ [0]"
  "digits16 (numeral k) (Suc 0) = digits16 (pred_numeral k) 0 @ [Suc 0]"
  unfolding numeral_eq_Suc [of k] by simp_all

definition hex_byte :: "char \<Rightarrow> string" where [run_defs]:
  "hex_byte c = map hex_digit (digits16 2 (of_char c))"

definition hex_encode :: "bytes \<Rightarrow> string" where [run_defs]:
  "hex_encode bs = concat (map hex_byte bs)"

definition dashed :: "string \<Rightarrow> string" where [run_defs]:
  "dashed d = take 8 d @ ''-'' @ take 4 (drop 8 d) @ ''-'' @ take 4 (drop 12 d) @ ''-'' @
     take 4 (drop 16 d) @ ''-'' @ drop 20 d"

definition uuid_string :: "uuid \<Rightarrow> string" where [run_defs]:
  "uuid_string u = dashed (map hex_digit (digits16 32 (unat u)))"

lemma hex_digit_inject: "m < 16 \<Longrightarrow> n < 16 \<Longrightarrow> hex_digit m = hex_digit n \<longleftrightarrow> m = n"
  unfolding hex_digit_def
  by (subst nth_eq_iff_index_eq) simp_all

lemma hex_digit_set: "n < 16 \<Longrightarrow> hex_digit n \<in> set ''0123456789abcdef''"
  unfolding hex_digit_def by (rule nth_mem) simp

lemma length_digits16 [simp]: "length (digits16 k n) = k"
  by (induction k arbitrary: n) auto

lemma digits16_less: "d \<in> set (digits16 k n) \<Longrightarrow> d < 16"
  by (induction k arbitrary: n) auto

lemma digits16_inject:
  "m < 16 ^ k \<Longrightarrow> n < 16 ^ k \<Longrightarrow> digits16 k m = digits16 k n \<longleftrightarrow> m = n"
proof (induction k arbitrary: m n)
  case 0
  then show ?case by simp
next
  case (Suc k)
  have "m div 16 < 16 ^ k" "n div 16 < 16 ^ k"
    using Suc.prems by (simp_all add: less_mult_imp_div_less mult.commute)
  then have "digits16 (Suc k) m = digits16 (Suc k) n \<longleftrightarrow> m div 16 = n div 16 \<and> m mod 16 = n mod 16"
    using Suc.IH by simp
  then show ?case by (metis div_mult_mod_eq)
qed

lemma map_hex_digit_inject:
  "\<forall>d\<in>set ds. d < 16 \<Longrightarrow> \<forall>d\<in>set es. d < 16 \<Longrightarrow>
    map hex_digit ds = map hex_digit es \<longleftrightarrow> ds = es"
  by (rule inj_on_map_eq_map) (auto simp: inj_on_def hex_digit_inject)

lemma hex_digits_inject:
  assumes "m < 16 ^ k" "n < 16 ^ k"
  shows "map hex_digit (digits16 k m) = map hex_digit (digits16 k n) \<longleftrightarrow> m = n"
  using assms by (simp add: map_hex_digit_inject digits16_less digits16_inject)

lemma length_hex_byte [simp]: "length (hex_byte c) = 2"
  by (simp add: hex_byte_def)

lemma hex_byte_inject: "hex_byte c = hex_byte d \<longleftrightarrow> c = d"
proof -
  have "(of_char c :: nat) < 16 ^ 2" "(of_char d :: nat) < 16 ^ 2"
    using nat_of_char_less_256 [of c] nat_of_char_less_256 [of d] by simp_all
  then show ?thesis unfolding hex_byte_def by (simp add: hex_digits_inject)
qed

lemma hex_encode_simps [simp]:
  "hex_encode [] = []"
  "hex_encode (c # bs) = hex_byte c @ hex_encode bs"
  by (simp_all add: hex_encode_def)

lemma length_hex_encode [simp]: "length (hex_encode bs) = 2 * length bs"
  by (induction bs) auto

theorem hex_encode_inject: "hex_encode bs = hex_encode cs \<longleftrightarrow> bs = cs"
proof (induction bs arbitrary: cs)
  case Nil
  show ?case by (cases cs) (auto dest: arg_cong [where f = length])
next
  case (Cons b bs)
  show ?case
    by (cases cs) (auto simp: hex_byte_inject Cons.IH dest: arg_cong [where f = length])
qed

lemma hex_byte_set: "set (hex_byte c) \<subseteq> set ''0123456789abcdef''"
  unfolding hex_byte_def by (auto dest!: digits16_less hex_digit_set)

lemma hex_encode_set: "set (hex_encode bs) \<subseteq> set ''0123456789abcdef''"
  using hex_byte_set by (induction bs) (fastforce simp: hex_encode_def)+

lemma take_drop_piece: "drop m xs = take k (drop m xs) @ drop (m + k) xs"
  by (metis add.commute append_take_drop_id drop_drop)

lemma list_pieces_eqI:
  assumes "take 8 xs = take 8 ys" "take 4 (drop 8 xs) = take 4 (drop 8 ys)"
    "take 4 (drop 12 xs) = take 4 (drop 12 ys)" "take 4 (drop 16 xs) = take 4 (drop 16 ys)"
    "drop 20 xs = drop 20 ys"
  shows "xs = ys"
proof -
  have "drop 16 xs = drop 16 ys"
    using take_drop_piece [of 16 xs 4] take_drop_piece [of 16 ys 4] assms by simp
  then have "drop 12 xs = drop 12 ys"
    using take_drop_piece [of 12 xs 4] take_drop_piece [of 12 ys 4] assms by simp
  then have "drop 8 xs = drop 8 ys"
    using take_drop_piece [of 8 xs 4] take_drop_piece [of 8 ys 4] assms by simp
  then show ?thesis using assms(1) by (metis append_take_drop_id)
qed

lemma dashed_inject:
  assumes "length xs = 32" "length ys = 32" "dashed xs = dashed ys"
  shows "xs = ys"
proof -
  have eqs: "take 8 xs = take 8 ys \<and> take 4 (drop 8 xs) = take 4 (drop 8 ys) \<and>
    take 4 (drop 12 xs) = take 4 (drop 12 ys) \<and> take 4 (drop 16 xs) = take 4 (drop 16 ys) \<and>
    drop 20 xs = drop 20 ys"
    using assms(3) unfolding dashed_def
    by (simp only: append_eq_append_conv same_append_eq length_take length_drop assms(1,2) simp_thms)
  show ?thesis
    by (rule list_pieces_eqI) (use eqs in blast)+
qed

lemma dashed_set: "set (dashed xs) \<subseteq> insert (CHR ''-'') (set xs)"
  unfolding dashed_def by (auto dest: in_set_takeD in_set_dropD)

theorem uuid_string_inject: "uuid_string u = uuid_string v \<longleftrightarrow> u = v"
proof
  assume "uuid_string u = uuid_string v"
  then have "map hex_digit (digits16 32 (unat u)) = map hex_digit (digits16 32 (unat v))"
    unfolding uuid_string_def by (rule dashed_inject [rotated 2]) (simp_all only: length_map length_digits16)
  moreover have "unat x < 16 ^ 32" for x :: uuid
    by (rule order.strict_trans2 [OF unsigned_less]) simp
  ultimately show "u = v" by (simp only: hex_digits_inject word_unat_eq_iff)
qed simp

lemma uuid_string_set: "set (uuid_string u) \<subseteq> insert (CHR ''-'') (set ''0123456789abcdef'')"
proof -
  define d where "d = map hex_digit (digits16 32 (unat u))"
  have "\<forall>c\<in>set d. c \<in> set ''0123456789abcdef''"
    unfolding d_def set_map using digits16_less hex_digit_set by blast
  then show ?thesis
    unfolding uuid_string_def d_def [symmetric] using dashed_set [of d] by blast
qed

section \<open>Lists\<close>

lemma filter_headD: "filter P xs = y # ys \<Longrightarrow> y \<in> set xs \<and> P y"
  by (induction xs) (auto split: if_splits)

section \<open>strings.TrimSpace\<close>

text \<open>The UTF-8 encodings of the code points with Unicode's White\_Space property.\<close>

definition space_runes :: "string list" where [run_defs]:
  "space_runes = [[CHR 0x09], [CHR 0x0A], [CHR 0x0B], [CHR 0x0C], [CHR 0x0D], [CHR 0x20],
     [CHR 0xC2, CHR 0x85], [CHR 0xC2, CHR 0xA0], [CHR 0xE1, CHR 0x9A, CHR 0x80]] @
     map (\<lambda>n. [CHR 0xE2, CHR 0x80, char_of n]) ([0x80..<0x8B] @ [0xA8, 0xA9, 0xAF :: nat]) @
     [[CHR 0xE2, CHR 0x81, CHR 0x9F], [CHR 0xE3, CHR 0x80, CHR 0x80]]"

fun drop_runes :: "string list \<Rightarrow> nat \<Rightarrow> string \<Rightarrow> string" where
  "drop_runes rs 0 s = s"
| "drop_runes rs (Suc n) s = (case filter (\<lambda>r. take (length r) s = r) rs of
     [] \<Rightarrow> s | r # _ \<Rightarrow> drop_runes rs n (drop (length r) s))"

text \<open>No rune of the list is empty, so as many steps as the string has bytes always suffice.\<close>

definition trim_left :: "string \<Rightarrow> string" where [run_defs]:
  "trim_left s = drop_runes space_runes (length s) s"

definition trim_right :: "string \<Rightarrow> string" where [run_defs]:
  "trim_right s = rev (drop_runes (map rev space_runes) (length s) (rev s))"

definition TrimSpace :: "string \<Rightarrow> string" where [run_defs]:
  "TrimSpace s = trim_right (trim_left s)"

declare drop_runes.simps [run_defs]

end
