(* ===== verification/Database.thy ===== *)
theory Database
  imports Prelude
begin

text \<open>
  The tables of the PostgreSQL schema (\<^verbatim>\<open>backend/db/migrations\<close>) as lists of rows,
  one record per table with the columns of \<^verbatim>\<open>backend/db/generated/models.go\<close>.
  A nullable column is an option.  A table is kept in insertion order.
\<close>

record user_row =
  u_id :: uuid
  u_email :: string
  u_password_hash :: string
  u_first_name :: string
  u_last_name :: string
  u_display_name :: "string option"
  u_phone :: "string option"
  u_status :: string
  u_created_at :: time
  u_updated_at :: time
  u_last_login_at :: "time option"

record role_row =
  r_id :: uuid
  r_name :: string
  r_description :: "string option"

record permission_row =
  p_id :: uuid
  p_name :: string
  p_resource :: string
  p_action :: string

record user_role_row =
  ur_user_id :: uuid
  ur_role_id :: uuid

record role_permission_row =
  rp_role_id :: uuid
  rp_permission_id :: uuid

record case_row =
  c_id :: uuid
  c_case_number :: string
  c_title :: string
  c_description :: "string option"
  c_status :: string
  c_metadata :: bytes
  c_created_by :: uuid
  c_created_at :: time
  c_updated_at :: time

record case_member_row =
  m_id :: uuid
  m_case_id :: uuid
  m_user_id :: uuid
  m_membership_type :: string
  m_added_by :: uuid
  m_created_at :: time
  m_removed_at :: "time option"

record party_row =
  ip_id :: uuid
  ip_case_id :: uuid
  ip_party_type :: string
  ip_display_name :: string
  ip_metadata :: bytes
  ip_added_by :: uuid
  ip_created_at :: time

record document_row =
  d_id :: uuid
  d_case_id :: uuid
  d_parent_document_id :: "uuid option"
  d_document_type :: string
  d_filename :: string
  d_description :: "string option"
  d_mime_type :: string
  d_file_size :: int
  d_sha256_hash :: bytes
  d_storage_bucket :: string
  d_storage_object_key :: string
  d_status :: string
  d_metadata :: bytes
  d_uploaded_by :: uuid
  d_uploaded_at :: time
  d_updated_at :: time

record share_row =
  s_id :: uuid
  s_document_id :: uuid
  s_shared_with_user_id :: uuid
  s_created_by_user_id :: uuid
  s_permission :: string
  s_status :: string
  s_expires_at :: "time option"
  s_reason :: "string option"
  s_created_at :: time
  s_revoked_at :: "time option"
  s_revoked_by_user_id :: "uuid option"

record session_row =
  as_id :: uuid
  as_user_id :: uuid
  as_family_id :: uuid
  as_token_hash :: bytes
  as_expires_at :: time
  as_created_at :: time
  as_last_used_at :: "time option"
  as_revoked_at :: "time option"
  as_replaced_by :: "uuid option"
  as_ip_address :: "string option"
  as_user_agent :: "string option"

record audit_row =
  a_id :: uuid
  a_seq :: "int option"
  a_timestamp :: time
  a_user_id :: "uuid option"
  a_role :: "string option"
  a_action :: string
  a_resource_type :: string
  a_resource_id :: "uuid option"
  a_case_id :: "uuid option"
  a_metadata :: bytes
  a_prev_hash :: "bytes option"
  a_hash :: bytes

record verification_row =
  v_id :: uuid
  v_requested_by_user_id :: uuid
  v_requested_by_role :: "string option"
  v_status :: string
  v_entries_checked :: int
  v_total_entries :: "int option"
  v_last_seq_checked :: "int option"
  v_failed_entry_id :: "uuid option"
  v_failed_seq :: "int option"
  v_failure_type :: "string option"
  v_failure_reason :: "string option"
  v_started_at :: "time option"
  v_completed_at :: "time option"
  v_created_at :: time
  v_updated_at :: time

record anchor_row =
  b_id :: uuid
  b_document_id :: uuid
  b_document_version :: int
  b_event_type :: string
  b_document_hash :: bytes
  b_status :: string
  b_fabric_tx_id :: "string option"
  b_fabric_channel :: "string option"
  b_fabric_chaincode :: "string option"
  b_organization :: "string option"
  b_last_error :: "string option"
  b_retry_count :: int
  b_created_at :: time
  b_confirmed_at :: "time option"
  b_updated_at :: time

record certificate_row =
  cc_id :: uuid
  cc_document_id :: uuid
  cc_document_hash :: bytes
  cc_certificate_version :: string
  cc_certificate_data :: bytes
  cc_generated_by :: uuid
  cc_generated_at :: time
  cc_created_at :: time

record export_row =
  x_id :: uuid
  x_export_id :: string
  x_document_id :: uuid
  x_document_version :: int
  x_case_id :: uuid
  x_user_id :: uuid
  x_recipient_user_id :: uuid
  x_share_id :: "uuid option"
  x_original_sha256 :: bytes
  x_export_sha256 :: "bytes option"
  x_export_fingerprint :: bytes
  x_watermark_status :: string
  x_watermark_version :: int
  x_export_type :: string
  x_permission :: string
  x_source_ip :: "string option"
  x_user_agent :: "string option"
  x_session_reference_hash :: "string option"
  x_status :: string
  x_failure_reason :: "string option"
  x_audit_event_id :: "uuid option"
  x_blockchain_anchor_id :: "uuid option"
  x_metadata :: bytes
  x_created_at :: time
  x_completed_at :: "time option"

record redaction_row =
  rd_id :: uuid
  rd_source_document_id :: uuid
  rd_result_document_id :: uuid
  rd_region_data :: bytes
  rd_reason :: "string option"
  rd_created_by :: uuid
  rd_created_at :: time

record database =
  t_users :: "user_row list"
  t_roles :: "role_row list"
  t_permissions :: "permission_row list"
  t_user_roles :: "user_role_row list"
  t_role_permissions :: "role_permission_row list"
  t_cases :: "case_row list"
  t_case_members :: "case_member_row list"
  t_parties :: "party_row list"
  t_documents :: "document_row list"
  t_shares :: "share_row list"
  t_sessions :: "session_row list"
  t_audit_log :: "audit_row list"
  t_verifications :: "verification_row list"
  t_anchors :: "anchor_row list"
  t_certificates :: "certificate_row list"
  t_exports :: "export_row list"
  t_redactions :: "redaction_row list"

definition empty_db :: database where [run_defs]:
  "empty_db = \<lparr>t_users = [], t_roles = [], t_permissions = [], t_user_roles = [],
     t_role_permissions = [], t_cases = [], t_case_members = [], t_parties = [],
     t_documents = [], t_shares = [], t_sessions = [], t_audit_log = [],
     t_verifications = [], t_anchors = [], t_certificates = [], t_exports = [],
     t_redactions = []\<rparr>"

section \<open>The transaction-local identity and the row-level-security policies\<close>

text \<open>
  \<^verbatim>\<open>app_ctx\<close> is what \<^verbatim>\<open>set_config('app.user_id', ...)\<close> and
  \<^verbatim>\<open>set_config('app.role', ...)\<close> establish for one transaction;
  \<^verbatim>\<open>current_app_user_id()\<close> and \<^verbatim>\<open>current_app_role()\<close> read it, and are SQL NULL
  (here \<^verbatim>\<open>None\<close>) when absent.  A comparison with NULL is not true, which is what the
  equations between options below express: \<^verbatim>\<open>cur_user c = Some u\<close> is false when no
  user is set.
\<close>

record app_ctx =
  cur_user :: "uuid option"
  cur_role :: "string option"

definition app_admin :: "app_ctx \<Rightarrow> bool" where [run_defs]:
  "app_admin c \<longleftrightarrow> cur_role c = Some ''ADMIN''"

definition active_membership :: "uuid \<Rightarrow> uuid option \<Rightarrow> case_member_row \<Rightarrow> bool" where [run_defs]:
  "active_membership cid u m \<longleftrightarrow> m_case_id m = cid \<and> u = Some (m_user_id m) \<and> m_removed_at m = None"

definition is_case_member :: "database \<Rightarrow> app_ctx \<Rightarrow> uuid \<Rightarrow> bool" where [run_defs]:
  "is_case_member d c cid \<longleftrightarrow> list_ex (active_membership cid (cur_user c)) (t_case_members d)"

definition is_case_creator :: "database \<Rightarrow> app_ctx \<Rightarrow> uuid \<Rightarrow> bool" where [run_defs]:
  "is_case_creator d c cid \<longleftrightarrow>
     list_ex (\<lambda>r. c_id r = cid \<and> cur_user c = Some (c_created_by r)) (t_cases d)"

definition cases_select :: "database \<Rightarrow> app_ctx \<Rightarrow> case_row \<Rightarrow> bool" where [run_defs]:
  "cases_select d c r \<longleftrightarrow> app_admin c \<or> cur_user c = Some (c_created_by r) \<or>
     is_case_member d c (c_id r)"

definition cases_insert :: "app_ctx \<Rightarrow> case_row \<Rightarrow> bool" where [run_defs]:
  "cases_insert c r \<longleftrightarrow> cur_user c = Some (c_created_by r)"

definition cases_update :: "database \<Rightarrow> app_ctx \<Rightarrow> case_row \<Rightarrow> bool" where [run_defs]:
  "cases_update d c r \<longleftrightarrow> app_admin c \<or> cur_user c = Some (c_created_by r) \<or>
     is_case_member d c (c_id r)"

definition case_members_select :: "app_ctx \<Rightarrow> case_member_row \<Rightarrow> bool" where [run_defs]:
  "case_members_select c m \<longleftrightarrow> app_admin c \<or> cur_user c = Some (m_user_id m)"

definition case_members_insert :: "database \<Rightarrow> app_ctx \<Rightarrow> case_member_row \<Rightarrow> bool" where [run_defs]:
  "case_members_insert d c m \<longleftrightarrow> cur_user c = Some (m_added_by m) \<and>
     (app_admin c \<or> is_case_creator d c (m_case_id m))"

definition case_members_update :: "database \<Rightarrow> app_ctx \<Rightarrow> case_member_row \<Rightarrow> bool" where [run_defs]:
  "case_members_update d c m \<longleftrightarrow> app_admin c \<or> is_case_creator d c (m_case_id m)"

definition case_parties_select :: "database \<Rightarrow> app_ctx \<Rightarrow> party_row \<Rightarrow> bool" where [run_defs]:
  "case_parties_select d c r \<longleftrightarrow> app_admin c \<or> is_case_member d c (ip_case_id r)"

text \<open>
  \<^verbatim>\<open>has_active_document_share\<close> is SECURITY DEFINER, so it reads \<^verbatim>\<open>document_shares\<close>
  without a policy of its own; \<^verbatim>\<open>now\<close> is the transaction's timestamp.
\<close>

definition share_live :: "time \<Rightarrow> share_row \<Rightarrow> bool" where [run_defs]:
  "share_live now s \<longleftrightarrow> s_status s = ''ACTIVE'' \<and>
     (case s_expires_at s of None \<Rightarrow> True | Some e \<Rightarrow> now < e)"

definition has_active_document_share :: "database \<Rightarrow> time \<Rightarrow> uuid \<Rightarrow> uuid option \<Rightarrow> bool" where [run_defs]:
  "has_active_document_share d now did u \<longleftrightarrow>
     list_ex (\<lambda>s. s_document_id s = did \<and> u = Some (s_shared_with_user_id s) \<and> share_live now s)
       (t_shares d)"

definition documents_select :: "database \<Rightarrow> time \<Rightarrow> app_ctx \<Rightarrow> document_row \<Rightarrow> bool" where [run_defs]:
  "documents_select d now c r \<longleftrightarrow> app_admin c \<or> is_case_member d c (d_case_id r) \<or>
     has_active_document_share d now (d_id r) (cur_user c)"

definition documents_insert :: "database \<Rightarrow> app_ctx \<Rightarrow> document_row \<Rightarrow> bool" where [run_defs]:
  "documents_insert d c r \<longleftrightarrow> cur_user c = Some (d_uploaded_by r) \<and>
     (app_admin c \<or> is_case_member d c (d_case_id r))"

definition documents_update :: "database \<Rightarrow> app_ctx \<Rightarrow> document_row \<Rightarrow> bool" where [run_defs]:
  "documents_update d c r \<longleftrightarrow> app_admin c \<or> is_case_member d c (d_case_id r)"

definition document_case_member :: "database \<Rightarrow> time \<Rightarrow> app_ctx \<Rightarrow> uuid \<Rightarrow> bool" where [run_defs]:
  "document_case_member d now c did \<longleftrightarrow>
     list_ex (\<lambda>r. d_id r = did \<and> documents_select d now c r \<and> is_case_member d c (d_case_id r))
       (t_documents d)"

definition shares_select :: "database \<Rightarrow> time \<Rightarrow> app_ctx \<Rightarrow> share_row \<Rightarrow> bool" where [run_defs]:
  "shares_select d now c s \<longleftrightarrow> app_admin c \<or> cur_user c = Some (s_created_by_user_id s) \<or>
     cur_user c = Some (s_shared_with_user_id s) \<or> document_case_member d now c (s_document_id s)"

definition shares_insert :: "database \<Rightarrow> time \<Rightarrow> app_ctx \<Rightarrow> share_row \<Rightarrow> bool" where [run_defs]:
  "shares_insert d now c s \<longleftrightarrow> cur_user c = Some (s_created_by_user_id s) \<and>
     (app_admin c \<or> document_case_member d now c (s_document_id s))"

definition shares_update :: "database \<Rightarrow> time \<Rightarrow> app_ctx \<Rightarrow> share_row \<Rightarrow> bool" where [run_defs]:
  "shares_update d now c s \<longleftrightarrow> app_admin c \<or> document_case_member d now c (s_document_id s)"

definition audit_log_select :: "database \<Rightarrow> app_ctx \<Rightarrow> audit_row \<Rightarrow> bool" where [run_defs]:
  "audit_log_select d c a \<longleftrightarrow> app_admin c \<or> (cur_user c \<noteq> None \<and> a_user_id a = cur_user c) \<or>
     (case a_case_id a of None \<Rightarrow> False | Some cid \<Rightarrow> is_case_member d c cid)"

definition audit_log_insert :: "app_ctx \<Rightarrow> bool" where [run_defs]:
  "audit_log_insert c \<longleftrightarrow> cur_user c \<noteq> None"

definition anchors_select :: "database \<Rightarrow> time \<Rightarrow> app_ctx \<Rightarrow> anchor_row \<Rightarrow> bool" where [run_defs]:
  "anchors_select d now c b \<longleftrightarrow> app_admin c \<or>
     list_ex (\<lambda>r. d_id r = b_document_id b \<and> documents_select d now c r \<and>
       list_ex (\<lambda>k. c_id k = d_case_id r \<and> cases_select d c k) (t_cases d) \<and>
       is_case_member d c (d_case_id r)) (t_documents d)"

definition anchors_insert :: "app_ctx \<Rightarrow> bool" where [run_defs]:
  "anchors_insert c \<longleftrightarrow> app_admin c \<or> cur_user c \<noteq> None"

definition anchors_update :: "app_ctx \<Rightarrow> bool" where [run_defs]:
  "anchors_update c \<longleftrightarrow> app_admin c"

definition certificates_select :: "database \<Rightarrow> time \<Rightarrow> app_ctx \<Rightarrow> certificate_row \<Rightarrow> bool" where [run_defs]:
  "certificates_select d now c r \<longleftrightarrow> app_admin c \<or> document_case_member d now c (cc_document_id r) \<or>
     has_active_document_share d now (cc_document_id r) (cur_user c)"

definition certificates_insert :: "database \<Rightarrow> time \<Rightarrow> app_ctx \<Rightarrow> certificate_row \<Rightarrow> bool" where [run_defs]:
  "certificates_insert d now c r \<longleftrightarrow> cur_user c = Some (cc_generated_by r) \<and>
     (app_admin c \<or> document_case_member d now c (cc_document_id r))"

definition redactions_select :: "database \<Rightarrow> time \<Rightarrow> app_ctx \<Rightarrow> redaction_row \<Rightarrow> bool" where [run_defs]:
  "redactions_select d now c r \<longleftrightarrow> app_admin c \<or> document_case_member d now c (rd_source_document_id r)"

definition redactions_insert :: "database \<Rightarrow> time \<Rightarrow> app_ctx \<Rightarrow> redaction_row \<Rightarrow> bool" where [run_defs]:
  "redactions_insert d now c r \<longleftrightarrow> cur_user c = Some (rd_created_by r) \<and>
     (app_admin c \<or> document_case_member d now c (rd_source_document_id r))"

definition exports_select :: "app_ctx \<Rightarrow> export_row \<Rightarrow> bool" where [run_defs]:
  "exports_select c r \<longleftrightarrow> app_admin c \<or> cur_user c = Some (x_user_id r) \<or>
     cur_user c = Some (x_recipient_user_id r)"

definition exports_insert :: "app_ctx \<Rightarrow> export_row \<Rightarrow> bool" where [run_defs]:
  "exports_insert c r \<longleftrightarrow> cur_user c = Some (x_user_id r)"

definition exports_update :: "app_ctx \<Rightarrow> export_row \<Rightarrow> bool" where [run_defs]:
  "exports_update c r \<longleftrightarrow> app_admin c \<or> cur_user c = Some (x_user_id r)"

end
