(* ===== verification/Utf8.thy ===== *)
theory Utf8
  imports Prelude
begin

text \<open>
  Strings as UTF-8: what \<^verbatim>\<open>range\<close> over a Go string, \<^verbatim>\<open>utf8.ValidString\<close> and
  PostgreSQL's check of a \<^verbatim>\<open>text\<close> value see.  The table of accepted sequences is the
  one of the Unicode standard, which \<^verbatim>\<open>unicode/utf8\<close> follows.
\<close>

definition byte_in :: "char \<Rightarrow> nat \<Rightarrow> nat \<Rightarrow> bool" where [run_defs]:
  "byte_in c lo hi \<longleftrightarrow> lo \<le> of_char c \<and> of_char c \<le> hi"

text \<open>The length of the sequence the string starts with; 0 when it starts with no sequence.\<close>

definition rune_size :: "bytes \<Rightarrow> nat" where [run_defs]:
  "rune_size s = (case s of [] \<Rightarrow> 0 | b0 # bs \<Rightarrow>
     if byte_in b0 0 0x7F then 1
     else if byte_in b0 0xC2 0xDF then
       (case bs of b1 # _ \<Rightarrow> if byte_in b1 0x80 0xBF then 2 else 0 | [] \<Rightarrow> 0)
     else if byte_in b0 0xE0 0xEF then
       (case bs of b1 # b2 # _ \<Rightarrow>
          if byte_in b1 (if b0 = CHR 0xE0 then 0xA0 else 0x80) (if b0 = CHR 0xED then 0x9F else 0xBF) \<and>
            byte_in b2 0x80 0xBF then 3 else 0
        | _ \<Rightarrow> 0)
     else if byte_in b0 0xF0 0xF4 then
       (case bs of b1 # b2 # b3 # _ \<Rightarrow>
          if byte_in b1 (if b0 = CHR 0xF0 then 0x90 else 0x80) (if b0 = CHR 0xF4 then 0x8F else 0xBF) \<and>
            byte_in b2 0x80 0xBF \<and> byte_in b3 0x80 0xBF then 4 else 0
        | _ \<Rightarrow> 0)
     else 0)"

text \<open>The runes of a string, each in its encoding; a byte that starts none reads as U+FFFD.\<close>

fun runes :: "bytes \<Rightarrow> string list" where
  "runes [] = []"
| "runes (b # bs) = (let k = rune_size (b # bs) in
     if k = 0 then [CHR 0xEF, CHR 0xBF, CHR 0xBD] # runes bs
     else (b # take (k - 1) bs) # runes (drop (k - 1) bs))"

fun utf8_valid :: "bytes \<Rightarrow> bool" where
  "utf8_valid [] = True"
| "utf8_valid (b # bs) = (let k = rune_size (b # bs) in k \<noteq> 0 \<and> utf8_valid (drop (k - 1) bs))"

text \<open>What a \<^verbatim>\<open>text\<close> column accepts.\<close>

definition text_ok :: "bytes \<Rightarrow> bool" where [run_defs]:
  "text_ok s \<longleftrightarrow> utf8_valid s \<and> CHR 0x00 \<notin> set s"

declare runes.simps [run_defs] utf8_valid.simps [run_defs]

lemma runes_concat: "utf8_valid s \<Longrightarrow> concat (runes s) = s"
  by (induction s rule: utf8_valid.induct) (auto simp: Let_def)

lemma rune_size_ascii: "of_char b < (128 :: nat) \<Longrightarrow> rune_size (b # bs) = 1"
  by (simp add: rune_size_def byte_in_def)

lemma utf8_ascii: "\<forall>c\<in>set s. of_char c < (128 :: nat) \<Longrightarrow> utf8_valid s"
  by (induction s) (auto simp: rune_size_ascii)

lemma runes_ascii: "\<forall>c\<in>set s. of_char c < (128 :: nat) \<Longrightarrow> runes s = map (\<lambda>c. [c]) s"
  by (induction s) (auto simp: rune_size_ascii)

end
