(* ===== verification/Runtime.thy ===== *)
theory Runtime
  imports Database Utf8
begin

text \<open>
  The effects of the program.  Go's \<^verbatim>\<open>error\<close> values are \<^verbatim>\<open>gerr\<close>; an operation
  takes the world and returns either an error or a result, with the world it leaves.  The
  world holds the database, the identity of the current transaction, the clock, the UUID
  generator, the schedule of infrastructure failures (a lost connection, a failed commit),
  the published events, the enqueued jobs, the stored objects, the Redis counters and
  the ledger of the blockchain channel (its world state, in key order).  Code that is not under
  \<^verbatim>\<open>src\<close> or that is a cryptographic or textual primitive of the standard library is a
  field of \<^verbatim>\<open>library\<close>: everything proved holds for every such library, unless a named
  hypothesis says otherwise.
\<close>

section \<open>Errors\<close>

datatype gerr =
    ErrNoRows
  | PgError string string
  | DbFault string
  | StdErr string
  | Wrap string gerr
  | AppErr nat string string "gerr option" "time option"

fun is_no_rows :: "gerr \<Rightarrow> bool" where
  "is_no_rows ErrNoRows = True"
| "is_no_rows (Wrap m e) = is_no_rows e"
| "is_no_rows (AppErr s c m (Some e) r) = is_no_rows e"
| "is_no_rows e = False"

fun as_pg_error :: "gerr \<Rightarrow> (string \<times> string) option" where
  "as_pg_error (PgError code con) = Some (code, con)"
| "as_pg_error (Wrap m e) = as_pg_error e"
| "as_pg_error (AppErr s c m (Some e) r) = as_pg_error e"
| "as_pg_error e = None"

fun AsAppError :: "gerr \<Rightarrow> gerr option" where
  "AsAppError (AppErr s c m e r) = Some (AppErr s c m e r)"
| "AsAppError (Wrap m e) = AsAppError e"
| "AsAppError e = None"

fun err_text :: "gerr \<Rightarrow> string" where
  "err_text ErrNoRows = ''no rows in result set''"
| "err_text (PgError code con) = ''ERROR: '' @ con @ '' (SQLSTATE '' @ code @ '')''"
| "err_text (DbFault m) = m"
| "err_text (StdErr m) = m"
| "err_text (Wrap m e) = m @ '': '' @ err_text e"
| "err_text (AppErr s c m None r) = m"
| "err_text (AppErr s c m (Some e) r) = m @ '': '' @ err_text e"

definition NewAppError :: "nat \<Rightarrow> string \<Rightarrow> string \<Rightarrow> gerr option \<Rightarrow> gerr" where
  "NewAppError status code msg e = AppErr status code msg e None"

definition ErrInternal :: "gerr \<Rightarrow> gerr" where
  "ErrInternal e = NewAppError 500 ''INTERNAL_ERROR'' ''An unexpected error occurred'' (Some e)"

definition ErrBadRequest :: "string \<Rightarrow> gerr" where
  "ErrBadRequest msg = NewAppError 400 ''BAD_REQUEST'' msg None"

definition ErrNotFound :: "string \<Rightarrow> gerr" where
  "ErrNotFound msg = NewAppError 404 ''NOT_FOUND'' msg None"

definition ErrServiceUnavailable :: "string \<Rightarrow> gerr" where
  "ErrServiceUnavailable msg = NewAppError 503 ''SERVICE_UNAVAILABLE'' msg None"

definition ErrUnauthorized :: "string \<Rightarrow> gerr" where
  "ErrUnauthorized msg = NewAppError 401 ''UNAUTHORIZED'' msg None"

definition ErrForbidden :: "string \<Rightarrow> gerr" where
  "ErrForbidden msg = NewAppError 403 ''FORBIDDEN'' msg None"

definition ErrConflict :: "string \<Rightarrow> gerr" where
  "ErrConflict msg = NewAppError 409 ''CONFLICT'' msg None"

definition ErrUnprocessableEntity :: "string \<Rightarrow> gerr" where
  "ErrUnprocessableEntity msg = NewAppError 422 ''UNPROCESSABLE_ENTITY'' msg None"

definition ErrRequestEntityTooLarge :: "string \<Rightarrow> gerr" where
  "ErrRequestEntityTooLarge msg = NewAppError 413 ''REQUEST_ENTITY_TOO_LARGE'' msg None"

definition ErrTooManyRequests :: "string \<Rightarrow> gerr" where
  "ErrTooManyRequests msg = NewAppError 429 ''TOO_MANY_REQUESTS'' msg None"

fun WithRetryAfter :: "gerr \<Rightarrow> time \<Rightarrow> gerr" where
  "WithRetryAfter (AppErr s c m e r) d = AppErr s c m e (Some d)"
| "WithRetryAfter e d = e"

lemmas app_error_defs = NewAppError_def ErrInternal_def ErrBadRequest_def ErrNotFound_def
  ErrServiceUnavailable_def ErrUnauthorized_def ErrForbidden_def ErrConflict_def
  ErrUnprocessableEntity_def ErrRequestEntityTooLarge_def ErrTooManyRequests_def

fun err_status :: "gerr \<Rightarrow> nat option" where
  "err_status (AppErr s c m e r) = Some s"
| "err_status (Wrap m e) = err_status e"
| "err_status e = None"

section \<open>JSON values and the library parameters\<close>

datatype json =
    JNull
  | JBool bool
  | JInt int
  | JNum string
  | JStr string
  | JArr "json list"
  | JObj "(string \<times> json) list"

text \<open>
  \<^verbatim>\<open>lib_json_decode\<close> is \<^verbatim>\<open>json.Unmarshal\<close> into a map (an error text on malformed
  input or on a value that is neither an object nor \<^verbatim>\<open>null\<close>), \<^verbatim>\<open>lib_json_marshal\<close>
  is \<^verbatim>\<open>json.Marshal\<close>, \<^verbatim>\<open>lib_jsonb\<close> is what PostgreSQL hands back for a document
  stored in a \<^verbatim>\<open>jsonb\<close> column (\<^verbatim>\<open>None\<close>: rejected).  \<^verbatim>\<open>lib_json_value\<close> is
  \<^verbatim>\<open>json.Unmarshal\<close> into an \<^verbatim>\<open>any\<close>, \<^verbatim>\<open>lib_quote\<close> is the \<^verbatim>\<open>%q\<close> verb, and
  \<^verbatim>\<open>lib_sort_perm\<close> the order in which \<^verbatim>\<open>sort.Slice\<close>, which is not stable, leaves
  elements with the given keys (the positions they had).
\<close>

text \<open>The claims of an access token, \<^verbatim>\<open>auth.Claims\<close>; a \<^verbatim>\<open>NumericDate\<close> is a time.\<close>

record Claims =
  cl_Role :: string
  cl_Issuer :: string
  cl_Subject :: string
  cl_Audience :: "string list"
  cl_ExpiresAt :: time
  cl_IssuedAt :: time
  cl_NotBefore :: time
  cl_ID :: string

text \<open>
  \<^verbatim>\<open>lib_sign_jwt\<close> is the HS256 signature of a claim set with a key,
  \<^verbatim>\<open>lib_parse_jwt\<close> the parse of a token under a key, an expected issuer and audience and
  the current time, with the checks \<^verbatim>\<open>jwt.ParseWithClaims\<close> is asked for.
  \<^verbatim>\<open>lib_random_token\<close> is the generator behind \<^verbatim>\<open>crypto/rand\<close>, in base64, and
  \<^verbatim>\<open>lib_random_bytes\<close> the same generator in raw bytes.  \<^verbatim>\<open>lib_rfc3339_s\<close> formats a
  time to the second and \<^verbatim>\<open>lib_parse_time\<close> reads one back.  \<^verbatim>\<open>lib_seal\<close> and
  \<^verbatim>\<open>lib_open\<close> are AES-256-GCM under a key and a nonce.  \<^verbatim>\<open>lib_tx_id\<close> is the
  transaction identifier Fabric's client draws, \<^verbatim>\<open>lib_gateway_text\<close> the text in which
  its gateway reports a chaincode error.  \<^verbatim>\<open>lib_float_text\<close> is the shortest decimal of
  a float64, given as mantissa and exponent.  \<^verbatim>\<open>lib_sign\<close> is \<^verbatim>\<open>ecdsa.SignASN1\<close>
  over a digest with the configured key, at a state of the generator, and
  \<^verbatim>\<open>lib_verify_sig\<close> is \<^verbatim>\<open>ecdsa.VerifyASN1\<close> with its public half.
\<close>

record library =
  lib_sha256 :: "bytes \<Rightarrow> bytes"
  lib_rfc3339 :: "time \<Rightarrow> string"
  lib_json_decode :: "bytes \<Rightarrow> string + json"
  lib_json_value :: "bytes \<Rightarrow> string + json"
  lib_quote :: "string \<Rightarrow> string"
  lib_sort_perm :: "time list \<Rightarrow> nat list"
  lib_json_marshal :: "json \<Rightarrow> bytes"
  lib_jsonb :: "bytes \<Rightarrow> bytes option"
  lib_bcrypt_hash :: "string \<Rightarrow> nat \<Rightarrow> string option"
  lib_bcrypt_ok :: "string \<Rightarrow> string \<Rightarrow> bool"
  lib_parse_address :: "string \<Rightarrow> string option"
  lib_detect_content_type :: "bytes \<Rightarrow> string"
  lib_parse_uuid :: "string \<Rightarrow> uuid option"
  lib_to_lower :: "string \<Rightarrow> string"
  lib_sign_jwt :: "string \<Rightarrow> Claims \<Rightarrow> string option"
  lib_parse_jwt :: "string \<Rightarrow> string \<Rightarrow> string \<Rightarrow> time \<Rightarrow> string \<Rightarrow> Claims option"
  lib_random_token :: "nat \<Rightarrow> string"
  lib_sign :: "nat \<Rightarrow> bytes \<Rightarrow> string + bytes"
  lib_verify_sig :: "bytes \<Rightarrow> bytes \<Rightarrow> bool"
  lib_rfc3339_s :: "time \<Rightarrow> string"
  lib_parse_time :: "string \<Rightarrow> time option"
  lib_random_bytes :: "nat \<Rightarrow> nat \<Rightarrow> bytes"
  lib_b64_encode :: "bytes \<Rightarrow> string"
  lib_b64_decode :: "string \<Rightarrow> bytes option"
  lib_seal :: "bytes \<Rightarrow> bytes \<Rightarrow> bytes \<Rightarrow> bytes"
  lib_open :: "bytes \<Rightarrow> bytes \<Rightarrow> bytes \<Rightarrow> bytes option"
  lib_tx_id :: "nat \<Rightarrow> string"
  lib_gateway_text :: "string \<Rightarrow> string"
  lib_float_text :: "int \<times> int \<Rightarrow> string"

section \<open>The world and operations over it\<close>

record pub_event =
  e_type :: string
  e_resource_type :: string
  e_resource_id :: string
  e_data :: "(string \<times> json) list"

text \<open>
  What a round trip to another server may meet: a lost connection or timeout, or a unique
  constraint that a concurrent transaction has just taken.
\<close>

datatype fault = Lost string | Conflict string

fun fault_error :: "fault \<Rightarrow> gerr" where
  "fault_error (Lost m) = DbFault m"
| "fault_error (Conflict con) = PgError ''23505'' con"

lemma fault_not_no_rows [simp]: "\<not> is_no_rows (fault_error f)"
  by (cases f) simp_all

record world =
  w_lib :: library
  w_db :: database
  w_ctx :: app_ctx
  w_tx_now :: time
  w_clock :: "nat \<Rightarrow> time"
  w_clock_i :: nat
  w_rng :: "nat \<Rightarrow> uuid"
  w_rng_i :: nat
  w_faults :: "nat \<Rightarrow> fault option"
  w_fault_i :: nat
  w_seq :: int
  w_published :: "pub_event list"
  w_jobs :: "(string \<times> uuid) list"
  w_objects :: "string \<rightharpoonup> bytes"
  w_counters :: "string \<rightharpoonup> int \<times> time option"
  w_ledger :: "(string list \<times> bytes) list"

type_synonym 'a op = "world \<Rightarrow> (gerr + 'a) \<times> world"

definition ret :: "'a \<Rightarrow> 'a op" where
  "ret x w = (Inr x, w)"

definition fail :: "gerr \<Rightarrow> 'a op" where
  "fail e w = (Inl e, w)"

text \<open>\<^verbatim>\<open>tryE m h k\<close>: \<^verbatim>\<open>x, err := m(); if err != nil { h(err) }; k(x)\<close>.\<close>

definition tryE :: "'a op \<Rightarrow> (gerr \<Rightarrow> 'b op) \<Rightarrow> ('a \<Rightarrow> 'b op) \<Rightarrow> 'b op" where
  "tryE m h k w = (case m w of (Inl e, w') \<Rightarrow> h e w' | (Inr x, w') \<Rightarrow> k x w')"

abbreviation bindE :: "'a op \<Rightarrow> ('a \<Rightarrow> 'b op) \<Rightarrow> 'b op" where
  "bindE m k \<equiv> tryE m fail k"

abbreviation try_wrap :: "'a op \<Rightarrow> string \<Rightarrow> ('a \<Rightarrow> 'b op) \<Rightarrow> 'b op" where
  "try_wrap m msg k \<equiv> tryE m (\<lambda>e. fail (Wrap msg e)) k"

definition ensure :: "bool \<Rightarrow> gerr \<Rightarrow> 'a op \<Rightarrow> 'a op" where
  "ensure b e k = (if b then k else fail e)"

text \<open>A call whose error the code only logs.\<close>

definition ignoring :: "'a op \<Rightarrow> 'b op \<Rightarrow> 'b op" where
  "ignoring m k w = k (snd (m w))"

definition get_world :: "(world \<Rightarrow> 'a) \<Rightarrow> 'a op" where
  "get_world f w = (Inr (f w), w)"

definition uuid_new :: "uuid op" where
  "uuid_new w = (Inr (w_rng w (w_rng_i w)), w\<lparr>w_rng_i := Suc (w_rng_i w)\<rparr>)"

definition time_now :: "time op" where
  "time_now w = (Inr (w_clock w (w_clock_i w)), w\<lparr>w_clock_i := Suc (w_clock_i w)\<rparr>)"

definition publish :: "string \<Rightarrow> string \<Rightarrow> string \<Rightarrow> (string \<times> json) list \<Rightarrow> unit op" where
  "publish ty rty rid dat w = (Inr (), w\<lparr>w_published := w_published w @
     [\<lparr>e_type = ty, e_resource_type = rty, e_resource_id = rid, e_data = dat\<rparr>]\<rparr>)"

text \<open>
  Every round trip to the database or to another server may fail: \<^verbatim>\<open>infra\<close> consults
  the failure schedule before it performs the call.
\<close>

definition infra :: "'a op \<Rightarrow> 'a op" where
  "infra m w = (let w' = w\<lparr>w_fault_i := Suc (w_fault_i w)\<rparr> in
     case w_faults w (w_fault_i w) of Some e \<Rightarrow> (Inl (fault_error e), w') | None \<Rightarrow> m w')"

definition query :: "(database \<Rightarrow> app_ctx \<Rightarrow> time \<Rightarrow> gerr + 'a) \<Rightarrow> 'a op" where
  "query q = infra (\<lambda>w. (q (w_db w) (w_ctx w) (w_tx_now w), w))"

definition exec :: "(library \<Rightarrow> database \<Rightarrow> app_ctx \<Rightarrow> time \<Rightarrow> gerr + 'a \<times> database) \<Rightarrow> 'a op" where
  "exec q = infra (\<lambda>w. case q (w_lib w) (w_db w) (w_ctx w) (w_tx_now w) of
     Inl e \<Rightarrow> (Inl e, w) | Inr (x, d) \<Rightarrow> (Inr x, w\<lparr>w_db := d\<rparr>))"

text \<open>A statement whose row takes a \<^verbatim>\<open>gen_random_uuid()\<close> key.\<close>

definition exec_new ::
    "(uuid \<Rightarrow> library \<Rightarrow> database \<Rightarrow> app_ctx \<Rightarrow> time \<Rightarrow> gerr + 'a \<times> database) \<Rightarrow> 'a op" where
  "exec_new q = tryE (infra uuid_new) fail (\<lambda>i w. case q i (w_lib w) (w_db w) (w_ctx w) (w_tx_now w) of
     Inl e \<Rightarrow> (Inl e, w) | Inr (x, d) \<Rightarrow> (Inr x, w\<lparr>w_db := d\<rparr>))"

section \<open>The Redis counters\<close>

text \<open>
  A counter that has expired reads as absent; \<^verbatim>\<open>TTL\<close> answers -2 for an absent key and
  -1 for one without an expiry.
\<close>

definition redis_now :: "world \<Rightarrow> time" where
  "redis_now w = w_clock w (w_clock_i w)"

definition live_counter :: "world \<Rightarrow> string \<Rightarrow> (int \<times> time option) option" where
  "live_counter w key = (case w_counters w key of None \<Rightarrow> None
     | Some (n, None) \<Rightarrow> Some (n, None)
     | Some (n, Some e) \<Rightarrow> if redis_now w < e then Some (n, Some e) else None)"

definition redis_incr :: "string \<Rightarrow> int op" where
  "redis_incr key = infra (\<lambda>w. case live_counter w key of
     None \<Rightarrow> (Inr 1, w\<lparr>w_counters := (w_counters w)(key \<mapsto> (1, None))\<rparr>)
   | Some (n, e) \<Rightarrow> (Inr (n + 1), w\<lparr>w_counters := (w_counters w)(key \<mapsto> (n + 1, e))\<rparr>))"

definition redis_expire :: "string \<Rightarrow> time \<Rightarrow> unit op" where
  "redis_expire key window = infra (\<lambda>w. case live_counter w key of
     None \<Rightarrow> (Inr (), w)
   | Some (n, e) \<Rightarrow> (Inr (), w\<lparr>w_counters := (w_counters w)(key \<mapsto> (n, Some (redis_now w + window)))\<rparr>))"

definition redis_ttl :: "string \<Rightarrow> time op" where
  "redis_ttl key = infra (\<lambda>w. (Inr (case live_counter w key of None \<Rightarrow> - 2
     | Some (n, None) \<Rightarrow> - 1 | Some (n, Some e) \<Rightarrow> e - redis_now w), w))"

definition redis_del :: "string \<Rightarrow> unit op" where
  "redis_del key = infra (\<lambda>w. (Inr (), w\<lparr>w_counters := (w_counters w)(key := None)\<rparr>))"

lemmas redis_defs = redis_now_def live_counter_def redis_incr_def redis_expire_def redis_ttl_def
  redis_del_def

text \<open>\<^verbatim>\<open>:one\<close> queries return \<^verbatim>\<open>pgx.ErrNoRows\<close> when no row matches.\<close>

definition one :: "'a list \<Rightarrow> gerr + 'a" where
  "one xs = (case xs of [] \<Rightarrow> Inl ErrNoRows | x # _ \<Rightarrow> Inr x)"

section \<open>Transactions\<close>

record app_identity =
  UserID :: uuid
  Role :: string

definition no_ctx :: app_ctx where
  "no_ctx = \<lparr>cur_user = None, cur_role = None\<rparr>"

definition ident_ctx :: "app_identity \<Rightarrow> app_ctx" where
  "ident_ctx i = \<lparr>cur_user = (if UserID i = nil_uuid then None else Some (UserID i)),
     cur_role = (if Role i = '''' then None else Some (Role i))\<rparr>"

text \<open>
  A transaction that does not commit leaves the database as it found it; what is not part
  of the database (the clock, the generator, published events, stored objects, and the
  identity sequence of \<^verbatim>\<open>audit_log\<close>, which PostgreSQL never rolls back) stays.  A
  \<^verbatim>\<open>COMMIT\<close> that reports an error has not taken effect: the case in which the server commits
  and only its answer is lost (the driver then reports the same error) is not modelled.
\<close>

definition rollback :: "world \<Rightarrow> world \<Rightarrow> world" where
  "rollback w w' = w'\<lparr>w_db := w_db w, w_ctx := w_ctx w, w_tx_now := w_tx_now w\<rparr>"

definition begin_tx :: "app_identity \<Rightarrow> unit op" where
  "begin_tx i = infra (\<lambda>w. (Inr (), w\<lparr>w_ctx := ident_ctx i,
     w_tx_now := w_clock w (w_clock_i w), w_clock_i := Suc (w_clock_i w)\<rparr>))"

definition commit_tx :: "unit op" where
  "commit_tx = infra (ret ())"

definition end_tx :: "world \<Rightarrow> world \<Rightarrow> world" where
  "end_tx w w' = w'\<lparr>w_ctx := w_ctx w, w_tx_now := w_tx_now w\<rparr>"

definition WithTx :: "app_identity \<Rightarrow> 'a op \<Rightarrow> 'a op" where
  "WithTx i fn w = (case (
     try_wrap (begin_tx i) ''repository: begin transaction'' (\<lambda>_.
     try_wrap (infra (ret ())) ''repository: set app.user_id'' (\<lambda>_.
     try_wrap (infra (ret ())) ''repository: set app.role'' (\<lambda>_.
     bindE fn (\<lambda>x.
     try_wrap commit_tx ''repository: commit transaction'' (\<lambda>_. ret x)))))) w of
       (Inl e, w') \<Rightarrow> (Inl e, rollback w w')
     | (Inr x, w') \<Rightarrow> (Inr x, end_tx w w'))"

lemmas op_defs = ret_def fail_def tryE_def ensure_def ignoring_def get_world_def
  uuid_new_def time_now_def publish_def infra_def query_def exec_def exec_new_def

lemmas tx_defs = WithTx_def begin_tx_def commit_tx_def end_tx_def rollback_def

text \<open>The first violated constraint of a statement, in the order they are listed.\<close>

fun violated :: "(bool \<times> gerr) list \<Rightarrow> gerr option" where
  "violated [] = None"
| "violated ((ok, e) # cs) = (if ok then violated cs else Some e)"

text \<open>A Go byte slice that may be nil reads as the empty one (\<^verbatim>\<open>bytes.Equal\<close>, \<^verbatim>\<open>len\<close>).\<close>

definition checked :: "(bool \<times> gerr) list \<Rightarrow> 'a \<Rightarrow> gerr + 'a" where
  "checked cs x = (case violated cs of Some e \<Rightarrow> Inl e | None \<Rightarrow> Inr x)"

definition slice_bytes :: "bytes option \<Rightarrow> bytes" where
  "slice_bytes b = (case b of None \<Rightarrow> [] | Some bs \<Rightarrow> bs)"

text \<open>\<^verbatim>\<open>for _, x := range xs\<close> with an operation that may fail.\<close>

fun mapE :: "('a \<Rightarrow> 'b op) \<Rightarrow> 'a list \<Rightarrow> 'b list op" where
  "mapE f [] = ret []"
| "mapE f (x # xs) = bindE (f x) (\<lambda>y. bindE (mapE f xs) (\<lambda>ys. ret (y # ys)))"

section \<open>Running the model on a concrete input\<close>

text \<open>
  The combinators' equations and weak congruence rules that keep the simplifier out of a
  continuation until its argument has been computed: with them
  \<^verbatim>\<open>supply run_congs [cong]\<close> and \<^verbatim>\<open>simp add: run_defs\<close> evaluate an operation
  the way the code runs it.
\<close>

declare redis_defs [run_defs] op_defs [run_defs] tx_defs [run_defs] app_error_defs [run_defs]
declare slice_bytes_def [run_defs] ident_ctx_def [run_defs] no_ctx_def [run_defs]
  one_def [run_defs] checked_def [run_defs] is_no_rows.simps [run_defs] as_pg_error.simps [run_defs]

lemma combinator_congs:
  "tryE m h k = tryE m h k" "query q = query q" "exec x = exec x" "exec_new z = exec_new z"
  "infra m = infra m"
  "b = b' \<Longrightarrow> ensure b e c = ensure b' e c" "get_world f = get_world f"
  "ignoring m c = ignoring m c" "WithTx i fn = WithTx i fn"
  by simp_all

lemmas run_congs = combinator_congs prod.case_cong_weak let_weak_cong
declare Let_def [run_defs]

section \<open>Rules for successful runs\<close>


lemma ret_run [op_succ]: "ret x w = (r, w') \<longleftrightarrow> r = Inr x \<and> w' = w"
  by (auto simp: ret_def)

lemma fail_run [op_succ]: "fail e w = (r, w') \<longleftrightarrow> r = Inl e \<and> w' = w"
  by (auto simp: fail_def)

lemma get_world_run [op_succ]: "get_world f w = (r, w') \<longleftrightarrow> r = Inr (f w) \<and> w' = w"
  by (auto simp: get_world_def)

lemma ensure_run [op_succ]:
  "ensure b e k w = (r, w') \<longleftrightarrow> (if b then k w = (r, w') else r = Inl e \<and> w' = w)"
  by (auto simp: ensure_def fail_def)

lemma tryE_Inr [op_succ]:
  "tryE m h k w = (Inr y, w') \<longleftrightarrow>
     (\<exists>x w1. m w = (Inr x, w1) \<and> k x w1 = (Inr y, w')) \<or>
     (\<exists>e w1. m w = (Inl e, w1) \<and> h e w1 = (Inr y, w'))"
  by (auto simp: tryE_def split: prod.splits sum.splits)

lemma tryE_Inl [op_succ]:
  "tryE m h k w = (Inl e, w') \<longleftrightarrow>
     (\<exists>x w1. m w = (Inr x, w1) \<and> k x w1 = (Inl e, w')) \<or>
     (\<exists>e' w1. m w = (Inl e', w1) \<and> h e' w1 = (Inl e, w'))"
  by (auto simp: tryE_def split: prod.splits sum.splits)

definition faulted :: "world \<Rightarrow> world" where
  "faulted w = w\<lparr>w_fault_i := Suc (w_fault_i w)\<rparr>"

lemma infra_run [op_succ]:
  "infra m w = (r, w') \<longleftrightarrow> (case w_faults w (w_fault_i w) of
     None \<Rightarrow> m (faulted w) = (r, w') | Some e \<Rightarrow> r = Inl (fault_error e) \<and> w' = faulted w)"
  by (auto simp: infra_def faulted_def Let_def split: option.splits)

lemma faulted_simps [simp]:
  "w_lib (faulted w) = w_lib w" "w_db (faulted w) = w_db w" "w_ctx (faulted w) = w_ctx w"
  "w_tx_now (faulted w) = w_tx_now w" "w_clock (faulted w) = w_clock w"
  "w_clock_i (faulted w) = w_clock_i w" "w_rng (faulted w) = w_rng w"
  "w_rng_i (faulted w) = w_rng_i w" "w_faults (faulted w) = w_faults w"
  "w_seq (faulted w) = w_seq w" "w_published (faulted w) = w_published w"
  "w_jobs (faulted w) = w_jobs w" "w_objects (faulted w) = w_objects w"
  "w_counters (faulted w) = w_counters w" "w_ledger (faulted w) = w_ledger w"
  "w_fault_i (faulted w) = Suc (w_fault_i w)"
  by (simp_all add: faulted_def)

lemma query_run [op_succ]:
  "query q w = (Inr x, w') \<longleftrightarrow> w_faults w (w_fault_i w) = None \<and> w' = faulted w \<and>
     q (w_db w) (w_ctx w) (w_tx_now w) = Inr x"
  by (auto simp: query_def infra_run split: option.splits)

lemma query_Inl:
  "query q w = (Inl e, w') \<longleftrightarrow> w' = faulted w \<and>
     ((\<exists>f. w_faults w (w_fault_i w) = Some f \<and> e = fault_error f) \<or>
      w_faults w (w_fault_i w) = None \<and> q (w_db w) (w_ctx w) (w_tx_now w) = Inl e)"
  by (auto simp: query_def infra_run split: option.splits)

lemma exec_run [op_succ]:
  "exec q w = (Inr x, w') \<longleftrightarrow> w_faults w (w_fault_i w) = None \<and>
     (\<exists>d. q (w_lib w) (w_db w) (w_ctx w) (w_tx_now w) = Inr (x, d) \<and> w' = (faulted w)\<lparr>w_db := d\<rparr>)"
  by (auto simp: exec_def infra_run split: option.splits sum.splits prod.splits)

lemma exec_new_run [op_succ]:
  "exec_new q w = (Inr x, w') \<longleftrightarrow> w_faults w (w_fault_i w) = None \<and>
     (\<exists>d. q (w_rng w (w_rng_i w)) (w_lib w) (w_db w) (w_ctx w) (w_tx_now w) = Inr (x, d) \<and>
        w' = (faulted w)\<lparr>w_rng_i := Suc (w_rng_i w), w_db := d\<rparr>)"
  by (auto simp: exec_new_def tryE_def fail_def infra_def Let_def uuid_new_def faulted_def
      split: option.splits sum.splits prod.splits)

lemma violated_None: "violated cs = None \<longleftrightarrow> (\<forall>(ok, e)\<in>set cs. ok)"
  by (induction cs rule: violated.induct) auto

lemma checked_Inr [simp]: "checked cs x = Inr y \<longleftrightarrow> y = x \<and> (\<forall>(ok, e)\<in>set cs. ok)"
  using violated_None [of cs] by (auto simp: checked_def split: option.splits)

lemma one_Inr [simp]: "one xs = Inr x \<longleftrightarrow> (\<exists>ys. xs = x # ys)"
  by (auto simp: one_def split: list.splits)

lemma one_Inl [simp]: "one xs = Inl e \<longleftrightarrow> xs = [] \<and> e = ErrNoRows"
  by (auto simp: one_def split: list.splits)

text \<open>The world in which the body of a transaction starts, and the one it leaves.\<close>

definition started :: "app_identity \<Rightarrow> world \<Rightarrow> world" where
  "started i w = w\<lparr>w_ctx := ident_ctx i, w_tx_now := w_clock w (w_clock_i w),
     w_clock_i := Suc (w_clock_i w), w_fault_i := 3 + w_fault_i w\<rparr>"

lemma started_simps [simp]:
  "w_lib (started i w) = w_lib w" "w_db (started i w) = w_db w"
  "w_ctx (started i w) = ident_ctx i" "w_tx_now (started i w) = w_clock w (w_clock_i w)"
  "w_clock (started i w) = w_clock w" "w_rng (started i w) = w_rng w"
  "w_rng_i (started i w) = w_rng_i w" "w_faults (started i w) = w_faults w"
  "w_seq (started i w) = w_seq w" "w_published (started i w) = w_published w"
  "w_jobs (started i w) = w_jobs w" "w_objects (started i w) = w_objects w"
  "w_counters (started i w) = w_counters w" "w_ledger (started i w) = w_ledger w"
  by (simp_all add: started_def)

lemma end_tx_simps [simp]:
  "w_lib (end_tx w w') = w_lib w'" "w_db (end_tx w w') = w_db w'"
  "w_ctx (end_tx w w') = w_ctx w" "w_tx_now (end_tx w w') = w_tx_now w"
  "w_clock (end_tx w w') = w_clock w'" "w_clock_i (end_tx w w') = w_clock_i w'"
  "w_rng (end_tx w w') = w_rng w'" "w_rng_i (end_tx w w') = w_rng_i w'"
  "w_faults (end_tx w w') = w_faults w'" "w_fault_i (end_tx w w') = w_fault_i w'"
  "w_seq (end_tx w w') = w_seq w'" "w_published (end_tx w w') = w_published w'"
  "w_jobs (end_tx w w') = w_jobs w'" "w_objects (end_tx w w') = w_objects w'"
  "w_counters (end_tx w w') = w_counters w'" "w_ledger (end_tx w w') = w_ledger w'"
  by (simp_all add: end_tx_def)

lemma rollback_simps [simp]:
  "w_lib (rollback w w') = w_lib w'" "w_db (rollback w w') = w_db w"
  "w_ctx (rollback w w') = w_ctx w" "w_tx_now (rollback w w') = w_tx_now w"
  "w_seq (rollback w w') = w_seq w'" "w_published (rollback w w') = w_published w'"
  "w_jobs (rollback w w') = w_jobs w'" "w_objects (rollback w w') = w_objects w'"
  "w_counters (rollback w w') = w_counters w'" "w_ledger (rollback w w') = w_ledger w'"
  by (simp_all add: rollback_def)

text \<open>A transaction succeeds exactly when it could begin, its body returned, and it committed.\<close>

lemma WithTx_run:
  "WithTx i fn w = (Inr x, w') \<longleftrightarrow>
     w_faults w (w_fault_i w) = None \<and> w_faults w (Suc (w_fault_i w)) = None \<and>
     w_faults w (Suc (Suc (w_fault_i w))) = None \<and>
     (\<exists>w2. fn (started i w) = (Inr x, w2) \<and> w_faults w2 (w_fault_i w2) = None \<and>
        w' = end_tx w (faulted w2))"
  unfolding WithTx_def begin_tx_def commit_tx_def
  by (auto simp: tryE_def fail_def ret_def infra_def Let_def started_def end_tx_def faulted_def
      eval_nat_numeral split: option.splits sum.splits prod.splits)

text \<open>A transaction that reports an error has left the database unchanged.\<close>

lemma WithTx_atomic: "WithTx i fn w = (Inl e, w') \<Longrightarrow> w_db w' = w_db w"
  unfolding WithTx_def by (auto split: sum.splits prod.splits)

section \<open>Guarantees\<close>

text \<open>
  A guarantee is a relation between the world before and after that every step of the
  program respects: reflexive, transitive, blind to the transaction context, the clock, the
  generator, the failure schedule's position, the event bus, the job queue, the object
  store, the rate limiter's counters and the ledger, and still true when the database is put back to what it was.  Proved once for the
  combinators, it reduces an operation to its database statements.
\<close>

locale guarantee =
  fixes R :: "world \<Rightarrow> world \<Rightarrow> bool"
  assumes refl: "R w w"
    and trans: "R w w' \<Longrightarrow> R w' w'' \<Longrightarrow> R w w''"
    and env: "w_clock_i w \<le> n \<Longrightarrow> w_rng_i w \<le> k \<Longrightarrow> w_fault_i w \<le> f \<Longrightarrow>
       R w (w\<lparr>w_ctx := c, w_tx_now := t, w_clock_i := n, w_rng_i := k,
       w_fault_i := f, w_published := p, w_jobs := j, w_objects := ob,
       w_counters := rc, w_ledger := lg\<rparr>)"
    and undo: "R w w' \<Longrightarrow> R w (w'\<lparr>w_db := w_db w\<rparr>)"
begin

definition guar :: "'a op \<Rightarrow> bool" where
  "guar m \<longleftrightarrow> (\<forall>w. R w (snd (m w)))"

lemma guarI: "(\<And>w. R w (snd (m w))) \<Longrightarrow> guar m"
  by (simp add: guar_def)

lemma guarD: "guar m \<Longrightarrow> R w (snd (m w))"
  by (simp add: guar_def)

lemma env_ctx: "R w (w\<lparr>w_ctx := c, w_tx_now := t\<rparr>)"
  using env [where w = w and c = c and t = t and n = "w_clock_i w" and k = "w_rng_i w"
      and f = "w_fault_i w" and p = "w_published w" and j = "w_jobs w" and ob = "w_objects w" and rc = "w_counters w" and lg = "w_ledger w"]
  by simp

lemma env_begin: "w_clock_i w \<le> n \<Longrightarrow> R w (w\<lparr>w_ctx := c, w_tx_now := t, w_clock_i := n\<rparr>)"
  using env [where w = w and c = c and t = t and n = n and k = "w_rng_i w"
      and f = "w_fault_i w" and p = "w_published w" and j = "w_jobs w" and ob = "w_objects w" and rc = "w_counters w" and lg = "w_ledger w"]
  by simp

lemma env_faulted: "R w (faulted w)"
  unfolding faulted_def
  using env [where w = w and c = "w_ctx w" and t = "w_tx_now w" and n = "w_clock_i w"
      and k = "w_rng_i w" and f = "Suc (w_fault_i w)" and p = "w_published w" and j = "w_jobs w"
      and ob = "w_objects w" and rc = "w_counters w" and lg = "w_ledger w"]
  by simp

lemma guar_ret [intro!]: "guar (ret x)"
  by (simp add: guar_def ret_def refl)

lemma guar_fail [intro!]: "guar (fail e)"
  by (simp add: guar_def fail_def refl)

lemma guar_get_world [intro!]: "guar (get_world f)"
  by (simp add: guar_def get_world_def refl)

lemma guar_uuid_new [intro!]: "guar uuid_new"
proof (rule guarI)
  fix w
  show "R w (snd (uuid_new w))"
    using env [where w = w and c = "w_ctx w" and t = "w_tx_now w" and n = "w_clock_i w"
      and k = "Suc (w_rng_i w)" and f = "w_fault_i w" and p = "w_published w" and j = "w_jobs w"
      and ob = "w_objects w" and rc = "w_counters w" and lg = "w_ledger w"]
    by (simp add: uuid_new_def)
qed

lemma guar_time_now [intro!]: "guar time_now"
proof (rule guarI)
  fix w
  show "R w (snd (time_now w))"
    using env [where w = w and c = "w_ctx w" and t = "w_tx_now w" and n = "Suc (w_clock_i w)"
      and k = "w_rng_i w" and f = "w_fault_i w" and p = "w_published w" and j = "w_jobs w"
      and ob = "w_objects w" and rc = "w_counters w" and lg = "w_ledger w"]
    by (simp add: time_now_def)
qed

lemma guar_publish [intro!]: "guar (publish ty rty rid dat)"
proof (rule guarI)
  fix w
  show "R w (snd (publish ty rty rid dat w))"
    using env [where w = w and c = "w_ctx w" and t = "w_tx_now w" and n = "w_clock_i w"
      and k = "w_rng_i w" and f = "w_fault_i w" and j = "w_jobs w"
      and ob = "w_objects w" and rc = "w_counters w" and lg = "w_ledger w"]
    by (simp add: publish_def)
qed

lemma env_counters: "R w (w\<lparr>w_counters := rc\<rparr>)"
  using env [where w = w and c = "w_ctx w" and t = "w_tx_now w" and n = "w_clock_i w"
      and k = "w_rng_i w" and f = "w_fault_i w" and p = "w_published w" and j = "w_jobs w"
      and ob = "w_objects w" and rc = rc and lg = "w_ledger w"]
  by simp

lemma env_objects: "R w (w\<lparr>w_objects := ob\<rparr>)"
  using env [where w = w and c = "w_ctx w" and t = "w_tx_now w" and n = "w_clock_i w"
      and k = "w_rng_i w" and f = "w_fault_i w" and p = "w_published w" and j = "w_jobs w"
      and ob = ob and rc = "w_counters w" and lg = "w_ledger w"]
  by simp

lemma env_jobs: "R w (w\<lparr>w_jobs := j\<rparr>)"
  using env [where w = w and c = "w_ctx w" and t = "w_tx_now w" and n = "w_clock_i w"
      and k = "w_rng_i w" and f = "w_fault_i w" and p = "w_published w" and j = j
      and ob = "w_objects w" and rc = "w_counters w" and lg = "w_ledger w"]
  by simp

lemma env_ledger: "R w (w\<lparr>w_ledger := lg\<rparr>)"
  using env [where w = w and c = "w_ctx w" and t = "w_tx_now w" and n = "w_clock_i w"
      and k = "w_rng_i w" and f = "w_fault_i w" and p = "w_published w" and j = "w_jobs w"
      and ob = "w_objects w" and rc = "w_counters w" and lg = lg]
  by simp

lemma guar_tryE [intro!]:
  "guar m \<Longrightarrow> (\<And>e. guar (h e)) \<Longrightarrow> (\<And>x. guar (k x)) \<Longrightarrow> guar (tryE m h k)"
  unfolding guar_def tryE_def
  by (auto split: sum.splits prod.splits) (metis snd_conv trans)+

lemma guar_ensure [intro!]: "guar k \<Longrightarrow> guar (ensure b e k)"
  by (simp add: ensure_def guar_fail)

lemma guar_ignoring [intro!]: "guar m \<Longrightarrow> guar k \<Longrightarrow> guar (ignoring m k)"
  unfolding guar_def ignoring_def by (blast intro: trans)

lemma guar_infra [intro!]: "guar m \<Longrightarrow> guar (infra m)"
  unfolding guar_def infra_def Let_def
  by (auto simp flip: faulted_def intro: env_faulted trans [OF env_faulted] split: option.splits)

lemma guar_redis [intro!]:
  "guar (redis_incr key)" "guar (redis_expire key win)" "guar (redis_ttl key)" "guar (redis_del key)"
  unfolding redis_incr_def redis_expire_def redis_ttl_def redis_del_def
  by (rule guar_infra, simp add: guar_def refl env_counters split: option.splits prod.splits)+

lemma guar_query [intro!]: "guar (query q)"
  unfolding query_def by (rule guar_infra) (simp add: guar_def refl)

lemma guar_exec:
  "(\<And>w x d. q (w_lib w) (w_db w) (w_ctx w) (w_tx_now w) = Inr (x, d) \<Longrightarrow> R w (w\<lparr>w_db := d\<rparr>)) \<Longrightarrow>
     guar (exec q)"
  unfolding exec_def by (rule guar_infra) (auto simp: guar_def refl split: sum.splits prod.splits)

lemma guar_exec_new:
  "(\<And>i w x d. q i (w_lib w) (w_db w) (w_ctx w) (w_tx_now w) = Inr (x, d) \<Longrightarrow> R w (w\<lparr>w_db := d\<rparr>)) \<Longrightarrow>
     guar (exec_new q)"
  unfolding exec_new_def
  by (intro guar_tryE guar_infra guar_uuid_new guar_fail)
    (auto simp: guar_def refl split: sum.splits prod.splits)

lemma guar_if [intro!]: "(b \<Longrightarrow> guar m) \<Longrightarrow> (\<not> b \<Longrightarrow> guar n) \<Longrightarrow> guar (if b then m else n)"
  by simp

lemma guar_option [intro!]:
  "(x = None \<Longrightarrow> guar m) \<Longrightarrow> (\<And>y. x = Some y \<Longrightarrow> guar (f y)) \<Longrightarrow>
     guar (case x of None \<Rightarrow> m | Some y \<Rightarrow> f y)"
  by (cases x) auto

lemma guar_sum [intro!]:
  "(\<And>e. x = Inl e \<Longrightarrow> guar (f e)) \<Longrightarrow> (\<And>y. x = Inr y \<Longrightarrow> guar (g y)) \<Longrightarrow>
     guar (case x of Inl e \<Rightarrow> f e | Inr y \<Rightarrow> g y)"
  by (cases x) auto

lemma guar_prod [intro!]: "(\<And>a b. x = (a, b) \<Longrightarrow> guar (f a b)) \<Longrightarrow> guar (case x of (a, b) \<Rightarrow> f a b)"
  by (cases x) auto

lemma guar_list [intro!]:
  "(x = [] \<Longrightarrow> guar m) \<Longrightarrow> (\<And>y ys. x = y # ys \<Longrightarrow> guar (f y ys)) \<Longrightarrow>
     guar (case x of [] \<Rightarrow> m | y # ys \<Rightarrow> f y ys)"
  by (cases x) auto

lemma guar_mapE [intro!]: "(\<And>x. guar (f x)) \<Longrightarrow> guar (mapE f xs)"
  by (induction xs) auto

lemma rollback_R: "R w w' \<Longrightarrow> R w (rollback w w')"
proof -
  assume "R w w'"
  then have "R w (w'\<lparr>w_db := w_db w\<rparr>)" by (rule undo)
  moreover have "R (w'\<lparr>w_db := w_db w\<rparr>) (rollback w w')"
    unfolding rollback_def by (rule env_ctx)
  ultimately show ?thesis by (rule trans)
qed

lemma end_tx_R: "R w w' \<Longrightarrow> R w (end_tx w w')"
  unfolding end_tx_def by (blast intro: trans env_ctx)

lemma guar_begin_tx [intro!]: "guar (begin_tx i)"
  unfolding begin_tx_def by (rule guar_infra) (simp add: guar_def env_begin)

lemma guar_commit_tx [intro!]: "guar commit_tx"
  unfolding commit_tx_def by auto

text \<open>
  A transaction respects a guarantee its body respects when started under the transaction's
  identity, whether it commits or not.
\<close>

lemma env_started: "R w (started i w)"
  unfolding started_def
  using env [where w = w and c = "ident_ctx i" and t = "w_clock w (w_clock_i w)"
      and n = "Suc (w_clock_i w)" and k = "w_rng_i w" and f = "3 + w_fault_i w"
      and p = "w_published w" and j = "w_jobs w" and ob = "w_objects w" and rc = "w_counters w" and lg = "w_ledger w"]
  by simp

lemma env_started_fault: "w_fault_i w \<le> f \<Longrightarrow> R w ((started i w)\<lparr>w_fault_i := f\<rparr>)"
  unfolding started_def
  using env [where w = w and c = "ident_ctx i" and t = "w_clock w (w_clock_i w)"
      and n = "Suc (w_clock_i w)" and k = "w_rng_i w" and f = f
      and p = "w_published w" and j = "w_jobs w" and ob = "w_objects w" and rc = "w_counters w" and lg = "w_ledger w"]
  by simp

theorem guar_WithTx_ident:
  assumes fn: "\<And>w. w_ctx w = ident_ctx i \<Longrightarrow> R w (snd (fn w))"
  shows "guar (WithTx i fn)"
proof (rule guarI)
  fix w
  let ?rest = "bindE fn (\<lambda>x. try_wrap commit_tx ''repository: commit transaction'' (\<lambda>_. ret x))"
  let ?m = "try_wrap (begin_tx i) ''repository: begin transaction'' (\<lambda>_.
     try_wrap (infra (ret ())) ''repository: set app.user_id'' (\<lambda>_.
     try_wrap (infra (ret ())) ''repository: set app.role'' (\<lambda>_. ?rest)))"
  have rest: "R v (snd (?rest v))" if "w_ctx v = ident_ctx i" for v
    using fn [OF that] guarD [OF guar_commit_tx]
    by (auto simp: tryE_def fail_def ret_def split: sum.splits prod.splits)
      (metis snd_conv trans)+
  have "snd (?m w) \<in> {snd (?rest (started i w)), faulted w, started i w,
     (started i w)\<lparr>w_fault_i := Suc (Suc (w_fault_i w))\<rparr>}"
    unfolding begin_tx_def
    by (auto simp: tryE_def [of "infra _"] fail_def ret_def infra_def Let_def started_def
        faulted_def eval_nat_numeral split: option.splits)
  moreover have "R w (snd (?rest (started i w)))"
    by (rule trans [OF env_started [of w i]]) (rule rest, simp)
  ultimately have "R w (snd (?m w))"
    using env_started [of w i] env_faulted [of w] env_started_fault [of w "Suc (Suc (w_fault_i w))" i]
    by auto
  then show "R w (snd (WithTx i fn w))"
    unfolding WithTx_def
    by (auto split: sum.splits prod.splits intro: rollback_R end_tx_R)
qed

lemma guar_WithTx [intro!]: "guar fn \<Longrightarrow> guar (WithTx i fn)"
  by (rule guar_WithTx_ident) (rule guarD)

lemmas guar_rules = guar_ret guar_fail guar_get_world guar_uuid_new guar_time_now guar_publish
  guar_tryE guar_ensure guar_ignoring guar_query guar_redis guar_if guar_option guar_sum guar_prod
  guar_list guar_mapE guar_WithTx

end

lemma exec_Inl:
  "exec q w = (Inl e, w') \<Longrightarrow> (\<exists>f. e = fault_error f) \<or> q (w_lib w) (w_db w) (w_ctx w) (w_tx_now w) = Inl e"
  by (auto simp: exec_def infra_def Let_def split: option.splits sum.splits prod.splits)

end
