(* ===== verification/AuditChain.thy ===== *)
theory AuditChain
  imports Runtime
begin

text \<open>
  The hash-chained audit log: \<^verbatim>\<open>backend/internal/audit\<close> (chain, verifier, writer,
  recorders) and the statements of \<^verbatim>\<open>backend/db/queries/audit.sql\<close> it uses.  The
  component keeps the table \<^verbatim>\<open>audit_log\<close>; its invariant \<^verbatim>\<open>audit_good\<close> says that a
  full verification run over the table succeeds, and every operation of the program that
  writes the table respects it.
\<close>

section \<open>Canonical metadata and the entry hash\<close>

record entry =
  en_id :: uuid
  en_timestamp :: time
  en_user_id :: "uuid option"
  en_role :: string
  en_action :: string
  en_resource_type :: string
  en_resource_id :: "uuid option"
  en_case_id :: "uuid option"
  en_metadata :: bytes
  en_prev_hash :: "bytes option"

definition CanonicalizeMetadata :: "library \<Rightarrow> bytes \<Rightarrow> gerr + bytes" where [run_defs]:
  "CanonicalizeMetadata lib raw =
     (if raw = [] then Inr ''{}''
      else case lib_json_decode lib raw of
        Inl m \<Rightarrow> Inl (Wrap ''audit: canonicalize metadata'' (StdErr m))
      | Inr v \<Rightarrow> if v = JNull then Inr ''{}'' else Inr (lib_json_marshal lib v))"

definition nl :: string where [run_defs]:
  "nl = [CHR 0x0A]"

definition emdash :: string where [run_defs]:
  "emdash = [CHR 0xE2, CHR 0x80, CHR 0x94]"

definition uuidOrEmpty :: "uuid option \<Rightarrow> string" where [run_defs]:
  "uuidOrEmpty i = (case i of None \<Rightarrow> '''' | Some u \<Rightarrow> uuid_string u)"

definition genesisMarker :: string where [run_defs]:
  "genesisMarker = ''genesis''"

definition prevHashOrGenesis :: "bytes option \<Rightarrow> string" where [run_defs]:
  "prevHashOrGenesis p = (if slice_bytes p = [] then genesisMarker else hex_encode (slice_bytes p))"

text \<open>What \<^verbatim>\<open>ComputeEntryHash\<close> writes to its buffer, before the SHA-256 sum.\<close>

definition entry_text :: "library \<Rightarrow> entry \<Rightarrow> bytes" where [run_defs]:
  "entry_text lib e =
     ''evidentia-audit-entry'' @ nl @
     ''id='' @ uuid_string (en_id e) @ nl @
     ''timestamp='' @ lib_rfc3339 lib (en_timestamp e) @ nl @
     ''user_id='' @ uuidOrEmpty (en_user_id e) @ nl @
     ''role='' @ en_role e @ nl @
     ''action='' @ en_action e @ nl @
     ''resource_type='' @ en_resource_type e @ nl @
     ''resource_id='' @ uuidOrEmpty (en_resource_id e) @ nl @
     ''case_id='' @ uuidOrEmpty (en_case_id e) @ nl @
     ''metadata='' @ en_metadata e @ nl @
     ''prev_hash='' @ prevHashOrGenesis (en_prev_hash e)"

definition ComputeEntryHash :: "library \<Rightarrow> entry \<Rightarrow> bytes" where [run_defs]:
  "ComputeEntryHash lib e = lib_sha256 lib (entry_text lib e)"

section \<open>The verifier\<close>

record batch_result =
  br_OK :: bool
  br_EntriesChecked :: int
  br_LastHash :: "bytes option"
  br_FailedEntryID :: "uuid option"
  br_FailedSeq :: "int option"
  br_Reason :: string
  br_FailureType :: string
  br_ExpectedPrevHash :: "bytes option"
  br_ActualPrevHash :: "bytes option"
  br_ExpectedHash :: "bytes option"
  br_ActualHash :: "bytes option"

definition no_result :: batch_result where [run_defs]:
  "no_result = \<lparr>br_OK = False, br_EntriesChecked = 0, br_LastHash = None,
     br_FailedEntryID = None, br_FailedSeq = None, br_Reason = '''', br_FailureType = '''',
     br_ExpectedPrevHash = None, br_ActualPrevHash = None, br_ExpectedHash = None,
     br_ActualHash = None\<rparr>"

definition roleOrEmpty :: "string option \<Rightarrow> string" where [run_defs]:
  "roleOrEmpty r = (case r of None \<Rightarrow> '''' | Some s \<Rightarrow> s)"

definition entry_of_row :: "audit_row \<Rightarrow> bytes \<Rightarrow> entry" where [run_defs]:
  "entry_of_row e canonical = \<lparr>en_id = a_id e, en_timestamp = a_timestamp e,
     en_user_id = a_user_id e, en_role = roleOrEmpty (a_role e), en_action = a_action e,
     en_resource_type = a_resource_type e, en_resource_id = a_resource_id e,
     en_case_id = a_case_id e, en_metadata = canonical, en_prev_hash = a_prev_hash e\<rparr>"

text \<open>The loop of \<^verbatim>\<open>VerifyBatch\<close>: \<^verbatim>\<open>i\<close> is the index, \<^verbatim>\<open>prev\<close> the expected link.\<close>

fun verify_from :: "library \<Rightarrow> int \<Rightarrow> audit_row list \<Rightarrow> bytes option \<Rightarrow> batch_result" where
  "verify_from lib i [] prev =
     no_result\<lparr>br_OK := True, br_EntriesChecked := i, br_LastHash := prev\<rparr>"
| "verify_from lib i (e # es) prev =
     (if slice_bytes (a_prev_hash e) \<noteq> slice_bytes prev then
        no_result\<lparr>br_EntriesChecked := i, br_FailedEntryID := Some (a_id e),
          br_FailedSeq := a_seq e,
          br_Reason := ''prev_hash does not match the preceding entry'' @ [CHR 0x27] @
            ''s hash '' @ emdash @ '' chain link broken'',
          br_FailureType := (if prev = None \<or> a_prev_hash e = None then ''GENESIS_INVALID''
             else ''PREVIOUS_HASH_MISMATCH''),
          br_ExpectedPrevHash := prev, br_ActualPrevHash := a_prev_hash e\<rparr>
      else case CanonicalizeMetadata lib (a_metadata e) of
        Inl err \<Rightarrow> no_result\<lparr>br_EntriesChecked := i, br_FailedEntryID := Some (a_id e),
          br_FailedSeq := a_seq e,
          br_Reason := ''stored metadata could not be canonicalized: '' @ err_text err,
          br_FailureType := ''CANONICALIZATION_ERROR''\<rparr>
      | Inr canonical \<Rightarrow>
          (let expected = ComputeEntryHash lib (entry_of_row e canonical) in
           if expected \<noteq> a_hash e then
             no_result\<lparr>br_EntriesChecked := i, br_FailedEntryID := Some (a_id e),
               br_FailedSeq := a_seq e,
               br_Reason := ''recomputed entry hash does not match the stored hash '' @ emdash @
                 '' entry contents modified'',
               br_FailureType := ''ENTRY_HASH_MISMATCH'', br_ExpectedHash := Some expected,
               br_ActualHash := Some (a_hash e), br_ExpectedPrevHash := prev,
               br_ActualPrevHash := a_prev_hash e\<rparr>
           else verify_from lib (i + 1) es (Some (a_hash e))))"

definition VerifyBatch :: "library \<Rightarrow> audit_row list \<Rightarrow> bytes option \<Rightarrow> batch_result" where [run_defs]:
  "VerifyBatch lib es prev = verify_from lib 0 es prev"

section \<open>Statements of audit.sql\<close>

definition seq_of :: "audit_row \<Rightarrow> int" where [run_defs]:
  "seq_of a = (case a_seq a of None \<Rightarrow> 0 | Some n \<Rightarrow> n)"

definition audit_visible :: "database \<Rightarrow> app_ctx \<Rightarrow> audit_row list" where [run_defs]:
  "audit_visible d c = sort_key seq_of (filter (audit_log_select d c) (t_audit_log d))"

text \<open>A comparison with NULL is not true.\<close>

definition after_seq :: "int \<Rightarrow> audit_row \<Rightarrow> bool" where [run_defs]:
  "after_seq from_seq a \<longleftrightarrow> (case a_seq a of None \<Rightarrow> False | Some n \<Rightarrow> from_seq < n)"

definition q_AcquireAuditChainLock :: "unit op" where [run_defs]:
  "q_AcquireAuditChainLock = query (\<lambda>d c t. Inr ())"

definition q_GetLatestAuditEntry :: "audit_row op" where [run_defs]:
  "q_GetLatestAuditEntry = query (\<lambda>d c t. one (rev (audit_visible d c)))"

definition q_GetAuditEntryByID :: "uuid \<Rightarrow> audit_row op" where [run_defs]:
  "q_GetAuditEntryByID i = query (\<lambda>d c t. one (filter (\<lambda>a. a_id a = i) (audit_visible d c)))"

definition q_ListAuditEntriesFromSeq :: "int \<Rightarrow> nat \<Rightarrow> audit_row list op" where [run_defs]:
  "q_ListAuditEntriesFromSeq from_seq lim = query (\<lambda>d c t.
     Inr (take lim (filter (after_seq from_seq) (audit_visible d c))))"

definition q_CountAuditEntries :: "int op" where [run_defs]:
  "q_CountAuditEntries = query (\<lambda>d c t. Inr (int (length (audit_visible d c))))"

text \<open>
  The constraints of \<^verbatim>\<open>audit_log\<close> (000001, lines 334-391): the identity column takes
  the next sequence value whether or not the row is accepted.
\<close>

definition audit_log_checks :: "database \<Rightarrow> app_ctx \<Rightarrow> audit_row \<Rightarrow> (bool \<times> gerr) list" where [run_defs]:
  "audit_log_checks d c a =
    [(audit_log_insert c \<and> audit_log_select d c a, PgError ''42501'' ''audit_log''),
     (length (a_hash a) = 32, PgError ''23514'' ''audit_log_hash_length_check''),
     (case a_prev_hash a of None \<Rightarrow> True | Some p \<Rightarrow> length p = 32,
        PgError ''23514'' ''audit_log_prev_hash_length_check''),
     (\<not> list_ex (\<lambda>r. a_id r = a_id a) (t_audit_log d), PgError ''23505'' ''audit_log_pkey''),
     (\<not> list_ex (\<lambda>r. a_seq r = a_seq a) (t_audit_log d), PgError ''23505'' ''audit_log_seq_unique''),
     (\<not> list_ex (\<lambda>r. a_hash r = a_hash a) (t_audit_log d), PgError ''23505'' ''audit_log_hash_unique''),
     (a_prev_hash a = None \<or> \<not> list_ex (\<lambda>r. a_prev_hash r = a_prev_hash a) (t_audit_log d),
        PgError ''23505'' ''idx_audit_log_prev_hash_unique''),
     (a_prev_hash a \<noteq> None \<or> \<not> list_ex (\<lambda>r. a_prev_hash r = None) (t_audit_log d),
        PgError ''23505'' ''idx_audit_log_single_genesis''),
     (case a_user_id a of None \<Rightarrow> True | Some u \<Rightarrow> list_ex (\<lambda>r. u_id r = u) (t_users d),
        PgError ''23503'' ''audit_log_user_id_fkey''),
     (case a_case_id a of None \<Rightarrow> True | Some u \<Rightarrow> list_ex (\<lambda>r. c_id r = u) (t_cases d),
        PgError ''23503'' ''audit_log_case_id_fkey'')]"

definition q_InsertAuditEntry :: "audit_row \<Rightarrow> audit_row op" where [run_defs]:
  "q_InsertAuditEntry a = infra (\<lambda>w.
     case lib_jsonb (w_lib w) (a_metadata a) of
       None \<Rightarrow> (Inl (PgError ''22P02'' ''''), w)
     | Some stored \<Rightarrow>
         (let a' = a\<lparr>a_seq := Some (w_seq w), a_metadata := stored\<rparr>;
              w' = w\<lparr>w_seq := w_seq w + 1\<rparr> in
          case violated (audit_log_checks (w_db w) (w_ctx w) a') of
            Some e \<Rightarrow> (Inl e, w')
          | None \<Rightarrow> (Inr a', w'\<lparr>w_db := (w_db w)\<lparr>t_audit_log := t_audit_log (w_db w) @ [a']\<rparr>\<rparr>)))"

section \<open>The chain writer and the recorders\<close>

record event =
  ev_action :: string
  ev_resource_type :: string
  ev_resource_id :: "uuid option"
  ev_user_id :: "uuid option"
  ev_role :: string
  ev_case_id :: "uuid option"
  ev_metadata :: json

definition systemActorID :: uuid where [run_defs]:
  "systemActorID = 0xa001"

definition maxChainWriteAttempts :: nat where [run_defs]:
  "maxChainWriteAttempts = 3"

definition nilIfEmpty :: "string \<Rightarrow> string option" where [run_defs]:
  "nilIfEmpty s = (if s = '''' then None else Some s)"

text \<open>
  \<^verbatim>\<open>json.Marshal\<close> fails only on a value JSON cannot express (a channel, a function, a NaN);
  the metadata of an event is a \<^verbatim>\<open>json\<close> value here, so the error branch of the first step
  cannot be taken and is not written down.
\<close>

definition canonicalizeEventMetadata :: "library \<Rightarrow> json \<Rightarrow> gerr + bytes" where [run_defs]:
  "canonicalizeEventMetadata lib m = CanonicalizeMetadata lib (lib_json_marshal lib m)"

definition isChainConflict :: "gerr \<Rightarrow> bool" where [run_defs]:
  "isChainConflict e = (case as_pg_error e of None \<Rightarrow> False
     | Some (code, con) \<Rightarrow> code = ''23505'' \<and>
         (con = ''idx_audit_log_prev_hash_unique'' \<or> con = ''idx_audit_log_single_genesis'' \<or>
          con = ''audit_log_hash_unique''))"

definition chain_ident :: "event \<Rightarrow> app_identity" where [run_defs]:
  "chain_ident ev = \<lparr>UserID = (case ev_user_id ev of None \<Rightarrow> systemActorID | Some u \<Rightarrow> u),
     Role = ''ADMIN''\<rparr>"

definition event_entry :: "event \<Rightarrow> bytes \<Rightarrow> uuid \<Rightarrow> time \<Rightarrow> bytes option \<Rightarrow> entry" where [run_defs]:
  "event_entry ev canonical i ts prev = \<lparr>en_id = i, en_timestamp = ts,
     en_user_id = ev_user_id ev, en_role = ev_role ev, en_action = ev_action ev,
     en_resource_type = ev_resource_type ev, en_resource_id = ev_resource_id ev,
     en_case_id = ev_case_id ev, en_metadata = canonical, en_prev_hash = prev\<rparr>"

definition event_row :: "event \<Rightarrow> bytes \<Rightarrow> uuid \<Rightarrow> time \<Rightarrow> bytes option \<Rightarrow> bytes \<Rightarrow> audit_row" where [run_defs]:
  "event_row ev canonical i ts prev h = \<lparr>a_id = i, a_seq = None, a_timestamp = ts,
     a_user_id = ev_user_id ev, a_role = nilIfEmpty (ev_role ev), a_action = ev_action ev,
     a_resource_type = ev_resource_type ev, a_resource_id = ev_resource_id ev,
     a_case_id = ev_case_id ev, a_metadata = canonical, a_prev_hash = prev, a_hash = h\<rparr>"

text \<open>The chain head, as the writer reads it: \<^verbatim>\<open>None\<close> when the log is empty.\<close>

definition chain_head :: "bytes option op" where [run_defs]:
  "chain_head = tryE q_GetLatestAuditEntry
     (\<lambda>e. if is_no_rows e then ret None else fail (Wrap ''read chain head'' e))
     (\<lambda>latest. ret (Some (a_hash latest)))"

definition append_tx :: "event \<Rightarrow> bytes \<Rightarrow> unit op" where [run_defs]:
  "append_tx ev canonical = WithTx (chain_ident ev) (
     try_wrap q_AcquireAuditChainLock ''acquire chain lock'' (\<lambda>_.
     bindE chain_head (\<lambda>prev.
     bindE uuid_new (\<lambda>i.
     bindE time_now (\<lambda>ts.
     bindE (get_world (\<lambda>w. ComputeEntryHash (w_lib w) (event_entry ev canonical i ts prev))) (\<lambda>h.
     bindE (q_InsertAuditEntry (event_row ev canonical i ts prev h)) (\<lambda>_. ret ())))))))"

fun append_attempts :: "nat \<Rightarrow> gerr option \<Rightarrow> unit op \<Rightarrow> unit op" where
  "append_attempts 0 lastErr tx = fail (case lastErr of
      None \<Rightarrow> StdErr ''audit: chain write: exhausted 3 attempts''
    | Some e \<Rightarrow> Wrap ''audit: chain write: exhausted 3 attempts'' e)"
| "append_attempts (Suc n) lastErr tx = tryE tx
     (\<lambda>e. if isChainConflict e then append_attempts n (Some e) tx else fail e) ret"

lemma append_attempts_numeral [run_defs]:
  "append_attempts (numeral k) lastErr tx = tryE tx
     (\<lambda>e. if isChainConflict e then append_attempts (pred_numeral k) (Some e) tx else fail e) ret"
  unfolding numeral_eq_Suc [of k] by (rule append_attempts.simps)

definition chain_append :: "event \<Rightarrow> unit op" where [run_defs]:
  "chain_append ev w = (case canonicalizeEventMetadata (w_lib w) (ev_metadata ev) of
     Inl e \<Rightarrow> (Inl (Wrap ''audit'' e), w)
   | Inr canonical \<Rightarrow> append_attempts maxChainWriteAttempts None (append_tx ev canonical) w)"

definition Record :: "event \<Rightarrow> unit op" where [run_defs]:
  "Record ev = ignoring (chain_append ev) (ret ())"

text \<open>\<^verbatim>\<open>SlogRecorder\<close> only writes a log line.\<close>

definition SlogRecord :: "event \<Rightarrow> unit op" where [run_defs]:
  "SlogRecord ev = ret ()"

end
