(* ===== verification/Sample.thy ===== *)
theory Sample
  imports Runtime
begin

text \<open>
  A concrete library and concrete worlds, on which the theorems are run: a 32-byte digest
  that counts the bytes of its input, the decoder of the empty object, unary time stamps, a
  counting UUID generator, a ticking clock and no infrastructure failure.
\<close>

definition sample_sha :: "bytes \<Rightarrow> bytes" where [run_defs]:
  "sample_sha b = replicate 31 (CHR 0x00) @ [char_of (length b mod 256)]"

definition sample_time :: "time \<Rightarrow> string" where [run_defs]:
  "sample_time t = (if t < 0 then ''-'' else '''') @ replicate (nat \<bar>t\<bar>) (CHR ''1'')"

definition sample_decode :: "bytes \<Rightarrow> string + json" where [run_defs]:
  "sample_decode t = (if t = ''{}'' then Inr (JObj []) else Inl ''invalid character'')"

definition sample_marshal :: "json \<Rightarrow> bytes" where [run_defs]:
  "sample_marshal v = ''{}''"

definition sample_sort :: "time list \<Rightarrow> nat list" where [run_defs]:
  "sample_sort ks = map snd (sort_key fst (zip ks [0..<length ks]))"

definition sample_quote :: "string \<Rightarrow> string" where [run_defs]:
  "sample_quote s = [CHR 0x22] @ s @ [CHR 0x22]"

definition sample_bcrypt :: "string \<Rightarrow> nat \<Rightarrow> string option" where [run_defs]:
  "sample_bcrypt p n = Some (''$2a$'' @ p)"

definition sample_bcrypt_ok :: "string \<Rightarrow> string \<Rightarrow> bool" where [run_defs]:
  "sample_bcrypt_ok h p \<longleftrightarrow> h = ''$2a$'' @ p"

definition sample_detect :: "bytes \<Rightarrow> string" where [run_defs]:
  "sample_detect b = ''application/pdf''"

definition sample_token :: "string \<Rightarrow> Claims \<Rightarrow> string option" where [run_defs]:
  "sample_token key c = Some (cl_Subject c)"

definition sample_parse :: "string \<Rightarrow> string \<Rightarrow> string \<Rightarrow> time \<Rightarrow> string \<Rightarrow> Claims option" where [run_defs]:
  "sample_parse key iss aud t token = Some \<lparr>cl_Role = '''', cl_Issuer = iss, cl_Subject = token,
     cl_Audience = [aud], cl_ExpiresAt = t, cl_IssuedAt = t, cl_NotBefore = t, cl_ID = ''''\<rparr>"

definition sample_parse_uuid :: "string \<Rightarrow> uuid option" where [run_defs]:
  "sample_parse_uuid s = (if s = uuid_string 10 then Some 10 else if s = uuid_string 20 then Some 20 else None)"

definition sample_lower :: "string \<Rightarrow> string" where [run_defs]:
  "sample_lower s = s"

definition sample_random :: "nat \<Rightarrow> string" where [run_defs]:
  "sample_random n = replicate (Suc n) (CHR ''r'')"

definition sample_sign :: "nat \<Rightarrow> bytes \<Rightarrow> string + bytes" where [run_defs]:
  "sample_sign n b = Inr b"

definition sample_verify :: "bytes \<Rightarrow> bytes \<Rightarrow> bool" where [run_defs]:
  "sample_verify b s \<longleftrightarrow> b = s"

definition sample_parse_time :: "string \<Rightarrow> time option" where [run_defs]:
  "sample_parse_time s = Some (int (length s))"

definition sample_bytes :: "nat \<Rightarrow> nat \<Rightarrow> bytes" where [run_defs]:
  "sample_bytes n k = replicate k (CHR ''n'')"

definition sample_b64 :: "string \<Rightarrow> string" where [run_defs]:
  "sample_b64 s = s"

text \<open>The ciphertext carries key and nonce as its tag.\<close>

definition sample_seal :: "bytes \<Rightarrow> bytes \<Rightarrow> bytes \<Rightarrow> bytes" where [run_defs]:
  "sample_seal key nonce plain = key @ nonce @ plain"

definition sample_open :: "bytes \<Rightarrow> bytes \<Rightarrow> bytes \<Rightarrow> bytes option" where [run_defs]:
  "sample_open key nonce c = (let n = length key + length nonce in
     if take n c = key @ nonce then Some (drop n c) else None)"

definition sample_float :: "int \<times> int \<Rightarrow> string" where [run_defs]:
  "sample_float x = replicate (nat (fst x)) (CHR ''1'')"

definition sample_lib :: library where [run_defs]:
  "sample_lib = \<lparr>lib_sha256 = sample_sha, lib_rfc3339 = sample_time,
     lib_json_decode = sample_decode, lib_json_value = sample_decode, lib_quote = sample_quote,
     lib_sort_perm = sample_sort, lib_json_marshal = sample_marshal, lib_jsonb = Some,
     lib_bcrypt_hash = sample_bcrypt, lib_bcrypt_ok = sample_bcrypt_ok,
     lib_parse_address = Some, lib_detect_content_type = sample_detect,
     lib_parse_uuid = sample_parse_uuid, lib_to_lower = sample_lower, lib_sign_jwt = sample_token,
     lib_parse_jwt = sample_parse, lib_random_token = sample_random,
     lib_sign = sample_sign, lib_verify_sig = sample_verify, lib_rfc3339_s = sample_time,
     lib_parse_time = sample_parse_time, lib_random_bytes = sample_bytes, lib_b64_encode = sample_b64,
     lib_b64_decode = Some, lib_seal = sample_seal, lib_open = sample_open, lib_tx_id = sample_random,
     lib_gateway_text = sample_b64, lib_float_text = sample_float\<rparr>"

definition sample_clock :: "nat \<Rightarrow> time" where [run_defs]:
  "sample_clock n = 10 + int n"

definition sample_rng :: "nat \<Rightarrow> uuid" where [run_defs]:
  "sample_rng n = 1000 + of_nat n"

definition no_faults :: "nat \<Rightarrow> fault option" where [run_defs]:
  "no_faults n = None"

definition sample_world :: "database \<Rightarrow> world" where [run_defs]:
  "sample_world d = \<lparr>w_lib = sample_lib, w_db = d, w_ctx = no_ctx, w_tx_now = 0,
     w_clock = sample_clock, w_clock_i = 0, w_rng = sample_rng, w_rng_i = 0,
     w_faults = no_faults, w_fault_i = 0, w_seq = 1, w_published = [], w_jobs = [],
     w_objects = Map.empty, w_counters = Map.empty, w_ledger = []\<rparr>"

text \<open>
  A world in which audit records cannot be encoded, so that Record gives up at once: for
  runs that record several events and are long enough without them.
\<close>

definition refuse_decode :: "bytes \<Rightarrow> string + json" where [run_defs]:
  "refuse_decode t = Inl ''''"

definition quiet_world :: "database \<Rightarrow> world" where [run_defs]:
  "quiet_world d = (sample_world d)\<lparr>w_lib := sample_lib\<lparr>lib_json_decode := refuse_decode\<rparr>\<rparr>"

end
