(* ===== verification/AuditChainFacts.thy ===== *)
theory AuditChainFacts
  imports AuditChain Sample "HOL-Library.Sublist"
begin

text \<open>
  What the verifier decides, what a verified chain binds, and that the writer keeps the
  chain verifiable: the theorems about the definitions of \<^verbatim>\<open>AuditChain\<close>.
\<close>

section \<open>What VerifyBatch decides\<close>

text \<open>
  The specification of one entry: it names the hash before it and carries the hash of its
  own canonical contents.
\<close>

definition row_ok :: "library \<Rightarrow> bytes option \<Rightarrow> audit_row \<Rightarrow> bool" where
  "row_ok lib prev e \<longleftrightarrow> slice_bytes (a_prev_hash e) = slice_bytes prev \<and>
     (\<exists>c. CanonicalizeMetadata lib (a_metadata e) = Inr c \<and>
        ComputeEntryHash lib (entry_of_row e c) = a_hash e)"

definition prior :: "audit_row list \<Rightarrow> bytes option \<Rightarrow> nat \<Rightarrow> bytes option" where
  "prior es p i = (if i = 0 then p else Some (a_hash (es ! (i - 1))))"

fun rows_ok :: "library \<Rightarrow> audit_row list \<Rightarrow> bytes option \<Rightarrow> bool" where
  "rows_ok lib [] p = True"
| "rows_ok lib (e # es) p \<longleftrightarrow> row_ok lib p e \<and> rows_ok lib es (Some (a_hash e))"

definition head_hash :: "audit_row list \<Rightarrow> bytes option \<Rightarrow> bytes option" where
  "head_hash es p = (if es = [] then p else Some (a_hash (last es)))"

lemma prior_Cons: "prior (e # es) p (Suc i) = prior es (Some (a_hash e)) i"
  by (cases i) (simp_all add: prior_def)

lemma rows_ok_iff: "rows_ok lib es p \<longleftrightarrow> (\<forall>i<length es. row_ok lib (prior es p i) (es ! i))"
proof (induction es arbitrary: p)
  case Nil
  show ?case by simp
next
  case (Cons e es)
  show ?case
    by (simp only: rows_ok.simps Cons.IH length_Cons All_less_Suc2 prior_Cons nth_Cons_Suc
        nth_Cons_0) (simp add: prior_def)
qed

lemma head_hash_Cons [simp]: "head_hash (e # es) p = head_hash es (Some (a_hash e))"
  by (simp add: head_hash_def)

lemma head_hash_Nil [simp]: "head_hash [] p = p"
  by (simp add: head_hash_def)

lemma no_result_simps [simp]:
  "br_OK no_result = False" "br_LastHash no_result = None" "br_FailedEntryID no_result = None"
  by (simp_all add: no_result_def)

lemma verify_from_OK: "br_OK (verify_from lib i es p) \<longleftrightarrow> rows_ok lib es p"
  by (induction lib i es p rule: verify_from.induct)
    (auto simp: row_ok_def Let_def split: sum.splits)

lemma verify_from_success:
  "rows_ok lib es p \<Longrightarrow> verify_from lib i es p =
     no_result\<lparr>br_OK := True, br_EntriesChecked := i + int (length es), br_LastHash := head_hash es p\<rparr>"
proof (induction lib i es p rule: verify_from.induct)
  case (1 lib i p)
  then show ?case by simp
next
  case (2 lib i e es p)
  then obtain c where c: "CanonicalizeMetadata lib (a_metadata e) = Inr c"
    "ComputeEntryHash lib (entry_of_row e c) = a_hash e"
    by (auto simp: row_ok_def)
  with 2 show ?case by (simp add: Let_def row_ok_def add.assoc)
qed

lemma row_ok_cong: "slice_bytes p = slice_bytes q \<Longrightarrow> row_ok lib p = row_ok lib q"
  by (simp add: row_ok_def fun_eq_iff)

lemma rows_ok_append:
  "rows_ok lib (xs @ ys) p \<longleftrightarrow> rows_ok lib xs p \<and> rows_ok lib ys (head_hash xs p)"
  by (induction xs arbitrary: p) auto

text \<open>The failure category of the first bad entry, as the doc comments of verifier.go give it.\<close>

definition failure_of :: "library \<Rightarrow> bytes option \<Rightarrow> audit_row \<Rightarrow> string" where
  "failure_of lib prev e =
     (if slice_bytes (a_prev_hash e) \<noteq> slice_bytes prev then
        (if prev = None \<or> a_prev_hash e = None then ''GENESIS_INVALID'' else ''PREVIOUS_HASH_MISMATCH'')
      else if \<exists>err. CanonicalizeMetadata lib (a_metadata e) = Inl err then ''CANONICALIZATION_ERROR''
      else ''ENTRY_HASH_MISMATCH'')"

lemma verify_from_failure:
  assumes "\<not> rows_ok lib es p"
  shows "\<exists>k<length es. (\<forall>j<k. row_ok lib (prior es p j) (es ! j)) \<and>
     \<not> row_ok lib (prior es p k) (es ! k) \<and>
     br_EntriesChecked (verify_from lib i es p) = i + int k \<and>
     br_FailedEntryID (verify_from lib i es p) = Some (a_id (es ! k)) \<and>
     br_FailedSeq (verify_from lib i es p) = a_seq (es ! k) \<and>
     br_FailureType (verify_from lib i es p) = failure_of lib (prior es p k) (es ! k)"
  using assms
proof (induction lib i es p rule: verify_from.induct)
  case (1 lib i p)
  then show ?case by simp
next
  case (2 lib i e es p)
  show ?case
  proof (cases "row_ok lib p e")
    case False
    then show ?thesis
      by (intro exI [of _ 0])
        (auto simp: prior_def row_ok_def failure_of_def Let_def split: sum.splits)
  next
    case True
    then obtain c where c: "CanonicalizeMetadata lib (a_metadata e) = Inr c"
      "ComputeEntryHash lib (entry_of_row e c) = a_hash e"
      "slice_bytes (a_prev_hash e) = slice_bytes p"
      by (auto simp: row_ok_def)
    with True 2 have "\<not> rows_ok lib es (Some (a_hash e))" by simp
    with 2(1) [OF _ c(1) refl] c(2,3) obtain k where k: "k < length es"
      "\<forall>j<k. row_ok lib (prior es (Some (a_hash e)) j) (es ! j)"
      "\<not> row_ok lib (prior es (Some (a_hash e)) k) (es ! k)"
      "br_EntriesChecked (verify_from lib (i + 1) es (Some (a_hash e))) = i + 1 + int k"
      "br_FailedEntryID (verify_from lib (i + 1) es (Some (a_hash e))) = Some (a_id (es ! k))"
      "br_FailedSeq (verify_from lib (i + 1) es (Some (a_hash e))) = a_seq (es ! k)"
      "br_FailureType (verify_from lib (i + 1) es (Some (a_hash e))) =
         failure_of lib (prior es (Some (a_hash e)) k) (es ! k)"
      by auto
    show ?thesis
      by (intro exI [of _ "Suc k"])
        (use k c True in \<open>simp add: prior_Cons All_less_Suc2 prior_def [of _ _ 0] Let_def\<close>)
  qed
qed

lemma verify_from_shift:
  "verify_from lib (i + j) es p = (verify_from lib i es p)
     \<lparr>br_EntriesChecked := br_EntriesChecked (verify_from lib i es p) + j\<rparr>"
proof (induction es arbitrary: i p)
  case Nil
  show ?case by simp
next
  case (Cons e es)
  show ?case
    using Cons.IH [of "i + 1" "Some (a_hash e)"]
    by (auto simp: Let_def add.assoc add.commute [of j] split: sum.splits)
qed

text \<open>
  A chain verified in two batches, the second one started from the first one's last hash, is
  verified as it would be in one: the same verdict, the same failing entry and, up to the
  entries of the first batch, the same count.
\<close>

lemma verify_append:
  "VerifyBatch lib (xs @ ys) p =
     (let r = VerifyBatch lib xs p in
      if br_OK r then
        (let s = VerifyBatch lib ys (br_LastHash r) in
         s\<lparr>br_EntriesChecked := br_EntriesChecked r + br_EntriesChecked s\<rparr>)
      else r)"
proof -
  have main: "verify_from lib i (xs @ ys) p =
     (if rows_ok lib xs p then verify_from lib (i + int (length xs)) ys (head_hash xs p)
      else verify_from lib i xs p)" for i
  proof (induction xs arbitrary: i p)
    case Nil
    show ?case by simp
  next
    case (Cons e xs)
    show ?case
      by (auto simp: Cons.IH Let_def row_ok_def algebra_simps split: sum.splits)
  qed
  show ?thesis
    unfolding VerifyBatch_def Let_def verify_from_OK main
    using verify_from_shift [of lib 0 "int (length xs)" ys "head_hash xs p"]
    by (auto simp: verify_from_success algebra_simps)
qed

section \<open>What the entry hash commits to\<close>

definition single_line :: "string \<Rightarrow> bool" where
  "single_line s \<longleftrightarrow> CHR 0x0A \<notin> set s"

lemma line_split:
  "single_line a \<Longrightarrow> single_line b \<Longrightarrow> a @ nl @ x = b @ nl @ y \<longleftrightarrow> a = b \<and> x = y"
proof (induction a arbitrary: b)
  case Nil
  then show ?case by (cases b) (auto simp: nl_def single_line_def)
next
  case (Cons c a)
  then show ?case by (cases b) (auto simp: nl_def single_line_def)
qed

lemma last_line_split:
  assumes "single_line s" "single_line t"
  shows "x @ nl @ s = y @ nl @ t \<longleftrightarrow> x = y \<and> s = t"
proof -
  have "x @ nl @ s = y @ nl @ t \<longleftrightarrow> rev s @ nl @ rev x = rev t @ nl @ rev y"
    by (subst rev_is_rev_conv [symmetric]) (simp add: nl_def)
  also have "\<dots> \<longleftrightarrow> rev s = rev t \<and> rev x = rev y"
    by (rule line_split) (use assms in \<open>simp_all add: single_line_def\<close>)
  finally show ?thesis by auto
qed

lemma lines_split:
  "length ls = length ms \<Longrightarrow> \<forall>l\<in>set ls. single_line l \<Longrightarrow> \<forall>l\<in>set ms. single_line l \<Longrightarrow>
    concat (map (\<lambda>l. l @ nl) ls) @ x = concat (map (\<lambda>l. l @ nl) ms) @ y \<longleftrightarrow> ls = ms \<and> x = y"
proof (induction ls ms rule: list_induct2)
  case Nil
  show ?case by simp
next
  case (Cons l ls m ms)
  then show ?case by (simp add: line_split)
qed

definition entry_lines :: "library \<Rightarrow> entry \<Rightarrow> string list" where
  "entry_lines lib e = [''evidentia-audit-entry'', ''id='' @ uuid_string (en_id e),
     ''timestamp='' @ lib_rfc3339 lib (en_timestamp e), ''user_id='' @ uuidOrEmpty (en_user_id e),
     ''role='' @ en_role e, ''action='' @ en_action e, ''resource_type='' @ en_resource_type e,
     ''resource_id='' @ uuidOrEmpty (en_resource_id e), ''case_id='' @ uuidOrEmpty (en_case_id e)]"

lemma entry_text_lines:
  "entry_text lib e = concat (map (\<lambda>l. l @ nl) (entry_lines lib e)) @
     (''metadata='' @ en_metadata e) @ nl @ ''prev_hash='' @ prevHashOrGenesis (en_prev_hash e)"
  by (simp add: entry_text_def entry_lines_def)

text \<open>
  \<^verbatim>\<open>rfc3339_laws\<close>: formatting a UTC instant of microsecond resolution with
  \<^verbatim>\<open>time.RFC3339Nano\<close> yields one line and loses nothing.
\<close>

definition rfc3339_laws :: "library \<Rightarrow> bool" where
  "rfc3339_laws lib \<longleftrightarrow> (\<forall>s t. lib_rfc3339 lib s = lib_rfc3339 lib t \<longrightarrow> s = t) \<and>
     (\<forall>t. single_line (lib_rfc3339 lib t))"

definition plain_entry :: "entry \<Rightarrow> bool" where
  "plain_entry e \<longleftrightarrow> single_line (en_role e) \<and> single_line (en_action e) \<and>
     single_line (en_resource_type e)"

lemma single_line_simps [simp]:
  "single_line []" "single_line (c # s) \<longleftrightarrow> c \<noteq> CHR 0x0A \<and> single_line s"
  "single_line (s @ t) \<longleftrightarrow> single_line s \<and> single_line t"
  by (auto simp: single_line_def)

lemma single_line_uuid [simp]: "single_line (uuid_string u)"
  using uuid_string_set [of u] by (fastforce simp: single_line_def)

lemma single_line_uuidOrEmpty [simp]: "single_line (uuidOrEmpty i)"
  by (simp add: uuidOrEmpty_def split: option.splits)

lemma single_line_hex [simp]: "single_line (hex_encode b)"
  using hex_encode_set [of b] by (fastforce simp: single_line_def)

lemma uuid_string_nonempty: "uuid_string u \<noteq> []"
  by (simp add: uuid_string_def dashed_def)

lemma uuidOrEmpty_inject [simp]: "uuidOrEmpty i = uuidOrEmpty j \<longleftrightarrow> i = j"
  using uuid_string_nonempty
  by (auto simp: uuidOrEmpty_def uuid_string_inject split: option.splits) metis+

lemma prevHash_inject:
  "prevHashOrGenesis p = prevHashOrGenesis q \<longleftrightarrow> slice_bytes p = slice_bytes q"
proof -
  have "hex_encode b \<noteq> ''genesis''" for b
    using hex_encode_set [of b] by auto
  then show ?thesis
    by (auto simp: prevHashOrGenesis_def genesisMarker_def hex_encode_inject) metis+
qed

lemma single_line_prevHash [simp]: "single_line (prevHashOrGenesis p)"
  by (simp add: prevHashOrGenesis_def genesisMarker_def)

lemma single_line_entry_lines:
  "rfc3339_laws lib \<Longrightarrow> plain_entry e \<Longrightarrow> \<forall>l\<in>set (entry_lines lib e). single_line l"
  by (simp add: entry_lines_def rfc3339_laws_def plain_entry_def)

lemma entry_text_inject:
  assumes "rfc3339_laws lib" "plain_entry e" "plain_entry f"
  shows "entry_text lib e = entry_text lib f \<longleftrightarrow>
    e\<lparr>en_prev_hash := None\<rparr> = f\<lparr>en_prev_hash := None\<rparr> \<and>
    slice_bytes (en_prev_hash e) = slice_bytes (en_prev_hash f)"
proof -
  have "entry_text lib e = entry_text lib f \<longleftrightarrow> entry_lines lib e = entry_lines lib f \<and>
     (''metadata='' @ en_metadata e) @ nl @ ''prev_hash='' @ prevHashOrGenesis (en_prev_hash e) =
     (''metadata='' @ en_metadata f) @ nl @ ''prev_hash='' @ prevHashOrGenesis (en_prev_hash f)"
    unfolding entry_text_lines
    by (rule lines_split) (use assms single_line_entry_lines in \<open>simp_all add: entry_lines_def\<close>)
  also have "\<dots> \<longleftrightarrow> entry_lines lib e = entry_lines lib f \<and> en_metadata e = en_metadata f \<and>
     slice_bytes (en_prev_hash e) = slice_bytes (en_prev_hash f)"
    by (subst last_line_split) (simp_all add: prevHash_inject)
  also have "\<dots> \<longleftrightarrow> e\<lparr>en_prev_hash := None\<rparr> = f\<lparr>en_prev_hash := None\<rparr> \<and>
    slice_bytes (en_prev_hash e) = slice_bytes (en_prev_hash f)"
    using assms(1) unfolding entry_lines_def rfc3339_laws_def
    by (cases e; cases f) (auto simp: uuid_string_inject)
  finally show ?thesis .
qed

section \<open>What a verified chain binds\<close>

text \<open>The contents of a stored row an entry hash commits to, its link apart.\<close>

definition committed :: "library \<Rightarrow> audit_row \<Rightarrow> entry option" where
  "committed lib e = (case CanonicalizeMetadata lib (a_metadata e) of Inl err \<Rightarrow> None
     | Inr c \<Rightarrow> Some ((entry_of_row e c)\<lparr>en_prev_hash := None\<rparr>))"

definition row_text :: "library \<Rightarrow> audit_row \<Rightarrow> bytes" where
  "row_text lib e = (case CanonicalizeMetadata lib (a_metadata e) of Inl err \<Rightarrow> []
     | Inr c \<Rightarrow> entry_text lib (entry_of_row e c))"

definition no_collision :: "library \<Rightarrow> audit_row list \<Rightarrow> audit_row list \<Rightarrow> bool" where
  "no_collision lib es fs \<longleftrightarrow> (\<forall>e\<in>set es. \<forall>f\<in>set fs.
     lib_sha256 lib (row_text lib e) = lib_sha256 lib (row_text lib f) \<longrightarrow>
     row_text lib e = row_text lib f)"

definition plain_row :: "audit_row \<Rightarrow> bool" where
  "plain_row e \<longleftrightarrow> single_line (roleOrEmpty (a_role e)) \<and> single_line (a_action e) \<and>
     single_line (a_resource_type e) \<and> a_hash e \<noteq> []"

lemma row_ok_text: "row_ok lib p e \<Longrightarrow> a_hash e = lib_sha256 lib (row_text lib e)"
  by (auto simp: row_ok_def row_text_def ComputeEntryHash_def)

lemma row_ok_committed: "row_ok lib p e \<Longrightarrow> committed lib e \<noteq> None"
  by (auto simp: row_ok_def committed_def)

lemma row_text_binds:
  assumes "rfc3339_laws lib" "plain_row e" "plain_row f" "row_ok lib p e" "row_ok lib q f"
    "row_text lib e = row_text lib f"
  shows "committed lib e = committed lib f \<and> slice_bytes p = slice_bytes q"
proof -
  obtain c d where cd: "CanonicalizeMetadata lib (a_metadata e) = Inr c"
    "CanonicalizeMetadata lib (a_metadata f) = Inr d"
    using assms(4,5) by (auto simp: row_ok_def)
  have "plain_entry (entry_of_row e c)" "plain_entry (entry_of_row f d)"
    using assms(2,3) by (simp_all add: plain_row_def plain_entry_def entry_of_row_def)
  moreover have "entry_text lib (entry_of_row e c) = entry_text lib (entry_of_row f d)"
    using assms(6) cd by (simp add: row_text_def)
  ultimately have "(entry_of_row e c)\<lparr>en_prev_hash := None\<rparr> = (entry_of_row f d)\<lparr>en_prev_hash := None\<rparr>"
    "slice_bytes (a_prev_hash e) = slice_bytes (a_prev_hash f)"
    using entry_text_inject [OF assms(1)] by (auto simp: entry_of_row_def)
  then show ?thesis using cd assms(4,5) by (simp add: committed_def row_ok_def)
qed

lemma slice_head_hash_snoc [simp]: "slice_bytes (head_hash (xs @ [e]) p) = a_hash e"
  by (simp add: head_hash_def slice_bytes_def)

lemma chain_binds:
  assumes "rfc3339_laws lib" "\<forall>e\<in>set es. plain_row e" "\<forall>f\<in>set fs. plain_row f"
    and "rows_ok lib es None" "rows_ok lib fs None"
    and "slice_bytes (head_hash es None) = slice_bytes (head_hash fs None)"
    and "no_collision lib es fs"
  shows "map (committed lib) es = map (committed lib) fs"
  using assms(2-)
proof (induction es arbitrary: fs rule: rev_induct)
  case Nil
  then show ?case
    by (cases fs rule: rev_cases) (auto simp: plain_row_def slice_bytes_def [of None])
next
  case (snoc e es)
  then obtain ys f where fs: "fs = ys @ [f]"
    by (cases fs rule: rev_cases) (auto simp: plain_row_def slice_bytes_def [of None])
  from snoc.prems fs have ok: "row_ok lib (head_hash es None) e" "row_ok lib (head_hash ys None) f"
    "a_hash e = a_hash f"
    by (simp_all add: rows_ok_append)
  then have "row_text lib e = row_text lib f"
    using snoc.prems(6) fs row_ok_text [OF ok(1)] row_ok_text [OF ok(2)]
    by (simp add: no_collision_def)
  then have "committed lib e = committed lib f"
    "slice_bytes (head_hash es None) = slice_bytes (head_hash ys None)"
    using row_text_binds [OF assms(1) _ _ ok(1,2)] snoc.prems fs by simp_all
  moreover from this have "map (committed lib) es = map (committed lib) ys"
    using snoc.prems fs by (intro snoc.IH) (simp_all add: rows_ok_append no_collision_def)
  ultimately show ?case using fs by simp
qed

section \<open>The writer keeps the chain verifiable\<close>

text \<open>
  What the writer needs of \<^verbatim>\<open>encoding/json\<close> and of \<^verbatim>\<open>jsonb\<close>, for metadata built
  of objects, arrays, strings, integers, booleans and null: decoding what was encoded from
  a decoded value gives that value back, and so does decoding what a \<^verbatim>\<open>jsonb\<close> column
  returns for it.
\<close>

fun plain_json :: "json \<Rightarrow> bool" where
  "plain_json (JNum s) = False"
| "plain_json (JArr js) = list_all plain_json js"
| "plain_json (JObj kvs) = list_all (\<lambda>(k, v). plain_json v) kvs"
| "plain_json _ = True"

definition json_laws :: "library \<Rightarrow> bool" where
  "json_laws lib \<longleftrightarrow>
     lib_json_decode lib ''{}'' = Inr (JObj []) \<and> lib_json_marshal lib (JObj []) = ''{}'' \<and>
     (\<forall>v. lib_json_decode lib [] \<noteq> Inr v) \<and>
     (\<forall>m v. plain_json m \<longrightarrow> lib_json_decode lib (lib_json_marshal lib m) = Inr v \<longrightarrow> plain_json v) \<and>
     (\<forall>t v. lib_json_decode lib t = Inr v \<longrightarrow> plain_json v \<longrightarrow>
        lib_json_decode lib (lib_json_marshal lib v) = Inr v) \<and>
     (\<forall>v t. plain_json v \<longrightarrow> lib_jsonb lib (lib_json_marshal lib v) = Some t \<longrightarrow>
        lib_json_decode lib t = lib_json_decode lib (lib_json_marshal lib v))"

definition stable_json :: "library \<Rightarrow> bytes \<Rightarrow> bool" where
  "stable_json lib c \<longleftrightarrow> (\<forall>t. lib_jsonb lib c = Some t \<longrightarrow> CanonicalizeMetadata lib t = Inr c)"

lemma canonical_stable:
  assumes laws: "json_laws lib" and m: "plain_json m"
    and c: "canonicalizeEventMetadata lib m = Inr c"
  shows "stable_json lib c"
proof -
  have key: "\<exists>v. plain_json v \<and> v \<noteq> JNull \<and> c = lib_json_marshal lib v \<and> lib_json_decode lib c = Inr v"
  proof (cases "c = ''{}''")
    case True
    then show ?thesis using laws by (intro exI [of _ "JObj []"]) (simp add: json_laws_def)
  next
    case False
    with c obtain v where "lib_json_decode lib (lib_json_marshal lib m) = Inr v" "v \<noteq> JNull"
      "c = lib_json_marshal lib v"
      by (auto simp: canonicalizeEventMetadata_def CanonicalizeMetadata_def split: if_splits sum.splits)
    with laws m show ?thesis by (metis json_laws_def)
  qed
  then obtain v where v: "plain_json v" "v \<noteq> JNull" "c = lib_json_marshal lib v"
    "lib_json_decode lib c = Inr v"
    by blast
  have "CanonicalizeMetadata lib t = Inr c" if t: "lib_jsonb lib c = Some t" for t
  proof -
    have "lib_json_decode lib t = Inr v"
      using laws v t unfolding json_laws_def by metis
    moreover from this laws have "t \<noteq> []"
      unfolding json_laws_def by metis
    ultimately show ?thesis using v by (simp add: CanonicalizeMetadata_def)
  qed
  then show ?thesis by (simp add: stable_json_def)
qed

definition audit_good :: "world \<Rightarrow> bool" where
  "audit_good w \<longleftrightarrow> rows_ok (w_lib w) (t_audit_log (w_db w)) None \<and>
     sorted_wrt (<) (map seq_of (t_audit_log (w_db w))) \<and>
     list_all (\<lambda>a. 0 < seq_of a \<and> seq_of a < w_seq w \<and>
       (case a_prev_hash a of None \<Rightarrow> True | Some p \<Rightarrow> length p = 32) \<and> length (a_hash a) = 32)
       (t_audit_log (w_db w)) \<and> 0 < w_seq w"

definition audit_step :: "world \<Rightarrow> world \<Rightarrow> bool" where
  "audit_step w w' \<longleftrightarrow> w_lib w' = w_lib w \<and> w_seq w \<le> w_seq w' \<and>
     prefix (t_audit_log (w_db w)) (t_audit_log (w_db w')) \<and>
     (json_laws (w_lib w) \<longrightarrow> audit_good w \<longrightarrow> audit_good w')"

interpretation chain: guarantee audit_step
proof
  fix w w' w'' c t n k f p j ob rc lg
  show "audit_step w w" by (simp add: audit_step_def)
  show "audit_step w w' \<Longrightarrow> audit_step w' w'' \<Longrightarrow> audit_step w w''"
    unfolding audit_step_def by (metis order.trans prefix_order.trans)
  show "w_clock_i w \<le> n \<Longrightarrow> w_rng_i w \<le> k \<Longrightarrow> w_fault_i w \<le> f \<Longrightarrow>
     audit_step w (w\<lparr>w_ctx := c, w_tx_now := t, w_clock_i := n, w_rng_i := k,
       w_fault_i := f, w_published := p, w_jobs := j, w_objects := ob,
       w_counters := rc, w_ledger := lg\<rparr>)"
    by (simp add: audit_step_def audit_good_def)
  show "audit_step w (w'\<lparr>w_db := w_db w\<rparr>)" if step: "audit_step w w'"
  proof -
    have le: "w_seq w \<le> w_seq w'" and lib: "w_lib w' = w_lib w"
      using step by (simp_all add: audit_step_def)
    have "audit_good (w'\<lparr>w_db := w_db w\<rparr>)" if "audit_good w"
      using that le lib unfolding audit_good_def
      by (simp, elim conjE) (rule list.pred_mono_strong, assumption, simp)
    then show ?thesis using le lib by (simp add: audit_step_def)
  qed
qed

lemma audit_visible_admin:
  assumes "app_admin c" "sorted_wrt (<) (map seq_of (t_audit_log d))"
  shows "audit_visible d c = t_audit_log d"
proof -
  have "filter (audit_log_select d c) (t_audit_log d) = t_audit_log d"
    using assms(1) by (simp add: audit_log_select_def filter_id_conv)
  moreover have "sorted (map seq_of (t_audit_log d))"
    using assms(2) by (rule sorted_wrt_mono_rel [rotated]) simp
  ultimately show ?thesis by (simp add: audit_visible_def sort_key_id_if_sorted)
qed

lemma chain_head_run:
  assumes "chain_head w = (Inr prev, w')" "app_admin (w_ctx w)" "audit_good w"
  shows "w' = faulted w \<and>
    (prev = None \<or> prev = head_hash (t_audit_log (w_db w)) None)"
  using assms audit_visible_admin [of "w_ctx w" "w_db w"]
  by (auto simp: chain_head_def q_GetLatestAuditEntry_def query_def op_succ audit_good_def
      head_hash_def one_def rev_swap split: option.splits if_splits list.splits)

lemma genesis_first:
  assumes "audit_good w" "t_audit_log (w_db w) \<noteq> []"
  shows "\<exists>r\<in>set (t_audit_log (w_db w)). a_prev_hash r = None"
proof -
  obtain r rs where log: "t_audit_log (w_db w) = r # rs"
    using assms(2) by (cases "t_audit_log (w_db w)") auto
  then have "a_prev_hash r = None"
    using assms(1) by (cases "a_prev_hash r") (auto simp: audit_good_def row_ok_def slice_bytes_def)
  then show ?thesis using log by auto
qed

lemma role_roundtrip [simp]: "roleOrEmpty (nilIfEmpty r) = r"
  by (simp add: roleOrEmpty_def nilIfEmpty_def)

lemma event_row_entry:
  "entry_of_row ((event_row ev c i ts prev h)\<lparr>a_seq := s, a_metadata := m\<rparr>) c =
     event_entry ev c i ts prev"
  by (simp add: entry_of_row_def event_row_def event_entry_def)

lemma audit_good_snoc:
  assumes good: "audit_good w" and ok: "row_ok (w_lib w) (head_hash (t_audit_log (w_db w)) None) a"
    and seq: "a_seq a = Some (w_seq w)"
    and len: "length (a_hash a) = 32" "case a_prev_hash a of None \<Rightarrow> True | Some p \<Rightarrow> length p = 32"
  shows "audit_good (w\<lparr>w_seq := w_seq w + 1,
     w_db := (w_db w)\<lparr>t_audit_log := t_audit_log (w_db w) @ [a]\<rparr>\<rparr>)"
proof -
  have "rows_ok (w_lib w) (t_audit_log (w_db w) @ [a]) None"
    using good ok by (simp add: audit_good_def rows_ok_append)
  moreover have "seq_of a = w_seq w" using seq by (simp add: seq_of_def)
  moreover have "\<forall>r\<in>set (t_audit_log (w_db w)). seq_of r < w_seq w"
    using good by (auto simp: audit_good_def list_all_iff)
  ultimately show ?thesis
    using good len unfolding audit_good_def
    by (simp add: sorted_wrt_append list_all_iff) fastforce
qed

lemma insert_audit_step:
  assumes a: "a = event_row ev c i ts prev (ComputeEntryHash (w_lib w) (event_entry ev c i ts prev))"
    and stable: "json_laws (w_lib w) \<Longrightarrow> stable_json (w_lib w) c"
    and prev: "audit_good w \<Longrightarrow> prev = None \<or> prev = head_hash (t_audit_log (w_db w)) None"
  shows "audit_step w (snd (q_InsertAuditEntry a w))"
proof (cases "\<exists>r. fst (q_InsertAuditEntry a w) = Inr r")
  case False
  then show ?thesis
    by (auto simp: q_InsertAuditEntry_def infra_def Let_def audit_step_def audit_good_def list_all_iff
        split: option.splits)
next
  case True
  then obtain a' w' where run: "q_InsertAuditEntry a w = (Inr a', w')" by (metis prod.collapse)
  then obtain t where t: "lib_jsonb (w_lib w) c = Some t"
    and a': "a' = a\<lparr>a_seq := Some (w_seq w), a_metadata := t\<rparr>"
    and ok: "violated (audit_log_checks (w_db w) (w_ctx w) a') = None"
    and w': "w' = (faulted w)\<lparr>w_seq := w_seq w + 1,
       w_db := (w_db w)\<lparr>t_audit_log := t_audit_log (w_db w) @ [a']\<rparr>\<rparr>"
    by (auto simp: q_InsertAuditEntry_def infra_run Let_def a event_row_def split: option.splits)
  have checks: "\<forall>(b, e)\<in>set (audit_log_checks (w_db w) (w_ctx w) a'). b"
    using ok by (simp only: violated_None)
  have "audit_good w'" if good: "audit_good w" and laws: "json_laws (w_lib w)"
  proof -
    have "prev = head_hash (t_audit_log (w_db w)) None"
    proof (cases "t_audit_log (w_db w) = []")
      case True
      then show ?thesis using prev [OF good] by (auto simp: head_hash_def)
    next
      case False
      then have "a_prev_hash a' \<noteq> None"
        using genesis_first [OF good] checks
        by (auto simp: audit_log_checks_def list_ex_iff)
      then show ?thesis using prev [OF good] by (auto simp: a' a event_row_def)
    qed
    moreover have "CanonicalizeMetadata (w_lib w) t = Inr c"
      using stable [OF laws] t by (simp add: stable_json_def)
    ultimately have "row_ok (w_lib w) (head_hash (t_audit_log (w_db w)) None) a'"
      by (simp add: row_ok_def a' a event_row_entry) (simp add: event_row_def)
    moreover have "audit_good (faulted w)" using good by (simp add: audit_good_def)
    ultimately show ?thesis
      using audit_good_snoc [of "faulted w" a'] checks
      by (simp add: w' a' audit_log_checks_def)
  qed
  then show ?thesis by (simp add: run audit_step_def) (simp add: w')
qed

lemma guar_chain_head [intro!]: "chain.guar chain_head"
  unfolding chain_head_def q_GetLatestAuditEntry_def by auto

lemma append_body_step:
  assumes admin: "w_ctx w = ident_ctx (chain_ident ev)"
    and stable: "json_laws (w_lib w) \<Longrightarrow> stable_json (w_lib w) c"
  shows "audit_step w (snd (
     (try_wrap q_AcquireAuditChainLock ''acquire chain lock'' (\<lambda>_.
     bindE chain_head (\<lambda>prev.
     bindE uuid_new (\<lambda>i.
     bindE time_now (\<lambda>ts.
     bindE (get_world (\<lambda>w. ComputeEntryHash (w_lib w) (event_entry ev c i ts prev))) (\<lambda>h.
     bindE (q_InsertAuditEntry (event_row ev c i ts prev h)) (\<lambda>_. ret ()))))))) w))"
proof -
  have adm: "app_admin (w_ctx w)"
    by (simp add: admin app_admin_def ident_ctx_def chain_ident_def)
  define k where "k prev = bindE uuid_new (\<lambda>i. bindE time_now (\<lambda>ts.
     bindE (get_world (\<lambda>w. ComputeEntryHash (w_lib w) (event_entry ev c i ts prev))) (\<lambda>h.
     bindE (q_InsertAuditEntry (event_row ev c i ts prev h)) (\<lambda>_. ret ()))))" for prev
  have k: "audit_step v (snd (k prev v))"
    if "w_lib v = w_lib w" "audit_good v \<Longrightarrow> prev = None \<or> prev = head_hash (t_audit_log (w_db v)) None"
    for v prev
  proof -
    define v' where "v' = v\<lparr>w_rng_i := Suc (w_rng_i v), w_clock_i := Suc (w_clock_i v)\<rparr>"
    let ?i = "w_rng v (w_rng_i v)" and ?ts = "w_clock v (w_clock_i v)"
    have "audit_step v' (snd (q_InsertAuditEntry (event_row ev c ?i ?ts prev
       (ComputeEntryHash (w_lib v') (event_entry ev c ?i ?ts prev))) v'))"
      using that stable
      by (intro insert_audit_step [OF refl]) (simp_all add: v'_def audit_good_def)
    moreover have "audit_step v v'"
      by (simp add: audit_step_def audit_good_def v'_def)
    moreover have "snd (k prev v) = snd (q_InsertAuditEntry (event_row ev c ?i ?ts prev
       (ComputeEntryHash (w_lib v') (event_entry ev c ?i ?ts prev))) v')"
      by (simp add: k_def tryE_def uuid_new_def time_now_def get_world_def v'_def fail_def ret_def
          split: prod.splits sum.splits)
    ultimately show ?thesis by (metis chain.trans)
  qed
  show ?thesis
    unfolding k_def [symmetric]
  proof (cases "w_faults w (w_fault_i w)")
    case (Some e)
    then show "audit_step w (snd (try_wrap q_AcquireAuditChainLock ''acquire chain lock''
        (\<lambda>_. bindE chain_head k) w))"
      using chain.env_faulted
      by (simp add: tryE_def q_AcquireAuditChainLock_def query_def infra_def fail_def flip: faulted_def)
  next
    case None
    then have "q_AcquireAuditChainLock w = (Inr (), faulted w)"
      by (simp add: q_AcquireAuditChainLock_def query_def infra_def flip: faulted_def)
    then have "snd (try_wrap q_AcquireAuditChainLock ''acquire chain lock''
        (\<lambda>_. bindE chain_head k) w) = snd (bindE chain_head k (faulted w))"
      by (simp add: tryE_def [of q_AcquireAuditChainLock])
    moreover have "audit_step (faulted w) (snd (bindE chain_head k (faulted w)))"
    proof (cases "chain_head (faulted w)")
      case (Pair r w1)
      then have step: "audit_step (faulted w) w1"
        using chain.guarD [OF guar_chain_head, of "faulted w"] by simp
      show ?thesis
      proof (cases r)
        case (Inl e)
        then show ?thesis using Pair step by (simp add: tryE_def fail_def)
      next
        case (Inr prev)
        have good: "audit_good (faulted w) = audit_good w1" "w_lib w1 = w_lib w"
          "w_db w1 = w_db w"
          using Pair Inr
          by (auto simp: chain_head_def q_GetLatestAuditEntry_def query_def infra_run audit_good_def
              tryE_Inr op_succ split: option.splits if_splits)
        have "audit_step w1 (snd (k prev w1))"
          using k [of w1 prev] good chain_head_run [of "faulted w" prev w1] Pair Inr adm by auto
        then show ?thesis using Pair Inr step by (simp add: tryE_def) (metis chain.trans)
      qed
    qed
    ultimately show "audit_step w (snd (try_wrap q_AcquireAuditChainLock ''acquire chain lock''
        (\<lambda>_. bindE chain_head k) w))"
      by (metis chain.trans chain.env_faulted)
  qed
qed

lemma guar_append_tx:
  assumes "json_laws lib \<Longrightarrow> stable_json lib c"
  shows "w_lib w = lib \<Longrightarrow> audit_step w (snd (append_tx ev c w))"
proof -
  let ?body = "try_wrap q_AcquireAuditChainLock ''acquire chain lock'' (\<lambda>_.
     bindE chain_head (\<lambda>prev.
     bindE uuid_new (\<lambda>i.
     bindE time_now (\<lambda>ts.
     bindE (get_world (\<lambda>w. ComputeEntryHash (w_lib w) (event_entry ev c i ts prev))) (\<lambda>h.
     bindE (q_InsertAuditEntry (event_row ev c i ts prev h)) (\<lambda>_. ret ()))))))"
  define fn where "fn v = (if w_lib v = lib then ?body v else ret () v)" for v
  have "chain.guar (WithTx (chain_ident ev) fn)"
    by (rule chain.guar_WithTx_ident)
      (use assms append_body_step in \<open>auto simp: fn_def ret_def chain.refl\<close>)
  moreover have "append_tx ev c w = WithTx (chain_ident ev) fn w" if "w_lib w = lib"
    using that unfolding append_tx_def WithTx_def begin_tx_def
    by (auto simp: tryE_def [of "infra _"] tryE_def [of ?body] tryE_def [of fn] infra_def Let_def ret_def fn_def split: option.splits)
  ultimately show "w_lib w = lib \<Longrightarrow> audit_step w (snd (append_tx ev c w))"
    by (metis chain.guarD)
qed

lemma append_attempts_step:
  assumes "\<And>w. w_lib w = lib \<Longrightarrow> audit_step w (snd (tx w))" "w_lib w = lib"
  shows "audit_step w (snd (append_attempts n le tx w))"
  using assms(2)
proof (induction n arbitrary: le w)
  case 0
  then show ?case by (simp add: fail_def chain.refl)
next
  case (Suc n)
  obtain r w1 where run: "tx w = (r, w1)" by (cases "tx w")
  with assms(1) Suc.prems have step: "audit_step w w1" by fastforce
  then have "w_lib w1 = lib" using Suc.prems by (simp add: audit_step_def)
  then show ?case
    using run step Suc.IH chain.trans
    by (auto simp: tryE_def fail_def ret_def split: sum.splits)
qed

lemma guar_Record [intro]:
  assumes "plain_json (ev_metadata ev)" shows "chain.guar (Record ev)"
proof (rule chain.guarI)
  fix w
  show "audit_step w (snd (Record ev w))"
  proof (cases "canonicalizeEventMetadata (w_lib w) (ev_metadata ev)")
    case (Inl e)
    then show ?thesis by (simp add: Record_def ignoring_def ret_def chain_append_def chain.refl)
  next
    case (Inr c)
    have "audit_step w (snd (append_attempts maxChainWriteAttempts None (append_tx ev c) w))"
    proof (rule append_attempts_step [OF _ refl])
      fix v :: world assume "w_lib v = w_lib w"
      then show "audit_step v (snd (append_tx ev c v))"
        using guar_append_tx [of "w_lib w" c v ev] canonical_stable [OF _ assms Inr] by blast
    qed
    then show ?thesis
      by (simp add: Record_def ignoring_def ret_def chain_append_def Inr)
  qed
qed

lemma sample_json_laws: "json_laws sample_lib"
  by (simp add: json_laws_def sample_lib_def sample_decode_def sample_marshal_def)

definition sample_event :: event where [run_defs]:
  "sample_event = \<lparr>ev_action = ''CASE_CREATED'', ev_resource_type = ''case'',
     ev_resource_id = Some 5, ev_user_id = None, ev_role = ''ADMIN'', ev_case_id = None,
     ev_metadata = JObj [(''case_number'', JStr ''C-1'')]\<rparr>"




lemma sample_time_inject: "sample_time s = sample_time t \<Longrightarrow> s = t"
  by (cases "nat \<bar>s\<bar>"; cases "nat \<bar>t\<bar>") (auto simp: sample_time_def split: if_splits)

lemma sample_time_line: "single_line (sample_time t)"
  by (simp add: sample_time_def single_line_def)

lemma sample_rfc3339_laws: "rfc3339_laws sample_lib"
  by (simp only: rfc3339_laws_def sample_lib_def library.simps sample_time_line)
    (blast dest: sample_time_inject)

section \<open>Recorders\<close>

text \<open>
  What a service relies on when it records an event: the call never reports a failure, it
  touches no table but \<^verbatim>\<open>audit_log\<close>, and it respects the chain.
\<close>

locale recorder =
  fixes rec :: "event \<Rightarrow> unit op"
  assumes total: "fst (rec ev w) = Inr ()"
    and frame: "(w_db (snd (rec ev w)))\<lparr>t_audit_log := []\<rparr> = (w_db w)\<lparr>t_audit_log := []\<rparr>"
    and chained: "plain_json (ev_metadata ev) \<Longrightarrow> audit_step w (snd (rec ev w))"
begin

lemma runs: "\<exists>w'. rec ev w = (Inr (), w')"
  using total by (metis prod.collapse)

lemma then_run: "tryE (rec ev) h k w = k () (snd (rec ev w))"
  using total [of ev w] by (cases "rec ev w") (auto simp: tryE_def)

lemma guar_rec: "plain_json (ev_metadata ev) \<Longrightarrow> chain.guar (rec ev)"
  by (rule chain.guarI) (rule chained)

lemma keeps_tables:
  "t_users (w_db (snd (rec ev w))) = t_users (w_db w)"
  "t_roles (w_db (snd (rec ev w))) = t_roles (w_db w)"
  "t_permissions (w_db (snd (rec ev w))) = t_permissions (w_db w)"
  "t_user_roles (w_db (snd (rec ev w))) = t_user_roles (w_db w)"
  "t_role_permissions (w_db (snd (rec ev w))) = t_role_permissions (w_db w)"
  "t_cases (w_db (snd (rec ev w))) = t_cases (w_db w)"
  "t_case_members (w_db (snd (rec ev w))) = t_case_members (w_db w)"
  "t_parties (w_db (snd (rec ev w))) = t_parties (w_db w)"
  "t_documents (w_db (snd (rec ev w))) = t_documents (w_db w)"
  "t_shares (w_db (snd (rec ev w))) = t_shares (w_db w)"
  "t_sessions (w_db (snd (rec ev w))) = t_sessions (w_db w)"
  "t_verifications (w_db (snd (rec ev w))) = t_verifications (w_db w)"
  "t_anchors (w_db (snd (rec ev w))) = t_anchors (w_db w)"
  "t_certificates (w_db (snd (rec ev w))) = t_certificates (w_db w)"
  "t_exports (w_db (snd (rec ev w))) = t_exports (w_db w)"
  "t_redactions (w_db (snd (rec ev w))) = t_redactions (w_db w)"
  using frame [of ev w] by (cases "w_db (snd (rec ev w))"; cases "w_db w"; simp)+

end

text \<open>Everything but the audit log is left alone: a guarantee like the chain's.\<close>

definition only_audit :: "world \<Rightarrow> world \<Rightarrow> bool" where
  "only_audit w w' \<longleftrightarrow> (w_db w')\<lparr>t_audit_log := []\<rparr> = (w_db w)\<lparr>t_audit_log := []\<rparr>"

interpretation audit_frame: guarantee only_audit
  by unfold_locales (simp_all add: only_audit_def)

lemma guar_frame_insert: "audit_frame.guar (q_InsertAuditEntry a)"
  unfolding q_InsertAuditEntry_def
  by (rule audit_frame.guar_infra)
    (auto simp: audit_frame.guar_def only_audit_def Let_def split: option.splits)

lemma guar_frame_append: "audit_frame.guar (append_tx ev c)"
  unfolding append_tx_def q_AcquireAuditChainLock_def chain_head_def q_GetLatestAuditEntry_def
  using guar_frame_insert by auto

lemma guar_frame_attempts: "audit_frame.guar tx \<Longrightarrow> audit_frame.guar (append_attempts n le tx)"
  by (induction n arbitrary: le) auto

lemma guar_frame_chain_append: "audit_frame.guar (chain_append ev)"
proof (rule audit_frame.guarI)
  fix w
  show "only_audit w (snd (chain_append ev w))"
    using audit_frame.guarD [OF guar_frame_attempts [OF guar_frame_append]]
    by (simp add: chain_append_def only_audit_def split: sum.splits)
qed

interpretation chain_writer: recorder Record
proof
  fix ev w
  show "fst (Record ev w) = Inr ()"
    by (simp add: Record_def ignoring_def ret_def)
  show "(w_db (snd (Record ev w)))\<lparr>t_audit_log := []\<rparr> = (w_db w)\<lparr>t_audit_log := []\<rparr>"
    using audit_frame.guarD [OF guar_frame_chain_append, of w ev]
    by (simp add: Record_def ignoring_def ret_def only_audit_def)
  show "plain_json (ev_metadata ev) \<Longrightarrow> audit_step w (snd (Record ev w))"
    by (rule chain.guarD) (rule guar_Record)
qed

interpretation slog_recorder: recorder SlogRecord
  by unfold_locales (simp_all add: SlogRecord_def ret_def chain.refl)

declare guar_Record [guar_intros]

text \<open>The loop is reasoned about through the lemmas above, and unfolded only to run it.\<close>

declare verify_from.simps [simp del, run_defs]

section \<open>Two more guarantees\<close>

text \<open>
  No operation changes the program's parameters; a reading operation also leaves the
  database alone.
\<close>

definition params_same :: "world \<Rightarrow> world \<Rightarrow> bool" where
  "params_same w w' \<longleftrightarrow> w_lib w' = w_lib w \<and> w_clock w' = w_clock w \<and> w_rng w' = w_rng w \<and>
     w_faults w' = w_faults w"

definition reads_only :: "world \<Rightarrow> world \<Rightarrow> bool" where
  "reads_only w w' \<longleftrightarrow> params_same w w' \<and> w_db w' = w_db w \<and> w_seq w' = w_seq w \<and>
     w_clock_i w \<le> w_clock_i w'"

interpretation param: guarantee params_same
  by unfold_locales (simp_all add: params_same_def)

interpretation reader: guarantee reads_only
  by unfold_locales (auto simp: reads_only_def params_same_def)

lemma reader_db: "reader.guar m \<Longrightarrow> m w = (r, w') \<Longrightarrow> w_db w' = w_db w"
  using reader.guarD [of m w] by (simp add: reads_only_def)

lemma param_insert: "param.guar (q_InsertAuditEntry a)"
  unfolding q_InsertAuditEntry_def
  by (rule param.guar_infra) (auto simp: param.guar_def params_same_def Let_def split: option.splits)

lemma param_append: "param.guar (append_tx ev c)"
  unfolding append_tx_def q_AcquireAuditChainLock_def chain_head_def q_GetLatestAuditEntry_def
  using param_insert by auto

lemma param_attempts: "param.guar tx \<Longrightarrow> param.guar (append_attempts n le tx)"
  by (induction n arbitrary: le) auto

lemma param_Record [intro!]: "param.guar (Record ev)"
proof (rule param.guarI)
  fix w
  show "params_same w (snd (Record ev w))"
    using param.guarD [OF param_attempts [OF param_append]]
    by (simp add: Record_def ignoring_def ret_def chain_append_def params_same_def split: sum.splits)
qed

lemma frame_Record [intro!]: "audit_frame.guar (Record ev)"
  by (rule audit_frame.guarI) (simp add: only_audit_def chain_writer.frame)

declare chain_writer.guar_rec [intro!]

lemma plain_metadata [simp]:
  "plain_json (JObj []) = True"
  "plain_json (JObj ((k, v) # kvs)) \<longleftrightarrow> plain_json v \<and> plain_json (JObj kvs)"
  by simp_all

section \<open>What an append does\<close>

text \<open>The parameters stay, and the clock and the generator only move on.\<close>

definition ticking :: "world \<Rightarrow> world \<Rightarrow> bool" where
  "ticking w w' \<longleftrightarrow> params_same w w' \<and> w_clock_i w \<le> w_clock_i w' \<and> w_rng_i w \<le> w_rng_i w'"

interpretation ticks: guarantee ticking
  by unfold_locales (auto simp: ticking_def params_same_def)

lemma ticks_append: "ticks.guar (append_tx ev c)"
proof -
  have "ticks.guar (q_InsertAuditEntry a)" for a
    unfolding q_InsertAuditEntry_def
    by (rule ticks.guar_infra)
      (auto simp: ticks.guar_def ticking_def params_same_def Let_def split: option.splits)
  then show ?thesis
    unfolding append_tx_def q_AcquireAuditChainLock_def chain_head_def q_GetLatestAuditEntry_def
    by auto
qed

text \<open>The hash of the newest entry, which the next one links to.\<close>

definition newest_hash :: "audit_row list \<Rightarrow> bytes option" where
  "newest_hash es = (case rev (sort_key seq_of es) of [] \<Rightarrow> None | a # as \<Rightarrow> Some (a_hash a))"

text \<open>
  The row that an append of \<^verbatim>\<open>ev\<close> with the canonical metadata \<^verbatim>\<open>c\<close> puts at the end of
  the log of \<^verbatim>\<open>w\<close>: its key and its time are fresh draws, every other column is determined.
\<close>

definition row_of_event :: "world \<Rightarrow> event \<Rightarrow> bytes \<Rightarrow> audit_row \<Rightarrow> bool" where
  "row_of_event w ev c a \<longleftrightarrow>
     a_id a \<in> w_rng w ` {k. w_rng_i w \<le> k} \<and> a_timestamp a \<in> w_clock w ` {n. w_clock_i w \<le> n} \<and>
     a_seq a \<noteq> None \<and> a_user_id a = ev_user_id ev \<and>
     a_role a = (if ev_role ev = '''' then None else Some (ev_role ev)) \<and>
     a_action a = ev_action ev \<and> a_resource_type a = ev_resource_type ev \<and>
     a_resource_id a = ev_resource_id ev \<and> a_case_id a = ev_case_id ev \<and>
     lib_jsonb (w_lib w) c = Some (a_metadata a) \<and>
     a_prev_hash a = newest_hash (t_audit_log (w_db w)) \<and>
     a_hash a = lib_sha256 (w_lib w) (entry_text (w_lib w) (entry_of_row a c))"

lemma chain_head_success:
  assumes "chain_head w = (Inr prev, w')" and "cur_role (w_ctx w) = Some ''ADMIN''"
  shows "w' = faulted w" and "prev = newest_hash (t_audit_log (w_db w))"
proof -
  have "audit_visible (w_db w) (w_ctx w) = sort_key seq_of (t_audit_log (w_db w))"
    using assms(2) by (simp add: audit_visible_def audit_log_select_def app_admin_def)
  then show "w' = faulted w" "prev = newest_hash (t_audit_log (w_db w))"
    using assms(1)
    by (auto simp: chain_head_def q_GetLatestAuditEntry_def tryE_def ret_def fail_def query_def
        infra_def faulted_def newest_hash_def one_def Let_def
        split: option.splits list.splits if_splits)
qed

lemma insert_entry_success:
  "q_InsertAuditEntry a v = (Inr x, v') \<Longrightarrow>
     \<exists>s t. lib_jsonb (w_lib v) (a_metadata a) = Some t \<and>
       w_db v' = (w_db v)\<lparr>t_audit_log := t_audit_log (w_db v) @ [a\<lparr>a_seq := Some s, a_metadata := t\<rparr>]\<rparr>"
  by (auto simp: q_InsertAuditEntry_def infra_run Let_def split: option.splits)

lemma append_tx_row:
  assumes "append_tx ev c w = (Inr u, w')"
  shows "\<exists>a. row_of_event w ev c a \<and>
     w_db w' = (w_db w)\<lparr>t_audit_log := t_audit_log (w_db w) @ [a]\<rparr>"
proof -
  define v where "v = started (chain_ident ev) w"
  obtain prev v1 v2 x v3 where head: "chain_head (faulted v) = (Inr prev, v1)"
    and v2: "v2 = v1\<lparr>w_rng_i := Suc (w_rng_i v1), w_clock_i := Suc (w_clock_i v1)\<rparr>"
    and ins: "q_InsertAuditEntry (event_row ev c (w_rng v1 (w_rng_i v1)) (w_clock v1 (w_clock_i v1)) prev
       (ComputeEntryHash (w_lib v1) (event_entry ev c (w_rng v1 (w_rng_i v1)) (w_clock v1 (w_clock_i v1)) prev))) v2
       = (Inr x, v3)" and w': "w_db w' = w_db v3"
    using assms unfolding append_tx_def
    by (auto simp: WithTx_run v_def tryE_Inr ret_run fail_run get_world_run query_run
        q_AcquireAuditChainLock_def uuid_new_def time_now_def)
  have "cur_role (w_ctx (faulted v)) = Some ''ADMIN''"
    by (simp add: v_def ident_ctx_def chain_ident_def)
  from chain_head_success [OF head this] have v1: "v1 = faulted (faulted v)"
    and prev: "prev = newest_hash (t_audit_log (w_db w))" by (simp_all add: v_def)
  obtain s t where t: "lib_jsonb (w_lib w) c = Some t"
    and db: "w_db v3 = (w_db w)\<lparr>t_audit_log := t_audit_log (w_db w) @
      [(event_row ev c (w_rng w (w_rng_i w)) (w_clock w (Suc (w_clock_i w))) prev
         (ComputeEntryHash (w_lib w) (event_entry ev c (w_rng w (w_rng_i w)) (w_clock w (Suc (w_clock_i w))) prev)))
         \<lparr>a_seq := Some s, a_metadata := t\<rparr>]\<rparr>"
    using insert_entry_success [OF ins] by (auto simp: v2 v1 v_def event_row_def started_def faulted_def)
  let ?a = "(event_row ev c (w_rng w (w_rng_i w)) (w_clock w (Suc (w_clock_i w))) prev
    (ComputeEntryHash (w_lib w) (event_entry ev c (w_rng w (w_rng_i w)) (w_clock w (Suc (w_clock_i w))) prev)))
    \<lparr>a_seq := Some s, a_metadata := t\<rparr>"
  have draws: "w_rng w (w_rng_i w) \<in> w_rng w ` {k. w_rng_i w \<le> k}"
    "w_clock w (Suc (w_clock_i w)) \<in> w_clock w ` {n. w_clock_i w \<le> n}" by auto
  have "row_of_event w ev c ?a"
    unfolding row_of_event_def
    by (intro conjI)
      (simp_all add: draws t prev event_row_def event_entry_def ComputeEntryHash_def entry_of_row_def
        nilIfEmpty_def roleOrEmpty_def del: image_iff mem_Collect_eq)
  with db w' show ?thesis by (intro exI [of _ ?a]) simp
qed

lemma row_of_event_later:
  assumes "row_of_event w1 ev c a" and "ticking w w1" and "w_db w1 = w_db w"
  shows "row_of_event w ev c a"
proof -
  have "w_lib w1 = w_lib w" "w_clock w1 = w_clock w" "w_rng w1 = w_rng w"
    "w_clock_i w \<le> w_clock_i w1" "w_rng_i w \<le> w_rng_i w1"
    using assms(2) by (simp_all add: ticking_def params_same_def)
  moreover from this have "{k. w_rng_i w1 \<le> k} \<subseteq> {k. w_rng_i w \<le> k}"
    "{n. w_clock_i w1 \<le> n} \<subseteq> {n. w_clock_i w \<le> n}" by auto
  ultimately show ?thesis
    using assms(1,3) unfolding row_of_event_def by (auto simp del: mem_Collect_eq)
qed

lemma append_tx_failure: "append_tx ev c w = (Inl e, w') \<Longrightarrow> w_db w' = w_db w"
  unfolding append_tx_def by (rule WithTx_atomic)

lemma append_attempts_cases:
  assumes "append_attempts n le (append_tx ev c) w = (r, w')"
  shows "case r of Inl e \<Rightarrow> w_db w' = w_db w
     | Inr u \<Rightarrow> \<exists>a. row_of_event w ev c a \<and>
         w_db w' = (w_db w)\<lparr>t_audit_log := t_audit_log (w_db w) @ [a]\<rparr>"
  using assms
proof (induction n arbitrary: le w)
  case 0
  then show ?case by (auto simp: fail_def)
next
  case (Suc n)
  obtain r1 w1 where tx: "append_tx ev c w = (r1, w1)" by (cases "append_tx ev c w")
  show ?case
  proof (cases r1)
    case (Inl e)
    then have db: "w_db w1 = w_db w" using tx append_tx_failure by blast
    have tick: "ticking w w1" using ticks.guarD [OF ticks_append, of w ev c] tx by simp
    show ?thesis
      using Suc.prems Suc.IH [of "Some e" w1, unfolded db] tx Inl db row_of_event_later [OF _ tick db]
      by (cases r) (auto simp: tryE_def fail_def split: if_splits)
  next
    case (Inr u)
    with Suc.prems tx have "r = Inr ()" "w' = w1" by (auto simp: tryE_def ret_def)
    then show ?thesis using append_tx_row [of ev c w u w1] tx Inr by simp
  qed
qed

end
