(* ===== verification/AuditProps.thy ===== *)
theory AuditProps
  imports AuditChainFacts
begin

text \<open>
  The properties of the audit chain: what the writer keeps, what the verifier decides, what
  a verified chain rules out, and what it does not.
\<close>

section \<open>The writer\<close>

text \<open>
  C1.  Recording any event whose metadata is made of plain JSON values, on a log that
  verifies, leaves a log that verifies and extends the former one; no row is rewritten,
  whichever database, commit or constraint failure occurs on the way.
\<close>

theorem record_keeps_chain_verified:
  assumes "json_laws (w_lib w)" and "audit_good w" and "plain_json (ev_metadata ev)"
  shows "br_OK (VerifyBatch (w_lib w) (t_audit_log (w_db (snd (Record ev w)))) None) \<and>
    prefix (t_audit_log (w_db w)) (t_audit_log (w_db (snd (Record ev w)))) \<and>
    audit_good (snd (Record ev w))"
proof -
  have "audit_step w (snd (Record ev w))"
    using assms(3) by (rule chain_writer.chained)
  with assms(1,2) show ?thesis
    by (auto simp: audit_step_def audit_good_def VerifyBatch_def verify_from_OK)
qed

definition sample_log_world :: world where [run_defs]:
  "sample_log_world = snd (Record sample_event (sample_world empty_db))"

lemma sample_world_good: "audit_good (sample_world empty_db)"
  by (simp add: audit_good_def sample_world_def empty_db_def)

lemma record_keeps_chain_verified_witness:
  "br_OK (VerifyBatch (w_lib (sample_world empty_db))
      (t_audit_log (w_db (snd (Record sample_event (sample_world empty_db))))) None) \<and>
    prefix (t_audit_log (w_db (sample_world empty_db)))
      (t_audit_log (w_db (snd (Record sample_event (sample_world empty_db))))) \<and>
    audit_good (snd (Record sample_event (sample_world empty_db)))"
  by (rule record_keeps_chain_verified)
    (simp_all add: sample_world_good sample_event_def, simp add: sample_world_def sample_json_laws)

lemma sample_record_run:
  "map a_action (t_audit_log (w_db sample_log_world)) = [''CASE_CREATED'']"
  supply run_congs [cong]
  by (simp add: run_defs)

text \<open>
  C2.  An append either fails and leaves the whole database unchanged, or adds to the log
  exactly one row, every column of which is determined: a key the generator and a time the
  clock has drawn since the call, a sequence number, the event's actor, role (NULL when
  empty), action, resource and case, the event's metadata in canonical form as the
  \<^verbatim>\<open>jsonb\<close> column stores it, the hash of the newest entry of the log as the link (none on
  an empty log), and the SHA-256 of the row's own canonical text as its hash.
\<close>

theorem append_all_or_nothing:
  "case chain_append ev w of
     (Inl e, w') \<Rightarrow> w_db w' = w_db w
   | (Inr u, w') \<Rightarrow> (\<exists>c a.
       CanonicalizeMetadata (w_lib w) (lib_json_marshal (w_lib w) (ev_metadata ev)) = Inr c \<and>
       w_db w' = (w_db w)\<lparr>t_audit_log := t_audit_log (w_db w) @ [a]\<rparr> \<and>
       a_id a \<in> w_rng w ` {k. w_rng_i w \<le> k} \<and> a_timestamp a \<in> w_clock w ` {n. w_clock_i w \<le> n} \<and>
       a_seq a \<noteq> None \<and> a_user_id a = ev_user_id ev \<and>
       a_role a = (if ev_role ev = '''' then None else Some (ev_role ev)) \<and>
       a_action a = ev_action ev \<and> a_resource_type a = ev_resource_type ev \<and>
       a_resource_id a = ev_resource_id ev \<and> a_case_id a = ev_case_id ev \<and>
       lib_jsonb (w_lib w) c = Some (a_metadata a) \<and>
       a_prev_hash a = newest_hash (t_audit_log (w_db w)) \<and>
       a_hash a = lib_sha256 (w_lib w) (entry_text (w_lib w) (entry_of_row a c)))"
proof (cases "canonicalizeEventMetadata (w_lib w) (ev_metadata ev)")
  case (Inl e)
  then show ?thesis by (simp add: chain_append_def)
next
  case (Inr c)
  obtain r w' where run: "append_attempts maxChainWriteAttempts None (append_tx ev c) w = (r, w')"
    by (cases "append_attempts maxChainWriteAttempts None (append_tx ev c) w")
  show ?thesis
  proof (cases r)
    case (Inl e)
    then show ?thesis using append_attempts_cases [OF run] run Inr by (simp add: chain_append_def)
  next
    case (Inr u)
    with append_attempts_cases [OF run] obtain a where "row_of_event w ev c a"
      "w_db w' = (w_db w)\<lparr>t_audit_log := t_audit_log (w_db w) @ [a]\<rparr>" by auto
    then show ?thesis
      using run Inr \<open>canonicalizeEventMetadata (w_lib w) (ev_metadata ev) = Inr c\<close>
      by (auto simp: chain_append_def canonicalizeEventMetadata_def row_of_event_def)
  qed
qed

section \<open>The verifier\<close>

text \<open>
  C3.  \<^verbatim>\<open>VerifyBatch\<close> accepts exactly the batches whose every entry links to the one
  before it (the first one to the expected hash) and carries the hash of its own canonical
  contents; on any other batch it reports the first offending entry, the number of entries
  before it, and the category its doc comment gives for that kind of damage.
\<close>

theorem verify_batch_spec:
  "if \<forall>i<length es. row_ok lib (prior es p i) (es ! i)
   then br_OK (VerifyBatch lib es p) \<and> br_EntriesChecked (VerifyBatch lib es p) = int (length es) \<and>
     br_LastHash (VerifyBatch lib es p) = head_hash es p
   else \<not> br_OK (VerifyBatch lib es p) \<and>
     (\<exists>k. k < length es \<and> (\<forall>j. j < k \<longrightarrow> row_ok lib (prior es p j) (es ! j)) \<and>
       \<not> row_ok lib (prior es p k) (es ! k) \<and>
       br_EntriesChecked (VerifyBatch lib es p) = int k \<and>
       br_FailedEntryID (VerifyBatch lib es p) = Some (a_id (es ! k)) \<and>
       br_FailedSeq (VerifyBatch lib es p) = a_seq (es ! k) \<and>
       br_FailureType (VerifyBatch lib es p) = failure_of lib (prior es p k) (es ! k))"
proof (cases "rows_ok lib es p")
  case True
  then show ?thesis
    by (simp add: rows_ok_iff [symmetric] VerifyBatch_def verify_from_success)
next
  case False
  with verify_from_failure [OF False, of 0] show ?thesis
    by (auto simp: rows_ok_iff [symmetric] VerifyBatch_def verify_from_OK)
qed

definition sample_bad_row :: audit_row where [run_defs]:
  "sample_bad_row = \<lparr>a_id = 7, a_seq = Some 1, a_timestamp = 3, a_user_id = None, a_role = None,
     a_action = ''LOGIN'', a_resource_type = ''auth'', a_resource_id = None, a_case_id = None,
     a_metadata = ''{}'', a_prev_hash = None, a_hash = ''forged''\<rparr>"

lemma verify_batch_spec_witness:
  "br_FailureType (VerifyBatch sample_lib [sample_bad_row] None) = ''ENTRY_HASH_MISMATCH''"
proof -
  have bad: "\<not> row_ok sample_lib None sample_bad_row"
    by (simp add: row_ok_def run_defs) (auto dest: arg_cong [where f = length])
  then have "failure_of sample_lib None sample_bad_row = ''ENTRY_HASH_MISMATCH''"
    by (simp add: failure_of_def run_defs)
  with bad verify_batch_spec [of "[sample_bad_row]" sample_lib None] show ?thesis
    by (auto simp: prior_def split: if_splits)
qed

text \<open>
  Verifying a chain in two batches, the second one started from the last hash of the
  first one, gives what one batch over the whole chain gives: the verdict, the failing
  entry and its category, and the number of entries checked.
\<close>

theorem verify_batches_compose:
  "VerifyBatch lib (xs @ ys) p =
     (if br_OK (VerifyBatch lib xs p)
      then (VerifyBatch lib ys (br_LastHash (VerifyBatch lib xs p)))
        \<lparr>br_EntriesChecked := br_EntriesChecked (VerifyBatch lib xs p) +
           br_EntriesChecked (VerifyBatch lib ys (br_LastHash (VerifyBatch lib xs p)))\<rparr>
      else VerifyBatch lib xs p)"
  using verify_append [of lib xs ys p] by (simp add: Let_def)

section \<open>What a verified chain rules out\<close>

text \<open>
  C4.  Tamper evidence.  Two logs that both verify from genesis and end in the same hash
  commit to the same sequence of entries (identifier, time, actor, role, action, resource,
  case and canonical metadata), provided SHA-256 does not collide on their entries and no
  role, action or resource type contains a line feed: pinning the head hash detects every
  edit, insertion, deletion, reordering and truncation.
\<close>

theorem verified_chain_binds_contents:
  assumes "rfc3339_laws lib" and "no_collision lib es fs"
    and "\<forall>e\<in>set es. plain_row e" and "\<forall>f\<in>set fs. plain_row f"
    and "br_OK (VerifyBatch lib es None)" and "br_OK (VerifyBatch lib fs None)"
    and "slice_bytes (br_LastHash (VerifyBatch lib es None)) =
         slice_bytes (br_LastHash (VerifyBatch lib fs None))"
  shows "map (committed lib) es = map (committed lib) fs"
proof -
  have "rows_ok lib es None" "rows_ok lib fs None"
    using assms(5,6) by (simp_all add: VerifyBatch_def verify_from_OK)
  moreover from this have "slice_bytes (head_hash es None) = slice_bytes (head_hash fs None)"
    using assms(7) by (simp add: VerifyBatch_def verify_from_success)
  ultimately show ?thesis using assms(1-4) chain_binds by blast
qed

definition text_lib :: library where
  "text_lib = sample_lib\<lparr>lib_sha256 := (\<lambda>b. b)\<rparr>"

definition sample_row :: audit_row where
  "sample_row = sample_bad_row\<lparr>a_hash := row_text text_lib sample_bad_row\<rparr>"

lemma verified_chain_binds_contents_witness:
  "map (committed text_lib) [sample_row] = map (committed text_lib) [sample_row\<lparr>a_role := Some ''''\<rparr>]"
proof (rule verified_chain_binds_contents)
  have canon: "CanonicalizeMetadata text_lib ''{}'' = Inr ''{}''"
    by (simp add: text_lib_def run_defs)
  have ok: "row_ok text_lib None sample_row" "row_ok text_lib None (sample_row\<lparr>a_role := Some ''''\<rparr>)"
    by (simp_all add: row_ok_def sample_row_def sample_bad_row_def canon row_text_def
        ComputeEntryHash_def entry_of_row_def roleOrEmpty_def) (simp_all add: text_lib_def)
  have ne: "row_text text_lib sample_bad_row \<noteq> []"
    by (simp add: row_text_def sample_bad_row_def canon entry_text_def)
  show "rfc3339_laws text_lib"
    using sample_rfc3339_laws by (simp add: rfc3339_laws_def text_lib_def)
  show "no_collision text_lib [sample_row] [sample_row\<lparr>a_role := Some ''''\<rparr>]"
    by (simp add: no_collision_def text_lib_def)
  show "\<forall>e\<in>set [sample_row]. plain_row e" "\<forall>e\<in>set [sample_row\<lparr>a_role := Some ''''\<rparr>]. plain_row e"
    using ne by (simp_all add: plain_row_def sample_row_def) (simp_all add: sample_bad_row_def roleOrEmpty_def)
  show v: "br_OK (VerifyBatch text_lib [sample_row] None)"
    "br_OK (VerifyBatch text_lib [sample_row\<lparr>a_role := Some ''''\<rparr>] None)"
    using ok by (simp_all add: VerifyBatch_def verify_from_OK)
  show "slice_bytes (br_LastHash (VerifyBatch text_lib [sample_row] None)) =
     slice_bytes (br_LastHash (VerifyBatch text_lib [sample_row\<lparr>a_role := Some ''''\<rparr>] None))"
    using ok by (simp add: VerifyBatch_def verify_from_success)
qed

section \<open>What it does not rule out\<close>

text \<open>
  Without an external copy of the head hash, cutting the end off a log is not
  detected: every prefix of a log that verifies, the empty one included, verifies.
\<close>

theorem truncation_verifies:
  "br_OK (VerifyBatch lib (xs @ ys) p) \<Longrightarrow> br_OK (VerifyBatch lib xs p)"
  by (simp add: VerifyBatch_def verify_from_OK rows_ok_append)

lemma truncation_verifies_witness: "br_OK (VerifyBatch text_lib [] None)"
proof -
  have "CanonicalizeMetadata text_lib ''{}'' = Inr ''{}''"
    by (simp add: text_lib_def run_defs)
  then have "row_ok text_lib None sample_row"
    by (simp add: row_ok_def sample_row_def sample_bad_row_def row_text_def
        ComputeEntryHash_def entry_of_row_def roleOrEmpty_def) (simp add: text_lib_def)
  then have "br_OK (VerifyBatch text_lib ([] @ [sample_row]) None)"
    by (simp add: VerifyBatch_def verify_from_OK)
  then show ?thesis by (rule truncation_verifies)
qed

text \<open>
  The labelled encoding that is hashed is not injective once a role or an action may
  contain a line feed: these two different entries have the same text, so the same hash
  under every digest.  (The roles and actions the program writes are constants without line
  feeds.)
\<close>

definition ambiguous_entry :: "string \<Rightarrow> string \<Rightarrow> entry" where
  "ambiguous_entry role act = \<lparr>en_id = 1, en_timestamp = 0, en_user_id = None, en_role = role,
     en_action = act, en_resource_type = ''case'', en_resource_id = None, en_case_id = None,
     en_metadata = ''{}'', en_prev_hash = None\<rparr>"

theorem entry_encoding_ambiguous:
  "ambiguous_entry ''A'' (''x'' @ nl @ ''action=y'') \<noteq> ambiguous_entry (''A'' @ nl @ ''action=x'') ''y'' \<and>
   ComputeEntryHash lib (ambiguous_entry ''A'' (''x'' @ nl @ ''action=y'')) =
   ComputeEntryHash lib (ambiguous_entry (''A'' @ nl @ ''action=x'') ''y'')"
  by (simp add: ambiguous_entry_def ComputeEntryHash_def entry_text_def nl_def)

end
