(* ===== verification/Queries.thy ===== *)
theory Queries
  imports Runtime "HOL-Library.Product_Lexorder"
begin

text \<open>
  The statements of backend/db/queries (generated into backend/db/generated) over users,
  roles, permissions, cases, members, involved parties, documents and shares.  A query is
  named after the generated method, prefixed with q.  Each one applies the row-level-security
  policies of its table under the transaction's identity, the constraints of the schema
  (backend/db/migrations) in order, and its WHERE, ORDER BY, LIMIT and OFFSET clauses.
\<close>

section \<open>SQL operators\<close>

text \<open>
  \<^verbatim>\<open>CITEXT\<close> and \<^verbatim>\<open>ILIKE\<close> compare without case.  Only the letters of ASCII are
  folded here; what PostgreSQL does with other letters depends on the locale of the database,
  which is not part of the repository.
\<close>

definition ascii_lower :: "char \<Rightarrow> char" where [run_defs]:
  "ascii_lower c = (if of_char c \<in> {65..90 :: nat} then char_of (of_char c + 32 :: nat) else c)"

definition lower :: "string \<Rightarrow> string" where [run_defs]:
  "lower s = map ascii_lower s"

text \<open>LIKE with its wildcards (a backslash quotes the next character).\<close>

fun like :: "string \<Rightarrow> string \<Rightarrow> bool" where
  "like [] s = (s = [])"
| "like (c # p) [] = (c = CHR ''%'' \<and> like p [])"
| "like (c # p) (x # s) =
     (if c = CHR ''%'' then like p (x # s) \<or> like (c # p) s
      else if c = CHR ''_'' then like p s
      else if c = CHR 0x5C then (case p of [] \<Rightarrow> False | q # p' \<Rightarrow> x = q \<and> like p' s)
      else x = c \<and> like p s)"

definition ilike_contains :: "string \<Rightarrow> string \<Rightarrow> bool" where [run_defs]:
  "ilike_contains s sub = like (''%'' @ lower sub @ ''%'') (lower s)"

text \<open>The optional filters: a NULL argument is no constraint.\<close>

definition opt_filter :: "'f option \<Rightarrow> ('f \<Rightarrow> bool) \<Rightarrow> bool" where [run_defs]:
  "opt_filter f p = (case f of None \<Rightarrow> True | Some x \<Rightarrow> p x)"

definition paged :: "int \<Rightarrow> int \<Rightarrow> 'a list \<Rightarrow> gerr + 'a list" where [run_defs]:
  "paged lim off xs =
     (if lim < 0 then Inl (PgError ''2201W'' '''')
      else if off < 0 then Inl (PgError ''2201X'' '''')
      else Inr (take (nat lim) (drop (nat off) xs)))"

text \<open>UPDATE ... WHERE: the rows that satisfy the condition are rewritten in place.\<close>

definition update_where :: "('r \<Rightarrow> bool) \<Rightarrow> ('r \<Rightarrow> 'r) \<Rightarrow> 'r list \<Rightarrow> 'r list" where [run_defs]:
  "update_where p f rs = map (\<lambda>r. if p r then f r else r) rs"

text \<open>UPDATE ... RETURNING as a :one query: no row matched is ErrNoRows.\<close>

definition update_one ::
    "('r \<Rightarrow> bool) \<Rightarrow> ('r \<Rightarrow> 'r) \<Rightarrow> 'r list \<Rightarrow> ('r list \<Rightarrow> database) \<Rightarrow> gerr + 'r \<times> database" where [run_defs]:
  "update_one p f rs put = (case filter p rs of [] \<Rightarrow> Inl ErrNoRows
     | r # _ \<Rightarrow> Inr (f r, put (update_where p f rs)))"

definition rls_error :: "string \<Rightarrow> gerr" where [run_defs]:
  "rls_error table = PgError ''42501'' table"

definition user_exists :: "database \<Rightarrow> uuid \<Rightarrow> bool" where [run_defs]:
  "user_exists d i = list_ex (\<lambda>u. u_id u = i) (t_users d)"

definition case_exists :: "database \<Rightarrow> uuid \<Rightarrow> bool" where [run_defs]:
  "case_exists d i = list_ex (\<lambda>c. c_id c = i) (t_cases d)"

definition document_exists :: "database \<Rightarrow> uuid \<Rightarrow> bool" where [run_defs]:
  "document_exists d i = list_ex (\<lambda>c. d_id c = i) (t_documents d)"

section \<open>users.sql\<close>

definition user_status_ok :: "string \<Rightarrow> bool" where [run_defs]:
  "user_status_ok s \<longleftrightarrow> s = ''active'' \<or> s = ''inactive'' \<or> s = ''suspended''"

definition users_checks :: "database \<Rightarrow> user_row \<Rightarrow> (bool \<times> gerr) list" where [run_defs]:
  "users_checks d u =
    [(user_status_ok (u_status u), PgError ''23514'' ''users_status_check''),
     (\<not> list_ex (\<lambda>r. u_id r = u_id u) (t_users d), PgError ''23505'' ''users_pkey''),
     (\<not> list_ex (\<lambda>r. lower (u_email r) = lower (u_email u)) (t_users d),
        PgError ''23505'' ''users_email_unique'')]"

definition q_CreateUser :: "string \<Rightarrow> string \<Rightarrow> string \<Rightarrow> string \<Rightarrow> string option \<Rightarrow> string option \<Rightarrow> user_row op" where [run_defs]:
  "q_CreateUser email hash fname lname display phone = exec_new (\<lambda>i lib d c now.
     let u = \<lparr>u_id = i, u_email = email, u_password_hash = hash, u_first_name = fname,
       u_last_name = lname, u_display_name = display, u_phone = phone, u_status = ''active'',
       u_created_at = now, u_updated_at = now, u_last_login_at = None\<rparr> in
     checked (users_checks d u) (u, d\<lparr>t_users := t_users d @ [u]\<rparr>))"

definition q_GetUserByID :: "uuid \<Rightarrow> user_row op" where [run_defs]:
  "q_GetUserByID i = query (\<lambda>d c now. one (filter (\<lambda>u. u_id u = i) (t_users d)))"

definition q_GetUserByEmail :: "string \<Rightarrow> user_row op" where [run_defs]:
  "q_GetUserByEmail email = query (\<lambda>d c now.
     one (filter (\<lambda>u. lower (u_email u) = lower email) (t_users d)))"

definition q_GetUserByEmailForAuth :: "string \<Rightarrow> user_row op" where [run_defs]:
  "q_GetUserByEmailForAuth email = query (\<lambda>d c now.
     one (filter (\<lambda>u. lower (u_email u) = lower email) (t_users d)))"

definition has_role_named :: "database \<Rightarrow> uuid \<Rightarrow> string \<Rightarrow> bool" where [run_defs]:
  "has_role_named d u name = list_ex (\<lambda>ur. ur_user_id ur = u \<and>
     list_ex (\<lambda>r. r_id r = ur_role_id ur \<and> r_name r = name) (t_roles d)) (t_user_roles d)"

definition user_filter :: "database \<Rightarrow> string option \<Rightarrow> string option \<Rightarrow> string option \<Rightarrow> user_row \<Rightarrow> bool" where [run_defs]:
  "user_filter d status role search u \<longleftrightarrow>
     opt_filter status (\<lambda>s. u_status u = s) \<and>
     opt_filter role (\<lambda>n. has_role_named d (u_id u) n) \<and>
     opt_filter search (\<lambda>s. ilike_contains (u_email u) s \<or> ilike_contains (u_first_name u) s \<or>
       ilike_contains (u_last_name u) s \<or>
       (case u_display_name u of None \<Rightarrow> False | Some n \<Rightarrow> ilike_contains n s))"

definition q_ListUsersFiltered ::
    "string option \<Rightarrow> string option \<Rightarrow> string option \<Rightarrow> int \<Rightarrow> int \<Rightarrow> user_row list op" where [run_defs]:
  "q_ListUsersFiltered status role search lim off = query (\<lambda>d c now.
     paged lim off (sort_key (\<lambda>u. - u_created_at u)
       (filter (user_filter d status role search) (t_users d))))"

definition q_CountUsersFiltered :: "string option \<Rightarrow> string option \<Rightarrow> string option \<Rightarrow> int op" where [run_defs]:
  "q_CountUsersFiltered status role search = query (\<lambda>d c now.
     Inr (int (length (filter (user_filter d status role search) (t_users d)))))"

definition q_UpdateUserProfile ::
    "uuid \<Rightarrow> string \<Rightarrow> string \<Rightarrow> string option \<Rightarrow> string option \<Rightarrow> user_row op" where [run_defs]:
  "q_UpdateUserProfile i fname lname display phone = exec (\<lambda>lib d c now.
     update_one (\<lambda>u. u_id u = i) (\<lambda>u. u\<lparr>u_first_name := fname, u_last_name := lname,
       u_display_name := display, u_phone := phone, u_updated_at := now\<rparr>)
       (t_users d) (\<lambda>us. d\<lparr>t_users := us\<rparr>))"

definition q_UpdateUserStatus :: "uuid \<Rightarrow> string \<Rightarrow> user_row op" where [run_defs]:
  "q_UpdateUserStatus i status = exec (\<lambda>lib d c now.
     if \<not> user_status_ok status \<and> list_ex (\<lambda>u. u_id u = i) (t_users d)
     then Inl (PgError ''23514'' ''users_status_check'')
     else update_one (\<lambda>u. u_id u = i) (\<lambda>u. u\<lparr>u_status := status, u_updated_at := now\<rparr>)
       (t_users d) (\<lambda>us. d\<lparr>t_users := us\<rparr>))"

definition q_UpdateUserPasswordHash :: "uuid \<Rightarrow> string \<Rightarrow> unit op" where [run_defs]:
  "q_UpdateUserPasswordHash i hash = exec (\<lambda>lib d c now. Inr ((), d\<lparr>t_users :=
     update_where (\<lambda>u. u_id u = i) (\<lambda>u. u\<lparr>u_password_hash := hash, u_updated_at := now\<rparr>) (t_users d)\<rparr>))"

definition q_UpdateUserLastLogin :: "uuid \<Rightarrow> unit op" where [run_defs]:
  "q_UpdateUserLastLogin i = exec (\<lambda>lib d c now. Inr ((), d\<lparr>t_users :=
     update_where (\<lambda>u. u_id u = i) (\<lambda>u. u\<lparr>u_last_login_at := Some now\<rparr>) (t_users d)\<rparr>))"

section \<open>roles.sql and permissions.sql\<close>

definition q_ListRoles :: "role_row list op" where [run_defs]:
  "q_ListRoles = query (\<lambda>d c now. Inr (sort_key r_name (t_roles d)))"

definition q_GetRoleByName :: "string \<Rightarrow> role_row op" where [run_defs]:
  "q_GetRoleByName name = query (\<lambda>d c now. one (filter (\<lambda>r. r_name r = name) (t_roles d)))"

definition roles_of :: "database \<Rightarrow> uuid \<Rightarrow> role_row list" where [run_defs]:
  "roles_of d u = sort_key r_name (filter (\<lambda>r.
     list_ex (\<lambda>ur. ur_user_id ur = u \<and> ur_role_id ur = r_id r) (t_user_roles d)) (t_roles d))"

definition q_ListRolesForUser :: "uuid \<Rightarrow> role_row list op" where [run_defs]:
  "q_ListRolesForUser u = query (\<lambda>d c now. Inr (roles_of d u))"

definition q_AssignRoleToUser :: "uuid \<Rightarrow> uuid \<Rightarrow> unit op" where [run_defs]:
  "q_AssignRoleToUser u r = exec (\<lambda>lib d c now.
     if list_ex (\<lambda>x. ur_user_id x = u \<and> ur_role_id x = r) (t_user_roles d) then Inr ((), d)
     else checked [(user_exists d u, PgError ''23503'' ''user_roles_user_id_fkey''),
         (list_ex (\<lambda>x. r_id x = r) (t_roles d), PgError ''23503'' ''user_roles_role_id_fkey'')]
       ((), d\<lparr>t_user_roles := t_user_roles d @ [\<lparr>ur_user_id = u, ur_role_id = r\<rparr>]\<rparr>))"

definition q_RemoveRoleFromUser :: "uuid \<Rightarrow> uuid \<Rightarrow> unit op" where [run_defs]:
  "q_RemoveRoleFromUser u r = exec (\<lambda>lib d c now. Inr ((), d\<lparr>t_user_roles :=
     filter (\<lambda>x. \<not> (ur_user_id x = u \<and> ur_role_id x = r)) (t_user_roles d)\<rparr>))"

definition q_AcquireAdminGuardLock :: "unit op" where [run_defs]:
  "q_AcquireAdminGuardLock = query (\<lambda>d c now. Inr ())"

definition active_with_role :: "database \<Rightarrow> uuid \<Rightarrow> user_row list" where [run_defs]:
  "active_with_role d r = filter (\<lambda>u. u_status u = ''active'' \<and>
     list_ex (\<lambda>x. ur_user_id x = u_id u \<and> ur_role_id x = r) (t_user_roles d)) (t_users d)"

definition q_CountActiveUsersWithRole :: "uuid \<Rightarrow> int op" where [run_defs]:
  "q_CountActiveUsersWithRole r = query (\<lambda>d c now. Inr (int (length (active_with_role d r))))"

definition permissions_of :: "database \<Rightarrow> uuid \<Rightarrow> permission_row list" where [run_defs]:
  "permissions_of d r = sort_key (\<lambda>p. (p_resource p, p_action p)) (filter (\<lambda>p.
     list_ex (\<lambda>x. rp_role_id x = r \<and> rp_permission_id x = p_id p) (t_role_permissions d))
     (t_permissions d))"

definition q_ListPermissionsForRole :: "uuid \<Rightarrow> permission_row list op" where [run_defs]:
  "q_ListPermissionsForRole r = query (\<lambda>d c now. Inr (permissions_of d r))"

section \<open>cases.sql, case_members.sql and case_involved_parties.sql\<close>

definition case_status_ok :: "string \<Rightarrow> bool" where [run_defs]:
  "case_status_ok s \<longleftrightarrow> s \<in> {''OPEN'', ''UNDER_INVESTIGATION'', ''SUBMITTED'', ''UNDER_REVIEW'',
     ''CLOSED'', ''ARCHIVED''}"

definition membership_type_ok :: "string \<Rightarrow> bool" where [run_defs]:
  "membership_type_ok s \<longleftrightarrow> s \<in> {''OWNER'', ''INVESTIGATOR'', ''FORENSICS'', ''LAWYER'', ''JUDGE'', ''VIEWER''}"

definition cases_checks :: "database \<Rightarrow> app_ctx \<Rightarrow> case_row \<Rightarrow> (bool \<times> gerr) list" where [run_defs]:
  "cases_checks d c r =
    [(cases_insert c r \<and> cases_select d c r, rls_error ''cases''),
     (case_status_ok (c_status r), PgError ''23514'' ''cases_status_check''),
     (\<not> list_ex (\<lambda>x. c_id x = c_id r) (t_cases d), PgError ''23505'' ''cases_pkey''),
     (\<not> list_ex (\<lambda>x. c_case_number x = c_case_number r) (t_cases d),
        PgError ''23505'' ''cases_case_number_unique''),
     (user_exists d (c_created_by r), PgError ''23503'' ''cases_created_by_fkey'')]"

definition q_CreateCase :: "string \<Rightarrow> string \<Rightarrow> string option \<Rightarrow> uuid \<Rightarrow> bytes \<Rightarrow> case_row op" where [run_defs]:
  "q_CreateCase num title descr creator meta = exec_new (\<lambda>i lib d c now.
     case lib_jsonb lib meta of None \<Rightarrow> Inl (PgError ''22P02'' '''')
     | Some m \<Rightarrow> let r = \<lparr>c_id = i, c_case_number = num, c_title = title, c_description = descr,
         c_status = ''OPEN'', c_metadata = m, c_created_by = creator, c_created_at = now,
         c_updated_at = now\<rparr> in checked (cases_checks d c r) (r, d\<lparr>t_cases := t_cases d @ [r]\<rparr>))"

definition visible_cases :: "database \<Rightarrow> app_ctx \<Rightarrow> case_row list" where [run_defs]:
  "visible_cases d c = filter (cases_select d c) (t_cases d)"

definition q_GetCaseByID :: "uuid \<Rightarrow> case_row op" where [run_defs]:
  "q_GetCaseByID i = query (\<lambda>d c now. one (filter (\<lambda>r. c_id r = i) (visible_cases d c)))"

record case_filter =
  cf_status :: "string option"
  cf_case_number :: "string option"
  cf_title :: "string option"
  cf_created_by :: "uuid option"
  cf_from :: "time option"
  cf_to :: "time option"

definition case_matches :: "case_filter \<Rightarrow> case_row \<Rightarrow> bool" where [run_defs]:
  "case_matches f r \<longleftrightarrow> opt_filter (cf_status f) (\<lambda>s. c_status r = s) \<and>
     opt_filter (cf_case_number f) (ilike_contains (c_case_number r)) \<and>
     opt_filter (cf_title f) (ilike_contains (c_title r)) \<and>
     opt_filter (cf_created_by f) (\<lambda>u. c_created_by r = u) \<and>
     opt_filter (cf_from f) (\<lambda>t. t \<le> c_created_at r) \<and>
     opt_filter (cf_to f) (\<lambda>t. c_created_at r < t)"

definition q_ListCasesFiltered :: "case_filter \<Rightarrow> int \<Rightarrow> int \<Rightarrow> case_row list op" where [run_defs]:
  "q_ListCasesFiltered f lim off = query (\<lambda>d c now. paged lim off
     (sort_key (\<lambda>r. - c_created_at r) (filter (case_matches f) (visible_cases d c))))"

definition q_CountCasesFiltered :: "case_filter \<Rightarrow> int op" where [run_defs]:
  "q_CountCasesFiltered f = query (\<lambda>d c now.
     Inr (int (length (filter (case_matches f) (visible_cases d c)))))"

definition case_updatable :: "database \<Rightarrow> app_ctx \<Rightarrow> uuid \<Rightarrow> case_row \<Rightarrow> bool" where [run_defs]:
  "case_updatable d c i r \<longleftrightarrow> c_id r = i \<and> cases_select d c r \<and> cases_update d c r"

definition q_UpdateCase ::
    "uuid \<Rightarrow> string \<Rightarrow> string option \<Rightarrow> string \<Rightarrow> bytes \<Rightarrow> case_row op" where [run_defs]:
  "q_UpdateCase i title descr status meta = exec (\<lambda>lib d c now.
     case lib_jsonb lib meta of None \<Rightarrow> Inl (PgError ''22P02'' '''')
     | Some m \<Rightarrow>
         if \<not> case_status_ok status \<and> list_ex (case_updatable d c i) (t_cases d)
         then Inl (PgError ''23514'' ''cases_status_check'')
         else update_one (case_updatable d c i)
           (\<lambda>r. r\<lparr>c_title := title, c_description := descr, c_status := status, c_metadata := m,
              c_updated_at := now\<rparr>) (t_cases d) (\<lambda>cs. d\<lparr>t_cases := cs\<rparr>))"

definition case_members_checks :: "database \<Rightarrow> app_ctx \<Rightarrow> case_member_row \<Rightarrow> (bool \<times> gerr) list" where [run_defs]:
  "case_members_checks d c m =
    [(case_members_insert d c m \<and> case_members_select c m, rls_error ''case_members''),
     (membership_type_ok (m_membership_type m), PgError ''23514'' ''case_members_membership_type_check''),
     (\<not> list_ex (\<lambda>x. m_id x = m_id m) (t_case_members d), PgError ''23505'' ''case_members_pkey''),
     (\<not> list_ex (\<lambda>x. m_case_id x = m_case_id m \<and> m_user_id x = m_user_id m \<and> m_removed_at x = None)
        (t_case_members d), PgError ''23505'' ''idx_case_members_active_unique''),
     (case_exists d (m_case_id m), PgError ''23503'' ''case_members_case_id_fkey''),
     (user_exists d (m_user_id m), PgError ''23503'' ''case_members_user_id_fkey''),
     (user_exists d (m_added_by m), PgError ''23503'' ''case_members_added_by_fkey'')]"

definition q_AddCaseMember :: "uuid \<Rightarrow> uuid \<Rightarrow> string \<Rightarrow> uuid \<Rightarrow> case_member_row op" where [run_defs]:
  "q_AddCaseMember cid u mt adder = exec_new (\<lambda>i lib d c now.
     let m = \<lparr>m_id = i, m_case_id = cid, m_user_id = u, m_membership_type = mt,
       m_added_by = adder, m_created_at = now, m_removed_at = None\<rparr> in
     checked (case_members_checks d c m) (m, d\<lparr>t_case_members := t_case_members d @ [m]\<rparr>))"

definition q_RemoveCaseMember :: "uuid \<Rightarrow> uuid \<Rightarrow> unit op" where [run_defs]:
  "q_RemoveCaseMember cid u = exec (\<lambda>lib d c now. Inr ((), d\<lparr>t_case_members := update_where
     (\<lambda>m. active_membership cid (Some u) m \<and> case_members_select c m \<and> case_members_update d c m)
     (\<lambda>m. m\<lparr>m_removed_at := Some now\<rparr>) (t_case_members d)\<rparr>))"

definition q_GetActiveCaseMembership :: "uuid \<Rightarrow> uuid \<Rightarrow> case_member_row op" where [run_defs]:
  "q_GetActiveCaseMembership cid u = query (\<lambda>d c now. one (filter
     (\<lambda>m. active_membership cid (Some u) m \<and> case_members_select c m) (t_case_members d)))"

definition q_ListCaseMembers :: "uuid \<Rightarrow> case_member_row list op" where [run_defs]:
  "q_ListCaseMembers cid = query (\<lambda>d c now. Inr (sort_key m_created_at (filter
     (\<lambda>m. m_case_id m = cid \<and> m_removed_at m = None \<and> case_members_select c m) (t_case_members d))))"

definition q_ListInvolvedPartiesByCase :: "uuid \<Rightarrow> party_row list op" where [run_defs]:
  "q_ListInvolvedPartiesByCase cid = query (\<lambda>d c now. Inr (sort_key ip_created_at (filter
     (\<lambda>r. ip_case_id r = cid \<and> case_parties_select d c r) (t_parties d))))"

section \<open>documents.sql\<close>

definition document_type_ok :: "string \<Rightarrow> bool" where [run_defs]:
  "document_type_ok s \<longleftrightarrow> s \<in> {''FIR'', ''FORENSIC_REPORT'', ''PHOTO_EVIDENCE'', ''WITNESS_STATEMENT'', ''OTHER''}"

definition document_status_ok :: "string \<Rightarrow> bool" where [run_defs]:
  "document_status_ok s \<longleftrightarrow> s \<in> {''ACTIVE'', ''ARCHIVED'', ''TAMPERED''}"

definition documents_checks :: "database \<Rightarrow> time \<Rightarrow> app_ctx \<Rightarrow> document_row \<Rightarrow> (bool \<times> gerr) list" where [run_defs]:
  "documents_checks d now c r =
    [(text_ok (d_filename r) \<and> list_all text_ok (case d_description r of None \<Rightarrow> [] | Some s \<Rightarrow> [s]),
        PgError ''22021'' ''''),
     (documents_insert d c r \<and> documents_select d now c r, rls_error ''documents''),
     (0 \<le> d_file_size r, PgError ''23514'' ''documents_file_size_check''),
     (length (d_sha256_hash r) = 32, PgError ''23514'' ''documents_sha256_hash_length_check''),
     (document_type_ok (d_document_type r), PgError ''23514'' ''documents_document_type_check''),
     (\<not> document_exists d (d_id r), PgError ''23505'' ''documents_pkey''),
     (\<not> list_ex (\<lambda>x. d_storage_bucket x = d_storage_bucket r \<and>
        d_storage_object_key x = d_storage_object_key r) (t_documents d),
        PgError ''23505'' ''documents_storage_key_unique''),
     (case_exists d (d_case_id r), PgError ''23503'' ''documents_case_id_fkey''),
     (case d_parent_document_id r of None \<Rightarrow> True | Some p \<Rightarrow> document_exists d p,
        PgError ''23503'' ''documents_parent_document_id_fkey''),
     (user_exists d (d_uploaded_by r), PgError ''23503'' ''documents_uploaded_by_fkey'')]"

text \<open>The row as the caller fills it; status and times take the column defaults.\<close>

definition q_CreateDocument :: "document_row \<Rightarrow> document_row op" where [run_defs]:
  "q_CreateDocument p = exec (\<lambda>lib d c now.
     case lib_jsonb lib (d_metadata p) of None \<Rightarrow> Inl (PgError ''22P02'' '''')
     | Some m \<Rightarrow> let r = p\<lparr>d_status := ''ACTIVE'', d_metadata := m, d_uploaded_at := now,
         d_updated_at := now\<rparr> in
         checked (documents_checks d now c r) (r, d\<lparr>t_documents := t_documents d @ [r]\<rparr>))"

definition visible_documents :: "database \<Rightarrow> time \<Rightarrow> app_ctx \<Rightarrow> document_row list" where [run_defs]:
  "visible_documents d now c = filter (documents_select d now c) (t_documents d)"

definition q_GetDocumentByID :: "uuid \<Rightarrow> document_row op" where [run_defs]:
  "q_GetDocumentByID i = query (\<lambda>d c now. one (filter (\<lambda>r. d_id r = i) (visible_documents d now c)))"

definition q_ListDocumentsByCase :: "uuid \<Rightarrow> int \<Rightarrow> int \<Rightarrow> document_row list op" where [run_defs]:
  "q_ListDocumentsByCase cid lim off = query (\<lambda>d c now. paged lim off (sort_key (\<lambda>r. - d_uploaded_at r)
     (filter (\<lambda>r. d_case_id r = cid) (visible_documents d now c))))"

definition q_CountDocumentsByCase :: "uuid \<Rightarrow> int op" where [run_defs]:
  "q_CountDocumentsByCase cid = query (\<lambda>d c now.
     Inr (int (length (filter (\<lambda>r. d_case_id r = cid) (visible_documents d now c)))))"

definition q_ListDocumentDerivatives :: "uuid \<Rightarrow> document_row list op" where [run_defs]:
  "q_ListDocumentDerivatives p = query (\<lambda>d c now. Inr (sort_key d_uploaded_at
     (filter (\<lambda>r. d_parent_document_id r = Some p) (visible_documents d now c))))"

definition q_UpdateDocumentStatus :: "uuid \<Rightarrow> string \<Rightarrow> unit op" where [run_defs]:
  "q_UpdateDocumentStatus i status = exec (\<lambda>lib d c now.
     let p = (\<lambda>r. d_id r = i \<and> documents_select d now c r \<and> documents_update d c r) in
     if \<not> document_status_ok status \<and> list_ex p (t_documents d)
     then Inl (PgError ''23514'' ''documents_status_check'')
     else Inr ((), d\<lparr>t_documents := update_where p
       (\<lambda>r. r\<lparr>d_status := status, d_updated_at := now\<rparr>) (t_documents d)\<rparr>))"

section \<open>shares.sql\<close>

definition shares_checks :: "database \<Rightarrow> time \<Rightarrow> app_ctx \<Rightarrow> share_row \<Rightarrow> (bool \<times> gerr) list" where [run_defs]:
  "shares_checks d now c s =
    [(list_all text_ok (case s_reason s of None \<Rightarrow> [] | Some t \<Rightarrow> [t]), PgError ''22021'' ''''),
     (shares_insert d now c s \<and> shares_select d now c s, rls_error ''document_shares''),
     (s_permission s = ''VIEW'' \<or> s_permission s = ''VERIFY'', PgError ''23514'' ''document_shares_permission_check''),
     (s_shared_with_user_id s \<noteq> s_created_by_user_id s, PgError ''23514'' ''document_shares_not_self_check''),
     (\<not> list_ex (\<lambda>x. s_id x = s_id s) (t_shares d), PgError ''23505'' ''document_shares_pkey''),
     (\<not> list_ex (\<lambda>x. s_document_id x = s_document_id s \<and>
        s_shared_with_user_id x = s_shared_with_user_id s \<and> s_status x = ''ACTIVE'') (t_shares d),
        PgError ''23505'' ''document_shares_active_unique''),
     (document_exists d (s_document_id s), PgError ''23503'' ''document_shares_document_id_fkey''),
     (user_exists d (s_shared_with_user_id s), PgError ''23503'' ''document_shares_shared_with_user_id_fkey''),
     (user_exists d (s_created_by_user_id s), PgError ''23503'' ''document_shares_created_by_user_id_fkey'')]"

definition q_CreateDocumentShare ::
    "uuid \<Rightarrow> uuid \<Rightarrow> uuid \<Rightarrow> uuid \<Rightarrow> string \<Rightarrow> time option \<Rightarrow> string option \<Rightarrow> share_row op" where [run_defs]:
  "q_CreateDocumentShare i did recipient creator perm expires reason = exec (\<lambda>lib d c now.
     let s = \<lparr>s_id = i, s_document_id = did, s_shared_with_user_id = recipient,
       s_created_by_user_id = creator, s_permission = perm, s_status = ''ACTIVE'',
       s_expires_at = expires, s_reason = reason, s_created_at = now, s_revoked_at = None,
       s_revoked_by_user_id = None\<rparr> in
     checked (shares_checks d now c s) (s, d\<lparr>t_shares := t_shares d @ [s]\<rparr>))"

definition q_GetDocumentShareByID :: "uuid \<Rightarrow> uuid \<Rightarrow> share_row op" where [run_defs]:
  "q_GetDocumentShareByID i did = query (\<lambda>d c now. one (filter
     (\<lambda>s. s_id s = i \<and> s_document_id s = did \<and> shares_select d now c s) (t_shares d)))"

definition q_ListDocumentSharesForDocument :: "uuid \<Rightarrow> share_row list op" where [run_defs]:
  "q_ListDocumentSharesForDocument did = query (\<lambda>d c now. Inr (sort_key (\<lambda>s. - s_created_at s)
     (filter (\<lambda>s. s_document_id s = did \<and> shares_select d now c s) (t_shares d))))"

definition q_RevokeDocumentShare :: "uuid \<Rightarrow> uuid \<Rightarrow> uuid \<Rightarrow> share_row op" where [run_defs]:
  "q_RevokeDocumentShare i did by_user = exec (\<lambda>lib d c now. update_one
     (\<lambda>s. s_id s = i \<and> s_document_id s = did \<and> s_status s = ''ACTIVE'' \<and>
        shares_select d now c s \<and> shares_update d now c s)
     (\<lambda>s. s\<lparr>s_status := ''REVOKED'', s_revoked_at := Some now, s_revoked_by_user_id := Some by_user\<rparr>)
     (t_shares d) (\<lambda>ss. d\<lparr>t_shares := ss\<rparr>))"

definition q_GetActiveShareForDocumentAndUser :: "uuid \<Rightarrow> uuid \<Rightarrow> share_row op" where [run_defs]:
  "q_GetActiveShareForDocumentAndUser did u = query (\<lambda>d c now. one (filter
     (\<lambda>s. s_document_id s = did \<and> s_shared_with_user_id s = u \<and> share_live now s \<and>
        shares_select d now c s) (t_shares d)))"

definition q_ListSharedWithMe :: "uuid \<Rightarrow> int \<Rightarrow> int \<Rightarrow> (share_row \<times> document_row) list op" where [run_defs]:
  "q_ListSharedWithMe u lim off = query (\<lambda>d c now. paged lim off
     (concat (map (\<lambda>s. map (\<lambda>r. (s, r)) (filter (\<lambda>r. d_id r = s_document_id s) (visible_documents d now c)))
       (sort_key (\<lambda>s. - s_created_at s) (filter (\<lambda>s. s_shared_with_user_id s = u \<and> share_live now s \<and>
          shares_select d now c s) (t_shares d))))))"

definition q_CountSharedWithMe :: "uuid \<Rightarrow> int op" where [run_defs]:
  "q_CountSharedWithMe u = query (\<lambda>d c now. Inr (int (length (filter
     (\<lambda>s. s_shared_with_user_id s = u \<and> share_live now s \<and> shares_select d now c s) (t_shares d)))))"

section \<open>auth\_sessions.sql\<close>

definition sessions_checks :: "database \<Rightarrow> session_row \<Rightarrow> (bool \<times> gerr) list" where [run_defs]:
  "sessions_checks d s =
    [(list_all text_ok (case as_ip_address s of None \<Rightarrow> [] | Some t \<Rightarrow> [t]) \<and>
        list_all text_ok (case as_user_agent s of None \<Rightarrow> [] | Some t \<Rightarrow> [t]), PgError ''22021'' ''''),
     (length (as_token_hash s) = 32, PgError ''23514'' ''auth_sessions_token_hash_length_check''),
     (\<not> list_ex (\<lambda>x. as_id x = as_id s) (t_sessions d), PgError ''23505'' ''auth_sessions_pkey''),
     (\<not> list_ex (\<lambda>x. as_token_hash x = as_token_hash s) (t_sessions d),
        PgError ''23505'' ''auth_sessions_token_hash_unique''),
     (user_exists d (as_user_id s), PgError ''23503'' ''auth_sessions_user_id_fkey'')]"

definition q_CreateAuthSession ::
    "uuid \<Rightarrow> uuid \<Rightarrow> bytes \<Rightarrow> time \<Rightarrow> string option \<Rightarrow> string option \<Rightarrow> session_row op" where [run_defs]:
  "q_CreateAuthSession user family h expires ip agent = exec_new (\<lambda>i lib d c now.
     let s = \<lparr>as_id = i, as_user_id = user, as_family_id = family, as_token_hash = h,
       as_expires_at = expires, as_created_at = now, as_last_used_at = None, as_revoked_at = None,
       as_replaced_by = None, as_ip_address = ip, as_user_agent = agent\<rparr> in
     checked (sessions_checks d s) (s, d\<lparr>t_sessions := t_sessions d @ [s]\<rparr>))"

definition q_GetAuthSessionByTokenHash :: "bytes \<Rightarrow> session_row op" where [run_defs]:
  "q_GetAuthSessionByTokenHash h = query (\<lambda>d c now. one (filter (\<lambda>s. as_token_hash s = h) (t_sessions d)))"

text \<open>The revocations: each touches only sessions that are still active.\<close>

definition revoke_sessions ::
    "(session_row \<Rightarrow> bool) \<Rightarrow> (time \<Rightarrow> session_row \<Rightarrow> session_row) \<Rightarrow> unit op" where [run_defs]:
  "revoke_sessions p f = exec (\<lambda>lib d c now. Inr ((), d\<lparr>t_sessions :=
     update_where (\<lambda>s. p s \<and> as_revoked_at s = None) (\<lambda>s. (f now s)\<lparr>as_revoked_at := Some now\<rparr>)
       (t_sessions d)\<rparr>))"

text \<open>A row that names its successor must name an existing session.\<close>

definition q_RevokeAuthSessionAndReplace :: "uuid \<Rightarrow> uuid \<Rightarrow> unit op" where [run_defs]:
  "q_RevokeAuthSessionAndReplace i new = exec (\<lambda>lib d c now.
     if list_ex (\<lambda>s. as_id s = i \<and> as_revoked_at s = None) (t_sessions d) \<and>
       \<not> list_ex (\<lambda>s. as_id s = new) (t_sessions d)
     then Inl (PgError ''23503'' ''auth_sessions_replaced_by_fkey'')
     else Inr ((), d\<lparr>t_sessions := update_where (\<lambda>s. as_id s = i \<and> as_revoked_at s = None)
       (\<lambda>s. s\<lparr>as_last_used_at := Some now, as_replaced_by := Some new, as_revoked_at := Some now\<rparr>)
       (t_sessions d)\<rparr>))"

definition q_RevokeAuthSession :: "uuid \<Rightarrow> unit op" where [run_defs]:
  "q_RevokeAuthSession i = revoke_sessions (\<lambda>s. as_id s = i) (\<lambda>now s. s)"

definition q_RevokeAuthSessionFamily :: "uuid \<Rightarrow> unit op" where [run_defs]:
  "q_RevokeAuthSessionFamily f = revoke_sessions (\<lambda>s. as_family_id s = f) (\<lambda>now s. s)"

definition q_RevokeAllAuthSessionsForUser :: "uuid \<Rightarrow> unit op" where [run_defs]:
  "q_RevokeAllAuthSessionsForUser u = revoke_sessions (\<lambda>s. as_user_id s = u) (\<lambda>now s. s)"

end
