(* ===== verification/Authz.thy ===== *)
theory Authz
  imports AuditChain Queries
begin

text \<open>
  backend/internal/authz: role permissions (RBAC), the case, document, share and user
  policies (ABAC), and the sanitisation of protected involved parties.  Every denial is
  recorded in the audit log.  The package keeps no state of its own.
\<close>

section \<open>Identity, actions, decisions\<close>

record authenticated_user =
  au_ID :: uuid
  au_Email :: string
  au_Roles :: "string list"

type_synonym action = string

record decision =
  Allowed :: bool
  Reason :: string

definition allow :: "string \<Rightarrow> decision" where [run_defs]:
  "allow reason = \<lparr>Allowed = True, Reason = reason\<rparr>"

definition deny :: "string \<Rightarrow> decision" where [run_defs]:
  "deny reason = \<lparr>Allowed = False, Reason = reason\<rparr>"

definition hasRole :: "authenticated_user \<Rightarrow> string \<Rightarrow> bool" where [run_defs]:
  "hasRole u role = list_ex (\<lambda>r. r = role) (au_Roles u)"

definition IsAdmin :: "authenticated_user \<Rightarrow> bool" where [run_defs]:
  "IsAdmin u = hasRole u ''ADMIN''"

definition effectiveRole :: "authenticated_user \<Rightarrow> string" where [run_defs]:
  "effectiveRole u = (case au_Roles u of [] \<Rightarrow> '''' | r # _ \<Rightarrow> r)"

definition user_ident :: "authenticated_user \<Rightarrow> app_identity" where [run_defs]:
  "user_ident u = \<lparr>UserID = au_ID u, Role = effectiveRole u\<rparr>"

section \<open>Permissions\<close>

text \<open>The loop over the user's roles; an unknown role contributes nothing.\<close>

fun load_roles :: "string list \<Rightarrow> action list \<Rightarrow> action list op" where
  "load_roles [] perms = ret perms"
| "load_roles (r # rs) perms = tryE (q_GetRoleByName r)
     (\<lambda>e. if is_no_rows e then load_roles rs perms else fail e)
     (\<lambda>role. bindE (q_ListPermissionsForRole (r_id role))
       (\<lambda>ps. load_roles rs (perms @ map p_name ps)))"

definition loadPermissions :: "string list \<Rightarrow> action list op" where [run_defs]:
  "loadPermissions roles = (if roles = [] then ret []
     else WithTx \<lparr>UserID = nil_uuid, Role = ''''\<rparr> (load_roles roles []))"

definition HasPermission :: "authenticated_user \<Rightarrow> action \<Rightarrow> bool op" where [run_defs]:
  "HasPermission user act = (if au_Roles user = [] then ret False
     else bindE (loadPermissions (au_Roles user)) (\<lambda>perms. ret (list_ex (\<lambda>a. a = act) perms)))"

definition recordDenied ::
    "authenticated_user \<Rightarrow> action \<Rightarrow> string \<Rightarrow> uuid option \<Rightarrow> uuid option \<Rightarrow> string \<Rightarrow> unit op" where [run_defs]:
  "recordDenied user act resourceType resourceID caseID reason = Record
     \<lparr>ev_action = ''AUTHZ_DENIED'', ev_resource_type = resourceType, ev_resource_id = resourceID,
      ev_user_id = Some (au_ID user), ev_role = effectiveRole user, ev_case_id = caseID,
      ev_metadata = JObj [(''action'', JStr act), (''reason'', JStr reason)]\<rparr>"

definition deny_recorded ::
    "authenticated_user \<Rightarrow> action \<Rightarrow> string \<Rightarrow> uuid \<Rightarrow> uuid option \<Rightarrow> string \<Rightarrow> string \<Rightarrow> decision op" where [run_defs]:
  "deny_recorded user act resourceType rid caseID why reason =
     bindE (recordDenied user act resourceType (Some rid) caseID why) (\<lambda>_. ret (deny reason))"

section \<open>The case policy\<close>

record case_relationship =
  rel_found :: bool
  rel_isOwner :: bool
  rel_isMember :: bool

definition no_relationship :: case_relationship where [run_defs]:
  "no_relationship = \<lparr>rel_found = False, rel_isOwner = False, rel_isMember = False\<rparr>"

definition loadCaseRelationship :: "authenticated_user \<Rightarrow> uuid \<Rightarrow> case_relationship op" where [run_defs]:
  "loadCaseRelationship user caseID = WithTx (user_ident user) (
     tryE (q_GetCaseByID caseID)
       (\<lambda>e. if is_no_rows e then ret no_relationship else fail e)
       (\<lambda>c. tryE (q_GetActiveCaseMembership caseID (au_ID user))
          (\<lambda>e. if is_no_rows e
             then ret \<lparr>rel_found = True, rel_isOwner = (c_created_by c = au_ID user), rel_isMember = False\<rparr>
             else fail e)
          (\<lambda>_. ret \<lparr>rel_found = True, rel_isOwner = (c_created_by c = au_ID user), rel_isMember = True\<rparr>)))"

definition CanAccessCase :: "authenticated_user \<Rightarrow> uuid \<Rightarrow> action \<Rightarrow> decision op" where [run_defs]:
  "CanAccessCase user caseID act =
     bindE (HasPermission user act) (\<lambda>allowed.
     if \<not> allowed then
       deny_recorded user act ''case'' caseID None ''rbac_permission_denied'' ''permission_denied''
     else if IsAdmin user then ret (allow ''admin'')
     else bindE (loadCaseRelationship user caseID) (\<lambda>rel.
       if \<not> rel_found rel then
         deny_recorded user act ''case'' caseID None ''not_found_or_no_relationship''
           ''not_found_or_no_relationship''
       else if \<not> rel_isOwner rel \<and> \<not> rel_isMember rel then
         deny_recorded user act ''case'' caseID (Some caseID) ''not_case_member'' ''not_case_member''
       else ret (allow ''case_relationship_verified'')))"

section \<open>Shares\<close>

definition shareViewActions :: "action list" where [run_defs]:
  "shareViewActions = [''document:read'', ''document:download'', ''certificate:read'']"

definition shareVerifyActions :: "action list" where [run_defs]:
  "shareVerifyActions = [''document:verify'']"

definition sharePermissionCovers :: "string \<Rightarrow> action \<Rightarrow> bool" where [run_defs]:
  "sharePermissionCovers permission act =
     (if act \<in> set shareViewActions then True
      else permission = ''VERIFY'' \<and> act \<in> set shareVerifyActions)"

definition shareCoverableAction :: "action \<Rightarrow> bool" where [run_defs]:
  "shareCoverableAction act \<longleftrightarrow> act \<in> set shareViewActions \<or> act \<in> set shareVerifyActions"

definition share_expired :: "time \<Rightarrow> share_row \<Rightarrow> bool" where [run_defs]:
  "share_expired now s = (case s_expires_at s of None \<Rightarrow> False | Some e \<Rightarrow> \<not> now < e)"

definition shareGrantsAccess :: "authenticated_user \<Rightarrow> uuid \<Rightarrow> action \<Rightarrow> bool op" where [run_defs]:
  "shareGrantsAccess user documentID act =
     (if \<not> shareCoverableAction act then ret False
      else bindE (WithTx (user_ident user) (
          tryE (q_GetActiveShareForDocumentAndUser documentID (au_ID user))
            (\<lambda>e. if is_no_rows e then ret None else fail e)
            (\<lambda>sh. ret (Some sh)))) (\<lambda>found.
        case found of None \<Rightarrow> ret False
        | Some sh \<Rightarrow> bindE time_now (\<lambda>now.
            if share_expired now sh then ret False
            else ret (sharePermissionCovers (s_permission sh) act))))"

section \<open>The document policy\<close>

definition CanAccessDocument :: "authenticated_user \<Rightarrow> uuid \<Rightarrow> action \<Rightarrow> decision op" where [run_defs]:
  "CanAccessDocument user documentID act =
     bindE (HasPermission user act) (\<lambda>allowed.
     if \<not> allowed then
       deny_recorded user act ''document'' documentID None ''rbac_permission_denied'' ''permission_denied''
     else bindE (WithTx (user_ident user) (
         tryE (q_GetDocumentByID documentID)
           (\<lambda>e. if is_no_rows e then ret None else fail e)
           (\<lambda>d. ret (Some (d_case_id d))))) (\<lambda>found.
       case found of
         None \<Rightarrow> deny_recorded user act ''document'' documentID None ''not_found_or_no_relationship''
           ''not_found_or_no_relationship''
       | Some caseID \<Rightarrow>
           if IsAdmin user then ret (allow ''admin'')
           else bindE (loadCaseRelationship user caseID) (\<lambda>rel.
             if rel_found rel \<and> (rel_isOwner rel \<or> rel_isMember rel)
             then ret (allow ''case_relationship_verified'')
             else bindE (shareGrantsAccess user documentID act) (\<lambda>delegated.
               if delegated then ret (allow ''delegated_share'')
               else deny_recorded user act ''document'' documentID (Some caseID)
                 ''not_case_member'' ''not_case_member''))))"

section \<open>The user policy and protected information\<close>

definition CanModifyUserRole :: "authenticated_user \<Rightarrow> uuid \<Rightarrow> decision op" where [run_defs]:
  "CanModifyUserRole actor targetUserID =
     bindE (HasPermission actor ''user:role'') (\<lambda>allowed.
     if \<not> allowed then
       deny_recorded actor ''user:role'' ''user'' targetUserID None ''rbac_permission_denied'' ''permission_denied''
     else if au_ID actor = targetUserID then
       deny_recorded actor ''user:role'' ''user'' targetUserID None
         ''self_role_modification_forbidden'' ''self_role_modification_forbidden''
     else ret (allow ''authorized''))"

definition CanViewProtectedPartyDetails :: "authenticated_user \<Rightarrow> bool" where [run_defs]:
  "CanViewProtectedPartyDetails user \<longleftrightarrow>
     hasRole user ''ADMIN'' \<or> hasRole user ''POLICE'' \<or> hasRole user ''JUDGE''"

definition redactedNotice :: string where [run_defs]:
  "redactedNotice = ''[REDACTED]''"

definition SanitizeInvolvedParty :: "authenticated_user \<Rightarrow> party_row \<Rightarrow> party_row" where [run_defs]:
  "SanitizeInvolvedParty user party =
     (if ip_party_type party \<noteq> ''WITNESS'' \<or> CanViewProtectedPartyDetails user then party
      else party\<lparr>ip_display_name := redactedNotice, ip_metadata := ''{}''\<rparr>)"

end
