(* ===== verification/AuthzFacts.thy ===== *)
theory AuthzFacts
  imports Authz AuditProps
begin

text \<open>
  What an authorization decision means: each policy is compared with a declarative statement
  of who may do what, read off the tables.
\<close>

section \<open>Reference: permissions, relationships, shares\<close>

definition permitted :: "database \<Rightarrow> authenticated_user \<Rightarrow> action \<Rightarrow> bool" where
  "permitted d user act \<longleftrightarrow> (\<exists>name\<in>set (au_Roles user). \<exists>role.
     one (filter (\<lambda>r. r_name r = name) (t_roles d)) = Inr role \<and>
     act \<in> p_name ` set (permissions_of d (r_id role)))"

definition case_related :: "database \<Rightarrow> uuid \<Rightarrow> uuid \<Rightarrow> bool" where
  "case_related d u cid \<longleftrightarrow> (\<exists>c\<in>set (t_cases d). c_id c = cid \<and>
     (c_created_by c = u \<or> (\<exists>m\<in>set (t_case_members d). active_membership cid (Some u) m)))"

definition case_access :: "database \<Rightarrow> authenticated_user \<Rightarrow> uuid \<Rightarrow> action \<Rightarrow> bool" where
  "case_access d user cid act \<longleftrightarrow> permitted d user act \<and>
     (IsAdmin user \<or> case_related d (au_ID user) cid)"

text \<open>An unrevoked share of the document with the user that covers the action, unexpired at t.\<close>

definition delegated :: "database \<Rightarrow> time \<Rightarrow> uuid \<Rightarrow> uuid \<Rightarrow> action \<Rightarrow> bool" where
  "delegated d t u did act \<longleftrightarrow> (\<exists>s\<in>set (t_shares d). s_document_id s = did \<and>
     s_shared_with_user_id s = u \<and> s_status s = ''ACTIVE'' \<and>
     (case s_expires_at s of None \<Rightarrow> True | Some e \<Rightarrow> t < e) \<and>
     (act \<in> {''document:read'', ''document:download'', ''certificate:read''} \<or>
      act = ''document:verify'' \<and> s_permission s = ''VERIFY''))"

section \<open>The operations only read, apart from the audit log\<close>

lemma reader_queries [intro!]:
  "reader.guar (q_GetRoleByName n)" "reader.guar (q_ListPermissionsForRole r)"
  "reader.guar (q_GetCaseByID i)" "reader.guar (q_GetActiveCaseMembership i u)"
  "reader.guar (q_GetDocumentByID i)" "reader.guar (q_GetActiveShareForDocumentAndUser i u)"
  unfolding q_GetRoleByName_def q_ListPermissionsForRole_def q_GetCaseByID_def
    q_GetActiveCaseMembership_def q_GetDocumentByID_def q_GetActiveShareForDocumentAndUser_def
  by auto

lemma reader_load_roles: "reader.guar (load_roles rs ps)"
  by (induction rs arbitrary: ps) auto

lemma reader_HasPermission: "reader.guar (HasPermission user act)"
  unfolding HasPermission_def loadPermissions_def using reader_load_roles by auto

lemma reader_loadCaseRelationship: "reader.guar (loadCaseRelationship user cid)"
  unfolding loadCaseRelationship_def by auto

lemma reader_shareGrantsAccess: "reader.guar (shareGrantsAccess user did act)"
  unfolding shareGrantsAccess_def by auto

section \<open>HasPermission\<close>

lemma load_roles_spec:
  "load_roles rs ps w = (Inr qs, w') \<Longrightarrow>
     set qs = set ps \<union> {a. \<exists>name\<in>set rs. \<exists>role.
       one (filter (\<lambda>r. r_name r = name) (t_roles (w_db w))) = Inr role \<and>
       a \<in> p_name ` set (permissions_of (w_db w) (r_id role))}"
proof (induction rs arbitrary: ps w)
  case Nil
  then show ?case by (simp add: op_succ)
next
  case (Cons r rs)
  from Cons.prems consider
    (miss) e w1 where "q_GetRoleByName r w = (Inl e, w1)" "is_no_rows e" "load_roles rs ps w1 = (Inr qs, w')"
  | (hit) role w1 perms w2 where "q_GetRoleByName r w = (Inr role, w1)"
      "q_ListPermissionsForRole (r_id role) w1 = (Inr perms, w2)"
      "load_roles rs (ps @ map p_name perms) w2 = (Inr qs, w')"
    by (auto simp: tryE_Inr fail_run split: if_splits)
  then show ?case
  proof cases
    case miss
    then have "w_db w1 = w_db w" using reader_db [OF reader_queries(1)] by blast
    moreover have "one (filter (\<lambda>x. r_name x = r) (t_roles (w_db w))) = Inl ErrNoRows"
      using miss(1,2) by (auto simp: q_GetRoleByName_def query_Inl)
    ultimately show ?thesis using Cons.IH [OF miss(3)] by auto
  next
    case hit
    then have "w_db w1 = w_db w" "w_db w2 = w_db w"
      using reader_db [OF reader_queries(1)] reader_db [OF reader_queries(2)] by metis+
    with Cons.IH [OF hit(3)] hit(1,2) show ?thesis
      by (auto simp: q_GetRoleByName_def q_ListPermissionsForRole_def query_run)
  qed
qed

lemma tx_result: "WithTx i fn w = (Inr x, w') \<Longrightarrow> \<exists>w2. fn (started i w) = (Inr x, w2)"
  by (auto simp: WithTx_run)

lemma loadPermissions_spec:
  assumes "loadPermissions roles w = (Inr ps, w')"
  shows "set ps = {a. \<exists>name\<in>set roles. \<exists>role.
     one (filter (\<lambda>r. r_name r = name) (t_roles (w_db w))) = Inr role \<and>
     a \<in> p_name ` set (permissions_of (w_db w) (r_id role))}"
proof (cases "roles = []")
  case True
  then show ?thesis using assms by (simp add: loadPermissions_def op_succ)
next
  case False
  then obtain w2 where "load_roles roles [] (started \<lparr>UserID = nil_uuid, Role = ''''\<rparr> w) = (Inr ps, w2)"
    using assms by (auto simp: loadPermissions_def dest: tx_result)
  from load_roles_spec [OF this] show ?thesis by simp
qed

lemma HasPermission_spec:
  assumes "HasPermission user act w = (Inr b, w')"
  shows "b = permitted (w_db w) user act \<and> w_db w' = w_db w"
proof
  show "w_db w' = w_db w" using reader_db [OF reader_HasPermission assms] .
  show "b = permitted (w_db w) user act"
  proof (cases "au_Roles user = []")
    case True
    then show ?thesis using assms by (simp add: HasPermission_def permitted_def op_succ)
  next
    case False
    then obtain ps w1 where ps: "loadPermissions (au_Roles user) w = (Inr ps, w1)" "b = (act \<in> set ps)"
      using assms by (auto simp: HasPermission_def op_succ list_ex_iff)
    from loadPermissions_spec [OF ps(1)] show ?thesis
      unfolding ps(2) permitted_def by blast
  qed
qed

section \<open>The case relationship\<close>

lemma user_ctx: "au_ID user \<noteq> nil_uuid \<Longrightarrow> \<not> IsAdmin user \<Longrightarrow>
   cur_user (ident_ctx (user_ident user)) = Some (au_ID user) \<and>
   \<not> app_admin (ident_ctx (user_ident user))"
  by (auto simp: ident_ctx_def user_ident_def app_admin_def effectiveRole_def IsAdmin_def hasRole_def
      split: list.splits if_splits)

definition relationship_of :: "database \<Rightarrow> uuid \<Rightarrow> uuid \<Rightarrow> case_relationship \<Rightarrow> bool" where
  "relationship_of d u cid rel \<longleftrightarrow>
     (rel_found rel \<and> (rel_isOwner rel \<or> rel_isMember rel)) = case_related d u cid \<and>
     (rel_found rel \<longrightarrow> rel_isOwner rel \<or> rel_isMember rel)"

lemma membership_run:
  assumes "q_GetActiveCaseMembership cid u w = (r, w1)" "cur_user (w_ctx w) = Some u"
  shows "(case r of Inr m \<Rightarrow> (\<exists>m\<in>set (t_case_members (w_db w)). active_membership cid (Some u) m)
    | Inl e \<Rightarrow> is_no_rows e \<longrightarrow> \<not> (\<exists>m\<in>set (t_case_members (w_db w)). active_membership cid (Some u) m))"
  using assms
  by (cases r) (auto simp: q_GetActiveCaseMembership_def query_run query_Inl active_membership_def
      case_members_select_def filter_eq_Cons_iff filter_empty_conv)

lemma visible_case_related:
  assumes "\<not> app_admin c" "cur_user c = Some u"
  shows "(\<exists>r\<in>set (visible_cases d c). c_id r = cid) = case_related d u cid"
  using assms
  by (auto simp: visible_cases_def cases_select_def case_related_def is_case_member_def list_ex_iff)

lemma loadCaseRelationship_spec:
  assumes run: "loadCaseRelationship user cid w = (Inr rel, w')"
    and user: "au_ID user \<noteq> nil_uuid" "\<not> IsAdmin user"
  shows "relationship_of (w_db w) (au_ID user) cid rel"
proof -
  let ?w = "started (user_ident user) w" and ?d = "w_db w" and ?c = "ident_ctx (user_ident user)"
  have ctx: "cur_user ?c = Some (au_ID user)" "\<not> app_admin ?c" using user_ctx [OF user] by auto
  note related = visible_case_related [OF ctx(2,1), of ?d cid]
  obtain w2 where "tryE (q_GetCaseByID cid)
       (\<lambda>e. if is_no_rows e then ret no_relationship else fail e)
       (\<lambda>c. tryE (q_GetActiveCaseMembership cid (au_ID user))
          (\<lambda>e. if is_no_rows e
             then ret \<lparr>rel_found = True, rel_isOwner = (c_created_by c = au_ID user), rel_isMember = False\<rparr>
             else fail e)
          (\<lambda>_. ret \<lparr>rel_found = True, rel_isOwner = (c_created_by c = au_ID user), rel_isMember = True\<rparr>))
       ?w = (Inr rel, w2)"
    using tx_result [OF run [unfolded loadCaseRelationship_def]] by blast
  then consider (none) e w1 where "q_GetCaseByID cid ?w = (Inl e, w1)" "is_no_rows e" "rel = no_relationship"
    | (some) k w1 where "q_GetCaseByID cid ?w = (Inr k, w1)"
        "(\<exists>m w3. q_GetActiveCaseMembership cid (au_ID user) w1 = (Inr m, w3) \<and>
           rel = \<lparr>rel_found = True, rel_isOwner = (c_created_by k = au_ID user), rel_isMember = True\<rparr>) \<or>
         (\<exists>e w3. q_GetActiveCaseMembership cid (au_ID user) w1 = (Inl e, w3) \<and> is_no_rows e \<and>
           rel = \<lparr>rel_found = True, rel_isOwner = (c_created_by k = au_ID user), rel_isMember = False\<rparr>)"
    by (auto simp: tryE_Inr ret_run fail_run split: if_splits)
  then show ?thesis
  proof cases
    case none
    then have "\<not> (\<exists>r\<in>set (visible_cases ?d ?c). c_id r = cid)"
      by (auto simp: q_GetCaseByID_def query_Inl filter_empty_conv)
    then show ?thesis using related none by (simp add: relationship_of_def no_relationship_def)
  next
    case some
    then have k: "k \<in> set (visible_cases ?d ?c)" "c_id k = cid" "w_db w1 = ?d" "w_ctx w1 = ?c"
      by (auto simp: q_GetCaseByID_def query_run filter_eq_Cons_iff)
    then have rel: "case_related ?d (au_ID user) cid" using related by blast
    have "c_created_by k = au_ID user \<or> (\<exists>m\<in>set (t_case_members ?d). active_membership cid (Some (au_ID user)) m)"
      using k ctx by (auto simp: visible_cases_def cases_select_def is_case_member_def list_ex_iff)
    then show ?thesis
      using some(2) membership_run [of cid "au_ID user" w1] rel k ctx
      by (fastforce simp: relationship_of_def)
  qed
qed

section \<open>Frames\<close>

lemma frame_reader: "reader.guar m \<Longrightarrow> audit_frame.guar m"
  using reader.guarD [of m] by (auto simp: audit_frame.guar_def only_audit_def reads_only_def)

lemma chain_reader: "reader.guar m \<Longrightarrow> chain.guar m"
  using reader.guarD [of m]
  by (auto simp: chain.guar_def audit_step_def reads_only_def params_same_def audit_good_def)

lemma frame_deny [intro!]: "audit_frame.guar (deny_recorded u a rt i c wh r)"
  unfolding deny_recorded_def recordDenied_def by auto

lemma chain_deny [intro!]: "chain.guar (deny_recorded u a rt i c wh r)"
  unfolding deny_recorded_def recordDenied_def
  by (intro chain.guar_rules guar_Record) simp_all

lemmas authz_readers = reader_HasPermission reader_loadCaseRelationship reader_shareGrantsAccess
  reader_queries
lemmas authz_frame = authz_readers [THEN frame_reader]
lemmas authz_chain = authz_readers [THEN chain_reader]

lemma frame_CanAccessCase [intro!]: "audit_frame.guar (CanAccessCase u i a)"
  unfolding CanAccessCase_def by (auto intro!: authz_frame)

lemma chain_CanAccessCase [intro!]: "chain.guar (CanAccessCase u i a)"
  unfolding CanAccessCase_def by (auto intro!: authz_chain)

lemma frame_CanAccessDocument [intro!]: "audit_frame.guar (CanAccessDocument u i a)"
  unfolding CanAccessDocument_def by (auto intro!: authz_frame)

lemma chain_CanAccessDocument [intro!]: "chain.guar (CanAccessDocument u i a)"
  unfolding CanAccessDocument_def by (auto intro!: authz_chain)

lemma frame_CanModifyUserRole [intro!]: "audit_frame.guar (CanModifyUserRole u i)"
  unfolding CanModifyUserRole_def by (auto intro!: authz_frame)

lemma chain_CanModifyUserRole [intro!]: "chain.guar (CanModifyUserRole u i)"
  unfolding CanModifyUserRole_def by (auto intro!: authz_chain)

lemma deny_recorded_run: "deny_recorded u a rt i c wh r w = (Inr dec, w') \<Longrightarrow> \<not> Allowed dec"
  by (auto simp: deny_recorded_def op_succ deny_def)

section \<open>The case policy\<close>

lemma CanAccessCase_exact:
  assumes "CanAccessCase user cid act w = (Inr dec, w')" and "au_ID user \<noteq> nil_uuid"
  shows "Allowed dec \<longleftrightarrow> case_access (w_db w) user cid act"
proof -
  obtain b w1 where perm: "HasPermission user act w = (Inr b, w1)"
    and rest: "(if \<not> b then
       deny_recorded user act ''case'' cid None ''rbac_permission_denied'' ''permission_denied''
     else if IsAdmin user then ret (allow ''admin'')
     else bindE (loadCaseRelationship user cid) (\<lambda>rel.
       if \<not> rel_found rel then
         deny_recorded user act ''case'' cid None ''not_found_or_no_relationship''
           ''not_found_or_no_relationship''
       else if \<not> rel_isOwner rel \<and> \<not> rel_isMember rel then
         deny_recorded user act ''case'' cid (Some cid) ''not_case_member'' ''not_case_member''
       else ret (allow ''case_relationship_verified''))) w1 = (Inr dec, w')"
    using assms(1) by (auto simp: CanAccessCase_def tryE_Inr fail_run)
  have b: "b = permitted (w_db w) user act" "w_db w1 = w_db w"
    using HasPermission_spec [OF perm] by auto
  show ?thesis
  proof (cases "b \<and> \<not> IsAdmin user")
    case False
    with rest b show ?thesis
      by (auto simp: case_access_def allow_def ret_run dest: deny_recorded_run split: if_splits)
  next
    case True
    with rest obtain rel w2 where rel: "loadCaseRelationship user cid w1 = (Inr rel, w2)"
      and dec: "Allowed dec \<longleftrightarrow> rel_found rel \<and> (rel_isOwner rel \<or> rel_isMember rel)"
      by (auto simp: tryE_Inr fail_run ret_run allow_def dest: deny_recorded_run split: if_splits)
    then show ?thesis
      using loadCaseRelationship_spec [OF rel assms(2)] b True
      by (auto simp: case_access_def relationship_of_def)
  qed
qed

section \<open>Shares and documents\<close>

lemma shareGrantsAccess_spec:
  assumes "shareGrantsAccess user did act w = (Inr True, w')"
  shows "\<exists>n\<ge>w_clock_i w. delegated (w_db w) (w_clock w n) (au_ID user) did act"
proof -
  obtain found w1 where tx: "WithTx (user_ident user) (
          tryE (q_GetActiveShareForDocumentAndUser did (au_ID user))
            (\<lambda>e. if is_no_rows e then ret None else fail e)
            (\<lambda>sh. ret (Some sh))) w = (Inr found, w1)"
    and rest: "(case found of None \<Rightarrow> ret False
        | Some sh \<Rightarrow> bindE time_now (\<lambda>now.
            if share_expired now sh then ret False
            else ret (sharePermissionCovers (s_permission sh) act))) w1 = (Inr True, w')"
    using assms by (auto simp: shareGrantsAccess_def tryE_Inr fail_run ret_run split: if_splits)
  from rest obtain sh where sh: "found = Some sh" "\<not> share_expired (w_clock w1 (w_clock_i w1)) sh"
    "sharePermissionCovers (s_permission sh) act"
    by (auto simp: op_succ time_now_def split: option.splits if_splits)
  have "reads_only w w1"
    using reader.guarD [of "WithTx (user_ident user) (
          tryE (q_GetActiveShareForDocumentAndUser did (au_ID user))
            (\<lambda>e. if is_no_rows e then ret None else fail e)
            (\<lambda>sh. ret (Some sh)))" w] tx
    by auto
  then have w1: "w_clock w1 = w_clock w" "w_clock_i w \<le> w_clock_i w1"
    by (auto simp: reads_only_def params_same_def)
  have "sh \<in> set (t_shares (w_db w))" "s_document_id sh = did" "s_shared_with_user_id sh = au_ID user"
    "s_status sh = ''ACTIVE''"
    using tx_result [OF tx] sh(1)
    by (auto simp: op_succ q_GetActiveShareForDocumentAndUser_def filter_eq_Cons_iff share_live_def
        split: if_splits)
  then show ?thesis
    using sh(2,3) w1
    by (intro exI [of _ "w_clock_i w1"])
      (auto simp: delegated_def share_expired_def sharePermissionCovers_def shareViewActions_def
        shareVerifyActions_def intro!: bexI [of _ sh] split: option.splits if_splits)
qed

lemma delegated_covers:
  "delegated d t u did act \<Longrightarrow>
     act \<in> {''document:read'', ''document:download'', ''certificate:read'', ''document:verify''}"
  by (auto simp: delegated_def)

text \<open>What lets a user act on a document.\<close>

definition document_access :: "world \<Rightarrow> authenticated_user \<Rightarrow> uuid \<Rightarrow> action \<Rightarrow> bool" where
  "document_access w user did act \<longleftrightarrow> permitted (w_db w) user act \<and>
     (\<exists>doc\<in>set (t_documents (w_db w)). d_id doc = did \<and>
       (IsAdmin user \<or> case_related (w_db w) (au_ID user) (d_case_id doc) \<or>
        (\<exists>n\<ge>w_clock_i w. delegated (w_db w) (w_clock w n) (au_ID user) did act)))"

lemma CanAccessDocument_sound:
  assumes "CanAccessDocument user did act w = (Inr dec, w')" "au_ID user \<noteq> nil_uuid" "Allowed dec"
  shows "document_access w user did act"
proof -
  let ?lookup = "WithTx (user_ident user) (tryE (q_GetDocumentByID did)
           (\<lambda>e. if is_no_rows e then ret None else fail e) (\<lambda>d. ret (Some (d_case_id d))))"
  from assms obtain w1 cid w2 where perm: "HasPermission user act w = (Inr True, w1)"
    and look: "?lookup w1 = (Inr (Some cid), w2)"
    and rest: "IsAdmin user \<or> (\<exists>rel w3. loadCaseRelationship user cid w2 = (Inr rel, w3) \<and>
       (rel_found rel \<and> (rel_isOwner rel \<or> rel_isMember rel) \<or>
        (\<exists>w4. shareGrantsAccess user did act w3 = (Inr True, w4))))"
    unfolding CanAccessDocument_def
    by (auto simp: tryE_Inr fail_run ret_run dest: deny_recorded_run split: if_splits option.splits)
  have r1: "reads_only w w1" using reader.guarD [OF reader_HasPermission, of w user act] perm by simp
  have r2: "reads_only w1 w2" using reader.guarD [of ?lookup w1] look by auto
  have r12: "reads_only w w2" using r1 r2 by (rule reader.trans)
  obtain doc where doc: "doc \<in> set (t_documents (w_db w1))" "d_id doc = did" "d_case_id doc = cid"
    using tx_result [OF look]
    by (auto simp: op_succ q_GetDocumentByID_def visible_documents_def simp del: filter_filter
        dest!: filter_headD split: if_splits)
  have p: "permitted (w_db w) user act" using HasPermission_spec [OF perm] by simp
  consider "IsAdmin user" | "\<not> IsAdmin user" by blast
  then show ?thesis
  proof cases
    case 1
    then show ?thesis using doc p r1 by (auto simp: document_access_def reads_only_def)
  next
    case 2
    with rest obtain rel w3 where rel: "loadCaseRelationship user cid w2 = (Inr rel, w3)"
      "rel_found rel \<and> (rel_isOwner rel \<or> rel_isMember rel) \<or>
        (\<exists>w4. shareGrantsAccess user did act w3 = (Inr True, w4))" by blast
    have r3: "reads_only w w3"
      using reader.trans [OF r12] reader.guarD [OF reader_loadCaseRelationship, of w2 user cid] rel by simp
    from rel(2) show ?thesis
    proof
      assume "rel_found rel \<and> (rel_isOwner rel \<or> rel_isMember rel)"
      then show ?thesis
        using loadCaseRelationship_spec [OF rel(1) assms(2) 2] doc p r1 r12
        by (auto simp: document_access_def relationship_of_def reads_only_def)
    next
      assume "\<exists>w4. shareGrantsAccess user did act w3 = (Inr True, w4)"
      then obtain n where "n \<ge> w_clock_i w3" "delegated (w_db w3) (w_clock w3 n) (au_ID user) did act"
        using shareGrantsAccess_spec by blast
      then show ?thesis using doc p r1 r3
        by (auto simp: document_access_def reads_only_def params_same_def intro!: bexI [of _ doc] exI [of _ n])
    qed
  qed
qed

section \<open>The user policy\<close>

lemma CanModifyUserRole_exact:
  assumes "CanModifyUserRole actor target w = (Inr dec, w')"
  shows "Allowed dec \<longleftrightarrow> permitted (w_db w) actor ''user:role'' \<and> au_ID actor \<noteq> target"
proof -
  obtain b w1 where perm: "HasPermission actor ''user:role'' w = (Inr b, w1)"
    and rest: "(if \<not> b then
       deny_recorded actor ''user:role'' ''user'' target None ''rbac_permission_denied'' ''permission_denied''
     else if au_ID actor = target then
       deny_recorded actor ''user:role'' ''user'' target None
         ''self_role_modification_forbidden'' ''self_role_modification_forbidden''
     else ret (allow ''authorized'')) w1 = (Inr dec, w')"
    using assms by (auto simp: CanModifyUserRole_def tryE_Inr fail_run)
  show ?thesis
    using HasPermission_spec [OF perm] rest
    by (auto simp: allow_def ret_run dest: deny_recorded_run split: if_splits)
qed

end
