(* ===== verification/AuthzProps.thy ===== *)
theory AuthzProps
  imports AuthzFacts
begin

text \<open>
  The properties of the authorization policies, and the interface the services use them
  through.
\<close>

section \<open>The interface the services rely on\<close>

text \<open>
  An authorizer decides about one user, one target and one action.  Its contract: a positive
  decision implies that the user may act on that target in the state the call started from;
  the call changes no table but the audit log, and keeps the chain.
\<close>

locale authorizer =
  fixes decide :: "authenticated_user \<Rightarrow> uuid \<Rightarrow> action \<Rightarrow> decision op"
    and may :: "world \<Rightarrow> authenticated_user \<Rightarrow> uuid \<Rightarrow> action \<Rightarrow> bool"
  assumes sound: "decide u i a w = (Inr dec, w') \<Longrightarrow> Allowed dec \<Longrightarrow> au_ID u \<noteq> nil_uuid \<Longrightarrow> may w u i a"
    and framed: "audit_frame.guar (decide u i a)"
    and chained: "chain.guar (decide u i a)"
begin

lemma denied_unless_may:
  assumes "\<not> may w u i a" "au_ID u \<noteq> nil_uuid" "decide u i a w = (Inr dec, w')"
  shows "\<not> Allowed dec"
  using assms sound by blast

lemma keeps_tables: "only_audit w (snd (decide u i a w))"
  using framed by (rule audit_frame.guarD)

lemma keeps_log: "prefix (t_audit_log (w_db w)) (t_audit_log (w_db (snd (decide u i a w))))"
  using chain.guarD [OF chained] by (simp add: audit_step_def)

end

section \<open>The case policy\<close>

text \<open>
  C5.  CanAccessCase decides exactly what the tables say: it allows an action if and only if
  one of the user's roles carries the permission and the user is an administrator, the
  case's creator, or one of its active members.  This holds for every decision it returns,
  whatever failed on the way.
\<close>

theorem case_access_exact:
  assumes "CanAccessCase user cid act w = (Inr dec, w')" and "au_ID user \<noteq> nil_uuid"
  shows "Allowed dec \<longleftrightarrow> case_access (w_db w) user cid act"
  using assms by (rule CanAccessCase_exact)

text \<open>A small population: one investigator, who created a case, and one outsider.\<close>

definition sample_user :: "uuid \<Rightarrow> user_row" where [run_defs]:
  "sample_user i = \<lparr>u_id = i, u_email = ''a@b'', u_password_hash = ''x'', u_first_name = ''A'',
     u_last_name = ''B'', u_display_name = None, u_phone = None, u_status = ''active'',
     u_created_at = 1, u_updated_at = 1, u_last_login_at = None\<rparr>"

definition sample_case :: case_row where [run_defs]:
  "sample_case = \<lparr>c_id = 50, c_case_number = ''C-1'', c_title = ''t'', c_description = None,
     c_status = ''OPEN'', c_metadata = ''{}'', c_created_by = 11, c_created_at = 1, c_updated_at = 1\<rparr>"

definition sample_member :: case_member_row where [run_defs]:
  "sample_member = \<lparr>m_id = 60, m_case_id = 50, m_user_id = 11, m_membership_type = ''OWNER'',
     m_added_by = 11, m_created_at = 1, m_removed_at = None\<rparr>"

definition sample_document :: document_row where [run_defs]:
  "sample_document = \<lparr>d_id = 70, d_case_id = 50, d_parent_document_id = None, d_document_type = ''FIR'',
     d_filename = ''f.pdf'', d_description = None, d_mime_type = ''application/pdf'', d_file_size = 3,
     d_sha256_hash = replicate 32 (CHR 0x01), d_storage_bucket = ''b'', d_storage_object_key = ''k'',
     d_status = ''ACTIVE'', d_metadata = ''{}'', d_uploaded_by = 11, d_uploaded_at = 1, d_updated_at = 1\<rparr>"

definition sample_share :: share_row where [run_defs]:
  "sample_share = \<lparr>s_id = 80, s_document_id = 70, s_shared_with_user_id = 12, s_created_by_user_id = 11,
     s_permission = ''VIEW'', s_status = ''ACTIVE'', s_expires_at = Some 1000, s_reason = None,
     s_created_at = 1, s_revoked_at = None, s_revoked_by_user_id = None\<rparr>"

definition sample_db :: database where [run_defs]:
  "sample_db = empty_db\<lparr>
     t_users := [sample_user 10, (sample_user 11)\<lparr>u_email := ''c@d''\<rparr>, (sample_user 12)\<lparr>u_email := ''e@f''\<rparr>],
     t_roles := [\<lparr>r_id = 1, r_name = ''ADMIN'', r_description = None\<rparr>,
       \<lparr>r_id = 2, r_name = ''POLICE'', r_description = None\<rparr>],
     t_permissions := [\<lparr>p_id = 1, p_name = ''case:read'', p_resource = ''case'', p_action = ''read''\<rparr>,
       \<lparr>p_id = 2, p_name = ''document:read'', p_resource = ''document'', p_action = ''read''\<rparr>,
       \<lparr>p_id = 3, p_name = ''user:role'', p_resource = ''user'', p_action = ''role''\<rparr>],
     t_user_roles := [\<lparr>ur_user_id = 10, ur_role_id = 1\<rparr>, \<lparr>ur_user_id = 11, ur_role_id = 2\<rparr>,
       \<lparr>ur_user_id = 12, ur_role_id = 2\<rparr>],
     t_role_permissions := [\<lparr>rp_role_id = 1, rp_permission_id = 3\<rparr>,
       \<lparr>rp_role_id = 2, rp_permission_id = 1\<rparr>, \<lparr>rp_role_id = 2, rp_permission_id = 2\<rparr>],
     t_cases := [sample_case], t_case_members := [sample_member],
     t_documents := [sample_document], t_shares := [sample_share]\<rparr>"

definition sample_actor :: "uuid \<Rightarrow> string \<Rightarrow> authenticated_user" where [run_defs]:
  "sample_actor i r = \<lparr>au_ID = i, au_Email = ''a@b'', au_Roles = [r]\<rparr>"

declare load_roles.simps [run_defs]

lemma case_access_run:
  "fst (CanAccessCase (sample_actor 11 ''POLICE'') 50 ''case:read'' (sample_world sample_db)) =
     Inr (allow ''case_relationship_verified'')"
  supply run_congs [cong]
  by (simp add: run_defs)

lemma case_access_exact_witness:
  "case_access sample_db (sample_actor 11 ''POLICE'') 50 ''case:read''"
proof -
  obtain w' where "CanAccessCase (sample_actor 11 ''POLICE'') 50 ''case:read'' (sample_world sample_db) =
      (Inr (allow ''case_relationship_verified''), w')"
    using case_access_run by (metis prod.collapse)
  then have "Allowed (allow ''case_relationship_verified'') \<longleftrightarrow>
      case_access (w_db (sample_world sample_db)) (sample_actor 11 ''POLICE'') 50 ''case:read''"
    by (rule case_access_exact) (simp add: sample_actor_def)
  then show ?thesis by (simp add: allow_def sample_world_def)
qed

section \<open>The document policy\<close>

text \<open>
  C6.  A document is opened to a user only through a permission of one of the user's roles
  and, for a user who is not an administrator, only if the user created the document's case
  or is an active member of it, or holds an unrevoked share of that document that has not
  expired when it is checked.  A share confers reading, downloading, reading the certificate
  and, when it is a VERIFY share, verifying; it never confers redacting, sharing or
  uploading.
\<close>

theorem document_access_sound:
  assumes "CanAccessDocument user did act w = (Inr dec, w')" and "au_ID user \<noteq> nil_uuid"
    and "Allowed dec"
  shows "permitted (w_db w) user act \<and> (\<exists>doc\<in>set (t_documents (w_db w)). d_id doc = did \<and>
     (IsAdmin user \<or> case_related (w_db w) (au_ID user) (d_case_id doc) \<or>
      (act \<in> {''document:read'', ''document:download'', ''certificate:read'', ''document:verify''} \<and>
       (\<exists>n\<ge>w_clock_i w. delegated (w_db w) (w_clock w n) (au_ID user) did act))))"
  using CanAccessDocument_sound [OF assms] delegated_covers
  unfolding document_access_def by blast

lemma document_access_run:
  "fst (CanAccessDocument (sample_actor 12 ''POLICE'') 70 ''document:read'' (sample_world sample_db)) =
     Inr (allow ''delegated_share'')"
  supply run_congs [cong]
  by (simp add: run_defs)

lemma document_access_sound_witness:
  "permitted (w_db (sample_world sample_db)) (sample_actor 12 ''POLICE'') ''document:read''"
proof -
  obtain w' where "CanAccessDocument (sample_actor 12 ''POLICE'') 70 ''document:read''
      (sample_world sample_db) = (Inr (allow ''delegated_share''), w')"
    using document_access_run by (metis prod.collapse)
  then show ?thesis
    by (rule document_access_sound [THEN conjunct1]) (simp_all add: sample_actor_def allow_def)
qed

interpretation case_policy: authorizer CanAccessCase "\<lambda>w u i a. case_access (w_db w) u i a"
proof
  fix u i a w dec w'
  assume "CanAccessCase u i a w = (Inr dec, w')" "Allowed dec" "au_ID u \<noteq> nil_uuid"
  then show "case_access (w_db w) u i a" using CanAccessCase_exact by blast
qed (rule frame_CanAccessCase chain_CanAccessCase)+

interpretation document_policy: authorizer CanAccessDocument document_access
proof
  fix u i a w dec w'
  assume "CanAccessDocument u i a w = (Inr dec, w')" "Allowed dec" "au_ID u \<noteq> nil_uuid"
  then show "document_access w u i a" using CanAccessDocument_sound by blast
qed (rule frame_CanAccessDocument chain_CanAccessDocument)+

interpretation user_policy: authorizer "\<lambda>u i a. CanModifyUserRole u i"
    "\<lambda>w u i a. permitted (w_db w) u ''user:role'' \<and> au_ID u \<noteq> i"
proof
  fix u i a w dec w'
  assume "CanModifyUserRole u i w = (Inr dec, w')" "Allowed dec" "au_ID u \<noteq> nil_uuid"
  then show "permitted (w_db w) u ''user:role'' \<and> au_ID u \<noteq> i" using CanModifyUserRole_exact by blast
qed (rule frame_CanModifyUserRole chain_CanModifyUserRole)+

section \<open>The user policy\<close>

text \<open>
  CanModifyUserRole allows exactly the holders of user:role to act on somebody else:
  nobody can change their own role.
\<close>

theorem role_change_exact:
  assumes "CanModifyUserRole actor target w = (Inr dec, w')"
  shows "Allowed dec \<longleftrightarrow> permitted (w_db w) actor ''user:role'' \<and> au_ID actor \<noteq> target"
  using CanModifyUserRole_exact [OF assms] .

lemma role_change_exact_witness:
  "Allowed (deny ''self_role_modification_forbidden'') \<longleftrightarrow>
     permitted sample_db (sample_actor 10 ''ADMIN'') ''user:role'' \<and> au_ID (sample_actor 10 ''ADMIN'') \<noteq> 10"
proof -
  have "fst (CanModifyUserRole (sample_actor 10 ''ADMIN'') 10 (sample_world sample_db)) =
      Inr (deny ''self_role_modification_forbidden'')"
    supply run_congs [cong]
    by (simp add: run_defs)
  then obtain w' where "CanModifyUserRole (sample_actor 10 ''ADMIN'') 10 (sample_world sample_db) =
      (Inr (deny ''self_role_modification_forbidden''), w')"
    by (metis prod.collapse)
  from role_change_exact [OF this] show ?thesis by (simp add: sample_world_def)
qed

end
