(* ===== verification/Paging.thy ===== *)
theory Paging
  imports Runtime
begin

text \<open>
  backend/internal/utils/pagination.go and validator.go: page numbers at their width of 32
  bits, with Go's wrap-around, and the check of client-supplied metadata.
\<close>

record Pagination =
  Page :: "32 word"
  PageSize :: "32 word"

definition DefaultPageSize :: "32 word" where [run_defs]:
  "DefaultPageSize = 20"

definition MaxPageSize :: "32 word" where [run_defs]:
  "MaxPageSize = 100"

definition ParsePagination :: "32 word \<Rightarrow> 32 word \<Rightarrow> Pagination" where [run_defs]:
  "ParsePagination page pageSize =
     \<lparr>Page = (if page <s 1 then 1 else page),
      PageSize = (if pageSize <s 1 then DefaultPageSize
        else if MaxPageSize <s pageSize then MaxPageSize else pageSize)\<rparr>"

definition Limit :: "Pagination \<Rightarrow> 32 word" where [run_defs]:
  "Limit p = PageSize p"

definition Offset :: "Pagination \<Rightarrow> 32 word" where [run_defs]:
  "Offset p = (Page p - 1) * PageSize p"

record Meta =
  meta_Page :: "32 word"
  meta_PageSize :: "32 word"
  meta_Total :: int
  meta_TotalPages :: "32 word"

text \<open>
  The total is a row count of PostgreSQL, far below the bounds of an int64, so the sum and
  the quotient are taken over the integers; the conversion to int32 wraps.
\<close>

definition BuildMeta :: "Pagination \<Rightarrow> int \<Rightarrow> Meta" where [run_defs]:
  "BuildMeta p n = \<lparr>meta_Page = Page p, meta_PageSize = PageSize p, meta_Total = n,
     meta_TotalPages = (if 0 < n
       then word_of_int ((n + sint (PageSize p) - 1) div sint (PageSize p)) else 0)\<rparr>"

definition MaxMetadataBytes :: nat where [run_defs]:
  "MaxMetadataBytes = 32 * 1024"

definition ValidateJSONMetadata :: "library \<Rightarrow> bytes \<Rightarrow> gerr option" where [run_defs]:
  "ValidateJSONMetadata lib raw =
     (if raw = [] then None
      else if MaxMetadataBytes < length raw
      then Some (StdErr ''metadata exceeds the maximum size of 32768 bytes'')
      else case lib_json_value lib raw of
        Inl m \<Rightarrow> Some (Wrap ''metadata must be valid JSON'' (StdErr m))
      | Inr (JObj kvs) \<Rightarrow> None
      | Inr v \<Rightarrow> Some (StdErr ''metadata must be a JSON object''))"

end
