(* ===== verification/PagingProps.thy ===== *)
theory PagingProps
  imports Paging Queries
begin

text \<open>
  Page arithmetic: the bounds ParsePagination enforces, where the 32-bit offset wraps, and
  the pages of a listing as a partition of it.
\<close>

lemma sint_of_int_fits:
  assumes "- (2 ^ 31) \<le> i" "i < 2 ^ 31"
  shows "sint (word_of_int i :: 32 word) = i"
  using assms by (simp add: signed_of_int signed_take_bit_int_eq_self)

lemma sint_mult_fits:
  fixes a b :: "32 word"
  assumes "- (2 ^ 31) \<le> sint a * sint b" "sint a * sint b < 2 ^ 31"
  shows "sint (a * b) = sint a * sint b"
  using assms by (simp add: sint_word_ariths signed_take_bit_int_eq_self)

lemma sint_minus_one: "1 \<le> sint (a :: 32 word) \<Longrightarrow> sint (a - 1) = sint a - 1"
  using sint_lt [of a] by (simp add: sint_word_ariths signed_take_bit_int_eq_self)

lemma ParsePagination_bounds:
  "1 \<le> sint (Page (ParsePagination page sz))" "1 \<le> sint (PageSize (ParsePagination page sz))"
  "sint (PageSize (ParsePagination page sz)) \<le> 100"
  by (auto simp: ParsePagination_def DefaultPageSize_def MaxPageSize_def word_sless_alt not_less)

lemma Offset_exact:
  assumes "1 \<le> sint (Page p)" "0 \<le> sint (PageSize p)" "(sint (Page p) - 1) * sint (PageSize p) < 2 ^ 31"
  shows "sint (Offset p) = (sint (Page p) - 1) * sint (PageSize p)"
proof -
  have "0 \<le> (sint (Page p) - 1) * sint (PageSize p)" using assms by simp
  then have "- (2 ^ 31) \<le> sint (Page p - 1) * sint (PageSize p)"
    using assms by (simp only: sint_minus_one)
  then show ?thesis
    unfolding Offset_def using assms by (subst sint_mult_fits) (simp_all only: sint_minus_one)
qed

text \<open>
  Whatever a client asks for, the page is at least 1 and the page size between 1 and 100.
  The 32-bit offset equals (page - 1) * size exactly when that product fits; a larger page
  number makes it wrap.
\<close>

theorem page_offset_bounds:
  "1 \<le> sint (Page (ParsePagination page sz)) \<and>
   1 \<le> sint (PageSize (ParsePagination page sz)) \<and> sint (PageSize (ParsePagination page sz)) \<le> 100 \<and>
   (sint (Offset (ParsePagination page sz)) =
      (sint (Page (ParsePagination page sz)) - 1) * sint (PageSize (ParsePagination page sz))) =
   ((sint (Page (ParsePagination page sz)) - 1) * sint (PageSize (ParsePagination page sz)) < 2 ^ 31)"
  using ParsePagination_bounds [of page sz] Offset_exact [of "ParsePagination page sz"]
    sint_lt [of "Offset (ParsePagination page sz)"]
  by auto

text \<open>
  A page number within the range the API accepts makes the offset negative, and the
  listing statement then fails: the client gets an internal error instead of an empty page.
\<close>

theorem page_offset_wraps:
  "sint (Offset (ParsePagination 21474838 100)) < 0 \<and>
   paged (sint (Limit (ParsePagination 21474838 100))) (sint (Offset (ParsePagination 21474838 100))) xs =
     Inl (PgError ''2201X'' '''')"
  by (simp add: ParsePagination_def DefaultPageSize_def MaxPageSize_def Offset_def Limit_def
      word_sless_alt paged_def)

section \<open>Pages partition a listing\<close>

definition page_rows :: "Pagination \<Rightarrow> 'a list \<Rightarrow> nat \<Rightarrow> gerr + 'a list" where [run_defs]:
  "page_rows p xs k = (let q = p\<lparr>Page := word_of_int (int k + 1)\<rparr> in
     paged (sint (Limit q)) (sint (Offset q)) xs)"

lemma concat_pages:
  "0 < s \<Longrightarrow> length xs \<le> n * s \<Longrightarrow> concat (map (\<lambda>k. take s (drop (k * s) xs)) [0..<n]) = xs"
proof (induction n arbitrary: xs)
  case 0
  then show ?case by simp
next
  case (Suc n)
  have "concat (map (\<lambda>k. take s (drop (k * s) (drop s xs))) [0..<n]) = drop s xs"
    using Suc.IH [of "drop s xs"] Suc.prems by simp
  then show ?case
    by (simp add: upt_conv_Cons map_Suc_upt [symmetric] o_def add.commute del: upt_Suc)
qed

lemma page_rows_run:
  assumes "1 \<le> sint (PageSize p)" "int k * sint (PageSize p) < 2 ^ 31" "int k + 1 < 2 ^ 31"
  shows "page_rows p xs k = Inr (take (nat (sint (PageSize p))) (drop (k * nat (sint (PageSize p))) xs))"
proof -
  define q where "q = p\<lparr>Page := word_of_int (int k + 1)\<rparr>"
  have "sint (Page q) = int k + 1"
    using assms(3) sint_of_int_fits [of "int k + 1"] by (simp add: q_def del: of_int_add of_int_of_nat_eq)
  then have "sint (Offset q) = int k * sint (PageSize p)"
    using assms by (subst Offset_exact) (simp_all add: q_def)
  moreover have "PageSize q = PageSize p" by (simp add: q_def)
  ultimately show ?thesis
    using assms unfolding page_rows_def q_def [symmetric] Let_def
    by (simp add: paged_def Limit_def nat_mult_distrib not_less)
qed

text \<open>
  C14.  The pages a listing announces in its metadata, fetched one after the other, are the
  whole listing in order, without a repetition or a gap.
\<close>

theorem pages_partition:
  assumes "p = ParsePagination page sz" "length xs < 2 ^ 31"
  shows "(\<forall>k<nat (sint (meta_TotalPages (BuildMeta p (int (length xs))))). \<exists>rows. page_rows p xs k = Inr rows) \<and>
    concat (map (\<lambda>k. case page_rows p xs k of Inr rows \<Rightarrow> rows | Inl e \<Rightarrow> [])
      [0..<nat (sint (meta_TotalPages (BuildMeta p (int (length xs)))))]) = xs"
proof -
  define s where "s = sint (PageSize p)"
  define n where "n = (int (length xs) + s - 1) div s"
  have s: "1 \<le> s" "s \<le> 100" using ParsePagination_bounds [of page sz] assms(1) by (simp_all add: s_def)
  have len: "int (length xs) < 2 ^ 31" using assms(2) by simp
  have n0: "0 \<le> n" using s by (simp add: n_def pos_imp_zdiv_nonneg_iff)
  have up: "int (length xs) \<le> n * s"
    using s div_mult_mod_eq [of "int (length xs) + s - 1" s] pos_mod_bound [of s "int (length xs) + s - 1"]
    unfolding n_def by linarith
  have down: "n * s \<le> int (length xs) + s - 1"
    using s div_mult_mod_eq [of "int (length xs) + s - 1" s] pos_mod_sign [of s "int (length xs) + s - 1"]
    unfolding n_def by linarith
  have pages: "int k * s < 2 ^ 31 \<and> int k + 1 < 2 ^ 31" if "int k < n" for k
  proof -
    have "(int k + 1) * s \<le> n * s" using that s by (intro mult_right_mono) simp_all
    then have ks: "int k * s + s \<le> int (length xs) + s - 1" using down by (simp add: distrib_right)
    moreover have "int k * 1 \<le> int k * s" using s by (intro mult_left_mono) simp_all
    ultimately show ?thesis using len by simp
  qed
  have "n < 2 ^ 31"
  proof (rule ccontr)
    assume "\<not> n < 2 ^ 31"
    then show False using pages [of "2 ^ 31 - 1"] by simp
  qed
  then have total: "sint (meta_TotalPages (BuildMeta p (int (length xs)))) = n"
    using n0 s sint_of_int_fits [of n]
    by (cases "xs = []") (auto simp: BuildMeta_def n_def simp flip: s_def)
  have rows: "page_rows p xs k = Inr (take (nat s) (drop (k * nat s) xs))" if "k < nat n" for k
    using page_rows_run [of p k xs] pages [of k] s that by (simp add: s_def zless_nat_eq_int_zless)
  have "int (length xs) \<le> int (nat n * nat s)"
    using up n0 s by simp
  then have "length xs \<le> nat n * nat s" by linarith
  then have whole: "concat (map (\<lambda>k. take (nat s) (drop (k * nat s) xs)) [0..<nat n]) = xs"
    using s by (intro concat_pages) simp_all
  have each: "map (\<lambda>k. case page_rows p xs k of Inr rows \<Rightarrow> rows | Inl e \<Rightarrow> []) [0..<nat n] =
      map (\<lambda>k. take (nat s) (drop (k * nat s) xs)) [0..<nat n]"
    using rows by simp
  show ?thesis unfolding total each whole using rows by simp
qed

lemma pages_partition_witness:
  "concat (map (\<lambda>k. case page_rows (ParsePagination 1 2) [1, 2, 3 :: nat] k of Inr rows \<Rightarrow> rows | Inl e \<Rightarrow> [])
      [0..<nat (sint (meta_TotalPages (BuildMeta (ParsePagination 1 2) (int (length [1, 2, 3 :: nat])))))]) = [1, 2, 3]"
  using pages_partition [OF refl, of "[1, 2, 3 :: nat]" 1 2] by simp

end
