(* ===== verification/TwoRuns.thy ===== *)
theory TwoRuns
  imports AuditChain
begin

text \<open>
  Two runs of one operation on databases that differ where it must not matter.  \<^verbatim>\<open>agrees\<close>
  compares an operation on a database \<^verbatim>\<open>d\<close> with another one on \<^verbatim>\<open>g d\<close>: they report
  the same errors, their results are related, and they leave worlds that differ by \<^verbatim>\<open>g\<close>
  again.  \<^verbatim>\<open>answers\<close> only asks for the same worlds after a success, which is enough when an
  error ends the operation.
\<close>

definition over :: "(database \<Rightarrow> database) \<Rightarrow> world \<Rightarrow> world" where
  "over g w = w\<lparr>w_db := g (w_db w)\<rparr>"

lemma over_simps [simp]:
  "w_lib (over g w) = w_lib w" "w_db (over g w) = g (w_db w)" "w_ctx (over g w) = w_ctx w"
  "w_tx_now (over g w) = w_tx_now w" "w_clock (over g w) = w_clock w" "w_clock_i (over g w) = w_clock_i w"
  "w_rng (over g w) = w_rng w" "w_rng_i (over g w) = w_rng_i w" "w_faults (over g w) = w_faults w"
  "w_fault_i (over g w) = w_fault_i w" "w_seq (over g w) = w_seq w" "w_counters (over g w) = w_counters w"
  "w_published (over g w) = w_published w" "w_jobs (over g w) = w_jobs w"
  "w_objects (over g w) = w_objects w" "w_ledger (over g w) = w_ledger w"
  by (simp_all add: over_def)

lemma over_commutes [simp]:
  "over g (w\<lparr>w_clock_i := n\<rparr>) = (over g w)\<lparr>w_clock_i := n\<rparr>"
  "over g (w\<lparr>w_rng_i := n\<rparr>) = (over g w)\<lparr>w_rng_i := n\<rparr>"
  "over g (w\<lparr>w_fault_i := n\<rparr>) = (over g w)\<lparr>w_fault_i := n\<rparr>"
  "over g (w\<lparr>w_seq := s\<rparr>) = (over g w)\<lparr>w_seq := s\<rparr>"
  "over g (w\<lparr>w_ctx := c\<rparr>) = (over g w)\<lparr>w_ctx := c\<rparr>"
  "over g (w\<lparr>w_tx_now := t\<rparr>) = (over g w)\<lparr>w_tx_now := t\<rparr>"
  "over g (w\<lparr>w_counters := rc\<rparr>) = (over g w)\<lparr>w_counters := rc\<rparr>"
  "over g (faulted w) = faulted (over g w)"
  by (simp_all add: over_def faulted_def)

definition agrees :: "(database \<Rightarrow> database) \<Rightarrow> ('a \<Rightarrow> 'b \<Rightarrow> bool) \<Rightarrow> 'a op \<Rightarrow> 'b op \<Rightarrow> bool" where
  "agrees g R m m' \<longleftrightarrow> (\<forall>w. rel_sum (=) R (fst (m w)) (fst (m' (over g w))) \<and>
     snd (m' (over g w)) = over g (snd (m w)))"

definition answers :: "(database \<Rightarrow> database) \<Rightarrow> ('a \<Rightarrow> 'b \<Rightarrow> bool) \<Rightarrow> 'a op \<Rightarrow> 'b op \<Rightarrow> bool" where
  "answers g R m m' \<longleftrightarrow> (\<forall>w. rel_sum (=) R (fst (m w)) (fst (m' (over g w))) \<and>
     ((\<exists>x. fst (m w) = Inr x) \<longrightarrow> snd (m' (over g w)) = over g (snd (m w))))"

lemma agreesI:
  "(\<And>w. rel_sum (=) R (fst (m w)) (fst (m' (over g w)))) \<Longrightarrow>
   (\<And>w. snd (m' (over g w)) = over g (snd (m w))) \<Longrightarrow> agrees g R m m'"
  by (simp add: agrees_def)

lemma agrees_cases:
  assumes "agrees g R m m'"
  obtains (err) e w1 where "m w = (Inl e, w1)" "m' (over g w) = (Inl e, over g w1)"
    | (res) x y w1 where "m w = (Inr x, w1)" "m' (over g w) = (Inr y, over g w1)" "R x y"
proof (cases "m w")
  case (Pair r w1)
  have rel: "rel_sum (=) R r (fst (m' (over g w)))" and snd: "snd (m' (over g w)) = over g w1"
    using assms Pair unfolding agrees_def by (metis fst_conv, metis snd_conv)
  show ?thesis
  proof (cases r)
    case (Inl e)
    then have "fst (m' (over g w)) = Inl e" using rel by (cases "fst (m' (over g w))") simp_all
    then show ?thesis using err Pair Inl snd by (metis prod.collapse)
  next
    case (Inr x)
    then obtain y where "fst (m' (over g w)) = Inr y" "R x y"
      using rel by (cases "fst (m' (over g w))") simp_all
    then show ?thesis using res Pair Inr snd by (metis prod.collapse)
  qed
qed

lemma answers_cases:
  assumes "answers g R m m'"
  obtains (err) e w1 w2 where "m w = (Inl e, w1)" "m' (over g w) = (Inl e, w2)"
    | (res) x y w1 where "m w = (Inr x, w1)" "m' (over g w) = (Inr y, over g w1)" "R x y"
proof (cases "m w")
  case (Pair r w1)
  have rel: "rel_sum (=) R r (fst (m' (over g w)))"
    and snd: "\<exists>x. r = Inr x \<Longrightarrow> snd (m' (over g w)) = over g w1"
    using assms Pair unfolding answers_def by (metis fst_conv, metis fst_conv snd_conv)
  show ?thesis
  proof (cases r)
    case (Inl e)
    then have "fst (m' (over g w)) = Inl e" using rel by (cases "fst (m' (over g w))") simp_all
    then show ?thesis using err Pair Inl by (metis prod.collapse)
  next
    case (Inr x)
    then obtain y where "fst (m' (over g w)) = Inr y" "R x y"
      using rel by (cases "fst (m' (over g w))") simp_all
    then show ?thesis using res Pair Inr snd by (metis prod.collapse)
  qed
qed

lemma agrees_answers: "agrees g R m m' \<Longrightarrow> answers g R m m'"
  by (simp add: agrees_def answers_def)

lemma answersD: "answers g (=) m m' \<Longrightarrow> fst (m' (over g w)) = fst (m w)"
  unfolding answers_def by (cases "fst (m w)"; cases "fst (m' (over g w))") (metis rel_sum_simps)+

lemma agrees_tryE:
  assumes "agrees g R m m'" and "\<And>e. agrees g S (h e) (h' e)" and "\<And>x y. R x y \<Longrightarrow> agrees g S (k x) (k' y)"
  shows "agrees g S (tryE m h k) (tryE m' h' k')"
proof (rule agreesI)
  fix w
  show "rel_sum (=) S (fst (tryE m h k w)) (fst (tryE m' h' k' (over g w)))"
    by (rule agrees_cases [OF assms(1), of w]) (use assms(2,3) in \<open>simp_all add: tryE_def agrees_def\<close>)
  show "snd (tryE m' h' k' (over g w)) = over g (snd (tryE m h k w))"
    by (rule agrees_cases [OF assms(1), of w]) (use assms(2,3) in \<open>simp_all add: tryE_def agrees_def\<close>)
qed

lemma answers_tryE:
  assumes "agrees g R m m'" and "\<And>e. answers g S (h e) (h' e)" and "\<And>x y. R x y \<Longrightarrow> answers g S (k x) (k' y)"
  shows "answers g S (tryE m h k) (tryE m' h' k')"
  unfolding answers_def
proof (intro allI)
  fix w
  show "rel_sum (=) S (fst (tryE m h k w)) (fst (tryE m' h' k' (over g w))) \<and>
     ((\<exists>x. fst (tryE m h k w) = Inr x) \<longrightarrow> snd (tryE m' h' k' (over g w)) = over g (snd (tryE m h k w)))"
    by (rule agrees_cases [OF assms(1), of w]) (use assms(2,3) in \<open>simp_all add: tryE_def answers_def\<close>)
qed

lemma answers_bindE:
  assumes "answers g R m m'" and "\<And>x y. R x y \<Longrightarrow> answers g S (k x) (k' y)"
    and "\<And>e w w'. \<exists>e' v v'. h e w = (Inl e', v) \<and> h' e w' = (Inl e', v')"
  shows "answers g S (tryE m h k) (tryE m' h' k')"
  unfolding answers_def
proof (intro allI)
  fix w
  show "rel_sum (=) S (fst (tryE m h k w)) (fst (tryE m' h' k' (over g w))) \<and>
     ((\<exists>x. fst (tryE m h k w) = Inr x) \<longrightarrow> snd (tryE m' h' k' (over g w)) = over g (snd (tryE m h k w)))"
  proof (rule answers_cases [OF assms(1), of w])
    fix e w1 w2
    assume run: "m w = (Inl e, w1)" "m' (over g w) = (Inl e, w2)"
    obtain e' v v' where "h e w1 = (Inl e', v)" "h' e w2 = (Inl e', v')" using assms(3) by blast
    then show ?thesis using run by (simp add: tryE_def)
  next
    fix x y w1
    assume "m w = (Inr x, w1)" "m' (over g w) = (Inr y, over g w1)" "R x y"
    then show ?thesis using assms(2) [of x y] by (simp add: tryE_def answers_def)
  qed
qed

lemma answers_fail_bindE:
  assumes "answers g R m m'" and "\<And>x y. R x y \<Longrightarrow> answers g S (k x) (k' y)"
  shows "answers g S (tryE m (\<lambda>e. fail (f e)) k) (tryE m' (\<lambda>e. fail (f e)) k')"
  by (rule answers_bindE [OF assms]) (simp_all add: fail_def)

lemma agrees_ret: "R x y \<Longrightarrow> agrees g R (ret x) (ret y)"
  by (simp add: agrees_def ret_def)

lemma agrees_fail: "agrees g R (fail e) (fail e)"
  by (simp add: agrees_def fail_def)

lemma agrees_ensure: "agrees g R k k' \<Longrightarrow> agrees g R (ensure b e k) (ensure b e k')"
  by (simp add: ensure_def agrees_fail)

lemma agrees_if: "(b \<Longrightarrow> agrees g R m m') \<Longrightarrow> (\<not> b \<Longrightarrow> agrees g R n n') \<Longrightarrow>
    agrees g R (if b then m else n) (if b then m' else n')"
  by simp

lemma answers_if: "(b \<Longrightarrow> answers g R m m') \<Longrightarrow> (\<not> b \<Longrightarrow> answers g R n n') \<Longrightarrow>
    answers g R (if b then m else n) (if b then m' else n')"
  by simp

lemma agrees_get_world: "(\<And>w. R (f w) (f' (over g w))) \<Longrightarrow> agrees g R (get_world f) (get_world f')"
  by (simp add: agrees_def get_world_def)

lemma agrees_draws: "agrees g (=) uuid_new uuid_new" "agrees g (=) time_now time_now"
  by (simp_all add: agrees_def uuid_new_def time_now_def)

lemma agrees_ignoring: "agrees g R m m' \<Longrightarrow> agrees g S k k' \<Longrightarrow> agrees g S (ignoring m k) (ignoring m' k')"
  by (simp add: agrees_def ignoring_def)

lemma infra_cases: "infra m w = (case w_faults w (w_fault_i w) of
    Some e \<Rightarrow> (Inl (fault_error e), faulted w) | None \<Rightarrow> m (faulted w))"
  by (simp add: infra_def faulted_def Let_def split: option.split)

lemma agrees_infra:
  assumes "agrees g R m m'"
  shows "agrees g R (infra m) (infra m')"
proof -
  have "rel_sum (=) R (fst (m (faulted w))) (fst (m' (faulted (over g w))))"
    "snd (m' (faulted (over g w))) = over g (snd (m (faulted w)))" for w
    using assms unfolding agrees_def over_commutes(8) [symmetric] by blast+
  then show ?thesis by (simp add: agrees_def infra_cases split: option.split)
qed

lemma agrees_query:
  "(\<And>d c t. rel_sum (=) R (q d c t) (q' (g d) c t)) \<Longrightarrow> agrees g R (query q) (query q')"
  unfolding query_def by (rule agrees_infra) (simp add: agrees_def)

lemma agrees_WithTx:
  assumes "agrees g R fn fn'"
  shows "agrees g R (WithTx i fn) (WithTx i fn')"
proof -
  let ?body = "\<lambda>f. try_wrap (begin_tx i) ''repository: begin transaction'' (\<lambda>_.
     try_wrap (infra (ret ())) ''repository: set app.user_id'' (\<lambda>_.
     try_wrap (infra (ret ())) ''repository: set app.role'' (\<lambda>_.
     bindE f (\<lambda>x. try_wrap commit_tx ''repository: commit transaction'' (\<lambda>_. ret x)))))"
  have start: "agrees g (=) (begin_tx i) (begin_tx i)"
    unfolding begin_tx_def by (rule agrees_infra) (simp add: agrees_def)
  have steps: "agrees g (=) (infra (ret ())) (infra (ret ()))" "agrees g (=) commit_tx commit_tx"
    unfolding commit_tx_def by (rule agrees_infra, rule agrees_ret, simp)+
  have body: "agrees g R (?body fn) (?body fn')"
    by (rule agrees_tryE [OF start agrees_fail] agrees_tryE [OF steps(1) agrees_fail]
        agrees_tryE [OF assms agrees_fail] agrees_tryE [OF steps(2) agrees_fail] agrees_ret | assumption)+
  have same: "rollback (over g w) (over g w1) = over g (rollback w w1)"
    "end_tx (over g w) (over g w1) = over g (end_tx w w1)" for w w1
    by (simp_all add: rollback_def end_tx_def over_def)
  show ?thesis
  proof (rule agreesI)
    fix w
    show "rel_sum (=) R (fst (WithTx i fn w)) (fst (WithTx i fn' (over g w)))"
      unfolding WithTx_def by (rule agrees_cases [OF body, of w]) simp_all
    show "snd (WithTx i fn' (over g w)) = over g (snd (WithTx i fn w))"
      unfolding WithTx_def by (rule agrees_cases [OF body, of w]) (simp_all add: same)
  qed
qed

text \<open>The Redis counters are outside the database.\<close>

lemma agrees_redis:
  "agrees g (=) (redis_incr key) (redis_incr key)" "agrees g (=) (redis_expire key t) (redis_expire key t)"
  "agrees g (=) (redis_ttl key) (redis_ttl key)" "agrees g (=) (redis_del key) (redis_del key)"
  unfolding redis_incr_def redis_expire_def redis_ttl_def redis_del_def
  by ((rule agrees_infra, force simp: agrees_def live_counter_def redis_now_def split: option.split prod.split))+

lemmas agrees_rules = agrees_ret agrees_fail agrees_ensure agrees_if agrees_draws agrees_WithTx agrees_ignoring

end
