(* ===== verification/ServiceLogic.thy ===== *)
theory ServiceLogic
  imports AuthzProps
begin

text \<open>
  What the proofs about the services share: which errors an operation can return, which
  operations leave the tables alone when they fail, and state invariants of the database,
  packaged as guarantees.
\<close>

section \<open>The tables without the audit log\<close>

definition tables :: "world \<Rightarrow> database" where
  "tables w = (w_db w)\<lparr>t_audit_log := []\<rparr>"

lemma only_audit_tables: "only_audit w w' \<longleftrightarrow> tables w' = tables w"
  by (simp add: only_audit_def tables_def)

lemma tables_cong: "w_db w = w_db w' \<Longrightarrow> tables w = tables w'"
  by (simp add: tables_def)

lemma tables_sel [simp]:
  "t_users (tables w) = t_users (w_db w)" "t_roles (tables w) = t_roles (w_db w)"
  "t_permissions (tables w) = t_permissions (w_db w)" "t_user_roles (tables w) = t_user_roles (w_db w)"
  "t_role_permissions (tables w) = t_role_permissions (w_db w)" "t_cases (tables w) = t_cases (w_db w)"
  "t_case_members (tables w) = t_case_members (w_db w)" "t_parties (tables w) = t_parties (w_db w)"
  "t_documents (tables w) = t_documents (w_db w)" "t_shares (tables w) = t_shares (w_db w)"
  "t_sessions (tables w) = t_sessions (w_db w)" "t_verifications (tables w) = t_verifications (w_db w)"
  "t_anchors (tables w) = t_anchors (w_db w)" "t_certificates (tables w) = t_certificates (w_db w)"
  "t_exports (tables w) = t_exports (w_db w)" "t_redactions (tables w) = t_redactions (w_db w)"
  by (simp_all add: tables_def)

lemma tables_eqD:
  assumes "tables w = tables w'"
  shows "t_users (w_db w) = t_users (w_db w')" "t_roles (w_db w) = t_roles (w_db w')"
    "t_permissions (w_db w) = t_permissions (w_db w')" "t_user_roles (w_db w) = t_user_roles (w_db w')"
    "t_role_permissions (w_db w) = t_role_permissions (w_db w')" "t_cases (w_db w) = t_cases (w_db w')"
    "t_case_members (w_db w) = t_case_members (w_db w')" "t_parties (w_db w) = t_parties (w_db w')"
    "t_documents (w_db w) = t_documents (w_db w')" "t_shares (w_db w) = t_shares (w_db w')"
    "t_sessions (w_db w) = t_sessions (w_db w')" "t_verifications (w_db w) = t_verifications (w_db w')"
    "t_anchors (w_db w) = t_anchors (w_db w')" "t_certificates (w_db w) = t_certificates (w_db w')"
    "t_exports (w_db w) = t_exports (w_db w')" "t_redactions (w_db w) = t_redactions (w_db w')"
  by (metis tables_sel assms)+

lemma frame_tables: "audit_frame.guar m \<Longrightarrow> m w = (r, w') \<Longrightarrow> tables w' = tables w"
  using audit_frame.guarD [of m w] by (simp add: only_audit_tables)

lemma Record_run: "Record ev w = (r, w') \<Longrightarrow> r = Inr () \<and> tables w' = tables w"
  using chain_writer.total [of ev w] frame_tables [OF frame_Record] by (metis fst_conv)

lemma Record_then: "tryE (Record ev) h k w = k () (snd (Record ev w))"
  by (rule chain_writer.then_run)

lemma WithTx_tables: "WithTx i fn w = (Inl e, w') \<Longrightarrow> tables w' = tables w"
  by (intro tables_cong) (rule WithTx_atomic)

section \<open>Which errors an operation returns\<close>

definition fails_only :: "(gerr \<Rightarrow> bool) \<Rightarrow> 'a op \<Rightarrow> bool" where
  "fails_only P m \<longleftrightarrow> (\<forall>w e w'. m w = (Inl e, w') \<longrightarrow> P e)"

lemma fails_onlyD: "fails_only P m \<Longrightarrow> m w = (Inl e, w') \<Longrightarrow> P e"
  by (auto simp: fails_only_def)

lemma fails_ret: "fails_only P (ret x)"
  by (simp add: fails_only_def ret_def)

lemma fails_get_world: "fails_only P (get_world f)"
  by (simp add: fails_only_def get_world_def)

lemma fails_fail: "P e \<Longrightarrow> fails_only P (fail e)"
  by (simp add: fails_only_def fail_def)

lemma fails_Record: "fails_only P (Record ev)"
  by (auto simp: fails_only_def dest: Record_run)

lemma fails_uuid_new: "fails_only P uuid_new"
  by (simp add: fails_only_def uuid_new_def)

lemma fails_time_now: "fails_only P time_now"
  by (simp add: fails_only_def time_now_def)

lemma fails_publish: "fails_only P (publish a b c d)"
  by (simp add: fails_only_def publish_def)

lemma fails_bind: "fails_only P m \<Longrightarrow> (\<And>x. fails_only P (k x)) \<Longrightarrow> fails_only P (bindE m k)"
  by (auto simp: fails_only_def tryE_def fail_def split: sum.splits prod.splits)

lemma fails_try: "(\<And>e. fails_only P (h e)) \<Longrightarrow> (\<And>x. fails_only P (k x)) \<Longrightarrow> fails_only P (tryE m h k)"
  by (auto simp: fails_only_def tryE_def split: sum.splits prod.splits)

lemma fails_try_from:
  "fails_only Q m \<Longrightarrow> (\<And>e. Q e \<Longrightarrow> fails_only P (h e)) \<Longrightarrow> (\<And>x. fails_only P (k x)) \<Longrightarrow>
     fails_only P (tryE m h k)"
  unfolding fails_only_def by (auto simp: tryE_Inl) blast+

lemma fails_ensure: "P e \<Longrightarrow> fails_only P k \<Longrightarrow> fails_only P (ensure b e k)"
  by (simp add: ensure_def fails_fail)

lemma fails_ignoring: "fails_only P k \<Longrightarrow> fails_only P (ignoring m k)"
  by (auto simp: fails_only_def ignoring_def)

lemma fails_if: "(b \<Longrightarrow> fails_only P m) \<Longrightarrow> (\<not> b \<Longrightarrow> fails_only P n) \<Longrightarrow> fails_only P (if b then m else n)"
  by simp

lemma fails_option:
  "(x = None \<Longrightarrow> fails_only P m) \<Longrightarrow> (\<And>y. x = Some y \<Longrightarrow> fails_only P (f y)) \<Longrightarrow>
     fails_only P (case x of None \<Rightarrow> m | Some y \<Rightarrow> f y)"
  by (cases x) auto

lemma fails_sum:
  "(\<And>e. x = Inl e \<Longrightarrow> fails_only P (f e)) \<Longrightarrow> (\<And>y. x = Inr y \<Longrightarrow> fails_only P (g y)) \<Longrightarrow>
     fails_only P (case x of Inl e \<Rightarrow> f e | Inr y \<Rightarrow> g y)"
  by (cases x) auto

lemma fails_prod: "(\<And>a b. x = (a, b) \<Longrightarrow> fails_only P (f a b)) \<Longrightarrow> fails_only P (case x of (a, b) \<Rightarrow> f a b)"
  by (cases x) auto

lemma fails_list:
  "(x = [] \<Longrightarrow> fails_only P m) \<Longrightarrow> (\<And>y ys. x = y # ys \<Longrightarrow> fails_only P (f y ys)) \<Longrightarrow>
     fails_only P (case x of [] \<Rightarrow> m | y # ys \<Rightarrow> f y ys)"
  by (cases x) auto

lemmas fails_rules = fails_ret fails_get_world fails_fail fails_Record fails_uuid_new fails_time_now
  fails_publish fails_bind fails_try fails_ensure fails_ignoring fails_if fails_option fails_sum
  fails_prod fails_list

text \<open>
  What the handlers may show a client: an AppError with a known status; an internal one
  carries its cause only for the log, behind a fixed message.
\<close>

definition client_safe :: "gerr \<Rightarrow> bool" where
  "client_safe e \<longleftrightarrow> (\<exists>s code msg cause r. e = AppErr s code msg cause r \<and>
     s \<in> {400, 401, 403, 404, 409, 413, 422, 429, 500, 503} \<and>
     (s = 500 \<longrightarrow> code = ''INTERNAL_ERROR'' \<and> msg = ''An unexpected error occurred'') \<and>
     (s \<noteq> 500 \<longrightarrow> cause = None))"

lemma client_safe_simps [simp]:
  "client_safe (ErrInternal e)" "client_safe (ErrBadRequest m)" "client_safe (ErrNotFound m)"
  "client_safe (ErrServiceUnavailable m)" "client_safe (ErrUnauthorized m)"
  "client_safe (ErrForbidden m)" "client_safe (ErrConflict m)"
  "client_safe (ErrUnprocessableEntity m)" "client_safe (ErrRequestEntityTooLarge m)"
  "client_safe (ErrTooManyRequests m)"
  by (simp_all add: client_safe_def app_error_defs)

lemma client_safe_retry [simp]: "client_safe (WithRetryAfter (ErrTooManyRequests m) d)"
  by (simp add: client_safe_def app_error_defs)

text \<open>Errors of statements carry no AppError; one raised inside a transaction must be safe to show.\<close>

definition safe_inside :: "gerr \<Rightarrow> bool" where
  "safe_inside e \<longleftrightarrow> (case AsAppError e of None \<Rightarrow> True | Some a \<Rightarrow> client_safe a)"

lemma safe_inside_simps [simp]:
  "safe_inside ErrNoRows" "safe_inside (PgError a b)" "safe_inside (DbFault m)" "safe_inside (StdErr m)"
  "safe_inside (Wrap m e) = safe_inside e" "client_safe e \<Longrightarrow> safe_inside e"
  by (auto simp: safe_inside_def client_safe_def)

lemma safe_inside_fault [simp]: "safe_inside (fault_error f)"
  by (cases f) simp_all

lemma fails_query:
  "(\<And>d c t e. q d c t = Inl e \<Longrightarrow> safe_inside e) \<Longrightarrow> fails_only safe_inside (query q)"
  by (auto simp: fails_only_def query_Inl)

lemma fails_exec:
  "(\<And>l d c t e. q l d c t = Inl e \<Longrightarrow> safe_inside e) \<Longrightarrow> fails_only safe_inside (exec q)"
  by (auto simp: fails_only_def dest!: exec_Inl)

lemma fails_infra: "fails_only safe_inside m \<Longrightarrow> fails_only safe_inside (infra m)"
  by (auto simp: fails_only_def infra_def Let_def split: option.splits)

lemma fails_WithTx:
  assumes "fails_only safe_inside fn" shows "fails_only safe_inside (WithTx i fn)"
proof -
  let ?body = "try_wrap (begin_tx i) ''repository: begin transaction'' (\<lambda>_.
     try_wrap (infra (ret ())) ''repository: set app.user_id'' (\<lambda>_.
     try_wrap (infra (ret ())) ''repository: set app.role'' (\<lambda>_.
     bindE fn (\<lambda>x. try_wrap commit_tx ''repository: commit transaction'' (\<lambda>_. ret x)))))"
  have "fails_only safe_inside ?body"
    unfolding begin_tx_def commit_tx_def
    by (intro fails_try_from [OF fails_infra] fails_bind assms fails_fail fails_ret)
      (auto simp: fails_only_def ret_def)
  then show ?thesis
    by (auto simp: WithTx_def fails_only_def split: sum.splits prod.splits)
qed

section \<open>Operations that leave the tables alone when they fail\<close>

definition clean :: "'a op \<Rightarrow> bool" where
  "clean m \<longleftrightarrow> (\<forall>w e w'. m w = (Inl e, w') \<longrightarrow> tables w' = tables w)"

definition never_fails :: "'a op \<Rightarrow> bool" where
  "never_fails m \<longleftrightarrow> fails_only (\<lambda>_. False) m"

lemma cleanD: "clean m \<Longrightarrow> m w = (Inl e, w') \<Longrightarrow> tables w' = tables w"
  by (auto simp: clean_def)

lemma clean_frame: "audit_frame.guar m \<Longrightarrow> clean m"
  using frame_tables by (fastforce simp: clean_def)

lemma clean_WithTx: "clean (WithTx i fn)"
  by (auto simp: clean_def dest: WithTx_tables)

lemma clean_fail: "clean (fail e)"
  by (rule clean_frame) auto

lemma clean_never: "never_fails m \<Longrightarrow> clean m"
  by (auto simp: never_fails_def fails_only_def clean_def)

lemma clean_tryE:
  assumes "audit_frame.guar m" "\<And>e. clean (h e)" "\<And>x. clean (k x)"
  shows "clean (tryE m h k)"
  using frame_tables [OF assms(1)] cleanD [OF assms(2)] cleanD [OF assms(3)]
  by (fastforce simp: clean_def tryE_def split: sum.splits prod.splits)

lemma clean_tx:
  assumes "clean m" "\<And>e. clean (h e)" "\<And>x. never_fails (k x)"
  shows "clean (tryE m h k)"
  using cleanD [OF assms(1)] cleanD [OF assms(2)] assms(3)
  by (fastforce simp: clean_def tryE_def never_fails_def fails_only_def split: sum.splits prod.splits)

lemma clean_ensure: "clean k \<Longrightarrow> clean (ensure b e k)"
  by (simp add: ensure_def clean_fail)

lemma clean_if: "clean m \<Longrightarrow> clean n \<Longrightarrow> clean (if b then m else n)"
  by simp

lemma clean_option: "clean m \<Longrightarrow> (\<And>y. clean (f y)) \<Longrightarrow> clean (case x of None \<Rightarrow> m | Some y \<Rightarrow> f y)"
  by (cases x) auto

lemma clean_prod: "(\<And>a b. clean (f a b)) \<Longrightarrow> clean (case x of (a, b) \<Rightarrow> f a b)"
  by (cases x) auto

section \<open>Invariants of the database\<close>

text \<open>
  An invariant of the tables, blind to the audit log.  It is a guarantee of its own, which
  every reading operation and every audit record keeps, and which a transaction keeps when
  its committed runs do.
\<close>

locale state_invariant =
  fixes I :: "database \<Rightarrow> bool"
  assumes log_blind: "I (d\<lparr>t_audit_log := l\<rparr>) = I d"

sublocale state_invariant < guarantee "\<lambda>w w'. I (w_db w) \<longrightarrow> I (w_db w')"
  by unfold_locales auto

context state_invariant
begin

lemma I_tables: "I (tables w) = I (w_db w)"
  by (simp add: tables_def log_blind)

lemma guar_frame: "audit_frame.guar m \<Longrightarrow> guar m"
  by (rule guarI) (metis I_tables audit_frame.guarD only_audit_tables)

lemma guar_reader: "reader.guar m \<Longrightarrow> guar m"
  by (rule guar_frame) (rule frame_reader)

lemma guar_record: "guar (Record ev)"
  by (rule guar_frame) (rule frame_Record)

lemma guar_tx:
  assumes "\<And>w x w'. WithTx i fn w = (Inr x, w') \<Longrightarrow> I (w_db w) \<Longrightarrow> I (w_db w')"
  shows "guar (WithTx i fn)"
proof (rule guarI)
  fix w
  show "I (w_db w) \<longrightarrow> I (w_db (snd (WithTx i fn w)))"
    using assms WithTx_atomic [of i fn w] by (cases "WithTx i fn w"; cases "fst (WithTx i fn w)") auto
qed

lemma guar_effect:
  assumes "\<And>w r w'. m w = (r, w') \<Longrightarrow> I (tables w) \<Longrightarrow> I (tables w')"
  shows "guar m"
  by (rule guarI) (metis I_tables assms prod.collapse)

lemma guar_clean:
  assumes "clean m" "\<And>w x w'. m w = (Inr x, w') \<Longrightarrow> I (tables w) \<Longrightarrow> I (tables w')"
  shows "guar m"
proof (rule guar_effect)
  fix w r w'
  assume "m w = (r, w')" "I (tables w)"
  then show "I (tables w')" using cleanD [OF assms(1)] assms(2) by (cases r) auto
qed

lemma keeps: "guar m \<Longrightarrow> m w = (r, w') \<Longrightarrow> I (w_db w) \<Longrightarrow> I (w_db w')"
  using guarD [of m w] by simp

end

section \<open>Statements and the audit log\<close>

lemma chain_of_log:
  assumes "t_audit_log d = t_audit_log (w_db w)"
  shows "audit_step w (w\<lparr>w_db := d\<rparr>)"
  using assms by (simp add: audit_step_def audit_good_def)

lemma chain_exec:
  "(\<And>l d c t x d'. q l d c t = Inr (x, d') \<Longrightarrow> t_audit_log d' = t_audit_log d) \<Longrightarrow> chain.guar (exec q)"
  by (rule chain.guar_exec) (auto intro: chain_of_log)

lemma chain_exec_new:
  "(\<And>i l d c t x d'. q i l d c t = Inr (x, d') \<Longrightarrow> t_audit_log d' = t_audit_log d) \<Longrightarrow>
     chain.guar (exec_new q)"
  by (rule chain.guar_exec_new) (auto intro: chain_of_log)

lemma update_one_Inr:
  "update_one p f rs put = Inr (r, d) \<longleftrightarrow>
     (\<exists>r0 ys. filter p rs = r0 # ys \<and> r = f r0 \<and> d = put (update_where p f rs))"
  by (auto simp: update_one_def split: list.splits)

lemma update_where_Nil [simp]: "update_where p f [] = []"
  by (simp add: update_where_def)

lemma update_where_append [simp]: "update_where p f (xs @ ys) = update_where p f xs @ update_where p f ys"
  by (simp add: update_where_def)

lemma update_where_Cons [simp]: "update_where p f (x # xs) = (if p x then f x else x) # update_where p f xs"
  by (simp add: update_where_def)

lemma update_where_none: "\<forall>x\<in>set xs. \<not> p x \<Longrightarrow> update_where p f xs = xs"
  by (induction xs) auto

lemma update_where_set: "set (update_where p f xs) = (\<lambda>x. if p x then f x else x) ` set xs"
  by (simp add: update_where_def)

lemma map_update_where: "(\<And>x. p x \<Longrightarrow> g (f x) = g x) \<Longrightarrow> map g (update_where p f xs) = map g xs"
  by (simp add: update_where_def)

section \<open>What has happened when a guarded operation succeeds\<close>

lemma HasPermission_run:
  "HasPermission u a w = (Inr b, w') \<Longrightarrow> b = permitted (w_db w) u a \<and> tables w' = tables w"
  using HasPermission_spec by (metis tables_cong)

lemma CanAccessCase_run:
  "CanAccessCase u i a w = (Inr dec, w') \<Longrightarrow> tables w' = tables w \<and>
     (au_ID u \<noteq> nil_uuid \<longrightarrow> Allowed dec = case_access (w_db w) u i a)"
  using frame_tables [OF frame_CanAccessCase] CanAccessCase_exact by blast

lemma CanAccessDocument_run:
  "CanAccessDocument u i a w = (Inr dec, w') \<Longrightarrow> tables w' = tables w \<and>
     (au_ID u \<noteq> nil_uuid \<longrightarrow> Allowed dec \<longrightarrow> document_access w u i a)"
  using frame_tables [OF frame_CanAccessDocument] CanAccessDocument_sound by blast

end
