(* ===== verification/CaseService.thy ===== *)
theory CaseService
  imports Authz Paging
begin

text \<open>
  backend/internal/service/case_service.go: creating, listing, reading and updating cases,
  their status transitions and their members.  The service owns the tables cases and
  case_members; it reads users, roles, parties and documents.
\<close>

section \<open>Constants\<close>

definition genericCaseForbiddenMessage :: string where [run_defs]:
  "genericCaseForbiddenMessage = ''You do not have permission to perform this action''"

definition maxCaseDetailDocuments :: int where [run_defs]:
  "maxCaseDetailDocuments = 50"

definition maxCaseDetailInvolvedParties :: nat where [run_defs]:
  "maxCaseDetailInvolvedParties = 200"

definition caseStatuses :: "string list" where [run_defs]:
  "caseStatuses = [''OPEN'', ''UNDER_INVESTIGATION'', ''SUBMITTED'', ''UNDER_REVIEW'', ''CLOSED'', ''ARCHIVED'']"

definition caseStatusTransitions :: "(string \<times> string list) list" where [run_defs]:
  "caseStatusTransitions =
    [(''OPEN'', [''UNDER_INVESTIGATION'', ''ARCHIVED'']),
     (''UNDER_INVESTIGATION'', [''SUBMITTED'', ''ARCHIVED'']),
     (''SUBMITTED'', [''UNDER_REVIEW'', ''UNDER_INVESTIGATION'', ''ARCHIVED'']),
     (''UNDER_REVIEW'', [''CLOSED'', ''UNDER_INVESTIGATION'', ''ARCHIVED'']),
     (''CLOSED'', [''ARCHIVED'']),
     (''ARCHIVED'', [])]"

definition may_transition :: "string \<Rightarrow> string \<Rightarrow> bool" where [run_defs]:
  "may_transition s t = (case map_of caseStatusTransitions s of None \<Rightarrow> False | Some ts \<Rightarrow> t \<in> set ts)"

definition maxCaseNumberLen :: nat where [run_defs]:
  "maxCaseNumberLen = 100"

definition maxCaseTitleLen :: nat where [run_defs]:
  "maxCaseTitleLen = 255"

definition maxCaseDescLen :: nat where [run_defs]:
  "maxCaseDescLen = 10000"

definition maxSearchTermLen :: nat where [run_defs]:
  "maxSearchTermLen = 255"

section \<open>Inputs and results\<close>

record CaseSummary =
  cs_ID :: uuid
  cs_CaseNumber :: string
  cs_Title :: string
  cs_Description :: "string option"
  cs_Status :: string
  cs_Metadata :: bytes
  cs_CreatedBy :: uuid
  cs_CreatedAt :: time
  cs_UpdatedAt :: time

record InvolvedPartySummary =
  ps_ID :: uuid
  ps_PartyType :: string
  ps_DisplayName :: string
  ps_Metadata :: bytes
  ps_CreatedAt :: time

record DocumentSummary =
  ds_ID :: uuid
  ds_CaseID :: uuid
  ds_DocumentType :: string
  ds_Filename :: string
  ds_Description :: "string option"
  ds_MimeType :: string
  ds_FileSize :: int
  ds_Sha256Hash :: string
  ds_Status :: string
  ds_ParentDocumentID :: "uuid option"
  ds_UploadedBy :: uuid
  ds_UploadedAt :: time

record TimelineEvent =
  te_Type :: string
  te_Timestamp :: time
  te_Summary :: string
  te_RelatedID :: "uuid option"

record CaseRelationship =
  cr_IsOwner :: bool
  cr_IsMember :: bool
  cr_MembershipType :: "string option"

record CaseDetail =
  cd_Summary :: CaseSummary
  cd_InvolvedParties :: "InvolvedPartySummary list"
  cd_Documents :: "DocumentSummary list"
  cd_Timeline :: "TimelineEvent list"
  cd_Relationship :: CaseRelationship

record CaseListFilter =
  lf_Status :: "string option"
  lf_CaseNumber :: "string option"
  lf_Title :: "string option"
  lf_CreatedBy :: "uuid option"
  lf_CreatedFrom :: "time option"
  lf_CreatedTo :: "time option"

record CaseListResult =
  lr_Cases :: "CaseSummary list"
  lr_Meta :: Meta

record CreateCaseInput =
  ci_CaseNumber :: string
  ci_Title :: string
  ci_Description :: "string option"
  ci_Status :: "string option"
  ci_Metadata :: bytes

record UpdateCaseInput =
  ui_Title :: string
  ui_Description :: "string option"
  ui_Status :: string
  ui_Metadata :: bytes

record CaseMemberSummary =
  cm_ID :: uuid
  cm_CaseID :: uuid
  cm_UserID :: uuid
  cm_MembershipType :: string
  cm_AddedBy :: uuid
  cm_FirstName :: string
  cm_LastName :: string
  cm_DisplayName :: string
  cm_Email :: string
  cm_Roles :: "string list"
  cm_CreatedAt :: time

record AddCaseMemberInput =
  ai_UserID :: uuid
  ai_MembershipType :: string

section \<open>Helpers\<close>

definition toCaseSummary :: "case_row \<Rightarrow> CaseSummary" where [run_defs]:
  "toCaseSummary c = \<lparr>cs_ID = c_id c, cs_CaseNumber = c_case_number c, cs_Title = c_title c,
     cs_Description = c_description c, cs_Status = c_status c, cs_Metadata = c_metadata c,
     cs_CreatedBy = c_created_by c, cs_CreatedAt = c_created_at c, cs_UpdatedAt = c_updated_at c\<rparr>"

definition normalizeMetadata :: "bytes \<Rightarrow> bytes" where [run_defs]:
  "normalizeMetadata raw = (if raw = [] then ''{}'' else raw)"

definition validateCaseNumber :: "string \<Rightarrow> gerr option" where [run_defs]:
  "validateCaseNumber v =
     (if v = '''' then Some (StdErr ''case_number is required'')
      else if maxCaseNumberLen < length v
      then Some (StdErr ''case_number must be at most 100 characters'') else None)"

definition validateCaseTitle :: "string \<Rightarrow> gerr option" where [run_defs]:
  "validateCaseTitle v =
     (if v = '''' then Some (StdErr ''title is required'')
      else if maxCaseTitleLen < length v
      then Some (StdErr ''title must be at most 255 characters'') else None)"

definition validateCaseDescription :: "string option \<Rightarrow> gerr option" where [run_defs]:
  "validateCaseDescription v = (case v of None \<Rightarrow> None
     | Some s \<Rightarrow> if maxCaseDescLen < length s
         then Some (StdErr ''description must be at most 10000 characters'') else None)"

definition effectiveCaseRole :: "authenticated_user \<Rightarrow> string" where [run_defs]:
  "effectiveCaseRole u = (case au_Roles u of [] \<Rightarrow> '''' | r # _ \<Rightarrow> r)"

definition case_ident :: "authenticated_user \<Rightarrow> app_identity" where [run_defs]:
  "case_ident u = \<lparr>UserID = au_ID u, Role = effectiveCaseRole u\<rparr>"

definition isUniqueViolation :: "gerr \<Rightarrow> string \<Rightarrow> bool" where [run_defs]:
  "isUniqueViolation e con = (case as_pg_error e of None \<Rightarrow> False
     | Some (code, c) \<Rightarrow> code = ''23505'' \<and> c = con)"

definition containsRole :: "string list \<Rightarrow> string \<Rightarrow> bool" where [run_defs]:
  "containsRole roles role = list_ex (\<lambda>r. r = role) roles"

definition roleNames :: "role_row list \<Rightarrow> string list" where [run_defs]:
  "roleNames rows = map r_name rows"

definition userDisplayName :: "user_row \<Rightarrow> string" where [run_defs]:
  "userDisplayName u =
     (let full = u_first_name u @ '' '' @ u_last_name u;
          rest = (if full = '' '' then u_email u else full) in
      case u_display_name u of None \<Rightarrow> rest | Some n \<Rightarrow> if n \<noteq> '''' then n else rest)"

text \<open>A validator's error becomes a 400 with its text; the caller goes on when there is none.\<close>

definition validated :: "gerr option \<Rightarrow> 'a op \<Rightarrow> 'a op" where [run_defs]:
  "validated v k = (case v of None \<Rightarrow> k | Some e \<Rightarrow> fail (ErrBadRequest (err_text e)))"

text \<open>The guards every operation opens with: a permission, or access to one case.\<close>

definition need_permission :: "authenticated_user \<Rightarrow> action \<Rightarrow> 'a op \<Rightarrow> 'a op" where [run_defs]:
  "need_permission user act k = tryE (HasPermission user act) (\<lambda>e. fail (ErrInternal e))
     (\<lambda>allowed. ensure allowed (ErrForbidden genericCaseForbiddenMessage) k)"

definition need_case_access :: "authenticated_user \<Rightarrow> uuid \<Rightarrow> action \<Rightarrow> 'a op \<Rightarrow> 'a op" where [run_defs]:
  "need_case_access user caseID act k = tryE (CanAccessCase user caseID act) (\<lambda>e. fail (ErrInternal e))
     (\<lambda>dec. ensure (Allowed dec) (ErrForbidden genericCaseForbiddenMessage) k)"

text \<open>How most transactions' errors are reported: a missing row is hidden behind a message.\<close>

definition no_rows_as :: "gerr \<Rightarrow> gerr \<Rightarrow> 'a op" where [run_defs]:
  "no_rows_as hidden e = fail (if is_no_rows e then hidden else ErrInternal e)"

section \<open>The timeline\<close>

definition sort_slice :: "library \<Rightarrow> ('a \<Rightarrow> time) \<Rightarrow> 'a list \<Rightarrow> 'a list" where [run_defs]:
  "sort_slice lib key xs = map ((!) xs) (lib_sort_perm lib (map key xs))"

definition timeline_events ::
    "library \<Rightarrow> case_row \<Rightarrow> party_row list \<Rightarrow> document_row list \<Rightarrow> TimelineEvent list" where [run_defs]:
  "timeline_events lib c parties documents =
     [\<lparr>te_Type = ''CASE_CREATED'', te_Timestamp = c_created_at c,
       te_Summary = ''Case '' @ c_case_number c @ '' created'', te_RelatedID = Some (c_id c)\<rparr>] @
     (if c_created_at c < c_updated_at c then
       [\<lparr>te_Type = ''CASE_UPDATED'', te_Timestamp = c_updated_at c,
         te_Summary = ''Case '' @ c_case_number c @ '' updated (status: '' @ c_status c @ '')'',
         te_RelatedID = Some (c_id c)\<rparr>] else []) @
     map (\<lambda>p. \<lparr>te_Type = ''INVOLVED_PARTY_ADDED'', te_Timestamp = ip_created_at p,
       te_Summary = ip_party_type p @ '' party added'', te_RelatedID = Some (ip_id p)\<rparr>) parties @
     map (\<lambda>d. \<lparr>te_Type = ''DOCUMENT_ADDED'', te_Timestamp = d_uploaded_at d,
       te_Summary = ''Document '' @ lib_quote lib (d_filename d) @ '' added'',
       te_RelatedID = Some (d_id d)\<rparr>) documents"

definition buildTimeline ::
    "library \<Rightarrow> case_row \<Rightarrow> party_row list \<Rightarrow> document_row list \<Rightarrow> TimelineEvent list" where [run_defs]:
  "buildTimeline lib c parties documents =
     sort_slice lib te_Timestamp (timeline_events lib c parties documents)"

section \<open>CreateCase\<close>

definition requested_status :: "CreateCaseInput \<Rightarrow> string" where [run_defs]:
  "requested_status req = (case ci_Status req of None \<Rightarrow> ''OPEN''
     | Some s \<Rightarrow> if s \<noteq> '''' then s else ''OPEN'')"

definition create_case_tx :: "authenticated_user \<Rightarrow> CreateCaseInput \<Rightarrow> case_row op" where [run_defs]:
  "create_case_tx user req = WithTx (case_ident user) (
     bindE (q_CreateCase (ci_CaseNumber req) (ci_Title req) (ci_Description req) (au_ID user)
        (normalizeMetadata (ci_Metadata req))) (\<lambda>c0.
     bindE (if requested_status req \<noteq> ''OPEN''
        then q_UpdateCase (c_id c0) (c_title c0) (c_description c0) (requested_status req) (c_metadata c0)
        else ret c0) (\<lambda>c.
     bindE (q_AddCaseMember (c_id c) (au_ID user) ''OWNER'' (au_ID user)) (\<lambda>_. ret c))))"

definition CreateCase :: "authenticated_user \<Rightarrow> CreateCaseInput \<Rightarrow> CaseDetail op" where [run_defs]:
  "CreateCase user req = need_permission user ''case:create'' (
     validated (validateCaseNumber (ci_CaseNumber req)) (
     validated (validateCaseTitle (ci_Title req)) (
     validated (validateCaseDescription (ci_Description req)) (
     ensure (requested_status req \<in> set caseStatuses) (ErrBadRequest ''Invalid case status'') (
     bindE (get_world w_lib) (\<lambda>lib.
     validated (ValidateJSONMetadata lib (ci_Metadata req)) (
     tryE (create_case_tx user req)
       (\<lambda>e. fail (if isUniqueViolation e ''cases_case_number_unique''
          then ErrConflict ''A case with this case number already exists'' else ErrInternal e))
       (\<lambda>created.
     bindE (Record \<lparr>ev_action = ''CASE_CREATED'', ev_resource_type = ''case'',
        ev_resource_id = Some (c_id created), ev_user_id = Some (au_ID user),
        ev_role = effectiveCaseRole user, ev_case_id = Some (c_id created),
        ev_metadata = JObj [(''case_number'', JStr (c_case_number created)),
          (''status'', JStr (c_status created))]\<rparr>) (\<lambda>_.
     ret \<lparr>cd_Summary = toCaseSummary created, cd_InvolvedParties = [], cd_Documents = [],
       cd_Timeline = buildTimeline lib created [] [],
       cd_Relationship = \<lparr>cr_IsOwner = True, cr_IsMember = True, cr_MembershipType = Some ''OWNER''\<rparr>\<rparr>)))))))))"

section \<open>ListCases\<close>

definition list_filter :: "CaseListFilter \<Rightarrow> case_filter" where [run_defs]:
  "list_filter f = \<lparr>cf_status = lf_Status f, cf_case_number = lf_CaseNumber f, cf_title = lf_Title f,
     cf_created_by = lf_CreatedBy f, cf_from = lf_CreatedFrom f, cf_to = lf_CreatedTo f\<rparr>"

definition filter_error :: "CaseListFilter \<Rightarrow> string option" where [run_defs]:
  "filter_error f =
     (if \<not> opt_filter (lf_Status f) (\<lambda>s. s \<in> set caseStatuses) then Some ''Invalid case status filter''
      else if \<not> opt_filter (lf_CaseNumber f) (\<lambda>s. length s \<le> maxSearchTermLen)
      then Some ''case_number filter is too long''
      else if \<not> opt_filter (lf_Title f) (\<lambda>s. length s \<le> maxSearchTermLen)
      then Some ''title filter is too long''
      else if \<not> opt_filter (lf_CreatedFrom f) (\<lambda>a. opt_filter (lf_CreatedTo f) (\<lambda>b. a \<le> b))
      then Some ''created_to must not be before created_from'' else None)"

definition ListCases :: "authenticated_user \<Rightarrow> CaseListFilter \<Rightarrow> Pagination \<Rightarrow> CaseListResult op" where [run_defs]:
  "ListCases user f page = need_permission user ''case:read'' (
     case filter_error f of Some msg \<Rightarrow> fail (ErrBadRequest msg)
     | None \<Rightarrow> tryE (WithTx (case_ident user) (
         try_wrap (q_ListCasesFiltered (list_filter f) (sint (Limit page)) (sint (Offset page)))
           ''list cases'' (\<lambda>rows.
         try_wrap (q_CountCasesFiltered (list_filter f)) ''count cases'' (\<lambda>n. ret (rows, n)))))
       (\<lambda>e. fail (ErrInternal e))
       (\<lambda>(rows, n). ret \<lparr>lr_Cases = map toCaseSummary rows, lr_Meta = BuildMeta page n\<rparr>))"

section \<open>GetCase\<close>

definition load_case_tx ::
    "authenticated_user \<Rightarrow> uuid \<Rightarrow> (case_row \<times> party_row list \<times> document_row list \<times> case_member_row option) op"
  where [run_defs]:
  "load_case_tx user caseID = WithTx (case_ident user) (
     bindE (q_GetCaseByID caseID) (\<lambda>c.
     try_wrap (q_ListInvolvedPartiesByCase caseID) ''list involved parties'' (\<lambda>p.
     try_wrap (q_ListDocumentsByCase caseID maxCaseDetailDocuments 0) ''list documents'' (\<lambda>d.
     tryE (q_GetActiveCaseMembership caseID (au_ID user))
       (\<lambda>e. if is_no_rows e then ret (c, take maxCaseDetailInvolvedParties p, d, None)
          else fail (Wrap ''load membership'' e))
       (\<lambda>m. ret (c, take maxCaseDetailInvolvedParties p, d, Some m))))))"

definition party_summary :: "authenticated_user \<Rightarrow> party_row \<Rightarrow> InvolvedPartySummary" where [run_defs]:
  "party_summary user p = (let s = SanitizeInvolvedParty user p in
     \<lparr>ps_ID = ip_id s, ps_PartyType = ip_party_type s, ps_DisplayName = ip_display_name s,
      ps_Metadata = ip_metadata s, ps_CreatedAt = ip_created_at s\<rparr>)"

definition document_summary :: "document_row \<Rightarrow> DocumentSummary" where [run_defs]:
  "document_summary d = \<lparr>ds_ID = d_id d, ds_CaseID = d_case_id d, ds_DocumentType = d_document_type d,
     ds_Filename = d_filename d, ds_Description = d_description d, ds_MimeType = d_mime_type d,
     ds_FileSize = d_file_size d, ds_Sha256Hash = hex_encode (d_sha256_hash d), ds_Status = d_status d,
     ds_ParentDocumentID = d_parent_document_id d, ds_UploadedBy = d_uploaded_by d,
     ds_UploadedAt = d_uploaded_at d\<rparr>"

definition case_detail ::
    "library \<Rightarrow> authenticated_user \<Rightarrow> case_row \<times> party_row list \<times> document_row list \<times> case_member_row option
     \<Rightarrow> CaseDetail" where [run_defs]:
  "case_detail lib user = (\<lambda>(c, parties, documents, membership).
     \<lparr>cd_Summary = toCaseSummary c, cd_InvolvedParties = map (party_summary user) parties,
      cd_Documents = map document_summary documents,
      cd_Timeline = buildTimeline lib c parties documents,
      cd_Relationship = \<lparr>cr_IsOwner = (c_created_by c = au_ID user), cr_IsMember = (membership \<noteq> None),
        cr_MembershipType = map_option m_membership_type membership\<rparr>\<rparr>)"

definition loadCaseDetail :: "authenticated_user \<Rightarrow> uuid \<Rightarrow> CaseDetail op" where [run_defs]:
  "loadCaseDetail user caseID = tryE (load_case_tx user caseID)
     (no_rows_as (ErrForbidden genericCaseForbiddenMessage))
     (\<lambda>loaded. get_world (\<lambda>w. case_detail (w_lib w) user loaded))"

definition GetCase :: "authenticated_user \<Rightarrow> uuid \<Rightarrow> CaseDetail op" where [run_defs]:
  "GetCase user caseID = need_case_access user caseID ''case:read'' (loadCaseDetail user caseID)"

section \<open>UpdateCase\<close>

definition update_case_tx :: "authenticated_user \<Rightarrow> uuid \<Rightarrow> UpdateCaseInput \<Rightarrow> (case_row \<times> case_row) op" where [run_defs]:
  "update_case_tx user caseID req = WithTx (case_ident user) (
     bindE (q_GetCaseByID caseID) (\<lambda>current.
     ensure (ui_Status req = c_status current \<or> may_transition (c_status current) (ui_Status req))
       (ErrBadRequest (''Cannot transition case status from '' @ c_status current @ '' to '' @ ui_Status req)) (
     bindE (q_UpdateCase caseID (ui_Title req) (ui_Description req) (ui_Status req)
        (normalizeMetadata (ui_Metadata req))) (\<lambda>updated. ret (current, updated)))))"

definition case_update_error :: "gerr \<Rightarrow> 'a op" where [run_defs]:
  "case_update_error e = (case AsAppError e of Some appErr \<Rightarrow> fail appErr
     | None \<Rightarrow> no_rows_as (ErrForbidden genericCaseForbiddenMessage) e)"

definition case_event :: "authenticated_user \<Rightarrow> string \<Rightarrow> case_row \<Rightarrow> (string \<times> json) list \<Rightarrow> event" where [run_defs]:
  "case_event user act c meta = \<lparr>ev_action = act, ev_resource_type = ''case'',
     ev_resource_id = Some (c_id c), ev_user_id = Some (au_ID user), ev_role = effectiveCaseRole user,
     ev_case_id = Some (c_id c), ev_metadata = JObj meta\<rparr>"

definition UpdateCase :: "authenticated_user \<Rightarrow> uuid \<Rightarrow> UpdateCaseInput \<Rightarrow> CaseDetail op" where [run_defs]:
  "UpdateCase user caseID req = need_case_access user caseID ''case:update'' (
     validated (validateCaseTitle (ui_Title req)) (
     validated (validateCaseDescription (ui_Description req)) (
     ensure (ui_Status req \<in> set caseStatuses) (ErrBadRequest ''Invalid case status'') (
     bindE (get_world w_lib) (\<lambda>lib.
     validated (ValidateJSONMetadata lib (ui_Metadata req)) (
     tryE (update_case_tx user caseID req) case_update_error (\<lambda>(before, after).
     bindE (Record (case_event user ''CASE_UPDATED'' after
        [(''case_number'', JStr (c_case_number after))])) (\<lambda>_.
     bindE (if c_status before \<noteq> c_status after
        then Record (case_event user ''CASE_STATUS_CHANGED'' after
          [(''from'', JStr (c_status before)), (''to'', JStr (c_status after))])
        else ret ()) (\<lambda>_.
     loadCaseDetail user caseID)))))))))"

section \<open>Members\<close>

definition memberTypes :: "string list" where [run_defs]:
  "memberTypes = [''INVESTIGATOR'', ''FORENSICS'', ''LAWYER'', ''JUDGE'', ''VIEWER'']"

definition adminIdent :: app_identity where [run_defs]:
  "adminIdent = \<lparr>UserID = nil_uuid, Role = ''ADMIN''\<rparr>"

definition memberIdent :: "authenticated_user \<Rightarrow> app_identity" where [run_defs]:
  "memberIdent user = \<lparr>UserID = au_ID user, Role = ''ADMIN''\<rparr>"

text \<open>The case row, for its owner or an administrator only.\<close>

definition load_managed_case :: "authenticated_user \<Rightarrow> uuid \<Rightarrow> string \<Rightarrow> (case_row \<Rightarrow> 'a op) \<Rightarrow> 'a op" where [run_defs]:
  "load_managed_case user caseID msg k = tryE (WithTx (case_ident user) (q_GetCaseByID caseID))
     (no_rows_as (ErrForbidden genericCaseForbiddenMessage))
     (\<lambda>c. ensure (c_created_by c = au_ID user \<or> containsRole (au_Roles user) ''ADMIN'')
        (ErrForbidden msg) (k c))"

definition load_user_roles :: "uuid \<Rightarrow> (user_row \<times> string list) op" where [run_defs]:
  "load_user_roles u = WithTx adminIdent (
     bindE (q_GetUserByID u) (\<lambda>row.
     bindE (q_ListRolesForUser u) (\<lambda>roles. ret (row, roleNames roles))))"

definition member_summary ::
    "uuid \<Rightarrow> uuid \<Rightarrow> string \<Rightarrow> uuid \<Rightarrow> time \<Rightarrow> user_row \<times> string list \<Rightarrow> CaseMemberSummary" where [run_defs]:
  "member_summary mID caseID mType addedBy createdAt = (\<lambda>(u, roles).
     \<lparr>cm_ID = mID, cm_CaseID = caseID, cm_UserID = u_id u, cm_MembershipType = mType,
      cm_AddedBy = addedBy, cm_FirstName = u_first_name u, cm_LastName = u_last_name u,
      cm_DisplayName = userDisplayName u, cm_Email = u_email u, cm_Roles = roles,
      cm_CreatedAt = createdAt\<rparr>)"

definition member_event :: "authenticated_user \<Rightarrow> string \<Rightarrow> uuid \<Rightarrow> (string \<times> json) list \<Rightarrow> event" where [run_defs]:
  "member_event user act caseID meta = \<lparr>ev_action = act, ev_resource_type = ''case'',
     ev_resource_id = Some caseID, ev_user_id = Some (au_ID user), ev_role = '''', ev_case_id = None,
     ev_metadata = JObj meta\<rparr>"

definition AddMember :: "authenticated_user \<Rightarrow> uuid \<Rightarrow> AddCaseMemberInput \<Rightarrow> CaseMemberSummary op" where [run_defs]:
  "AddMember user caseID req = need_case_access user caseID ''case:update'' (
     ensure (ai_UserID req \<noteq> nil_uuid) (ErrBadRequest ''user_id is required'') (
     ensure (ai_MembershipType req \<in> set memberTypes)
       (ErrBadRequest (''Invalid membership type: '' @ ai_MembershipType req)) (
     load_managed_case user caseID ''Only the case owner or an administrator can assign members'' (\<lambda>c.
     ensure (ai_UserID req \<noteq> c_created_by c)
       (ErrBadRequest ''Case owner is already an active member of this case'') (
     tryE (load_user_roles (ai_UserID req)) (no_rows_as (ErrBadRequest ''User not found'')) (\<lambda>target.
     ensure (u_status (fst target) = ''active'') (ErrBadRequest ''User is not active'') (
     tryE (tryE (WithTx adminIdent (q_GetActiveCaseMembership caseID (ai_UserID req)))
         (\<lambda>e. if is_no_rows e then ret () else fail (ErrInternal e))
         (\<lambda>_. fail (ErrConflict ''User is already an active member of this case''))) fail (\<lambda>_.
     tryE (WithTx (memberIdent user)
         (q_AddCaseMember caseID (ai_UserID req) (ai_MembershipType req) (au_ID user)))
       (\<lambda>e. fail (if isUniqueViolation e ''idx_case_members_active_unique''
          then ErrConflict ''User is already an active member of this case'' else ErrInternal e)) (\<lambda>m.
     bindE (Record (member_event user ''CASE_MEMBER_ADDED'' caseID
        [(''member_id'', JStr (uuid_string (m_id m))), (''target_user_id'', JStr (uuid_string (ai_UserID req))),
         (''membership_type'', JStr (ai_MembershipType req))])) (\<lambda>_.
     ret (member_summary (m_id m) caseID (m_membership_type m) (m_added_by m) (m_created_at m) target)))))))))))"

definition RemoveMember :: "authenticated_user \<Rightarrow> uuid \<Rightarrow> uuid \<Rightarrow> unit op" where [run_defs]:
  "RemoveMember user caseID targetUserID = need_case_access user caseID ''case:update'' (
     load_managed_case user caseID ''Only the case owner or an administrator can remove members'' (\<lambda>c.
     ensure (targetUserID \<noteq> c_created_by c) (ErrBadRequest ''Cannot remove the case owner from the case'') (
     tryE (WithTx adminIdent (q_GetActiveCaseMembership caseID targetUserID))
       (no_rows_as (ErrNotFound ''User is not an active member of this case'')) (\<lambda>existing.
     tryE (WithTx (memberIdent user) (q_RemoveCaseMember caseID targetUserID)) (\<lambda>e. fail (ErrInternal e)) (\<lambda>_.
     Record (member_event user ''CASE_MEMBER_REMOVED'' caseID
       [(''target_user_id'', JStr (uuid_string targetUserID)),
        (''membership_type'', JStr (m_membership_type existing))]))))))"

text \<open>The loop of ListMembers: a member whose user cannot be loaded is left out; owners go first.\<close>

fun member_rows :: "uuid \<Rightarrow> case_member_row list \<Rightarrow> CaseMemberSummary list \<Rightarrow> CaseMemberSummary list op" where
  "member_rows caseID [] results = ret results"
| "member_rows caseID (m # ms) results = tryE (load_user_roles (m_user_id m))
     (\<lambda>_. member_rows caseID ms results)
     (\<lambda>loaded. let s = member_summary (m_id m) caseID (m_membership_type m) (m_added_by m) (m_created_at m) loaded in
        member_rows caseID ms (if cm_MembershipType s = ''OWNER'' then s # results else results @ [s]))"

definition ListMembers :: "authenticated_user \<Rightarrow> uuid \<Rightarrow> CaseMemberSummary list op" where [run_defs]:
  "ListMembers user caseID = need_case_access user caseID ''case:read'' (
     tryE (WithTx adminIdent (
         bindE (q_GetCaseByID caseID) (\<lambda>c.
         bindE (q_ListCaseMembers caseID) (\<lambda>ms. ret (c, ms)))))
       (no_rows_as (ErrForbidden genericCaseForbiddenMessage)) (\<lambda>(c, members).
     bindE (if list_ex (\<lambda>m. m_user_id m = c_created_by c) members then ret []
        else tryE (load_user_roles (c_created_by c)) (\<lambda>_. ret [])
          (\<lambda>loaded. ret [member_summary nil_uuid caseID ''OWNER'' (c_created_by c) (c_created_at c) loaded]))
       (\<lambda>first. member_rows caseID members first)))"

declare member_rows.simps [run_defs]

end
