(* ===== verification/CaseFacts.thy ===== *)
theory CaseFacts
  imports ServiceLogic CaseService
begin

text \<open>
  Facts about the case service: the errors it returns, what it leaves alone, what a
  successful call has done, and the invariant of the tables cases and case_members.
\<close>

section \<open>Errors\<close>

lemma fails_validated: "P (ErrBadRequest (case v of None \<Rightarrow> '''' | Some e \<Rightarrow> err_text e)) \<Longrightarrow>
    fails_only P k \<Longrightarrow> fails_only P (validated v k)"
  by (cases v) (simp_all add: validated_def fails_fail)

lemma fails_need_permission: "fails_only client_safe k \<Longrightarrow> fails_only client_safe (need_permission u a k)"
  unfolding need_permission_def by (intro fails_try fails_ensure fails_fail) simp_all

lemma fails_need_case_access: "fails_only client_safe k \<Longrightarrow> fails_only client_safe (need_case_access u i a k)"
  unfolding need_case_access_def by (intro fails_try fails_ensure fails_fail) simp_all

lemma fails_no_rows_as: "client_safe h \<Longrightarrow> fails_only client_safe (no_rows_as h e)"
  by (simp add: no_rows_as_def fails_fail)

lemma fails_load_managed_case:
  "(\<And>c. fails_only client_safe (k c)) \<Longrightarrow> fails_only client_safe (load_managed_case u i m k)"
  unfolding load_managed_case_def by (intro fails_try fails_no_rows_as fails_ensure) simp_all

lemmas case_fails = fails_validated fails_need_permission fails_need_case_access fails_no_rows_as
  fails_load_managed_case

lemma fails_loadCaseDetail: "fails_only client_safe (loadCaseDetail u i)"
  unfolding loadCaseDetail_def by (intro fails_try fails_no_rows_as fails_get_world) simp

lemma fails_CreateCase: "fails_only client_safe (CreateCase u req)"
  unfolding CreateCase_def
  by (rule case_fails fails_rules client_safe_simps refl | simp)+

lemma fails_ListCases: "fails_only client_safe (ListCases u f p)"
  unfolding ListCases_def
  by (rule case_fails fails_rules client_safe_simps | simp)+

lemma fails_GetCase: "fails_only client_safe (GetCase u i)"
  unfolding GetCase_def by (rule fails_need_case_access fails_loadCaseDetail)+

lemma fails_q_GetCaseByID: "fails_only safe_inside (q_GetCaseByID i)"
  unfolding q_GetCaseByID_def by (rule fails_query) (auto simp: one_def split: list.splits)

lemma fails_q_UpdateCase: "fails_only safe_inside (q_UpdateCase i t d s m)"
  unfolding q_UpdateCase_def
  by (rule fails_exec) (auto simp: update_one_def split: option.splits list.splits if_splits)

lemma fails_update_case_tx: "fails_only safe_inside (update_case_tx u i req)"
  unfolding update_case_tx_def
  by (intro fails_WithTx fails_bind fails_ensure fails_ret fails_q_GetCaseByID fails_q_UpdateCase) simp

lemma fails_UpdateCase: "fails_only client_safe (UpdateCase u i req)"
proof -
  have h: "safe_inside e \<Longrightarrow> fails_only client_safe (case_update_error e)" for e
    by (auto simp: case_update_error_def safe_inside_def intro!: fails_fail fails_no_rows_as
        split: option.splits)
  show ?thesis
    unfolding UpdateCase_def
    by (rule fails_try_from [OF fails_update_case_tx h] fails_loadCaseDetail case_fails fails_rules
        client_safe_simps | assumption | simp)+
qed

lemma fails_AddMember: "fails_only client_safe (AddMember u i req)"
  unfolding AddMember_def
  by (rule case_fails fails_rules client_safe_simps | simp)+

lemma fails_RemoveMember: "fails_only client_safe (RemoveMember u i t)"
  unfolding RemoveMember_def
  by (rule case_fails fails_rules client_safe_simps | simp)+

lemma fails_member_rows: "fails_only P (member_rows i ms rs)"
  by (induction ms arbitrary: rs) (auto simp: Let_def intro!: fails_ret fails_try)

lemma fails_ListMembers: "fails_only client_safe (ListMembers u i)"
  unfolding ListMembers_def
  by (rule case_fails fails_member_rows fails_rules client_safe_simps | simp)+

section \<open>Readers, frames and failures\<close>

lemma case_ident_user [simp]: "case_ident u = user_ident u"
  by (simp add: case_ident_def user_ident_def effectiveCaseRole_def effectiveRole_def)

lemma reader_case_queries [intro!]:
  "reader.guar (q_ListCasesFiltered f l n)" "reader.guar (q_CountCasesFiltered f)"
  "reader.guar (q_ListInvolvedPartiesByCase i)" "reader.guar (q_ListDocumentsByCase i l n)"
  "reader.guar (q_GetUserByID i)" "reader.guar (q_ListRolesForUser i)" "reader.guar (q_ListCaseMembers i)"
  unfolding q_ListCasesFiltered_def q_CountCasesFiltered_def q_ListInvolvedPartiesByCase_def
    q_ListDocumentsByCase_def q_GetUserByID_def q_ListRolesForUser_def q_ListCaseMembers_def
  by auto

lemma reader_loadCaseDetail: "reader.guar (loadCaseDetail u i)"
  unfolding loadCaseDetail_def load_case_tx_def no_rows_as_def by auto

lemma reader_load_user_roles: "reader.guar (load_user_roles i)"
  unfolding load_user_roles_def by auto

lemma reader_member_rows: "reader.guar (member_rows i ms rs)"
  using reader_load_user_roles
  by (induction ms arbitrary: rs) (auto simp: Let_def intro!: reader.guar_tryE)

lemma frame_need_permission: "audit_frame.guar k \<Longrightarrow> audit_frame.guar (need_permission u a k)"
  unfolding need_permission_def by (auto intro!: authz_frame)

lemma frame_need_case_access: "audit_frame.guar k \<Longrightarrow> audit_frame.guar (need_case_access u i a k)"
  unfolding need_case_access_def by auto

lemma chain_need_permission: "chain.guar k \<Longrightarrow> chain.guar (need_permission u a k)"
  unfolding need_permission_def by (auto intro!: authz_chain)

lemma chain_need_case_access: "chain.guar k \<Longrightarrow> chain.guar (need_case_access u i a k)"
  unfolding need_case_access_def by auto

lemma frame_readers_case:
  "audit_frame.guar (GetCase u i)" "audit_frame.guar (ListCases u f p)" "audit_frame.guar (ListMembers u i)"
proof -
  show "audit_frame.guar (GetCase u i)"
    unfolding GetCase_def
    by (intro frame_need_case_access frame_reader reader_loadCaseDetail)
  show "audit_frame.guar (ListCases u f p)"
    unfolding ListCases_def
    by (intro frame_need_permission frame_reader) auto
  show "audit_frame.guar (ListMembers u i)"
    unfolding ListMembers_def no_rows_as_def
    by (intro frame_need_case_access frame_reader) (auto intro!: reader_member_rows reader_load_user_roles)
qed

lemma clean_validated: "clean k \<Longrightarrow> clean (validated v k)"
  by (cases v) (simp_all add: validated_def clean_fail)

lemma clean_need_permission: "clean k \<Longrightarrow> clean (need_permission u a k)"
  unfolding need_permission_def by (intro clean_tryE clean_ensure clean_fail authz_frame)

lemma clean_need_case_access: "clean k \<Longrightarrow> clean (need_case_access u i a k)"
  unfolding need_case_access_def by (intro clean_tryE clean_ensure clean_fail frame_CanAccessCase)

lemma clean_no_rows_as: "clean (no_rows_as h e)"
  by (simp add: no_rows_as_def clean_fail)

lemma clean_load_managed_case: "(\<And>c. clean (k c)) \<Longrightarrow> clean (load_managed_case u i m k)"
  unfolding load_managed_case_def
  by (intro clean_tryE clean_ensure clean_no_rows_as) (auto intro!: frame_reader)

lemma clean_get_world: "(\<And>x. clean (k x)) \<Longrightarrow> clean (bindE (get_world f) k)"
  by (rule clean_tryE) (auto intro!: clean_fail)

lemmas clean_rules = clean_validated clean_need_permission clean_need_case_access clean_no_rows_as
  clean_load_managed_case clean_get_world clean_ensure clean_fail clean_if

lemma never_record: "never_fails (bindE (Record ev) (\<lambda>_. ret x))" "never_fails (Record ev)"
  unfolding never_fails_def by (intro fails_bind fails_Record fails_ret)+

lemma clean_CreateCase: "clean (CreateCase u req)"
  unfolding CreateCase_def
  by (intro clean_rules clean_tx never_record) (simp add: create_case_tx_def clean_WithTx)

lemma frame_load_user_roles: "audit_frame.guar (load_user_roles i)"
  by (rule frame_reader) (rule reader_load_user_roles)

lemma clean_AddMember: "clean (AddMember u i req)"
proof -
  have "audit_frame.guar (tryE (WithTx adminIdent (q_GetActiveCaseMembership i (ai_UserID req)))
         (\<lambda>e. if is_no_rows e then ret () else fail (ErrInternal e))
         (\<lambda>_. fail (ErrConflict ''User is already an active member of this case'')))"
    by (auto intro!: frame_reader)
  then show ?thesis
    unfolding AddMember_def
    by (intro clean_rules clean_tryE [OF frame_load_user_roles] clean_tryE clean_tx never_record clean_WithTx)
qed

lemma clean_RemoveMember: "clean (RemoveMember u i t)"
proof -
  have "audit_frame.guar (WithTx adminIdent (q_GetActiveCaseMembership i t))"
    by (auto intro!: frame_reader)
  then show ?thesis
    unfolding RemoveMember_def
    by (intro clean_rules clean_tryE clean_tx never_record clean_WithTx)
qed

section \<open>What a successful call has done\<close>

lemma need_permission_run:
  assumes "need_permission u a k w = (Inr x, w')"
  shows "\<exists>w1. k w1 = (Inr x, w') \<and> tables w1 = tables w \<and> permitted (w_db w) u a"
  using assms
  by (auto simp: need_permission_def op_succ split: if_splits dest!: HasPermission_run)

lemma need_permission_reads:
  assumes "need_permission u a k w = (Inr x, w')"
  shows "\<exists>w1. k w1 = (Inr x, w') \<and> tables w1 = tables w \<and> permitted (w_db w) u a \<and> reads_only w w1"
proof -
  obtain w1 where has: "HasPermission u a w = (Inr True, w1)" and k: "k w1 = (Inr x, w')"
    using assms by (auto simp: need_permission_def op_succ split: if_splits)
  have "reads_only w w1" using reader.guarD [OF reader_HasPermission, of w u a] has by simp
  then show ?thesis using HasPermission_run [OF has] k by auto
qed

definition may_case :: "database \<Rightarrow> authenticated_user \<Rightarrow> uuid \<Rightarrow> action \<Rightarrow> bool" where
  "may_case d u i a \<longleftrightarrow> (au_ID u \<noteq> nil_uuid \<longrightarrow> case_access d u i a)"

lemma need_case_access_run:
  assumes "need_case_access u i a k w = (Inr x, w')"
  shows "\<exists>w1. k w1 = (Inr x, w') \<and> tables w1 = tables w \<and> may_case (w_db w) u i a"
  using assms
  by (auto simp: need_case_access_def may_case_def op_succ split: if_splits dest!: CanAccessCase_run)

lemma validated_run: "validated v k w = (Inr x, w') \<longleftrightarrow> v = None \<and> k w = (Inr x, w')"
  by (auto simp: validated_def fail_def split: option.splits)

text \<open>The case and the membership that CreateCase commits.\<close>

definition created_case :: "authenticated_user \<Rightarrow> CreateCaseInput \<Rightarrow> case_row \<Rightarrow> bool" where
  "created_case user req c \<longleftrightarrow> c_created_by c = au_ID user \<and> c_case_number c = ci_CaseNumber req \<and>
     c_title c = ci_Title req \<and> c_description c = ci_Description req \<and>
     c_status c = requested_status req \<and> case_status_ok (c_status c)"

text \<open>
  The metadata as the \<^verbatim>\<open>jsonb\<close> column keeps it: stored once with the row and, when the status
  is not the default, once more by the update that sets it.
\<close>

definition stored_metadata :: "library \<Rightarrow> CreateCaseInput \<Rightarrow> case_row \<Rightarrow> bool" where
  "stored_metadata lib req c \<longleftrightarrow> (\<exists>m0. lib_jsonb lib (normalizeMetadata (ci_Metadata req)) = Some m0 \<and>
     (if requested_status req = ''OPEN'' then c_metadata c = m0 else lib_jsonb lib m0 = Some (c_metadata c)))"

definition owner_membership :: "case_row \<Rightarrow> case_member_row \<Rightarrow> bool" where
  "owner_membership c m \<longleftrightarrow> m_case_id m = c_id c \<and> m_user_id m = c_created_by c \<and>
     m_membership_type m = ''OWNER'' \<and> m_added_by m = c_created_by c \<and> m_removed_at m = None"

definition fresh_case :: "database \<Rightarrow> case_row \<Rightarrow> bool" where
  "fresh_case d c \<longleftrightarrow> (\<forall>x\<in>set (t_cases d). c_id x \<noteq> c_id c \<and> c_case_number x \<noteq> c_case_number c)"

definition fresh_membership :: "database \<Rightarrow> case_member_row \<Rightarrow> bool" where
  "fresh_membership d m \<longleftrightarrow> (\<forall>x\<in>set (t_case_members d). m_id x \<noteq> m_id m \<and>
     \<not> active_membership (m_case_id m) (Some (m_user_id m)) x)"

lemma q_CreateCase_run:
  assumes "q_CreateCase num title descr creator meta w = (Inr c, w')"
  shows "tables w' = (tables w)\<lparr>t_cases := t_cases (w_db w) @ [c]\<rparr> \<and> fresh_case (w_db w) c \<and>
    c_status c = ''OPEN'' \<and> c_case_number c = num \<and> c_title c = title \<and> c_description c = descr \<and>
    c_created_by c = creator \<and> lib_jsonb (w_lib w) meta = Some (c_metadata c) \<and>
    c_created_at c = w_tx_now w \<and> c_updated_at c = w_tx_now w \<and> w_lib w' = w_lib w \<and> w_tx_now w' = w_tx_now w"
  using assms
  by (auto simp: q_CreateCase_def op_succ cases_checks_def fresh_case_def tables_def Let_def list_ex_iff
      split: option.splits)

lemma q_UpdateCase_run:
  assumes "q_UpdateCase i title descr status meta w = (Inr c, w')"
  shows "\<exists>p f c0. tables w' = (tables w)\<lparr>t_cases := update_where p f (t_cases (w_db w))\<rparr> \<and>
     c0 \<in> set (t_cases (w_db w)) \<and> p c0 \<and> c = f c0 \<and> (\<forall>x. p x \<longrightarrow> c_id x = i) \<and>
     case_status_ok status \<and> (\<forall>x. c_id (f x) = c_id x \<and> c_case_number (f x) = c_case_number x \<and>
       c_created_by (f x) = c_created_by x \<and> c_created_at (f x) = c_created_at x \<and>
       c_title (f x) = title \<and> c_description (f x) = descr \<and> c_status (f x) = status) \<and>
     lib_jsonb (w_lib w) meta = Some (c_metadata c) \<and> c_updated_at c = w_tx_now w \<and> w_tx_now w' = w_tx_now w"
proof -
  let ?p = "case_updatable (w_db w) (w_ctx w) i"
  from assms obtain m r0 ys where stored: "lib_jsonb (w_lib w) meta = Some m" "w_tx_now w' = w_tx_now w"
    and m: "case_status_ok status \<or> \<not> list_ex ?p (t_cases (w_db w))"
      "filter ?p (t_cases (w_db w)) = r0 # ys"
    and c: "c = r0\<lparr>c_title := title, c_description := descr, c_status := status, c_metadata := m,
        c_updated_at := w_tx_now w\<rparr>"
    and d: "w_db w' = (w_db w)\<lparr>t_cases := update_where ?p (\<lambda>r. r\<lparr>c_title := title, c_description := descr,
        c_status := status, c_metadata := m, c_updated_at := w_tx_now w\<rparr>) (t_cases (w_db w))\<rparr>"
    by (auto simp: q_UpdateCase_def op_succ update_one_Inr split: option.splits if_splits)
  have "r0 \<in> set (t_cases (w_db w))" "?p r0" using filter_headD [OF m(2)] by auto
  then show ?thesis
    using m c d stored
    by (intro exI [of _ ?p] exI [of _ "\<lambda>r. r\<lparr>c_title := title, c_description := descr,
        c_status := status, c_metadata := m, c_updated_at := w_tx_now w\<rparr>"] exI [of _ r0])
      (auto simp: tables_def case_updatable_def list_ex_iff)
qed

lemma q_AddCaseMember_run:
  assumes "q_AddCaseMember cid u mt adder w = (Inr m, w')"
  shows "tables w' = (tables w)\<lparr>t_case_members := t_case_members (w_db w) @ [m]\<rparr> \<and>
    fresh_membership (w_db w) m \<and> m_case_id m = cid \<and> m_user_id m = u \<and> m_membership_type m = mt \<and>
    m_added_by m = adder \<and> m_removed_at m = None \<and> m_created_at m = w_tx_now w"
  using assms
  by (auto simp: q_AddCaseMember_def op_succ case_members_checks_def fresh_membership_def tables_def
      list_ex_iff active_membership_def Let_def)

lemma started_tables [simp]: "tables (started i w) = tables w"
  by (simp add: tables_def)

lemma end_tx_tables [simp]: "tables (end_tx w v) = tables v" "tables (faulted v) = tables v"
  by (simp_all add: tables_def)

lemma create_case_tx_run:
  assumes "create_case_tx user req w = (Inr c, w')"
  shows "\<exists>m. tables w' = (tables w)\<lparr>t_cases := t_cases (w_db w) @ [c],
      t_case_members := t_case_members (w_db w) @ [m]\<rparr> \<and>
    created_case user req c \<and> owner_membership c m \<and> fresh_case (w_db w) c \<and> fresh_membership (w_db w) m \<and>
    stored_metadata (w_lib w) req c \<and> c_created_at c = w_clock w (w_clock_i w) \<and>
    c_updated_at c = c_created_at c \<and> m_created_at m = c_created_at c"
proof -
  from assms obtain c0 w1 w2 m w3 where
    c: "q_CreateCase (ci_CaseNumber req) (ci_Title req) (ci_Description req) (au_ID user)
        (normalizeMetadata (ci_Metadata req)) (started (case_ident user) w) = (Inr c0, w1)"
    and u: "(if requested_status req \<noteq> ''OPEN''
        then q_UpdateCase (c_id c0) (c_title c0) (c_description c0) (requested_status req) (c_metadata c0)
        else ret c0) w1 = (Inr c, w2)"
    and m: "q_AddCaseMember (c_id c) (au_ID user) ''OWNER'' (au_ID user) w2 = (Inr m, w3)"
    and w': "tables w' = tables w3"
    by (auto simp: create_case_tx_def WithTx_run tryE_Inr fail_run ret_run)
  note c = q_CreateCase_run [OF c] and m = q_AddCaseMember_run [OF m]
  have u: "tables w2 = (tables w)\<lparr>t_cases := t_cases (w_db w) @ [c]\<rparr> \<and> created_case user req c \<and>
      fresh_case (w_db w) c \<and> stored_metadata (w_lib w) req c \<and> c_created_at c = w_clock w (w_clock_i w) \<and>
      c_updated_at c = c_created_at c \<and> w_tx_now w2 = c_created_at c"
  proof (cases "requested_status req = ''OPEN''")
    case True
    with u c show ?thesis by (auto simp: ret_run created_case_def case_status_ok_def stored_metadata_def)
  next
    case False
    with u have "q_UpdateCase (c_id c0) (c_title c0) (c_description c0) (requested_status req) (c_metadata c0)
       w1 = (Inr c, w2)" by simp
    from q_UpdateCase_run [OF this] obtain p f b where
      p: "tables w2 = (tables w1)\<lparr>t_cases := update_where p f (t_cases (w_db w1))\<rparr>"
        "b \<in> set (t_cases (w_db w1))" "p b" "c = f b" "\<And>x. p x \<Longrightarrow> c_id x = c_id c0"
        "case_status_ok (requested_status req)"
        "\<And>x. c_id (f x) = c_id x \<and> c_case_number (f x) = c_case_number x \<and>
          c_created_by (f x) = c_created_by x \<and> c_created_at (f x) = c_created_at x \<and> c_title (f x) = c_title c0 \<and>
          c_description (f x) = c_description c0 \<and> c_status (f x) = requested_status req"
        "lib_jsonb (w_lib w1) (c_metadata c0) = Some (c_metadata c)" "c_updated_at c = w_tx_now w1"
        "w_tx_now w2 = w_tx_now w1" by blast
    have cases1: "t_cases (w_db w1) = t_cases (w_db w) @ [c0]"
      using c by (simp flip: tables_sel)
    have new: "\<forall>x\<in>set (t_cases (w_db w)). \<not> p x"
      using c p(5) by (auto simp: fresh_case_def)
    then have "b = c0" using p(2,3) cases1 by auto
    then show ?thesis
      using c p(1,3,4,6,8-10) p(7) [of c0] cases1 update_where_none [OF new] False
      by (auto simp: created_case_def fresh_case_def stored_metadata_def)
  qed
  have ms: "t_case_members (w_db w2) = t_case_members (w_db w)"
    using u by (simp flip: tables_sel)
  then show ?thesis
    using m u w' by (auto simp: owner_membership_def created_case_def fresh_membership_def)
qed

lemma CreateCase_run:
  assumes "CreateCase user req w = (Inr det, w')"
  shows "\<exists>c m. tables w' = (tables w)\<lparr>t_cases := t_cases (w_db w) @ [c],
      t_case_members := t_case_members (w_db w) @ [m]\<rparr> \<and>
    created_case user req c \<and> owner_membership c m \<and> fresh_case (w_db w) c \<and>
    fresh_membership (w_db w) m \<and> cd_Summary det = toCaseSummary c \<and>
    permitted (w_db w) user ''case:create'' \<and> ci_CaseNumber req \<noteq> '''' \<and>
    length (ci_CaseNumber req) \<le> maxCaseNumberLen \<and>
    stored_metadata (w_lib w) req c \<and> (\<exists>n\<ge>w_clock_i w. c_created_at c = w_clock w n) \<and>
    c_updated_at c = c_created_at c \<and> m_created_at m = c_created_at c"
proof -
  from assms obtain w1 c w2 where tab: "tables w1 = tables w" and perm: "permitted (w_db w) user ''case:create''"
    and num: "validateCaseNumber (ci_CaseNumber req) = None"
    and tx: "create_case_tx user req w1 = (Inr c, w2)"
    and lib: "w_lib w1 = w_lib w" "w_clock w1 = w_clock w" "w_clock_i w \<le> w_clock_i w1"
    and w': "tables w' = tables w2" and det: "cd_Summary det = toCaseSummary c"
    unfolding CreateCase_def
    by (auto simp: validated_run ensure_run get_world_run tryE_Inr ret_run fail_run reads_only_def
        params_same_def dest!: need_permission_reads Record_run split: if_splits)
  obtain m where m: "tables w2 = (tables w1)\<lparr>t_cases := t_cases (w_db w1) @ [c],
      t_case_members := t_case_members (w_db w1) @ [m]\<rparr>"
    "created_case user req c" "owner_membership c m" "fresh_case (w_db w1) c" "fresh_membership (w_db w1) m"
    "stored_metadata (w_lib w1) req c" "c_created_at c = w_clock w1 (w_clock_i w1)"
    "c_updated_at c = c_created_at c" "m_created_at m = c_created_at c"
    using create_case_tx_run [OF tx] by blast
  have eqs: "t_cases (w_db w1) = t_cases (w_db w)" "t_case_members (w_db w1) = t_case_members (w_db w)"
    using tables_eqD [OF tab] by simp_all
  show ?thesis
    using m num perm w' det tab eqs lib
    by (intro exI [of _ c] exI [of _ m])
      (auto simp: fresh_case_def fresh_membership_def validateCaseNumber_def split: if_splits)
qed

text \<open>The two rows of a status change: only the case asked for, its identity kept.\<close>

definition updated_case :: "UpdateCaseInput \<Rightarrow> case_row \<Rightarrow> case_row \<Rightarrow> bool" where
  "updated_case req c c' \<longleftrightarrow> c_id c' = c_id c \<and> c_case_number c' = c_case_number c \<and>
     c_created_by c' = c_created_by c \<and> c_created_at c' = c_created_at c \<and>
     c_title c' = ui_Title req \<and> c_description c' = ui_Description req \<and> c_status c' = ui_Status req"

lemma update_case_tx_run:
  assumes "update_case_tx user cid req w = (Inr (before, after), w')"
  shows "\<exists>p f. tables w' = (tables w)\<lparr>t_cases := update_where p f (t_cases (w_db w))\<rparr> \<and>
     before \<in> set (t_cases (w_db w)) \<and> c_id before = cid \<and> case_status_ok (ui_Status req) \<and>
     (ui_Status req = c_status before \<or> may_transition (c_status before) (ui_Status req)) \<and>
     (\<forall>x. p x \<longrightarrow> c_id x = cid) \<and> (\<forall>x. updated_case req x (f x)) \<and> c_status after = ui_Status req"
proof -
  from assms obtain w1 w2 where get: "q_GetCaseByID cid (started (case_ident user) w) = (Inr before, w1)"
    and st: "ui_Status req = c_status before \<or> may_transition (c_status before) (ui_Status req)"
    and upd: "q_UpdateCase cid (ui_Title req) (ui_Description req) (ui_Status req)
        (normalizeMetadata (ui_Metadata req)) w1 = (Inr after, w2)"
    and w': "tables w' = tables w2"
    by (auto simp: update_case_tx_def WithTx_run tryE_Inr fail_run ret_run ensure_run split: if_splits)
  have b: "before \<in> set (t_cases (w_db w))" "c_id before = cid" "tables w1 = tables w"
    using get
    by (auto simp: q_GetCaseByID_def query_run visible_cases_def tables_def simp del: filter_filter
        dest!: filter_headD)
  have "t_cases (w_db w1) = t_cases (w_db w)" using tables_eqD [OF b(3)] by simp
  then show ?thesis
    using q_UpdateCase_run [OF upd] b st w' by (auto simp: updated_case_def)
qed

lemma loadCaseDetail_tables: "loadCaseDetail u i w = (r, w') \<Longrightarrow> tables w' = tables w"
  by (rule frame_tables [OF frame_reader [OF reader_loadCaseDetail]])

lemma frame_loadCaseDetail [intro!]: "audit_frame.guar (loadCaseDetail u i)"
  by (rule frame_reader [OF reader_loadCaseDetail])

text \<open>An update that went through, whether or not the answer could be assembled afterwards.\<close>

definition update_effect ::
    "database \<Rightarrow> database \<Rightarrow> uuid \<Rightarrow> UpdateCaseInput \<Rightarrow> bool" where
  "update_effect d d' cid req \<longleftrightarrow> (\<exists>p f before. d' = d\<lparr>t_cases := update_where p f (t_cases d)\<rparr> \<and>
     before \<in> set (t_cases d) \<and> c_id before = cid \<and> case_status_ok (ui_Status req) \<and>
     (ui_Status req = c_status before \<or> may_transition (c_status before) (ui_Status req)) \<and>
     (\<forall>x. p x \<longrightarrow> c_id x = cid) \<and> (\<forall>x. updated_case req x (f x)))"


lemma UpdateCase_effect:
  assumes "UpdateCase user cid req w = (r, w')"
  shows "tables w' = tables w \<or> update_effect (tables w) (tables w') cid req"
proof -
  define rest :: "case_row \<times> case_row \<Rightarrow> CaseDetail op" where "rest = (\<lambda>(before, after).
     bindE (Record (case_event user ''CASE_UPDATED'' after
        [(''case_number'', JStr (c_case_number after))])) (\<lambda>_.
     bindE (if c_status before \<noteq> c_status after
        then Record (case_event user ''CASE_STATUS_CHANGED'' after
          [(''from'', JStr (c_status before)), (''to'', JStr (c_status after))])
        else ret ()) (\<lambda>_.
     loadCaseDetail user cid)))"
  have rest: "tables w' = tables w" if "rest x w = (r, w')" for x w r w'
  proof -
    have "audit_frame.guar (rest x)" by (cases x) (auto simp: rest_def intro!: frame_Record)
    from frame_tables [where m = "rest x" and w = w, OF this that] show ?thesis .
  qed
  have err: "tables w' = tables w" if "case_update_error e w = (r, w')" for e w w' and r :: "gerr + CaseDetail"
    using that by (auto simp: case_update_error_def no_rows_as_def fail_run split: option.splits)
  have tx: "tables w' = tables w \<or> update_effect (tables w) (tables w') cid req"
    if "tryE (update_case_tx user cid req) case_update_error rest w = (r, w')" for w w' r
  proof (cases "update_case_tx user cid req w")
    case (Pair a w1)
    show ?thesis
    proof (cases a)
      case (Inl e)
      with Pair that show ?thesis
        using err WithTx_tables by (fastforce simp: tryE_def update_case_tx_def)
    next
      case (Inr x)
      obtain before after where x: "x = (before, after)" by (cases x)
      have "update_effect (tables w) (tables w1) cid req"
        using update_case_tx_run [of user cid req w before after w1] Pair Inr x
        unfolding update_effect_def by (simp add: tables_sel) blast
      moreover have "tables w' = tables w1" using that Pair Inr rest by (simp add: tryE_def)
      ultimately show ?thesis by simp
    qed
  qed
  show ?thesis
    using assms unfolding UpdateCase_def rest_def [symmetric]
    by (auto simp: need_case_access_def validated_def ensure_def tryE_def [of "CanAccessCase _ _ _"]
        tryE_def [of "get_world _"] get_world_def fail_def
        split: prod.splits sum.splits if_splits option.splits
        dest!: frame_tables [OF frame_CanAccessCase] tx)
qed

section \<open>Members\<close>

lemma ident_tables: "WithTx i fn w = (Inr x, w') \<Longrightarrow>
    \<exists>w2. fn (started i w) = (Inr x, w2) \<and> tables w' = tables w2"
  by (auto simp: WithTx_run)

definition manages :: "authenticated_user \<Rightarrow> case_row \<Rightarrow> bool" where
  "manages user c \<longleftrightarrow> c_created_by c = au_ID user \<or> ''ADMIN'' \<in> set (au_Roles user)"

lemma load_managed_case_run:
  assumes "load_managed_case user cid msg k w = (Inr x, w')"
  shows "\<exists>c w1. c \<in> set (t_cases (w_db w)) \<and> c_id c = cid \<and> tables w1 = tables w \<and>
     manages user c \<and> k c w1 = (Inr x, w')"
proof -
  from assms obtain c w1 where get: "WithTx (case_ident user) (q_GetCaseByID cid) w = (Inr c, w1)"
    and who: "c_created_by c = au_ID user \<or> containsRole (au_Roles user) ''ADMIN''"
    and k: "k c w1 = (Inr x, w')"
    by (auto simp: load_managed_case_def tryE_Inr ensure_run no_rows_as_def fail_run split: if_splits)
  from ident_tables [OF get] have "c \<in> set (t_cases (w_db w))" "c_id c = cid" "tables w1 = tables w"
    by (auto simp: q_GetCaseByID_def query_run visible_cases_def tables_def simp del: filter_filter
        dest!: filter_headD)
  then show ?thesis using who k by (auto simp: manages_def containsRole_def list_ex_iff)
qed

text \<open>The clock over the steps that only guard an operation.\<close>

lemma ticks_Record: "ticks.guar (Record ev)"
proof (rule ticks.guarI)
  fix w
  have "ticks.guar tx \<Longrightarrow> ticks.guar (append_attempts n le tx)" for n le tx
    by (induction n arbitrary: le) auto
  from ticks.guarD [OF this [OF ticks_append]]
  show "ticking w (snd (Record ev w))"
    by (simp add: Record_def ignoring_def ret_def chain_append_def ticks.refl split: sum.splits)
qed

lemma ticks_CanAccessCase: "ticks.guar (CanAccessCase u i a)"
proof -
  have "ticks.guar (load_roles rs ps)" for rs ps
    by (induction rs arbitrary: ps) (auto simp: q_GetRoleByName_def q_ListPermissionsForRole_def)
  then show ?thesis
    unfolding CanAccessCase_def HasPermission_def loadPermissions_def loadCaseRelationship_def
      deny_recorded_def recordDenied_def q_GetCaseByID_def q_GetActiveCaseMembership_def
    using ticks_Record by auto
qed

lemma managed_ticks:
  assumes "need_case_access u i a (load_managed_case u i msg k) w = (Inr x, w')"
  shows "\<exists>c w1. c \<in> set (t_cases (w_db w)) \<and> c_id c = i \<and> tables w1 = tables w \<and> manages u c \<and>
     k c w1 = (Inr x, w') \<and> ticking w w1"
proof -
  from assms obtain d w1 where can: "CanAccessCase u i a w = (Inr d, w1)"
    and lm: "load_managed_case u i msg k w1 = (Inr x, w')"
    by (auto simp: need_case_access_def op_succ split: if_splits)
  from lm obtain c w2 where get: "WithTx (case_ident u) (q_GetCaseByID i) w1 = (Inr c, w2)"
    and who: "manages u c" and k: "k c w2 = (Inr x, w')"
    by (auto simp: load_managed_case_def tryE_Inr ensure_run no_rows_as_def fail_run manages_def
        containsRole_def list_ex_iff split: if_splits)
  have "ticks.guar (WithTx (case_ident u) (q_GetCaseByID i))" unfolding q_GetCaseByID_def by auto
  then have "ticking w w2"
    using ticks.guarD [OF ticks_CanAccessCase, of w u i a] can get ticks.trans ticks.guarD by fastforce
  moreover have "tables w1 = tables w" using CanAccessCase_run [OF can] by simp
  moreover have "c \<in> set (t_cases (w_db w1)) \<and> c_id c = i \<and> tables w2 = tables w1"
    using ident_tables [OF get]
    by (auto simp: q_GetCaseByID_def query_run visible_cases_def tables_def simp del: filter_filter
        dest!: filter_headD)
  ultimately show ?thesis using who k tables_eqD [of w1 w] by auto
qed

lemma load_user_roles_run:
  assumes "load_user_roles u w = (Inr (row, roles), w')"
  shows "row \<in> set (t_users (w_db w)) \<and> u_id row = u \<and> tables w' = tables w"
  using frame_tables [OF frame_load_user_roles assms] assms
  by (auto simp: load_user_roles_def WithTx_run tryE_Inr fail_run ret_run q_GetUserByID_def query_run
      dest!: filter_headD)

text \<open>What AddMember commits, and what had to hold for it.\<close>

definition member_added :: "database \<Rightarrow> authenticated_user \<Rightarrow> uuid \<Rightarrow> AddCaseMemberInput \<Rightarrow> case_member_row \<Rightarrow> bool" where
  "member_added d user cid req m \<longleftrightarrow> m_case_id m = cid \<and> m_user_id m = ai_UserID req \<and>
     m_membership_type m = ai_MembershipType req \<and> m_added_by m = au_ID user \<and> m_removed_at m = None \<and>
     m_membership_type m \<in> set memberTypes \<and> fresh_membership d m \<and>
     (\<exists>c\<in>set (t_cases d). c_id c = cid \<and> c_created_by c \<noteq> ai_UserID req \<and>
       manages user c) \<and>
     (\<exists>u\<in>set (t_users d). u_id u = ai_UserID req \<and> u_status u = ''active'')"

lemma frame_membership: "audit_frame.guar (WithTx i (q_GetActiveCaseMembership c u))"
  by (auto intro!: frame_reader)

lemma AddMember_run:
  assumes "AddMember user cid req w = (Inr s, w')"
  shows "\<exists>m. tables w' = (tables w)\<lparr>t_case_members := t_case_members (w_db w) @ [m]\<rparr> \<and>
     member_added (w_db w) user cid req m \<and> may_case (w_db w) user cid ''case:update''"
proof -
  from assms obtain w1 c w2 u rs w3 w4 m w5 where
    t1: "tables w1 = tables w" and acc: "may_case (w_db w) user cid ''case:update''"
    and mt: "ai_MembershipType req \<in> set memberTypes"
    and c: "c \<in> set (t_cases (w_db w1))" "c_id c = cid" "tables w2 = tables w1"
      "manages user c"
    and ne: "ai_UserID req \<noteq> c_created_by c"
    and u: "load_user_roles (ai_UserID req) w2 = (Inr (u, rs), w3)" "u_status u = ''active''"
    and t4: "tables w4 = tables w3"
    and m: "WithTx (memberIdent user)
         (q_AddCaseMember cid (ai_UserID req) (ai_MembershipType req) (au_ID user)) w4 = (Inr m, w5)"
    and w': "tables w' = tables w5"
    unfolding AddMember_def
    by (auto simp: ensure_run tryE_Inr ret_run fail_run no_rows_as_def
        dest!: need_case_access_run Record_run load_managed_case_run frame_tables [OF frame_membership]
        split: if_splits)
  note u1 = load_user_roles_run [OF u(1)]
  have t: "tables w4 = tables w" "tables w2 = tables w" using t1 c(3) u1 t4 by simp_all
  note eqs = tables_eqD [OF t(1)] tables_eqD [OF t(2)] tables_eqD [OF t1]
  obtain w6 where q: "q_AddCaseMember cid (ai_UserID req) (ai_MembershipType req) (au_ID user)
      (started (memberIdent user) w4) = (Inr m, w6)" "tables w5 = tables w6"
    using ident_tables [OF m] by blast
  show ?thesis
    using q_AddCaseMember_run [OF q(1)] q(2) w' t c u1 u(2) ne mt acc eqs
    by (intro exI [of _ m]) (auto simp: member_added_def fresh_membership_def)
qed

text \<open>What RemoveMember commits: the target's active membership of the case is closed.\<close>

definition member_removed :: "uuid \<Rightarrow> uuid \<Rightarrow> case_member_row list \<Rightarrow> case_member_row list \<Rightarrow> bool" where
  "member_removed cid u ms ms' \<longleftrightarrow> (\<exists>now. ms' = update_where (active_membership cid (Some u))
     (\<lambda>m. m\<lparr>m_removed_at := Some now\<rparr>) ms)"

lemma member_admin_ctx: "cur_role (ident_ctx (memberIdent user)) = Some ''ADMIN''"
  by (simp add: ident_ctx_def memberIdent_def)

lemma RemoveMember_run:
  assumes "RemoveMember user cid t w = (Inr u, w')"
  shows "\<exists>c ms' n. tables w' = (tables w)\<lparr>t_case_members := ms'\<rparr> \<and>
     member_removed cid t (t_case_members (w_db w)) ms' \<and>
     ms' = update_where (active_membership cid (Some t)) (\<lambda>m. m\<lparr>m_removed_at := Some (w_clock w n)\<rparr>)
       (t_case_members (w_db w)) \<and> w_clock_i w \<le> n \<and>
     c \<in> set (t_cases (w_db w)) \<and> c_id c = cid \<and> t \<noteq> c_created_by c \<and>
     manages user c \<and>
     (\<exists>m\<in>set (t_case_members (w_db w)). active_membership cid (Some t) m)"
proof -
  from managed_ticks [OF assms [unfolded RemoveMember_def]] obtain c w2 m w3 w4 where
    c: "c \<in> set (t_cases (w_db w))" "c_id c = cid" "tables w2 = tables w" "manages user c" "ticking w w2"
    and ne: "t \<noteq> c_created_by c"
    and m: "WithTx adminIdent (q_GetActiveCaseMembership cid t) w2 = (Inr m, w3)"
    and rm: "WithTx (memberIdent user) (q_RemoveCaseMember cid t) w3 = (Inr (), w4)"
    and w': "tables w' = tables w4"
    by (auto simp: ensure_run tryE_Inr ret_run fail_run no_rows_as_def dest!: Record_run split: if_splits)
  have "ticks.guar (WithTx adminIdent (q_GetActiveCaseMembership cid t))"
    unfolding q_GetActiveCaseMembership_def by auto
  then have "ticking w w3" using ticks.guarD m c(5) ticks.trans by fastforce
  then have clock: "w_clock w3 = w_clock w" "w_clock_i w \<le> w_clock_i w3"
    by (simp_all add: ticking_def params_same_def)
  have t3: "tables w3 = tables w2" by (rule frame_tables [OF frame_membership m])
  have act: "m \<in> set (t_case_members (w_db w2))" "active_membership cid (Some t) m"
    using ident_tables [OF m] by (auto simp: q_GetActiveCaseMembership_def query_run dest!: filter_headD)
  have t: "tables w3 = tables w" "tables w2 = tables w" using c(3) t3 by simp_all
  have adm: "app_admin (w_ctx (started (memberIdent user) w3))"
    by (simp add: app_admin_def member_admin_ctx)
  obtain w5 where q: "q_RemoveCaseMember cid t (started (memberIdent user) w3) = (Inr (), w5)"
    "tables w4 = tables w5"
    using ident_tables [OF rm] by blast
  let ?ms = "update_where (active_membership cid (Some t))
     (\<lambda>m. m\<lparr>m_removed_at := Some (w_tx_now (started (memberIdent user) w3))\<rparr>) (t_case_members (w_db w))"
  have "t_case_members (w_db w3) = t_case_members (w_db w)" using tables_eqD [OF t(1)] by simp
  then have "tables w5 = (tables w3)\<lparr>t_case_members := ?ms\<rparr>"
    using q(1) adm
    by (auto simp: q_RemoveCaseMember_def exec_run tables_def case_members_select_def case_members_update_def)
  then have "tables w' = (tables w)\<lparr>t_case_members := ?ms\<rparr>"
    using q(2) w' t by simp
  moreover have "member_removed cid t (t_case_members (w_db w)) ?ms"
    by (auto simp: member_removed_def)
  moreover have "c \<in> set (t_cases (w_db w))" "m \<in> set (t_case_members (w_db w))"
    using c act tables_eqD [OF t(2)] by simp_all
  ultimately show ?thesis using c act ne clock by (intro exI [of _ c] exI [of _ ?ms] exI [of _ "w_clock_i w3"]) auto
qed

section \<open>The invariant\<close>

text \<open>
  Case ids and numbers are unique, statuses are known, a user has at most one active
  membership of a case, and the creator of every case is one of its active members.
\<close>

definition active_keys :: "case_member_row list \<Rightarrow> (uuid \<times> uuid) list" where [run_defs]:
  "active_keys ms = map (\<lambda>m. (m_case_id m, m_user_id m)) (filter (\<lambda>m. m_removed_at m = None) ms)"

definition owner_active :: "case_member_row list \<Rightarrow> case_row \<Rightarrow> bool" where [run_defs]:
  "owner_active ms c \<longleftrightarrow> (c_id c, c_created_by c) \<in> set (active_keys ms)"

definition case_inv :: "database \<Rightarrow> bool" where [run_defs]:
  "case_inv d \<longleftrightarrow> distinct (map c_id (t_cases d)) \<and> distinct (map c_case_number (t_cases d)) \<and>
     list_all (\<lambda>c. case_status_ok (c_status c) \<and> owner_active (t_case_members d) c) (t_cases d) \<and>
     distinct (active_keys (t_case_members d))"

interpretation case_state: state_invariant case_inv
  by unfold_locales (simp add: case_inv_def)

lemma active_keys_append [simp]: "active_keys (ms @ ns) = active_keys ms @ active_keys ns"
  by (simp add: active_keys_def)

lemma active_keys_one [simp]:
  "active_keys [] = []" "m_removed_at m = None \<Longrightarrow> active_keys [m] = [(m_case_id m, m_user_id m)]"
  by (simp_all add: active_keys_def)

lemma active_keys_mem:
  "(i, u) \<in> set (active_keys ms) \<longleftrightarrow> (\<exists>m\<in>set ms. active_membership i (Some u) m)"
  by (auto simp: active_keys_def active_membership_def)

lemma fresh_membership_key:
  "fresh_membership d m \<Longrightarrow> (m_case_id m, m_user_id m) \<notin> set (active_keys (t_case_members d))"
  by (auto simp: fresh_membership_def active_keys_mem)

lemma owner_active_append: "owner_active ms c \<Longrightarrow> owner_active (ms @ ns) c"
  by (simp add: owner_active_def)

lemma case_inv_create:
  assumes inv: "case_inv d" and new: "created_case user req c" "owner_membership c m" "fresh_case d c" "fresh_membership d m"
  shows "case_inv (d\<lparr>t_cases := t_cases d @ [c], t_case_members := t_case_members d @ [m]\<rparr>)"
proof -
  have "owner_active (t_case_members d @ [m]) c"
    using new(2) by (simp add: owner_active_def owner_membership_def)
  then show ?thesis
    using inv new fresh_membership_key [OF new(4)]
    by (auto simp: case_inv_def list_all_iff owner_active_append fresh_case_def created_case_def
        owner_membership_def)
qed

lemma case_inv_add:
  assumes inv: "case_inv d" and new: "fresh_membership d m" "m_removed_at m = None"
  shows "case_inv (d\<lparr>t_case_members := t_case_members d @ [m]\<rparr>)"
  using inv new(2) fresh_membership_key [OF new(1)]
  by (auto simp: case_inv_def list_all_iff owner_active_append)

lemma active_keys_remove:
  "active_keys (update_where (active_membership i (Some u)) (\<lambda>m. m\<lparr>m_removed_at := Some now\<rparr>) ms) =
     filter (\<lambda>k. k \<noteq> (i, u)) (active_keys ms)"
  by (induction ms) (auto simp: active_keys_def active_membership_def)

lemma case_inv_remove:
  assumes inv: "case_inv d" and c: "c \<in> set (t_cases d)" "c_id c = i" "u \<noteq> c_created_by c"
    and rm: "member_removed i u (t_case_members d) ms'"
  shows "case_inv (d\<lparr>t_case_members := ms'\<rparr>)"
proof -
  have keys: "active_keys ms' = filter (\<lambda>k. k \<noteq> (i, u)) (active_keys (t_case_members d))"
    using rm by (auto simp: member_removed_def active_keys_remove)
  have "owner_active ms' x" if "x \<in> set (t_cases d)" for x
  proof -
    have "x = c" if "c_id x = i"
      using inv c \<open>x \<in> set (t_cases d)\<close> that
      by (auto simp: case_inv_def distinct_map dest: inj_onD)
    then show ?thesis
      using inv c that by (auto simp: case_inv_def list_all_iff owner_active_def keys)
  qed
  then show ?thesis
    using inv by (auto simp: case_inv_def list_all_iff keys)
qed

lemma case_inv_update:
  assumes inv: "case_inv d" and upd: "update_effect d d' cid req"
  shows "case_inv d'"
proof -
  from upd obtain p f where d': "d' = d\<lparr>t_cases := update_where p f (t_cases d)\<rparr>"
    and ok: "case_status_ok (ui_Status req)" and f: "\<forall>x. updated_case req x (f x)"
    by (auto simp: update_effect_def)
  have "map c_id (update_where p f (t_cases d)) = map c_id (t_cases d)"
    "map c_case_number (update_where p f (t_cases d)) = map c_case_number (t_cases d)"
    by (rule map_update_where, use f in \<open>simp add: updated_case_def\<close>)+
  then show ?thesis
    using inv ok f by (auto simp: case_inv_def d' list_all_iff update_where_set owner_active_def updated_case_def)
qed

lemma fresh_tables [simp]:
  "fresh_case (tables w) c = fresh_case (w_db w) c"
  "fresh_membership (tables w) m = fresh_membership (w_db w) m"
  by (simp_all add: fresh_case_def fresh_membership_def)

lemma guar_CreateCase: "case_state.guar (CreateCase user req)"
proof (rule case_state.guar_clean [OF clean_CreateCase])
  fix w det w'
  assume inv: "case_inv (tables w)" and "CreateCase user req w = (Inr det, w')"
  then show "case_inv (tables w')"
    using CreateCase_run [of user req w det w'] case_inv_create [OF inv, of user req] by auto
qed

lemma guar_UpdateCase: "case_state.guar (UpdateCase user cid req)"
proof (rule case_state.guar_effect)
  fix w r w'
  assume inv: "case_inv (tables w)" and "UpdateCase user cid req w = (r, w')"
  then show "case_inv (tables w')"
    using UpdateCase_effect case_inv_update [OF inv] by metis
qed

lemma guar_AddMember: "case_state.guar (AddMember user cid req)"
proof (rule case_state.guar_clean [OF clean_AddMember])
  fix w s w'
  assume inv: "case_inv (tables w)" and "AddMember user cid req w = (Inr s, w')"
  then show "case_inv (tables w')"
    using AddMember_run [of user cid req w s w'] case_inv_add [OF inv]
    by (auto simp: member_added_def)
qed

lemma guar_RemoveMember: "case_state.guar (RemoveMember user cid t)"
proof (rule case_state.guar_clean [OF clean_RemoveMember])
  fix w u w'
  assume inv: "case_inv (tables w)" and "RemoveMember user cid t w = (Inr u, w')"
  then show "case_inv (tables w')"
    using RemoveMember_run [of user cid t w u w'] case_inv_remove [OF inv] by auto
qed

lemmas case_service_guar = guar_CreateCase guar_UpdateCase guar_AddMember guar_RemoveMember
  frame_readers_case [THEN case_state.guar_frame]

section \<open>The audit log\<close>

lemma chain_case_statements:
  "chain.guar (q_CreateCase a b c d e)" "chain.guar (q_UpdateCase i b c s m)"
  "chain.guar (q_AddCaseMember i u t v)" "chain.guar (q_RemoveCaseMember i u)"
  unfolding q_CreateCase_def q_UpdateCase_def q_AddCaseMember_def q_RemoveCaseMember_def
  by (auto intro!: chain_exec chain_exec_new simp: Let_def update_one_Inr split: option.splits if_splits)

lemma chain_validated: "chain.guar k \<Longrightarrow> chain.guar (validated v k)"
  by (cases v) (auto simp: validated_def)

lemma chain_load_managed_case: "(\<And>c. chain.guar (k c)) \<Longrightarrow> chain.guar (load_managed_case u i m k)"
  unfolding load_managed_case_def no_rows_as_def by (auto intro!: authz_chain)

lemma chain_case_service:
  "chain.guar (CreateCase user create)" "chain.guar (UpdateCase user cid upd)"
  "chain.guar (AddMember user cid add)" "chain.guar (RemoveMember user cid t)"
  "chain.guar (GetCase user cid)" "chain.guar (ListCases user flt page)" "chain.guar (ListMembers user cid)"
proof -
  note rules = chain_need_permission chain_need_case_access chain_validated chain_load_managed_case
    reader_loadCaseDetail [THEN chain_reader] reader_load_user_roles [THEN chain_reader]
    reader_member_rows [THEN chain_reader] reader_case_queries [THEN chain_reader]
    chain_case_statements authz_chain chain_CanAccessCase guar_Record chain.guar_rules
  show "chain.guar (CreateCase user create)"
    unfolding CreateCase_def create_case_tx_def by (rule rules | simp)+
  show "chain.guar (UpdateCase user cid upd)"
    unfolding UpdateCase_def update_case_tx_def case_update_error_def no_rows_as_def case_event_def
    by (rule rules | simp)+
  show "chain.guar (AddMember user cid add)"
    unfolding AddMember_def no_rows_as_def member_event_def by (rule rules | simp)+
  show "chain.guar (RemoveMember user cid t)"
    unfolding RemoveMember_def no_rows_as_def member_event_def by (rule rules | simp)+
  show "chain.guar (GetCase user cid)"
    unfolding GetCase_def by (rule rules | simp)+
  show "chain.guar (ListCases user flt page)"
    unfolding ListCases_def by (rule rules | simp)+
  show "chain.guar (ListMembers user cid)"
    unfolding ListMembers_def no_rows_as_def by (rule rules | simp)+
qed

end
