(* ===== verification/PartyFacts.thy ===== *)
theory PartyFacts
  imports TwoRuns CaseFacts
begin

text \<open>
  What a reader of a case learns about its witnesses: GetCase on a database and on the same
  database with the witnesses' names and metadata replaced.
\<close>

section \<open>Replacing the witnesses' identities\<close>

definition renamed :: "(party_row \<Rightarrow> string) \<Rightarrow> (party_row \<Rightarrow> bytes) \<Rightarrow> party_row \<Rightarrow> party_row" where
  "renamed n m p = (if ip_party_type p = ''WITNESS''
     then p\<lparr>ip_display_name := n p, ip_metadata := m p\<rparr> else p)"

definition rename_witnesses :: "(party_row \<Rightarrow> string) \<Rightarrow> (party_row \<Rightarrow> bytes) \<Rightarrow> database \<Rightarrow> database" where
  "rename_witnesses n m d = d\<lparr>t_parties := map (renamed n m) (t_parties d)\<rparr>"

lemma renamed_keys [simp]:
  "ip_id (renamed n m p) = ip_id p" "ip_case_id (renamed n m p) = ip_case_id p"
  "ip_party_type (renamed n m p) = ip_party_type p" "ip_created_at (renamed n m p) = ip_created_at p"
  by (simp_all add: renamed_def)

lemma rename_witnesses_tables [simp]:
  "t_users (rename_witnesses n m d) = t_users d" "t_roles (rename_witnesses n m d) = t_roles d"
  "t_permissions (rename_witnesses n m d) = t_permissions d"
  "t_role_permissions (rename_witnesses n m d) = t_role_permissions d"
  "t_cases (rename_witnesses n m d) = t_cases d" "t_case_members (rename_witnesses n m d) = t_case_members d"
  "t_documents (rename_witnesses n m d) = t_documents d" "t_shares (rename_witnesses n m d) = t_shares d"
  "t_audit_log (rename_witnesses n m d) = t_audit_log d"
  "t_parties (rename_witnesses n m d) = map (renamed n m) (t_parties d)"
  "rename_witnesses n m (d\<lparr>t_audit_log := es\<rparr>) = (rename_witnesses n m d)\<lparr>t_audit_log := es\<rparr>"
  by (simp_all add: rename_witnesses_def)

lemma rename_witnesses_member [simp]: "is_case_member (rename_witnesses n m d) = is_case_member d"
  by (simp add: fun_eq_iff is_case_member_def)

lemma rename_witnesses_policies [simp]:
  "cases_select (rename_witnesses n m d) = cases_select d"
  "case_parties_select (rename_witnesses n m d) = case_parties_select d"
  "documents_select (rename_witnesses n m d) = documents_select d"
  "audit_log_select (rename_witnesses n m d) = audit_log_select d"
  by (simp_all add: fun_eq_iff cases_select_def case_parties_select_def documents_select_def
      has_active_document_share_def audit_log_select_def split: option.split)

lemma rename_witnesses_rows [simp]:
  "visible_cases (rename_witnesses n m d) = visible_cases d"
  "visible_documents (rename_witnesses n m d) = visible_documents d"
  "audit_visible (rename_witnesses n m d) = audit_visible d"
  "audit_log_checks (rename_witnesses n m d) = audit_log_checks d"
  "permissions_of (rename_witnesses n m d) = permissions_of d"
  by (simp_all add: fun_eq_iff visible_cases_def visible_documents_def audit_visible_def audit_log_checks_def
      permissions_of_def split: option.split)

abbreviation blind :: "(party_row \<Rightarrow> string) \<Rightarrow> (party_row \<Rightarrow> bytes) \<Rightarrow> 'a op \<Rightarrow> bool" where
  "blind n m op \<equiv> agrees (rename_witnesses n m) (=) op op"

lemma rel_sum_same: "rel_sum (=) (=) x x"
  by (cases x) simp_all

lemma blind_reads:
  "blind n m (q_GetRoleByName r)" "blind n m (q_ListPermissionsForRole i)" "blind n m (q_GetCaseByID i)"
  "blind n m (q_GetActiveCaseMembership i u)" "blind n m (q_ListDocumentsByCase i l f)"
  "blind n m q_AcquireAuditChainLock" "blind n m q_GetLatestAuditEntry"
  unfolding q_GetRoleByName_def q_ListPermissionsForRole_def q_GetCaseByID_def q_GetActiveCaseMembership_def
    q_ListDocumentsByCase_def q_AcquireAuditChainLock_def q_GetLatestAuditEntry_def
  by (rule agrees_query, simp add: rel_sum_same)+

lemma blind_tryE:
  "blind n m op \<Longrightarrow> (\<And>e. blind n m (h e)) \<Longrightarrow> (\<And>x. blind n m (k x)) \<Longrightarrow> blind n m (tryE op h k)"
  by (rule agrees_tryE [where R = "(=)"]) simp_all

section \<open>The guard and the audit trail do not read the parties\<close>

lemma blind_insert: "blind n m (q_InsertAuditEntry a)"
  unfolding q_InsertAuditEntry_def
  by (rule agrees_infra)
    (auto simp: agrees_def over_def Let_def rel_sum_same split: option.splits)

lemma blind_append: "blind n m (append_tx ev c)"
  unfolding append_tx_def chain_head_def
  by (intro agrees_WithTx blind_tryE blind_reads blind_insert agrees_draws agrees_if agrees_ret agrees_fail
      agrees_get_world refl) simp_all

lemma blind_attempts: "blind n m tx \<Longrightarrow> blind n m (append_attempts k le tx)"
  by (induction k arbitrary: le) (auto intro!: blind_tryE agrees_fail agrees_ret)

lemma blind_Record: "blind n m (Record ev)"
  unfolding Record_def
proof (rule agrees_ignoring [OF _ agrees_ret])
  show "blind n m (chain_append ev)"
    using blind_attempts [OF blind_append, of n m maxChainWriteAttempts None ev]
    by (auto simp: agrees_def chain_append_def split: sum.splits)
qed simp

lemma blind_load_roles: "blind n m (load_roles rs ps)"
  by (induction rs arbitrary: ps) (auto intro!: blind_tryE blind_reads agrees_fail agrees_ret)

lemma blind_HasPermission: "blind n m (HasPermission u a)"
  unfolding HasPermission_def loadPermissions_def
  by (intro agrees_if agrees_ret blind_tryE agrees_WithTx blind_load_roles agrees_fail) simp_all

lemma blind_CanAccessCase: "blind n m (CanAccessCase u i a)"
  unfolding CanAccessCase_def loadCaseRelationship_def deny_recorded_def recordDenied_def
  by (intro blind_tryE blind_HasPermission agrees_if agrees_WithTx blind_reads blind_Record agrees_ret agrees_fail)
    simp_all

section \<open>GetCase\<close>

lemma sort_key_map_same: "(\<And>x. k (f x) = k x) \<Longrightarrow> sort_key k (map f xs) = map f (sort_key k xs)"
proof (induction xs)
  case (Cons x xs)
  have "insort_key k (f x) (map f ys) = map f (insort_key k x ys)" for ys
    by (induction ys) (simp_all add: Cons.prems)
  with Cons show ?case by simp
qed simp

lemma agrees_parties:
  "agrees (rename_witnesses n m) (\<lambda>ps ps'. ps' = map (renamed n m) ps)
     (q_ListInvolvedPartiesByCase i) (q_ListInvolvedPartiesByCase i)"
  unfolding q_ListInvolvedPartiesByCase_def
proof (rule agrees_query, unfold rel_sum_simps)
  fix d c and t :: time
  have sel: "case_parties_select d c (renamed n m p) = case_parties_select d c p" for p
    by (simp add: case_parties_select_def)
  show "sort_key ip_created_at (filter (\<lambda>r. ip_case_id r = i \<and> case_parties_select (rename_witnesses n m d) c r)
      (t_parties (rename_witnesses n m d))) =
    map (renamed n m) (sort_key ip_created_at (filter (\<lambda>r. ip_case_id r = i \<and> case_parties_select d c r) (t_parties d)))"
    by (simp add: filter_map comp_def sel sort_key_map_same)
qed

lemma agrees_load_case:
  "agrees (rename_witnesses n m) (\<lambda>x y. y = apsnd (apfst (map (renamed n m))) x)
     (load_case_tx user i) (load_case_tx user i)"
  unfolding load_case_tx_def
  by (rule agrees_WithTx, rule agrees_tryE [OF blind_reads(3) agrees_fail],
      rule agrees_tryE [OF agrees_parties agrees_fail], rule agrees_tryE [OF blind_reads(5) agrees_fail],
      rule agrees_tryE [OF blind_reads(4)])
    (auto intro!: agrees_if agrees_ret agrees_fail simp: take_map)

lemma party_summary_renamed:
  "\<not> CanViewProtectedPartyDetails user \<Longrightarrow> party_summary user (renamed n m p) = party_summary user p"
  by (simp add: party_summary_def SanitizeInvolvedParty_def renamed_def)

lemma case_detail_renamed:
  assumes "\<not> CanViewProtectedPartyDetails user"
  shows "case_detail lib user (apsnd (apfst (map (renamed n m))) x) = case_detail lib user x"
  by (cases x) (simp add: case_detail_def comp_def party_summary_renamed [OF assms]
      buildTimeline_def timeline_events_def)

lemma blind_GetCase:
  assumes "\<not> CanViewProtectedPartyDetails user"
  shows "blind n m (GetCase user i)"
  unfolding GetCase_def need_case_access_def loadCaseDetail_def no_rows_as_def
  by (rule blind_tryE [OF blind_CanAccessCase agrees_fail], rule agrees_ensure,
      rule agrees_tryE [OF agrees_load_case agrees_fail], rule agrees_get_world)
    (simp add: case_detail_renamed [OF assms])

text \<open>The parties a successful GetCase shows, in terms of the table.\<close>

definition shown_party :: "authenticated_user \<Rightarrow> party_row \<Rightarrow> InvolvedPartySummary" where
  "shown_party user p = \<lparr>ps_ID = ip_id p, ps_PartyType = ip_party_type p,
     ps_DisplayName = (if ip_party_type p = ''WITNESS'' \<and> set (au_Roles user) \<inter> {''ADMIN'', ''POLICE'', ''JUDGE''} = {}
       then ''[REDACTED]'' else ip_display_name p),
     ps_Metadata = (if ip_party_type p = ''WITNESS'' \<and> set (au_Roles user) \<inter> {''ADMIN'', ''POLICE'', ''JUDGE''} = {}
       then ''{}'' else ip_metadata p),
     ps_CreatedAt = ip_created_at p\<rparr>"

lemma party_summary_shown: "party_summary user = shown_party user"
  by (auto simp: fun_eq_iff party_summary_def shown_party_def SanitizeInvolvedParty_def CanViewProtectedPartyDetails_def
      hasRole_def list_ex_iff redactedNotice_def)

definition case_parties :: "database \<Rightarrow> authenticated_user \<Rightarrow> uuid \<Rightarrow> party_row list" where
  "case_parties d user i = take maxCaseDetailInvolvedParties (sort_key ip_created_at
     (filter (\<lambda>p. ip_case_id p = i \<and> case_parties_select d (ident_ctx (case_ident user)) p) (t_parties d)))"

lemma load_case_parties:
  "load_case_tx user i w = (Inr (c, ps, ds, mb), w') \<Longrightarrow> ps = case_parties (w_db w) user i"
  by (auto simp: load_case_tx_def WithTx_run tryE_def fail_run ret_run q_ListInvolvedPartiesByCase_def
      q_GetCaseByID_def case_parties_def query_def infra_cases fail_def ret_def
      split: prod.splits sum.splits option.splits if_splits)

lemma case_parties_tables:
  assumes "tables d = tables d'"
  shows "case_parties (w_db d) user i = case_parties (w_db d') user i"
  using tables_eqD [OF assms] by (simp add: case_parties_def case_parties_select_def is_case_member_def)

lemma GetCase_parties:
  assumes "GetCase user i w = (Inr det, w')"
  shows "cd_InvolvedParties det = map (shown_party user) (case_parties (w_db w) user i)"
proof -
  obtain w1 where "loadCaseDetail user i w1 = (Inr det, w')" and tab: "tables w1 = tables w"
    using need_case_access_run [OF assms [unfolded GetCase_def]] by blast
  then obtain c ps ds mb w2 where "load_case_tx user i w1 = (Inr (c, ps, ds, mb), w2)"
    and "det = case_detail (w_lib w2) user (c, ps, ds, mb)"
    by (auto simp: loadCaseDetail_def no_rows_as_def tryE_Inr get_world_run fail_run)
  then show ?thesis
    using load_case_parties [of user i w1] case_parties_tables [OF tab]
    by (simp add: case_detail_def party_summary_shown)
qed

end
