(* ===== verification/CaseProps.thy ===== *)
theory CaseProps
  imports PartyFacts "HOL-Library.Multiset"
begin

text \<open>The properties of the case service, each with the input it is run on.\<close>

section \<open>Creating a case\<close>

definition case_db :: database where [run_defs]:
  "case_db = sample_db\<lparr>
     t_permissions := t_permissions sample_db @
       [\<lparr>p_id = 4, p_name = ''case:create'', p_resource = ''case'', p_action = ''create''\<rparr>,
        \<lparr>p_id = 5, p_name = ''case:update'', p_resource = ''case'', p_action = ''update''\<rparr>],
     t_role_permissions := t_role_permissions sample_db @
       [\<lparr>rp_role_id = 2, rp_permission_id = 4\<rparr>, \<lparr>rp_role_id = 2, rp_permission_id = 5\<rparr>]\<rparr>"

definition create_input :: CreateCaseInput where [run_defs]:
  "create_input = \<lparr>ci_CaseNumber = ''C-2'', ci_Title = ''x'', ci_Description = None,
     ci_Status = None, ci_Metadata = ''''\<rparr>"

text \<open>
  C8.  CreateCase is all or nothing.  When it fails, no table has changed and the error is one
  the API may show.  When it succeeds, exactly one case and one membership were added: the
  case with the number, title, description and status of the request (OPEN when it names
  none), the request's metadata as the \<^verbatim>\<open>jsonb\<close> column stores it (twice when the status is
  not OPEN: the row is written and then updated), created by the caller at a time the clock
  has shown since the call, its id and number unused before; the membership that of the
  caller as its active OWNER from the same time; and the caller holds case:create.
\<close>

theorem case_creation:
  assumes "CreateCase user req w = (r, w')"
  shows "case r of
      Inl e \<Rightarrow> tables w' = tables w \<and> client_safe e
    | Inr det \<Rightarrow> permitted (w_db w) user ''case:create'' \<and>
        (\<exists>c m. tables w' = (tables w)\<lparr>t_cases := t_cases (w_db w) @ [c],
            t_case_members := t_case_members (w_db w) @ [m]\<rparr> \<and>
          created_case user req c \<and> owner_membership c m \<and> fresh_case (w_db w) c \<and>
          fresh_membership (w_db w) m \<and> cd_Summary det = toCaseSummary c \<and>
          (\<exists>stored. lib_jsonb (w_lib w) (normalizeMetadata (ci_Metadata req)) = Some stored \<and>
             (if requested_status req = ''OPEN'' then c_metadata c = stored
              else lib_jsonb (w_lib w) stored = Some (c_metadata c))) \<and>
          (\<exists>n\<ge>w_clock_i w. c_created_at c = w_clock w n) \<and> c_updated_at c = c_created_at c \<and>
          m_created_at m = c_created_at c)"
proof (cases r)
  case (Inl e)
  then show ?thesis
    using assms cleanD [OF clean_CreateCase] fails_onlyD [OF fails_CreateCase] by simp
next
  case (Inr det)
  with assms have "CreateCase user req w = (Inr det, w')" by simp
  from CreateCase_run [OF this] show ?thesis
    unfolding stored_metadata_def Inr sum.case by blast
qed

lemma create_runs:
  "\<exists>det. fst (CreateCase (sample_actor 11 ''POLICE'') create_input (sample_world case_db)) = Inr det"
  supply run_congs [cong]
  by (simp add: run_defs)

lemma case_creation_witness:
  "\<exists>c. t_cases (w_db (snd (CreateCase (sample_actor 11 ''POLICE'') create_input (sample_world case_db)))) =
     [sample_case, c] \<and> c_case_number c = ''C-2'' \<and> c_created_by c = 11"
proof -
  obtain det w' where run: "CreateCase (sample_actor 11 ''POLICE'') create_input (sample_world case_db) = (Inr det, w')"
    using create_runs by (metis prod.collapse)
  have old: "t_cases (w_db (sample_world case_db)) = [sample_case]"
    by (simp add: sample_world_def case_db_def sample_db_def)
  obtain c m where c: "tables w' = (tables (sample_world case_db))\<lparr>t_cases := [sample_case] @ [c],
        t_case_members := t_case_members (w_db (sample_world case_db)) @ [m]\<rparr>"
      "created_case (sample_actor 11 ''POLICE'') create_input c"
    using case_creation [OF run] unfolding old by auto
  have "t_cases (tables w') = [sample_case, c]" using c(1) by simp
  then show ?thesis
    using c(2) run by (auto simp: created_case_def create_input_def sample_actor_def)
qed

section \<open>The status machine\<close>

definition case_step :: "uuid \<Rightarrow> case_row \<Rightarrow> case_row \<Rightarrow> bool" where
  "case_step cid c c' \<longleftrightarrow> c_id c' = c_id c \<and> c_case_number c' = c_case_number c \<and>
     c_created_by c' = c_created_by c \<and> c_created_at c' = c_created_at c \<and>
     (c_status c' = c_status c \<or> may_transition (c_status c) (c_status c')) \<and>
     (c_status c = ''ARCHIVED'' \<longrightarrow> c_status c' = ''ARCHIVED'') \<and> (c_id c \<noteq> cid \<longrightarrow> c' = c)"

lemma archived_terminal: "\<not> may_transition ''ARCHIVED'' t"
  by (simp add: may_transition_def caseStatusTransitions_def)

lemma case_step_refl [simp]: "case_step cid c c"
  by (simp add: case_step_def)

lemma update_effect_steps:
  assumes inv: "case_inv d" and upd: "update_effect d d' cid req"
  shows "list_all2 (case_step cid) (t_cases d) (t_cases d')"
proof -
  from upd obtain p f b where d': "d' = d\<lparr>t_cases := update_where p f (t_cases d)\<rparr>"
    and b: "b \<in> set (t_cases d)" "c_id b = cid"
      "ui_Status req = c_status b \<or> may_transition (c_status b) (ui_Status req)"
    and p: "\<forall>x. p x \<longrightarrow> c_id x = cid" and f: "\<forall>x. updated_case req x (f x)"
    unfolding update_effect_def by blast
  have "case_step cid x (if p x then f x else x)" if x: "x \<in> set (t_cases d)" for x
  proof (cases "p x")
    case True
    then have "x = b"
      using inv p b x by (auto simp: case_inv_def distinct_map dest: inj_onD)
    then show ?thesis
      using b f [rule_format, of b] True archived_terminal
      by (auto simp: case_step_def updated_case_def)
  qed simp
  then show ?thesis
    by (simp add: d' update_where_def list_all2_conv_all_nth)
qed

text \<open>
  C9.  UpdateCase moves no case along an edge that is not in the transition table, whatever it
  answers: every case keeps its id, number, creator and creation time; its status stays or
  follows one declared transition, so an ARCHIVED case stays ARCHIVED; every case other than
  the one asked for, and every membership, is untouched.
\<close>

lemma update_effect_members: "update_effect d d' cid req \<Longrightarrow> t_case_members d' = t_case_members d"
  by (auto simp: update_effect_def)

theorem case_updates_follow_transitions:
  assumes "UpdateCase user cid req w = (r, w')" and "case_inv (w_db w)"
  shows "list_all2 (case_step cid) (t_cases (w_db w)) (t_cases (w_db w')) \<and>
    t_case_members (w_db w') = t_case_members (w_db w)"
proof -
  have inv: "case_inv (tables w)" using assms(2) by (simp add: case_state.I_tables)
  from UpdateCase_effect [OF assms(1)] show ?thesis
  proof
    assume same: "tables w' = tables w"
    have "list_all2 (case_step cid) cs cs" for cs by (induction cs) simp_all
    then show ?thesis using tables_eqD [OF same] by simp
  next
    assume upd: "update_effect (tables w) (tables w') cid req"
    then have "t_case_members (tables w') = t_case_members (tables w)"
      by (rule update_effect_members)
    then show ?thesis using update_effect_steps [OF inv upd] by simp
  qed
qed

lemma sample_case_inv: "case_inv case_db"
  by (simp add: run_defs)

definition update_input :: UpdateCaseInput where [run_defs]:
  "update_input = \<lparr>ui_Title = ''y'', ui_Description = None, ui_Status = ''UNDER_INVESTIGATION'',
     ui_Metadata = ''{}''\<rparr>"

lemma update_runs:
  "map c_status (t_cases (w_db (snd (UpdateCase (sample_actor 11 ''POLICE'') 50 update_input
     (quiet_world case_db))))) = [''UNDER_INVESTIGATION'']"
  supply run_congs [cong]
  by (simp add: run_defs)

lemma case_updates_follow_transitions_witness:
  "list_all2 (case_step 50) [sample_case] (t_cases (w_db (snd (UpdateCase (sample_actor 11 ''POLICE'') 50
     update_input (quiet_world case_db))))) \<and>
   map c_status (t_cases (w_db (snd (UpdateCase (sample_actor 11 ''POLICE'') 50 update_input
     (quiet_world case_db))))) = [''UNDER_INVESTIGATION'']"
proof -
  have db: "case_inv (w_db (quiet_world case_db))" "t_cases (w_db (quiet_world case_db)) = [sample_case]"
    using sample_case_inv by (simp_all add: quiet_world_def sample_world_def case_db_def sample_db_def)
  from case_updates_follow_transitions [OF prod.collapse [symmetric] db(1),
      of 50]
  show ?thesis using update_runs unfolding db(2) by blast
qed

section \<open>Members\<close>

text \<open>
  C10.  AddMember only adds a membership for an active user who had none on the case, never the
  OWNER type and never a second one for the creator, and only on behalf of the case's creator
  or an administrator who may update the case; when it fails, no table has changed.
\<close>

theorem member_assignment:
  assumes "AddMember user cid req w = (r, w')"
  shows "case r of
      Inl e \<Rightarrow> tables w' = tables w \<and> client_safe e
    | Inr s \<Rightarrow> may_case (w_db w) user cid ''case:update'' \<and>
        (\<exists>m. tables w' = (tables w)\<lparr>t_case_members := t_case_members (w_db w) @ [m]\<rparr> \<and>
          member_added (w_db w) user cid req m)"
proof (cases r)
  case (Inl e)
  then show ?thesis
    using assms cleanD [OF clean_AddMember] fails_onlyD [OF fails_AddMember] by simp
next
  case (Inr s)
  then show ?thesis using AddMember_run [of user cid req w s w'] assms by auto
qed

definition add_input :: AddCaseMemberInput where [run_defs]:
  "add_input = \<lparr>ai_UserID = 12, ai_MembershipType = ''VIEWER''\<rparr>"

lemma add_runs:
  "\<exists>s. fst (AddMember (sample_actor 11 ''POLICE'') 50 add_input (sample_world case_db)) = Inr s"
  supply run_congs [cong]
  by (simp add: run_defs)

lemma member_assignment_witness:
  "\<exists>m. t_case_members (w_db (snd (AddMember (sample_actor 11 ''POLICE'') 50 add_input (sample_world case_db)))) =
     [sample_member, m] \<and> m_user_id m = 12 \<and> m_membership_type m = ''VIEWER''"
proof -
  obtain s w' where run: "AddMember (sample_actor 11 ''POLICE'') 50 add_input (sample_world case_db) = (Inr s, w')"
    using add_runs by (metis prod.collapse)
  have old: "t_case_members (w_db (sample_world case_db)) = [sample_member]"
    by (simp add: sample_world_def case_db_def sample_db_def)
  obtain m where m: "tables w' = (tables (sample_world case_db))\<lparr>t_case_members := [sample_member] @ [m]\<rparr>"
      "member_added (w_db (sample_world case_db)) (sample_actor 11 ''POLICE'') 50 add_input m"
    using member_assignment [OF run] unfolding old by auto
  have "t_case_members (tables w') = [sample_member, m]" using m(1) by simp
  then show ?thesis using m(2) run by (auto simp: member_added_def add_input_def)
qed

text \<open>
  C11.  RemoveMember never takes a creator's membership away.  A successful call stamps the
  target's active membership of that case with a time the clock has shown since the call; no
  row is deleted and nothing else is changed, in that table or in another, so the pairs of
  case and active member are those before without the target's.  There was such a membership,
  the target is not the case's creator, and the caller is the creator or an administrator.  A
  failed call changes no table.
\<close>

theorem owner_never_removed:
  assumes "RemoveMember user cid t w = (r, w')"
  shows "case r of
      Inl e \<Rightarrow> tables w' = tables w \<and> client_safe e
    | Inr u \<Rightarrow> \<exists>c ms' n. tables w' = (tables w)\<lparr>t_case_members := ms'\<rparr> \<and> w_clock_i w \<le> n \<and>
        ms' = map (\<lambda>m. if m_case_id m = cid \<and> m_user_id m = t \<and> m_removed_at m = None
          then m\<lparr>m_removed_at := Some (w_clock w n)\<rparr> else m) (t_case_members (w_db w)) \<and>
        active_keys ms' = filter (\<lambda>k. k \<noteq> (cid, t)) (active_keys (t_case_members (w_db w))) \<and>
        (cid, t) \<in> set (active_keys (t_case_members (w_db w))) \<and>
        c \<in> set (t_cases (w_db w)) \<and> c_id c = cid \<and> t \<noteq> c_created_by c \<and> manages user c"
proof (cases r)
  case (Inl e)
  then show ?thesis
    using assms cleanD [OF clean_RemoveMember] fails_onlyD [OF fails_RemoveMember] by simp
next
  case (Inr u)
  obtain c ms' n where c: "tables w' = (tables w)\<lparr>t_case_members := ms'\<rparr>"
      "ms' = update_where (active_membership cid (Some t)) (\<lambda>m. m\<lparr>m_removed_at := Some (w_clock w n)\<rparr>)
        (t_case_members (w_db w))" "w_clock_i w \<le> n" "c \<in> set (t_cases (w_db w))" "c_id c = cid"
      "t \<noteq> c_created_by c" "manages user c"
      "\<exists>m\<in>set (t_case_members (w_db w)). active_membership cid (Some t) m"
    using RemoveMember_run [of user cid t w u w'] assms Inr by blast
  have keys: "active_keys ms' = filter (\<lambda>k. k \<noteq> (cid, t)) (active_keys (t_case_members (w_db w)))"
    using c(2) by (simp add: active_keys_remove)
  have rows: "ms' = map (\<lambda>m. if m_case_id m = cid \<and> m_user_id m = t \<and> m_removed_at m = None
      then m\<lparr>m_removed_at := Some (w_clock w n)\<rparr> else m) (t_case_members (w_db w))"
    using c(2) by (auto simp: update_where_def active_membership_def)
  show ?thesis
    unfolding Inr sum.case using c(1,3-8) keys rows unfolding active_keys_mem by blast
qed

definition shared_case_db :: database where [run_defs]:
  "shared_case_db = case_db\<lparr>t_case_members := [sample_member,
     sample_member\<lparr>m_id := 61, m_user_id := 12, m_membership_type := ''VIEWER''\<rparr>]\<rparr>"

lemma remove_runs:
  "fst (RemoveMember (sample_actor 11 ''POLICE'') 50 12 (sample_world shared_case_db)) = Inr ()"
  supply run_congs [cong]
  by (simp add: run_defs)

lemma owner_never_removed_witness:
  "active_keys (t_case_members (w_db (snd (RemoveMember (sample_actor 11 ''POLICE'') 50 12
     (sample_world shared_case_db))))) = [(50, 11)]"
proof -
  obtain w' where run: "RemoveMember (sample_actor 11 ''POLICE'') 50 12 (sample_world shared_case_db) = (Inr (), w')"
    using remove_runs by (metis prod.collapse)
  obtain ms' where "tables w' = (tables (sample_world shared_case_db))\<lparr>t_case_members := ms'\<rparr>"
      "active_keys ms' = filter (\<lambda>k. k \<noteq> (50, 12)) (active_keys (t_case_members (w_db (sample_world shared_case_db))))"
    using owner_never_removed [OF run] by auto
  then have "active_keys (t_case_members (tables w')) =
      filter (\<lambda>k. k \<noteq> (50, 12)) (active_keys (t_case_members (w_db (sample_world shared_case_db))))" by simp
  then show ?thesis
    using run by (simp add: sample_world_def shared_case_db_def active_keys_def sample_member_def)
qed

section \<open>The invariant\<close>

text \<open>
  C12.  No call of the case service breaks the invariant of its tables: unique case ids and
  numbers, known statuses, at most one active membership per user and case, and the creator
  of every case among its active members.
\<close>

theorem case_invariant:
  assumes "case_inv (w_db w)"
  shows "case_inv (w_db (snd (CreateCase user create w))) \<and> case_inv (w_db (snd (UpdateCase user cid upd w))) \<and>
    case_inv (w_db (snd (AddMember user cid add w))) \<and> case_inv (w_db (snd (RemoveMember user cid t w)))"
  using assms case_service_guar [THEN case_state.guarD, rule_format, of w] by blast

lemma case_invariant_witness:
  "case_inv (w_db (snd (CreateCase (sample_actor 11 ''POLICE'') create_input (sample_world case_db))))"
  by (rule case_invariant [THEN conjunct1]) (simp add: sample_case_inv sample_world_def)

section \<open>The timeline\<close>

text \<open>What sort.Slice promises: a permutation of the positions that sorts the keys.\<close>

definition sort_laws :: "library \<Rightarrow> bool" where
  "sort_laws lib \<longleftrightarrow> (\<forall>ks. mset (lib_sort_perm lib ks) = mset [0..<length ks] \<and>
     sorted (map ((!) ks) (lib_sort_perm lib ks)))"

lemma sort_slice_spec:
  assumes "sort_laws lib"
  shows "mset (sort_slice lib key xs) = mset xs \<and> sorted (map key (sort_slice lib key xs))"
proof
  let ?p = "lib_sort_perm lib (map key xs)"
  have p: "mset ?p = mset [0..<length xs]" "sorted (map ((!) (map key xs)) ?p)"
    using assms unfolding sort_laws_def by (metis length_map)+
  have "mset (map ((!) xs) ?p) = image_mset ((!) xs) (mset [0..<length xs])"
    using p(1) by simp
  also have "\<dots> = mset xs"
    by (metis map_nth mset_map)
  finally show "mset (sort_slice lib key xs) = mset xs" by (simp add: sort_slice_def)
  have "set ?p = {0..<length xs}" using p(1) by (metis set_mset_mset set_upt)
  then have "map key (map ((!) xs) ?p) = map ((!) (map key xs)) ?p" by (auto intro!: map_cong simp: comp_def)
  then show "sorted (map key (sort_slice lib key xs))" using p(2) by (simp only: sort_slice_def)
qed

text \<open>
  C13.  The timeline of a case is in chronological order and holds exactly its events, each as
  often as it happened and whatever order sort.Slice gives equal times: the creation, the last
  update when the row was updated after it, one event per involved party and one per document
  shown, each with its type, its time, its sentence and the id it is about.
\<close>

theorem timeline_chronological:
  assumes "sort_laws lib"
  shows "sorted (map te_Timestamp (buildTimeline lib c parties docs)) \<and>
    mset (buildTimeline lib c parties docs) = mset (
      [\<lparr>te_Type = ''CASE_CREATED'', te_Timestamp = c_created_at c,
        te_Summary = ''Case '' @ c_case_number c @ '' created'', te_RelatedID = Some (c_id c)\<rparr>] @
      (if c_created_at c < c_updated_at c
       then [\<lparr>te_Type = ''CASE_UPDATED'', te_Timestamp = c_updated_at c,
         te_Summary = ''Case '' @ c_case_number c @ '' updated (status: '' @ c_status c @ '')'',
         te_RelatedID = Some (c_id c)\<rparr>]
       else []) @
      map (\<lambda>p. \<lparr>te_Type = ''INVOLVED_PARTY_ADDED'', te_Timestamp = ip_created_at p,
        te_Summary = ip_party_type p @ '' party added'', te_RelatedID = Some (ip_id p)\<rparr>) parties @
      map (\<lambda>d. \<lparr>te_Type = ''DOCUMENT_ADDED'', te_Timestamp = d_uploaded_at d,
        te_Summary = ''Document '' @ lib_quote lib (d_filename d) @ '' added'',
        te_RelatedID = Some (d_id d)\<rparr>) docs)"
  using sort_slice_spec [OF assms, of te_Timestamp "timeline_events lib c parties docs"]
  by (simp only: buildTimeline_def timeline_events_def)

lemma sample_sort_laws: "sort_laws sample_lib"
  unfolding sort_laws_def
proof (intro allI conjI)
  fix ks :: "time list"
  let ?zs = "sort_key fst (zip ks [0..<length ks])"
  have "mset (map snd ?zs) = mset (map snd (zip ks [0..<length ks]))" by (simp only: mset_map mset_sort)
  then show "mset (lib_sort_perm sample_lib ks) = mset [0..<length ks]"
    by (simp add: sample_lib_def sample_sort_def)
  have "\<forall>(k, i)\<in>set ?zs. ks ! i = k" by (auto simp: set_zip)
  then have "map ((!) ks) (map snd ?zs) = map fst ?zs" by (auto intro!: map_cong [OF refl] split: prod.splits)
  moreover have "sorted (map fst ?zs)" by (rule sorted_sort_key)
  ultimately show "sorted (map ((!) ks) (lib_sort_perm sample_lib ks))"
    by (simp only: sample_lib_def sample_sort_def library.simps)
qed

lemma timeline_chronological_witness:
  "sorted (map te_Timestamp (buildTimeline sample_lib sample_case [] [sample_document]))"
  by (rule timeline_chronological [OF sample_sort_laws, THEN conjunct1])

section \<open>Reading a case\<close>

text \<open>
  C7.  GetCase protects the identity of witnesses.  For a user who is neither ADMIN, POLICE nor
  JUDGE the whole answer (the parties, the timeline, an error) is the same whatever the names
  and metadata of the witnesses in the database are.  And the parties of an answer are exactly
  those of the case that the user may see, the oldest first and at most 200: each with its
  own name and metadata, except that a witness shown to such a user is named
  \<^verbatim>\<open>[REDACTED]\<close> and has the metadata \<^verbatim>\<open>{}\<close>.
\<close>

theorem witness_identity_protected:
  "(set (au_Roles user) \<inter> {''ADMIN'', ''POLICE'', ''JUDGE''} = {} \<longrightarrow>
     fst (GetCase user i (w\<lparr>w_db := (w_db w)\<lparr>t_parties := map (renamed n m) (t_parties (w_db w))\<rparr>\<rparr>)) =
     fst (GetCase user i w)) \<and>
   (\<forall>det w'. GetCase user i w = (Inr det, w') \<longrightarrow>
     cd_InvolvedParties det = map (shown_party user) (take 200 (sort_key ip_created_at
       (filter (\<lambda>p. ip_case_id p = i \<and> case_parties_select (w_db w) (ident_ctx (case_ident user)) p)
         (t_parties (w_db w))))))"
proof (intro conjI impI allI)
  assume "set (au_Roles user) \<inter> {''ADMIN'', ''POLICE'', ''JUDGE''} = {}"
  then have "\<not> CanViewProtectedPartyDetails user"
    by (auto simp: CanViewProtectedPartyDetails_def hasRole_def list_ex_iff)
  from answersD [OF agrees_answers [OF blind_GetCase [OF this, where n = n and m = m and i = i]], of w]
  show "fst (GetCase user i (w\<lparr>w_db := (w_db w)\<lparr>t_parties := map (renamed n m) (t_parties (w_db w))\<rparr>\<rparr>)) =
     fst (GetCase user i w)" by (simp add: over_def rename_witnesses_def)
next
  show "GetCase user i w = (Inr det, w') \<Longrightarrow>
     cd_InvolvedParties det = map (shown_party user) (take 200 (sort_key ip_created_at
       (filter (\<lambda>p. ip_case_id p = i \<and> case_parties_select (w_db w) (ident_ctx (case_ident user)) p)
         (t_parties (w_db w)))))" for det w'
    by (simp add: GetCase_parties case_parties_def maxCaseDetailInvolvedParties_def)
qed

definition witness_party :: party_row where [run_defs]:
  "witness_party = \<lparr>ip_id = 95, ip_case_id = 50, ip_party_type = ''WITNESS'', ip_display_name = ''Jane'',
     ip_metadata = '''', ip_added_by = 11, ip_created_at = 3\<rparr>"

definition witness_db :: database where [run_defs]:
  "witness_db = sample_db\<lparr>
     t_roles := t_roles sample_db @ [\<lparr>r_id = 3, r_name = ''LAWYER'', r_description = None\<rparr>],
     t_role_permissions := t_role_permissions sample_db @ [\<lparr>rp_role_id = 3, rp_permission_id = 1\<rparr>],
     t_case_members := [sample_member, sample_member\<lparr>m_id := 61, m_user_id := 12\<rparr>],
     t_parties := [witness_party]\<rparr>"

lemma read_runs: "\<exists>det. fst (GetCase (sample_actor 12 ''LAWYER'') 50 (sample_world witness_db)) = Inr det"
  supply run_congs [cong]
  by (simp add: run_defs)

lemma witness_identity_protected_witness:
  "\<exists>det. fst (GetCase (sample_actor 12 ''LAWYER'') 50 (sample_world witness_db)) = Inr det \<and>
     map ps_DisplayName (cd_InvolvedParties det) = [''[REDACTED]''] \<and>
     fst (GetCase (sample_actor 12 ''LAWYER'') 50 ((sample_world witness_db)\<lparr>w_db := witness_db\<lparr>t_parties :=
       map (renamed (\<lambda>p. ''Joan'') (\<lambda>p. '''')) [witness_party]\<rparr>\<rparr>)) = Inr det"
proof -
  obtain det w' where run: "GetCase (sample_actor 12 ''LAWYER'') 50 (sample_world witness_db) = (Inr det, w')"
    using read_runs by (metis prod.collapse)
  have db: "w_db (sample_world witness_db) = witness_db" by (simp add: sample_world_def)
  note both = witness_identity_protected [where user = "sample_actor 12 ''LAWYER''" and i = 50 and w = "sample_world witness_db"
      and n = "\<lambda>p. ''Joan''" and m = "\<lambda>p. ''''"]
  have "cd_InvolvedParties det = map (shown_party (sample_actor 12 ''LAWYER'')) [witness_party]"
    using both [THEN conjunct2, rule_format, OF run] unfolding db
    by (simp add: run_defs)
  then have "map ps_DisplayName (cd_InvolvedParties det) = [''[REDACTED]'']"
    by (simp add: shown_party_def witness_party_def sample_actor_def)
  moreover have "fst (GetCase (sample_actor 12 ''LAWYER'') 50 ((sample_world witness_db)\<lparr>w_db := witness_db\<lparr>t_parties :=
       map (renamed (\<lambda>p. ''Joan'') (\<lambda>p. '''')) (t_parties witness_db)\<rparr>\<rparr>)) = Inr det"
    using both [THEN conjunct1, unfolded db] run by (simp add: sample_actor_def)
  moreover have "t_parties witness_db = [witness_party]" by (simp add: witness_db_def)
  ultimately show ?thesis using run by simp
qed

end
