(* ===== verification/UserService.thy ===== *)
theory UserService
  imports CaseService
begin

text \<open>
  backend/internal/service/user\_service.go: administration of users, their role and their
  status.  The service owns the tables users and user\_roles and ends the sessions of a user
  whose password is reset or whose account is switched off.
\<close>

section \<open>Constants and inputs\<close>

definition userRoles :: "string list" where [run_defs]:
  "userRoles = [''ADMIN'', ''POLICE'', ''FORENSICS'', ''LAWYER'', ''JUDGE'']"

definition userStatuses :: "string list" where [run_defs]:
  "userStatuses = [''active'', ''inactive'', ''suspended'']"

record AdminUserSummary =
  us_ID :: uuid
  us_Email :: string
  us_FirstName :: string
  us_LastName :: string
  us_DisplayName :: "string option"
  us_Phone :: "string option"
  us_Status :: string
  us_Roles :: "string list"
  us_CreatedAt :: time
  us_UpdatedAt :: time
  us_LastLoginAt :: "time option"

record UserListResult =
  ul_Users :: "AdminUserSummary list"
  ul_Meta :: Meta

record UserListFilter =
  uf_Role :: "string option"
  uf_Status :: "string option"
  uf_Search :: "string option"

record CreateUserInput =
  cu_Email :: string
  cu_Password :: string
  cu_FirstName :: string
  cu_LastName :: string
  cu_DisplayName :: "string option"
  cu_Phone :: "string option"
  cu_Role :: string
  cu_Status :: "string option"

record UpdateUserInput =
  uu_FirstName :: string
  uu_LastName :: string
  uu_DisplayName :: "string option"
  uu_Phone :: "string option"

record RoleCatalogEntry =
  rc_ID :: uuid
  rc_Name :: string
  rc_Description :: "string option"

section \<open>Validators\<close>

definition validateEmail :: "library \<Rightarrow> string \<Rightarrow> gerr option" where [run_defs]:
  "validateEmail lib v =
     (if v = '''' then Some (StdErr ''email is required'')
      else if 254 < length v then Some (StdErr ''email must be at most 254 characters'')
      else if lib_parse_address lib v = None then Some (StdErr ''email must be a valid email address'')
      else None)"

definition validateUserName :: "string \<Rightarrow> string \<Rightarrow> gerr option" where [run_defs]:
  "validateUserName v field =
     (if v = '''' then Some (StdErr (field @ '' is required''))
      else if 255 < length v then Some (StdErr (field @ '' must be at most 255 characters''))
      else None)"

definition validateDisplayName :: "string option \<Rightarrow> gerr option" where [run_defs]:
  "validateDisplayName v = (case v of None \<Rightarrow> None
     | Some s \<Rightarrow> if 255 < length s then Some (StdErr ''display_name must be at most 255 characters'') else None)"

definition validatePhone :: "string option \<Rightarrow> gerr option" where [run_defs]:
  "validatePhone v = (case v of None \<Rightarrow> None
     | Some s \<Rightarrow> if 32 < length s then Some (StdErr ''phone must be at most 32 characters'') else None)"

definition minPasswordLen :: nat where [run_defs]:
  "minPasswordLen = 8"

definition maxPasswordLen :: nat where [run_defs]:
  "maxPasswordLen = 128"

definition validatePassword :: "string \<Rightarrow> gerr option" where [run_defs]:
  "validatePassword v =
     (if length v < minPasswordLen then Some (StdErr ''password must be at least 8 characters'')
      else if maxPasswordLen < length v then Some (StdErr ''password must be at most 128 characters'')
      else None)"

definition trimmedOrNil :: "string option \<Rightarrow> string option" where [run_defs]:
  "trimmedOrNil v = (case v of None \<Rightarrow> None
     | Some s \<Rightarrow> let t = TrimSpace s in if t = '''' then None else Some t)"

section \<open>Helpers\<close>

text \<open>The five from...Row converters read the same fields of their row types.\<close>

definition admin_summary :: "user_row \<Rightarrow> string list \<Rightarrow> AdminUserSummary" where [run_defs]:
  "admin_summary r roles = \<lparr>us_ID = u_id r, us_Email = u_email r, us_FirstName = u_first_name r,
     us_LastName = u_last_name r, us_DisplayName = u_display_name r, us_Phone = u_phone r,
     us_Status = u_status r, us_Roles = roles, us_CreatedAt = u_created_at r,
     us_UpdatedAt = u_updated_at r, us_LastLoginAt = u_last_login_at r\<rparr>"

definition publish_user :: "string \<Rightarrow> uuid \<Rightarrow> AdminUserSummary \<Rightarrow> unit op" where [run_defs]:
  "publish_user ty i s = publish ty ''admin_users'' ''global''
     [(''user_id'', JStr (uuid_string i)), (''email'', JStr (us_Email s)),
      (''roles'', JArr (map JStr (us_Roles s))), (''status'', JStr (us_Status s))]"

text \<open>An event without metadata carries a nil map, which marshals to null.\<close>

definition user_event :: "authenticated_user \<Rightarrow> string \<Rightarrow> uuid \<Rightarrow> json \<Rightarrow> event" where [run_defs]:
  "user_event actor act target meta = \<lparr>ev_action = act, ev_resource_type = ''user'',
     ev_resource_id = Some target, ev_user_id = Some (au_ID actor), ev_role = effectiveCaseRole actor,
     ev_case_id = None, ev_metadata = meta\<rparr>"

definition anonymous :: app_identity where [run_defs]:
  "anonymous = \<lparr>UserID = nil_uuid, Role = ''''\<rparr>"

definition loadUserSummary :: "uuid \<Rightarrow> AdminUserSummary op" where [run_defs]:
  "loadUserSummary i = tryE (WithTx anonymous (
       bindE (q_GetUserByID i) (\<lambda>p. bindE (q_ListRolesForUser i) (\<lambda>rs. ret (p, rs)))))
     (no_rows_as (ErrNotFound ''User not found''))
     (\<lambda>(p, rs). ret (admin_summary p (roleNames rs)))"

definition rolesForUser :: "uuid \<Rightarrow> string list op" where [run_defs]:
  "rolesForUser i = bindE (WithTx anonymous (q_ListRolesForUser i)) (\<lambda>rs. ret (roleNames rs))"

definition ensureNotLastActiveAdmin :: "unit op" where [run_defs]:
  "ensureNotLastActiveAdmin =
     try_wrap q_AcquireAdminGuardLock ''acquire admin guard lock'' (\<lambda>_.
     try_wrap (q_GetRoleByName ''ADMIN'') ''load admin role'' (\<lambda>adminRole.
     try_wrap (q_CountActiveUsersWithRole (r_id adminRole)) ''count active admins'' (\<lambda>count.
     ensure (\<not> count \<le> 1) (ErrConflict ''Cannot remove the last active Administrator account'') (ret ()))))"

definition statusChangeEventType :: "string \<Rightarrow> string" where [run_defs]:
  "statusChangeEventType status =
     (if status = ''active'' then ''USER_ACTIVATED''
      else if status = ''suspended'' then ''USER_SUSPENDED'' else ''USER_DEACTIVATED'')"

text \<open>An error inside a user transaction: an AppError is passed on, a missing row is a 404.\<close>

definition user_tx_error :: "gerr \<Rightarrow> 'a op" where [run_defs]:
  "user_tx_error e = (case AsAppError e of Some appErr \<Rightarrow> fail appErr
     | None \<Rightarrow> no_rows_as (ErrNotFound ''User not found'') e)"

definition HashPassword :: "string \<Rightarrow> nat \<Rightarrow> string op" where [run_defs]:
  "HashPassword password cost w = (case lib_bcrypt_hash (w_lib w) password cost of
     None \<Rightarrow> (Inl (StdErr ''bcrypt''), w) | Some h \<Rightarrow> (Inr h, w))"

section \<open>CreateUser\<close>

definition requested_user_status :: "CreateUserInput \<Rightarrow> string" where [run_defs]:
  "requested_user_status req = (case cu_Status req of None \<Rightarrow> ''active''
     | Some s \<Rightarrow> if s \<noteq> '''' then s else ''active'')"

definition create_user_tx :: "authenticated_user \<Rightarrow> CreateUserInput \<Rightarrow> string \<Rightarrow> AdminUserSummary op" where [run_defs]:
  "create_user_tx actor req hash = WithTx (case_ident actor) (
     bindE (q_CreateUser (TrimSpace (cu_Email req)) hash (TrimSpace (cu_FirstName req))
        (TrimSpace (cu_LastName req)) (trimmedOrNil (cu_DisplayName req)) (trimmedOrNil (cu_Phone req))) (\<lambda>created.
     try_wrap (q_GetRoleByName (cu_Role req)) ''load role'' (\<lambda>role.
     try_wrap (q_AssignRoleToUser (u_id created) (r_id role)) ''assign role'' (\<lambda>_.
     if requested_user_status req \<noteq> ''active''
     then try_wrap (q_UpdateUserStatus (u_id created) (requested_user_status req)) ''set initial status''
       (\<lambda>updated. ret (admin_summary updated [cu_Role req]))
     else ret (admin_summary created [cu_Role req])))))"

definition CreateUser :: "nat \<Rightarrow> authenticated_user \<Rightarrow> CreateUserInput \<Rightarrow> AdminUserSummary op" where [run_defs]:
  "CreateUser cost actor req = need_permission actor ''user:create'' (
     bindE (get_world w_lib) (\<lambda>lib.
     validated (validateEmail lib (TrimSpace (cu_Email req))) (
     validated (validateUserName (TrimSpace (cu_FirstName req)) ''first_name'') (
     validated (validateUserName (TrimSpace (cu_LastName req)) ''last_name'') (
     validated (validatePassword (cu_Password req)) (
     validated (validateDisplayName (cu_DisplayName req)) (
     validated (validatePhone (cu_Phone req)) (
     ensure (cu_Role req \<in> set userRoles) (ErrBadRequest ''Invalid role'') (
     ensure (requested_user_status req \<in> set userStatuses) (ErrBadRequest ''Invalid status'') (
     tryE (HashPassword (cu_Password req) cost) (\<lambda>e. fail (ErrInternal e)) (\<lambda>hash.
     tryE (create_user_tx actor req hash)
       (\<lambda>e. fail (if isUniqueViolation e ''users_email_unique''
          then ErrConflict ''A user with this email already exists'' else ErrInternal e)) (\<lambda>summary.
     bindE (Record (user_event actor ''USER_CREATED'' (us_ID summary)
        (JObj [(''target_email'', JStr (us_Email summary)), (''role'', JStr (cu_Role req)),
          (''status'', JStr (us_Status summary))]))) (\<lambda>_.
     bindE (publish_user ''USER_CREATED'' (us_ID summary) summary) (\<lambda>_.
     ret summary))))))))))))))"

section \<open>Reading users\<close>

definition user_filter_error :: "UserListFilter \<Rightarrow> string option" where [run_defs]:
  "user_filter_error f =
     (if \<not> opt_filter (uf_Role f) (\<lambda>r. r \<in> set userRoles) then Some ''Invalid role filter''
      else if \<not> opt_filter (uf_Status f) (\<lambda>s. s \<in> set userStatuses) then Some ''Invalid status filter''
      else if \<not> opt_filter (uf_Search f) (\<lambda>s. length s \<le> 255) then Some ''search filter is too long''
      else None)"

definition with_roles :: "user_row \<Rightarrow> AdminUserSummary op" where [run_defs]:
  "with_roles r = try_wrap (q_ListRolesForUser (u_id r)) (''load roles for '' @ uuid_string (u_id r))
     (\<lambda>roles. ret (admin_summary r (roleNames roles)))"

definition ListUsers :: "authenticated_user \<Rightarrow> UserListFilter \<Rightarrow> Pagination \<Rightarrow> UserListResult op" where [run_defs]:
  "ListUsers actor f page = need_permission actor ''user:read'' (
     case user_filter_error f of Some msg \<Rightarrow> fail (ErrBadRequest msg)
     | None \<Rightarrow> tryE (WithTx (case_ident actor) (
         try_wrap (q_ListUsersFiltered (uf_Status f) (uf_Role f) (uf_Search f) (sint (Limit page)) (sint (Offset page)))
           ''list users'' (\<lambda>rows.
         bindE (mapE with_roles rows) (\<lambda>summaries.
         try_wrap (q_CountUsersFiltered (uf_Status f) (uf_Role f) (uf_Search f)) ''count users''
           (\<lambda>n. ret (summaries, n))))))
       (\<lambda>e. fail (ErrInternal e))
       (\<lambda>(summaries, n). ret \<lparr>ul_Users = summaries, ul_Meta = BuildMeta page n\<rparr>))"

definition GetUser :: "authenticated_user \<Rightarrow> uuid \<Rightarrow> AdminUserSummary op" where [run_defs]:
  "GetUser actor i = need_permission actor ''user:read'' (loadUserSummary i)"

definition GetOwnProfile :: "authenticated_user \<Rightarrow> AdminUserSummary op" where [run_defs]:
  "GetOwnProfile actor = loadUserSummary (au_ID actor)"

definition ListRoles :: "RoleCatalogEntry list op" where [run_defs]:
  "ListRoles = tryE (WithTx anonymous q_ListRoles) (\<lambda>e. fail (ErrInternal e))
     (\<lambda>roles. ret (map (\<lambda>r. \<lparr>rc_ID = r_id r, rc_Name = r_name r, rc_Description = r_description r\<rparr>) roles))"

section \<open>Updating users\<close>

definition UpdateUser :: "authenticated_user \<Rightarrow> uuid \<Rightarrow> UpdateUserInput \<Rightarrow> AdminUserSummary op" where [run_defs]:
  "UpdateUser actor i req = need_permission actor ''user:update'' (
     validated (validateUserName (TrimSpace (uu_FirstName req)) ''first_name'') (
     validated (validateUserName (TrimSpace (uu_LastName req)) ''last_name'') (
     validated (validateDisplayName (uu_DisplayName req)) (
     validated (validatePhone (uu_Phone req)) (
     tryE (WithTx (case_ident actor) (q_UpdateUserProfile i (TrimSpace (uu_FirstName req))
         (TrimSpace (uu_LastName req)) (trimmedOrNil (uu_DisplayName req)) (trimmedOrNil (uu_Phone req))))
       (no_rows_as (ErrNotFound ''User not found'')) (\<lambda>updated.
     tryE (rolesForUser i) (\<lambda>e. fail (ErrInternal e)) (\<lambda>roles.
     bindE (Record (user_event actor ''USER_UPDATED'' i JNull)) (\<lambda>_.
     bindE (publish_user ''USER_UPDATED'' (u_id updated) (admin_summary updated roles)) (\<lambda>_.
     ret (admin_summary updated roles))))))))))"

text \<open>The loop that takes every role but the new one away.\<close>

fun remove_roles :: "uuid \<Rightarrow> uuid \<Rightarrow> role_row list \<Rightarrow> unit op" where
  "remove_roles target keep [] = ret ()"
| "remove_roles target keep (r # rs) =
     (if r_id r = keep then remove_roles target keep rs
      else try_wrap (q_RemoveRoleFromUser target (r_id r)) (''remove role '' @ r_name r)
        (\<lambda>_. remove_roles target keep rs))"

definition update_role_tx :: "authenticated_user \<Rightarrow> uuid \<Rightarrow> string \<Rightarrow> string list op" where [run_defs]:
  "update_role_tx actor targetID newRole = WithTx (case_ident actor) (
     bindE (q_GetUserByID targetID) (\<lambda>target.
     try_wrap (q_ListRolesForUser targetID) ''load current roles'' (\<lambda>current.
     try_wrap (q_GetRoleByName newRole) ''load role'' (\<lambda>targetRole.
     bindE (if newRole \<noteq> ''ADMIN'' \<and> u_status target = ''active'' \<and>
           containsRole (roleNames current) ''ADMIN''
        then ensureNotLastActiveAdmin else ret ()) (\<lambda>_.
     bindE (remove_roles targetID (r_id targetRole) current) (\<lambda>_.
     try_wrap (q_AssignRoleToUser targetID (r_id targetRole)) ''assign role''
       (\<lambda>_. ret (roleNames current))))))))"

definition UpdateRole :: "authenticated_user \<Rightarrow> uuid \<Rightarrow> string \<Rightarrow> AdminUserSummary op" where [run_defs]:
  "UpdateRole actor targetID newRole =
     tryE (CanModifyUserRole actor targetID) (\<lambda>e. fail (ErrInternal e)) (\<lambda>dec.
     ensure (Allowed dec) (ErrForbidden genericCaseForbiddenMessage) (
     ensure (newRole \<in> set userRoles) (ErrBadRequest ''Invalid role'') (
     tryE (update_role_tx actor targetID newRole) user_tx_error (\<lambda>old.
     bindE (Record (user_event actor ''USER_ROLE_CHANGED'' targetID
        (JObj [(''from'', JArr (map JStr old)), (''to'', JStr newRole)]))) (\<lambda>_.
     bindE (loadUserSummary targetID) (\<lambda>result.
     bindE (publish_user ''USER_ROLE_CHANGED'' targetID result) (\<lambda>_.
     ret result)))))))"

definition update_status_tx :: "authenticated_user \<Rightarrow> uuid \<Rightarrow> string \<Rightarrow> user_row op" where [run_defs]:
  "update_status_tx actor targetID status = WithTx (case_ident actor) (
     bindE (q_GetUserByID targetID) (\<lambda>b.
     bindE (if status \<noteq> ''active'' \<and> u_status b = ''active''
        then try_wrap (q_ListRolesForUser targetID) ''load target roles'' (\<lambda>roles.
          if containsRole (roleNames roles) ''ADMIN'' then ensureNotLastActiveAdmin else ret ())
        else ret ()) (\<lambda>_.
     try_wrap (q_UpdateUserStatus targetID status) ''update status'' (\<lambda>_.
     bindE (if status \<noteq> ''active''
        then try_wrap (q_RevokeAllAuthSessionsForUser targetID) ''revoke sessions'' (\<lambda>_. ret ())
        else ret ()) (\<lambda>_. ret b)))))"

definition UpdateStatus :: "authenticated_user \<Rightarrow> uuid \<Rightarrow> string \<Rightarrow> AdminUserSummary op" where [run_defs]:
  "UpdateStatus actor targetID status = need_permission actor ''user:deactivate'' (
     if au_ID actor = targetID
     then bindE (Record (user_event actor ''AUTHZ_DENIED'' targetID
         (JObj [(''action'', JStr ''user:deactivate''), (''reason'', JStr ''self_status_change_forbidden'')])))
       (\<lambda>_. fail (ErrForbidden genericCaseForbiddenMessage))
     else ensure (status \<in> set userStatuses) (ErrBadRequest ''Invalid status'') (
     tryE (update_status_tx actor targetID status) user_tx_error (\<lambda>before.
     bindE (Record (user_event actor ''USER_STATUS_CHANGED'' targetID
        (JObj [(''from'', JStr (u_status before)), (''to'', JStr status)]))) (\<lambda>_.
     bindE (loadUserSummary targetID) (\<lambda>result.
     bindE (publish_user (statusChangeEventType status) targetID result) (\<lambda>_.
     ret result))))))"

definition reset_password_tx :: "authenticated_user \<Rightarrow> uuid \<Rightarrow> string \<Rightarrow> unit op" where [run_defs]:
  "reset_password_tx actor targetID hash = WithTx (case_ident actor) (
     bindE (q_GetUserByID targetID) (\<lambda>_.
     try_wrap (q_UpdateUserPasswordHash targetID hash) ''update password'' (\<lambda>_.
     q_RevokeAllAuthSessionsForUser targetID)))"

definition ResetPassword :: "nat \<Rightarrow> authenticated_user \<Rightarrow> uuid \<Rightarrow> string \<Rightarrow> unit op" where [run_defs]:
  "ResetPassword cost actor targetID newPassword = need_permission actor ''user:update'' (
     validated (validatePassword newPassword) (
     tryE (HashPassword newPassword cost) (\<lambda>e. fail (ErrInternal e)) (\<lambda>hash.
     tryE (reset_password_tx actor targetID hash) (no_rows_as (ErrNotFound ''User not found'')) (\<lambda>_.
     Record (user_event actor ''USER_PASSWORD_RESET'' targetID JNull)))))"

declare remove_roles.simps [run_defs]

end
