(* ===== verification/UserFacts.thy ===== *)
theory UserFacts
  imports CaseFacts UserService
begin

text \<open>
  Facts about the user service: errors, frames, what its transactions commit, and the
  invariant that some active administrator always remains.
\<close>

section \<open>Errors\<close>

lemma fails_loadUserSummary: "fails_only client_safe (loadUserSummary i)"
  unfolding loadUserSummary_def by (rule case_fails fails_rules client_safe_simps | simp)+

lemma fails_HashPassword: "fails_only safe_inside (HashPassword p c)"
  by (auto simp: fails_only_def HashPassword_def split: option.splits)

lemma fails_CreateUser: "fails_only client_safe (CreateUser c a req)"
  unfolding CreateUser_def publish_user_def
  by (rule case_fails fails_rules client_safe_simps | simp)+

lemma fails_user_readers:
  "fails_only client_safe (ListUsers a f p)" "fails_only client_safe (GetUser a i)"
  "fails_only client_safe (GetOwnProfile a)" "fails_only client_safe ListRoles"
  unfolding ListUsers_def GetUser_def GetOwnProfile_def ListRoles_def
  by (rule case_fails fails_loadUserSummary fails_rules client_safe_simps | simp)+

lemma fails_UpdateUser: "fails_only client_safe (UpdateUser a i req)"
  unfolding UpdateUser_def publish_user_def
  by (rule case_fails fails_rules client_safe_simps | simp)+

lemma fails_ResetPassword: "fails_only client_safe (ResetPassword c a i p)"
  unfolding ResetPassword_def by (rule case_fails fails_rules client_safe_simps | simp)+

lemma fails_user_tx_error: "safe_inside e \<Longrightarrow> fails_only client_safe (user_tx_error e)"
  by (auto simp: user_tx_error_def safe_inside_def intro!: fails_fail fails_no_rows_as split: option.splits)

lemma fails_user_queries:
  "fails_only safe_inside (q_GetUserByID i)" "fails_only safe_inside (q_ListRolesForUser i)"
  "fails_only safe_inside (q_GetRoleByName n)" "fails_only safe_inside q_AcquireAdminGuardLock"
  "fails_only safe_inside (q_CountActiveUsersWithRole r)"
  unfolding q_GetUserByID_def q_ListRolesForUser_def q_GetRoleByName_def q_AcquireAdminGuardLock_def
    q_CountActiveUsersWithRole_def
  by (rule fails_query; auto simp: one_def split: list.splits)+

lemma checked_Inl: "checked cs x = Inl e \<Longrightarrow> \<exists>b. (b, e) \<in> set cs"
  by (induction cs rule: violated.induct) (auto simp: checked_def split: if_splits option.splits)

lemma fails_user_statements:
  "fails_only safe_inside (q_AssignRoleToUser u r)" "fails_only safe_inside (q_RemoveRoleFromUser u r)"
  "fails_only safe_inside (q_UpdateUserStatus u s)" "fails_only safe_inside (q_RevokeAllAuthSessionsForUser u)"
  unfolding q_AssignRoleToUser_def q_RemoveRoleFromUser_def q_UpdateUserStatus_def
    q_RevokeAllAuthSessionsForUser_def revoke_sessions_def
  by (rule fails_exec; auto simp: update_one_def split: if_splits list.splits dest!: checked_Inl)+

lemma fails_remove_roles: "fails_only safe_inside (remove_roles t k rs)"
  by (induction rs) (auto intro!: fails_ret fails_try_from [OF fails_user_statements(2)] fails_fail)

lemma fails_wrap:
  "fails_only safe_inside m \<Longrightarrow> (\<And>x. fails_only safe_inside (k x)) \<Longrightarrow> fails_only safe_inside (try_wrap m msg k)"
  by (rule fails_try_from [where Q = safe_inside]) (simp_all add: fails_fail)

lemmas inside_rules = fails_WithTx fails_ret fails_wrap fails_bind fails_ensure fails_if
  fails_user_queries fails_user_statements fails_remove_roles fails_q_GetCaseByID

lemma fails_ensureNotLastActiveAdmin: "fails_only safe_inside ensureNotLastActiveAdmin"
  unfolding ensureNotLastActiveAdmin_def by (rule inside_rules | simp)+

lemma fails_update_role_tx: "fails_only safe_inside (update_role_tx a i r)"
  unfolding update_role_tx_def by (rule inside_rules fails_ensureNotLastActiveAdmin | simp)+

lemma fails_update_status_tx: "fails_only safe_inside (update_status_tx a i s)"
  unfolding update_status_tx_def by (rule inside_rules fails_ensureNotLastActiveAdmin | simp)+

lemma fails_UpdateRole: "fails_only client_safe (UpdateRole a i r)"
  unfolding UpdateRole_def publish_user_def
  by (rule fails_try_from [OF fails_update_role_tx fails_user_tx_error] fails_loadUserSummary case_fails fails_rules
      client_safe_simps | assumption | simp)+

lemma fails_UpdateStatus: "fails_only client_safe (UpdateStatus a i s)"
  unfolding UpdateStatus_def publish_user_def
  by (rule fails_try_from [OF fails_update_status_tx fails_user_tx_error] fails_loadUserSummary case_fails fails_rules
      client_safe_simps | assumption | simp)+

section \<open>Frames\<close>

lemma reader_user_queries [intro!]:
  "reader.guar (q_ListUsersFiltered s rn t l n)" "reader.guar (q_CountUsersFiltered s rn t)"
  "reader.guar q_ListRoles" "reader.guar q_AcquireAdminGuardLock" "reader.guar (q_CountActiveUsersWithRole r)"
  "reader.guar (q_GetRoleByName name)"
  unfolding q_ListUsersFiltered_def q_CountUsersFiltered_def q_ListRoles_def q_AcquireAdminGuardLock_def
    q_CountActiveUsersWithRole_def q_GetRoleByName_def
  by auto

lemma reader_ensureNotLastActiveAdmin [intro!]: "reader.guar ensureNotLastActiveAdmin"
  unfolding ensureNotLastActiveAdmin_def by auto

lemma reader_loadUserSummary [intro!]: "reader.guar (loadUserSummary i)"
  unfolding loadUserSummary_def no_rows_as_def by auto

lemma reader_rolesForUser [intro!]: "reader.guar (rolesForUser i)"
  unfolding rolesForUser_def by auto

lemma reader_HashPassword [intro!]: "reader.guar (HashPassword p c)"
  by (rule reader.guarI) (simp add: HashPassword_def reader.refl split: option.splits)

lemma reader_with_roles [intro!]: "reader.guar (with_roles r)"
  unfolding with_roles_def by auto

lemma frame_user_readers:
  "audit_frame.guar (ListUsers a f p)" "audit_frame.guar (GetUser a i)"
  "audit_frame.guar (GetOwnProfile a)" "audit_frame.guar ListRoles"
proof -
  show "audit_frame.guar (ListUsers a f p)"
    unfolding ListUsers_def by (intro frame_need_permission frame_reader) auto
  show "audit_frame.guar (GetUser a i)"
    unfolding GetUser_def by (intro frame_need_permission frame_reader) auto
  show "audit_frame.guar (GetOwnProfile a)" unfolding GetOwnProfile_def by (intro frame_reader) auto
  show "audit_frame.guar ListRoles" unfolding ListRoles_def by (intro frame_reader) auto
qed

lemma frame_publish_user [intro!]: "audit_frame.guar (publish_user t i s)"
  unfolding publish_user_def by auto

lemma never_publish_user: "never_fails (bindE (Record ev) (\<lambda>_. bindE (publish_user t i s) (\<lambda>_. ret x)))"
  unfolding never_fails_def publish_user_def by (intro fails_bind fails_Record fails_publish fails_ret)

lemma clean_CreateUser: "clean (CreateUser c a req)"
  unfolding CreateUser_def
  by (intro clean_rules clean_tx never_publish_user clean_tryE)
    (auto simp: create_user_tx_def intro: clean_WithTx frame_reader)

lemma clean_ResetPassword: "clean (ResetPassword c a i p)"
  unfolding ResetPassword_def
  by (intro clean_rules clean_tx never_record clean_tryE)
    (auto simp: reset_password_tx_def intro: clean_WithTx frame_reader)

section \<open>What the statements do\<close>

lemma reader_run: "reader.guar m \<Longrightarrow> m w = (r, w') \<Longrightarrow> tables w' = tables w"
  by (rule frame_tables [OF frame_reader])

lemma q_GetUserByID_run:
  "q_GetUserByID i w = (Inr u, w') \<Longrightarrow> u \<in> set (t_users (w_db w)) \<and> u_id u = i \<and> tables w' = tables w"
  by (auto simp: q_GetUserByID_def query_run tables_def dest!: filter_headD)

lemma q_GetRoleByName_run:
  "q_GetRoleByName n w = (Inr r, w') \<Longrightarrow> r \<in> set (t_roles (w_db w)) \<and> r_name r = n \<and> tables w' = tables w"
  by (auto simp: q_GetRoleByName_def query_run tables_def dest!: filter_headD)

lemma q_ListRolesForUser_run:
  "q_ListRolesForUser i w = (Inr rs, w') \<Longrightarrow> rs = roles_of (w_db w) i \<and> tables w' = tables w"
  by (auto simp: q_ListRolesForUser_def query_run tables_def)

lemma q_AssignRoleToUser_run:
  assumes "q_AssignRoleToUser u r w = (Inr x, w')"
  shows "tables w' = (tables w)\<lparr>t_user_roles := t_user_roles (w_db w')\<rparr> \<and>
     set (t_user_roles (w_db w')) = insert \<lparr>ur_user_id = u, ur_role_id = r\<rparr> (set (t_user_roles (w_db w)))"
  using assms
  by (auto simp: q_AssignRoleToUser_def exec_run tables_def list_ex_iff split: if_splits)
    (metis (full_types) insertI1 insert_absorb user_role_row.surjective old.unit.exhaust)

lemma q_RemoveRoleFromUser_run:
  "q_RemoveRoleFromUser u r w = (Inr x, w') \<Longrightarrow> tables w' = (tables w)\<lparr>t_user_roles :=
     filter (\<lambda>y. \<not> (ur_user_id y = u \<and> ur_role_id y = r)) (t_user_roles (w_db w))\<rparr>"
  by (auto simp: q_RemoveRoleFromUser_def exec_run tables_def)

lemma q_UpdateUserStatus_run:
  assumes "q_UpdateUserStatus i s w = (Inr u, w')"
  shows "tables w' = (tables w)\<lparr>t_users := update_where (\<lambda>u. u_id u = i)
       (\<lambda>u. u\<lparr>u_status := s, u_updated_at := w_tx_now w\<rparr>) (t_users (w_db w))\<rparr> \<and> user_status_ok s"
proof -
  from assms obtain r0 ys where "filter (\<lambda>u. u_id u = i) (t_users (w_db w)) = r0 # ys"
    and ok: "user_status_ok s \<or> \<not> list_ex (\<lambda>u. u_id u = i) (t_users (w_db w))"
    and d: "w_db w' = (w_db w)\<lparr>t_users := update_where (\<lambda>u. u_id u = i)
       (\<lambda>u. u\<lparr>u_status := s, u_updated_at := w_tx_now w\<rparr>) (t_users (w_db w))\<rparr>"
    by (auto simp: q_UpdateUserStatus_def exec_run update_one_Inr split: if_splits)
  then have "user_status_ok s" using filter_headD by (fastforce simp: list_ex_iff)
  then show ?thesis using d by (auto simp: tables_def)
qed

lemma revoke_sessions_run:
  "revoke_sessions p f w = (Inr x, w') \<Longrightarrow> tables w' = (tables w)\<lparr>t_sessions :=
     update_where (\<lambda>s. p s \<and> as_revoked_at s = None)
       (\<lambda>s. (f (w_tx_now w) s)\<lparr>as_revoked_at := Some (w_tx_now w)\<rparr>) (t_sessions (w_db w))\<rparr>"
  by (auto simp: revoke_sessions_def exec_run tables_def)

lemma remove_roles_run:
  "remove_roles t k rs w = (Inr x, w') \<Longrightarrow> tables w' = (tables w)\<lparr>t_user_roles :=
     filter (\<lambda>y. \<not> (ur_user_id y = t \<and> ur_role_id y \<in> r_id ` set rs - {k})) (t_user_roles (w_db w))\<rparr>"
proof (induction rs arbitrary: w)
  case Nil
  then show ?case by (simp add: ret_run tables_def)
next
  case (Cons r rs)
  show ?case
  proof (cases "r_id r = k")
    case True
    then show ?thesis using Cons by (auto intro!: filter_cong)
  next
    case False
    with Cons.prems obtain w1 where q: "q_RemoveRoleFromUser t (r_id r) w = (Inr (), w1)"
      and rest: "remove_roles t k rs w1 = (Inr x, w')"
      by (auto simp: tryE_Inr fail_run)
    note step = q_RemoveRoleFromUser_run [OF q]
    then have urs: "t_user_roles (w_db w1) =
        filter (\<lambda>y. \<not> (ur_user_id y = t \<and> ur_role_id y = r_id r)) (t_user_roles (w_db w))"
      by (simp flip: tables_sel)
    have both: "filter (\<lambda>y. \<not> (ur_user_id y = t \<and> ur_role_id y \<in> r_id ` set rs - {k}))
        (filter (\<lambda>y. \<not> (ur_user_id y = t \<and> ur_role_id y = r_id r)) xs) =
      filter (\<lambda>y. \<not> (ur_user_id y = t \<and> ur_role_id y \<in> r_id ` set (r # rs) - {k})) xs" for xs
      using False by (induction xs) auto
    have twice: "d\<lparr>t_user_roles := a, t_user_roles := b\<rparr> = d\<lparr>t_user_roles := b\<rparr>" for d :: database and a b
      by simp
    show ?thesis
      unfolding Cons.IH [OF rest] step urs both twice ..
  qed
qed

section \<open>The last active administrator\<close>

text \<open>An active user holding a role named ADMIN.\<close>

definition active_admin :: "database \<Rightarrow> uuid \<Rightarrow> bool" where [run_defs]:
  "active_admin d i \<longleftrightarrow> list_ex (\<lambda>r. r_name r = ''ADMIN'' \<and>
     list_ex (\<lambda>u. u_id u = i) (active_with_role d (r_id r))) (t_roles d)"

lemma active_admin_iff:
  "active_admin d i \<longleftrightarrow> (\<exists>r\<in>set (t_roles d). \<exists>u\<in>set (t_users d). \<exists>x\<in>set (t_user_roles d).
     r_name r = ''ADMIN'' \<and> u_id u = i \<and> u_status u = ''active'' \<and> ur_user_id x = i \<and> ur_role_id x = r_id r)"
  by (auto simp: active_admin_def active_with_role_def list_ex_iff)

definition user_inv :: "database \<Rightarrow> bool" where [run_defs]:
  "user_inv d \<longleftrightarrow> distinct (map u_id (t_users d)) \<and> distinct (map (\<lambda>u. lower (u_email u)) (t_users d)) \<and>
     list_all (\<lambda>u. user_status_ok (u_status u)) (t_users d) \<and>
     distinct (map r_id (t_roles d)) \<and> distinct (map r_name (t_roles d)) \<and>
     list_ex (\<lambda>u. active_admin d (u_id u)) (t_users d)"

lemma user_inv_admin: "user_inv d \<Longrightarrow> \<exists>i. active_admin d i"
  by (auto simp: user_inv_def list_ex_iff)

lemma active_admin_user: "active_admin d i \<Longrightarrow> \<exists>u\<in>set (t_users d). u_id u = i"
  by (auto simp: active_admin_iff)

interpretation user_state: state_invariant user_inv
  by unfold_locales (simp add: user_inv_def active_admin_def active_with_role_def)

lemma active_admin_tables [simp]: "active_admin (tables w) i = active_admin (w_db w) i"
  by (simp add: active_admin_iff)

lemma unique_user:
  "distinct (map u_id us) \<Longrightarrow> u \<in> set us \<Longrightarrow> v \<in> set us \<Longrightarrow> u_id u = u_id v \<Longrightarrow> u = v"
  by (auto simp: distinct_map dest: inj_onD)

lemma another_of_two:
  assumes "distinct (map u_id us)" "2 \<le> length us"
  shows "\<exists>u\<in>set us. u_id u \<noteq> t"
proof -
  obtain a b rest where "us = a # b # rest"
    using assms(2) by (cases us; cases "tl us") auto
  then show ?thesis using assms(1) by (cases "u_id a = t") auto
qed

lemma ensureNotLastActiveAdmin_run:
  assumes "ensureNotLastActiveAdmin w = (Inr x, w')" "user_inv (w_db w)"
  shows "tables w' = tables w \<and> (\<exists>i. i \<noteq> t \<and> active_admin (w_db w) i)"
proof -
  from assms(1) obtain w1 r w2 n w3 where l: "q_AcquireAdminGuardLock w = (Inr (), w1)"
    and r: "q_GetRoleByName ''ADMIN'' w1 = (Inr r, w2)"
    and n: "q_CountActiveUsersWithRole (r_id r) w2 = (Inr n, w3)" and two: "\<not> n \<le> 1"
    by (auto simp: ensureNotLastActiveAdmin_def tryE_Inr fail_run ensure_run split: if_splits)
  have t: "w_db w1 = w_db w" "w_db w2 = w_db w"
    using reader_db [OF reader_user_queries(4) l] reader_db [OF reader_user_queries(6) r] by simp_all
  let ?us = "active_with_role (w_db w) (r_id r)"
  have "2 \<le> length ?us"
    using n two t by (auto simp: q_CountActiveUsersWithRole_def query_run)
  moreover have "distinct (map u_id ?us)"
    using assms(2) by (auto simp: user_inv_def active_with_role_def distinct_map_filter)
  ultimately obtain u where u: "u \<in> set ?us" "u_id u \<noteq> t" using another_of_two by blast
  have "r \<in> set (t_roles (w_db w))" "r_name r = ''ADMIN''"
    using q_GetRoleByName_run [OF r] t by simp_all
  then have "active_admin (w_db w) (u_id u)"
    using u by (auto simp: active_admin_def list_ex_iff)
  moreover have "tables w' = tables w"
    by (rule reader_run [OF reader_ensureNotLastActiveAdmin assms(1)])
  ultimately show ?thesis using u by blast
qed

section \<open>Changing a role\<close>

lemma unique_role:
  "user_inv d \<Longrightarrow> r \<in> set (t_roles d) \<Longrightarrow> s \<in> set (t_roles d) \<Longrightarrow> r_name r = r_name s \<or> r_id r = r_id s \<Longrightarrow> r = s"
  by (auto simp: user_inv_def distinct_map dest: inj_onD)

lemma set_roles_of: "set (roles_of d u) = {r \<in> set (t_roles d). \<exists>x\<in>set (t_user_roles d). ur_user_id x = u \<and> ur_role_id x = r_id r}"
  by (auto simp: roles_of_def list_ex_iff)

text \<open>What the transaction of UpdateRole leaves: only the target's roles differ, and it has one.\<close>

definition role_changed :: "database \<Rightarrow> database \<Rightarrow> uuid \<Rightarrow> string \<Rightarrow> bool" where
  "role_changed d d' t name \<longleftrightarrow> (\<exists>urs r. d' = d\<lparr>t_user_roles := urs\<rparr> \<and> r \<in> set (t_roles d) \<and> r_name r = name \<and>
     set urs = insert \<lparr>ur_user_id = t, ur_role_id = r_id r\<rparr>
       {x \<in> set (t_user_roles d). ur_user_id x = t \<longrightarrow>
          ur_role_id x \<notin> r_id ` set (roles_of d t) \<or> ur_role_id x = r_id r})"

lemma update_role_tx_run:
  assumes run: "update_role_tx a t name w = (Inr old, w')" and inv: "user_inv (w_db w)"
  shows "role_changed (tables w) (tables w') t name \<and> old = roleNames (roles_of (w_db w) t) \<and>
     (\<exists>u\<in>set (t_users (w_db w)). u_id u = t) \<and>
     (name \<noteq> ''ADMIN'' \<longrightarrow> active_admin (w_db w) t \<longrightarrow> (\<exists>i. i \<noteq> t \<and> active_admin (w_db w) i))"
proof -
  let ?w0 = "started (case_ident a) w"
  from run obtain u w1 cur w2 r w3 w4 w5 w6 where
    u: "q_GetUserByID t ?w0 = (Inr u, w1)" and cur: "q_ListRolesForUser t w1 = (Inr cur, w2)"
    and r: "q_GetRoleByName name w2 = (Inr r, w3)"
    and g: "(if name \<noteq> ''ADMIN'' \<and> u_status u = ''active'' \<and> containsRole (roleNames cur) ''ADMIN''
        then ensureNotLastActiveAdmin else ret ()) w3 = (Inr (), w4)"
    and rm: "remove_roles t (r_id r) cur w4 = (Inr (), w5)"
    and asg: "q_AssignRoleToUser t (r_id r) w5 = (Inr (), w6)"
    and fin: "tables w' = tables w6" "old = roleNames cur"
    unfolding update_role_tx_def
    by (auto simp: WithTx_run tryE_Inr fail_run ret_run)
  have d: "w_db w1 = w_db w" "w_db w2 = w_db w" "w_db w3 = w_db w"
    using reader_db [OF reader_case_queries(5) u] reader_db [OF reader_case_queries(6) cur]
      reader_db [OF reader_user_queries(6) r] by simp_all
  have u': "u \<in> set (t_users (w_db w))" "u_id u = t" using q_GetUserByID_run [OF u] by simp_all
  have cur': "cur = roles_of (w_db w) t" using q_ListRolesForUser_run [OF cur] d by simp
  have r': "r \<in> set (t_roles (w_db w))" "r_name r = name" using q_GetRoleByName_run [OF r] d by simp_all
  let ?guard = "name \<noteq> ''ADMIN'' \<and> u_status u = ''active'' \<and> containsRole (roleNames cur) ''ADMIN''"
  have g': "tables w4 = tables w \<and> (?guard \<longrightarrow> (\<exists>i. i \<noteq> t \<and> active_admin (w_db w) i))"
  proof (cases ?guard)
    case True
    then show ?thesis
      using ensureNotLastActiveAdmin_run [of w3 "()" w4 t] g inv d tables_cong [OF d(3)] by simp
  next
    case False
    then show ?thesis using g tables_cong [OF d(3)] by (auto simp: ret_run)
  qed
  have guard: "?guard" if "name \<noteq> ''ADMIN''" "active_admin (w_db w) t"
  proof -
    from that(2) obtain ar v x where v: "ar \<in> set (t_roles (w_db w))" "v \<in> set (t_users (w_db w))"
      "x \<in> set (t_user_roles (w_db w))" "r_name ar = ''ADMIN''" "u_id v = t" "u_status v = ''active''"
      "ur_user_id x = t" "ur_role_id x = r_id ar" by (auto simp: active_admin_iff)
    have "v = u" using unique_user [of "t_users (w_db w)" v u] inv v u' by (simp add: user_inv_def)
    moreover have "ar \<in> set cur" using v by (auto simp: cur' set_roles_of)
    ultimately show ?thesis
      using that(1) v by (auto simp: containsRole_def roleNames_def list_ex_iff intro!: image_eqI [of _ r_name ar])
  qed
  have urs4: "t_user_roles (w_db w4) = t_user_roles (w_db w)" using g' tables_eqD by blast
  note rm' = remove_roles_run [OF rm, unfolded urs4]
  have urs5: "t_user_roles (w_db w5) = filter (\<lambda>y. \<not> (ur_user_id y = t \<and> ur_role_id y \<in> r_id ` set cur - {r_id r}))
      (t_user_roles (w_db w))"
    using rm' by (simp flip: tables_sel)
  note asg' = q_AssignRoleToUser_run [OF asg]
  have t6: "tables w6 = (tables w)\<lparr>t_user_roles := t_user_roles (w_db w6)\<rparr>"
    using asg' rm' g' by simp
  have changed: "role_changed (tables w) (tables w6) t name"
  proof -
    have "set (t_user_roles (w_db w6)) = insert \<lparr>ur_user_id = t, ur_role_id = r_id r\<rparr>
       {x \<in> set (t_user_roles (w_db w)). ur_user_id x = t \<longrightarrow>
          ur_role_id x \<notin> r_id ` set cur \<or> ur_role_id x = r_id r}"
      using asg' urs5 by auto
    moreover have "roles_of (tables w) t = cur" unfolding cur' by (simp add: roles_of_def)
    ultimately show ?thesis
      unfolding role_changed_def using t6 r' by (intro exI [of _ "t_user_roles (w_db w6)"] exI [of _ r]) simp
  qed
  have last: "\<exists>i. i \<noteq> t \<and> active_admin (w_db w) i" if "name \<noteq> ''ADMIN''" "active_admin (w_db w) t"
    using guard [OF that] g' by simp
  show ?thesis
  proof (intro conjI impI)
    show "role_changed (tables w) (tables w') t name" unfolding fin(1) by (rule changed)
    show "old = roleNames (roles_of (w_db w) t)" unfolding fin(2) cur' ..
    show "\<exists>u\<in>set (t_users (w_db w)). u_id u = t" using u' by (rule bexI [rotated])
  qed (rule last)
qed

lemma role_changed_others:
  assumes "role_changed d d' t name" "i \<noteq> t" "active_admin d i"
  shows "active_admin d' i"
proof -
  obtain urs where d': "d' = d\<lparr>t_user_roles := urs\<rparr>"
    and keep: "\<And>x. x \<in> set (t_user_roles d) \<Longrightarrow> ur_user_id x \<noteq> t \<Longrightarrow> x \<in> set urs"
    using assms(1) by (auto simp: role_changed_def)
  from assms(3) obtain r u x where "r \<in> set (t_roles d)" "u \<in> set (t_users d)" "x \<in> set (t_user_roles d)"
     "r_name r = ''ADMIN''" "u_id u = i" "u_status u = ''active''" "ur_user_id x = i" "ur_role_id x = r_id r"
    unfolding active_admin_iff by blast
  then show ?thesis
    using keep [of x] assms(2) unfolding active_admin_iff d'
    by (intro bexI [of _ r] bexI [of _ u] bexI [of _ x]) simp_all
qed

lemma user_inv_role:
  assumes inv: "user_inv d" and ch: "role_changed d d' t name"
    and guard: "name \<noteq> ''ADMIN'' \<longrightarrow> active_admin d t \<longrightarrow> (\<exists>i. i \<noteq> t \<and> active_admin d i)"
  shows "user_inv d'"
proof -
  obtain urs r where d': "d' = d\<lparr>t_user_roles := urs\<rparr>" and r: "r \<in> set (t_roles d)" "r_name r = name"
    and urs: "\<lparr>ur_user_id = t, ur_role_id = r_id r\<rparr> \<in> set urs"
    using ch by (auto simp: role_changed_def)
  obtain i where i: "active_admin d i" using user_inv_admin [OF inv] by blast
  have "\<exists>j. active_admin d' j"
  proof (cases "i = t \<and> name = ''ADMIN''")
    case True
    then obtain u where "u \<in> set (t_users d)" "u_id u = t" "u_status u = ''active''"
      using i by (auto simp: active_admin_iff)
    then have "active_admin d' t"
      using True r urs by (auto simp: active_admin_iff d' intro!: bexI [of _ r] bexI [of _ u]
          bexI [of _ "\<lparr>ur_user_id = t, ur_role_id = r_id r\<rparr>"])
    then show ?thesis ..
  next
    case False
    then obtain j where "j \<noteq> t" "active_admin d j" using i guard by (cases "i = t") auto
    then show ?thesis using role_changed_others [OF ch] by blast
  qed
  then obtain j where "active_admin d' j" ..
  moreover then obtain u where "u \<in> set (t_users d')" "u_id u = j" using active_admin_user by blast
  ultimately show ?thesis using inv by (auto simp: user_inv_def d' list_ex_iff)
qed

lemma role_changed_roles:
  assumes inv: "user_inv d" and ch: "role_changed d d' t name"
  shows "roleNames (roles_of d' t) = [name]" and "u \<noteq> t \<Longrightarrow> roles_of d' u = roles_of d u"
proof -
  obtain urs r where d': "d' = d\<lparr>t_user_roles := urs\<rparr>" and r: "r \<in> set (t_roles d)" "r_name r = name"
    and urs: "set urs = insert \<lparr>ur_user_id = t, ur_role_id = r_id r\<rparr>
       {x \<in> set (t_user_roles d). ur_user_id x = t \<longrightarrow>
          ur_role_id x \<notin> r_id ` set (roles_of d t) \<or> ur_role_id x = r_id r}"
    using ch by (auto simp: role_changed_def)
  have "(\<exists>x\<in>set urs. ur_user_id x = t \<and> ur_role_id x = r_id s) \<longleftrightarrow> s = r" if s: "s \<in> set (t_roles d)" for s
  proof
    assume "\<exists>x\<in>set urs. ur_user_id x = t \<and> ur_role_id x = r_id s"
    then have "r_id s = r_id r \<or> r_id s \<notin> r_id ` set (roles_of d t) \<and>
        (\<exists>x\<in>set (t_user_roles d). ur_user_id x = t \<and> ur_role_id x = r_id s)"
      by (auto simp: urs)
    then show "s = r" using unique_role [OF inv s r(1)] s by (auto simp: set_roles_of)
  qed (auto simp: urs)
  then have "filter (\<lambda>s. list_ex (\<lambda>x. ur_user_id x = t \<and> ur_role_id x = r_id s) urs) (t_roles d) =
      filter (\<lambda>s. s = r) (t_roles d)"
    by (intro filter_cong) (auto simp: list_ex_iff)
  also have "\<dots> = [r]"
  proof -
    have "distinct (t_roles d)" using inv by (auto simp: user_inv_def distinct_map)
    moreover have "distinct xs \<Longrightarrow> r \<in> set xs \<Longrightarrow> filter (\<lambda>s. s = r) xs = [r]" for xs
      by (induction xs) (auto simp: filter_empty_conv)
    ultimately show ?thesis using r(1) by blast
  qed
  finally show "roleNames (roles_of d' t) = [name]" using r(2) by (simp add: roles_of_def d' roleNames_def)
  show "roles_of d' u = roles_of d u" if "u \<noteq> t"
  proof -
    have "(\<exists>x\<in>set urs. ur_user_id x = u \<and> ur_role_id x = i) \<longleftrightarrow>
        (\<exists>x\<in>set (t_user_roles d). ur_user_id x = u \<and> ur_role_id x = i)" for i
      using that by (auto simp: urs)
    then show ?thesis by (simp add: roles_of_def d' list_ex_iff)
  qed
qed

section \<open>Changing a status, resetting a password\<close>

definition with_status :: "uuid \<Rightarrow> string \<Rightarrow> time \<Rightarrow> user_row list \<Rightarrow> user_row list" where
  "with_status t s now us = update_where (\<lambda>u. u_id u = t) (\<lambda>u. u\<lparr>u_status := s, u_updated_at := now\<rparr>) us"

definition ended :: "uuid \<Rightarrow> session_row list \<Rightarrow> session_row list \<Rightarrow> bool" where
  "ended u ss ss' \<longleftrightarrow> (\<exists>now. ss' = update_where (\<lambda>s. as_user_id s = u \<and> as_revoked_at s = None)
     (\<lambda>s. s\<lparr>as_revoked_at := Some now\<rparr>) ss)"

lemma ended_none: "ended u ss ss' \<Longrightarrow> \<forall>s\<in>set ss'. as_user_id s = u \<longrightarrow> as_revoked_at s \<noteq> None"
proof -
  have key: "\<forall>s\<in>set (update_where (\<lambda>s. as_user_id s = u \<and> as_revoked_at s = None)
     (\<lambda>s. s\<lparr>as_revoked_at := Some now\<rparr>) xs). as_user_id s = u \<longrightarrow> as_revoked_at s \<noteq> None" for xs now
    by (induction xs) auto
  assume "ended u ss ss'"
  then obtain now where eq: "ss' = update_where (\<lambda>s. as_user_id s = u \<and> as_revoked_at s = None)
     (\<lambda>s. s\<lparr>as_revoked_at := Some now\<rparr>) ss"
    unfolding ended_def ..
  show ?thesis unfolding eq by (rule key)
qed

lemma ended_others: "ended u ss ss' \<Longrightarrow> filter (\<lambda>s. as_user_id s \<noteq> u) ss' = filter (\<lambda>s. as_user_id s \<noteq> u) ss"
proof -
  have "filter (\<lambda>s. as_user_id s \<noteq> u) (update_where (\<lambda>s. as_user_id s = u \<and> as_revoked_at s = None)
     (\<lambda>s. s\<lparr>as_revoked_at := Some now\<rparr>) xs) = filter (\<lambda>s. as_user_id s \<noteq> u) xs" for xs now
    by (induction xs) auto
  then show "ended u ss ss' \<Longrightarrow> filter (\<lambda>s. as_user_id s \<noteq> u) ss' = filter (\<lambda>s. as_user_id s \<noteq> u) ss"
    by (auto simp: ended_def)
qed

lemma revoke_user_run:
  assumes "q_RevokeAllAuthSessionsForUser u w = (Inr x, w')"
  shows "tables w' = (tables w)\<lparr>t_sessions := t_sessions (w_db w')\<rparr> \<and> ended u (t_sessions (w_db w)) (t_sessions (w_db w'))"
proof -
  note run = revoke_sessions_run [OF assms [unfolded q_RevokeAllAuthSessionsForUser_def]]
  then have s: "t_sessions (w_db w') = update_where (\<lambda>s. as_user_id s = u \<and> as_revoked_at s = None)
       (\<lambda>s. s\<lparr>as_revoked_at := Some (w_tx_now w)\<rparr>) (t_sessions (w_db w))"
    by (simp flip: tables_sel)
  show ?thesis using run s by (auto simp: ended_def)
qed

definition status_changed :: "database \<Rightarrow> database \<Rightarrow> uuid \<Rightarrow> string \<Rightarrow> bool" where
  "status_changed d d' t s \<longleftrightarrow> (\<exists>now ss. d' = d\<lparr>t_users := with_status t s now (t_users d), t_sessions := ss\<rparr> \<and>
     (if s = ''active'' then ss = t_sessions d else ended t (t_sessions d) ss) \<and> user_status_ok s)"

lemma status_changedI:
  assumes "d' = d\<lparr>t_users := with_status t s now (t_users d), t_sessions := ss\<rparr>" "user_status_ok s"
    "s = ''active'' \<Longrightarrow> ss = t_sessions d" "s \<noteq> ''active'' \<Longrightarrow> ended t (t_sessions d) ss"
  shows "status_changed d d' t s"
  unfolding status_changed_def
  by (rule exI [of _ now], rule exI [of _ ss]) (use assms in simp)

lemma update_status_tx_run:
  assumes run: "update_status_tx a t s w = (Inr b, w')" and inv: "user_inv (w_db w)"
  shows "status_changed (tables w) (tables w') t s \<and> b \<in> set (t_users (w_db w)) \<and> u_id b = t \<and>
     (s \<noteq> ''active'' \<longrightarrow> active_admin (w_db w) t \<longrightarrow> (\<exists>i. i \<noteq> t \<and> active_admin (w_db w) i))"
proof -
  let ?w0 = "started (case_ident a) w"
  define guard where "guard = (if s \<noteq> ''active'' \<and> u_status b = ''active''
        then try_wrap (q_ListRolesForUser t) ''load target roles'' (\<lambda>roles.
          if containsRole (roleNames roles) ''ADMIN'' then ensureNotLastActiveAdmin else ret ())
        else ret ())"
  from run obtain w1 w2 u w3 w4 where
    b: "q_GetUserByID t ?w0 = (Inr b, w1)" and g: "guard w1 = (Inr (), w2)"
    and u: "q_UpdateUserStatus t s w2 = (Inr u, w3)"
    and rv: "(if s \<noteq> ''active'' then try_wrap (q_RevokeAllAuthSessionsForUser t) ''revoke sessions'' (\<lambda>_. ret ())
        else ret ()) w3 = (Inr (), w4)"
    and fin: "tables w' = tables w4"
    unfolding update_status_tx_def guard_def
    by (auto simp: WithTx_run tryE_Inr [where m = "q_GetUserByID _"] tryE_Inr [where m = "if _ then _ else _"]
        tryE_Inr [where m = "q_UpdateUserStatus _ _"] fail_run ret_run)
  have d1: "w_db w1 = w_db w" using reader_db [OF reader_case_queries(5) b] by simp
  have b': "b \<in> set (t_users (w_db w))" "u_id b = t" using q_GetUserByID_run [OF b] by simp_all
  have "reader.guar guard" by (auto simp: guard_def)
  then have "tables w2 = tables w1" using g by (rule reader_run)
  then have g': "tables w2 = tables w" using tables_cong [OF d1] by simp
  have last: "\<exists>i. i \<noteq> t \<and> active_admin (w_db w) i" if s: "s \<noteq> ''active''" and adm: "active_admin (w_db w) t"
  proof -
    from adm obtain ar v x where v: "ar \<in> set (t_roles (w_db w))" "v \<in> set (t_users (w_db w))"
      "x \<in> set (t_user_roles (w_db w))" "r_name ar = ''ADMIN''" "u_id v = t" "u_status v = ''active''"
      "ur_user_id x = t" "ur_role_id x = r_id ar" unfolding active_admin_iff by blast
    have "v = b" using unique_user [of "t_users (w_db w)" v b] inv v b' by (simp add: user_inv_def)
    then obtain rs w5 where rs: "q_ListRolesForUser t w1 = (Inr rs, w5)"
      and e: "(if containsRole (roleNames rs) ''ADMIN'' then ensureNotLastActiveAdmin else ret ()) w5 = (Inr (), w2)"
      using g s v by (auto simp: guard_def tryE_Inr fail_run)
    have rs': "ar \<in> set rs" "w_db w5 = w_db w"
      using q_ListRolesForUser_run [OF rs] reader_db [OF reader_case_queries(6) rs] d1 v
      by (auto simp: set_roles_of)
    have "containsRole (roleNames rs) ''ADMIN''"
      using rs'(1) v(4) by (auto simp: containsRole_def roleNames_def list_ex_iff intro!: image_eqI [of _ r_name ar])
    then show ?thesis
      using e ensureNotLastActiveAdmin_run [of w5 "()" w2 t] inv rs'(2) by simp
  qed
  note u' = q_UpdateUserStatus_run [OF u]
  have eqs: "t_users (w_db w2) = t_users (w_db w)" using g' tables_eqD by blast
  have t3: "tables w3 = (tables w)\<lparr>t_users := with_status t s (w_tx_now w2) (t_users (w_db w))\<rparr>" "user_status_ok s"
    using u' g' eqs by (simp_all add: with_status_def)
  have s3: "t_sessions (w_db w3) = t_sessions (w_db w)" using t3 by (simp flip: tables_sel)
  have "status_changed (tables w) (tables w4) t s"
  proof (cases "s = ''active''")
    case True
    have "tables w4 = (tables w)\<lparr>t_users := with_status t s (w_tx_now w2) (t_users (tables w)),
        t_sessions := t_sessions (tables w)\<rparr>"
      using rv t3 True by (simp add: ret_run)
    then show ?thesis by (rule status_changedI) (use True t3(2) in simp_all)
  next
    case False
    with rv obtain w5 where "q_RevokeAllAuthSessionsForUser t w3 = (Inr (), w5)" "w4 = w5"
      by (auto simp: tryE_Inr fail_run ret_run)
    note r = revoke_user_run [OF this(1)] this(2)
    then have "tables w4 = (tables w)\<lparr>t_users := with_status t s (w_tx_now w2) (t_users (tables w)),
        t_sessions := t_sessions (w_db w4)\<rparr>" "ended t (t_sessions (tables w)) (t_sessions (w_db w4))"
      using t3(1) s3 by simp_all
    then show ?thesis using False t3(2) by (intro status_changedI) simp_all
  qed
  then show ?thesis unfolding fin using last b' by simp
qed

lemma active_with_status:
  "active_admin d i \<Longrightarrow> i \<noteq> t \<or> s = ''active'' \<Longrightarrow>
     active_admin (d\<lparr>t_users := with_status t s now (t_users d), t_sessions := ss\<rparr>) i"
proof -
  let ?f = "\<lambda>u. if u_id u = t then u\<lparr>u_status := s, u_updated_at := now\<rparr> else u"
  assume adm: "active_admin d i" and other: "i \<noteq> t \<or> s = ''active''"
  then obtain r u x where v: "r \<in> set (t_roles d)" "u \<in> set (t_users d)" "x \<in> set (t_user_roles d)"
     "r_name r = ''ADMIN''" "u_id u = i" "u_status u = ''active''" "ur_user_id x = i" "ur_role_id x = r_id r"
    unfolding active_admin_iff by blast
  have "?f u \<in> set (with_status t s now (t_users d))"
    using v(2) unfolding with_status_def update_where_set by (rule imageI)
  then show ?thesis
    unfolding active_admin_iff using v other
    by (intro bexI [of _ r] bexI [of _ "?f u"] bexI [of _ x]) auto
qed

lemma user_inv_status:
  assumes inv: "user_inv d" and ch: "status_changed d d' t s"
    and guard: "s \<noteq> ''active'' \<longrightarrow> active_admin d t \<longrightarrow> (\<exists>i. i \<noteq> t \<and> active_admin d i)"
  shows "user_inv d'"
proof -
  obtain now ss where d': "d' = d\<lparr>t_users := with_status t s now (t_users d), t_sessions := ss\<rparr>"
    and ok: "user_status_ok s"
    using ch by (auto simp: status_changed_def)
  obtain i where i: "active_admin d i" using user_inv_admin [OF inv] by blast
  have "\<exists>j. active_admin d' j"
    using i guard active_with_status [of d _ t s ss now] unfolding d' by (cases "s = ''active''"; cases "i = t") auto
  then obtain j where "active_admin d' j" ..
  moreover then obtain u where "u \<in> set (t_users d')" "u_id u = j" using active_admin_user by blast
  moreover have "map u_id (t_users d') = map u_id (t_users d)"
    "map (\<lambda>u. lower (u_email u)) (t_users d') = map (\<lambda>u. lower (u_email u)) (t_users d)"
    by (simp_all add: d' with_status_def map_update_where)
  moreover have "list_all (\<lambda>u. user_status_ok (u_status u)) (t_users d')"
    using inv ok by (auto simp: user_inv_def d' with_status_def list_all_iff update_where_set)
  ultimately show ?thesis using inv by (auto simp: user_inv_def d' list_ex_iff)
qed

definition password_reset :: "database \<Rightarrow> database \<Rightarrow> uuid \<Rightarrow> string \<Rightarrow> bool" where
  "password_reset d d' t h \<longleftrightarrow> (\<exists>now ss. d' = d\<lparr>t_users := update_where (\<lambda>u. u_id u = t)
       (\<lambda>u. u\<lparr>u_password_hash := h, u_updated_at := now\<rparr>) (t_users d), t_sessions := ss\<rparr> \<and>
     ended t (t_sessions d) ss)"

lemma q_UpdateUserPasswordHash_run:
  "q_UpdateUserPasswordHash i h w = (Inr x, w') \<Longrightarrow> tables w' = (tables w)\<lparr>t_users :=
     update_where (\<lambda>u. u_id u = i) (\<lambda>u. u\<lparr>u_password_hash := h, u_updated_at := w_tx_now w\<rparr>) (t_users (w_db w))\<rparr>"
  by (auto simp: q_UpdateUserPasswordHash_def exec_run tables_def)

lemma reset_password_tx_run:
  assumes "reset_password_tx a t h w = (Inr x, w')"
  shows "password_reset (tables w) (tables w') t h \<and> (\<exists>u\<in>set (t_users (w_db w)). u_id u = t)"
proof -
  from assms obtain u w1 w2 w3 where u: "q_GetUserByID t (started (case_ident a) w) = (Inr u, w1)"
    and p: "q_UpdateUserPasswordHash t h w1 = (Inr (), w2)"
    and r: "q_RevokeAllAuthSessionsForUser t w2 = (Inr (), w3)" and fin: "tables w' = tables w3"
    by (auto simp: reset_password_tx_def WithTx_run tryE_Inr fail_run)
  have u': "u \<in> set (t_users (w_db w))" "u_id u = t" "tables w1 = tables w"
    using q_GetUserByID_run [OF u] by simp_all
  have t2: "tables w2 = (tables w)\<lparr>t_users := update_where (\<lambda>u. u_id u = t)
      (\<lambda>u. u\<lparr>u_password_hash := h, u_updated_at := w_tx_now w1\<rparr>) (t_users (tables w))\<rparr>"
    using q_UpdateUserPasswordHash_run [OF p] u'(3) tables_eqD [OF u'(3)] by simp
  then have "t_sessions (w_db w2) = t_sessions (w_db w)" by (simp flip: tables_sel)
  then have "tables w3 = (tables w)\<lparr>t_users := update_where (\<lambda>u. u_id u = t)
      (\<lambda>u. u\<lparr>u_password_hash := h, u_updated_at := w_tx_now w1\<rparr>) (t_users (tables w)),
      t_sessions := t_sessions (w_db w3)\<rparr>" "ended t (t_sessions (tables w)) (t_sessions (w_db w3))"
    using revoke_user_run [OF r] t2 by simp_all
  then show ?thesis
    unfolding fin password_reset_def using u'
    by (intro conjI exI [of _ "w_tx_now w1"] exI [of _ "t_sessions (w_db w3)"] bexI [of _ u]) assumption+
qed

text \<open>Rewriting fields the invariant does not read.\<close>

lemma user_inv_rewrite:
  assumes inv: "user_inv d" and f: "\<And>u. u_id (f u) = u_id u \<and> u_email (f u) = u_email u \<and> u_status (f u) = u_status u"
  shows "user_inv (d\<lparr>t_users := update_where p f (t_users d), t_sessions := ss\<rparr>)"
proof -
  let ?d' = "d\<lparr>t_users := update_where p f (t_users d), t_sessions := ss\<rparr>"
  obtain i where "active_admin d i" using user_inv_admin [OF inv] by blast
  then obtain r u x where v: "r \<in> set (t_roles d)" "u \<in> set (t_users d)" "x \<in> set (t_user_roles d)"
     "r_name r = ''ADMIN''" "u_id u = i" "u_status u = ''active''" "ur_user_id x = i" "ur_role_id x = r_id r"
    unfolding active_admin_iff by blast
  let ?g = "\<lambda>u. if p u then f u else u"
  have g: "?g u \<in> set (update_where p f (t_users d))" unfolding update_where_set by (rule imageI) (rule v(2))
  have "active_admin ?d' i"
    unfolding active_admin_iff using v g f [of u]
    by (intro bexI [of _ r] bexI [of _ "?g u"] bexI [of _ x]) auto
  then have "list_ex (\<lambda>u. active_admin ?d' (u_id u)) (t_users ?d')"
    using g v(5) f [of u] by (auto simp: list_ex_iff intro!: bexI [of _ "?g u"])
  moreover have "map u_id (t_users ?d') = map u_id (t_users d)"
    "map (\<lambda>u. lower (u_email u)) (t_users ?d') = map (\<lambda>u. lower (u_email u)) (t_users d)"
    using f by (simp_all add: map_update_where)
  moreover have "list_all (\<lambda>u. user_status_ok (u_status u)) (t_users ?d')"
    using inv f by (auto simp: user_inv_def list_all_iff update_where_set)
  ultimately show ?thesis using inv by (simp add: user_inv_def)
qed

lemma user_inv_sessions: "user_inv (d\<lparr>t_sessions := ss\<rparr>) = user_inv d"
  by (simp add: user_inv_def active_admin_def active_with_role_def)

lemma user_inv_profile:
  assumes "user_inv d" "\<And>u. u_id (f u) = u_id u \<and> u_email (f u) = u_email u \<and> u_status (f u) = u_status u"
  shows "user_inv (d\<lparr>t_users := update_where p f (t_users d)\<rparr>)"
  using user_inv_rewrite [OF assms, where p = p and ss = "t_sessions d"] by (simp add: user_inv_sessions)

lemma user_inv_reset: "user_inv d \<Longrightarrow> password_reset d d' t h \<Longrightarrow> user_inv d'"
  by (auto simp: password_reset_def intro!: user_inv_rewrite)

lemma q_UpdateUserProfile_run:
  assumes "q_UpdateUserProfile i f l dn ph w = (Inr u, w')"
  shows "tables w' = (tables w)\<lparr>t_users := update_where (\<lambda>u. u_id u = i) (\<lambda>u. u\<lparr>u_first_name := f, u_last_name := l,
       u_display_name := dn, u_phone := ph, u_updated_at := w_tx_now w\<rparr>) (t_users (w_db w))\<rparr>"
  using assms by (auto simp: q_UpdateUserProfile_def exec_run update_one_Inr tables_def)

section \<open>Creating a user\<close>

definition created_user :: "database \<Rightarrow> database \<Rightarrow> CreateUserInput \<Rightarrow> string \<Rightarrow> user_row \<Rightarrow> bool" where
  "created_user d d' req h u \<longleftrightarrow> (\<exists>urs r. d' = d\<lparr>t_users := t_users d @ [u], t_user_roles := urs\<rparr> \<and>
     r \<in> set (t_roles d) \<and> r_name r = cu_Role req \<and>
     set urs = insert \<lparr>ur_user_id = u_id u, ur_role_id = r_id r\<rparr> (set (t_user_roles d)) \<and>
     u_password_hash u = h \<and> u_email u = TrimSpace (cu_Email req) \<and>
     u_status u = requested_user_status req \<and> user_status_ok (u_status u) \<and>
     (\<forall>x\<in>set (t_users d). u_id x \<noteq> u_id u \<and> lower (u_email x) \<noteq> lower (u_email u)))"

lemma q_CreateUser_run:
  assumes "q_CreateUser email h f l dn ph w = (Inr u, w')"
  shows "tables w' = (tables w)\<lparr>t_users := t_users (w_db w) @ [u]\<rparr> \<and> u_email u = email \<and> u_password_hash u = h \<and>
    u_status u = ''active'' \<and> (\<forall>x\<in>set (t_users (w_db w)). u_id x \<noteq> u_id u \<and> lower (u_email x) \<noteq> lower email)"
  using assms
  by (auto simp: q_CreateUser_def exec_new_run users_checks_def Let_def list_ex_iff tables_def)

lemma create_user_tx_run:
  assumes "create_user_tx a req h w = (Inr s, w')"
  shows "\<exists>u. created_user (tables w) (tables w') req h u \<and> s = admin_summary u [cu_Role req]"
proof -
  let ?w0 = "started (case_ident a) w"
  from assms obtain u w1 r w2 w3 w4 where
    u: "q_CreateUser (TrimSpace (cu_Email req)) h (TrimSpace (cu_FirstName req))
        (TrimSpace (cu_LastName req)) (trimmedOrNil (cu_DisplayName req)) (trimmedOrNil (cu_Phone req)) ?w0 = (Inr u, w1)"
    and r: "q_GetRoleByName (cu_Role req) w1 = (Inr r, w2)"
    and asg: "q_AssignRoleToUser (u_id u) (r_id r) w2 = (Inr (), w3)"
    and st: "(if requested_user_status req \<noteq> ''active''
       then try_wrap (q_UpdateUserStatus (u_id u) (requested_user_status req)) ''set initial status''
         (\<lambda>updated. ret (admin_summary updated [cu_Role req]))
       else ret (admin_summary u [cu_Role req])) w3 = (Inr s, w4)"
    and fin: "tables w' = tables w4"
    unfolding create_user_tx_def
    by (auto simp: WithTx_run tryE_Inr [where m = "q_CreateUser _ _ _ _ _ _"] tryE_Inr [where m = "q_GetRoleByName _"]
        tryE_Inr [where m = "q_AssignRoleToUser _ _"] fail_run)
  note u' = q_CreateUser_run [OF u] and r' = q_GetRoleByName_run [OF r] and a' = q_AssignRoleToUser_run [OF asg]
  have t2: "tables w2 = (tables w)\<lparr>t_users := t_users (w_db w) @ [u]\<rparr>" using u' r' by simp
  then have t2': "t_user_roles (w_db w2) = t_user_roles (w_db w)" "t_roles (w_db w1) = t_roles (w_db w)"
    using u' by (simp_all flip: tables_sel)
  let ?urs = "t_user_roles (w_db w3)"
  have t3: "tables w3 = (tables w)\<lparr>t_users := t_users (w_db w) @ [u], t_user_roles := ?urs\<rparr>"
    "set ?urs = insert \<lparr>ur_user_id = u_id u, ur_role_id = r_id r\<rparr> (set (t_user_roles (w_db w)))"
    using a' t2 t2' by simp_all
  show ?thesis
  proof (cases "requested_user_status req = ''active''")
    case True
    with st have "tables w4 = tables w3" "s = admin_summary u [cu_Role req]" by (simp_all add: ret_run)
    then show ?thesis
      unfolding fin created_user_def using t3 u' r' t2' True
      by (intro exI [of _ u] conjI exI [of _ ?urs] exI [of _ r]) (simp_all add: user_status_ok_def)
  next
    case False
    with st obtain v where v: "q_UpdateUserStatus (u_id u) (requested_user_status req) w3 = (Inr v, w4)"
      "s = admin_summary v [cu_Role req]"
      by (auto simp: tryE_Inr fail_run ret_run)
    let ?f = "\<lambda>u. u\<lparr>u_status := requested_user_status req, u_updated_at := w_tx_now w3\<rparr>"
    note v' = q_UpdateUserStatus_run [OF v(1)]
    have us3: "t_users (w_db w3) = t_users (w_db w) @ [u]" using arg_cong [OF t3(1), of t_users] by simp
    have old: "update_where (\<lambda>x. u_id x = u_id u) ?f (t_users (w_db w)) = t_users (w_db w)"
      using u' by (intro update_where_none) auto
    have "v = ?f u"
      using v(1) u' by (auto simp: q_UpdateUserStatus_def exec_run update_one_Inr us3 filter_empty_conv
          dest!: filter_headD split: if_splits)
    moreover have "tables w4 = (tables w)\<lparr>t_users := t_users (w_db w) @ [?f u], t_user_roles := ?urs\<rparr>"
      using v' t3 us3 old by simp
    ultimately show ?thesis
      unfolding fin created_user_def using t3 u' r' t2' v'
      by (intro exI [of _ "?f u"] conjI exI [of _ ?urs] exI [of _ r]) (simp_all add: v(2))
  qed
qed

lemma user_inv_create:
  assumes inv: "user_inv d" and c: "created_user d d' req h u"
  shows "user_inv d'"
proof -
  obtain urs and r :: role_row where d': "d' = d\<lparr>t_users := t_users d @ [u], t_user_roles := urs\<rparr>"
    and urs: "set urs = insert \<lparr>ur_user_id = u_id u, ur_role_id = r_id r\<rparr> (set (t_user_roles d))"
    and u: "user_status_ok (u_status u)" "\<forall>x\<in>set (t_users d). u_id x \<noteq> u_id u \<and> lower (u_email x) \<noteq> lower (u_email u)"
    using c unfolding created_user_def by blast
  obtain i where "active_admin d i" using user_inv_admin [OF inv] by blast
  then obtain ar v x where v: "ar \<in> set (t_roles d)" "v \<in> set (t_users d)" "x \<in> set (t_user_roles d)"
     "r_name ar = ''ADMIN''" "u_id v = i" "u_status v = ''active''" "ur_user_id x = i" "ur_role_id x = r_id ar"
    unfolding active_admin_iff by blast
  have "active_admin d' (u_id v)"
    unfolding active_admin_iff d' using v urs
    by (intro bexI [of _ ar] bexI [of _ v] bexI [of _ x]) auto
  then show ?thesis using inv u v(2) by (auto simp: user_inv_def d' list_ex_iff)
qed

section \<open>The operations\<close>

lemma HashPassword_run: "HashPassword p c w = (r, w') \<Longrightarrow> w' = w \<and> (\<forall>h. r = Inr h \<longrightarrow> lib_bcrypt_hash (w_lib w) p c = Some h)"
  by (auto simp: HashPassword_def split: option.splits)

lemma publish_user_tables: "publish_user t i s w = (r, w') \<Longrightarrow> tables w' = tables w"
  by (rule frame_tables [OF frame_publish_user])

lemma CreateUser_run:
  assumes "CreateUser c a req w = (Inr s, w')"
  shows "permitted (w_db w) a ''user:create'' \<and> validatePassword (cu_Password req) = None \<and>
    cu_Role req \<in> set userRoles \<and>
    (\<exists>u h. created_user (tables w) (tables w') req h u \<and> s = admin_summary u [cu_Role req])"
proof -
  from assms obtain w1 h w2 w3 where t1: "tables w1 = tables w" and p: "permitted (w_db w) a ''user:create''"
    and v: "validatePassword (cu_Password req) = None" "cu_Role req \<in> set userRoles"
    and h: "HashPassword (cu_Password req) c w1 = (Inr h, w2)"
    and tx: "create_user_tx a req h w2 = (Inr s, w3)" and fin: "tables w' = tables w3"
    unfolding CreateUser_def
    by (auto simp: validated_run ensure_run get_world_run tryE_Inr ret_run fail_run
        dest!: need_permission_run Record_run publish_user_tables split: if_splits)
  have "tables w2 = tables w" using HashPassword_run [OF h] t1 by simp
  then show ?thesis using create_user_tx_run [OF tx] p v fin by auto
qed

lemma user_tx_error_tables: "user_tx_error e w = (r, w') \<Longrightarrow> tables w' = tables w"
  by (auto simp: user_tx_error_def no_rows_as_def fail_run split: option.splits)

text \<open>
  A transaction whose committed runs have an effect E, between steps that touch no table:
  the whole operation has effect E, or none.
\<close>

lemma tx_then_frame:
  assumes run: "tryE m h k w = (r, w')"
    and m: "clean m" "\<And>x w1. m w = (Inr x, w1) \<Longrightarrow> E (tables w) (tables w1)"
    and h: "\<And>e. audit_frame.guar (h e)" and k: "\<And>x. audit_frame.guar (k x)"
  shows "tables w' = tables w \<or> E (tables w) (tables w')"
proof (cases "m w")
  case (Pair a w1)
  show ?thesis
  proof (cases a)
    case (Inl e)
    then have "h e w1 = (r, w')" using run Pair by (simp add: tryE_def)
    from frame_tables [OF h this] show ?thesis using cleanD [OF m(1)] Pair Inl by simp
  next
    case (Inr x)
    then have "k x w1 = (r, w')" using run Pair by (simp add: tryE_def)
    from frame_tables [OF k this] show ?thesis using m(2) Pair Inr by simp
  qed
qed

lemma frame_user_tx_error: "audit_frame.guar (user_tx_error e)"
  by (auto simp: user_tx_error_def no_rows_as_def)

lemma frame_loadUserSummary: "audit_frame.guar (loadUserSummary i)"
  by (rule frame_reader) auto

lemma frame_no_rows_as: "audit_frame.guar (no_rows_as h e)"
  by (auto simp: no_rows_as_def)

lemma UpdateRole_effect:
  assumes "UpdateRole a t name w = (r, w')" "user_inv (w_db w)"
  shows "tables w' = tables w \<or> role_changed (tables w) (tables w') t name \<and>
    (name \<noteq> ''ADMIN'' \<longrightarrow> active_admin (tables w) t \<longrightarrow> (\<exists>i. i \<noteq> t \<and> active_admin (tables w) i))"
proof -
  define rest where "rest = (\<lambda>old. bindE (Record (user_event a ''USER_ROLE_CHANGED'' t
        (JObj [(''from'', JArr (map JStr old)), (''to'', JStr name)]))) (\<lambda>_.
     bindE (loadUserSummary t) (\<lambda>result.
     bindE (publish_user ''USER_ROLE_CHANGED'' t result) (\<lambda>_. ret result))))"
  have rest: "audit_frame.guar (rest old)" for old
    unfolding rest_def by (auto intro!: frame_loadUserSummary)
  have tx: "tables w2 = tables w1 \<or> (role_changed (tables w1) (tables w2) t name \<and>
     (name \<noteq> ''ADMIN'' \<longrightarrow> active_admin (tables w1) t \<longrightarrow> (\<exists>i. i \<noteq> t \<and> active_admin (tables w1) i)))"
    if "tryE (update_role_tx a t name) user_tx_error rest w1 = (r, w2)" and inv: "user_inv (w_db w1)" for w1 w2
  proof (rule tx_then_frame [where E = "\<lambda>d d'. role_changed d d' t name \<and>
     (name \<noteq> ''ADMIN'' \<longrightarrow> active_admin d t \<longrightarrow> (\<exists>i. i \<noteq> t \<and> active_admin d i))", OF that(1)])
    show "clean (update_role_tx a t name)" unfolding update_role_tx_def by (rule clean_WithTx)
    fix x w3 assume "update_role_tx a t name w1 = (Inr x, w3)"
    from update_role_tx_run [OF this inv] show "role_changed (tables w1) (tables w3) t name \<and>
     (name \<noteq> ''ADMIN'' \<longrightarrow> active_admin (tables w1) t \<longrightarrow> (\<exists>i. i \<noteq> t \<and> active_admin (tables w1) i))"
      by simp
  qed (rule frame_user_tx_error rest)+
  obtain rp w1 where pol: "CanModifyUserRole a t w = (rp, w1)" by (cases "CanModifyUserRole a t w")
  then have t1: "tables w1 = tables w" by (rule frame_tables [OF frame_CanModifyUserRole])
  then have inv1: "user_inv (w_db w1)" using assms(2) by (metis user_state.I_tables)
  have "tables w' = tables w1 \<or> (\<exists>w1'. w1' = w1 \<and> tryE (update_role_tx a t name) user_tx_error rest w1' = (r, w'))"
    using assms(1) pol unfolding UpdateRole_def rest_def [symmetric] tryE_def [of "CanModifyUserRole a t"]
    by (auto simp: ensure_def fail_def split: sum.splits if_splits)
  then show ?thesis using tx [OF _ inv1] t1 by auto
qed

lemma UpdateStatus_effect:
  assumes "UpdateStatus a t s w = (r, w')" "user_inv (w_db w)"
  shows "tables w' = tables w \<or> status_changed (tables w) (tables w') t s \<and>
    (s \<noteq> ''active'' \<longrightarrow> active_admin (tables w) t \<longrightarrow> (\<exists>i. i \<noteq> t \<and> active_admin (tables w) i))"
proof -
  define rest where "rest = (\<lambda>before :: user_row. bindE (Record (user_event a ''USER_STATUS_CHANGED'' t
        (JObj [(''from'', JStr (u_status before)), (''to'', JStr s)]))) (\<lambda>_.
     bindE (loadUserSummary t) (\<lambda>result.
     bindE (publish_user (statusChangeEventType s) t result) (\<lambda>_. ret result))))"
  have rest: "audit_frame.guar (rest b)" for b
    unfolding rest_def by (auto intro!: frame_loadUserSummary)
  have tx: "tables w2 = tables w1 \<or> (status_changed (tables w1) (tables w2) t s \<and>
     (s \<noteq> ''active'' \<longrightarrow> active_admin (tables w1) t \<longrightarrow> (\<exists>i. i \<noteq> t \<and> active_admin (tables w1) i)))"
    if "tryE (update_status_tx a t s) user_tx_error rest w1 = (r, w2)" and inv: "user_inv (w_db w1)" for w1 w2
  proof (rule tx_then_frame [where E = "\<lambda>d d'. status_changed d d' t s \<and>
     (s \<noteq> ''active'' \<longrightarrow> active_admin d t \<longrightarrow> (\<exists>i. i \<noteq> t \<and> active_admin d i))", OF that(1)])
    show "clean (update_status_tx a t s)" unfolding update_status_tx_def by (rule clean_WithTx)
    fix x w3 assume "update_status_tx a t s w1 = (Inr x, w3)"
    from update_status_tx_run [OF this inv] show "status_changed (tables w1) (tables w3) t s \<and>
     (s \<noteq> ''active'' \<longrightarrow> active_admin (tables w1) t \<longrightarrow> (\<exists>i. i \<noteq> t \<and> active_admin (tables w1) i))"
      by simp
  qed (rule frame_user_tx_error rest)+
  obtain rp w1 where pol: "HasPermission a ''user:deactivate'' w = (rp, w1)" by (cases "HasPermission a ''user:deactivate'' w")
  then have t1: "tables w1 = tables w" by (rule reader_run [OF reader_HasPermission])
  then have inv1: "user_inv (w_db w1)" using assms(2) by (metis user_state.I_tables)
  have "tables w' = tables w1 \<or> (\<exists>w1'. w1' = w1 \<and> tryE (update_status_tx a t s) user_tx_error rest w1' = (r, w'))"
    using assms(1) pol unfolding UpdateStatus_def need_permission_def rest_def [symmetric]
      tryE_def [of "HasPermission a _"]
    by (auto simp: ensure_def fail_run Record_then split: sum.splits if_splits
        dest: sym intro: Record_run [THEN conjunct2, OF surjective_pairing])
  then show ?thesis using tx [OF _ inv1] t1 by auto
qed

lemma ResetPassword_run:
  assumes "ResetPassword c a t p w = (Inr x, w')"
  shows "permitted (w_db w) a ''user:update'' \<and> validatePassword p = None \<and>
    (\<exists>h. lib_bcrypt_hash (w_lib w) p c = Some h \<and> password_reset (tables w) (tables w') t h)"
proof -
  from assms obtain w1 where n: "need_permission a ''user:update'' (
     validated (validatePassword p) (
     tryE (HashPassword p c) (\<lambda>e. fail (ErrInternal e)) (\<lambda>hash.
     tryE (reset_password_tx a t hash) (no_rows_as (ErrNotFound ''User not found'')) (\<lambda>_.
     Record (user_event a ''USER_PASSWORD_RESET'' t JNull))))) w = (Inr x, w')"
    unfolding ResetPassword_def by blast
  then obtain ok w1 where hp: "HasPermission a ''user:update'' w = (Inr True, w1)"
    and rest: "validated (validatePassword p) (
     tryE (HashPassword p c) (\<lambda>e. fail (ErrInternal e)) (\<lambda>hash.
     tryE (reset_password_tx a t hash) (no_rows_as (ErrNotFound ''User not found'')) (\<lambda>_.
     Record (user_event a ''USER_PASSWORD_RESET'' t JNull)))) w1 = (Inr x, w')"
    by (auto simp: need_permission_def tryE_Inr fail_run ensure_run split: if_splits)
  have w1: "tables w1 = tables w" "w_lib w1 = w_lib w"
    using reader.guarD [OF reader_HasPermission, of w a "''user:update''"] hp
      reader_run [OF reader_HasPermission hp] by (simp_all add: reads_only_def params_same_def)
  from rest obtain h w2 w3 where h: "HashPassword p c w1 = (Inr h, w2)"
    and v: "validatePassword p = None"
    and tx: "reset_password_tx a t h w2 = (Inr (), w3)" and fin: "tables w' = tables w3"
    by (auto simp: validated_run tryE_Inr ret_run fail_run no_rows_as_def dest!: Record_run)
  show ?thesis
    using HashPassword_run [OF h] w1 reset_password_tx_run [OF tx] fin v HasPermission_spec [OF hp] by auto
qed

lemma UpdateRole_run:
  assumes "UpdateRole a t name w = (Inr s, w')" "user_inv (w_db w)"
  shows "permitted (w_db w) a ''user:role'' \<and> au_ID a \<noteq> t \<and> name \<in> set userRoles \<and>
    role_changed (tables w) (tables w') t name"
proof -
  from assms(1) obtain dec w1 old w2 where pol: "CanModifyUserRole a t w = (Inr dec, w1)" "Allowed dec"
    and n: "name \<in> set userRoles"
    and tx: "update_role_tx a t name w1 = (Inr old, w2)" and fin: "tables w' = tables w2"
    unfolding UpdateRole_def
    by (auto simp: tryE_Inr ret_run fail_run ensure_run user_tx_error_def no_rows_as_def
        dest!: Record_run publish_user_tables reader_run [OF reader_loadUserSummary] split: if_splits option.splits)
  have t1: "tables w1 = tables w" by (rule frame_tables [OF frame_CanModifyUserRole pol(1)])
  then have "user_inv (w_db w1)" using assms(2) by (metis user_state.I_tables)
  then show ?thesis
    using update_role_tx_run [OF tx] fin t1 n CanModifyUserRole_exact [OF pol(1)] pol(2) by simp
qed

lemma UpdateStatus_run:
  assumes "UpdateStatus a t s w = (Inr r, w')" "user_inv (w_db w)"
  shows "permitted (w_db w) a ''user:deactivate'' \<and> au_ID a \<noteq> t \<and> s \<in> set userStatuses \<and>
    status_changed (tables w) (tables w') t s"
proof -
  from assms(1) obtain w1 b w2 where t1: "tables w1 = tables w" and p: "permitted (w_db w) a ''user:deactivate''"
    and ne: "au_ID a \<noteq> t" and s: "s \<in> set userStatuses"
    and tx: "update_status_tx a t s w1 = (Inr b, w2)" and fin: "tables w' = tables w2"
    unfolding UpdateStatus_def
    by (auto simp: tryE_Inr ret_run fail_run ensure_run user_tx_error_def no_rows_as_def
        dest!: need_permission_run Record_run publish_user_tables reader_run [OF reader_loadUserSummary]
        split: if_splits option.splits)
  have "user_inv (w_db w1)" using assms(2) t1 by (metis user_state.I_tables)
  then show ?thesis using update_status_tx_run [OF tx] fin t1 p ne s by simp
qed

section \<open>The guarantees\<close>

lemma guar_user_CreateUser: "user_state.guar (CreateUser c a req)"
proof (rule user_state.guar_clean [OF clean_CreateUser])
  fix w s w'
  assume inv: "user_inv (tables w)" and "CreateUser c a req w = (Inr s, w')"
  then show "user_inv (tables w')" using CreateUser_run user_inv_create [OF inv] by blast
qed

lemma guar_user_ResetPassword: "user_state.guar (ResetPassword c a t p)"
proof (rule user_state.guar_clean [OF clean_ResetPassword])
  fix w s w'
  assume inv: "user_inv (tables w)" and "ResetPassword c a t p w = (Inr s, w')"
  then show "user_inv (tables w')" using ResetPassword_run user_inv_reset [OF inv] by blast
qed

lemma guar_user_UpdateRole: "user_state.guar (UpdateRole a t name)"
proof (rule user_state.guar_effect)
  fix w r w'
  assume inv: "user_inv (tables w)" and run: "UpdateRole a t name w = (r, w')"
  then show "user_inv (tables w')"
    using UpdateRole_effect [OF run] user_inv_role [OF inv] user_state.I_tables by metis
qed

lemma guar_user_UpdateStatus: "user_state.guar (UpdateStatus a t s)"
proof (rule user_state.guar_effect)
  fix w r w'
  assume inv: "user_inv (tables w)" and run: "UpdateStatus a t s w = (r, w')"
  then show "user_inv (tables w')"
    using UpdateStatus_effect [OF run] user_inv_status [OF inv] user_state.I_tables by metis
qed

lemma guar_user_UpdateUser: "user_state.guar (UpdateUser a i req)"
proof -
  have "user_state.guar (q_UpdateUserProfile i f l dn ph)" for f l dn ph
    unfolding q_UpdateUserProfile_def
    by (rule user_state.guar_exec) (auto simp: update_one_Inr intro!: user_inv_profile)
  then show ?thesis
    unfolding UpdateUser_def need_permission_def validated_def
    by (auto intro!: user_state.guar_record user_state.guar_reader [OF reader_HasPermission]
        user_state.guar_reader [OF reader_rolesForUser] user_state.guar_frame [OF frame_publish_user]
        user_state.guar_frame [OF frame_no_rows_as])
qed

lemmas user_service_guar = guar_user_CreateUser guar_user_ResetPassword guar_user_UpdateRole
  guar_user_UpdateStatus guar_user_UpdateUser frame_user_readers [THEN user_state.guar_frame]

section \<open>The audit log\<close>

lemma chain_user_statements:
  "chain.guar (q_CreateUser a b c d e f)" "chain.guar (q_AssignRoleToUser u r)" "chain.guar (q_RemoveRoleFromUser u r)"
  "chain.guar (q_UpdateUserStatus u s)" "chain.guar (q_UpdateUserProfile u a b e f)"
  "chain.guar (q_UpdateUserPasswordHash u h)" "chain.guar (revoke_sessions p g)"
  unfolding q_CreateUser_def q_AssignRoleToUser_def q_RemoveRoleFromUser_def q_UpdateUserStatus_def
    q_UpdateUserProfile_def q_UpdateUserPasswordHash_def revoke_sessions_def
  by (auto intro!: chain_exec chain_exec_new simp: Let_def update_one_Inr split: option.splits if_splits)

lemma chain_remove_roles: "chain.guar (remove_roles t k rs)"
  by (induction rs) (auto intro!: chain_user_statements)

lemma plain_strings [simp]: "list_all plain_json (map JStr xs)"
  by (induction xs) simp_all

lemmas user_readers = reader_user_queries reader_case_queries reader_ensureNotLastActiveAdmin
  reader_loadUserSummary reader_rolesForUser reader_HashPassword reader_with_roles

lemma chain_user_service:
  "chain.guar (CreateUser c a cin)" "chain.guar (UpdateUser a i uin)" "chain.guar (UpdateRole a i name)"
  "chain.guar (UpdateStatus a i s)" "chain.guar (ResetPassword c a i p)" "chain.guar (ListUsers a f pg)"
  "chain.guar (GetUser a i)" "chain.guar (GetOwnProfile a)" "chain.guar ListRoles"
proof -
  note rules = chain_need_permission chain_validated user_readers [THEN chain_reader]
    chain_user_statements chain_remove_roles authz_chain chain_CanModifyUserRole guar_Record chain.guar_rules
  show "chain.guar (CreateUser c a cin)"
    unfolding CreateUser_def create_user_tx_def publish_user_def user_event_def by (rule rules | simp)+
  show "chain.guar (UpdateUser a i uin)"
    unfolding UpdateUser_def publish_user_def user_event_def no_rows_as_def by (rule rules | simp)+
  show "chain.guar (UpdateRole a i name)"
    unfolding UpdateRole_def update_role_tx_def publish_user_def user_event_def user_tx_error_def no_rows_as_def
    by (rule rules | simp)+
  show "chain.guar (UpdateStatus a i s)"
    unfolding UpdateStatus_def update_status_tx_def publish_user_def user_event_def user_tx_error_def
      no_rows_as_def q_RevokeAllAuthSessionsForUser_def
    by (rule rules | simp)+
  show "chain.guar (ResetPassword c a i p)"
    unfolding ResetPassword_def reset_password_tx_def user_event_def no_rows_as_def q_RevokeAllAuthSessionsForUser_def
    by (rule rules | simp)+
  show "chain.guar (ListUsers a f pg)" unfolding ListUsers_def by (rule rules | simp)+
  show "chain.guar (GetUser a i)" unfolding GetUser_def by (rule rules | simp)+
  show "chain.guar (GetOwnProfile a)" unfolding GetOwnProfile_def by (rule rules | simp)+
  show "chain.guar ListRoles" unfolding ListRoles_def by (rule rules | simp)+
qed

end
