(* ===== verification/UserProps.thy ===== *)
theory UserProps
  imports UserFacts CaseProps
begin

text \<open>The properties of the user service, each with the input it is run on.\<close>

section \<open>Some active administrator always remains\<close>

text \<open>
  C15.  No call of the user service, whoever makes it and whatever fails on the way, leaves the
  system without an active administrator, or with two users of one id or one email address
  (compared without case), or with a status the schema does not know.
\<close>

theorem last_admin_survives:
  assumes "user_inv (w_db w)"
  shows "user_inv (w_db (snd (CreateUser cost a create w))) \<and> user_inv (w_db (snd (UpdateUser a i upd w))) \<and>
    user_inv (w_db (snd (UpdateRole a i role w))) \<and> user_inv (w_db (snd (UpdateStatus a i status w))) \<and>
    user_inv (w_db (snd (ResetPassword cost a i password w)))"
  using assms user_service_guar [THEN user_state.guarD, rule_format, of w] by blast

text \<open>Two administrators (10 and 11), and an officer (12) with an open session.\<close>

definition session_of :: "uuid \<Rightarrow> uuid \<Rightarrow> session_row" where [run_defs]:
  "session_of i u = \<lparr>as_id = i, as_user_id = u, as_family_id = 500, as_token_hash = replicate 32 (CHR 0x05),
     as_expires_at = 1000, as_created_at = 1, as_last_used_at = None, as_revoked_at = None,
     as_replaced_by = None, as_ip_address = None, as_user_agent = None\<rparr>"

definition user_db :: database where [run_defs]:
  "user_db = sample_db\<lparr>
     t_user_roles := [\<lparr>ur_user_id = 10, ur_role_id = 1\<rparr>, \<lparr>ur_user_id = 11, ur_role_id = 1\<rparr>,
       \<lparr>ur_user_id = 12, ur_role_id = 2\<rparr>],
     t_permissions := t_permissions sample_db @
       [\<lparr>p_id = 6, p_name = ''user:deactivate'', p_resource = ''user'', p_action = ''deactivate''\<rparr>,
        \<lparr>p_id = 7, p_name = ''user:update'', p_resource = ''user'', p_action = ''update''\<rparr>],
     t_role_permissions := t_role_permissions sample_db @
       [\<lparr>rp_role_id = 1, rp_permission_id = 6\<rparr>, \<lparr>rp_role_id = 1, rp_permission_id = 7\<rparr>],
     t_sessions := [session_of 90 12]\<rparr>"

lemma sample_user_inv: "user_inv user_db"
  by (simp add: run_defs)

lemma last_admin_survives_witness:
  "user_inv (w_db (snd (UpdateStatus (sample_actor 10 ''ADMIN'') 11 ''suspended'' (sample_world user_db))))"
  by (rule last_admin_survives [THEN conjunct2, THEN conjunct2, THEN conjunct2, THEN conjunct1])
    (simp add: sample_user_inv sample_world_def)

section \<open>Changing a role\<close>

text \<open>
  C16.  A successful UpdateRole leaves the target with exactly the role asked for and everybody
  else with the roles they had; the caller holds user:role and is not the target.
\<close>

theorem role_update_exact:
  assumes "UpdateRole a t name w = (Inr s, w')" and "user_inv (w_db w)"
  shows "roleNames (roles_of (w_db w') t) = [name] \<and>
    (\<forall>u. u \<noteq> t \<longrightarrow> roles_of (w_db w') u = roles_of (w_db w) u) \<and>
    permitted (w_db w) a ''user:role'' \<and> au_ID a \<noteq> t \<and> name \<in> set userRoles"
proof -
  have inv: "user_inv (tables w)" using assms(2) by (simp add: user_state.I_tables)
  have roles: "roles_of (tables v) u = roles_of (w_db v) u" for v u by (simp add: roles_of_def)
  from UpdateRole_run [OF assms] show ?thesis
    using role_changed_roles [OF inv, of "tables w'" t name] by (auto simp: roles)
qed

lemma role_update_runs:
  "\<exists>s. fst (UpdateRole (sample_actor 10 ''ADMIN'') 11 ''POLICE'' (quiet_world user_db)) = Inr s"
  supply run_congs [cong]
  by (simp add: run_defs)

lemma role_update_exact_witness:
  "roleNames (roles_of (w_db (snd (UpdateRole (sample_actor 10 ''ADMIN'') 11 ''POLICE'' (quiet_world user_db)))) 11) =
     [''POLICE'']"
proof -
  obtain s w' where run: "UpdateRole (sample_actor 10 ''ADMIN'') 11 ''POLICE'' (quiet_world user_db) = (Inr s, w')"
    using role_update_runs by (metis prod.collapse)
  have "user_inv (w_db (quiet_world user_db))" by (simp add: sample_user_inv quiet_world_def sample_world_def)
  from role_update_exact [OF run this] show ?thesis by (simp add: run)
qed

section \<open>Switching an account off\<close>

text \<open>
  C17.  After a successful UpdateStatus to anything but active, the target's account carries
  that status and none of its sessions is active any more; nobody else's account or session
  is touched; nobody does this to themselves.
\<close>

theorem deactivation_ends_sessions:
  assumes "UpdateStatus a t s w = (Inr r, w')" and "user_inv (w_db w)" and "s \<noteq> ''active''"
  shows "(\<forall>x\<in>set (t_sessions (w_db w')). as_user_id x = t \<longrightarrow> as_revoked_at x \<noteq> None) \<and>
    (\<forall>u\<in>set (t_users (w_db w')). u_id u = t \<longrightarrow> u_status u = s) \<and>
    filter (\<lambda>u. u_id u \<noteq> t) (t_users (w_db w')) = filter (\<lambda>u. u_id u \<noteq> t) (t_users (w_db w)) \<and>
    filter (\<lambda>x. as_user_id x \<noteq> t) (t_sessions (w_db w')) = filter (\<lambda>x. as_user_id x \<noteq> t) (t_sessions (w_db w)) \<and>
    au_ID a \<noteq> t \<and> permitted (w_db w) a ''user:deactivate''"
proof -
  note run = UpdateStatus_run [OF assms(1,2)]
  then obtain now ss where d: "tables w' = (tables w)\<lparr>t_users := with_status t s now (t_users (tables w)), t_sessions := ss\<rparr>"
    and ss: "ended t (t_sessions (tables w)) ss"
    using assms(3) by (auto simp: status_changed_def)
  have us: "t_users (w_db w') = with_status t s now (t_users (w_db w))" "t_sessions (w_db w') = ss"
    using d by (simp_all flip: tables_sel)
  have "\<forall>u\<in>set (with_status t s now xs). u_id u = t \<longrightarrow> u_status u = s"
    "filter (\<lambda>u. u_id u \<noteq> t) (with_status t s now xs) = filter (\<lambda>u. u_id u \<noteq> t) xs" for xs
    by (induction xs) (auto simp: with_status_def)
  then show ?thesis
    using run ended_none [OF ss] ended_others [OF ss] unfolding us by simp
qed

lemma deactivation_runs:
  "\<exists>s. fst (UpdateStatus (sample_actor 10 ''ADMIN'') 12 ''suspended'' (quiet_world user_db)) = Inr s"
  supply run_congs [cong]
  by (simp add: run_defs)

lemma deactivation_ends_sessions_witness:
  "filter (\<lambda>x. as_user_id x = 12 \<and> as_revoked_at x = None)
     (t_sessions (w_db (snd (UpdateStatus (sample_actor 10 ''ADMIN'') 12 ''suspended'' (quiet_world user_db))))) = []"
proof -
  obtain s w' where run: "UpdateStatus (sample_actor 10 ''ADMIN'') 12 ''suspended'' (quiet_world user_db) = (Inr s, w')"
    using deactivation_runs by (metis prod.collapse)
  have "user_inv (w_db (quiet_world user_db))" by (simp add: sample_user_inv quiet_world_def sample_world_def)
  from deactivation_ends_sessions [OF run this] show ?thesis by (auto simp: run filter_empty_conv)
qed

section \<open>Passwords that bcrypt refuses\<close>

text \<open>golang.org/x/crypto/bcrypt fails on inputs of more than 72 bytes.\<close>

definition bcrypt_limit :: "library \<Rightarrow> bool" where
  "bcrypt_limit lib \<longleftrightarrow> (\<forall>p c. 72 < length p \<longrightarrow> lib_bcrypt_hash lib p c = None)"

text \<open>
  A password of 73 to 128 bytes passes the validator, and yet cannot be set: the hash
  fails and the client is told of an internal error.
\<close>

theorem long_password_is_internal_error:
  assumes "bcrypt_limit (w_lib w)" and "72 < length p" and "length p \<le> 128"
    and "HasPermission a ''user:update'' w = (Inr True, w1)"
  shows "validatePassword p = None \<and>
    fst (ResetPassword cost a t p w) = Inl (ErrInternal (StdErr ''bcrypt'')) \<and>
    tables (snd (ResetPassword cost a t p w)) = tables w"
proof -
  have "w_lib w1 = w_lib w" "tables w1 = tables w"
    using reader.guarD [OF reader_HasPermission, of w a "''user:update''"] assms(4)
      reader_run [OF reader_HasPermission assms(4)] by (simp_all add: reads_only_def params_same_def)
  then show ?thesis
    using assms
    by (simp add: bcrypt_limit_def ResetPassword_def need_permission_def validated_def validatePassword_def
        minPasswordLen_def maxPasswordLen_def tryE_def ensure_def HashPassword_def fail_def)
qed

definition short_lib :: library where [run_defs]:
  "short_lib = sample_lib\<lparr>lib_bcrypt_hash := (\<lambda>p c. if 72 < length p then None else Some p)\<rparr>"

lemma long_password_is_internal_error_witness:
  "fst (ResetPassword 10 (sample_actor 10 ''ADMIN'') 12 (replicate 80 (CHR ''x'')) ((sample_world user_db)\<lparr>w_lib := short_lib\<rparr>)) =
     Inl (ErrInternal (StdErr ''bcrypt''))"
proof -
  let ?w = "(sample_world user_db)\<lparr>w_lib := short_lib\<rparr>"
  have "fst (HasPermission (sample_actor 10 ''ADMIN'') ''user:update'' ?w) = Inr True"
    supply run_congs [cong]
    by (simp add: run_defs)
  then obtain w1 where perm: "HasPermission (sample_actor 10 ''ADMIN'') ''user:update'' ?w = (Inr True, w1)"
    by (metis prod.collapse)
  have "bcrypt_limit (w_lib ?w)" by (simp add: bcrypt_limit_def short_lib_def)
  from long_password_is_internal_error [OF this _ _ perm] show ?thesis by simp
qed

end
