(* ===== verification/AuthService.thy ===== *)
theory AuthService
  imports UserService
begin

text \<open>
  backend/internal/service/auth\_service.go with backend/internal/ratelimit/limiter.go,
  backend/internal/auth (jwt.go, refresh.go, password.go) and
  backend/internal/middleware/auth\_middleware.go: sign-in, rotation of refresh tokens with
  reuse detection, sign-out, and the identity behind a bearer token.  The service owns the
  table auth\_sessions; the limiter owns the counters in Redis.
\<close>

section \<open>The rate limiter\<close>

text \<open>
  Allow fails when Redis does; the callers then let the request pass, and look at the
  returned flag and delay only when it does not fail.
\<close>

definition limit_prefix :: string where [run_defs]:
  "limit_prefix = ''ratelimit:''"

definition Allow :: "string \<Rightarrow> int \<Rightarrow> time \<Rightarrow> (bool \<times> time) op" where [run_defs]:
  "Allow key lim window = (let fullKey = limit_prefix @ key in
     bindE (redis_incr fullKey) (\<lambda>count.
     bindE (if count = 1 then redis_expire fullKey window else ret ()) (\<lambda>_.
     if count \<le> lim then ret (True, 0)
     else tryE (redis_ttl fullKey) (\<lambda>_. ret (False, window))
       (\<lambda>ttl. ret (False, if ttl < 0 then window else ttl)))))"

definition Reset :: "string \<Rightarrow> unit op" where [run_defs]:
  "Reset key = redis_del (limit_prefix @ key)"

section \<open>Access tokens\<close>

record JWTManager =
  jm_signingKey :: string
  jm_issuer :: string
  jm_audience :: string
  jm_accessTTL :: time

definition CreateAccessToken :: "JWTManager \<Rightarrow> uuid \<Rightarrow> string \<Rightarrow> (string \<times> time) op" where [run_defs]:
  "CreateAccessToken m userID role =
     bindE time_now (\<lambda>now. bindE uuid_new (\<lambda>jti. bindE (get_world w_lib) (\<lambda>lib.
     let expiresAt = now + jm_accessTTL m;
       claims = \<lparr>cl_Role = role, cl_Issuer = jm_issuer m, cl_Subject = uuid_string userID,
         cl_Audience = [jm_audience m], cl_ExpiresAt = expiresAt, cl_IssuedAt = now,
         cl_NotBefore = now, cl_ID = uuid_string jti\<rparr> in
     case lib_sign_jwt lib (jm_signingKey m) claims of None \<Rightarrow> fail (StdErr ''jwt: sign'')
     | Some token \<Rightarrow> ret (token, expiresAt))))"

definition Validate :: "JWTManager \<Rightarrow> string \<Rightarrow> Claims op" where [run_defs]:
  "Validate m token = bindE time_now (\<lambda>now. bindE (get_world w_lib) (\<lambda>lib.
     case lib_parse_jwt lib (jm_signingKey m) (jm_issuer m) (jm_audience m) now token of
       None \<Rightarrow> fail (StdErr ''token is invalid'')
     | Some claims \<Rightarrow> ensure (cl_Subject claims \<noteq> '''') (StdErr ''token has invalid subject'') (ret claims)))"

section \<open>Refresh tokens and passwords\<close>

definition random_token :: "string op" where [run_defs]:
  "random_token = infra (\<lambda>w. (Inr (lib_random_token (w_lib w) (w_rng_i w)),
     w\<lparr>w_rng_i := Suc (w_rng_i w)\<rparr>))"

definition GenerateRefreshToken :: "string op" where [run_defs]:
  "GenerateRefreshToken = try_wrap random_token ''auth: generate refresh token'' ret"

definition HashRefreshToken :: "library \<Rightarrow> string \<Rightarrow> bytes" where [run_defs]:
  "HashRefreshToken lib raw = lib_sha256 lib raw"

definition VerifyPassword :: "library \<Rightarrow> string \<Rightarrow> string \<Rightarrow> bool" where [run_defs]:
  "VerifyPassword lib hash password = lib_bcrypt_ok lib hash password"

section \<open>The service and its results\<close>

record UserSummary =
  sm_ID :: uuid
  sm_Email :: string
  sm_FirstName :: string
  sm_LastName :: string
  sm_Role :: string

record AuthResult =
  ar_AccessToken :: string
  ar_AccessExpiresAt :: time
  ar_RefreshToken :: string
  ar_RefreshExpiresAt :: time
  ar_User :: UserSummary

record LoginRateLimitConfig =
  lc_IPMax :: int
  lc_IPWindow :: time
  lc_AccountMax :: int
  lc_AccountWindow :: time

record AuthService =
  sv_jwt :: JWTManager
  sv_refreshTTL :: time
  sv_loginLimits :: LoginRateLimitConfig
  sv_dummyHash :: string

definition genericAuthError :: string where [run_defs]:
  "genericAuthError = ''Invalid email or password''"

definition genericRefreshError :: string where [run_defs]:
  "genericRefreshError = ''Invalid or expired refresh token''"

definition loginRateLimitError :: string where [run_defs]:
  "loginRateLimitError = ''Too many login attempts. Please try again later.''"

definition primaryRoleName :: "role_row list \<Rightarrow> string" where [run_defs]:
  "primaryRoleName roles = (case roles of [] \<Rightarrow> '''' | r # _ \<Rightarrow> r_name r)"

definition stringPtrOrNil :: "string \<Rightarrow> string option" where [run_defs]:
  "stringPtrOrNil s = (if s = '''' then None else Some s)"

definition hashLoginAccountKey :: "library \<Rightarrow> string \<Rightarrow> string" where [run_defs]:
  "hashLoginAccountKey lib email = hex_encode (lib_sha256 lib (lib_to_lower lib email))"

text \<open>The summary the caller of issueSession fills in.\<close>

definition no_user :: UserSummary where [run_defs]:
  "no_user = \<lparr>sm_ID = nil_uuid, sm_Email = '''', sm_FirstName = '''', sm_LastName = '''', sm_Role = ''''\<rparr>"

definition profile_summary :: "user_row \<Rightarrow> string \<Rightarrow> UserSummary" where [run_defs]:
  "profile_summary p role = \<lparr>sm_ID = u_id p, sm_Email = u_email p, sm_FirstName = u_first_name p,
     sm_LastName = u_last_name p, sm_Role = role\<rparr>"

definition recordAuthFailure :: "string \<Rightarrow> uuid option \<Rightarrow> string \<Rightarrow> unit op" where [run_defs]:
  "recordAuthFailure act userID reason = Record \<lparr>ev_action = act, ev_resource_type = ''user'',
     ev_resource_id = None, ev_user_id = userID, ev_role = '''', ev_case_id = None,
     ev_metadata = JObj [(''reason'', JStr reason)]\<rparr>"

definition auth_event :: "string \<Rightarrow> string \<Rightarrow> uuid \<Rightarrow> uuid option \<Rightarrow> string \<Rightarrow> event" where [run_defs]:
  "auth_event act rty userID rid role = \<lparr>ev_action = act, ev_resource_type = rty,
     ev_resource_id = rid, ev_user_id = Some userID, ev_role = role, ev_case_id = None,
     ev_metadata = JNull\<rparr>"

section \<open>Transactions of the service\<close>

definition fetchAuthRow :: "string \<Rightarrow> user_row option op" where [run_defs]:
  "fetchAuthRow email = WithTx anonymous (tryE (q_GetUserByEmailForAuth email)
     (\<lambda>e. if is_no_rows e then ret None else fail e) (\<lambda>r. ret (Some r)))"

definition fetchSessionByHash :: "bytes \<Rightarrow> session_row option op" where [run_defs]:
  "fetchSessionByHash h = WithTx anonymous (tryE (q_GetAuthSessionByTokenHash h)
     (\<lambda>e. if is_no_rows e then ret None else fail e) (\<lambda>s. ret (Some s)))"

definition issueSession ::
    "AuthService \<Rightarrow> uuid \<Rightarrow> string \<Rightarrow> uuid \<Rightarrow> string \<Rightarrow> string \<Rightarrow> (AuthResult \<times> uuid) op" where [run_defs]:
  "issueSession sv userID role familyID ip agent =
     try_wrap (CreateAccessToken (sv_jwt sv) userID role) ''create access token'' (\<lambda>(token, expires).
     try_wrap GenerateRefreshToken ''generate refresh token'' (\<lambda>raw.
     bindE time_now (\<lambda>now. bindE (get_world w_lib) (\<lambda>lib.
     try_wrap (WithTx anonymous (q_CreateAuthSession userID familyID (HashRefreshToken lib raw)
         (now + sv_refreshTTL sv) (stringPtrOrNil ip) (stringPtrOrNil agent))) ''create session'' (\<lambda>created.
     ret (\<lparr>ar_AccessToken = token, ar_AccessExpiresAt = expires, ar_RefreshToken = raw,
       ar_RefreshExpiresAt = now + sv_refreshTTL sv, ar_User = no_user\<rparr>, as_id created))))))"

definition load_profile :: "uuid \<Rightarrow> (user_row \<times> role_row list) op" where [run_defs]:
  "load_profile userID =
     try_wrap (q_GetUserByID userID) ''load profile'' (\<lambda>p.
     try_wrap (q_ListRolesForUser userID) ''load roles'' (\<lambda>rs. ret (p, rs)))"

section \<open>Login\<close>

text \<open>One of the two counters of a login attempt; when it refuses, the rest does not run.\<close>

definition limited :: "string \<Rightarrow> int \<Rightarrow> time \<Rightarrow> string \<Rightarrow> unit op \<Rightarrow> unit op" where [run_defs]:
  "limited key lim window reason k = tryE (Allow key lim window) (\<lambda>_. k) (\<lambda>(allowed, retryAfter).
     if allowed then k
     else bindE (recordAuthFailure ''AUTH_LOGIN_RATE_LIMITED'' None reason)
       (\<lambda>_. fail (WithRetryAfter (ErrTooManyRequests loginRateLimitError) retryAfter)))"

definition checkLoginRateLimit :: "LoginRateLimitConfig \<Rightarrow> string \<Rightarrow> string \<Rightarrow> unit op" where [run_defs]:
  "checkLoginRateLimit lc ip acctKey =
     (let acct = limited acctKey (lc_AccountMax lc) (lc_AccountWindow lc) ''account_rate_limited'' (ret ()) in
      if ip \<noteq> '''' then limited (''login:ip:'' @ ip) (lc_IPMax lc) (lc_IPWindow lc) ''ip_rate_limited'' acct
      else acct)"

definition login_refused :: "uuid option \<Rightarrow> string \<Rightarrow> 'a op" where [run_defs]:
  "login_refused userID reason = bindE (recordAuthFailure ''AUTH_LOGIN_FAILED'' userID reason)
     (\<lambda>_. fail (ErrUnauthorized genericAuthError))"

definition login_tx :: "uuid \<Rightarrow> (user_row \<times> role_row list) op" where [run_defs]:
  "login_tx i = WithTx anonymous (bindE (load_profile i) (\<lambda>(p, rs).
     bindE (q_UpdateUserLastLogin i) (\<lambda>_. ret (p, rs))))"

text \<open>From the row whose password matched to the session.\<close>

definition login_user :: "AuthService \<Rightarrow> string \<Rightarrow> user_row \<Rightarrow> string \<Rightarrow> string \<Rightarrow> AuthResult op" where [run_defs]:
  "login_user sv acctKey authRow ip agent =
     tryE (login_tx (u_id authRow)) (\<lambda>e. fail (ErrInternal e)) (\<lambda>(profile, roles).
     let primaryRole = primaryRoleName roles in
     bindE uuid_new (\<lambda>family.
     tryE (issueSession sv (u_id authRow) primaryRole family ip agent) (\<lambda>e. fail (ErrInternal e))
       (\<lambda>(result, _).
     ignoring (Reset acctKey) (
     bindE (Record (auth_event ''AUTH_LOGIN_SUCCESS'' ''user'' (u_id authRow) None primaryRole)) (\<lambda>_.
     ret (result\<lparr>ar_User := profile_summary profile primaryRole\<rparr>))))))"

definition Login :: "AuthService \<Rightarrow> string \<Rightarrow> string \<Rightarrow> string \<Rightarrow> string \<Rightarrow> AuthResult op" where [run_defs]:
  "Login sv email password ip agent =
     bindE (get_world w_lib) (\<lambda>lib.
     let acctKey = ''login:acct:'' @ hashLoginAccountKey lib email in
     bindE (checkLoginRateLimit (sv_loginLimits sv) ip acctKey) (\<lambda>_.
     tryE (fetchAuthRow email) (\<lambda>e. fail (ErrInternal e)) (\<lambda>found.
     case found of None \<Rightarrow> login_refused None ''unknown_email''
     | Some authRow \<Rightarrow>
       if u_status authRow \<noteq> ''active'' then login_refused (Some (u_id authRow)) ''inactive_account''
       else if \<not> VerifyPassword lib (u_password_hash authRow) password
       then login_refused (Some (u_id authRow)) ''wrong_password''
       else login_user sv acctKey authRow ip agent)))"

section \<open>Refresh\<close>

definition refresh_refused :: "uuid option \<Rightarrow> string \<Rightarrow> 'a op" where [run_defs]:
  "refresh_refused userID reason = bindE (recordAuthFailure ''AUTH_REFRESH_FAILED'' userID reason)
     (\<lambda>_. fail (ErrUnauthorized genericRefreshError))"

definition refresh_reused :: "session_row \<Rightarrow> 'a op" where [run_defs]:
  "refresh_reused s = tryE (WithTx anonymous (q_RevokeAuthSessionFamily (as_family_id s)))
     (\<lambda>e. fail (ErrInternal e)) (\<lambda>_.
     bindE (Record (auth_event ''AUTH_REFRESH_REUSE_DETECTED'' ''auth_session'' (as_user_id s) (Some (as_id s)) ''''))
       (\<lambda>_. fail (ErrUnauthorized genericRefreshError)))"

text \<open>From a session that was fetched, active and not expired, to the new pair of tokens.\<close>

definition rotate_session :: "AuthService \<Rightarrow> session_row \<Rightarrow> string \<Rightarrow> string \<Rightarrow> AuthResult op" where [run_defs]:
  "rotate_session sv s ip agent =
     tryE (WithTx anonymous (load_profile (as_user_id s))) (\<lambda>e. fail (ErrInternal e)) (\<lambda>(profile, roles).
     if u_status profile \<noteq> ''active'' then refresh_refused (Some (as_user_id s)) ''inactive_account''
     else (let primaryRole = primaryRoleName roles in
       tryE (issueSession sv (as_user_id s) primaryRole (as_family_id s) ip agent)
         (\<lambda>e. fail (ErrInternal e)) (\<lambda>(result, newID).
       tryE (WithTx anonymous (q_RevokeAuthSessionAndReplace (as_id s) newID)) (\<lambda>e. fail (ErrInternal e)) (\<lambda>_.
       bindE (Record (auth_event ''AUTH_REFRESH_SUCCESS'' ''auth_session'' (as_user_id s) (Some newID) '''')) (\<lambda>_.
       ret (result\<lparr>ar_User := profile_summary profile primaryRole\<rparr>))))))"

definition Refresh :: "AuthService \<Rightarrow> string \<Rightarrow> string \<Rightarrow> string \<Rightarrow> AuthResult op" where [run_defs]:
  "Refresh sv rawToken ip agent =
     bindE (get_world w_lib) (\<lambda>lib.
     tryE (fetchSessionByHash (HashRefreshToken lib rawToken)) (\<lambda>e. fail (ErrInternal e)) (\<lambda>found.
     case found of None \<Rightarrow> refresh_refused None ''unknown_token''
     | Some s \<Rightarrow>
       if as_revoked_at s \<noteq> None then refresh_reused s
       else bindE time_now (\<lambda>now.
         if as_expires_at s < now then refresh_refused (Some (as_user_id s)) ''expired''
         else rotate_session sv s ip agent)))"

section \<open>Logout\<close>

definition Logout :: "string \<Rightarrow> uuid \<Rightarrow> unit op" where [run_defs]:
  "Logout rawToken currentUserID =
     (if rawToken = '''' then ret ()
      else bindE (get_world w_lib) (\<lambda>lib.
        tryE (fetchSessionByHash (HashRefreshToken lib rawToken)) (\<lambda>e. fail (ErrInternal e)) (\<lambda>found.
        case found of None \<Rightarrow> ret ()
        | Some s \<Rightarrow> if as_user_id s \<noteq> currentUserID then ret ()
          else tryE (WithTx \<lparr>UserID = currentUserID, Role = ''''\<rparr> (q_RevokeAuthSession (as_id s)))
            (\<lambda>e. fail (ErrInternal e)) (\<lambda>_.
            Record (auth_event ''AUTH_LOGOUT'' ''auth_session'' currentUserID (Some (as_id s)) '''')))))"

section \<open>The identity behind a token\<close>

definition ResolveIdentity :: "uuid \<Rightarrow> authenticated_user op" where [run_defs]:
  "ResolveIdentity userID = tryE (WithTx anonymous (
       bindE (q_GetUserByID userID) (\<lambda>p. bindE (q_ListRolesForUser userID) (\<lambda>rs. ret (p, rs)))))
     (no_rows_as (ErrUnauthorized ''Authentication required'')) (\<lambda>(p, rs).
     ensure (u_status p = ''active'') (ErrUnauthorized ''Authentication required'')
       (ret \<lparr>au_ID = u_id p, au_Email = u_email p, au_Roles = map r_name rs\<rparr>))"

end
