(* ===== verification/AuthFacts.thy ===== *)
theory AuthFacts
  imports UserFacts AuthService
begin

text \<open>
  Facts about sign-in, refresh and sign-out: what each transaction leaves in auth\_sessions,
  the errors a client sees, the history of a session, and the rate limiter's counter.
\<close>

section \<open>Frames\<close>

lemma reader_auth_queries [intro!]:
  "reader.guar (q_GetUserByEmailForAuth e)" "reader.guar (q_GetAuthSessionByTokenHash h)"
  unfolding q_GetUserByEmailForAuth_def q_GetAuthSessionByTokenHash_def by auto

lemma reader_random_token [intro!]: "reader.guar random_token"
  unfolding random_token_def
  by (rule reader.guar_infra) (simp add: reader.guar_def reads_only_def params_same_def)

lemma reader_GenerateRefreshToken [intro!]: "reader.guar GenerateRefreshToken"
  unfolding GenerateRefreshToken_def by auto

lemma reader_CreateAccessToken [intro!]: "reader.guar (CreateAccessToken m u r)"
  unfolding CreateAccessToken_def Let_def by auto

lemma reader_Validate [intro!]: "reader.guar (Validate m t)"
  unfolding Validate_def by auto

lemma reader_fetchAuthRow [intro!]: "reader.guar (fetchAuthRow e)"
  unfolding fetchAuthRow_def by auto

lemma reader_fetchSessionByHash [intro!]: "reader.guar (fetchSessionByHash h)"
  unfolding fetchSessionByHash_def by auto

lemma reader_load_profile [intro!]: "reader.guar (load_profile u)"
  unfolding load_profile_def by auto

lemma reader_ResolveIdentity [intro!]: "reader.guar (ResolveIdentity u)"
  unfolding ResolveIdentity_def no_rows_as_def by auto

lemma reader_Allow [intro!]: "reader.guar (Allow k l n)"
  unfolding Allow_def Let_def by auto

lemma frame_recordAuthFailure [intro!]: "audit_frame.guar (recordAuthFailure a u r)"
  unfolding recordAuthFailure_def by auto

lemma frame_limited: "audit_frame.guar k \<Longrightarrow> audit_frame.guar (limited key l n r k)"
  unfolding limited_def by (auto intro: frame_reader)

lemma frame_checkLoginRateLimit [intro!]: "audit_frame.guar (checkLoginRateLimit lc ip k)"
  unfolding checkLoginRateLimit_def Let_def by (auto intro!: frame_limited)

lemma frame_refused [intro!]:
  "audit_frame.guar (login_refused u r)" "audit_frame.guar (refresh_refused u r)"
  unfolding login_refused_def refresh_refused_def by auto

lemma frame_Reset [intro!]: "audit_frame.guar (Reset k)"
  unfolding Reset_def by auto

section \<open>Errors\<close>

lemma fails_login_refused: "P (ErrUnauthorized genericAuthError) \<Longrightarrow> fails_only P (login_refused u r)"
  unfolding login_refused_def recordAuthFailure_def by (rule fails_rules | simp)+

lemma fails_refresh_refused: "P (ErrUnauthorized genericRefreshError) \<Longrightarrow> fails_only P (refresh_refused u r)"
  unfolding refresh_refused_def recordAuthFailure_def by (rule fails_rules | simp)+

lemma fails_limited:
  "fails_only P k \<Longrightarrow> (\<And>d. P (WithRetryAfter (ErrTooManyRequests loginRateLimitError) d)) \<Longrightarrow>
     fails_only P (limited key l n r k)"
  unfolding limited_def recordAuthFailure_def by (rule fails_rules | assumption | simp)+

text \<open>The only three answers of a failed Login: they do not depend on why it failed.\<close>

definition login_error :: "gerr \<Rightarrow> bool" where
  "login_error e \<longleftrightarrow> e = ErrUnauthorized genericAuthError \<or>
     (\<exists>d. e = WithRetryAfter (ErrTooManyRequests loginRateLimitError) d) \<or> (\<exists>c. e = ErrInternal c)"

lemma login_error_simps [simp]:
  "login_error (ErrUnauthorized genericAuthError)" "login_error (ErrInternal e)"
  "login_error (WithRetryAfter (ErrTooManyRequests loginRateLimitError) d)"
  by (auto simp: login_error_def)

lemma fails_Login: "fails_only login_error (Login sv e p ip ag)"
  unfolding Login_def login_user_def Let_def checkLoginRateLimit_def
  by (rule fails_login_refused fails_limited fails_rules login_error_simps | simp)+

definition refresh_error :: "gerr \<Rightarrow> bool" where
  "refresh_error e \<longleftrightarrow> e = ErrUnauthorized genericRefreshError \<or> (\<exists>c. e = ErrInternal c)"

lemma refresh_error_simps [simp]:
  "refresh_error (ErrUnauthorized genericRefreshError)" "refresh_error (ErrInternal e)"
  by (auto simp: refresh_error_def)

lemma fails_Refresh: "fails_only refresh_error (Refresh sv t ip ag)"
  unfolding Refresh_def rotate_session_def refresh_reused_def Let_def
  by (rule fails_refresh_refused fails_rules refresh_error_simps | simp)+

lemma login_error_safe: "login_error e \<Longrightarrow> client_safe e"
  by (auto simp: login_error_def)

lemma refresh_error_safe: "refresh_error e \<Longrightarrow> client_safe e"
  by (auto simp: refresh_error_def)

section \<open>What the transactions do\<close>

lemma fetchAuthRow_run:
  "fetchAuthRow e w = (Inr (Some u), w') \<Longrightarrow>
     u \<in> set (t_users (w_db w)) \<and> lower (u_email u) = lower e \<and> tables w' = tables w"
  using reader_run [OF reader_fetchAuthRow, of e w "Inr (Some u)" w']
  by (auto simp: fetchAuthRow_def WithTx_run tryE_Inr ret_run fail_run q_GetUserByEmailForAuth_def query_run
      dest!: filter_headD split: if_splits)

lemma fetchSessionByHash_run:
  assumes "fetchSessionByHash h w = (Inr found, w')"
  shows "tables w' = tables w \<and>
     (\<forall>s. found = Some s \<longrightarrow> s \<in> set (t_sessions (w_db w)) \<and> as_token_hash s = h) \<and>
     (found = None \<longrightarrow> (\<forall>s\<in>set (t_sessions (w_db w)). as_token_hash s \<noteq> h))"
  using reader_run [OF reader_fetchSessionByHash assms] assms
  by (auto simp: fetchSessionByHash_def WithTx_run tryE_Inr ret_run fail_run q_GetAuthSessionByTokenHash_def
      query_run query_Inl filter_empty_conv dest!: filter_headD split: if_splits)

lemma load_profile_run:
  assumes "load_profile i w = (Inr (p, rs), w')"
  shows "p \<in> set (t_users (w_db w)) \<and> u_id p = i \<and> rs = roles_of (w_db w) i \<and> tables w' = tables w"
proof -
  from assms obtain w1 where p: "q_GetUserByID i w = (Inr p, w1)" and r: "q_ListRolesForUser i w1 = (Inr rs, w')"
    by (auto simp: load_profile_def tryE_Inr ret_run fail_run)
  show ?thesis
    using q_GetUserByID_run [OF p] q_ListRolesForUser_run [OF r] reader_db [OF reader_case_queries(5) p] by simp
qed

text \<open>A session that has just been issued.\<close>

definition issued :: "database \<Rightarrow> session_row \<Rightarrow> bool" where
  "issued d s \<longleftrightarrow> length (as_token_hash s) = 32 \<and> as_revoked_at s = None \<and> as_replaced_by s = None \<and>
     (\<forall>x\<in>set (t_sessions d). as_id x \<noteq> as_id s \<and> as_token_hash x \<noteq> as_token_hash s) \<and>
     (\<exists>u\<in>set (t_users d). u_id u = as_user_id s)"

lemma q_CreateAuthSession_run:
  assumes "q_CreateAuthSession u f h e ip ag w = (Inr s, w')"
  shows "tables w' = (tables w)\<lparr>t_sessions := t_sessions (tables w) @ [s]\<rparr> \<and> issued (tables w) s \<and>
     as_user_id s = u \<and> as_family_id s = f \<and> as_token_hash s = h \<and> as_expires_at s = e"
  using assms
  by (auto simp: q_CreateAuthSession_def exec_new_run Let_def sessions_checks_def issued_def tables_def
      user_exists_def list_ex_iff)

lemma issueSession_run:
  assumes "issueSession sv u r f ip ag w = (Inr (a, i), w')"
  shows "\<exists>s. tables w' = (tables w)\<lparr>t_sessions := t_sessions (tables w) @ [s]\<rparr> \<and> issued (tables w) s \<and>
     as_user_id s = u \<and> as_family_id s = f \<and> as_id s = i \<and> as_expires_at s = ar_RefreshExpiresAt a \<and>
     as_token_hash s = HashRefreshToken (w_lib w) (ar_RefreshToken a)"
proof -
  from assms obtain tk ex w1 raw w2 now w3 s w4 where
    a: "CreateAccessToken (sv_jwt sv) u r w = (Inr (tk, ex), w1)" and g: "GenerateRefreshToken w1 = (Inr raw, w2)"
    and n: "time_now w2 = (Inr now, w3)"
    and s: "WithTx anonymous (q_CreateAuthSession u f (HashRefreshToken (w_lib w3) raw) (now + sv_refreshTTL sv)
        (stringPtrOrNil ip) (stringPtrOrNil ag)) w3 = (Inr s, w')"
    and res: "i = as_id s" "ar_RefreshToken a = raw" "ar_RefreshExpiresAt a = now + sv_refreshTTL sv"
    unfolding issueSession_def
    by (auto simp: tryE_Inr fail_run ret_run get_world_run)
  have reads: "reads_only w w1" "reads_only w1 w2" "reads_only w2 w3"
    using reader.guarD [OF reader_CreateAccessToken, of w "sv_jwt sv" u r] a
      reader.guarD [OF reader_GenerateRefreshToken, of w1] g reader.guarD [OF reader.guar_time_now, of w2] n by simp_all
  then have eq: "tables w3 = tables w" "w_lib w3 = w_lib w"
    by (auto simp: reads_only_def params_same_def intro: tables_cong)
  from s obtain w4 where q: "q_CreateAuthSession u f (HashRefreshToken (w_lib w3) raw) (now + sv_refreshTTL sv)
        (stringPtrOrNil ip) (stringPtrOrNil ag) (started anonymous w3) = (Inr s, w4)"
      and t: "tables w' = tables w4" by (auto simp: WithTx_run)
  have "tables (started anonymous w3) = tables w" using eq by simp
  then show ?thesis using q_CreateAuthSession_run [OF q] t eq(2) res by auto
qed

lemma param_statements [intro!]:
  "param.guar (query q)" "param.guar (exec x)" "param.guar (exec_new y)"
  by (auto intro!: param.guar_exec param.guar_exec_new simp: params_same_def)

lemma param_login_tx: "param.guar (login_tx i)"
  unfolding login_tx_def load_profile_def q_GetUserByID_def q_ListRolesForUser_def q_UpdateUserLastLogin_def
  by auto

lemma param_checkLoginRateLimit: "param.guar (checkLoginRateLimit lc ip k)"
  unfolding checkLoginRateLimit_def limited_def Allow_def Let_def recordAuthFailure_def by auto

text \<open>The stamp a login leaves on the user's row.\<close>

definition logged_in :: "uuid \<Rightarrow> time \<Rightarrow> user_row list \<Rightarrow> user_row list" where
  "logged_in i now us = update_where (\<lambda>u. u_id u = i) (\<lambda>u. u\<lparr>u_last_login_at := Some now\<rparr>) us"

lemma logged_in_ids: "map u_id (logged_in i now us) = map u_id us"
  unfolding logged_in_def by (rule map_update_where) simp

lemma issued_users: "map u_id us = map u_id (t_users d) \<Longrightarrow> issued (d\<lparr>t_users := us\<rparr>) s = issued d s"
proof -
  assume eq: "map u_id us = map u_id (t_users d)"
  have "(\<exists>u\<in>set us. u_id u = i) = (\<exists>u\<in>set (t_users d). u_id u = i)" for i
    using arg_cong [OF eq, of set] by (auto simp: set_eq_iff image_iff) metis+
  then show ?thesis by (simp add: issued_def)
qed

lemma login_tx_run:
  assumes "login_tx i w = (Inr (p, rs), w')"
  shows "\<exists>now. p \<in> set (t_users (w_db w)) \<and> u_id p = i \<and> rs = roles_of (w_db w) i \<and>
     tables w' = (tables w)\<lparr>t_users := logged_in i now (t_users (tables w))\<rparr>"
proof -
  from assms obtain w1 w2 where l: "load_profile i (started anonymous w) = (Inr (p, rs), w1)"
    and u: "q_UpdateUserLastLogin i w1 = (Inr (), w2)" and t: "tables w' = tables w2"
    by (auto simp: login_tx_def WithTx_run tryE_Inr ret_run fail_run)
  note load_profile_run [OF l]
  moreover have "tables w2 = (tables w1)\<lparr>t_users := logged_in i (w_tx_now w1) (t_users (tables w1))\<rparr>"
    using u by (auto simp: q_UpdateUserLastLogin_def exec_run tables_def logged_in_def)
  moreover have "tables (started anonymous w) = tables w" by simp
  ultimately show ?thesis using t by (auto simp del: tables_sel)
qed

text \<open>What a successful Login has checked, and the one session it adds.\<close>

definition signed_in :: "library \<Rightarrow> database \<Rightarrow> database \<Rightarrow> string \<Rightarrow> string \<Rightarrow> AuthResult \<Rightarrow> bool" where
  "signed_in lib d d' email password r \<longleftrightarrow> (\<exists>u s now. u \<in> set (t_users d) \<and> lower (u_email u) = lower email \<and>
     u_status u = ''active'' \<and> VerifyPassword lib (u_password_hash u) password \<and>
     issued d s \<and> as_user_id s = u_id u \<and> as_token_hash s = HashRefreshToken lib (ar_RefreshToken r) \<and>
     d' = d\<lparr>t_users := logged_in (u_id u) now (t_users d), t_sessions := t_sessions d @ [s]\<rparr>)"

lemma login_refused_never: "login_refused u r w \<noteq> (Inr x, w')"
  using fails_onlyD by (auto simp: login_refused_def tryE_Inr fail_run)

lemma refresh_refused_never: "refresh_refused u r w \<noteq> (Inr x, w')"
  by (auto simp: refresh_refused_def tryE_Inr fail_run)

lemma login_user_run:
  assumes "login_user sv key u ip ag w = (Inr r, w')"
  shows "\<exists>s now. issued (tables w) s \<and> as_user_id s = u_id u \<and>
     as_token_hash s = HashRefreshToken (w_lib w) (ar_RefreshToken r) \<and>
     tables w' = (tables w)\<lparr>t_users := logged_in (u_id u) now (t_users (tables w)),
       t_sessions := t_sessions (tables w) @ [s]\<rparr>"
proof -
  from assms obtain p rs w3 fam w4 a i w5 where
    tx: "login_tx (u_id u) w = (Inr (p, rs), w3)" and fam: "uuid_new w3 = (Inr fam, w4)"
    and iss: "issueSession sv (u_id u) (primaryRoleName rs) fam ip ag w4 = (Inr (a, i), w5)"
    and rec: "tryE (Record (auth_event ''AUTH_LOGIN_SUCCESS'' ''user'' (u_id u) None (primaryRoleName rs))) fail
       (\<lambda>_. ret (a\<lparr>ar_User := profile_summary p (primaryRoleName rs)\<rparr>)) (snd (Reset key w5)) = (Inr r, w')"
    unfolding login_user_def Let_def
    by (auto simp: tryE_Inr [where m = "login_tx _"] tryE_Inr [where m = uuid_new]
        tryE_Inr [where m = "issueSession _ _ _ _ _ _"] fail_run ignoring_def)
  obtain now where t3: "tables w3 = (tables w)\<lparr>t_users := logged_in (u_id u) now (t_users (tables w))\<rparr>"
    using login_tx_run [OF tx] by blast
  have t4: "tables w4 = tables w3" "w_lib w4 = w_lib w3"
    using fam by (auto simp: uuid_new_def intro: tables_cong)
  have lib: "w_lib w3 = w_lib w"
    using param.guarD [OF param_login_tx, of w "u_id u"] tx by (simp add: params_same_def)
  have r: "ar_RefreshToken r = ar_RefreshToken a" "tables w' = tables w5"
    using rec frame_tables [OF frame_Reset surjective_pairing, of key w5]
    by (auto simp: tryE_Inr ret_run fail_run dest!: Record_run)
  obtain s where s: "tables w5 = (tables w4)\<lparr>t_sessions := t_sessions (tables w4) @ [s]\<rparr>" "issued (tables w4) s"
    "as_user_id s = u_id u" "as_token_hash s = HashRefreshToken (w_lib w4) (ar_RefreshToken a)"
    using issueSession_run [OF iss] by blast
  have "issued (tables w) s"
    using s(2) issued_users [OF logged_in_ids] unfolding t4 t3 by blast
  then show ?thesis
    by (intro exI [of _ s] exI [of _ now]) (use s t3 t4 lib r in simp)
qed

lemma Login_run:
  assumes "Login sv email password ip ag w = (Inr r, w')"
  shows "signed_in (w_lib w) (tables w) (tables w') email password r"
proof -
  let ?key = "''login:acct:'' @ hashLoginAccountKey (w_lib w) email"
  from assms obtain w1 u w2 where
    l: "checkLoginRateLimit (sv_loginLimits sv) ip ?key w = (Inr (), w1)"
    and f: "fetchAuthRow email w1 = (Inr (Some u), w2)" and act: "u_status u = ''active''"
    and pw: "VerifyPassword (w_lib w) (u_password_hash u) password"
    and rest: "login_user sv ?key u ip ag w2 = (Inr r, w')"
    unfolding Login_def Let_def
    by (auto simp: tryE_Inr fail_run get_world_run login_refused_never split: option.splits if_splits)
  have t: "tables w1 = tables w" by (rule frame_tables [OF frame_checkLoginRateLimit l])
  have t2: "tables w2 = tables w" using fetchAuthRow_run [OF f] t by simp
  have u: "u \<in> set (t_users (tables w))" "lower (u_email u) = lower email"
    using fetchAuthRow_run [OF f] tables_eqD(1) [OF t] by simp_all
  have lib: "w_lib w2 = w_lib w"
    using param.guarD [OF param_checkLoginRateLimit, of w "sv_loginLimits sv" ip ?key] l
      reader.guarD [OF reader_fetchAuthRow, of w1 email] f by (simp add: reads_only_def params_same_def)
  show ?thesis
    using login_user_run [OF rest, unfolded t2 lib] u act pw unfolding signed_in_def by blast
qed

section \<open>The history of a session\<close>

text \<open>
  A session row never disappears and never changes what identifies it; it is revoked once
  and from then on frozen.
\<close>

definition evolves :: "session_row \<Rightarrow> session_row \<Rightarrow> bool" where
  "evolves s t \<longleftrightarrow> as_id t = as_id s \<and> as_user_id t = as_user_id s \<and> as_family_id t = as_family_id s \<and>
     as_token_hash t = as_token_hash s \<and> as_expires_at t = as_expires_at s \<and>
     (as_revoked_at s \<noteq> None \<longrightarrow> t = s)"

definition history :: "session_row list \<Rightarrow> session_row list \<Rightarrow> bool" where
  "history ss ts \<longleftrightarrow> (\<exists>us vs. ts = us @ vs \<and> list_all2 evolves ss us)"

definition session_inv :: "database \<Rightarrow> bool" where [run_defs]:
  "session_inv d \<longleftrightarrow> distinct (map as_id (t_sessions d)) \<and> distinct (map as_token_hash (t_sessions d)) \<and>
     list_all (\<lambda>s. length (as_token_hash s) = 32 \<and> (as_replaced_by s \<noteq> None \<longrightarrow> as_revoked_at s \<noteq> None))
       (t_sessions d)"

definition session_step :: "world \<Rightarrow> world \<Rightarrow> bool" where
  "session_step w w' \<longleftrightarrow> history (t_sessions (w_db w)) (t_sessions (w_db w')) \<and>
     (session_inv (w_db w) \<longrightarrow> session_inv (w_db w'))"

lemma evolves_refl [simp]: "evolves s s"
  by (simp add: evolves_def)

lemma evolves_trans: "evolves s t \<Longrightarrow> evolves t u \<Longrightarrow> evolves s u"
  by (auto simp: evolves_def)

lemma history_refl [simp]: "history ss ss"
  unfolding history_def by (rule exI [of _ ss]) (simp add: list_all2_same)

lemma history_append [simp]: "history ss (ss @ vs)"
  unfolding history_def by (rule exI [of _ ss]) (simp add: list_all2_same)

lemma history_trans:
  assumes "history ss ts" "history ts us"
  shows "history ss us"
proof -
  obtain ts1 ts2 where t: "ts = ts1 @ ts2" "list_all2 evolves ss ts1" using assms(1) unfolding history_def by blast
  obtain us1 us2 where u: "us = us1 @ us2" "list_all2 evolves ts us1" using assms(2) unfolding history_def by blast
  from u(2) t(1) obtain xs ys where "us1 = xs @ ys" "list_all2 evolves ts1 xs"
    by (auto simp: list_all2_append1)
  then have "us = xs @ (ys @ us2)" "list_all2 evolves ss xs"
    using u(1) list_all2_trans [OF evolves_trans t(2)] by auto
  then show ?thesis unfolding history_def by blast
qed

interpretation session: guarantee session_step
  by unfold_locales (auto simp: session_step_def intro: history_trans)

lemma session_same: "t_sessions (w_db w') = t_sessions (w_db w) \<Longrightarrow> session_step w w'"
  by (simp add: session_step_def session_inv_def)

lemma session_frame: "audit_frame.guar m \<Longrightarrow> session.guar m"
  by (rule session.guarI) (metis audit_frame.guarD only_audit_tables session_same tables_eqD(11))

lemma session_reader: "reader.guar m \<Longrightarrow> session.guar m"
  by (rule session_frame) (rule frame_reader)

lemma session_update:
  assumes "\<And>s. p s \<Longrightarrow> evolves s (f s) \<and> as_revoked_at (f s) \<noteq> None"
  shows "session_step w (w\<lparr>w_db := d\<lparr>t_sessions := update_where p f (t_sessions (w_db w))\<rparr>\<rparr>)"
proof -
  let ?ss = "t_sessions (w_db w)"
  have "list_all2 evolves ?ss (update_where p f ?ss)"
    unfolding update_where_def by (auto simp: list_all2_conv_all_nth assms)
  then have "history ?ss (update_where p f ?ss)"
    unfolding history_def by (intro exI [of _ "update_where p f ?ss"] exI [of _ "[]"]) simp
  moreover have "map as_id (update_where p f ?ss) = map as_id ?ss"
    "map as_token_hash (update_where p f ?ss) = map as_token_hash ?ss"
    by (rule map_update_where, use assms in \<open>simp add: evolves_def\<close>)+
  moreover have "list_all (\<lambda>s. length (as_token_hash s) = 32 \<and> (as_replaced_by s \<noteq> None \<longrightarrow> as_revoked_at s \<noteq> None))
      (update_where p f ?ss)"
    if "list_all (\<lambda>s. length (as_token_hash s) = 32 \<and> (as_replaced_by s \<noteq> None \<longrightarrow> as_revoked_at s \<noteq> None)) ?ss"
    using that assms unfolding update_where_def list_all_iff by (auto simp: evolves_def)
  ultimately show ?thesis by (simp add: session_step_def session_inv_def)
qed

lemma session_revoke: "(\<And>now s. as_revoked_at s = None \<Longrightarrow> evolves s ((f now s)\<lparr>as_revoked_at := Some now\<rparr>)) \<Longrightarrow>
    session.guar (revoke_sessions p f)"
  unfolding revoke_sessions_def
  by (rule session.guar_exec) (auto intro!: session_update)

lemma session_statements:
  "session.guar (q_CreateAuthSession u f h e ip ag)" "session.guar (q_RevokeAuthSessionAndReplace i n)"
  "session.guar (q_RevokeAuthSession i)" "session.guar (q_RevokeAuthSessionFamily f)"
  "session.guar (q_RevokeAllAuthSessionsForUser u)"
proof -
  show "session.guar (q_CreateAuthSession u f h e ip ag)"
    unfolding q_CreateAuthSession_def
    by (rule session.guar_exec_new)
      (auto simp: Let_def sessions_checks_def session_step_def session_inv_def list_ex_iff)
  show "session.guar (q_RevokeAuthSessionAndReplace i n)"
    unfolding q_RevokeAuthSessionAndReplace_def
    by (rule session.guar_exec) (auto intro!: session_update simp: evolves_def split: if_splits)
qed (simp_all add: q_RevokeAuthSession_def q_RevokeAuthSessionFamily_def q_RevokeAllAuthSessionsForUser_def
    session_revoke evolves_def)

lemma session_user_statements:
  "session.guar (q_UpdateUserLastLogin i)" "session.guar (q_UpdateUserStatus i s)"
  "session.guar (q_UpdateUserPasswordHash i h)"
  unfolding q_UpdateUserLastLogin_def q_UpdateUserStatus_def q_UpdateUserPasswordHash_def
  by (rule session.guar_exec; auto simp: update_one_Inr intro!: session_same split: if_splits)+

lemma session_operations:
  "session.guar (Login sv em pw ip ag)" "session.guar (Refresh sv tok ip ag)" "session.guar (Logout tok u)"
  "session.guar (UpdateStatus a t st)" "session.guar (ResetPassword c a t np)"
proof -
  note frames = frame_checkLoginRateLimit frame_refused frame_Reset frame_Record frame_publish_user
    frame_user_tx_error frame_no_rows_as
  note readers = reader_fetchAuthRow reader_fetchSessionByHash reader_load_profile reader_CreateAccessToken
    reader_GenerateRefreshToken reader_loadUserSummary reader_ensureNotLastActiveAdmin reader_HashPassword
    reader_HasPermission reader_case_queries
  note rules = session_statements session_user_statements frames [THEN session_frame] readers [THEN session_reader]
    session.guar_rules
  show "session.guar (Login sv em pw ip ag)"
    unfolding Login_def login_user_def login_tx_def issueSession_def Let_def by (rule rules | simp)+
  show "session.guar (Refresh sv tok ip ag)"
    unfolding Refresh_def rotate_session_def refresh_reused_def issueSession_def Let_def by (rule rules | simp)+
  show "session.guar (Logout tok u)" unfolding Logout_def by (rule rules | simp)+
  show "session.guar (UpdateStatus a t st)"
    unfolding UpdateStatus_def update_status_tx_def need_permission_def by (rule rules | simp)+
  show "session.guar (ResetPassword c a t np)"
    unfolding ResetPassword_def reset_password_tx_def need_permission_def validated_def by (rule rules | simp)+
qed

section \<open>Failed logins, reuse, rotation\<close>

lemma login_user_fail:
  assumes "login_user sv key u ip ag w = (Inl e, w')"
  shows "t_sessions (w_db w') = t_sessions (w_db w)"
proof (cases "login_tx (u_id u) w")
  case (Pair a w1)
  show ?thesis
  proof (cases a)
    case (Inl e1)
    then have "w_db w1 = w_db w" using Pair by (auto simp: login_tx_def dest: WithTx_atomic)
    then show ?thesis using assms Pair Inl by (auto simp: login_user_def tryE_def fail_def)
  next
    case (Inr pr)
    obtain p rs where pr: "pr = (p, rs)" by (cases pr)
    have t1: "t_sessions (w_db w1) = t_sessions (w_db w)"
      using login_tx_run [of "u_id u" w p rs w1] Pair Inr pr by (auto simp flip: tables_sel)
    obtain fam w2 where fam: "uuid_new w1 = (Inr fam, w2)" "w_db w2 = w_db w1" by (auto simp: uuid_new_def)
    obtain b w3 where iss: "issueSession sv (u_id u) (primaryRoleName rs) fam ip ag w2 = (b, w3)"
      by (cases "issueSession sv (u_id u) (primaryRoleName rs) fam ip ag w2")
    have "\<exists>e. b = Inl e"
      using assms Pair Inr pr fam iss
      by (cases b) (auto simp: login_user_def tryE_def Let_def ignoring_def fail_def ret_def
          dest!: Record_run split: prod.splits sum.splits)
    then obtain e1 where b: "b = Inl e1" ..
    have "clean (issueSession sv (u_id u) (primaryRoleName rs) fam ip ag)"
      unfolding issueSession_def never_fails_def
      by (intro clean_tryE clean_tx clean_prod clean_WithTx clean_fail)
        (auto simp: never_fails_def intro: frame_reader intro!: fails_rules)
    then have "tables w3 = tables w2" using iss b by (auto dest: cleanD)
    moreover have "w' = w3"
      using assms Pair Inr pr fam iss b by (simp add: login_user_def tryE_def Let_def fail_def)
    ultimately show ?thesis using t1 fam tables_eqD(11) by metis
  qed
qed

lemma Login_fail:
  assumes "Login sv email password ip ag w = (Inl e, w')"
  shows "t_sessions (w_db w') = t_sessions (w_db w)"
proof -
  let ?key = "''login:acct:'' @ hashLoginAccountKey (w_lib w) email"
  define after where "after = (\<lambda>found. case found of None \<Rightarrow> login_refused None ''unknown_email''
     | Some authRow \<Rightarrow>
       if u_status authRow \<noteq> ''active'' then login_refused (Some (u_id authRow)) ''inactive_account''
       else if \<not> VerifyPassword (w_lib w) (u_password_hash authRow) password
       then login_refused (Some (u_id authRow)) ''wrong_password''
       else login_user sv ?key authRow ip ag)"
  have refused: "t_sessions (w_db v') = t_sessions (w_db v)"
    if "login_refused u r v = (Inl e :: gerr + AuthResult, v')" for u r v v'
    using frame_tables [OF frame_refused(1) that] by (rule tables_eqD)
  have after: "t_sessions (w_db v') = t_sessions (w_db v)" if "after found v = (Inl e, v')" for found v v'
    using that refused login_user_fail [of sv ?key]
    by (cases found) (auto simp: after_def split: if_splits)
  have run: "tryE (checkLoginRateLimit (sv_loginLimits sv) ip ?key) fail
     (\<lambda>_. tryE (fetchAuthRow email) (\<lambda>e. fail (ErrInternal e)) after) w = (Inl e, w')"
    using assms
    unfolding Login_def Let_def tryE_def [of "get_world _"] get_world_def after_def prod.case sum.case .
  obtain l w1 where l: "checkLoginRateLimit (sv_loginLimits sv) ip ?key w = (l, w1)"
    by (cases "checkLoginRateLimit (sv_loginLimits sv) ip ?key w")
  have t1: "t_sessions (w_db w1) = t_sessions (w_db w)"
    by (rule tables_eqD(11) [OF frame_tables [OF frame_checkLoginRateLimit l]])
  obtain f w2 where f: "fetchAuthRow email w1 = (f, w2)" by (cases "fetchAuthRow email w1")
  have t2: "t_sessions (w_db w2) = t_sessions (w_db w1)"
    by (rule tables_eqD(11) [OF reader_run [OF reader_fetchAuthRow f]])
  show ?thesis
  proof (cases l)
    case (Inl x)
    then show ?thesis using run l t1 by (simp add: tryE_def fail_def)
  next
    case (Inr x)
    then have run2: "tryE (fetchAuthRow email) (\<lambda>e. fail (ErrInternal e)) after w1 = (Inl e, w')"
      using run l by (simp add: tryE_def)
    show ?thesis
    proof (cases f)
      case (Inl y)
      then show ?thesis using run2 f t1 t2 by (simp add: tryE_def fail_def)
    next
      case (Inr found)
      then have "after found w2 = (Inl e, w')" using run2 f by (simp add: tryE_def)
      then show ?thesis using after t1 t2 by simp
    qed
  qed
qed

lemma refresh_reused_run:
  assumes "refresh_reused s w = (r, w')"
  shows "(\<exists>c. r = Inl (ErrInternal c)) \<and> tables w' = tables w \<or>
     r = Inl (ErrUnauthorized genericRefreshError) \<and>
     (\<exists>now. tables w' = (tables w)\<lparr>t_sessions := update_where (\<lambda>x. as_family_id x = as_family_id s \<and>
        as_revoked_at x = None) (\<lambda>x. x\<lparr>as_revoked_at := Some now\<rparr>) (t_sessions (tables w))\<rparr>)"
proof (cases "WithTx anonymous (q_RevokeAuthSessionFamily (as_family_id s)) w")
  case (Pair a w1)
  show ?thesis
  proof (cases a)
    case (Inl e)
    then show ?thesis
      using Pair assms WithTx_tables by (auto simp: refresh_reused_def tryE_def fail_def)
  next
    case (Inr x)
    then obtain w2 where q: "q_RevokeAuthSessionFamily (as_family_id s) (started anonymous w) = (Inr x, w2)"
      and t: "tables w1 = tables w2" using Pair by (auto simp: WithTx_run)
    have "tables (started anonymous w) = tables w" by simp
    then have "tables w1 = (tables w)\<lparr>t_sessions := update_where (\<lambda>x. as_family_id x = as_family_id s \<and>
        as_revoked_at x = None) (\<lambda>x. x\<lparr>as_revoked_at := Some (w_tx_now (started anonymous w))\<rparr>)
        (t_sessions (tables w))\<rparr>"
      using revoke_sessions_run [OF q [unfolded q_RevokeAuthSessionFamily_def]] t by simp
    moreover have "r = Inl (ErrUnauthorized genericRefreshError) \<and> tables w' = tables w1"
      using assms Pair Inr by (auto simp: refresh_reused_def tryE_def fail_def dest!: Record_run split: prod.splits sum.splits)
    ultimately show ?thesis by auto
  qed
qed

text \<open>One rotation: the new session, and the old one closed in favour of it if it was still open.\<close>

definition rotated :: "library \<Rightarrow> database \<Rightarrow> database \<Rightarrow> session_row \<Rightarrow> session_row \<Rightarrow> AuthResult \<Rightarrow> bool" where
  "rotated lib d d' s n r \<longleftrightarrow> issued d n \<and> as_user_id n = as_user_id s \<and> as_family_id n = as_family_id s \<and>
     as_token_hash n = HashRefreshToken lib (ar_RefreshToken r) \<and>
     (\<exists>u\<in>set (t_users d). u_id u = as_user_id s \<and> u_status u = ''active'') \<and>
     (\<exists>now. d' = d\<lparr>t_sessions := update_where (\<lambda>x. as_id x = as_id s \<and> as_revoked_at x = None)
        (\<lambda>x. x\<lparr>as_last_used_at := Some now, as_replaced_by := Some (as_id n), as_revoked_at := Some now\<rparr>)
        (t_sessions d @ [n])\<rparr>)"

lemma rotate_run:
  assumes "rotate_session sv s ip ag w = (Inr r, w')"
  shows "\<exists>n. rotated (w_lib w) (tables w) (tables w') s n r"
proof -
  from assms obtain p rs w1 a i w2 w3 where
    l: "WithTx anonymous (load_profile (as_user_id s)) w = (Inr (p, rs), w1)" and act: "u_status p = ''active''"
    and iss: "issueSession sv (as_user_id s) (primaryRoleName rs) (as_family_id s) ip ag w1 = (Inr (a, i), w2)"
    and rv: "WithTx anonymous (q_RevokeAuthSessionAndReplace (as_id s) i) w2 = (Inr (), w3)"
    and rest: "tryE (Record (auth_event ''AUTH_REFRESH_SUCCESS'' ''auth_session'' (as_user_id s) (Some i) '''')) fail
       (\<lambda>_. ret (a\<lparr>ar_User := profile_summary p (primaryRoleName rs)\<rparr>)) w3 = (Inr r, w')"
    unfolding rotate_session_def Let_def
    by (auto simp: tryE_Inr [where m = "WithTx _ _"] tryE_Inr [where m = "issueSession _ _ _ _ _ _"] fail_run
        refresh_refused_never split: if_splits)
  from l obtain w4 where lp: "load_profile (as_user_id s) (started anonymous w) = (Inr (p, rs), w4)"
    and eq1: "tables w1 = tables w4" "w_lib w1 = w_lib w4" by (auto simp: WithTx_run)
  have p: "p \<in> set (t_users (tables w))" "u_id p = as_user_id s" "tables w1 = tables w" "w_lib w1 = w_lib w"
    using load_profile_run [OF lp] reader.guarD [OF reader_load_profile, of "started anonymous w" "as_user_id s"] lp eq1
    by (simp_all add: reads_only_def params_same_def)
  obtain n where n: "tables w2 = (tables w)\<lparr>t_sessions := t_sessions (tables w) @ [n]\<rparr>" "issued (tables w) n"
     "as_user_id n = as_user_id s" "as_family_id n = as_family_id s" "as_id n = i"
     "as_token_hash n = HashRefreshToken (w_lib w) (ar_RefreshToken a)"
    using issueSession_run [OF iss, unfolded p(3,4)] by blast
  from rv obtain w5 where q: "q_RevokeAuthSessionAndReplace (as_id s) i (started anonymous w2) = (Inr (), w5)"
    and t3: "tables w3 = tables w5" by (auto simp: WithTx_run)
  have t0: "tables (started anonymous w2) = tables w2" by simp
  define now where "now = w_tx_now (started anonymous w2)"
  have "tables w5 = (tables w2)\<lparr>t_sessions := update_where (\<lambda>x. as_id x = as_id s \<and> as_revoked_at x = None)
        (\<lambda>x. x\<lparr>as_last_used_at := Some now, as_replaced_by := Some i, as_revoked_at := Some now\<rparr>)
        (t_sessions (tables w2))\<rparr>"
    using q by (auto simp: q_RevokeAuthSessionAndReplace_def exec_run tables_def now_def split: if_splits)
  moreover have "ar_RefreshToken r = ar_RefreshToken a" "tables w' = tables w3"
    using rest by (auto simp: tryE_Inr ret_run fail_run dest!: Record_run)
  ultimately show ?thesis
    unfolding rotated_def
    by (intro exI [of _ n] conjI bexI [of _ p] exI [of _ now]) (use n p act t3 in simp_all)
qed

section \<open>The rate limiter\<close>

text \<open>
  A run of attempts under one key, the i-th at the clock's reading \<^verbatim>\<open>cs ! i\<close>: which of
  them the callers let pass.  A limiter that fails lets the attempt pass.
\<close>

fun allow_at :: "string \<Rightarrow> int \<Rightarrow> time \<Rightarrow> nat list \<Rightarrow> world \<Rightarrow> bool list" where
  "allow_at key lim window [] w = []"
| "allow_at key lim window (c # cs) w = (case Allow key lim window (w\<lparr>w_clock_i := c\<rparr>) of
     (Inr (ok, _), w1) \<Rightarrow> ok # allow_at key lim window cs w1
   | (Inl _, w1) \<Rightarrow> True # allow_at key lim window cs w1)"

declare allow_at.simps [run_defs]

definition calm :: "world \<Rightarrow> bool" where
  "calm w \<longleftrightarrow> (\<forall>n\<ge>w_fault_i w. w_faults w n = None)"

lemma live_counter_faulted [simp]: "live_counter (faulted w) = live_counter w"
proof -
  have "redis_now (faulted w) = redis_now w" by (simp add: redis_now_def)
  then show ?thesis by (intro ext) (simp only: live_counter_def faulted_simps)
qed

lemma Allow_live:
  assumes "calm w" and "live_counter w (limit_prefix @ key) = Some (n, e)" and "1 \<le> n"
  shows "\<exists>d w1. Allow key lim window w = (Inr (n + 1 \<le> lim, d), w1) \<and> calm w1 \<and> w_clock w1 = w_clock w \<and>
     w_counters w1 (limit_prefix @ key) = Some (n + 1, e)"
proof -
  let ?k = "limit_prefix @ key"
  define w1 where "w1 = (faulted w)\<lparr>w_counters := (w_counters w)(?k \<mapsto> (n + 1, e))\<rparr>"
  have "live_counter (faulted w) ?k = Some (n, e)" using assms(2) by simp
  then have incr: "redis_incr ?k w = (Inr (n + 1), w1)"
    using assms(1) by (simp add: redis_incr_def infra_def calm_def w1_def Let_def flip: faulted_def)
  have calm1: "calm w1" "w_faults w1 (w_fault_i w1) = None"
    using assms(1) by (auto simp: calm_def w1_def)
  show ?thesis
  proof (cases "n + 1 \<le> lim")
    case True
    then show ?thesis
      using incr assms(3) calm1 by (auto simp: Allow_def Let_def tryE_def ret_def w1_def)
  next
    case False
    obtain d where "redis_ttl ?k w1 = (Inr d, faulted w1)"
      using calm1 by (simp add: redis_ttl_def infra_def Let_def flip: faulted_def)
    moreover have "calm (faulted w1)" using calm1 by (auto simp: calm_def)
    ultimately show ?thesis
      using incr assms(3) False by (auto simp: Allow_def Let_def tryE_def ret_def w1_def)
  qed
qed

lemma Allow_new:
  assumes "calm w" and "live_counter w (limit_prefix @ key) = None"
  shows "\<exists>d w1. Allow key lim window w = (Inr (1 \<le> lim, d), w1) \<and> calm w1 \<and> w_clock w1 = w_clock w \<and>
     w_counters w1 (limit_prefix @ key) = Some (1, Some (redis_now w + window))"
proof -
  let ?k = "limit_prefix @ key"
  define w1 where "w1 = (faulted w)\<lparr>w_counters := (w_counters w)(?k \<mapsto> (1, None))\<rparr>"
  define w2 where "w2 = (faulted w1)\<lparr>w_counters := (w_counters w1)(?k \<mapsto> (1, Some (redis_now w + window)))\<rparr>"
  have "live_counter (faulted w) ?k = None" using assms(2) by simp
  then have incr: "redis_incr ?k w = (Inr 1, w1)"
    using assms(1) by (simp add: redis_incr_def infra_def calm_def w1_def Let_def flip: faulted_def)
  have now: "redis_now (faulted w1) = redis_now w" by (simp add: redis_now_def w1_def)
  have live1: "live_counter w1 ?k = Some (1, None)" by (simp add: live_counter_def w1_def)
  have calm1: "calm w1" "w_faults w1 (w_fault_i w1) = None"
    using assms(1) by (auto simp: calm_def w1_def)
  have expire: "redis_expire ?k window w1 = (Inr (), w2)"
    using calm1 live1 by (simp add: redis_expire_def infra_run w2_def now)
  have calm2: "calm w2" "w_faults w2 (w_fault_i w2) = None"
    using calm1 by (auto simp: calm_def w2_def)
  show ?thesis
  proof (cases "1 \<le> lim")
    case True
    then show ?thesis
      using incr expire calm2 by (auto simp: Allow_def Let_def tryE_def ret_def w1_def w2_def)
  next
    case False
    obtain d where "redis_ttl ?k w2 = (Inr d, faulted w2)"
      using calm2 by (simp add: redis_ttl_def infra_def Let_def flip: faulted_def)
    moreover have "calm (faulted w2)" using calm2 by (auto simp: calm_def)
    ultimately show ?thesis
      using incr expire False by (auto simp: Allow_def Let_def tryE_def ret_def w1_def w2_def)
  qed
qed

lemma allow_at_live:
  assumes "calm w" and "w_counters w (limit_prefix @ key) = Some (n, e)" and "1 \<le> n"
    and "\<forall>c\<in>set cs. \<forall>t. e = Some t \<longrightarrow> w_clock w c < t"
  shows "allow_at key lim window cs w = map (\<lambda>i. n + int i < lim) [0..<length cs]"
  using assms
proof (induction cs arbitrary: w n)
  case Nil
  then show ?case by simp
next
  case (Cons c cs)
  let ?w = "w\<lparr>w_clock_i := c\<rparr>"
  have "calm ?w" "live_counter ?w (limit_prefix @ key) = Some (n, e)"
    using Cons.prems by (auto simp: calm_def live_counter_def redis_now_def split: option.splits)
  from Allow_live [OF this Cons.prems(3), of lim window] obtain d w1 where
    a: "Allow key lim window ?w = (Inr (n + 1 \<le> lim, d), w1)" "calm w1" "w_clock w1 = w_clock w"
      "w_counters w1 (limit_prefix @ key) = Some (n + 1, e)" by auto
  have "allow_at key lim window cs w1 = map (\<lambda>i. n + 1 + int i < lim) [0..<length cs]"
    using Cons.prems(3,4) a by (intro Cons.IH) auto
  also have "\<dots> = map (\<lambda>i. n + int i < lim) [1..<Suc (length cs)]"
    by (rule nth_equalityI) (auto simp del: upt_Suc)
  finally show ?case
    using a by (simp add: upt_conv_Cons del: upt_Suc) linarith
qed

lemma rotated_new:
  assumes "rotated lib d d' s n r" and "x \<in> set (t_sessions d)" and "as_id x = as_id s"
  shows "n \<in> set (t_sessions d') \<and> as_id n \<noteq> as_id s \<and>
    (\<forall>y\<in>set (t_sessions d). as_id y \<noteq> as_id n \<and> (as_id y \<noteq> as_id s \<longrightarrow> y \<in> set (t_sessions d'))) \<and>
    (\<exists>y\<in>set (t_sessions d'). as_id y = as_id s)"
proof -
  from assms(1) obtain now where d': "t_sessions d' = update_where (\<lambda>x. as_id x = as_id s \<and> as_revoked_at x = None)
        (\<lambda>x. x\<lparr>as_last_used_at := Some now, as_replaced_by := Some (as_id n), as_revoked_at := Some now\<rparr>)
        (t_sessions d @ [n])"
    by (auto simp: rotated_def simp del: update_where_append)
  have new: "\<forall>y\<in>set (t_sessions d). as_id y \<noteq> as_id n" using assms(1) by (auto simp: rotated_def issued_def)
  then have ns: "as_id n \<noteq> as_id s" using assms(2,3) by metis
  have keep: "y \<in> set (t_sessions d')" if "y \<in> set (t_sessions d @ [n])" "as_id y \<noteq> as_id s" for y
    using that unfolding d' update_where_set by (auto intro: rev_image_eqI)
  have "(if as_id x = as_id s \<and> as_revoked_at x = None
      then x\<lparr>as_last_used_at := Some now, as_replaced_by := Some (as_id n), as_revoked_at := Some now\<rparr> else x)
      \<in> set (t_sessions d')"
    unfolding d' update_where_set by (rule image_eqI [OF refl]) (use assms(2) in simp)
  then have "\<exists>y\<in>set (t_sessions d'). as_id y = as_id s"
    by (rule bexI [rotated]) (simp add: assms(3))
  then show ?thesis using new ns keep by auto
qed

end
