(* ===== verification/LoginFacts.thy ===== *)
theory LoginFacts
  imports AuthFacts TwoRuns
begin

text \<open>
  Two failing logins on two databases: nothing before the password check depends on the database but the row that is looked up, and
  a refusal gives the same answer whatever the row was.
\<close>

definition no_match :: "library \<Rightarrow> database \<Rightarrow> string \<Rightarrow> string \<Rightarrow> bool" where
  "no_match lib d email password \<longleftrightarrow> (\<forall>u\<in>set (t_users d). lower (u_email u) = lower email \<longrightarrow>
     u_status u \<noteq> ''active'' \<or> \<not> VerifyPassword lib (u_password_hash u) password)"

lemma agrees_Allow: "agrees g (=) (Allow key l t) (Allow key l t)"
proof -
  have rest: "agrees g (=) (if x = 1 then redis_expire k t else ret ()) (if x = 1 then redis_expire k t else ret ())"
    for k and x :: int
    by (auto intro: agrees_redis agrees_ret)
  have ttl: "agrees g (=) (tryE (redis_ttl k) (\<lambda>_. ret (False, t)) (\<lambda>ttl. ret (False, if ttl < 0 then t else ttl)))
     (tryE (redis_ttl k) (\<lambda>_. ret (False, t)) (\<lambda>ttl. ret (False, if ttl < 0 then t else ttl)))" for k
    by (rule agrees_tryE [OF agrees_redis(3)]) (simp_all add: agrees_ret)
  show ?thesis
    unfolding Allow_def Let_def
  proof (rule agrees_tryE [OF agrees_redis(1) agrees_fail])
    fix x y :: int
    assume "x = y"
    then show "agrees g (=)
       (bindE (if x = 1 then redis_expire (limit_prefix @ key) t else ret ()) (\<lambda>_.
          if x \<le> l then ret (True, 0) else tryE (redis_ttl (limit_prefix @ key)) (\<lambda>_. ret (False, t))
            (\<lambda>ttl. ret (False, if ttl < 0 then t else ttl))))
       (bindE (if y = 1 then redis_expire (limit_prefix @ key) t else ret ()) (\<lambda>_.
          if y \<le> l then ret (True, 0) else tryE (redis_ttl (limit_prefix @ key)) (\<lambda>_. ret (False, t))
            (\<lambda>ttl. ret (False, if ttl < 0 then t else ttl))))"
      by (simp only:) (rule agrees_tryE [OF rest agrees_fail], rule agrees_if [OF agrees_ret ttl], rule refl)
  qed
qed

lemma refused_answer: "fst (bindE (Record ev) (\<lambda>_. fail e) w) = Inl e"
  by (simp add: Record_def ignoring_def tryE_def ret_def fail_def)

lemma answers_limited:
  assumes "answers g (=) k k"
  shows "answers g (=) (limited key l t reason k) (limited key l t reason k)"
  unfolding limited_def
proof (rule answers_tryE [OF agrees_Allow assms])
  fix x y :: "bool \<times> time"
  assume "x = y"
  moreover have "answers g (=) (bindE (recordAuthFailure a b c) (\<lambda>_. fail e) :: unit op)
     (bindE (recordAuthFailure a b c) (\<lambda>_. fail e))" for a b c e
    by (simp add: answers_def recordAuthFailure_def refused_answer)
  ultimately show "answers g (=)
     (case x of (allowed, retryAfter) \<Rightarrow> if allowed then k else
        bindE (recordAuthFailure ''AUTH_LOGIN_RATE_LIMITED'' None reason)
          (\<lambda>_. fail (WithRetryAfter (ErrTooManyRequests loginRateLimitError) retryAfter)))
     (case y of (allowed, retryAfter) \<Rightarrow> if allowed then k else
        bindE (recordAuthFailure ''AUTH_LOGIN_RATE_LIMITED'' None reason)
          (\<lambda>_. fail (WithRetryAfter (ErrTooManyRequests loginRateLimitError) retryAfter)))"
    using assms by (cases y) simp
qed

lemma answers_checkLoginRateLimit:
  "answers g (=) (checkLoginRateLimit lc ip key) (checkLoginRateLimit lc ip key)"
  unfolding checkLoginRateLimit_def Let_def
  by (rule answers_if answers_limited agrees_answers agrees_ret refl)+

lemma agrees_fetchAuthRow: "agrees g (\<lambda>_ _. True) (fetchAuthRow email) (fetchAuthRow email)"
proof -
  have one_row: "agrees g (\<lambda>_ _. True)
     (tryE (query q) (\<lambda>e. if is_no_rows e then ret None else fail e) (\<lambda>r. ret (Some r)))
     (tryE (query q) (\<lambda>e. if is_no_rows e then ret None else fail e) (\<lambda>r. ret (Some r)))"
    if "\<And>d c t e. q d c t = Inl e \<Longrightarrow> e = ErrNoRows" for q :: "database \<Rightarrow> app_ctx \<Rightarrow> time \<Rightarrow> gerr + user_row"
    by (auto simp: agrees_def tryE_def query_def infra_cases ret_def fail_def dest: that
        split: option.split sum.split)
  show ?thesis
    unfolding fetchAuthRow_def q_GetUserByEmailForAuth_def by (rule agrees_WithTx, rule one_row) simp
qed

lemma login_after_fetch:
  assumes "fetchAuthRow email w = (Inr found, w1)" and "no_match lib (w_db w) email password"
  shows "fst ((case found of None \<Rightarrow> login_refused None ''unknown_email''
     | Some authRow \<Rightarrow>
       if u_status authRow \<noteq> ''active'' then login_refused (Some (u_id authRow)) ''inactive_account''
       else if \<not> VerifyPassword lib (u_password_hash authRow) password
       then login_refused (Some (u_id authRow)) ''wrong_password''
       else login_user sv acctKey authRow ip agent) w') = Inl (ErrUnauthorized genericAuthError)"
proof (cases found)
  case (Some u)
  then have "u \<in> set (t_users (w_db w))" "lower (u_email u) = lower email"
    using fetchAuthRow_run [of email w u w1] assms(1) by simp_all
  then have "u_status u \<noteq> ''active'' \<or> \<not> VerifyPassword lib (u_password_hash u) password"
    using assms(2) by (auto simp: no_match_def)
  then show ?thesis using Some by (auto simp: login_refused_def recordAuthFailure_def refused_answer)
qed (simp add: login_refused_def recordAuthFailure_def refused_answer)

lemma Login_uniform:
  assumes "no_match (w_lib w) (w_db w) email password" and "no_match (w_lib w) d email password"
  shows "fst (Login sv email password ip agent (w\<lparr>w_db := d\<rparr>)) = fst (Login sv email password ip agent w)"
    and "\<exists>e. fst (Login sv email password ip agent w) = Inl e"
proof -
  let ?g = "\<lambda>_ :: database. d" and ?key = "''login:acct:'' @ hashLoginAccountKey (w_lib w) email"
  have w': "w\<lparr>w_db := d\<rparr> = over ?g w" by (simp add: over_def)
  have lib: "Login sv email password ip agent v =
     bindE (checkLoginRateLimit (sv_loginLimits sv) ip ?key) (\<lambda>_.
     tryE (fetchAuthRow email) (\<lambda>e. fail (ErrInternal e)) (\<lambda>found.
     case found of None \<Rightarrow> login_refused None ''unknown_email''
     | Some authRow \<Rightarrow>
       if u_status authRow \<noteq> ''active'' then login_refused (Some (u_id authRow)) ''inactive_account''
       else if \<not> VerifyPassword (w_lib w) (u_password_hash authRow) password
       then login_refused (Some (u_id authRow)) ''wrong_password''
       else login_user sv ?key authRow ip agent)) v" if "w_lib v = w_lib w" for v
    by (simp only: Login_def Let_def tryE_def [of "get_world w_lib"] get_world_def that sum.case prod.case)
  have "fst (Login sv email password ip agent (over ?g w)) = fst (Login sv email password ip agent w) \<and>
     (\<exists>e. fst (Login sv email password ip agent w) = Inl e)"
  proof (rule answers_cases [OF answers_checkLoginRateLimit [of ?g "sv_loginLimits sv" ip ?key], of w])
    fix e w1 w2
    assume "checkLoginRateLimit (sv_loginLimits sv) ip ?key w = (Inl e, w1)"
      "checkLoginRateLimit (sv_loginLimits sv) ip ?key (over ?g w) = (Inl e, w2)"
    then show ?thesis by (simp add: lib tryE_def fail_def)
  next
    fix x y w1
    assume run: "checkLoginRateLimit (sv_loginLimits sv) ip ?key w = (Inr x, w1)"
      "checkLoginRateLimit (sv_loginLimits sv) ip ?key (over ?g w) = (Inr y, over ?g w1)"
    have "t_users (w_db w1) = t_users (w_db w)"
      using tables_eqD [OF frame_tables [OF frame_checkLoginRateLimit run(1)]] by simp
    then have same: "no_match (w_lib w) (w_db w1) email password"
      "no_match (w_lib w) (w_db (over ?g w1)) email password"
      using assms by (simp_all add: no_match_def)
    show ?thesis
    proof (rule agrees_cases [OF agrees_fetchAuthRow [of ?g email], of w1])
      fix e w2
      assume "fetchAuthRow email w1 = (Inl e, w2)" "fetchAuthRow email (over ?g w1) = (Inl e, over ?g w2)"
      then show ?thesis using run by (simp add: lib tryE_def fail_def)
    next
      fix f f' w2
      assume f: "fetchAuthRow email w1 = (Inr f, w2)" "fetchAuthRow email (over ?g w1) = (Inr f', over ?g w2)"
      show ?thesis
        using run f login_after_fetch [OF f(1) same(1)] login_after_fetch [OF f(2) same(2)]
        by (simp add: lib tryE_def)
    qed
  qed
  then show "fst (Login sv email password ip agent (w\<lparr>w_db := d\<rparr>)) = fst (Login sv email password ip agent w)"
    "\<exists>e. fst (Login sv email password ip agent w) = Inl e" by (simp_all add: w')
qed

end
