(* ===== verification/AuthProps.thy ===== *)
theory AuthProps
  imports LoginFacts UserProps
begin

text \<open>The properties of sign-in, refresh and the rate limiter, each with the input it is run on.\<close>

section \<open>Signing in\<close>

text \<open>
  C18.  A successful Login found an active user of that email address (compared without case)
  whose stored hash the password matches; it adds one session, for that user, under the hash
  of the refresh token it returns (32 bytes, and new), stamps the user's last login and
  changes nothing else.
\<close>

theorem login_sound:
  assumes "Login sv email password ip agent w = (Inr r, w')"
  shows "\<exists>u s now. u \<in> set (t_users (w_db w)) \<and> lower (u_email u) = lower email \<and>
     u_status u = ''active'' \<and> VerifyPassword (w_lib w) (u_password_hash u) password \<and>
     issued (tables w) s \<and> as_user_id s = u_id u \<and>
     as_token_hash s = HashRefreshToken (w_lib w) (ar_RefreshToken r) \<and>
     tables w' = (tables w)\<lparr>t_users := logged_in (u_id u) now (t_users (w_db w)),
       t_sessions := t_sessions (w_db w) @ [s]\<rparr>"
  using Login_run [OF assms] by (simp add: signed_in_def)

definition sample_auth :: AuthService where [run_defs]:
  "sample_auth = \<lparr>sv_jwt = \<lparr>jm_signingKey = ''key'', jm_issuer = ''iss'', jm_audience = ''aud'', jm_accessTTL = 5\<rparr>,
     sv_refreshTTL = 100, sv_loginLimits = \<lparr>lc_IPMax = 20, lc_IPWindow = 100, lc_AccountMax = 5, lc_AccountWindow = 100\<rparr>,
     sv_dummyHash = ''''\<rparr>"

definition token_a :: string where [run_defs]:
  "token_a = ''aaaaaaaaaaaaaaaaaaaaaaaaaaaaaaaaaaaaaaaa''"

definition token_b :: string where [run_defs]:
  "token_b = ''bbbbbbbbbbbbbbbbbbbbbbbbbbbbbbbbbbbbbbbbb''"

text \<open>User 12 knows a password, and holds an open session (90) and one already rotated (91).\<close>

definition auth_db :: database where [run_defs]:
  "auth_db = user_db\<lparr>
     t_users := [sample_user 10, (sample_user 11)\<lparr>u_email := ''c@d''\<rparr>,
       (sample_user 12)\<lparr>u_email := ''e@f'', u_password_hash := ''$2a$pw''\<rparr>],
     t_sessions := [(session_of 90 12)\<lparr>as_token_hash := sample_sha token_a\<rparr>,
       (session_of 91 12)\<lparr>as_token_hash := sample_sha token_b, as_revoked_at := Some 2, as_replaced_by := Some 90\<rparr>]\<rparr>"

lemma login_runs: "\<exists>r. fst (Login sample_auth ''e@f'' ''pw'' '''' '''' (quiet_world auth_db)) = Inr r"
  supply run_congs [cong]
  by (simp add: run_defs)

lemma login_sound_witness:
  "\<exists>(u :: user_row) s. issued (tables (quiet_world auth_db)) s \<and> as_user_id s = u_id u \<and> lower (u_email u) = lower ''e@f''"
proof -
  obtain r w' where "Login sample_auth ''e@f'' ''pw'' '''' '''' (quiet_world auth_db) = (Inr r, w')"
    using login_runs by (metis prod.collapse)
  from login_sound [OF this] show ?thesis by blast
qed

text \<open>
  C19.  A failing Login does not tell an unknown email from an inactive account or a wrong
  password: for any two contents of the database in neither of which there is an active user
  with that email address (compared without case) whose stored hash the password matches, the
  answers are the same error.  Whatever made it fail, a Login answers one of three errors (the
  one message for those three cases, the rate limit, an internal error) and leaves every
  session as it was.  (The time a login takes is not modelled: VerifyPassword runs only when
  there is an active account.)
\<close>

theorem login_failure_uniform:
  "(no_match (w_lib w) (w_db w) email password \<and> no_match (w_lib w) d email password \<longrightarrow>
     fst (Login sv email password ip agent (w\<lparr>w_db := d\<rparr>)) = fst (Login sv email password ip agent w) \<and>
     (\<exists>e. fst (Login sv email password ip agent w) = Inl e)) \<and>
   (\<forall>e w'. Login sv email password ip agent w = (Inl e, w') \<longrightarrow>
     (e = ErrUnauthorized ''Invalid email or password'' \<or>
       (\<exists>r. e = WithRetryAfter (ErrTooManyRequests ''Too many login attempts. Please try again later.'') r) \<or>
       (\<exists>c. e = ErrInternal c)) \<and> t_sessions (w_db w') = t_sessions (w_db w))"
proof (intro conjI impI allI)
  assume "no_match (w_lib w) (w_db w) email password \<and> no_match (w_lib w) d email password"
  then show "fst (Login sv email password ip agent (w\<lparr>w_db := d\<rparr>)) = fst (Login sv email password ip agent w)"
    "\<exists>e. fst (Login sv email password ip agent w) = Inl e"
    using Login_uniform [of w email password d] by blast+
next
  fix e w'
  assume run: "Login sv email password ip agent w = (Inl e, w')"
  show "e = ErrUnauthorized ''Invalid email or password'' \<or>
     (\<exists>r. e = WithRetryAfter (ErrTooManyRequests ''Too many login attempts. Please try again later.'') r) \<or>
     (\<exists>c. e = ErrInternal c)"
    using fails_onlyD [OF fails_Login run]
    by (simp add: login_error_def genericAuthError_def loginRateLimitError_def)
  show "t_sessions (w_db w') = t_sessions (w_db w)" by (rule Login_fail [OF run])
qed

text \<open>A wrong password, and the same login where no user exists at all.\<close>

lemma login_failure_uniform_witness:
  "fst (Login sample_auth ''e@f'' ''px'' '''' '''' (quiet_world auth_db)) =
     Inl (ErrUnauthorized ''Invalid email or password'') \<and>
   fst (Login sample_auth ''e@f'' ''px'' '''' '''' ((quiet_world auth_db)\<lparr>w_db := empty_db\<rparr>)) =
     Inl (ErrUnauthorized ''Invalid email or password'')"
proof -
  have "fst (Login sample_auth ''e@f'' ''px'' '''' '''' (quiet_world auth_db)) =
     Inl (ErrUnauthorized ''Invalid email or password'')"
    supply run_congs [cong]
    by (simp add: run_defs)
  moreover have "no_match (w_lib (quiet_world auth_db)) (w_db (quiet_world auth_db)) ''e@f'' ''px''"
    "no_match (w_lib (quiet_world auth_db)) empty_db ''e@f'' ''px''"
    by (simp_all add: no_match_def run_defs)
  ultimately show ?thesis
    using login_failure_uniform [of "quiet_world auth_db" "''e@f''" "''px''" empty_db sample_auth "''''" "''''"]
    by simp
qed

section \<open>Rotation and reuse\<close>

text \<open>
  C20.  A successful Refresh was given the token of an open session of a user who is active
  now; it opens one new session of the same user and the same family, under the hash of the
  token it returns, closes the old one in favour of it, and changes nothing else.
\<close>

theorem refresh_rotation:
  assumes "Refresh sv token ip agent w = (Inr r, w')"
  shows "\<exists>s n. s \<in> set (t_sessions (w_db w)) \<and> as_token_hash s = HashRefreshToken (w_lib w) token \<and>
     as_revoked_at s = None \<and> (\<exists>i\<ge>w_clock_i w. w_clock w i \<le> as_expires_at s) \<and>
     rotated (w_lib w) (tables w) (tables w') s n r"
proof -
  from assms obtain s w1 now w2 where
    f: "fetchSessionByHash (HashRefreshToken (w_lib w) token) w = (Inr (Some s), w1)"
    and open_s: "as_revoked_at s = None" and now: "time_now w1 = (Inr now, w2)" "now \<le> as_expires_at s"
    and rot: "rotate_session sv s ip agent w2 = (Inr r, w')"
    unfolding Refresh_def refresh_reused_def
    by (auto simp: tryE_Inr fail_run get_world_run refresh_refused_never split: option.splits if_splits)
  have w1: "tables w1 = tables w" "w_lib w1 = w_lib w" "w_clock w1 = w_clock w" "w_clock_i w \<le> w_clock_i w1"
    using reader.guarD [OF reader_fetchSessionByHash, of w "HashRefreshToken (w_lib w) token"] f
      fetchSessionByHash_run [OF f] by (simp_all add: reads_only_def params_same_def)
  have w2: "tables w2 = tables w1" "w_lib w2 = w_lib w1" "now = w_clock w1 (w_clock_i w1)"
    using now(1) by (auto simp: time_now_def intro: tables_cong)
  obtain n where "rotated (w_lib w2) (tables w2) (tables w') s n r" using rotate_run [OF rot] by blast
  then show ?thesis
    using fetchSessionByHash_run [OF f] open_s now(2) w1 w2
    by (intro exI [of _ s] exI [of _ n]) auto
qed

lemma refresh_runs: "\<exists>r. fst (Refresh sample_auth token_a '''' '''' (quiet_world auth_db)) = Inr r"
  supply run_congs [cong]
  by (simp add: run_defs)

lemma refresh_rotation_witness:
  "\<exists>s n r w'. s \<in> set (t_sessions auth_db) \<and>
     rotated (w_lib (quiet_world auth_db)) (tables (quiet_world auth_db)) (tables w') s n r"
proof -
  obtain r w' where "Refresh sample_auth token_a '''' '''' (quiet_world auth_db) = (Inr r, w')"
    using refresh_runs by (metis prod.collapse)
  from refresh_rotation [OF this] show ?thesis
    by (auto simp: quiet_world_def sample_world_def)
qed

text \<open>
  C21.  Presenting a refresh token that was already rotated or signed out never yields a new
  one.  Unless the database fails, it is answered with the one refresh error, ends every open
  session of the same family, and touches no other session.
\<close>

theorem reuse_ends_family:
  assumes "Refresh sv token ip agent w = (r, w')" and "session_inv (w_db w)"
    and "s \<in> set (t_sessions (w_db w))" and "as_token_hash s = HashRefreshToken (w_lib w) token"
    and "as_revoked_at s \<noteq> None"
  shows "(\<exists>c. r = Inl (ErrInternal c)) \<and> tables w' = tables w \<or>
     r = Inl (ErrUnauthorized ''Invalid or expired refresh token'') \<and>
     (\<forall>x\<in>set (t_sessions (w_db w')). as_family_id x = as_family_id s \<longrightarrow> as_revoked_at x \<noteq> None) \<and>
     filter (\<lambda>x. as_family_id x \<noteq> as_family_id s) (t_sessions (w_db w')) =
       filter (\<lambda>x. as_family_id x \<noteq> as_family_id s) (t_sessions (w_db w))"
proof -
  let ?h = "HashRefreshToken (w_lib w) token"
  obtain f w1 where f: "fetchSessionByHash ?h w = (f, w1)" by (cases "fetchSessionByHash ?h w")
  have t1: "tables w1 = tables w" by (rule reader_run [OF reader_fetchSessionByHash f])
  show ?thesis
  proof (cases f)
    case (Inl e)
    then show ?thesis using assms(1) f t1 by (auto simp: Refresh_def tryE_def get_world_def fail_def)
  next
    case (Inr found)
    have "found = Some s"
    proof (cases found)
      case None
      then show ?thesis using fetchSessionByHash_run f Inr assms(3,4) by blast
    next
      case (Some t)
      then have "t \<in> set (t_sessions (w_db w))" "as_token_hash t = as_token_hash s"
        using fetchSessionByHash_run [OF f [unfolded Inr]] assms(4) by simp_all
      then have "t = s" using assms(2,3) by (auto simp: session_inv_def distinct_map dest: inj_onD)
      then show ?thesis using Some by simp
    qed
    then have "refresh_reused s w1 = (r, w')"
      using assms(1,5) f Inr by (simp add: Refresh_def tryE_def get_world_def)
    from refresh_reused_run [OF this] show ?thesis
    proof
      assume "r = Inl (ErrUnauthorized genericRefreshError) \<and>
     (\<exists>now. tables w' = (tables w1)\<lparr>t_sessions := update_where (\<lambda>x. as_family_id x = as_family_id s \<and>
        as_revoked_at x = None) (\<lambda>x. x\<lparr>as_revoked_at := Some now\<rparr>) (t_sessions (tables w1))\<rparr>)"
      then obtain now where r: "r = Inl (ErrUnauthorized genericRefreshError)"
        and d: "tables w' = (tables w)\<lparr>t_sessions := update_where (\<lambda>x. as_family_id x = as_family_id s \<and>
          as_revoked_at x = None) (\<lambda>x. x\<lparr>as_revoked_at := Some now\<rparr>) (t_sessions (tables w))\<rparr>"
        using t1 by auto
      have ss: "t_sessions (w_db w') = update_where (\<lambda>x. as_family_id x = as_family_id s \<and>
          as_revoked_at x = None) (\<lambda>x. x\<lparr>as_revoked_at := Some now\<rparr>) (t_sessions (w_db w))"
        using d by (simp flip: tables_sel)
      have "\<forall>x\<in>set (update_where (\<lambda>x. as_family_id x = g \<and> as_revoked_at x = None)
          (\<lambda>x. x\<lparr>as_revoked_at := Some now\<rparr>) xs). as_family_id x = g \<longrightarrow> as_revoked_at x \<noteq> None"
        "filter (\<lambda>x. as_family_id x \<noteq> g) (update_where (\<lambda>x. as_family_id x = g \<and> as_revoked_at x = None)
          (\<lambda>x. x\<lparr>as_revoked_at := Some now\<rparr>) xs) = filter (\<lambda>x. as_family_id x \<noteq> g) xs" for xs g
        by (induction xs) auto
      then show ?thesis unfolding ss r genericRefreshError_def by blast
    qed (use t1 in auto)
  qed
qed

lemma sample_session_inv: "session_inv auth_db"
  by (simp add: run_defs)

lemma reuse_runs: "\<exists>w'. Refresh sample_auth token_b '''' '''' (quiet_world auth_db) =
     (Inl (ErrUnauthorized ''Invalid or expired refresh token''), w')"
  supply run_congs [cong]
  by (simp add: run_defs)

lemma reuse_ends_family_witness:
  "filter (\<lambda>x. as_family_id x = 500 \<and> as_revoked_at x = None)
     (t_sessions (w_db (snd (Refresh sample_auth token_b '''' '''' (quiet_world auth_db))))) = []"
proof -
  let ?s = "(session_of 91 12)\<lparr>as_token_hash := sample_sha token_b, as_revoked_at := Some 2, as_replaced_by := Some 90\<rparr>"
  obtain w' where run: "Refresh sample_auth token_b '''' '''' (quiet_world auth_db) =
     (Inl (ErrUnauthorized ''Invalid or expired refresh token''), w')" using reuse_runs by blast
  have db: "w_db (quiet_world auth_db) = auth_db" by (simp add: quiet_world_def sample_world_def)
  have "?s \<in> set (t_sessions auth_db)" by (simp add: auth_db_def)
  moreover have "as_token_hash ?s = HashRefreshToken (w_lib (quiet_world auth_db)) token_b"
    by (simp add: HashRefreshToken_def quiet_world_def sample_world_def sample_lib_def)
  moreover have "as_revoked_at ?s \<noteq> None" by simp
  ultimately have "\<forall>x\<in>set (t_sessions (w_db w')). as_family_id x = as_family_id ?s \<longrightarrow> as_revoked_at x \<noteq> None"
    using reuse_ends_family [OF run, of ?s, unfolded db, OF sample_session_inv] by (simp add: app_error_defs)
  then show ?thesis by (auto simp: run filter_empty_conv session_of_def)
qed

text \<open>
  Two requests that present the same open refresh token at the same time, so that both
  look it up before either rotates it, both get a new session: nothing makes the second one
  notice that the token has been used in between, and both new sessions are open.
\<close>

theorem refresh_race:
  assumes "fetchSessionByHash h w = (Inr (Some s), w1)" and "fetchSessionByHash h w1 = (Inr (Some t), w2)"
    and "rotate_session sv s ip agent w2 = (Inr r, w3)" and "rotate_session sv t ip' agent' w3 = (Inr q, w4)"
    and "session_inv (w_db w)"
  shows "s = t \<and> (\<exists>m n. m \<in> set (t_sessions (w_db w4)) \<and> n \<in> set (t_sessions (w_db w4)) \<and> as_id m \<noteq> as_id n \<and>
     as_revoked_at m = None \<and> as_revoked_at n = None \<and>
     as_family_id m = as_family_id s \<and> as_family_id n = as_family_id s \<and>
     as_token_hash m = HashRefreshToken (w_lib w2) (ar_RefreshToken r) \<and>
     as_token_hash n = HashRefreshToken (w_lib w3) (ar_RefreshToken q))"
proof -
  have t: "tables w1 = tables w" "tables w2 = tables w1"
    using fetchSessionByHash_run [OF assms(1)] fetchSessionByHash_run [OF assms(2)] by simp_all
  have st: "s \<in> set (t_sessions (tables w))" "as_token_hash s = h" "t \<in> set (t_sessions (tables w))" "as_token_hash t = h"
    using fetchSessionByHash_run [OF assms(1)] fetchSessionByHash_run [OF assms(2)] tables_eqD(11) [OF t(1)]
    by simp_all
  have eq: "s = t"
    using st assms(5) by (auto simp: session_inv_def distinct_map dest: inj_onD)
  obtain m where m: "rotated (w_lib w2) (tables w) (tables w3) s m r" using rotate_run [OF assms(3)] t by auto
  obtain n where n: "rotated (w_lib w3) (tables w3) (tables w4) s n q" using rotate_run [OF assms(4)] eq by auto
  note new_m = rotated_new [OF m st(1) refl]
  then obtain s' where s': "s' \<in> set (t_sessions (tables w3))" "as_id s' = as_id s" by blast
  note new_n = rotated_new [OF n s']
  have "m \<in> set (t_sessions (w_db w4))" "n \<in> set (t_sessions (w_db w4))" "as_id m \<noteq> as_id n"
    using new_m new_n by auto
  moreover have "as_revoked_at m = None" "as_family_id m = as_family_id s"
      "as_token_hash m = HashRefreshToken (w_lib w2) (ar_RefreshToken r)"
    "as_revoked_at n = None" "as_family_id n = as_family_id s"
      "as_token_hash n = HashRefreshToken (w_lib w3) (ar_RefreshToken q)"
    using m n by (auto simp: rotated_def issued_def)
  ultimately show ?thesis using eq by blast
qed

definition race :: "bytes \<Rightarrow> (session_row \<times> session_row \<times> AuthResult \<times> AuthResult) op" where [run_defs]:
  "race h = bindE (fetchSessionByHash h) (\<lambda>f. bindE (fetchSessionByHash h) (\<lambda>g.
     case f of None \<Rightarrow> fail ErrNoRows | Some s \<Rightarrow> (case g of None \<Rightarrow> fail ErrNoRows | Some t \<Rightarrow>
       bindE (rotate_session sample_auth s '''' '''') (\<lambda>r. bindE (rotate_session sample_auth t '''' '''') (\<lambda>q. ret (s, t, r, q))))))"

lemma race_runs: "\<exists>x. fst (race (sample_sha token_a) (quiet_world auth_db)) = Inr x"
  supply run_congs [cong]
  by (simp add: run_defs)

lemma refresh_race_witness:
  "\<exists>m n (w :: world). as_id m \<noteq> as_id n \<and> as_revoked_at m = None \<and> as_revoked_at n = None \<and>
     m \<in> set (t_sessions (w_db w)) \<and> n \<in> set (t_sessions (w_db w))"
proof -
  from race_runs obtain x w4 where "race (sample_sha token_a) (quiet_world auth_db) = (Inr x, w4)"
    by (metis prod.collapse)
  then obtain s w1 t w2 r w3 q where
    "fetchSessionByHash (sample_sha token_a) (quiet_world auth_db) = (Inr (Some s), w1)"
    "fetchSessionByHash (sample_sha token_a) w1 = (Inr (Some t), w2)"
    "rotate_session sample_auth s '''' '''' w2 = (Inr r, w3)" "rotate_session sample_auth t '''' '''' w3 = (Inr q, w4)"
    unfolding race_def by (fastforce simp: tryE_Inr fail_run ret_run split: option.split_asm)
  moreover have "session_inv (w_db (quiet_world auth_db))"
    by (simp add: quiet_world_def sample_world_def sample_session_inv)
  ultimately show ?thesis by (blast dest: refresh_race)
qed

text \<open>
  C22.  Whatever Login, Refresh, Logout, UpdateStatus or ResetPassword do, and however they
  fail, every session row stays in the table with its user, family, token hash and expiry, a
  revoked session never changes again, and token hashes stay unique and 32 bytes long.
\<close>

theorem session_history_kept:
  assumes "session_inv (w_db w)"
  shows "session_step w (snd (Login sv email password ip agent w)) \<and>
    session_step w (snd (Refresh sv token ip agent w)) \<and> session_step w (snd (Logout token u w)) \<and>
    session_step w (snd (UpdateStatus a t st w)) \<and> session_step w (snd (ResetPassword cost a t np w)) \<and>
    session_inv (w_db (snd (Refresh sv token ip agent w)))"
proof -
  note steps = session_operations [THEN session.guarD, of w]
  have "session_inv (w_db (snd (Refresh sv token ip agent w)))"
    using steps(2) assms by (simp add: session_step_def)
  then show ?thesis using steps by blast
qed

lemma session_history_kept_witness:
  "session_inv (w_db (snd (Refresh sample_auth token_a '''' '''' (quiet_world auth_db))))"
  by (rule session_history_kept [THEN conjunct2, THEN conjunct2, THEN conjunct2, THEN conjunct2, THEN conjunct2])
    (simp add: quiet_world_def sample_world_def sample_session_inv)

section \<open>The rate limiter\<close>

text \<open>
  C23.  While Redis answers, of any number of attempts under one key that fall into one
  window, opened by the first, exactly the first \<^verbatim>\<open>lim\<close> are let pass.
\<close>

theorem limiter_window:
  assumes "\<forall>n. w_faults w n = None" and "live_counter (w\<lparr>w_clock_i := c\<rparr>) (limit_prefix @ key) = None"
    and "\<forall>x\<in>set cs. w_clock w x < w_clock w c + window"
  shows "allow_at key lim window (c # cs) w = map (\<lambda>i. int i < lim) [0..<Suc (length cs)]"
proof -
  have "calm (w\<lparr>w_clock_i := c\<rparr>)" using assms(1) by (simp add: calm_def)
  from Allow_new [OF this assms(2), of lim window] obtain d w1 where
    a: "Allow key lim window (w\<lparr>w_clock_i := c\<rparr>) = (Inr (1 \<le> lim, d), w1)" "calm w1" "w_clock w1 = w_clock w"
      "w_counters w1 (limit_prefix @ key) = Some (1, Some (w_clock w c + window))"
    by (auto simp: redis_now_def)
  have "allow_at key lim window cs w1 = map (\<lambda>i. 1 + int i < lim) [0..<length cs]"
    by (rule allow_at_live [OF a(2,4)]) (use a(3) assms(3) in auto)
  also have "\<dots> = map (\<lambda>i. int i < lim) [1..<Suc (length cs)]"
    by (rule nth_equalityI) (auto simp del: upt_Suc)
  finally show ?thesis
    using a(1) by (simp add: upt_conv_Cons del: upt_Suc) linarith
qed

lemma limiter_window_witness:
  "allow_at ''k'' 2 100 [0, 1, 2, 3] (sample_world empty_db) = [True, True, False, False]"
proof -
  have "allow_at ''k'' 2 100 (0 # [1, 2, 3]) (sample_world empty_db) = map (\<lambda>i. int i < 2) [0..<Suc (length [1, 2, 3 :: nat])]"
    by (rule limiter_window) (simp_all add: run_defs)
  then show ?thesis by (simp add: upt_rec)
qed

text \<open>
  When Redis is lost between the increment and the expiry of the first attempt, the
  counter never expires: from then on only the first \<^verbatim>\<open>lim\<close> attempts are let pass, at
  whatever time the later ones are made.
\<close>

theorem limiter_lockout:
  assumes "w_faults w (w_fault_i w) = None" and "w_faults w (Suc (w_fault_i w)) = Some f"
    and "\<forall>n>Suc (w_fault_i w). w_faults w n = None"
    and "live_counter (w\<lparr>w_clock_i := c\<rparr>) (limit_prefix @ key) = None" and "1 \<le> lim"
  shows "allow_at key lim window (c # cs) w = map (\<lambda>i. int i < lim) [0..<Suc (length cs)]"
proof -
  let ?w = "w\<lparr>w_clock_i := c\<rparr>" and ?k = "limit_prefix @ key"
  define w1 where "w1 = (faulted ?w)\<lparr>w_counters := (w_counters w)(?k \<mapsto> (1, None))\<rparr>"
  have incr: "redis_incr ?k ?w = (Inr 1, w1)" using assms(1,4) by (simp add: redis_incr_def infra_run w1_def)
  have "w_faults w1 (w_fault_i w1) = Some f" using assms(2) by (simp add: w1_def)
  then have "redis_expire ?k window w1 = (Inl (fault_error f), faulted w1)" by (simp add: redis_expire_def infra_run)
  then have a: "Allow key lim window ?w = (Inl (fault_error f), faulted w1)"
    using incr by (simp add: Allow_def Let_def tryE_def fail_def)
  have "calm (faulted w1)" "w_counters (faulted w1) ?k = Some (1, None)"
    using assms(3) by (auto simp: calm_def w1_def)
  then have "allow_at key lim window cs (faulted w1) = map (\<lambda>i. 1 + int i < lim) [0..<length cs]"
    by (rule allow_at_live) simp_all
  also have "\<dots> = map (\<lambda>i. int i < lim) [1..<Suc (length cs)]"
    by (rule nth_equalityI) (auto simp del: upt_Suc)
  finally show ?thesis
    using a assms(5) by (simp add: upt_conv_Cons del: upt_Suc)
qed

definition lost_once :: "nat \<Rightarrow> fault option" where [run_defs]:
  "lost_once n = (if n = 1 then Some (Lost ''redis: connection lost'') else None)"

lemma limiter_lockout_witness:
  "allow_at ''k'' 2 100 [0, 1, 5000, 9000] ((sample_world empty_db)\<lparr>w_faults := lost_once\<rparr>) = [True, True, False, False]"
proof -
  have "allow_at ''k'' 2 100 (0 # [1, 5000, 9000]) ((sample_world empty_db)\<lparr>w_faults := lost_once\<rparr>) =
      map (\<lambda>i. int i < 2) [0..<Suc (length [1, 5000, 9000 :: nat])]"
    by (rule limiter_lockout) (simp_all add: run_defs)
  then show ?thesis by (simp add: upt_rec)
qed

end
