(* ===== verification/Middleware.thy ===== *)
theory Middleware
  imports AuthService
begin

text \<open>
  backend/internal/middleware: auth\_middleware.go, rbac\_middleware.go and
  abac\_middleware.go.  A middleware either answers the request itself or lets it on; the
  identity it attaches to the request's context is the user it passes on.
\<close>

datatype response = Abort nat string string | Next

definition genericUnauthorizedMessage :: string where [run_defs]:
  "genericUnauthorizedMessage = ''Authentication required''"

definition genericForbiddenMessage :: string where [run_defs]:
  "genericForbiddenMessage = ''You do not have permission to perform this action''"

definition bearerPrefix :: string where [run_defs]:
  "bearerPrefix = ''Bearer ''"

definition unauthorized :: response where [run_defs]:
  "unauthorized = Abort 401 ''UNAUTHORIZED'' genericUnauthorizedMessage"

definition forbidden :: response where [run_defs]:
  "forbidden = Abort 403 ''FORBIDDEN'' genericForbiddenMessage"

definition unexpected :: response where [run_defs]:
  "unexpected = Abort 500 ''INTERNAL_ERROR'' ''An unexpected error occurred''"

text \<open>A missing header reads as the empty string.\<close>

definition Auth :: "JWTManager \<Rightarrow> string \<Rightarrow> (response \<times> authenticated_user option) op" where [run_defs]:
  "Auth jm header = (let deny = ret (unauthorized, None) in
     if header = '''' then deny
     else if take (length bearerPrefix) header \<noteq> bearerPrefix \<or> length header \<le> length bearerPrefix then deny
     else let token = TrimSpace (drop (length bearerPrefix) header) in
     if token = '''' then deny
     else tryE (Validate jm token) (\<lambda>_. deny) (\<lambda>claims.
       bindE (get_world w_lib) (\<lambda>lib.
       case lib_parse_uuid lib (cl_Subject claims) of None \<Rightarrow> deny
       | Some userID \<Rightarrow> tryE (ResolveIdentity userID) (\<lambda>_. deny) (\<lambda>identity. ret (Next, Some identity)))))"

definition RequirePermission ::
    "(authenticated_user \<Rightarrow> action \<Rightarrow> bool op) \<Rightarrow> action \<Rightarrow> authenticated_user option \<Rightarrow> response op" where [run_defs]:
  "RequirePermission has act current = (case current of None \<Rightarrow> ret unauthorized
     | Some user \<Rightarrow> tryE (has user act) (\<lambda>_. ret unexpected)
         (\<lambda>allowed. ret (if \<not> allowed then forbidden else Next)))"

definition RequireAdmin :: "authenticated_user option \<Rightarrow> response" where [run_defs]:
  "RequireAdmin current = (case current of None \<Rightarrow> unauthorized
     | Some user \<Rightarrow> if \<not> IsAdmin user then forbidden else Next)"

definition RequireCaseAccess ::
    "(authenticated_user \<Rightarrow> uuid \<Rightarrow> action \<Rightarrow> decision op) \<Rightarrow> action \<Rightarrow> string \<Rightarrow> authenticated_user option \<Rightarrow>
     response op" where [run_defs]:
  "RequireCaseAccess authorize act param current = (case current of None \<Rightarrow> ret unauthorized
     | Some user \<Rightarrow> bindE (get_world w_lib) (\<lambda>lib. case lib_parse_uuid lib param of None \<Rightarrow> ret forbidden
         | Some caseID \<Rightarrow> tryE (authorize user caseID act) (\<lambda>_. ret unexpected)
             (\<lambda>dec. ret (if \<not> Allowed dec then forbidden else Next))))"

definition RequireDocumentAccess ::
    "(authenticated_user \<Rightarrow> uuid \<Rightarrow> action \<Rightarrow> decision op) \<Rightarrow> action \<Rightarrow> string \<Rightarrow> authenticated_user option \<Rightarrow>
     response op" where [run_defs]:
  "RequireDocumentAccess authorize act param current = (case current of None \<Rightarrow> ret unauthorized
     | Some user \<Rightarrow> bindE (get_world w_lib) (\<lambda>lib. case lib_parse_uuid lib param of None \<Rightarrow> ret forbidden
         | Some documentID \<Rightarrow> tryE (authorize user documentID act) (\<lambda>_. ret unexpected)
             (\<lambda>dec. ret (if \<not> Allowed dec then forbidden else Next))))"

text \<open>The chain of handlers in front of a case route: authentication, then the case's policy.\<close>

definition case_route :: "JWTManager \<Rightarrow> action \<Rightarrow> string \<Rightarrow> string \<Rightarrow> (response \<times> authenticated_user option) op" where [run_defs]:
  "case_route jm act header param = bindE (Auth jm header) (\<lambda>(resp, current).
     if resp \<noteq> Next then ret (resp, None)
     else bindE (RequireCaseAccess CanAccessCase act param current) (\<lambda>r. ret (r, current)))"

end
