(* ===== verification/MiddlewareProps.thy ===== *)
theory MiddlewareProps
  imports AuthProps Middleware
begin

text \<open>What a request that reaches a case handler has been through.\<close>

context authorizer
begin

text \<open>The gates in front of a resource, for any policy that keeps the contract.\<close>

lemma case_gate:
  assumes "RequireCaseAccess decide act param cu w = (Inr Next, w')"
  shows "\<exists>user i. cu = Some user \<and> lib_parse_uuid (w_lib w) param = Some i \<and>
     (au_ID user \<noteq> nil_uuid \<longrightarrow> may w user i act)"
  using assms sound
  by (auto simp: RequireCaseAccess_def unauthorized_def forbidden_def unexpected_def tryE_Inr ret_run fail_run
      get_world_run split: option.splits if_splits)

lemma document_gate:
  assumes "RequireDocumentAccess decide act param cu w = (Inr Next, w')"
  shows "\<exists>user i. cu = Some user \<and> lib_parse_uuid (w_lib w) param = Some i \<and>
     (au_ID user \<noteq> nil_uuid \<longrightarrow> may w user i act)"
  using assms sound
  by (auto simp: RequireDocumentAccess_def unauthorized_def forbidden_def unexpected_def tryE_Inr ret_run fail_run
      get_world_run split: option.splits if_splits)

end

lemma ResolveIdentity_run:
  assumes "ResolveIdentity i w = (Inr user, w')"
  shows "\<exists>u\<in>set (t_users (w_db w)). u_id u = i \<and> u_status u = ''active'' \<and> au_ID user = i \<and>
     au_Roles user = map r_name (roles_of (w_db w) i)"
proof -
  from assms obtain p rs w1 w2 where p: "q_GetUserByID i (started anonymous w) = (Inr p, w1)"
    and r: "q_ListRolesForUser i w1 = (Inr rs, w2)" and ok: "u_status p = ''active''"
    and user: "user = \<lparr>au_ID = u_id p, au_Email = u_email p, au_Roles = map r_name rs\<rparr>"
    by (auto simp: ResolveIdentity_def no_rows_as_def WithTx_run tryE_Inr ret_run fail_run ensure_run
        split: if_splits)
  show ?thesis
    using q_GetUserByID_run [OF p] q_ListRolesForUser_run [OF r] reader_db [OF reader_case_queries(5) p] ok user
    by auto
qed

lemma Validate_run:
  "Validate jm token w = (Inr claims, w') \<Longrightarrow> lib_parse_jwt (w_lib w) (jm_signingKey jm) (jm_issuer jm)
     (jm_audience jm) (w_clock w (w_clock_i w)) token = Some claims"
  by (auto simp: Validate_def tryE_Inr ret_run fail_run ensure_run time_now_def get_world_run
      split: option.splits if_splits)

lemma reader_Auth: "reader.guar (Auth jm h)"
  unfolding Auth_def Let_def by auto

lemma Auth_run:
  assumes "Auth jm header w = (Inr (Next, cu), w')"
  shows "\<exists>claims u user. take 7 header = ''Bearer '' \<and>
     lib_parse_jwt (w_lib w) (jm_signingKey jm) (jm_issuer jm) (jm_audience jm) (w_clock w (w_clock_i w))
       (TrimSpace (drop 7 header)) = Some claims \<and>
     u \<in> set (t_users (w_db w)) \<and> lib_parse_uuid (w_lib w) (cl_Subject claims) = Some (u_id u) \<and>
     u_status u = ''active'' \<and> cu = Some user \<and> au_ID user = u_id u \<and>
     au_Roles user = map r_name (roles_of (w_db w) (u_id u))"
proof -
  from assms obtain claims w1 i user where
    h: "take (length bearerPrefix) header = bearerPrefix"
    and v: "Validate jm (TrimSpace (drop (length bearerPrefix) header)) w = (Inr claims, w1)"
    and i: "lib_parse_uuid (w_lib w1) (cl_Subject claims) = Some i" and cu: "cu = Some user"
    and r: "ResolveIdentity i w1 = (Inr user, w')"
    unfolding Auth_def Let_def
    by (auto simp: unauthorized_def tryE_Inr ret_run fail_run get_world_run
        split: if_splits option.splits)
  have "w_lib w1 = w_lib w" "w_db w1 = w_db w"
    using reader.guarD [OF reader_Validate, of w jm "TrimSpace (drop (length bearerPrefix) header)"] v
    by (simp_all add: reads_only_def params_same_def)
  moreover have "length bearerPrefix = 7" "bearerPrefix = ''Bearer ''" by (simp_all add: bearerPrefix_def)
  ultimately show ?thesis using h Validate_run [OF v] i cu ResolveIdentity_run [OF r] by auto
qed

text \<open>
  C24.  A request that reaches a handler of one case carried a bearer token that the JWT
  library accepts now under the server's key, issuer and audience; the token's subject is a
  user who exists and is active now; the handler is told that user with the roles the tables
  give, not those of the token; and the tables allow that user the action on that case.
\<close>

theorem middleware_sound:
  assumes "case_route jm act header param w = (Inr (Next, cu), w')"
    and "nil_uuid \<notin> u_id ` set (t_users (w_db w))"
  shows "\<exists>claims (u :: user_row) user cid. take 7 header = ''Bearer '' \<and>
     lib_parse_jwt (w_lib w) (jm_signingKey jm) (jm_issuer jm) (jm_audience jm) (w_clock w (w_clock_i w))
       (TrimSpace (drop 7 header)) = Some claims \<and>
     u \<in> set (t_users (w_db w)) \<and> lib_parse_uuid (w_lib w) (cl_Subject claims) = Some (u_id u) \<and>
     u_status u = ''active'' \<and> cu = Some user \<and> au_ID user = u_id u \<and>
     au_Roles user = map r_name (roles_of (w_db w) (u_id u)) \<and>
     lib_parse_uuid (w_lib w) param = Some cid \<and> case_access (w_db w) user cid act"
proof -
  from assms(1) obtain w1 where a: "Auth jm header w = (Inr (Next, cu), w1)"
    and g: "RequireCaseAccess CanAccessCase act param cu w1 = (Inr Next, w')"
    unfolding case_route_def by (auto simp: tryE_Inr ret_run fail_run split: if_splits)
  have "w_lib w1 = w_lib w" "w_db w1 = w_db w"
    using reader.guarD [OF reader_Auth, of w jm header] a by (simp_all add: reads_only_def params_same_def)
  then show ?thesis
    using Auth_run [OF a] case_policy.case_gate [OF g] assms(2) by (auto simp: image_iff)
qed

definition route_db :: database where [run_defs]:
  "route_db = sample_db\<lparr>t_role_permissions := [\<lparr>rp_role_id = 1, rp_permission_id = 1\<rparr>]\<rparr>"

lemma route_runs:
  "\<exists>cu. fst (case_route (sv_jwt sample_auth) ''case:read'' (''Bearer '' @ uuid_string 10) (uuid_string 20)
     (sample_world route_db)) = Inr (Next, cu)"
  supply run_congs [cong]
  by (simp add: run_defs)

lemma middleware_sound_witness:
  "\<exists>user. case_access route_db user 20 ''case:read'' \<and> au_Roles user = map r_name (roles_of route_db 10)"
proof -
  obtain cu w' where run: "case_route (sv_jwt sample_auth) ''case:read'' (''Bearer '' @ uuid_string 10)
      (uuid_string 20) (sample_world route_db) = (Inr (Next, cu), w')"
    using route_runs by (metis prod.collapse)
  have tok: "TrimSpace (uuid_string 10) = uuid_string 10" by (simp add: run_defs)
  have db: "w_db (sample_world route_db) = route_db" "w_lib (sample_world route_db) = sample_lib"
    by (simp_all add: sample_world_def)
  have parse: "lib_parse_uuid sample_lib (uuid_string 20) = Some 20" "lib_parse_uuid sample_lib (uuid_string 10) = Some 10"
    by (simp_all add: sample_lib_def sample_parse_uuid_def uuid_string_inject)
  have "nil_uuid \<notin> u_id ` set (t_users route_db)"
    by (simp add: route_db_def sample_db_def sample_user_def)
  from middleware_sound [OF run, unfolded db, OF this] parse show ?thesis
    by (auto simp: tok sample_lib_def sample_parse_def)
qed

end
