(* ===== verification/Decimal.thy ===== *)
theory Decimal
  imports Prelude
begin

text \<open>Decimal rendering as \<^verbatim>\<open>fmt\<close> does it: \<^verbatim>\<open>%d\<close> and the zero-padded \<^verbatim>\<open>%010d\<close>.\<close>

definition dec_digit :: "nat \<Rightarrow> char" where [run_defs]:
  "dec_digit n = ''0123456789'' ! n"

fun dec_nat :: "nat \<Rightarrow> string" where
  "dec_nat n = (if n < 10 then [dec_digit n] else dec_nat (n div 10) @ [dec_digit (n mod 10)])"

definition dec_int :: "int \<Rightarrow> string" where [run_defs]:
  "dec_int i = (if i < 0 then ''-'' @ dec_nat (nat (- i)) else dec_nat (nat i))"

text \<open>\<^verbatim>\<open>%0<k>d\<close>: the sign counts towards the width, the zeros come after it.\<close>

definition dec_padded :: "nat \<Rightarrow> int \<Rightarrow> string" where [run_defs]:
  "dec_padded k i = (let s = dec_nat (nat \<bar>i\<bar>); sign = (if i < 0 then ''-'' else '''') in
     sign @ replicate (k - length sign - length s) (CHR ''0'') @ s)"

declare dec_nat.simps [simp del]
declare dec_nat.simps [run_defs]

fun digits10 :: "nat \<Rightarrow> nat \<Rightarrow> nat list" where
  "digits10 0 n = []"
| "digits10 (Suc k) n = digits10 k (n div 10) @ [n mod 10]"

lemma length_digits10 [simp]: "length (digits10 k n) = k"
  by (induction k arbitrary: n) auto

lemma digits10_zero: "digits10 k 0 = replicate k 0"
  by (induction k) (auto simp: replicate_append_same)

text \<open>Within its width the padded form is the list of the digits.\<close>

lemma dec_nat_padded:
  "n < 10 ^ k \<Longrightarrow> 0 < k \<Longrightarrow> length (dec_nat n) \<le> k \<and>
     replicate (k - length (dec_nat n)) (CHR ''0'') @ dec_nat n = map dec_digit (digits10 k n)"
proof (induction n arbitrary: k rule: dec_nat.induct)
  case (1 n)
  obtain k' where k: "k = Suc k'" using 1 by (cases k) auto
  have zero: "dec_digit 0 = CHR ''0''" by (simp add: dec_digit_def)
  show ?case
  proof (cases "n < 10")
    case True
    then show ?thesis by (simp add: dec_nat.simps [of n] k digits10_zero map_replicate_const zero)
  next
    case False
    have "n div 10 < 10 ^ k'" using "1.prems" k by (simp add: less_mult_imp_div_less mult.commute)
    moreover have "0 < k'" using False "1.prems" k by (cases k') auto
    ultimately show ?thesis using "1.IH" [OF False] False by (simp add: dec_nat.simps [of n] k)
  qed
qed

lemma dec_padded_nat:
  assumes "0 \<le> i" "i < 10 ^ k" "0 < k"
  shows "dec_padded k i = map dec_digit (digits10 k (nat i))"
proof -
  have "nat i < 10 ^ k" using assms by (simp add: nat_less_iff)
  then show ?thesis using dec_nat_padded [OF _ assms(3)] assms(1) by (simp add: dec_padded_def)
qed

lemma of_dec_digit: "n < 10 \<Longrightarrow> of_char (dec_digit n) = 48 + n"
proof -
  assume "n < 10"
  then have "n \<in> set [0..<10]" by simp
  moreover have "\<forall>n\<in>set [0..<10]. of_char (dec_digit n) = 48 + n"
    by (simp add: dec_digit_def upt_rec)
  ultimately show ?thesis by blast
qed

lemma dec_digit_less: "m < 10 \<Longrightarrow> n < 10 \<Longrightarrow> dec_digit m < dec_digit n \<longleftrightarrow> m < n"
  by (simp add: less_char_def of_dec_digit)

lemma dec_digit_eq: "m < 10 \<Longrightarrow> n < 10 \<Longrightarrow> dec_digit m = dec_digit n \<longleftrightarrow> m = n"
  by (metis dec_digit_less less_irrefl linorder_neqE_nat)

lemma digits10_inject: "m < 10 ^ k \<Longrightarrow> n < 10 ^ k \<Longrightarrow> map dec_digit (digits10 k m) = map dec_digit (digits10 k n) \<longleftrightarrow> m = n"
proof (induction k arbitrary: m n)
  case (Suc k)
  have "m div 10 < 10 ^ k" "n div 10 < 10 ^ k"
    using Suc.prems by (simp_all add: less_mult_imp_div_less mult.commute)
  from Suc.IH [OF this] show ?case by (simp add: dec_digit_eq) (metis div_mult_mod_eq)
qed simp

lemma lex_append_same_length:
  fixes xs ys us vs :: "'a::linorder list"
  assumes "length xs = length ys"
  shows "xs @ us < ys @ vs \<longleftrightarrow> xs < ys \<or> xs = ys \<and> us < vs"
  using assms by (induction xs ys rule: list_induct2) auto

text \<open>Padded numbers are ordered as their texts are.\<close>

lemma digits10_less:
  "m < 10 ^ k \<Longrightarrow> n < 10 ^ k \<Longrightarrow> map dec_digit (digits10 k m) < map dec_digit (digits10 k n) \<longleftrightarrow> m < n"
proof (induction k arbitrary: m n)
  case (Suc k)
  have d: "m div 10 < 10 ^ k" "n div 10 < 10 ^ k"
    using Suc.prems by (simp_all add: less_mult_imp_div_less mult.commute)
  have split: "a < b \<longleftrightarrow> c < d \<or> c = d \<and> r < s"
    if "a = 10 * c + r" "b = 10 * d + s" "r < 10" "s < 10" for a b c d r s :: nat
    using that by linarith
  have "m < n \<longleftrightarrow> m div 10 < n div 10 \<or> m div 10 = n div 10 \<and> m mod 10 < n mod 10"
    by (rule split) simp_all
  then show ?case
    using Suc.IH [OF d] digits10_inject [OF d] by (simp add: lex_append_same_length dec_digit_less)
qed simp

lemma dec_padded_less:
  assumes "0 \<le> i" "i < 10 ^ k" "0 \<le> j" "j < 10 ^ k" "0 < k"
  shows "dec_padded k i < dec_padded k j \<longleftrightarrow> i < j"
proof -
  have "nat i < 10 ^ k" "nat j < 10 ^ k" using assms by (simp_all add: nat_less_iff)
  from digits10_less [OF this] show ?thesis using assms by (auto simp: dec_padded_nat)
qed

lemma dec_padded_inject:
  assumes "0 \<le> i" "i < 10 ^ k" "0 \<le> j" "j < 10 ^ k" "0 < k"
  shows "dec_padded k i = dec_padded k j \<longleftrightarrow> i = j"
  using dec_padded_less [OF assms] dec_padded_less [OF assms(3,4,1,2,5)] by (metis less_irrefl linorder_neqE)

section \<open>strconv.Atoi\<close>

definition digit_value :: "char \<Rightarrow> nat option" where [run_defs]:
  "digit_value c = (let n = of_char c in if 48 \<le> n \<and> n \<le> 57 then Some (n - 48) else None)"

fun nat_of_digits :: "nat \<Rightarrow> string \<Rightarrow> nat option" where
  "nat_of_digits acc [] = Some acc"
| "nat_of_digits acc (c # cs) = (case digit_value c of None \<Rightarrow> None
     | Some d \<Rightarrow> nat_of_digits (10 * acc + d) cs)"

declare nat_of_digits.simps [run_defs]

definition atoi_sign :: "string \<Rightarrow> bool \<times> string" where [run_defs]:
  "atoi_sign s = (case s of [] \<Rightarrow> (False, []) | c # cs \<Rightarrow>
     if c = CHR ''-'' then (True, cs) else if c = CHR ''+'' then (False, cs) else (False, s))"

definition Atoi :: "string \<Rightarrow> int option" where [run_defs]:
  "Atoi s = (case atoi_sign s of (neg, ds) \<Rightarrow> if ds = [] then None
     else case nat_of_digits 0 ds of None \<Rightarrow> None
       | Some n \<Rightarrow> let i = (if neg then - int n else int n) in
           if - (2 ^ 63) \<le> i \<and> i < 2 ^ 63 then Some i else None)"

lemma digit_value_dec: "n < 10 \<Longrightarrow> digit_value (dec_digit n) = Some n"
  by (simp add: digit_value_def of_dec_digit)

lemma nat_of_digits_append:
  "nat_of_digits a (xs @ ys) = (case nat_of_digits a xs of None \<Rightarrow> None | Some b \<Rightarrow> nat_of_digits b ys)"
  by (induction xs arbitrary: a) (auto split: option.splits)

lemma nat_of_digits_dec: "nat_of_digits 0 (dec_nat n) = Some n"
proof (induction n rule: dec_nat.induct)
  case (1 n)
  then show ?case
    by (cases "n < 10") (simp_all add: dec_nat.simps [of n] digit_value_dec nat_of_digits_append)
qed

lemma dec_nat_nonempty: "dec_nat n \<noteq> []"
  by (subst dec_nat.simps) simp

lemma dec_nat_digits: "c \<in> set (dec_nat n) \<Longrightarrow> digit_value c \<noteq> None"
proof (induction n rule: dec_nat.induct)
  case (1 n)
  then show ?case
    by (cases "n < 10") (auto simp: dec_nat.simps [of n] digit_value_dec)
qed

lemma Atoi_dec:
  assumes "- (2 ^ 63) \<le> i" "i < 2 ^ 63" shows "Atoi (dec_int i) = Some i"
proof (cases "i < 0")
  case True
  then show ?thesis
    using assms by (simp add: Atoi_def atoi_sign_def dec_int_def nat_of_digits_dec dec_nat_nonempty Let_def)
next
  case False
  obtain c cs where d: "dec_nat (nat i) = c # cs" using dec_nat_nonempty by (cases "dec_nat (nat i)") auto
  then have "digit_value c \<noteq> None" using dec_nat_digits [of c "nat i"] by simp
  then have "c \<noteq> CHR ''-''" "c \<noteq> CHR ''+''" by (auto simp: digit_value_def)
  then have "atoi_sign (dec_nat (nat i)) = (False, dec_nat (nat i))" by (simp add: atoi_sign_def d)
  then show ?thesis
    using False assms by (simp add: Atoi_def dec_int_def nat_of_digits_dec dec_nat_nonempty Let_def)
qed

end
