(* ===== verification/JsonStruct.thy ===== *)
theory JsonStruct
  imports Runtime
begin

text \<open>
  \<^verbatim>\<open>json.Unmarshal\<close> into a struct whose fields are strings and integers: a field that is
  absent or null keeps its zero value, one of another type is an error, and a key the struct
  does not have is skipped.  Objects the program reads back were written from a struct with
  the same field names.
\<close>

definition field_str :: "(string \<times> json) list \<Rightarrow> string \<Rightarrow> string option" where [run_defs]:
  "field_str kvs k = (case map_of kvs k of None \<Rightarrow> Some '''' | Some v \<Rightarrow>
     (case v of JStr s \<Rightarrow> Some s | JNull \<Rightarrow> Some '''' | _ \<Rightarrow> None))"

definition field_int :: "(string \<times> json) list \<Rightarrow> string \<Rightarrow> int option" where [run_defs]:
  "field_int kvs k = (case map_of kvs k of None \<Rightarrow> Some 0 | Some v \<Rightarrow>
     (case v of JInt i \<Rightarrow> Some i | JNull \<Rightarrow> Some 0 | _ \<Rightarrow> None))"

definition decode_struct :: "library \<Rightarrow> ((string \<times> json) list \<Rightarrow> 'a option) \<Rightarrow> bytes \<Rightarrow> gerr + 'a" where [run_defs]:
  "decode_struct lib flds b =
     (let read = (\<lambda>kvs. case flds kvs of None \<Rightarrow> Inl (StdErr ''json: cannot unmarshal into Go struct field'')
        | Some x \<Rightarrow> Inr x) in
      case lib_json_value lib b of Inl m \<Rightarrow> Inl (StdErr m)
      | Inr v \<Rightarrow> (case v of JObj kvs \<Rightarrow> read kvs | JNull \<Rightarrow> read []
          | _ \<Rightarrow> Inl (StdErr ''json: cannot unmarshal into Go value'')))"

text \<open>The round trip of an object of strings, booleans and integers that a float64 holds.\<close>

definition flat_value :: "json \<Rightarrow> bool" where [run_defs]:
  "flat_value v = (case v of JStr s \<Rightarrow> utf8_valid s | JInt i \<Rightarrow> \<bar>i\<bar> < 2 ^ 53 | JBool b \<Rightarrow> True | _ \<Rightarrow> False)"

definition flat_object :: "(string \<times> json) list \<Rightarrow> bool" where [run_defs]:
  "flat_object kvs \<longleftrightarrow> distinct (map fst kvs) \<and> list_all (\<lambda>(k, v). utf8_valid k \<and> flat_value v) kvs"

definition json_objects :: "library \<Rightarrow> bool" where
  "json_objects lib \<longleftrightarrow> (\<forall>kvs. flat_object kvs \<longrightarrow> (\<exists>kvs'.
     lib_json_value lib (lib_json_marshal lib (JObj kvs)) = Inr (JObj kvs') \<and> map_of kvs' = map_of kvs))"

text \<open>A decoder that looks its fields up reads back what was encoded.\<close>

lemma decode_encoded:
  assumes "json_objects lib" "flat_object kvs"
    and "\<And>kvs'. map_of kvs' = map_of kvs \<Longrightarrow> flds kvs' = Some x"
  shows "decode_struct lib flds (lib_json_marshal lib (JObj kvs)) = Inr x"
proof -
  from assms(1,2) obtain kvs' where "lib_json_value lib (lib_json_marshal lib (JObj kvs)) = Inr (JObj kvs')"
    and "map_of kvs' = map_of kvs"
    unfolding json_objects_def by blast
  then show ?thesis using assms(3) by (simp add: decode_struct_def)
qed

lemma field_cong:
  "map_of kvs' = map_of kvs \<Longrightarrow> field_str kvs' = field_str kvs"
  "map_of kvs' = map_of kvs \<Longrightarrow> field_int kvs' = field_int kvs"
  by (simp_all add: field_str_def field_int_def fun_eq_iff)

section \<open>A concrete encoding\<close>

text \<open>
  An encoding of flat objects for which the round trip holds: every string is preceded by
  its length in unary.
\<close>

definition unary :: "nat \<Rightarrow> string" where
  "unary n = replicate n (CHR ''1'') @ ''.''"

definition framed :: "string \<Rightarrow> string" where
  "framed s = unary (length s) @ s"

definition unframe :: "string \<Rightarrow> string \<times> string" where
  "unframe t = (let n = length (takeWhile (\<lambda>c. c = CHR ''1'') t); r = drop (Suc n) t in (take n r, drop n r))"

lemma unframe_framed [simp]: "unframe (framed s @ t) = (s, t)"
proof -
  have "takeWhile (\<lambda>c. c = CHR ''1'') (replicate n (CHR ''1'') @ CHR ''.'' # u) = replicate n (CHR ''1'')" for n u
    by (induction n) auto
  then show ?thesis by (simp add: unframe_def framed_def unary_def Let_def)
qed

fun flat_encode :: "json \<Rightarrow> bytes" where
  "flat_encode (JStr s) = ''s'' @ framed s"
| "flat_encode (JInt i) = ''i'' @ framed (unary (nat \<bar>i\<bar>) @ (if i < 0 then ''-'' else ''''))"
| "flat_encode (JBool b) = ''b'' @ framed (if b then ''t'' else '''')"
| "flat_encode v = ''n'' @ framed ''''"

definition flat_marshal :: "json \<Rightarrow> bytes" where
  "flat_marshal v = (case v of JObj kvs \<Rightarrow>
     unary (length kvs) @ concat (map (\<lambda>(k, v). framed k @ flat_encode v) kvs) | _ \<Rightarrow> ''.'')"

definition flat_decode :: "string \<Rightarrow> json \<times> string" where
  "flat_decode t = (let (s, r) = unframe (tl t) in
     (if hd t = CHR ''s'' then JStr s
      else if hd t = CHR ''i'' then (let n = int (length (takeWhile (\<lambda>c. c = CHR ''1'') s)) in
        JInt (if last s = CHR ''-'' then - n else n))
      else if hd t = CHR ''b'' then JBool (s \<noteq> '''')
      else JNull, r))"

lemma flat_decode_encode: "flat_value v \<Longrightarrow> flat_decode (flat_encode v @ t) = (v, t)"
proof -
  have ones: "takeWhile (\<lambda>c. c = CHR ''1'') (replicate n (CHR ''1'') @ CHR ''.'' # u) = replicate n (CHR ''1'')" for n u
    by (induction n) auto
  show "flat_value v \<Longrightarrow> flat_decode (flat_encode v @ t) = (v, t)"
    by (cases v) (simp_all add: flat_decode_def flat_value_def unary_def ones)
qed

fun flat_fields :: "nat \<Rightarrow> string \<Rightarrow> (string \<times> json) list" where
  "flat_fields 0 t = []"
| "flat_fields (Suc n) t = (let (k, r) = unframe t; (v, r') = flat_decode r in (k, v) # flat_fields n r')"

definition flat_unmarshal :: "bytes \<Rightarrow> string + json" where
  "flat_unmarshal t = (let n = length (takeWhile (\<lambda>c. c = CHR ''1'') t) in
     Inr (JObj (flat_fields n (drop (Suc n) t))))"

lemma flat_fields_encode:
  "list_all (\<lambda>(k, v). flat_value v) kvs \<Longrightarrow>
     flat_fields (length kvs) (concat (map (\<lambda>(k, v). framed k @ flat_encode v) kvs)) = kvs"
  by (induction kvs) (auto simp: flat_decode_encode)

lemma flat_round_trip: "flat_object kvs \<Longrightarrow> flat_unmarshal (flat_marshal (JObj kvs)) = Inr (JObj kvs)"
proof -
  assume "flat_object kvs"
  then have "list_all (\<lambda>(k, v). flat_value v) kvs" by (auto simp: flat_object_def list_all_iff)
  moreover have "takeWhile (\<lambda>c. c = CHR ''1'') (replicate n (CHR ''1'') @ CHR ''.'' # u) = replicate n (CHR ''1'')" for n u
    by (induction n) auto
  ultimately show ?thesis
    by (simp add: flat_unmarshal_def flat_marshal_def unary_def flat_fields_encode)
qed

lemma flat_json_objects:
  "json_objects (lib\<lparr>lib_json_marshal := flat_marshal, lib_json_value := flat_unmarshal\<rparr>)"
  by (auto simp: json_objects_def flat_round_trip)

end
