(* ===== verification/Chaincode.thy ===== *)
theory Chaincode
  imports AuditChain Decimal JsonStruct
begin

text \<open>
  chaincode/evidentia/chaincode.go: the contract on the Fabric channel.  Its state is the
  channel's world state, \<^verbatim>\<open>w_ledger\<close>: values under composite keys (given by their
  attributes, the object type is always \<^verbatim>\<open>evidence\<close>), in the order of the keys' bytes.
  A contract function runs against the stub, which may fail at every call.
\<close>

section \<open>The stub\<close>

definition composite :: "string list \<Rightarrow> string" where [run_defs]:
  "composite attrs = [CHR 0x00] @ ''evidence'' @ [CHR 0x00] @ concat (map (\<lambda>a. a @ [CHR 0x00]) attrs)"

definition attribute_ok :: "string \<Rightarrow> bool" where [run_defs]:
  "attribute_ok a \<longleftrightarrow> text_ok a \<and> [CHR 0xF4, CHR 0x8F, CHR 0xBF, CHR 0xBF] \<notin> set (runes a)"

definition CreateCompositeKey :: "string list \<Rightarrow> gerr + string list" where [run_defs]:
  "CreateCompositeKey attrs = (if list_all attribute_ok attrs then Inr attrs
     else Inl (StdErr ''input contains unicode U+0000 or U+10FFFF''))"

definition ledger_put :: "string list \<Rightarrow> bytes \<Rightarrow> (string list \<times> bytes) list \<Rightarrow> (string list \<times> bytes) list" where [run_defs]:
  "ledger_put k v l = insort_key (\<lambda>kv. composite (fst kv)) (k, v) (filter (\<lambda>kv. fst kv \<noteq> k) l)"

definition GetState :: "string list \<Rightarrow> bytes option op" where [run_defs]:
  "GetState k = infra (get_world (\<lambda>w. map_of (w_ledger w) k))"

definition PutState :: "string list \<Rightarrow> bytes \<Rightarrow> unit op" where [run_defs]:
  "PutState k v = infra (\<lambda>w. (Inr (), w\<lparr>w_ledger := ledger_put k v (w_ledger w)\<rparr>))"

text \<open>
  A partial key with one attribute: the attribute is checked as for a full key, and the
  entries are fetched as the iterator advances.
\<close>

definition GetStateByPartialCompositeKey :: "string \<Rightarrow> bytes list op" where [run_defs]:
  "GetStateByPartialCompositeKey a = (case CreateCompositeKey [a] of Inl e \<Rightarrow> fail e
     | Inr k \<Rightarrow> infra (get_world (\<lambda>w. map snd (filter (\<lambda>kv. take 1 (fst kv) = k) (w_ledger w)))))"

definition GetTxTimestamp :: "time op" where [run_defs]:
  "GetTxTimestamp = infra time_now"

definition GetTxID :: "string op" where [run_defs]:
  "GetTxID w = (Inr (lib_tx_id (w_lib w) (w_rng_i w)), w\<lparr>w_rng_i := Suc (w_rng_i w)\<rparr>)"

section \<open>Records\<close>

record EvidenceRecord =
  er_EvidenceID :: string
  er_Version :: int
  er_Hash :: string
  er_EventType :: string
  er_CaseReference :: string
  er_ActorOrg :: string
  er_AppRecordID :: string
  er_TxID :: string
  er_AnchoredAt :: string

definition record_fields :: "EvidenceRecord \<Rightarrow> (string \<times> json) list" where [run_defs]:
  "record_fields r = [(''evidence_id'', JStr (er_EvidenceID r)), (''version'', JInt (er_Version r)),
     (''hash'', JStr (er_Hash r)), (''event_type'', JStr (er_EventType r)),
     (''case_reference'', JStr (er_CaseReference r)), (''actor_org'', JStr (er_ActorOrg r)),
     (''app_record_id'', JStr (er_AppRecordID r)), (''tx_id'', JStr (er_TxID r)),
     (''anchored_at'', JStr (er_AnchoredAt r))]"

definition record_of_fields :: "(string \<times> json) list \<Rightarrow> EvidenceRecord option" where [run_defs]:
  "record_of_fields kvs = (case map (field_str kvs) [''evidence_id'', ''hash'', ''event_type'', ''case_reference'',
       ''actor_org'', ''app_record_id'', ''tx_id'', ''anchored_at''] of
     [Some i, Some h, Some ev, Some cr, Some org, Some app, Some tx, Some at] \<Rightarrow>
       (case field_int kvs ''version'' of None \<Rightarrow> None
        | Some v \<Rightarrow> Some \<lparr>er_EvidenceID = i, er_Version = v, er_Hash = h, er_EventType = ev,
            er_CaseReference = cr, er_ActorOrg = org, er_AppRecordID = app, er_TxID = tx, er_AnchoredAt = at\<rparr>)
   | _ \<Rightarrow> None)"

definition encode_record :: "library \<Rightarrow> EvidenceRecord \<Rightarrow> bytes" where [run_defs]:
  "encode_record lib r = lib_json_marshal lib (JObj (record_fields r))"

definition decode_record :: "library \<Rightarrow> bytes \<Rightarrow> gerr + EvidenceRecord" where [run_defs]:
  "decode_record lib b = decode_struct lib record_of_fields b"

section \<open>The contract\<close>

definition compositeKey :: "string \<Rightarrow> int \<Rightarrow> gerr + string list" where [run_defs]:
  "compositeKey evidenceID version = (case CreateCompositeKey [evidenceID, dec_padded 10 version] of
     Inl e \<Rightarrow> Inl (Wrap ''create composite key'' e) | Inr k \<Rightarrow> Inr k)"

definition lift :: "gerr + 'a \<Rightarrow> ('a \<Rightarrow> 'b op) \<Rightarrow> 'b op" where [run_defs]:
  "lift r k = (case r of Inl e \<Rightarrow> fail e | Inr x \<Rightarrow> k x)"

definition parsed_version :: "string \<Rightarrow> string \<Rightarrow> (int \<Rightarrow> 'a op) \<Rightarrow> 'a op" where [run_defs]:
  "parsed_version who text k = (case Atoi text of Some v \<Rightarrow> k v
     | None \<Rightarrow> fail (StdErr (who @ '': invalid version '' @ text)))"

definition AnchorEvidence ::
    "string \<Rightarrow> string \<Rightarrow> string \<Rightarrow> string \<Rightarrow> string \<Rightarrow> string \<Rightarrow> string \<Rightarrow> string op" where [run_defs]:
  "AnchorEvidence evidenceID versionStr hash eventType caseReference actorOrg appRecordID =
     ensure (\<not> (evidenceID = '''' \<or> hash = '''' \<or> eventType = ''''))
       (StdErr ''AnchorEvidence: evidenceID, hash, and eventType are required'') (
     parsed_version ''AnchorEvidence'' versionStr (\<lambda>version.
     lift (compositeKey evidenceID version) (\<lambda>stateKey.
     try_wrap (GetState stateKey) ''AnchorEvidence: read existing state'' (\<lambda>existing.
     bindE (get_world w_lib) (\<lambda>lib.
     case existing of
       Some b \<Rightarrow> (case decode_record lib b of
           Inl e \<Rightarrow> fail (Wrap ''AnchorEvidence: unmarshal existing'' e)
         | Inr r \<Rightarrow> ensure (er_Hash r = hash) (StdErr (''AnchorEvidence: hash mismatch '' @ emdash @
              '' stored='' @ er_Hash r @ '' submitted='' @ hash)) (ret (er_TxID r)))
     | None \<Rightarrow>
         try_wrap GetTxTimestamp ''AnchorEvidence: get tx timestamp'' (\<lambda>txTime.
         bindE GetTxID (\<lambda>txID.
         try_wrap (PutState stateKey (encode_record lib \<lparr>er_EvidenceID = evidenceID, er_Version = version,
             er_Hash = hash, er_EventType = eventType, er_CaseReference = caseReference,
             er_ActorOrg = actorOrg, er_AppRecordID = appRecordID, er_TxID = txID,
             er_AnchoredAt = lib_rfc3339_s lib txTime\<rparr>)) ''AnchorEvidence: write state'' (\<lambda>_. ret txID))))))))"

definition GetEvidence :: "string \<Rightarrow> string \<Rightarrow> EvidenceRecord op" where [run_defs]:
  "GetEvidence evidenceID versionStr = parsed_version ''GetEvidence'' versionStr (\<lambda>version.
     lift (compositeKey evidenceID version) (\<lambda>stateKey.
     try_wrap (GetState stateKey) ''GetEvidence: read state'' (\<lambda>state.
     bindE (get_world w_lib) (\<lambda>lib.
     case state of
       None \<Rightarrow> fail (StdErr (''evidence not found: '' @ evidenceID @ '' version '' @ dec_int version))
     | Some b \<Rightarrow> (case decode_record lib b of
         Inl e \<Rightarrow> fail (Wrap ''GetEvidence: unmarshal'' e) | Inr r \<Rightarrow> ret r)))))"

text \<open>The loops over the iterator; an entry that does not decode is skipped.\<close>

fun scan :: "library \<Rightarrow> string \<Rightarrow> bytes list \<Rightarrow> EvidenceRecord list \<Rightarrow> EvidenceRecord list op" where
  "scan lib who [] acc = ret acc"
| "scan lib who (b # bs) acc = try_wrap (infra (ret ())) (who @ '': iterate'')
     (\<lambda>_. scan lib who bs (case decode_record lib b of Inl e \<Rightarrow> acc | Inr r \<Rightarrow> acc @ [r]))"

fun newest :: "EvidenceRecord option \<Rightarrow> EvidenceRecord list \<Rightarrow> EvidenceRecord option" where
  "newest latest [] = latest"
| "newest latest (r # rs) = newest (case latest of None \<Rightarrow> Some r
     | Some l \<Rightarrow> if er_Version l < er_Version r then Some r else Some l) rs"

declare scan.simps [run_defs] newest.simps [run_defs]

definition GetEvidenceLatest :: "string \<Rightarrow> EvidenceRecord op" where [run_defs]:
  "GetEvidenceLatest evidenceID =
     try_wrap (GetStateByPartialCompositeKey evidenceID) ''GetEvidenceLatest: range query'' (\<lambda>bs.
     bindE (get_world w_lib) (\<lambda>lib.
     bindE (scan lib ''GetEvidenceLatest'' bs []) (\<lambda>rs.
     case newest None rs of None \<Rightarrow> fail (StdErr (''evidence not found: '' @ evidenceID))
     | Some r \<Rightarrow> ret r)))"

definition GetEvidenceHistory :: "string \<Rightarrow> EvidenceRecord list op" where [run_defs]:
  "GetEvidenceHistory evidenceID =
     try_wrap (GetStateByPartialCompositeKey evidenceID) ''GetEvidenceHistory: range query'' (\<lambda>bs.
     bindE (get_world w_lib) (\<lambda>lib. scan lib ''GetEvidenceHistory'' bs []))"

end
