(* ===== verification/Fabric.thy ===== *)
theory Fabric
  imports Chaincode
begin

text \<open>
  backend/internal/blockchain: the interface the services use (service.go), its
  implementation over the Fabric gateway (fabric.go) and the one that is used when the
  network is switched off (noop.go).
\<close>

section \<open>The interface\<close>

definition ErrUnavailable :: gerr where [run_defs]:
  "ErrUnavailable = StdErr ''blockchain: Hyperledger Fabric network is unavailable''"

definition ErrNotFoundOnLedger :: gerr where [run_defs]:
  "ErrNotFoundOnLedger = StdErr ''blockchain: no evidence anchor found on ledger''"

definition ErrIntegrityMismatch :: gerr where [run_defs]:
  "ErrIntegrityMismatch = StdErr ''blockchain: hash on ledger does not match provided hash''"

fun wraps :: "gerr \<Rightarrow> gerr \<Rightarrow> bool" where
  "wraps (Wrap m e) t = (Wrap m e = t \<or> wraps e t)"
| "wraps e t = (e = t)"

declare wraps.simps [run_defs]

record AnchorRequest =
  aq_EvidenceID :: uuid
  aq_CaseReference :: string
  aq_Version :: int
  aq_Hash :: string
  aq_EventType :: string
  aq_ActorOrg :: string
  aq_AppRecordID :: uuid

record AnchorResult =
  an_TransactionID :: string
  an_Organization :: string
  an_Timestamp :: time

record VerifyRequest =
  vq_EvidenceID :: uuid
  vq_Version :: int
  vq_Hash :: string

record VerifyResult =
  vs_OnChainHash :: string
  vs_Match :: bool
  vs_TransactionID :: string
  vs_AnchoredAt :: time
  vs_Organization :: string

record ProvenanceEntry =
  pe_EvidenceID :: string
  pe_Version :: int
  pe_EventType :: string
  pe_Hash :: string
  pe_Organization :: string
  pe_Timestamp :: time
  pe_TransactionID :: string
  pe_AppRecordID :: string

text \<open>VerifyEvidence returns its result beside the error, not instead of it.\<close>

record BlockchainService =
  bc_AnchorEvidence :: "AnchorRequest \<Rightarrow> AnchorResult op"
  bc_VerifyEvidence :: "VerifyRequest \<Rightarrow> (VerifyResult \<times> gerr option) op"
  bc_GetProvenance :: "uuid \<Rightarrow> ProvenanceEntry op"
  bc_GetHistory :: "uuid \<Rightarrow> ProvenanceEntry list op"
  bc_IsEnabled :: bool

definition HashToHex :: "bytes \<Rightarrow> string" where [run_defs]:
  "HashToHex raw = hex_encode raw"

definition zero_time :: time where [run_defs]:
  "zero_time = - 62135596800000000"

definition no_verify_result :: VerifyResult where [run_defs]:
  "no_verify_result = \<lparr>vs_OnChainHash = '''', vs_Match = False, vs_TransactionID = '''',
     vs_AnchoredAt = zero_time, vs_Organization = ''''\<rparr>"

section \<open>The gateway\<close>

text \<open>
  A submitted transaction is endorsed, ordered and committed; when the contract function
  fails, or when the gateway cannot be reached, nothing is written; when the gateway's answer
  is lost, the transaction has been committed all the same.  An evaluated one never writes.
  What the client sees of a contract error is the gateway's text of it; the record a contract
  function returns travels as JSON and arrives as it is.
\<close>

definition gateway_error :: "library \<Rightarrow> gerr \<Rightarrow> gerr" where [run_defs]:
  "gateway_error lib e = StdErr (lib_gateway_text lib (err_text e))"

definition SubmitTransaction :: "'a op \<Rightarrow> 'a op" where [run_defs]:
  "SubmitTransaction m = infra (\<lambda>w. case m w of
     (Inl e, w') \<Rightarrow> (Inl (gateway_error (w_lib w) e), w'\<lparr>w_ledger := w_ledger w\<rparr>)
   | (Inr x, w') \<Rightarrow> infra (ret x) w')"

definition EvaluateTransaction :: "'a op \<Rightarrow> 'a op" where [run_defs]:
  "EvaluateTransaction m = infra (\<lambda>w. case m w of
     (Inl e, w') \<Rightarrow> (Inl (gateway_error (w_lib w) e), w'\<lparr>w_ledger := w_ledger w\<rparr>)
   | (Inr x, w') \<Rightarrow> (Inr x, w'\<lparr>w_ledger := w_ledger w\<rparr>))"

text \<open>The local \<^verbatim>\<open>contains\<close>: does the text hold the other as a part?\<close>

fun contains :: "string \<Rightarrow> string \<Rightarrow> bool" where
  "contains [] sub = (sub = [])"
| "contains (c # s) sub = (take (length sub) (c # s) = sub \<or> contains s sub)"

declare contains.simps [run_defs]

definition sanitizeFabricError :: "gerr \<Rightarrow> string" where [run_defs]:
  "sanitizeFabricError e = (let msg = err_text e in if 256 < length msg then take 256 msg @ ''...'' else msg)"

text \<open>The text after the wrapped sentinel is part of the message only.\<close>

definition wrapFabricError :: "gerr \<Rightarrow> gerr" where [run_defs]:
  "wrapFabricError e = (if contains (err_text e) ''evidence not found'' \<or> contains (err_text e) ''no evidence''
     then ErrNotFoundOnLedger
     else Wrap (sanitizeFabricError e) ErrUnavailable)"

section \<open>FabricService\<close>

definition parsed_time :: "library \<Rightarrow> string \<Rightarrow> time" where [run_defs]:
  "parsed_time lib s = (case lib_parse_time lib s of None \<Rightarrow> zero_time | Some t \<Rightarrow> t)"

definition fabric_AnchorEvidence :: "string \<Rightarrow> AnchorRequest \<Rightarrow> AnchorResult op" where [run_defs]:
  "fabric_AnchorEvidence mspID req =
     tryE (SubmitTransaction (AnchorEvidence (uuid_string (aq_EvidenceID req)) (dec_int (aq_Version req))
        (aq_Hash req) (aq_EventType req) (aq_CaseReference req) (aq_ActorOrg req) (uuid_string (aq_AppRecordID req))))
       (\<lambda>e. fail (wrapFabricError e))
       (\<lambda>res. bindE time_now (\<lambda>now. ret \<lparr>an_TransactionID = (if res = '''' then ''unknown'' else res),
          an_Organization = mspID, an_Timestamp = now\<rparr>))"

definition fabric_VerifyEvidence :: "VerifyRequest \<Rightarrow> (VerifyResult \<times> gerr option) op" where [run_defs]:
  "fabric_VerifyEvidence req =
     tryE (EvaluateTransaction (GetEvidence (uuid_string (vq_EvidenceID req)) (dec_int (vq_Version req))))
       (\<lambda>e. ret (no_verify_result, Some (wrapFabricError e)))
       (\<lambda>r. bindE (get_world w_lib) (\<lambda>lib.
          let match = (er_Hash r = vq_Hash req) in
          ret (\<lparr>vs_OnChainHash = er_Hash r, vs_Match = match, vs_TransactionID = er_TxID r,
             vs_AnchoredAt = parsed_time lib (er_AnchoredAt r), vs_Organization = er_ActorOrg r\<rparr>,
            if match then None else Some ErrIntegrityMismatch)))"

definition provenance_entry :: "library \<Rightarrow> EvidenceRecord \<Rightarrow> ProvenanceEntry" where [run_defs]:
  "provenance_entry lib r = \<lparr>pe_EvidenceID = er_EvidenceID r, pe_Version = er_Version r,
     pe_EventType = er_EventType r, pe_Hash = er_Hash r, pe_Organization = er_ActorOrg r,
     pe_Timestamp = parsed_time lib (er_AnchoredAt r), pe_TransactionID = er_TxID r,
     pe_AppRecordID = er_AppRecordID r\<rparr>"

definition fabric_GetProvenance :: "uuid \<Rightarrow> ProvenanceEntry op" where [run_defs]:
  "fabric_GetProvenance i = tryE (EvaluateTransaction (GetEvidenceLatest (uuid_string i)))
     (\<lambda>e. fail (wrapFabricError e))
     (\<lambda>r. bindE (get_world w_lib) (\<lambda>lib. ret (provenance_entry lib r)))"

definition fabric_GetHistory :: "uuid \<Rightarrow> ProvenanceEntry list op" where [run_defs]:
  "fabric_GetHistory i = tryE (EvaluateTransaction (GetEvidenceHistory (uuid_string i)))
     (\<lambda>e. fail (wrapFabricError e))
     (\<lambda>rs. bindE (get_world w_lib) (\<lambda>lib. ret (map (provenance_entry lib) rs)))"

definition fabric_service :: "string \<Rightarrow> BlockchainService" where [run_defs]:
  "fabric_service mspID = \<lparr>bc_AnchorEvidence = fabric_AnchorEvidence mspID,
     bc_VerifyEvidence = fabric_VerifyEvidence, bc_GetProvenance = fabric_GetProvenance,
     bc_GetHistory = fabric_GetHistory, bc_IsEnabled = True\<rparr>"

section \<open>NoopService\<close>

definition noop_service :: BlockchainService where [run_defs]:
  "noop_service = \<lparr>bc_AnchorEvidence = (\<lambda>req. fail ErrUnavailable),
     bc_VerifyEvidence = (\<lambda>req. ret (no_verify_result, Some ErrUnavailable)),
     bc_GetProvenance = (\<lambda>i. fail ErrUnavailable), bc_GetHistory = (\<lambda>i. fail ErrUnavailable),
     bc_IsEnabled = False\<rparr>"

end
