(* ===== verification/Untouched.thy ===== *)
theory Untouched
  imports AuthzFacts
begin

text \<open>
  A part of the world that an operation leaves as it was: the stored objects, or the ledger.
  The part is one that neither the database nor the environment of a call holds, so only the
  operations on that part itself are left to look at.
\<close>

locale untouched =
  fixes f :: "world \<Rightarrow> 'x"
  assumes blind: "f (w\<lparr>w_db := d, w_ctx := c, w_tx_now := t, w_clock_i := n, w_rng_i := k,
    w_fault_i := i, w_seq := s, w_published := p, w_jobs := j, w_counters := rc\<rparr>) = f w"
begin

definition kept :: "'a op \<Rightarrow> bool" where
  "kept m \<longleftrightarrow> (\<forall>w. f (snd (m w)) = f w)"

lemma keptI: "(\<And>w. f (snd (m w)) = f w) \<Longrightarrow> kept m"
  by (simp add: kept_def)

lemma keptD: "kept m \<Longrightarrow> m w = (r, w') \<Longrightarrow> f w' = f w"
  by (metis kept_def snd_conv)

lemma blind_parts [simp]:
  "f (w\<lparr>w_db := d\<rparr>) = f w" "f (w\<lparr>w_ctx := c\<rparr>) = f w" "f (w\<lparr>w_tx_now := t\<rparr>) = f w"
  "f (w\<lparr>w_clock_i := n\<rparr>) = f w" "f (w\<lparr>w_rng_i := n\<rparr>) = f w" "f (w\<lparr>w_fault_i := n\<rparr>) = f w"
  "f (w\<lparr>w_seq := s\<rparr>) = f w" "f (w\<lparr>w_published := p\<rparr>) = f w" "f (w\<lparr>w_jobs := j\<rparr>) = f w"
  "f (w\<lparr>w_counters := rc\<rparr>) = f w"
proof -
  note b = blind [where w = w and d = "w_db w" and c = "w_ctx w" and t = "w_tx_now w" and n = "w_clock_i w"
      and k = "w_rng_i w" and i = "w_fault_i w" and s = "w_seq w" and p = "w_published w" and j = "w_jobs w"
      and rc = "w_counters w"]
  show "f (w\<lparr>w_db := d\<rparr>) = f w"
    using blind [where w = w and d = d and c = "w_ctx w" and t = "w_tx_now w" and n = "w_clock_i w"
      and k = "w_rng_i w" and i = "w_fault_i w" and s = "w_seq w" and p = "w_published w" and j = "w_jobs w"
      and rc = "w_counters w"] by simp
  show "f (w\<lparr>w_ctx := c\<rparr>) = f w"
    using blind [where w = w and d = "w_db w" and c = c and t = "w_tx_now w" and n = "w_clock_i w"
      and k = "w_rng_i w" and i = "w_fault_i w" and s = "w_seq w" and p = "w_published w" and j = "w_jobs w"
      and rc = "w_counters w"] by simp
  show "f (w\<lparr>w_tx_now := t\<rparr>) = f w"
    using blind [where w = w and d = "w_db w" and c = "w_ctx w" and t = t and n = "w_clock_i w"
      and k = "w_rng_i w" and i = "w_fault_i w" and s = "w_seq w" and p = "w_published w" and j = "w_jobs w"
      and rc = "w_counters w"] by simp
  show "f (w\<lparr>w_clock_i := n\<rparr>) = f w" "f (w\<lparr>w_rng_i := n\<rparr>) = f w" "f (w\<lparr>w_fault_i := n\<rparr>) = f w"
    using blind [where w = w and d = "w_db w" and c = "w_ctx w" and t = "w_tx_now w" and n = n
      and k = "w_rng_i w" and i = "w_fault_i w" and s = "w_seq w" and p = "w_published w" and j = "w_jobs w"
      and rc = "w_counters w"]
      blind [where w = w and d = "w_db w" and c = "w_ctx w" and t = "w_tx_now w" and n = "w_clock_i w"
      and k = n and i = "w_fault_i w" and s = "w_seq w" and p = "w_published w" and j = "w_jobs w"
      and rc = "w_counters w"]
      blind [where w = w and d = "w_db w" and c = "w_ctx w" and t = "w_tx_now w" and n = "w_clock_i w"
      and k = "w_rng_i w" and i = n and s = "w_seq w" and p = "w_published w" and j = "w_jobs w"
      and rc = "w_counters w"] by simp_all
  show "f (w\<lparr>w_seq := s\<rparr>) = f w" "f (w\<lparr>w_published := p\<rparr>) = f w"
    using blind [where w = w and d = "w_db w" and c = "w_ctx w" and t = "w_tx_now w" and n = "w_clock_i w"
      and k = "w_rng_i w" and i = "w_fault_i w" and s = s and p = "w_published w" and j = "w_jobs w"
      and rc = "w_counters w"]
      blind [where w = w and d = "w_db w" and c = "w_ctx w" and t = "w_tx_now w" and n = "w_clock_i w"
      and k = "w_rng_i w" and i = "w_fault_i w" and s = "w_seq w" and p = p and j = "w_jobs w"
      and rc = "w_counters w"] by simp_all
  show "f (w\<lparr>w_jobs := j\<rparr>) = f w" "f (w\<lparr>w_counters := rc\<rparr>) = f w"
    using blind [where w = w and d = "w_db w" and c = "w_ctx w" and t = "w_tx_now w" and n = "w_clock_i w"
      and k = "w_rng_i w" and i = "w_fault_i w" and s = "w_seq w" and p = "w_published w" and j = j
      and rc = "w_counters w"]
      blind [where w = w and d = "w_db w" and c = "w_ctx w" and t = "w_tx_now w" and n = "w_clock_i w"
      and k = "w_rng_i w" and i = "w_fault_i w" and s = "w_seq w" and p = "w_published w" and j = "w_jobs w"
      and rc = rc] by simp_all
qed

lemma kept_basic [intro!]:
  "kept (ret x)" "kept (fail e)" "kept (get_world g)" "kept uuid_new" "kept time_now" "kept (publish a b c e')"
  by (simp_all add: kept_def ret_def fail_def get_world_def uuid_new_def time_now_def publish_def)

lemma kept_tryE [intro!]: "kept m \<Longrightarrow> (\<And>e. kept (h e)) \<Longrightarrow> (\<And>x. kept (k x)) \<Longrightarrow> kept (tryE m h k)"
  unfolding kept_def tryE_def by (auto split: sum.splits prod.splits) (metis snd_conv)+

lemma kept_ensure [intro!]: "kept k \<Longrightarrow> kept (ensure b e k)"
  by (simp add: ensure_def kept_basic)

lemma kept_ignoring [intro!]: "kept m \<Longrightarrow> kept k \<Longrightarrow> kept (ignoring m k)"
  by (simp add: kept_def ignoring_def)

lemma kept_infra [intro!]: "kept m \<Longrightarrow> kept (infra m)"
  by (auto simp: kept_def infra_def Let_def split: option.splits)

lemma kept_statements [intro!]: "kept (query q)" "kept (exec x)" "kept (exec_new y)"
proof -
  show "kept (query q)" unfolding query_def by (rule kept_infra) (simp add: kept_def)
  show "kept (exec x)" unfolding exec_def
    by (rule kept_infra) (auto simp: kept_def split: sum.splits prod.splits)
  show "kept (exec_new y)" unfolding exec_new_def
    by (intro kept_tryE kept_infra kept_basic) (auto simp: kept_def split: sum.splits prod.splits)
qed

lemma kept_redis [intro!]:
  "kept (redis_incr key)" "kept (redis_expire key win)" "kept (redis_ttl key)" "kept (redis_del key)"
  unfolding redis_incr_def redis_expire_def redis_ttl_def redis_del_def
  by (rule kept_infra, simp add: kept_def split: option.splits prod.splits)+

lemma kept_if [intro!]: "(b \<Longrightarrow> kept m) \<Longrightarrow> (\<not> b \<Longrightarrow> kept n) \<Longrightarrow> kept (if b then m else n)"
  by simp

lemma kept_option [intro!]:
  "(x = None \<Longrightarrow> kept m) \<Longrightarrow> (\<And>y. x = Some y \<Longrightarrow> kept (g y)) \<Longrightarrow> kept (case x of None \<Rightarrow> m | Some y \<Rightarrow> g y)"
  by (cases x) auto

lemma kept_sum [intro!]:
  "(\<And>e. x = Inl e \<Longrightarrow> kept (g e)) \<Longrightarrow> (\<And>y. x = Inr y \<Longrightarrow> kept (h y)) \<Longrightarrow>
     kept (case x of Inl e \<Rightarrow> g e | Inr y \<Rightarrow> h y)"
  by (cases x) auto

lemma kept_prod [intro!]: "(\<And>a b. x = (a, b) \<Longrightarrow> kept (g a b)) \<Longrightarrow> kept (case x of (a, b) \<Rightarrow> g a b)"
  by (cases x) auto

lemma kept_list [intro!]:
  "(x = [] \<Longrightarrow> kept m) \<Longrightarrow> (\<And>y ys. x = y # ys \<Longrightarrow> kept (g y ys)) \<Longrightarrow> kept (case x of [] \<Rightarrow> m | y # ys \<Rightarrow> g y ys)"
  by (cases x) auto

lemma kept_mapE [intro!]: "(\<And>x. kept (g x)) \<Longrightarrow> kept (mapE g xs)"
  by (induction xs) auto

lemma kept_WithTx [intro!]: "kept fn \<Longrightarrow> kept (WithTx i fn)"
proof -
  let ?m = "try_wrap (begin_tx i) ''repository: begin transaction'' (\<lambda>_.
     try_wrap (infra (ret ())) ''repository: set app.user_id'' (\<lambda>_.
     try_wrap (infra (ret ())) ''repository: set app.role'' (\<lambda>_.
     bindE fn (\<lambda>x. try_wrap commit_tx ''repository: commit transaction'' (\<lambda>_. ret x)))))"
  assume "kept fn"
  then have "kept ?m" unfolding begin_tx_def commit_tx_def
    by (intro kept_tryE kept_basic kept_infra) (auto simp: kept_def)
  then show ?thesis
    by (auto simp: kept_def WithTx_def rollback_def end_tx_def split: sum.splits prod.splits) (metis snd_conv)+
qed

lemmas kept_rules = kept_basic kept_tryE kept_ensure kept_ignoring kept_infra kept_statements kept_redis
  kept_if kept_option kept_sum kept_prod kept_list kept_mapE kept_WithTx

section \<open>The audit log and the policies\<close>

lemma kept_Record [intro!]: "kept (Record ev)"
proof -
  have ins: "kept (q_InsertAuditEntry a)" for a
    unfolding q_InsertAuditEntry_def
    by (rule kept_infra) (auto simp: kept_def Let_def split: option.splits)
  have "kept (append_tx ev c)" for c
    unfolding append_tx_def chain_head_def q_AcquireAuditChainLock_def q_GetLatestAuditEntry_def
    by (auto intro!: ins)
  then have att: "kept (append_attempts n e (append_tx ev c))" for n e c
    by (induction n arbitrary: e) auto
  have "kept (chain_append ev)"
    by (rule keptI) (auto simp: chain_append_def att [unfolded kept_def] split: sum.splits)
  then show ?thesis unfolding Record_def by auto
qed

lemma kept_load_roles: "kept (load_roles rs ps)"
  by (induction rs arbitrary: ps) (auto simp: q_GetRoleByName_def q_ListPermissionsForRole_def)

lemma kept_policies [intro!]:
  "kept (HasPermission u a)" "kept (CanAccessCase u i a)" "kept (CanAccessDocument u i a)" "kept (CanModifyUserRole u i)"
proof -
  show p: "kept (HasPermission u a)" for u a
    unfolding HasPermission_def loadPermissions_def by (auto intro!: kept_load_roles)
  have r: "kept (loadCaseRelationship u c)" for u c
    unfolding loadCaseRelationship_def q_GetCaseByID_def q_GetActiveCaseMembership_def by auto
  have s: "kept (shareGrantsAccess u d a)" for u d a
    unfolding shareGrantsAccess_def q_GetActiveShareForDocumentAndUser_def by auto
  have d: "kept (deny_recorded u a t i c x y)" for u a t i c x y
    unfolding deny_recorded_def recordDenied_def by auto
  show "kept (CanAccessCase u i a)" unfolding CanAccessCase_def by (auto intro!: p r d)
  show "kept (CanAccessDocument u i a)" unfolding CanAccessDocument_def q_GetDocumentByID_def
    by (auto intro!: p r s d)
  show "kept (CanModifyUserRole u i)" unfolding CanModifyUserRole_def by (auto intro!: p d)
qed

end

interpretation objects: untouched w_objects
  by unfold_locales simp

interpretation ledger: untouched w_ledger
  by unfold_locales simp

end
