(* ===== verification/ChaincodeFacts.thy ===== *)
theory ChaincodeFacts
  imports Fabric Untouched
begin

text \<open>
  The world state of the channel as a write-once map from evidence and version to records,
  and the contract's operations over that map.
\<close>

section \<open>The abstract ledger\<close>

type_synonym evidence_map = "string \<times> int \<Rightarrow> EvidenceRecord option"

definition version_ok :: "int \<Rightarrow> bool" where
  "version_ok v \<longleftrightarrow> 0 \<le> v \<and> v < 10 ^ 10"

text \<open>What the contract may do to the map: add a record where there is none.\<close>

definition spec_anchor :: "EvidenceRecord \<Rightarrow> evidence_map \<Rightarrow> string option \<times> evidence_map" where
  "spec_anchor r m = (case m (er_EvidenceID r, er_Version r) of
     None \<Rightarrow> (Some (er_TxID r), m((er_EvidenceID r, er_Version r) \<mapsto> r))
   | Some r' \<Rightarrow> (if er_Hash r' = er_Hash r then Some (er_TxID r') else None, m))"

definition ledger_map :: "world \<Rightarrow> evidence_map" where
  "ledger_map w = (\<lambda>(i, v). if version_ok v then
     (case map_of (w_ledger w) [i, dec_padded 10 v] of None \<Rightarrow> None
      | Some b \<Rightarrow> (case decode_record (w_lib w) b of Inl e \<Rightarrow> None | Inr r \<Rightarrow> Some r)) else None)"

text \<open>The invariant: sorted by key, every value decodes to a record that belongs to its key.\<close>

definition entry_good :: "library \<Rightarrow> string list \<times> bytes \<Rightarrow> bool" where
  "entry_good lib kv \<longleftrightarrow> (\<exists>r. decode_record lib (snd kv) = Inr r \<and> version_ok (er_Version r) \<and>
     fst kv = [er_EvidenceID r, dec_padded 10 (er_Version r)])"

definition ledger_good :: "world \<Rightarrow> bool" where
  "ledger_good w \<longleftrightarrow> distinct (map fst (w_ledger w)) \<and> sorted (map (composite \<circ> fst) (w_ledger w)) \<and>
     list_all (entry_good (w_lib w)) (w_ledger w)"

section \<open>Putting and getting\<close>

lemma set_ledger_put: "set (ledger_put k v l) = insert (k, v) {kv \<in> set l. fst kv \<noteq> k}"
  by (auto simp: ledger_put_def set_insort_key)

lemma distinct_ledger_put: "distinct (map fst l) \<Longrightarrow> distinct (map fst (ledger_put k v l))"
proof -
  assume d: "distinct (map fst l)"
  then have "inj_on fst (set (ledger_put k v l))"
    by (auto simp: set_ledger_put inj_on_def distinct_map)
  moreover have "distinct (ledger_put k v l)"
    using d by (simp add: ledger_put_def distinct_insort distinct_map)
  ultimately show ?thesis by (simp add: distinct_map)
qed

lemma sorted_ledger_put:
  "sorted (map (composite \<circ> fst) l) \<Longrightarrow> sorted (map (composite \<circ> fst) (ledger_put k v l))"
proof -
  assume "sorted (map (composite \<circ> fst) l)"
  then have "sorted (map (\<lambda>kv. composite (fst kv)) (filter (\<lambda>kv. fst kv \<noteq> k) l))"
    by (intro sorted_filter) (simp add: comp_def)
  then show ?thesis by (simp add: ledger_put_def sorted_insort_key comp_def)
qed

lemma map_of_ledger_put:
  assumes d: "distinct (map fst l)" shows "map_of (ledger_put k v l) = (map_of l)(k \<mapsto> v)"
proof
  fix k'
  have "map_of (ledger_put k v l) k' = Some x \<longleftrightarrow> ((map_of l)(k \<mapsto> v)) k' = Some x" for x
    by (auto simp: map_of_eq_Some_iff [OF d] map_of_eq_Some_iff [OF distinct_ledger_put [OF d]] set_ledger_put)
  then show "map_of (ledger_put k v l) k' = ((map_of l)(k \<mapsto> v)) k'"
    by (metis not_None_eq)
qed

text \<open>Versions of one piece of evidence are ordered as their keys are.\<close>

lemma composite_less:
  assumes "version_ok v" "version_ok u"
  shows "composite [i, dec_padded 10 v] < composite [i, dec_padded 10 u] \<longleftrightarrow> v < u"
proof -
  have len: "length (dec_padded 10 v) = length (dec_padded 10 u)"
    using assms by (simp add: version_ok_def dec_padded_nat)
  have "composite [i, dec_padded 10 v] < composite [i, dec_padded 10 u] \<longleftrightarrow> dec_padded 10 v < dec_padded 10 u"
    by (simp add: composite_def lex_append_same_length [OF len] lex_append_same_length [OF refl])
  then show ?thesis using assms dec_padded_less [of v 10 u] by (simp add: version_ok_def)
qed

section \<open>The operations read, apart from the ledger\<close>

lemma reader_stub [intro!]: "reader.guar (GetState k)" "reader.guar (GetStateByPartialCompositeKey a)"
    "reader.guar GetTxTimestamp"
  unfolding GetState_def GetStateByPartialCompositeKey_def GetTxTimestamp_def
  by (auto split: sum.split)

lemma reader_GetTxID [intro!]: "reader.guar GetTxID"
  by (rule reader.guarI) (simp add: GetTxID_def reads_only_def params_same_def)

lemma reader_PutState [intro!]: "reader.guar (PutState k v)"
  unfolding PutState_def
  by (rule reader.guar_infra, rule reader.guarI) (simp add: reads_only_def params_same_def)

lemma reader_lift: "(\<And>x. reader.guar (k x)) \<Longrightarrow> reader.guar (lift r k)"
  unfolding lift_def by auto

lemma reader_parsed_version: "(\<And>x. reader.guar (k x)) \<Longrightarrow> reader.guar (parsed_version who t k)"
  unfolding parsed_version_def by auto

lemma reader_scan [intro!]: "reader.guar (scan lib who bs acc)"
  by (induction lib who bs acc rule: scan.induct) auto

lemma reader_contract [intro!]:
  "reader.guar (AnchorEvidence a b c d e f g)" "reader.guar (GetEvidence a b)"
  "reader.guar (GetEvidenceLatest a)" "reader.guar (GetEvidenceHistory a)"
  unfolding AnchorEvidence_def GetEvidence_def GetEvidenceLatest_def GetEvidenceHistory_def
  by (intro reader.guar_rules reader_lift reader_parsed_version reader_stub reader_GetTxID reader_PutState
      reader_scan)+

lemma ledger_stub [intro!]: "ledger.kept (GetState k)" "ledger.kept (GetStateByPartialCompositeKey a)"
    "ledger.kept GetTxTimestamp" "ledger.kept GetTxID"
proof -
  show "ledger.kept (GetState k)" "ledger.kept (GetStateByPartialCompositeKey a)" "ledger.kept GetTxTimestamp"
    unfolding GetState_def GetStateByPartialCompositeKey_def GetTxTimestamp_def by (auto split: sum.split)
  show "ledger.kept GetTxID" by (rule ledger.keptI) (simp add: GetTxID_def)
qed

lemma ledger_scan [intro!]: "ledger.kept (scan lib who bs acc)"
  by (induction lib who bs acc rule: scan.induct) auto

lemma ledger_lift: "(\<And>x. ledger.kept (k x)) \<Longrightarrow> ledger.kept (lift r k)"
  unfolding lift_def by auto

lemma ledger_parsed_version: "(\<And>x. ledger.kept (k x)) \<Longrightarrow> ledger.kept (parsed_version who t k)"
  unfolding parsed_version_def by auto

section \<open>What the library promises about texts and JSON\<close>

definition fabric_laws :: "library \<Rightarrow> bool" where
  "fabric_laws lib \<longleftrightarrow> json_objects lib \<and> (\<forall>n. utf8_valid (lib_tx_id lib n)) \<and>
     (\<forall>t. utf8_valid (lib_rfc3339_s lib t))"

definition record_plain :: "EvidenceRecord \<Rightarrow> bool" where
  "record_plain r \<longleftrightarrow> \<bar>er_Version r\<bar> < 2 ^ 53 \<and> list_all utf8_valid [er_EvidenceID r, er_Hash r, er_EventType r,
     er_CaseReference r, er_ActorOrg r, er_AppRecordID r, er_TxID r, er_AnchoredAt r]"

lemma record_flat: "record_plain r \<Longrightarrow> flat_object (record_fields r)"
  by (simp add: record_plain_def flat_object_def record_fields_def flat_value_def utf8_ascii
      del: utf8_valid.simps)

lemma decode_encode:
  assumes "json_objects lib" "record_plain r"
  shows "decode_record lib (encode_record lib r) = Inr r"
  unfolding decode_record_def encode_record_def
proof (rule decode_encoded [OF assms(1) record_flat [OF assms(2)]])
  fix kvs'
  assume "map_of kvs' = map_of (record_fields r)"
  from field_cong [OF this] show "record_of_fields kvs' = Some r"
    by (simp add: record_of_fields_def record_fields_def field_str_def field_int_def)
qed

text \<open>Adding a record under its own key keeps the invariant and is an update of the map.\<close>

lemma ledger_added:
  assumes "ledger_good w" "version_ok (er_Version r)" "decode_record (w_lib w) b = Inr r"
    and k: "k = [er_EvidenceID r, dec_padded 10 (er_Version r)]"
    and w': "w_ledger w' = ledger_put k b (w_ledger w)" "w_lib w' = w_lib w"
  shows "ledger_good w'" "ledger_map w' = (ledger_map w)((er_EvidenceID r, er_Version r) \<mapsto> r)"
proof -
  have "entry_good (w_lib w) (k, b)" using assms(2,3) k by (auto simp: entry_good_def)
  then show "ledger_good w'"
    using assms(1) w' unfolding ledger_good_def
    by (auto simp: distinct_ledger_put sorted_ledger_put list_all_iff set_ledger_put)
  have d: "distinct (map fst (w_ledger w))" using assms(1) by (simp add: ledger_good_def)
  show "ledger_map w' = (ledger_map w)((er_EvidenceID r, er_Version r) \<mapsto> r)"
    unfolding ledger_map_def w' k map_of_ledger_put [OF d]
    using assms(2,3) dec_padded_inject [where k = 10] by (auto simp: fun_eq_iff version_ok_def)
qed

lemma compositeKey_Inr: "compositeKey i v = Inr k \<longleftrightarrow> k = [i, dec_padded 10 v] \<and> list_all attribute_ok k"
  by (auto simp: compositeKey_def CreateCompositeKey_def)

lemma attribute_utf8: "attribute_ok a \<Longrightarrow> utf8_valid a"
  by (simp add: attribute_ok_def text_ok_def)

lemma Atoi_version: "version_ok v \<Longrightarrow> Atoi (dec_int v) = Some v"
  by (rule Atoi_dec) (simp_all add: version_ok_def)

section \<open>The contract's functions over the map\<close>

lemma GetState_run: "GetState k w = (Inr b, w') \<Longrightarrow>
    b = map_of (w_ledger w) k \<and> w_ledger w' = w_ledger w \<and> w_lib w' = w_lib w"
  by (auto simp: GetState_def infra_run get_world_run faulted_def split: option.splits)

lemma ledger_map_Some: "ledger_map w (i, v) = Some r \<longleftrightarrow> version_ok v \<and>
    (\<exists>b. map_of (w_ledger w) [i, dec_padded 10 v] = Some b \<and> decode_record (w_lib w) b = Inr r)"
  by (simp add: ledger_map_def split: option.split sum.split)

lemma ledger_map_cong: "w_ledger w' = w_ledger w \<Longrightarrow> w_lib w' = w_lib w \<Longrightarrow> ledger_map w' = ledger_map w"
  unfolding ledger_map_def by (simp only:)

lemma ledger_good_cong: "w_ledger w' = w_ledger w \<Longrightarrow> w_lib w' = w_lib w \<Longrightarrow> ledger_good w' = ledger_good w"
  by (simp add: ledger_good_def)

lemma ledger_map_stored:
  assumes "ledger_good w" "version_ok v"
  shows "ledger_map w (i, v) = (case map_of (w_ledger w) [i, dec_padded 10 v] of None \<Rightarrow> None
      | Some b \<Rightarrow> (case decode_record (w_lib w) b of Inl e \<Rightarrow> None | Inr r \<Rightarrow> Some r))"
    and "map_of (w_ledger w) [i, dec_padded 10 v] = Some b \<Longrightarrow>
      \<exists>r. decode_record (w_lib w) b = Inr r \<and> er_EvidenceID r = i \<and> er_Version r = v"
proof -
  show "ledger_map w (i, v) = (case map_of (w_ledger w) [i, dec_padded 10 v] of None \<Rightarrow> None
      | Some b \<Rightarrow> (case decode_record (w_lib w) b of Inl e \<Rightarrow> None | Inr r \<Rightarrow> Some r))"
    using assms(2) by (simp add: ledger_map_def)
  assume "map_of (w_ledger w) [i, dec_padded 10 v] = Some b"
  then have "entry_good (w_lib w) ([i, dec_padded 10 v], b)"
    using assms(1) by (auto simp: ledger_good_def list_all_iff dest!: map_of_SomeD)
  then show "\<exists>r. decode_record (w_lib w) b = Inr r \<and> er_EvidenceID r = i \<and> er_Version r = v"
    using assms(2) dec_padded_inject [where k = 10] by (auto simp: entry_good_def version_ok_def)
qed

text \<open>The writing half of AnchorEvidence, after the key has been found free.\<close>

definition write_record :: "string list \<Rightarrow> (time \<Rightarrow> string \<Rightarrow> EvidenceRecord) \<Rightarrow> string op" where
  "write_record k rec = bindE (get_world w_lib) (\<lambda>lib.
     try_wrap GetTxTimestamp ''AnchorEvidence: get tx timestamp'' (\<lambda>txTime. bindE GetTxID (\<lambda>txID.
     try_wrap (PutState k (encode_record lib (rec txTime txID))) ''AnchorEvidence: write state'' (\<lambda>_. ret txID))))"

lemma PutState_fails: "PutState k v w = (Inl e, w') \<Longrightarrow> w_ledger w' = w_ledger w"
  by (auto simp: PutState_def infra_def Let_def split: option.splits)

lemma write_record_fails:
  assumes "write_record k rec w = (Inl e, w')" shows "w_ledger w' = w_ledger w"
proof -
  have "ledger.kept GetTxTimestamp" "ledger.kept GetTxID" by auto
  note kept = this [THEN ledger.keptD]
  show ?thesis
    using assms unfolding write_record_def
    by (auto simp: tryE_Inl get_world_run fail_run ret_run dest!: kept(1) kept(2) PutState_fails)
qed

lemma write_record_run:
  assumes "write_record k rec w = (Inr tx, w')"
  shows "\<exists>t n. tx = lib_tx_id (w_lib w) n \<and> w_lib w' = w_lib w \<and>
     w_ledger w' = ledger_put k (encode_record (w_lib w) (rec t tx)) (w_ledger w)"
proof -
  from assms obtain t w1 w2 where t: "GetTxTimestamp w = (Inr t, w1)" and x: "GetTxID w1 = (Inr tx, w2)"
    and p: "PutState k (encode_record (w_lib w) (rec t tx)) w2 = (Inr (), w')"
    unfolding write_record_def by (auto simp: tryE_Inr get_world_run fail_run ret_run)
  have "w_ledger w1 = w_ledger w" "w_lib w1 = w_lib w"
    using t by (auto simp: GetTxTimestamp_def infra_run time_now_def faulted_def split: option.splits)
  moreover have "w_ledger w2 = w_ledger w1" "w_lib w2 = w_lib w1" "tx = lib_tx_id (w_lib w1) (w_rng_i w1)"
    using x by (auto simp: GetTxID_def)
  moreover have "w_ledger w' = ledger_put k (encode_record (w_lib w) (rec t tx)) (w_ledger w2)" "w_lib w' = w_lib w2"
    using p by (auto simp: PutState_def infra_run faulted_def split: option.splits)
  ultimately show ?thesis by auto
qed

text \<open>AnchorEvidence with a well-formed version, as a read followed by a write.\<close>

definition anchor_record :: "library \<Rightarrow> string \<Rightarrow> int \<Rightarrow> string \<Rightarrow> string \<Rightarrow> string \<Rightarrow> string \<Rightarrow> string \<Rightarrow> time \<Rightarrow> string \<Rightarrow> EvidenceRecord" where
  "anchor_record lib i v h ev cr org app t tx = \<lparr>er_EvidenceID = i, er_Version = v, er_Hash = h,
     er_EventType = ev, er_CaseReference = cr, er_ActorOrg = org, er_AppRecordID = app, er_TxID = tx,
     er_AnchoredAt = lib_rfc3339_s lib t\<rparr>"

lemma AnchorEvidence_split:
  assumes v: "version_ok v"
  shows "AnchorEvidence i (dec_int v) h ev cr org app w = (res, w') \<Longrightarrow>
     (\<exists>e. res = Inl e \<and> w_ledger w' = w_ledger w \<and> w_lib w' = w_lib w) \<or>
     list_all attribute_ok [i, dec_padded 10 v] \<and> (\<exists>w1. w_ledger w1 = w_ledger w \<and> w_lib w1 = w_lib w \<and>
       (case map_of (w_ledger w) [i, dec_padded 10 v] of
          None \<Rightarrow> write_record [i, dec_padded 10 v] (anchor_record (w_lib w) i v h ev cr org app) w1 = (res, w')
        | Some b \<Rightarrow> w' = w1 \<and> (case decode_record (w_lib w) b of Inl e \<Rightarrow> \<exists>e'. res = Inl e'
            | Inr r \<Rightarrow> if er_Hash r = h then res = Inr (er_TxID r) else \<exists>e'. res = Inl e')))"
proof -
  let ?k = "[i, dec_padded 10 v]" and ?m = "AnchorEvidence i (dec_int v) h ev cr org app"
  assume run: "?m w = (res, w')"
  show ?thesis
  proof (cases "(i = '''' \<or> h = '''' \<or> ev = '''') \<or> \<not> list_all attribute_ok ?k")
    case True
    then have "\<exists>e. res = Inl e \<and> w' = w"
      using run Atoi_version [OF v]
      by (auto simp: AnchorEvidence_def ensure_def parsed_version_def lift_def compositeKey_def
          CreateCompositeKey_def fail_run split: if_splits)
    then show ?thesis by auto
  next
    case False
    then have key: "compositeKey i v = Inr ?k" by (simp add: compositeKey_Inr)
    show ?thesis
    proof (cases "GetState ?k w")
      case (Pair g w1)
      have same: "w_ledger w1 = w_ledger w" "w_lib w1 = w_lib w"
        using Pair by (auto simp: GetState_def infra_def Let_def get_world_def split: option.splits)
      show ?thesis
      proof (cases g)
        case (Inl e)
        then show ?thesis
          using run Pair same False
          by (auto simp: AnchorEvidence_def ensure_def parsed_version_def lift_def key Atoi_version [OF v] tryE_def
              fail_def)
      next
        case (Inr b)
        then have b: "b = map_of (w_ledger w) ?k" using GetState_run Pair by blast
        show ?thesis
          using run Pair same False Inr b
          by (intro disjI2 conjI exI [of _ w1])
            (auto simp: AnchorEvidence_def ensure_def parsed_version_def lift_def key Atoi_version [OF v] tryE_def
              fail_def ret_def get_world_def write_record_def anchor_record_def split: option.splits sum.splits if_splits)
      qed
    qed
  qed
qed

theorem AnchorEvidence_refines:
  assumes laws: "fabric_laws (w_lib w)" and good: "ledger_good w" and v: "version_ok v"
    and texts: "list_all utf8_valid [h, ev, cr, org, app]"
    and run: "AnchorEvidence i (dec_int v) h ev cr org app w = (res, w')"
  shows "ledger_good w' \<and> w_lib w' = w_lib w \<and> (\<forall>e. res = Inl e \<longrightarrow> w_ledger w' = w_ledger w) \<and>
     (\<forall>tx. res = Inr tx \<longrightarrow> (\<exists>r. er_EvidenceID r = i \<and> er_Version r = v \<and> er_Hash r = h \<and> er_EventType r = ev \<and>
        spec_anchor r (ledger_map w) = (Some tx, ledger_map w')))"
  using AnchorEvidence_split [OF v run]
proof (elim disjE exE conjE)
  fix e
  assume "res = Inl e" "w_ledger w' = w_ledger w" "w_lib w' = w_lib w"
  then show ?thesis using good ledger_good_cong [of w' w] by simp
next
  fix w1
  let ?k = "[i, dec_padded 10 v]" and ?r = "anchor_record (w_lib w) i v h ev cr org app"
  assume attrs: "list_all attribute_ok ?k" and w1: "w_ledger w1 = w_ledger w" "w_lib w1 = w_lib w"
    and out: "case map_of (w_ledger w) ?k of
          None \<Rightarrow> write_record ?k ?r w1 = (res, w')
        | Some b \<Rightarrow> w' = w1 \<and> (case decode_record (w_lib w) b of Inl e \<Rightarrow> \<exists>e'. res = Inl e'
            | Inr r \<Rightarrow> if er_Hash r = h then res = Inr (er_TxID r) else \<exists>e'. res = Inl e')"
  show ?thesis
  proof (cases "map_of (w_ledger w) ?k")
    case (Some b)
    then obtain r where r: "decode_record (w_lib w) b = Inr r" "er_EvidenceID r = i" "er_Version r = v"
      using ledger_map_stored(2) [OF good v] by blast
    have at: "ledger_map w (i, v) = Some r" using ledger_map_stored(1) [OF good v, of i] Some r(1) by simp
    have w': "w' = w1" using out Some by simp
    have lm: "ledger_map w' = ledger_map w" using w' w1 ledger_map_cong [of w' w] by simp
    have "\<exists>r. er_EvidenceID r = i \<and> er_Version r = v \<and> er_Hash r = h \<and> er_EventType r = ev \<and>
        spec_anchor r (ledger_map w) = (Some tx, ledger_map w')" if "res = Inr tx" for tx
    proof -
      have "er_Hash r = h \<and> tx = er_TxID r" using out Some r(1) that by (auto split: if_splits)
      then show ?thesis
        by (intro exI [of _ "?r 0 ''''"]) (simp add: spec_anchor_def anchor_record_def at lm)
    qed
    then show ?thesis using w' w1 good ledger_good_cong [of w' w] by simp
  next
    case None
    then have wr: "write_record ?k ?r w1 = (res, w')" using out by simp
    show ?thesis
    proof (cases res)
      case (Inl e)
      then have "w_ledger w' = w_ledger w" using write_record_fails wr w1 by simp
      moreover have "reader.guar (write_record k f)" for k f
        unfolding write_record_def by auto
      then have "w_lib w' = w_lib w"
        using reader.guarD [of "write_record ?k ?r" w1] wr w1 by (simp add: reads_only_def params_same_def)
      ultimately show ?thesis using good Inl ledger_good_cong [of w' w] by simp
    next
      case (Inr tx)
      from write_record_run [OF wr [unfolded Inr]] w1 obtain t n where
        tx: "tx = lib_tx_id (w_lib w) n" and w': "w_lib w' = w_lib w"
          "w_ledger w' = ledger_put ?k (encode_record (w_lib w) (?r t tx)) (w_ledger w)" by auto
      have "record_plain (?r t tx)"
        using attrs texts laws v tx
        by (auto simp: record_plain_def anchor_record_def attribute_utf8 fabric_laws_def version_ok_def)
      then have dec: "decode_record (w_lib w) (encode_record (w_lib w) (?r t tx)) = Inr (?r t tx)"
        using laws by (simp add: decode_encode fabric_laws_def)
      have id_v: "er_EvidenceID (?r t tx) = i" "er_Version (?r t tx) = v" by (simp_all add: anchor_record_def)
      note added = ledger_added [OF good _ dec, of ?k w', unfolded id_v, OF v refl w'(2,1)]
      have "ledger_map w (i, v) = None" using ledger_map_stored(1) [OF good v] None by simp
      then have "spec_anchor (?r t tx) (ledger_map w) = (Some tx, ledger_map w')"
        using added(2) by (simp add: spec_anchor_def anchor_record_def)
      then show ?thesis
        using added(1) w' Inr by (auto simp: anchor_record_def intro!: exI [of _ "?r t tx"])
    qed
  qed
qed

lemma GetEvidence_run:
  assumes good: "ledger_good w" and v: "version_ok v" and run: "GetEvidence i (dec_int v) w = (Inr r, w')"
  shows "ledger_map w (i, v) = Some r"
proof -
  from run obtain s w1 where s: "GetState [i, dec_padded 10 v] w = (Inr s, w1)" and
    res: "(case s of None \<Rightarrow> fail (StdErr (''evidence not found: '' @ i @ '' version '' @ dec_int v))
     | Some b \<Rightarrow> (case decode_record (w_lib w1) b of
         Inl e \<Rightarrow> fail (Wrap ''GetEvidence: unmarshal'' e) | Inr r \<Rightarrow> ret r)) w1 = (Inr r, w')"
    by (auto simp: GetEvidence_def parsed_version_def Atoi_version [OF v] lift_def compositeKey_def
        CreateCompositeKey_def tryE_Inr fail_run get_world_run split: if_splits)
  then obtain b where b: "s = Some b" by (cases s) (auto simp: fail_run)
  with res have "decode_record (w_lib w1) b = Inr r"
    by (cases "decode_record (w_lib w1) b") (auto simp: fail_run ret_run)
  moreover have "map_of (w_ledger w) [i, dec_padded 10 v] = Some b" "w_lib w1 = w_lib w"
    using GetState_run [OF s] b by simp_all
  ultimately show ?thesis using v by (simp add: ledger_map_Some)
qed

section \<open>The scans\<close>

definition evidence_of :: "world \<Rightarrow> string \<Rightarrow> EvidenceRecord list" where
  "evidence_of w i = concat (map (\<lambda>kv. case decode_record (w_lib w) (snd kv) of Inl e \<Rightarrow> [] | Inr r \<Rightarrow> [r])
     (filter (\<lambda>kv. take 1 (fst kv) = [i]) (w_ledger w)))"

lemma scan_run:
  "scan lib who bs acc w = (Inr rs, w') \<Longrightarrow>
     rs = acc @ concat (map (\<lambda>b. case decode_record lib b of Inl e \<Rightarrow> [] | Inr r \<Rightarrow> [r]) bs)"
  by (induction lib who bs acc arbitrary: w rule: scan.induct)
    (auto simp: tryE_Inr ret_run fail_run split: sum.splits)

lemma newest_run:
  "newest l rs = Some r \<Longrightarrow> (r \<in> set rs \<or> l = Some r) \<and>
     (\<forall>r'\<in>set rs. er_Version r' \<le> er_Version r) \<and> (\<forall>r'. l = Some r' \<longrightarrow> er_Version r' \<le> er_Version r)"
proof (induction l rs rule: newest.induct)
  case (2 l r rs)
  then show ?case by (cases l) (fastforce split: if_splits)+
qed simp

lemma partial_run:
  "GetStateByPartialCompositeKey i w = (Inr bs, w') \<Longrightarrow>
     bs = map snd (filter (\<lambda>kv. take 1 (fst kv) = [i]) (w_ledger w)) \<and> w_lib w' = w_lib w"
  by (auto simp: GetStateByPartialCompositeKey_def CreateCompositeKey_def fail_run infra_run get_world_run
      faulted_def split: option.splits if_splits)

lemma history_run: "GetEvidenceHistory i w = (Inr rs, w') \<Longrightarrow> rs = evidence_of w i"
  unfolding GetEvidenceHistory_def evidence_of_def
  by (auto simp: tryE_Inr fail_run get_world_run dest!: partial_run scan_run simp: comp_def)

lemma latest_run: "GetEvidenceLatest i w = (Inr r, w') \<Longrightarrow> newest None (evidence_of w i) = Some r"
  unfolding GetEvidenceLatest_def evidence_of_def
  by (auto simp: tryE_Inr fail_run ret_run get_world_run comp_def dest!: partial_run scan_run split: option.splits)

lemma sorted_wrt_and: "sorted_wrt P xs \<Longrightarrow> sorted_wrt Q xs \<Longrightarrow> sorted_wrt (\<lambda>x y. P x y \<and> Q x y) xs"
  by (induction xs) auto

lemma distinct_sorted_wrt: "distinct (map f xs) \<Longrightarrow> sorted_wrt (\<lambda>a b. f a \<noteq> f b) xs"
  by (induction xs) auto

lemma evidence_of_sorted:
  assumes good: "ledger_good w"
  shows "sorted_wrt (<) (map er_Version (evidence_of w i))"
    and "set (evidence_of w i) = {r. \<exists>v. ledger_map w (i, v) = Some r}"
proof -
  let ?lib = "w_lib w" and ?es = "filter (\<lambda>kv. take 1 (fst kv) = [i]) (w_ledger w)"
  define dec where "dec kv = projr (decode_record ?lib (snd kv))" for kv :: "string list \<times> bytes"
  have entry: "decode_record ?lib (snd kv) = Inr (dec kv) \<and> version_ok (er_Version (dec kv)) \<and>
      fst kv = [i, dec_padded 10 (er_Version (dec kv))] \<and> er_EvidenceID (dec kv) = i" if "kv \<in> set ?es" for kv
    using that good by (auto simp: ledger_good_def list_all_iff entry_good_def dec_def)
  have eq: "evidence_of w i = map dec ?es"
  proof -
    have "map (\<lambda>kv. case decode_record ?lib (snd kv) of Inl e \<Rightarrow> [] | Inr r \<Rightarrow> [r]) ?es = map (\<lambda>kv. [dec kv]) ?es"
      using entry by (intro map_cong refl) simp
    then show ?thesis unfolding evidence_of_def by (simp only: concat_map_singleton)
  qed
  have "sorted_wrt (\<lambda>a b. composite (fst a) \<le> composite (fst b)) (w_ledger w)"
    using good by (simp add: ledger_good_def sorted_map)
  moreover have "sorted_wrt (\<lambda>a b. fst a \<noteq> fst b) (w_ledger w)"
    using good by (simp add: ledger_good_def distinct_sorted_wrt)
  ultimately have "sorted_wrt (\<lambda>a b. composite (fst a) \<le> composite (fst b) \<and> fst a \<noteq> fst b) ?es"
    by (intro sorted_wrt_filter sorted_wrt_and)
  then have "sorted_wrt (\<lambda>a b. er_Version (dec a) < er_Version (dec b)) ?es"
  proof (rule sorted_wrt_mono_rel [rotated])
    fix a b
    assume ab: "a \<in> set ?es" "b \<in> set ?es" "composite (fst a) \<le> composite (fst b) \<and> fst a \<noteq> fst b"
    then have "er_Version (dec a) \<le> er_Version (dec b)"
      using composite_less [of "er_Version (dec b)" "er_Version (dec a)" i] entry [OF ab(1)] entry [OF ab(2)]
      by (metis linorder_not_le)
    moreover have "er_Version (dec a) \<noteq> er_Version (dec b)"
      using ab(3) entry [OF ab(1)] entry [OF ab(2)] by metis
    ultimately show "er_Version (dec a) < er_Version (dec b)" by simp
  qed
  then show "sorted_wrt (<) (map er_Version (evidence_of w i))"
    by (simp add: eq sorted_wrt_map comp_def)
  show "set (evidence_of w i) = {r. \<exists>v. ledger_map w (i, v) = Some r}"
  proof (intro set_eqI iffI)
    fix r
    assume "r \<in> set (evidence_of w i)"
    then obtain kv where kv: "kv \<in> set ?es" "r = dec kv" by (auto simp: eq)
    then have "map_of (w_ledger w) (fst kv) = Some (snd kv)"
      using good by (simp add: ledger_good_def)
    then have "ledger_map w (i, er_Version r) = Some r"
      using entry [OF kv(1)] kv(2) ledger_map_stored(1) [OF good, of "er_Version r" i] by simp
    then show "r \<in> {r. \<exists>v. ledger_map w (i, v) = Some r}" by blast
  next
    fix r
    assume "r \<in> {r. \<exists>v. ledger_map w (i, v) = Some r}"
    then obtain v b where "map_of (w_ledger w) [i, dec_padded 10 v] = Some b" "decode_record ?lib b = Inr r"
      by (auto simp: ledger_map_Some)
    then have "([i, dec_padded 10 v], b) \<in> set ?es" "dec ([i, dec_padded 10 v], b) = r"
      by (auto simp: dec_def dest: map_of_SomeD)
    then show "r \<in> set (evidence_of w i)" by (force simp: eq)
  qed
qed


end
