(* ===== verification/ChaincodeProps.thy ===== *)
theory ChaincodeProps
  imports ChaincodeFacts Sample
begin

text \<open>The contract on the ledger refines the map from pieces of evidence and versions to records.\<close>

section \<open>A stub that never fails\<close>

definition reliable :: "world \<Rightarrow> bool" where
  "reliable w \<longleftrightarrow> (\<forall>n. w_faults w n = None)"

lemma infra_reliable: "reliable w \<Longrightarrow> infra m w = m (faulted w)"
  by (simp add: infra_def faulted_def reliable_def Let_def)

lemma reliable_faulted [simp]: "reliable (faulted w) = reliable w"
  by (simp add: reliable_def)

lemma digit_attribute: "version_ok v \<Longrightarrow> attribute_ok (dec_padded 10 v)"
proof -
  assume "version_ok v"
  then have eq: "dec_padded 10 v = map dec_digit (digits10 10 (nat v))"
    by (simp add: version_ok_def dec_padded_nat)
  have small: "n \<in> set (digits10 k m) \<Longrightarrow> n < 10" for n k m
    by (induction k arbitrary: m) auto
  then have chars: "\<forall>c\<in>set (dec_padded 10 v). 48 \<le> (of_char c :: nat) \<and> of_char c < (58 :: nat)"
    by (auto simp: eq of_dec_digit dest!: small)
  then have ascii: "\<forall>c\<in>set (dec_padded 10 v). of_char c < (128 :: nat)" by fastforce
  have "CHR 0x00 \<notin> set (dec_padded 10 v)" using chars by fastforce
  then show ?thesis
    using utf8_ascii [OF ascii] runes_ascii [OF ascii] by (auto simp: attribute_ok_def text_ok_def)
qed

lemma AnchorEvidence_succeeds:
  assumes "reliable w" "ledger_good w" "version_ok v" "attribute_ok i" "i \<noteq> ''''" "h \<noteq> ''''" "ev \<noteq> ''''"
  shows "(\<exists>tx w'. AnchorEvidence i (dec_int v) h ev cr org app w = (Inr tx, w')) \<longleftrightarrow>
     (\<forall>r. ledger_map w (i, v) = Some r \<longrightarrow> er_Hash r = h)"
  using assms ledger_map_stored [OF assms(2,3), of i] digit_attribute [OF assms(3)]
  by (auto simp: AnchorEvidence_def ensure_def parsed_version_def Atoi_version lift_def compositeKey_def
      CreateCompositeKey_def tryE_def GetState_def PutState_def GetTxTimestamp_def GetTxID_def infra_reliable
      get_world_def ret_def fail_def time_now_def Let_def reliable_def infra_def faulted_def
      split: option.splits sum.splits)

lemma GetEvidence_exact:
  assumes "reliable w" "ledger_good w" "version_ok v" "attribute_ok i"
  shows "fst (GetEvidence i (dec_int v) w) = (case ledger_map w (i, v) of
     None \<Rightarrow> Inl (StdErr (''evidence not found: '' @ i @ '' version '' @ dec_int v)) | Some r \<Rightarrow> Inr r)"
  using assms ledger_map_stored [OF assms(2,3), of i] digit_attribute [OF assms(3)]
  by (auto simp: GetEvidence_def parsed_version_def Atoi_version lift_def compositeKey_def
      CreateCompositeKey_def tryE_def GetState_def infra_reliable
      get_world_def ret_def fail_def split: option.splits sum.splits)

text \<open>
  C25.  The contract implements the abstract map from (evidence, version) to records: an
  anchoring that succeeds is one step of the specification, which adds a record where there
  is none and answers with the old transaction where the hash is the same; one that fails
  changes nothing, and on a stub that never fails it fails exactly when another hash is
  anchored there.  A lookup returns the map's record, the latest record is the one with the
  greatest version, and the history lists the records of the piece of evidence, each once,
  in ascending order of their versions.
\<close>

theorem chaincode_refines:
  assumes "fabric_laws (w_lib w)" and "ledger_good w" and "version_ok v"
    and "list_all utf8_valid [h, ev, cr, org, app]"
  shows "(\<forall>res w'. AnchorEvidence i (dec_int v) h ev cr org app w = (res, w') \<longrightarrow> ledger_good w' \<and>
       (case res of Inl e \<Rightarrow> ledger_map w' = ledger_map w
        | Inr tx \<Rightarrow> \<exists>r. er_EvidenceID r = i \<and> er_Version r = v \<and> er_Hash r = h \<and> er_EventType r = ev \<and>
            spec_anchor r (ledger_map w) = (Some tx, ledger_map w'))) \<and>
     (\<forall>r w'. GetEvidence i (dec_int v) w = (Inr r, w') \<longrightarrow> ledger_map w (i, v) = Some r) \<and>
     (\<forall>r w'. GetEvidenceLatest i w = (Inr r, w') \<longrightarrow> (\<exists>u. ledger_map w (i, u) = Some r) \<and>
       (\<forall>u r'. ledger_map w (i, u) = Some r' \<longrightarrow> er_Version r' \<le> er_Version r)) \<and>
     (\<forall>rs w'. GetEvidenceHistory i w = (Inr rs, w') \<longrightarrow> sorted_wrt (<) (map er_Version rs) \<and>
       set rs = {r. \<exists>u. ledger_map w (i, u) = Some r}) \<and>
     (reliable w \<and> attribute_ok i \<and> i \<noteq> [] \<and> h \<noteq> [] \<and> ev \<noteq> [] \<longrightarrow>
       ((\<exists>tx w'. AnchorEvidence i (dec_int v) h ev cr org app w = (Inr tx, w')) \<longleftrightarrow>
          (\<forall>r. ledger_map w (i, v) = Some r \<longrightarrow> er_Hash r = h)) \<and>
       fst (GetEvidence i (dec_int v) w) = (case ledger_map w (i, v) of
          None \<Rightarrow> Inl (StdErr (''evidence not found: '' @ i @ '' version '' @ dec_int v)) | Some r \<Rightarrow> Inr r))"
proof (intro conjI allI impI)
  fix res w'
  assume run: "AnchorEvidence i (dec_int v) h ev cr org app w = (res, w')"
  note step = AnchorEvidence_refines [OF assms run]
  then show "ledger_good w'" by blast
  show "case res of Inl e \<Rightarrow> ledger_map w' = ledger_map w
        | Inr tx \<Rightarrow> \<exists>r. er_EvidenceID r = i \<and> er_Version r = v \<and> er_Hash r = h \<and> er_EventType r = ev \<and>
            spec_anchor r (ledger_map w) = (Some tx, ledger_map w')"
    using step by (cases res) (auto intro: ledger_map_cong)
next
  show "GetEvidence i (dec_int v) w = (Inr r, w') \<Longrightarrow> ledger_map w (i, v) = Some r" for r w'
    by (rule GetEvidence_run [OF assms(2,3)])
next
  fix r w'
  assume "GetEvidenceLatest i w = (Inr r, w')"
  then have "newest None (evidence_of w i) = Some r" by (rule latest_run)
  then have "r \<in> set (evidence_of w i)" "\<forall>r'\<in>set (evidence_of w i). er_Version r' \<le> er_Version r"
    using newest_run [of None] by auto
  then show "\<exists>u. ledger_map w (i, u) = Some r"
    "\<And>u r'. ledger_map w (i, u) = Some r' \<Longrightarrow> er_Version r' \<le> er_Version r"
    unfolding evidence_of_sorted(2) [OF assms(2)] by auto
next
  fix rs w'
  assume "GetEvidenceHistory i w = (Inr rs, w')"
  then show "sorted_wrt (<) (map er_Version rs)" "set rs = {r. \<exists>u. ledger_map w (i, u) = Some r}"
    using evidence_of_sorted [OF assms(2), of i] by (auto dest!: history_run)
next
  assume "reliable w \<and> attribute_ok i \<and> i \<noteq> [] \<and> h \<noteq> [] \<and> ev \<noteq> []"
  then show "(\<exists>tx w'. AnchorEvidence i (dec_int v) h ev cr org app w = (Inr tx, w')) \<longleftrightarrow>
      (\<forall>r. ledger_map w (i, v) = Some r \<longrightarrow> er_Hash r = h)"
    "fst (GetEvidence i (dec_int v) w) = (case ledger_map w (i, v) of
      None \<Rightarrow> Inl (StdErr (''evidence not found: '' @ i @ '' version '' @ dec_int v)) | Some r \<Rightarrow> Inr r)"
    using AnchorEvidence_succeeds [OF _ assms(2,3)] GetEvidence_exact [OF _ assms(2,3)] by blast+
qed

definition flat_world :: world where [run_defs]:
  "flat_world = (sample_world empty_db)\<lparr>w_lib := sample_lib\<lparr>lib_json_marshal := flat_marshal,
     lib_json_value := flat_unmarshal\<rparr>\<rparr>"

lemma flat_world_laws: "fabric_laws (w_lib flat_world)"
proof -
  have "\<forall>c\<in>set (sample_random n). of_char c < (128 :: nat)" "\<forall>c\<in>set (sample_time t). of_char c < (128 :: nat)" for n t
    by (auto simp: sample_random_def sample_time_def)
  then have "utf8_valid (sample_random n)" "utf8_valid (sample_time t)" for n t
    by (blast intro: utf8_ascii)+
  then show ?thesis
    using flat_json_objects [of sample_lib] by (simp add: fabric_laws_def flat_world_def sample_lib_def)
qed

lemma flat_world_ledger [simp]: "ledger_good flat_world" "ledger_map flat_world = Map.empty" "reliable flat_world"
  by (auto simp: flat_world_def sample_world_def ledger_good_def ledger_map_def reliable_def no_faults_def)

lemma chaincode_refines_witness:
  "\<exists>tx w1 r. AnchorEvidence ''e'' (dec_int 1) ''h'' ''U'' ''c'' ''o'' ''a'' flat_world = (Inr tx, w1) \<and>
     ledger_map w1 (''e'', 1) = Some r \<and> er_Hash r = ''h'' \<and>
     (\<nexists>t w2. AnchorEvidence ''e'' (dec_int 1) ''g'' ''U'' ''c'' ''o'' ''a'' w1 = (Inr t, w2))"
proof -
  have v: "version_ok 1" by (simp add: version_ok_def)
  have texts: "list_all utf8_valid [''h'', ''U'', ''c'', ''o'', ''a'']" "list_all utf8_valid [''g'', ''U'', ''c'', ''o'', ''a'']"
    "attribute_ok ''e''"
    by (simp_all add: run_defs rune_size_ascii attribute_ok_def text_ok_def)
  note first = chaincode_refines [OF flat_world_laws flat_world_ledger(1) v texts(1), of "''e''"]
  from first texts(3) obtain tx w1 where run: "AnchorEvidence ''e'' (dec_int 1) ''h'' ''U'' ''c'' ''o'' ''a'' flat_world = (Inr tx, w1)"
    by auto
  with first obtain r where r: "er_EvidenceID r = ''e''" "er_Version r = 1" "er_Hash r = ''h''"
      "spec_anchor r Map.empty = (Some tx, ledger_map w1)" and good: "ledger_good w1" by force
  then have "ledger_map w1 = Map.empty((''e'', 1) \<mapsto> r)" by (simp add: spec_anchor_def)
  then have at: "ledger_map w1 (''e'', 1) = Some r" by simp
  have lib: "w_lib w1 = w_lib flat_world"
    using AnchorEvidence_refines [OF flat_world_laws flat_world_ledger(1) v texts(1) run] by blast
  have "\<nexists>t w2. AnchorEvidence ''e'' (dec_int 1) ''g'' ''U'' ''c'' ''o'' ''a'' w1 = (Inr t, w2)"
    using chaincode_refines [of w1 1 "''g''", unfolded lib, OF flat_world_laws good v texts(2), of "''e''"] at r
    by (fastforce simp: spec_anchor_def)
  with run at r(3) show ?thesis by blast
qed

end
