(* ===== verification/FabricFacts.thy ===== *)
theory FabricFacts
  imports ChaincodeFacts
begin

text \<open>
  What the services rely on when they call the blockchain: a locale for the Go interface,
  interpreted on the service over the gateway and on the one that does nothing.
\<close>

section \<open>Texts\<close>

lemma hex_utf8 [simp]: "utf8_valid (hex_encode b)"
proof (rule utf8_ascii, rule ballI)
  fix c
  assume "c \<in> set (hex_encode b)"
  then have "c \<in> set ''0123456789abcdef''" using hex_encode_set by blast
  then show "of_char c < (128 :: nat)" by auto
qed

lemma uuid_utf8 [simp]: "utf8_valid (uuid_string u)"
proof (rule utf8_ascii, rule ballI)
  fix c
  assume "c \<in> set (uuid_string u)"
  then have "c \<in> insert (CHR ''-'') (set ''0123456789abcdef'')" using uuid_string_set by blast
  then show "of_char c < (128 :: nat)" by auto
qed

section \<open>The interface\<close>

definition ledger_at :: "world \<Rightarrow> uuid \<Rightarrow> int \<Rightarrow> EvidenceRecord option" where
  "ledger_at w i v = ledger_map w (uuid_string i, v)"

definition request_ok :: "AnchorRequest \<Rightarrow> bool" where
  "request_ok rq \<longleftrightarrow> version_ok (aq_Version rq) \<and> list_all utf8_valid
     [aq_Hash rq, aq_EventType rq, aq_CaseReference rq, aq_ActorOrg rq]"

definition ledger_grows :: "world \<Rightarrow> world \<Rightarrow> bool" where
  "ledger_grows w w' \<longleftrightarrow> w_lib w' = w_lib w \<and> ledger_good w' \<and> ledger_map w \<subseteq>\<^sub>m ledger_map w'"

locale ledger_service =
  fixes svc :: BlockchainService
  assumes reads: "reader.guar (bc_AnchorEvidence svc rq)" "reader.guar (bc_VerifyEvidence svc vq)"
      "reader.guar (bc_GetProvenance svc i)" "reader.guar (bc_GetHistory svc i)"
    and no_objects: "objects.kept (bc_AnchorEvidence svc rq)" "objects.kept (bc_VerifyEvidence svc vq)"
    and queries: "ledger.kept (bc_VerifyEvidence svc vq)" "ledger.kept (bc_GetProvenance svc i)"
      "ledger.kept (bc_GetHistory svc i)"
    and anchors: "fabric_laws (w_lib w) \<Longrightarrow> ledger_good w \<Longrightarrow> request_ok rq \<Longrightarrow>
      bc_AnchorEvidence svc rq w = (res, w') \<Longrightarrow> ledger_grows w w' \<and>
        (\<forall>x. res = Inr x \<longrightarrow> (\<exists>r. ledger_at w' (aq_EvidenceID rq) (aq_Version rq) = Some r \<and> er_Hash r = aq_Hash rq))"
    and verifies: "ledger_good w \<Longrightarrow> version_ok (vq_Version vq) \<Longrightarrow> bc_VerifyEvidence svc vq w = (Inr (r, err), w') \<Longrightarrow>
      err = None \<or> (\<exists>e. err = Some e \<and> wraps e ErrIntegrityMismatch) \<Longrightarrow>
        \<exists>e. ledger_at w (vq_EvidenceID vq) (vq_Version vq) = Some e \<and> vs_OnChainHash r = er_Hash e \<and>
          ((err = None) = (er_Hash e = vq_Hash vq))"
    and verify_total: "\<exists>x w'. bc_VerifyEvidence svc vq w = (Inr x, w')"
begin

text \<open>What a transaction of the contract has committed stays on the ledger.\<close>

lemma anchors_keep:
  assumes "fabric_laws (w_lib w)" "ledger_good w" "request_ok rq" "bc_AnchorEvidence svc rq w = (res, w')"
    and "ledger_at w i v = Some r"
  shows "ledger_at w' i v = Some r"
  using anchors [OF assms(1-4)] assms(5) by (auto simp: ledger_grows_def ledger_at_def map_le_def dom_def)

lemma anchor_tables: "bc_AnchorEvidence svc rq w = (r, w') \<Longrightarrow> w_db w' = w_db w"
  by (rule reader_db [OF reads(1)])

end

section \<open>The gateway\<close>

lemma reader_Submit: "reader.guar m \<Longrightarrow> reader.guar (SubmitTransaction m)"
proof -
  assume m: "reader.guar m"
  have "reader.guar (\<lambda>w. case m w of
     (Inl e, w') \<Rightarrow> (Inl (gateway_error (w_lib w) e), w'\<lparr>w_ledger := w_ledger w\<rparr>)
   | (Inr x, w') \<Rightarrow> infra (ret x) w')"
  proof (rule reader.guarI)
    fix w
    have "reads_only w (snd (m w))" using m by (rule reader.guarD)
    moreover have "reads_only v (snd (infra (ret x) v))" for x :: 'a and v
      using reader.guarD [OF reader.guar_infra [OF reader.guar_ret]] .
    ultimately show "reads_only w (snd (case m w of
       (Inl e, w') \<Rightarrow> (Inl (gateway_error (w_lib w) e), w'\<lparr>w_ledger := w_ledger w\<rparr>)
     | (Inr x, w') \<Rightarrow> infra (ret x) w'))"
      by (cases "m w"; cases "fst (m w)")
        (auto simp: reads_only_def params_same_def intro: order_trans)
  qed
  then show ?thesis unfolding SubmitTransaction_def by (rule reader.guar_infra)
qed

lemma Evaluate_same: "ledger.kept (EvaluateTransaction m)"
  unfolding EvaluateTransaction_def
  by (rule ledger.kept_infra) (auto simp: ledger.kept_def split: sum.splits prod.splits)

lemma reader_Evaluate: "reader.guar m \<Longrightarrow> reader.guar (EvaluateTransaction m)"
  unfolding EvaluateTransaction_def
proof (rule reader.guar_infra, rule reader.guarI)
  fix w
  assume "reader.guar m"
  then have "reads_only w (snd (m w))" by (rule reader.guarD)
  then show "reads_only w (snd (case m w of
     (Inl e, w') \<Rightarrow> (Inl (gateway_error (w_lib w) e), w'\<lparr>w_ledger := w_ledger w\<rparr>)
   | (Inr x, w') \<Rightarrow> (Inr x, w'\<lparr>w_ledger := w_ledger w\<rparr>)))"
    by (cases "m w"; cases "fst (m w)") (auto simp: reads_only_def params_same_def)
qed

lemma objects_infra_ret: "w_objects (snd (infra (ret x) v)) = w_objects v"
  by (simp add: infra_def ret_def Let_def split: option.splits)

lemma objects_Submit:
  assumes "objects.kept m" shows "objects.kept (SubmitTransaction m)" "objects.kept (EvaluateTransaction m)"
proof -
  have kept: "w_objects w' = w_objects w" if "m w = (r, w')" for w r w'
    using assms that by (rule objects.keptD)
  show "objects.kept (SubmitTransaction m)"
    unfolding SubmitTransaction_def
  proof (intro objects.kept_infra objects.keptI)
    fix w
    obtain r w' where m: "m w = (r, w')" by fastforce
    show "w_objects (snd (case m w of
       (Inl e, w') \<Rightarrow> (Inl (gateway_error (w_lib w) e), w'\<lparr>w_ledger := w_ledger w\<rparr>)
     | (Inr x, w') \<Rightarrow> infra (ret x) w')) = w_objects w"
      using kept [OF m] by (cases r) (simp_all add: m objects_infra_ret)
  qed
  show "objects.kept (EvaluateTransaction m)"
    unfolding EvaluateTransaction_def
  proof (intro objects.kept_infra objects.keptI)
    fix w
    obtain r w' where m: "m w = (r, w')" by fastforce
    show "w_objects (snd (case m w of
       (Inl e, w') \<Rightarrow> (Inl (gateway_error (w_lib w) e), w'\<lparr>w_ledger := w_ledger w\<rparr>)
     | (Inr x, w') \<Rightarrow> (Inr x, w'\<lparr>w_ledger := w_ledger w\<rparr>))) = w_objects w"
      using kept [OF m] by (cases r) (simp_all add: m)
  qed
qed

lemma objects_stub [intro!]: "objects.kept (GetState k)" "objects.kept GetTxTimestamp" "objects.kept GetTxID"
    "objects.kept (PutState k v)"
proof -
  show "objects.kept (GetState k)" "objects.kept GetTxTimestamp"
    unfolding GetState_def GetTxTimestamp_def by auto
  show "objects.kept GetTxID" by (simp add: objects.kept_def GetTxID_def)
  show "objects.kept (PutState k v)"
    unfolding PutState_def by (rule objects.kept_infra) (simp add: objects.kept_def)
qed

lemma objects_contract [intro!]:
  "objects.kept (AnchorEvidence a b c d e f g)" "objects.kept (GetEvidence a b)"
  unfolding AnchorEvidence_def GetEvidence_def parsed_version_def lift_def by auto

lemma fabric_anchor_args:
  "reader.guar (fabric_AnchorEvidence msp rq)" "objects.kept (fabric_AnchorEvidence msp rq)"
  unfolding fabric_AnchorEvidence_def Let_def by (auto intro!: reader_Submit objects_Submit)

lemma fabric_query_args:
  "reader.guar (fabric_VerifyEvidence vq)" "reader.guar (fabric_GetProvenance i)" "reader.guar (fabric_GetHistory i)"
  "objects.kept (fabric_VerifyEvidence vq)" "ledger.kept (fabric_VerifyEvidence vq)"
  "ledger.kept (fabric_GetProvenance i)" "ledger.kept (fabric_GetHistory i)"
  unfolding fabric_VerifyEvidence_def fabric_GetProvenance_def fabric_GetHistory_def Let_def
  by (auto intro!: reader_Evaluate objects_Submit Evaluate_same)

lemma Submit_run:
  assumes "SubmitTransaction m w = (res, w')"
  shows "(\<exists>e. res = Inl e \<and> w_ledger w' = w_ledger w) \<or>
    (\<exists>x w1. m (faulted w) = (Inr x, w1) \<and> w_ledger w' = w_ledger w1 \<and> (\<forall>y. res = Inr y \<longrightarrow> y = x))"
proof -
  obtain r w1 where m: "m (faulted w) = (r, w1)" by fastforce
  show ?thesis
    using assms m by (cases r) (auto simp: SubmitTransaction_def infra_def ret_def Let_def
        simp flip: faulted_def split: option.splits)
qed

lemma spec_anchor_grows:
  assumes "spec_anchor r m = (Some tx, m')"
  shows "m \<subseteq>\<^sub>m m'" and "\<exists>r'. m' (er_EvidenceID r, er_Version r) = Some r' \<and> er_Hash r' = er_Hash r"
proof -
  consider "m (er_EvidenceID r, er_Version r) = None" "m' = m((er_EvidenceID r, er_Version r) \<mapsto> r)"
    | r' where "m (er_EvidenceID r, er_Version r) = Some r'" "er_Hash r' = er_Hash r" "m' = m"
    using assms by (auto simp: spec_anchor_def split: option.splits if_splits)
  then show "m \<subseteq>\<^sub>m m'" "\<exists>r'. m' (er_EvidenceID r, er_Version r) = Some r' \<and> er_Hash r' = er_Hash r"
    by (cases; force simp: map_le_def)+
qed

lemma fabric_anchors:
  assumes laws: "fabric_laws (w_lib w)" and good: "ledger_good w" and rq: "request_ok rq"
    and run: "fabric_AnchorEvidence msp rq w = (res, w')"
  shows "ledger_grows w w' \<and>
    (\<forall>x. res = Inr x \<longrightarrow> (\<exists>r. ledger_at w' (aq_EvidenceID rq) (aq_Version rq) = Some r \<and> er_Hash r = aq_Hash rq))"
proof -
  let ?i = "uuid_string (aq_EvidenceID rq)" and ?v = "aq_Version rq"
  let ?m = "AnchorEvidence ?i (dec_int ?v) (aq_Hash rq) (aq_EventType rq) (aq_CaseReference rq) (aq_ActorOrg rq)
    (uuid_string (aq_AppRecordID rq))"
  obtain res1 w1 where sub: "SubmitTransaction ?m w = (res1, w1)" by fastforce
  have w': "w_ledger w' = w_ledger w1" and ok: "\<And>x. res = Inr x \<Longrightarrow> \<exists>y. res1 = Inr y"
    using run sub unfolding fabric_AnchorEvidence_def
    by (cases res1; auto simp: tryE_def fail_def ret_def time_now_def)+
  have lib: "w_lib w' = w_lib w"
    using reader.guarD [OF fabric_anchor_args(1), of w msp rq] run by (simp add: reads_only_def params_same_def)
  show ?thesis
    using Submit_run [OF sub]
  proof (elim disjE exE conjE)
    fix e
    assume e: "res1 = Inl e" "w_ledger w1 = w_ledger w"
    then show ?thesis
      using ok w' lib good ledger_good_cong [of w' w] ledger_map_cong [of w' w]
      by (cases res) (auto simp: ledger_grows_def)
  next
    fix tx w2
    assume m: "?m (faulted w) = (Inr tx, w2)" and w2: "w_ledger w1 = w_ledger w2"
    have v: "version_ok ?v" and texts: "list_all utf8_valid
        [aq_Hash rq, aq_EventType rq, aq_CaseReference rq, aq_ActorOrg rq, uuid_string (aq_AppRecordID rq)]"
      using rq by (simp_all add: request_ok_def)
    have good': "ledger_good (faulted w)" "ledger_map (faulted w) = ledger_map w"
      using good ledger_good_cong [of "faulted w" w] ledger_map_cong [of "faulted w" w] by simp_all
    from AnchorEvidence_refines [of "faulted w", OF _ good'(1) v texts m] laws obtain r where
      step: "ledger_good w2" "w_lib w2 = w_lib w" "er_EvidenceID r = ?i" "er_Version r = ?v" "er_Hash r = aq_Hash rq"
        "spec_anchor r (ledger_map w) = (Some tx, ledger_map w2)"
      by (auto simp: good'(2))
    have same: "ledger_good w' = ledger_good w2" "ledger_map w' = ledger_map w2"
      using w' w2 lib step(2) ledger_good_cong [of w' w2] ledger_map_cong [of w' w2] by simp_all
    note grows = spec_anchor_grows [OF step(6), unfolded step(3-5)]
    show ?thesis
      using grows step(1) lib by (auto simp: same ledger_grows_def ledger_at_def)
  qed
qed

lemma Evaluate_run:
  "EvaluateTransaction m w = (Inr x, w') \<Longrightarrow> \<exists>w1. m (faulted w) = (Inr x, w1)"
  by (auto simp: EvaluateTransaction_def infra_run split: option.splits sum.splits prod.splits)

lemma wrapped_not_mismatch: "\<not> wraps (wrapFabricError e) ErrIntegrityMismatch"
  by (simp add: wrapFabricError_def ErrUnavailable_def ErrIntegrityMismatch_def ErrNotFoundOnLedger_def)

lemma fabric_verifies:
  assumes good: "ledger_good w" and v: "version_ok (vq_Version vq)"
    and run: "fabric_VerifyEvidence vq w = (Inr (r, err), w')"
    and err: "err = None \<or> (\<exists>e. err = Some e \<and> wraps e ErrIntegrityMismatch)"
  shows "\<exists>e. ledger_at w (vq_EvidenceID vq) (vq_Version vq) = Some e \<and> vs_OnChainHash r = er_Hash e \<and>
     ((err = None) = (er_Hash e = vq_Hash vq))"
proof -
  let ?m = "GetEvidence (uuid_string (vq_EvidenceID vq)) (dec_int (vq_Version vq))"
  from run err obtain e w1 where ev: "EvaluateTransaction ?m w = (Inr e, w1)" and
    r: "vs_OnChainHash r = er_Hash e" "(err = None) = (er_Hash e = vq_Hash vq)"
    unfolding fabric_VerifyEvidence_def
    by (auto simp: tryE_Inr ret_run fail_run get_world_run wrapped_not_mismatch Let_def split: if_splits)
  have good': "ledger_good (faulted w)" "ledger_map (faulted w) = ledger_map w"
    using good ledger_good_cong [of "faulted w" w] ledger_map_cong [of "faulted w" w] by simp_all
  from Evaluate_run [OF ev] obtain w2 where "?m (faulted w) = (Inr e, w2)" by blast
  from GetEvidence_run [OF good'(1) v this] r show ?thesis by (auto simp: good'(2) ledger_at_def)
qed

lemma fabric_verify_total: "\<exists>x w'. fabric_VerifyEvidence vq w = (Inr x, w')"
proof -
  obtain r w1 where "EvaluateTransaction (GetEvidence (uuid_string (vq_EvidenceID vq)) (dec_int (vq_Version vq))) w = (r, w1)"
    by fastforce
  then show ?thesis
    unfolding fabric_VerifyEvidence_def by (cases r) (simp_all add: tryE_def ret_def get_world_def Let_def)
qed

interpretation fabric: ledger_service "fabric_service msp" for msp
  using fabric_anchor_args fabric_query_args fabric_anchors fabric_verifies fabric_verify_total
  by unfold_locales (simp_all add: fabric_service_def)

interpretation noop: ledger_service noop_service
  by unfold_locales (auto simp: noop_service_def ledger_grows_def fail_run ret_run ErrUnavailable_def
      ErrIntegrityMismatch_def)

end
