(* ===== verification/Storage.thy ===== *)
theory Storage
  imports Runtime Decimal
begin

text \<open>
  backend/internal/storage: the object store behind the documents, and the readers whose
  bytes are streamed into it.  The store's state is \<^verbatim>\<open>w_objects\<close>, the objects of the bucket
  by key.
\<close>

section \<open>Readers\<close>

text \<open>
  An \<^verbatim>\<open>io.Reader\<close>: the pieces its successive reads return, and the error the read after
  the last piece returns (\<^verbatim>\<open>None\<close> for \<^verbatim>\<open>io.EOF\<close>).
\<close>

record reader =
  rd_pieces :: "bytes list"
  rd_error :: "gerr option"

definition content :: "reader \<Rightarrow> bytes" where [run_defs]:
  "content r = concat (rd_pieces r)"

text \<open>\<^verbatim>\<open>io.ReadFull\<close> into a buffer of k bytes: what it gets and what it leaves.\<close>

fun read_full :: "nat \<Rightarrow> bytes list \<Rightarrow> bytes \<times> bytes list" where
  "read_full k [] = ([], [])"
| "read_full k (p # ps) = (if length p \<le> k
     then (let (b, rest) = read_full (k - length p) ps in (p @ b, rest))
     else (take k p, drop k p # ps))"

declare read_full.simps [run_defs]

lemma read_full_content: "read_full k ps = (b, rest) \<Longrightarrow> b @ concat rest = concat ps"
proof (induction k ps arbitrary: b rest rule: read_full.induct)
  case (2 k p ps)
  then show ?case by (cases "length p \<le> k") (auto split: prod.splits)
qed auto

lemma read_full_prefix: "fst (read_full k ps) = take k (concat ps)"
  by (induction k ps rule: read_full.induct) (auto split: prod.splits)

section \<open>The store\<close>

definition ErrObjectNotFound :: gerr where [run_defs]:
  "ErrObjectNotFound = StdErr ''storage: object not found''"

definition storage_error :: "string \<Rightarrow> string \<Rightarrow> gerr \<Rightarrow> 'a op" where [run_defs]:
  "storage_error verb key e = bindE (get_world w_lib)
     (\<lambda>lib. fail (Wrap (''storage: '' @ verb @ '' '' @ lib_quote lib key) e))"

text \<open>
  Put in two phases.  Before the store is reached nothing has been read.  Then the bytes of
  the reader go to the store until it ends or breaks; when it breaks, or when the store's
  answer is lost, what was read may already be there.
\<close>

definition put_connect :: "string \<Rightarrow> unit op" where [run_defs]:
  "put_connect key = tryE (infra (ret ())) (storage_error ''put'' key) ret"

definition put_stream :: "string \<Rightarrow> bytes \<Rightarrow> gerr option \<Rightarrow> unit op" where [run_defs]:
  "put_stream key b broken w = (let w' = w\<lparr>w_objects := (w_objects w)(key \<mapsto> b)\<rparr> in
     case broken of Some e \<Rightarrow> storage_error ''put'' key e w'
     | None \<Rightarrow> tryE (infra (ret ())) (storage_error ''put'' key) ret w')"

definition storage_put :: "string \<Rightarrow> reader \<Rightarrow> unit op" where [run_defs]:
  "storage_put key r = bindE (put_connect key) (\<lambda>_. put_stream key (content r) (rd_error r))"

definition storage_get :: "string \<Rightarrow> bytes op" where [run_defs]:
  "storage_get key = tryE (infra (get_world (\<lambda>w. w_objects w key))) (storage_error ''stat'' key)
     (\<lambda>found. case found of None \<Rightarrow> fail ErrObjectNotFound | Some b \<Rightarrow> ret b)"

definition storage_delete :: "string \<Rightarrow> unit op" where [run_defs]:
  "storage_delete key = tryE (infra (\<lambda>w. (Inr (), w\<lparr>w_objects := (w_objects w)(key := None)\<rparr>)))
     (storage_error ''delete'' key) ret"

definition storage_exists :: "string \<Rightarrow> bool op" where [run_defs]:
  "storage_exists key = tryE (infra (get_world (\<lambda>w. w_objects w key))) (storage_error ''stat'' key)
     (\<lambda>found. ret (found \<noteq> None))"

text \<open>The key check of the store on the local disk.\<close>

fun contains_dots :: "string \<Rightarrow> bool" where
  "contains_dots (x # y # s) = ((x = CHR ''.'' \<and> y = CHR ''.'') \<or> contains_dots (y # s))"
| "contains_dots s = False"

definition resolve_ok :: "string \<Rightarrow> bool" where [run_defs]:
  "resolve_ok key \<longleftrightarrow> key \<noteq> '''' \<and> take 1 key \<noteq> ''/'' \<and> \<not> contains_dots key"

declare contains_dots.simps [run_defs]

end
