(* ===== verification/DocumentService.thy ===== *)
theory DocumentService
  imports Storage CaseService
begin

text \<open>
  backend/internal/service/document_service.go: upload with size and type checks while the
  bytes stream into the object store and the digest, download, and verification of a stored
  object against the digest in the database.  The service owns the table documents and the
  objects under \<^verbatim>\<open>cases/\<close>; the blockchain hook it calls after an upload is a field of its
  configuration.
\<close>

section \<open>Constants, inputs and results\<close>

definition genericDocumentForbiddenMessage :: string where [run_defs]:
  "genericDocumentForbiddenMessage = ''You do not have permission to perform this action''"

definition documentTypes :: "string list" where [run_defs]:
  "documentTypes = [''FIR'', ''FORENSIC_REPORT'', ''PHOTO_EVIDENCE'', ''WITNESS_STATEMENT'', ''OTHER'']"

definition maxDocumentDescriptionLen :: nat where [run_defs]:
  "maxDocumentDescriptionLen = 10000"

definition maxDocumentFilenameLen :: nat where [run_defs]:
  "maxDocumentFilenameLen = 255"

definition sniffLen :: nat where [run_defs]:
  "sniffLen = 512"

definition deniedUploadMimeTypes :: "string list" where [run_defs]:
  "deniedUploadMimeTypes = [''text/html; charset=utf-8'', ''text/html'']"

text \<open>The two errors of an oversized body; errors.Is and errors.As find them under wrappers.\<close>

definition errUploadTooLarge :: gerr where [run_defs]:
  "errUploadTooLarge = StdErr ''document: upload exceeds maximum size''"

definition max_bytes_error :: gerr where [run_defs]:
  "max_bytes_error = StdErr ''http: request body too large''"

fun err_is :: "gerr \<Rightarrow> gerr \<Rightarrow> bool" where
  "err_is (Wrap m e) t = (Wrap m e = t \<or> err_is e t)"
| "err_is (AppErr s c m (Some e) r) t = (AppErr s c m (Some e) r = t \<or> err_is e t)"
| "err_is e t = (e = t)"

declare err_is.simps [run_defs]

record UploadDocumentInput =
  du_DocumentType :: string
  du_Description :: "string option"
  du_Filename :: string
  du_File :: "reader option"

record DownloadedDocument =
  dd_Document :: document_row
  dd_Content :: bytes

type_synonym anchor_hook = "authenticated_user \<Rightarrow> uuid \<Rightarrow> uuid \<Rightarrow> bytes \<Rightarrow> string \<Rightarrow> unit op"

record DocumentService =
  dv_bucket :: string
  dv_maxUploadSize :: int
  dv_blockchainSvc :: "anchor_hook option"

record VerificationResult =
  vr_DocumentID :: uuid
  vr_Status :: string
  vr_StoredHash :: string
  vr_ComputedHash :: string
  vr_VerifiedAt :: time

section \<open>Helpers\<close>

definition documentObjectKey :: "uuid \<Rightarrow> uuid \<Rightarrow> string" where [run_defs]:
  "documentObjectKey caseID documentID =
     ''cases/'' @ uuid_string caseID @ ''/documents/'' @ uuid_string documentID @ ''/original''"

definition isAllDots :: "string \<Rightarrow> bool" where [run_defs]:
  "isAllDots s = list_all (\<lambda>r. r = ''.'') (runes s)"

definition after_last :: "char \<Rightarrow> string \<Rightarrow> string" where [run_defs]:
  "after_last c s = rev (takeWhile (\<lambda>x. x \<noteq> c) (rev s))"

text \<open>Control characters are the runes below U+0020 and U+007F, one byte each.\<close>

definition control_rune :: "string \<Rightarrow> bool" where [run_defs]:
  "control_rune r = (case r of [c] \<Rightarrow> of_char c < (0x20 :: nat) \<or> of_char c = (0x7F :: nat) | _ \<Rightarrow> False)"

definition sanitizeFilename :: "string \<Rightarrow> string" where [run_defs]:
  "sanitizeFilename name =
     (let base = after_last (CHR ''/'') (map (\<lambda>c. if c = CHR 0x5C then CHR ''/'' else c) (TrimSpace name));
          cleaned = TrimSpace (concat (filter (\<lambda>r. \<not> control_rune r) (runes base))) in
      if cleaned = '''' \<or> isAllDots cleaned then ''document''
      else take maxDocumentFilenameLen cleaned)"

definition toDocumentSummary :: "document_row \<Rightarrow> DocumentSummary" where [run_defs]:
  "toDocumentSummary d = \<lparr>ds_ID = d_id d, ds_CaseID = d_case_id d, ds_DocumentType = d_document_type d,
     ds_Filename = d_filename d, ds_Description = d_description d, ds_MimeType = d_mime_type d,
     ds_FileSize = d_file_size d, ds_Sha256Hash = hex_encode (d_sha256_hash d), ds_Status = d_status d,
     ds_ParentDocumentID = d_parent_document_id d, ds_UploadedBy = d_uploaded_by d,
     ds_UploadedAt = d_uploaded_at d\<rparr>"

text \<open>The guard of the operations: the policy of the case or of the document.\<close>

definition need_access ::
    "(authenticated_user \<Rightarrow> uuid \<Rightarrow> action \<Rightarrow> decision op) \<Rightarrow> authenticated_user \<Rightarrow> uuid \<Rightarrow> action \<Rightarrow> 'a op \<Rightarrow> 'a op" where [run_defs]:
  "need_access decide user i act k = tryE (decide user i act) (\<lambda>e. fail (ErrInternal e))
     (\<lambda>dec. ensure (Allowed dec) (ErrForbidden genericDocumentForbiddenMessage) k)"

definition load_document :: "authenticated_user \<Rightarrow> uuid \<Rightarrow> (document_row \<Rightarrow> 'a op) \<Rightarrow> 'a op" where [run_defs]:
  "load_document user documentID k = tryE (WithTx (case_ident user) (q_GetDocumentByID documentID))
     (no_rows_as (ErrForbidden genericDocumentForbiddenMessage)) k"

section \<open>Streaming an upload\<close>

definition sniffContentType :: "library \<Rightarrow> reader \<Rightarrow> gerr + string \<times> reader" where [run_defs]:
  "sniffContentType lib r = (let (b, rest) = read_full sniffLen (rd_pieces r) in
     case rd_error r of
       Some e \<Rightarrow> if length b < sniffLen then Inl e
         else Inr (lib_detect_content_type lib b, r\<lparr>rd_pieces := b # rest\<rparr>)
     | None \<Rightarrow> Inr (lib_detect_content_type lib b, r\<lparr>rd_pieces := b # rest\<rparr>))"

record limited_reader =
  lm_bytes :: bytes
  lm_n :: int
  lm_error :: "gerr option"
  lm_exceeded :: bool

text \<open>What a consumer gets from a limitedReader that has already passed on n bytes.\<close>

fun limited_read :: "int \<Rightarrow> int \<Rightarrow> bytes list \<Rightarrow> gerr option \<Rightarrow> limited_reader" where
  "limited_read limit n [] e = \<lparr>lm_bytes = [], lm_n = n, lm_error = e, lm_exceeded = False\<rparr>"
| "limited_read limit n (p # ps) e = (let n' = n + int (length p) in
     if limit < n' then \<lparr>lm_bytes = p, lm_n = n', lm_error = Some errUploadTooLarge, lm_exceeded = True\<rparr>
     else (let r = limited_read limit n' ps e in r\<lparr>lm_bytes := p @ lm_bytes r\<rparr>))"

declare limited_read.simps [run_defs]

definition streamToStorage :: "int \<Rightarrow> string \<Rightarrow> reader \<Rightarrow> (int \<times> bytes \<times> string) op" where [run_defs]:
  "streamToStorage maxSize objectKey r = bindE (get_world w_lib) (\<lambda>lib.
     case sniffContentType lib r of Inl e \<Rightarrow> fail (Wrap ''read upload stream'' e)
     | Inr (sniffed, rest) \<Rightarrow>
         bindE (put_connect objectKey) (\<lambda>_.
         let l = limited_read maxSize 0 (rd_pieces rest) (rd_error rest) in
         tryE (put_stream objectKey (lm_bytes l) (lm_error l))
           (\<lambda>putErr. fail (if lm_exceeded l then errUploadTooLarge else putErr))
           (\<lambda>_. ret (lm_n l, lib_sha256 lib (lm_bytes l), sniffed))))"

definition cleanupOrphan :: "string \<Rightarrow> 'a op \<Rightarrow> 'a op" where [run_defs]:
  "cleanupOrphan objectKey k = ignoring (storage_delete objectKey) k"

section \<open>UploadDocument\<close>

definition uploaded_row ::
    "DocumentService \<Rightarrow> authenticated_user \<Rightarrow> uuid \<Rightarrow> UploadDocumentInput \<Rightarrow> uuid \<Rightarrow> int \<Rightarrow> bytes \<Rightarrow> string \<Rightarrow> document_row" where [run_defs]:
  "uploaded_row sv user caseID input i bytes_n h mime = \<lparr>d_id = i, d_case_id = caseID,
     d_parent_document_id = None, d_document_type = du_DocumentType input,
     d_filename = sanitizeFilename (du_Filename input), d_description = du_Description input,
     d_mime_type = mime, d_file_size = bytes_n, d_sha256_hash = h, d_storage_bucket = dv_bucket sv,
     d_storage_object_key = documentObjectKey caseID i, d_status = '''', d_metadata = ''{}'',
     d_uploaded_by = au_ID user, d_uploaded_at = 0, d_updated_at = 0\<rparr>"

definition upload_event :: "authenticated_user \<Rightarrow> uuid \<Rightarrow> document_row \<Rightarrow> event" where [run_defs]:
  "upload_event user caseID d = \<lparr>ev_action = ''DOCUMENT_UPLOADED'', ev_resource_type = ''document'',
     ev_resource_id = Some (d_id d), ev_user_id = Some (au_ID user), ev_role = effectiveCaseRole user,
     ev_case_id = Some caseID, ev_metadata = JObj [(''filename'', JStr (d_filename d)),
       (''document_type'', JStr (d_document_type d)), (''file_size'', JInt (d_file_size d)),
       (''mime_type'', JStr (d_mime_type d)), (''sha256_hash'', JStr (hex_encode (d_sha256_hash d)))]\<rparr>"

definition upload_stream_error :: "DocumentService \<Rightarrow> string \<Rightarrow> gerr \<Rightarrow> 'a op" where [run_defs]:
  "upload_stream_error sv objectKey e = cleanupOrphan objectKey (fail
     (if err_is e errUploadTooLarge \<or> err_is e max_bytes_error
      then NewAppError 413 ''REQUEST_ENTITY_TOO_LARGE''
        (''File exceeds the maximum upload size of '' @ dec_int (dv_maxUploadSize sv) @ '' bytes'') None
      else ErrInternal (Wrap ''store document'' e)))"

text \<open>From the stored object to the row, the audit record and the blockchain hook.\<close>

definition register_upload ::
    "DocumentService \<Rightarrow> authenticated_user \<Rightarrow> uuid \<Rightarrow> UploadDocumentInput \<Rightarrow> uuid \<Rightarrow> int \<times> bytes \<times> string \<Rightarrow> DocumentSummary op" where [run_defs]:
  "register_upload sv user caseID input i stored = (case stored of (bytes_n, h, mime) \<Rightarrow>
     if mime \<in> set deniedUploadMimeTypes then
       cleanupOrphan (documentObjectKey caseID i) (bindE (get_world w_lib) (\<lambda>lib.
         fail (ErrUnprocessableEntity (''Files detected as '' @ lib_quote lib mime @ '' are not accepted''))))
     else tryE (WithTx (case_ident user) (q_CreateDocument (uploaded_row sv user caseID input i bytes_n h mime)))
       (\<lambda>e. cleanupOrphan (documentObjectKey caseID i) (fail (ErrInternal (Wrap ''persist document metadata'' e))))
       (\<lambda>created.
         bindE (Record (upload_event user caseID created)) (\<lambda>_.
         bindE (case dv_blockchainSvc sv of None \<Rightarrow> ret ()
            | Some hook \<Rightarrow> hook user (d_id created) caseID (d_sha256_hash created) ''DOCUMENT_UPLOADED'') (\<lambda>_.
         ret (toDocumentSummary created)))))"

definition description_error :: "string option \<Rightarrow> gerr option" where [run_defs]:
  "description_error v = (case v of None \<Rightarrow> None
     | Some s \<Rightarrow> if maxDocumentDescriptionLen < length s
         then Some (StdErr ''description must be at most 10000 characters'')
         else if \<not> utf8_valid s then Some (StdErr ''description must be valid UTF-8'') else None)"

definition UploadDocument ::
    "DocumentService \<Rightarrow> authenticated_user \<Rightarrow> uuid \<Rightarrow> UploadDocumentInput \<Rightarrow> DocumentSummary op" where [run_defs]:
  "UploadDocument sv user caseID input = need_access CanAccessCase user caseID ''document:upload'' (
     ensure (du_DocumentType input \<in> set documentTypes) (ErrBadRequest ''Invalid document_type'') (
     validated (description_error (du_Description input)) (
     case du_File input of None \<Rightarrow> fail (ErrBadRequest ''file is required'')
     | Some file \<Rightarrow> bindE uuid_new (\<lambda>i.
         tryE (streamToStorage (dv_maxUploadSize sv) (documentObjectKey caseID i) file)
           (upload_stream_error sv (documentObjectKey caseID i))
           (register_upload sv user caseID input i)))))"

section \<open>DownloadDocument\<close>

definition document_event :: "string \<Rightarrow> authenticated_user \<Rightarrow> document_row \<Rightarrow> (string \<times> json) list \<Rightarrow> event" where [run_defs]:
  "document_event act user d meta = \<lparr>ev_action = act, ev_resource_type = ''document'',
     ev_resource_id = Some (d_id d), ev_user_id = Some (au_ID user), ev_role = effectiveCaseRole user,
     ev_case_id = Some (d_case_id d), ev_metadata = JObj meta\<rparr>"

definition DownloadDocument :: "authenticated_user \<Rightarrow> uuid \<Rightarrow> DownloadedDocument op" where [run_defs]:
  "DownloadDocument user documentID = need_access CanAccessDocument user documentID ''document:download'' (
     load_document user documentID (\<lambda>doc.
     tryE (storage_get (d_storage_object_key doc))
       (\<lambda>_. fail (ErrServiceUnavailable ''The requested document is temporarily unavailable''))
       (\<lambda>b. bindE (Record (document_event ''DOCUMENT_DOWNLOADED'' user doc [(''filename'', JStr (d_filename doc))]))
          (\<lambda>_. ret \<lparr>dd_Document = doc, dd_Content = b\<rparr>))))"

section \<open>VerifyDocument\<close>

definition recomputeDocumentHash :: "document_row \<Rightarrow> bytes op" where [run_defs]:
  "recomputeDocumentHash doc = try_wrap (storage_get (d_storage_object_key doc)) ''retrieve stored object'' (\<lambda>b.
     try_wrap (infra (ret ())) ''read stored object'' (\<lambda>_. get_world (\<lambda>w. lib_sha256 (w_lib w) b)))"

definition want_status :: "document_row \<Rightarrow> bool \<Rightarrow> string option" where [run_defs]:
  "want_status doc matches =
     (if \<not> matches \<and> d_status doc \<noteq> ''TAMPERED'' then Some ''TAMPERED''
      else if matches \<and> d_status doc = ''TAMPERED'' then Some ''ACTIVE'' else None)"

definition reconcileTamperStatus :: "app_identity \<Rightarrow> document_row \<Rightarrow> bool \<Rightarrow> unit op" where [run_defs]:
  "reconcileTamperStatus ident doc matches = (case want_status doc matches of None \<Rightarrow> ret ()
     | Some s \<Rightarrow> WithTx ident (q_UpdateDocumentStatus (d_id doc) s))"

definition verification_published :: "document_row \<Rightarrow> string \<Rightarrow> unit op" where [run_defs]:
  "verification_published doc result = publish ''DOCUMENT_VERIFICATION_COMPLETED'' ''case''
     (uuid_string (d_case_id doc)) [(''document_id'', JStr (uuid_string (d_id doc))),
       (''case_id'', JStr (uuid_string (d_case_id doc))), (''result'', JStr result)]"

definition report_verification :: "authenticated_user \<Rightarrow> document_row \<Rightarrow> bytes \<Rightarrow> time \<Rightarrow> VerificationResult op" where [run_defs]:
  "report_verification user doc computed verifiedAt =
     (let stored = hex_encode (d_sha256_hash doc); comp = hex_encode computed;
          res = (\<lambda>status. \<lparr>vr_DocumentID = d_id doc, vr_Status = status, vr_StoredHash = stored,
             vr_ComputedHash = comp, vr_VerifiedAt = verifiedAt\<rparr>) in
      if computed \<noteq> d_sha256_hash doc then
        bindE (Record (document_event ''DOCUMENT_INTEGRITY_FAILURE'' user doc
           [(''stored_hash'', JStr stored), (''computed_hash'', JStr comp)])) (\<lambda>_.
        bindE (verification_published doc ''INTEGRITY_FAILURE'') (\<lambda>_. ret (res ''INTEGRITY_FAILURE'')))
      else
        bindE (Record (document_event ''DOCUMENT_VERIFIED'' user doc [(''sha256_hash'', JStr stored)])) (\<lambda>_.
        bindE (verification_published doc ''VERIFIED'') (\<lambda>_. ret (res ''VERIFIED''))))"

definition VerifyDocument :: "authenticated_user \<Rightarrow> uuid \<Rightarrow> VerificationResult op" where [run_defs]:
  "VerifyDocument user documentID = need_access CanAccessDocument user documentID ''document:verify'' (
     load_document user documentID (\<lambda>doc.
     tryE (recomputeDocumentHash doc)
       (\<lambda>_. fail (ErrServiceUnavailable ''The document could not be retrieved for verification''))
       (\<lambda>computed. bindE time_now (\<lambda>verifiedAt.
          tryE (reconcileTamperStatus (case_ident user) doc (computed = d_sha256_hash doc))
            (\<lambda>e. fail (ErrInternal e))
            (\<lambda>_. report_verification user doc computed verifiedAt)))))"

end
