(* ===== verification/AnchorService.thy ===== *)
theory AnchorService
  imports DocumentService Fabric
begin

text \<open>
  backend/internal/service/blockchain\_anchor\_service.go with the statements of
  backend/db/queries/blockchain.sql and backend/internal/jobs/blockchain\_anchor.go: the
  outbox between the database and the ledger (a pending anchor is submitted by a worker,
  then confirmed or failed) and the verification of a document or of a candidate file
  against database and ledger.  The service owns the table blockchain\_anchors.
\<close>

section \<open>blockchain.sql\<close>

definition anchor_valid :: "anchor_row \<Rightarrow> (bool \<times> gerr) list" where [run_defs]:
  "anchor_valid a =
    [(list_all text_ok (concat (map (\<lambda>t. case t of None \<Rightarrow> [] | Some s \<Rightarrow> [s])
        [b_fabric_tx_id a, b_fabric_channel a, b_fabric_chaincode a, b_organization a, b_last_error a])),
        PgError ''22021'' ''''),
     (b_retry_count a < 2 ^ 31, PgError ''22003'' ''''),
     (b_status a \<in> {''PENDING'', ''CONFIRMED'', ''FAILED''}, PgError ''23514'' ''blockchain_anchors_status_check''),
     (length (b_document_hash a) = 32, PgError ''23514'' ''blockchain_anchors_hash_length''),
     (b_event_type a \<in> {''DOCUMENT_UPLOADED'', ''DOCUMENT_REDACTED'', ''CERTIFICATE_ISSUED''},
        PgError ''23514'' ''blockchain_anchors_event_type_check''),
     ((b_status a = ''CONFIRMED'') = (b_confirmed_at a \<noteq> None), PgError ''23514'' ''blockchain_anchors_confirmed_at_check''),
     ((b_status a = ''CONFIRMED'') = (b_fabric_tx_id a \<noteq> None), PgError ''23514'' ''blockchain_anchors_tx_id_check''),
     (1 \<le> b_document_version a, PgError ''23514'' ''blockchain_anchors_version_positive''),
     (0 \<le> b_retry_count a, PgError ''23514'' ''blockchain_anchors_retry_count_check'')]"

definition anchors_checks :: "database \<Rightarrow> time \<Rightarrow> app_ctx \<Rightarrow> anchor_row \<Rightarrow> (bool \<times> gerr) list" where [run_defs]:
  "anchors_checks d now c a = (anchors_insert c \<and> anchors_select d now c a, rls_error ''blockchain_anchors'') #
     anchor_valid a @
    [(\<not> list_ex (\<lambda>x. b_id x = b_id a) (t_anchors d), PgError ''23505'' ''blockchain_anchors_pkey''),
     (document_exists d (b_document_id a), PgError ''23503'' ''blockchain_anchors_document_id_fkey'')]"

definition q_CreateBlockchainAnchor ::
    "uuid \<Rightarrow> int \<Rightarrow> string \<Rightarrow> bytes \<Rightarrow> string option \<Rightarrow> string option \<Rightarrow> string option \<Rightarrow> anchor_row op" where [run_defs]:
  "q_CreateBlockchainAnchor did ver ev h channel chaincode org = exec_new (\<lambda>i lib d c now.
     let a = \<lparr>b_id = i, b_document_id = did, b_document_version = ver, b_event_type = ev,
       b_document_hash = h, b_status = ''PENDING'', b_fabric_tx_id = None, b_fabric_channel = channel,
       b_fabric_chaincode = chaincode, b_organization = org, b_last_error = None, b_retry_count = 0,
       b_created_at = now, b_confirmed_at = None, b_updated_at = now\<rparr> in
     checked (anchors_checks d now c a) (a, d\<lparr>t_anchors := t_anchors d @ [a]\<rparr>))"

definition visible_anchors :: "database \<Rightarrow> time \<Rightarrow> app_ctx \<Rightarrow> anchor_row list" where [run_defs]:
  "visible_anchors d now c = filter (anchors_select d now c) (t_anchors d)"

definition q_GetBlockchainAnchorByID :: "uuid \<Rightarrow> anchor_row op" where [run_defs]:
  "q_GetBlockchainAnchorByID i = query (\<lambda>d c now. one (filter (\<lambda>a. b_id a = i) (visible_anchors d now c)))"

definition q_GetLatestBlockchainAnchorByDocumentID :: "uuid \<Rightarrow> anchor_row op" where [run_defs]:
  "q_GetLatestBlockchainAnchorByDocumentID did = query (\<lambda>d c now. one (sort_key (\<lambda>a. - b_created_at a)
     (filter (\<lambda>a. b_document_id a = did) (visible_anchors d now c))))"

definition q_ListBlockchainAnchorsByDocumentID :: "uuid \<Rightarrow> anchor_row list op" where [run_defs]:
  "q_ListBlockchainAnchorsByDocumentID did = query (\<lambda>d c now. Inr (sort_key b_created_at
     (filter (\<lambda>a. b_document_id a = did) (visible_anchors d now c))))"

text \<open>An UPDATE of one pending anchor; the new row must satisfy the constraints.\<close>

definition pending_anchor :: "database \<Rightarrow> time \<Rightarrow> app_ctx \<Rightarrow> uuid \<Rightarrow> anchor_row \<Rightarrow> bool" where [run_defs]:
  "pending_anchor d now c i a \<longleftrightarrow> b_id a = i \<and> b_status a = ''PENDING'' \<and> anchors_select d now c a \<and> anchors_update c"

definition update_anchor :: "uuid \<Rightarrow> (time \<Rightarrow> anchor_row \<Rightarrow> anchor_row) \<Rightarrow> anchor_row op" where [run_defs]:
  "update_anchor i f = exec (\<lambda>lib d c now. case filter (pending_anchor d now c i) (t_anchors d) of
     [] \<Rightarrow> Inl ErrNoRows
   | a # _ \<Rightarrow> checked (anchor_valid (f now a))
       (f now a, d\<lparr>t_anchors := update_where (pending_anchor d now c i) (f now) (t_anchors d)\<rparr>))"

definition q_ConfirmBlockchainAnchor :: "uuid \<Rightarrow> string \<Rightarrow> string \<Rightarrow> anchor_row op" where [run_defs]:
  "q_ConfirmBlockchainAnchor i tx org = update_anchor i (\<lambda>now a. a\<lparr>b_status := ''CONFIRMED'',
     b_fabric_tx_id := Some tx, b_organization := Some org, b_confirmed_at := Some now, b_updated_at := now\<rparr>)"

definition q_FailBlockchainAnchor :: "uuid \<Rightarrow> string option \<Rightarrow> int \<Rightarrow> anchor_row op" where [run_defs]:
  "q_FailBlockchainAnchor i err n = update_anchor i (\<lambda>now a. a\<lparr>b_status := ''FAILED'', b_last_error := err,
     b_retry_count := n, b_updated_at := now\<rparr>)"

text \<open>An \<^verbatim>\<open>:exec\<close> statement: no row is no error.\<close>

definition q_IncrementBlockchainAnchorRetry :: "uuid \<Rightarrow> string option \<Rightarrow> unit op" where [run_defs]:
  "q_IncrementBlockchainAnchorRetry i err = tryE (update_anchor i (\<lambda>now a. a\<lparr>b_retry_count := b_retry_count a + 1,
     b_last_error := err, b_updated_at := now\<rparr>))
     (\<lambda>e. if is_no_rows e then ret () else fail e) (\<lambda>_. ret ())"

section \<open>The service\<close>

definition blockchainWorkerIdentity :: app_identity where [run_defs]:
  "blockchainWorkerIdentity = \<lparr>UserID = 0xb020, Role = ''ADMIN''\<rparr>"

record AnchorService =
  as_blockchain :: BlockchainService
  as_channel :: string
  as_chaincode :: string
  as_mspID :: string

record BlockchainAnchorSummary =
  bs_ID :: uuid
  bs_DocumentID :: uuid
  bs_DocumentVersion :: int
  bs_EventType :: string
  bs_DocumentHash :: string
  bs_Status :: string
  bs_FabricTxID :: "string option"
  bs_FabricChannel :: "string option"
  bs_FabricChaincode :: "string option"
  bs_Organization :: "string option"
  bs_LastError :: "string option"
  bs_RetryCount :: int
  bs_CreatedAt :: time
  bs_ConfirmedAt :: "time option"

definition toBlockchainAnchorSummary :: "anchor_row \<Rightarrow> BlockchainAnchorSummary" where [run_defs]:
  "toBlockchainAnchorSummary a = \<lparr>bs_ID = b_id a, bs_DocumentID = b_document_id a,
     bs_DocumentVersion = b_document_version a, bs_EventType = b_event_type a,
     bs_DocumentHash = HashToHex (b_document_hash a), bs_Status = b_status a, bs_FabricTxID = b_fabric_tx_id a,
     bs_FabricChannel = b_fabric_channel a, bs_FabricChaincode = b_fabric_chaincode a,
     bs_Organization = b_organization a, bs_LastError = b_last_error a, bs_RetryCount = b_retry_count a,
     bs_CreatedAt = b_created_at a, bs_ConfirmedAt = b_confirmed_at a\<rparr>"

text \<open>The queue refuses a task whose identifier it already holds.\<close>

definition enqueue :: "string \<Rightarrow> uuid \<Rightarrow> unit op" where [run_defs]:
  "enqueue ty i = try_wrap (infra (\<lambda>w. if (ty, i) \<in> set (w_jobs w)
       then (Inl (StdErr ''task ID conflicts with another task''), w)
       else (Inr (), w\<lparr>w_jobs := w_jobs w @ [(ty, i)]\<rparr>))) (''jobs: enqueue '' @ ty) ret"

definition EnqueueBlockchainAnchor :: "uuid \<Rightarrow> unit op" where [run_defs]:
  "EnqueueBlockchainAnchor i = enqueue ''blockchain:anchor'' i"

definition anchor_event :: "string \<Rightarrow> uuid option \<Rightarrow> string \<Rightarrow> uuid \<Rightarrow> uuid \<Rightarrow> (string \<times> json) list \<Rightarrow> event" where [run_defs]:
  "anchor_event act user role anchorID caseID meta = \<lparr>ev_action = act, ev_resource_type = ''blockchain_anchor'',
     ev_resource_id = Some anchorID, ev_user_id = user, ev_role = role, ev_case_id = Some caseID,
     ev_metadata = JObj meta\<rparr>"

definition CreateAnchorForDocument :: "AnchorService \<Rightarrow> anchor_hook" where [run_defs]:
  "CreateAnchorForDocument sv user documentID caseID h eventType =
     (if \<not> bc_IsEnabled (as_blockchain sv) then ret ()
      else tryE (WithTx (case_ident user) (q_CreateBlockchainAnchor documentID 1 eventType h
          (Some (as_channel sv)) (Some (as_chaincode sv)) (Some (as_mspID sv)))) (\<lambda>_. ret ())
        (\<lambda>anchor. bindE (Record (anchor_event ''BLOCKCHAIN_ANCHOR_REQUESTED'' (Some (au_ID user))
             (effectiveCaseRole user) (b_id anchor) caseID
             [(''document_id'', JStr (uuid_string documentID)), (''anchor_id'', JStr (uuid_string (b_id anchor))),
              (''event_type'', JStr eventType), (''document_hash'', JStr (hex_encode h))]))
          (\<lambda>_. ignoring (EnqueueBlockchainAnchor (b_id anchor)) (ret ()))))"

definition markConfirmed :: "uuid \<Rightarrow> string \<Rightarrow> string \<Rightarrow> anchor_row op" where [run_defs]:
  "markConfirmed anchorID tx org = WithTx blockchainWorkerIdentity (q_ConfirmBlockchainAnchor anchorID tx org)"

definition error_ptr :: "string \<Rightarrow> string option" where [run_defs]:
  "error_ptr msg = (if msg \<noteq> '''' then Some msg else None)"

definition markFailed :: "uuid \<Rightarrow> string \<Rightarrow> int \<Rightarrow> unit op" where [run_defs]:
  "markFailed anchorID msg n = WithTx blockchainWorkerIdentity
     (bindE (q_FailBlockchainAnchor anchorID (error_ptr msg) n) (\<lambda>_. ret ()))"

definition incrementRetry :: "uuid \<Rightarrow> string \<Rightarrow> unit op" where [run_defs]:
  "incrementRetry anchorID msg = WithTx blockchainWorkerIdentity
     (q_IncrementBlockchainAnchorRetry anchorID (error_ptr msg))"

text \<open>The worker's submission of a pending anchor, once anchor and document are loaded.\<close>

definition submit_anchor :: "AnchorService \<Rightarrow> anchor_row \<Rightarrow> uuid \<Rightarrow> unit op" where [run_defs]:
  "submit_anchor sv anchor caseID =
     tryE (bc_AnchorEvidence (as_blockchain sv) \<lparr>aq_EvidenceID = b_document_id anchor,
         aq_CaseReference = uuid_string caseID, aq_Version = b_document_version anchor,
         aq_Hash = HashToHex (b_document_hash anchor), aq_EventType = b_event_type anchor,
         aq_ActorOrg = as_mspID sv, aq_AppRecordID = b_id anchor\<rparr>)
       (\<lambda>e. if wraps e ErrUnavailable
          then ignoring (incrementRetry (b_id anchor) (err_text e))
            (fail (Wrap (''blockchain: anchor '' @ uuid_string (b_id anchor)) e))
          else ignoring (markFailed (b_id anchor) (err_text e) (b_retry_count anchor + 1)) (ret ()))
       (\<lambda>result. ignoring (markConfirmed (b_id anchor) (an_TransactionID result) (an_Organization result)) (
          bindE (Record (anchor_event ''BLOCKCHAIN_ANCHOR_CONFIRMED'' None ''ADMIN'' (b_id anchor) caseID
             [(''anchor_id'', JStr (uuid_string (b_id anchor))), (''tx_id'', JStr (an_TransactionID result)),
              (''document_id'', JStr (uuid_string (b_document_id anchor)))])) (\<lambda>_.
          publish ''BLOCKCHAIN_ANCHOR_CONFIRMED'' ''case'' (uuid_string caseID)
             [(''anchor_id'', JStr (uuid_string (b_id anchor))),
              (''document_id'', JStr (uuid_string (b_document_id anchor))),
              (''case_id'', JStr (uuid_string caseID)), (''status'', JStr ''CONFIRMED''),
              (''tx_id'', JStr (an_TransactionID result))])))"

definition RunAnchor :: "AnchorService \<Rightarrow> uuid \<Rightarrow> unit op" where [run_defs]:
  "RunAnchor sv anchorID =
     tryE (WithTx blockchainWorkerIdentity (q_GetBlockchainAnchorByID anchorID))
       (\<lambda>e. if is_no_rows e then ret ()
          else fail (Wrap (''blockchain: load anchor '' @ uuid_string anchorID) e))
       (\<lambda>anchor. if b_status anchor \<noteq> ''PENDING'' then ret ()
          else try_wrap (WithTx blockchainWorkerIdentity (bindE (q_GetDocumentByID (b_document_id anchor))
              (\<lambda>doc. ret (d_case_id doc)))) (''blockchain: load document for anchor '' @ uuid_string anchorID)
            (submit_anchor sv anchor))"

definition MarkAnchorOperationallyFailed :: "uuid \<Rightarrow> gerr option \<Rightarrow> unit op" where [run_defs]:
  "MarkAnchorOperationallyFailed anchorID cause =
     markFailed anchorID (case cause of None \<Rightarrow> '''' | Some e \<Rightarrow> err_text e) (- 1)"

definition GetAnchorStatus :: "authenticated_user \<Rightarrow> uuid \<Rightarrow> BlockchainAnchorSummary option op" where [run_defs]:
  "GetAnchorStatus user documentID = need_access CanAccessDocument user documentID ''document:verify'' (
     tryE (WithTx (case_ident user) (q_GetLatestBlockchainAnchorByDocumentID documentID))
       (\<lambda>e. if is_no_rows e then ret None else fail (ErrInternal e))
       (\<lambda>a. ret (Some (toBlockchainAnchorSummary a))))"

definition GetAnchorProvenance :: "authenticated_user \<Rightarrow> uuid \<Rightarrow> BlockchainAnchorSummary list op" where [run_defs]:
  "GetAnchorProvenance user documentID = need_access CanAccessDocument user documentID ''document:verify'' (
     tryE (WithTx (case_ident user) (q_ListBlockchainAnchorsByDocumentID documentID))
       (\<lambda>e. fail (ErrInternal e)) (\<lambda>as. ret (map toBlockchainAnchorSummary as)))"

end
