(* ===== verification/CandidateVerification.thy ===== *)
theory CandidateVerification
  imports AnchorService
begin

text \<open>
  The verification half of backend/internal/service/blockchain\_anchor\_service.go: a stored
  document or an uploaded candidate file is compared with the digest in the database and, when
  a confirmed anchor exists, with the record on the ledger.
\<close>

section \<open>The result\<close>

record BlockchainVerifyResult =
  bv_Status :: string
  bv_DocumentID :: uuid
  bv_Version :: int
  bv_ExpectedHash :: string
  bv_ActualHash :: string
  bv_BlockchainHash :: "string option"
  bv_DatabaseMatch :: bool
  bv_BlockchainMatch :: bool
  bv_BlockchainStatus :: string
  bv_FileHash :: string
  bv_StoredHash :: string
  bv_ChainHash :: "string option"
  bv_TransactionID :: "string option"
  bv_AnchoredAt :: "time option"
  bv_Organization :: "string option"
  bv_BlockchainEnabled :: bool
  bv_VerifiedAt :: time
  bv_Source :: string
  bv_Details :: string

section \<open>The digest of the file at hand\<close>

text \<open>
  \<^verbatim>\<open>io.Copy\<close> from a \<^verbatim>\<open>LimitedReader\<close> of one byte more than the limit: once
  that many bytes have been read the reader reports the end, whatever would follow.
\<close>

definition candidate_digest :: "reader option \<Rightarrow> int \<Rightarrow> string op" where [run_defs]:
  "candidate_digest candidate maxSize = (case candidate of
     None \<Rightarrow> fail (ErrBadRequest ''Missing verification candidate stream'')
   | Some r \<Rightarrow> (let limit = (if maxSize \<le> 0 then 52428800 else maxSize) in
       if limit < int (length (content r)) then
         fail (ErrRequestEntityTooLarge ''Verification candidate exceeds maximum allowable size'')
       else if rd_error r \<noteq> None then fail (ErrBadRequest ''Failed to read candidate file stream'')
       else get_world (\<lambda>w. hex_encode (lib_sha256 (w_lib w) (content r)))))"

definition stored_digest :: "document_row \<Rightarrow> string op" where [run_defs]:
  "stored_digest doc = tryE (recomputeDocumentHash doc)
     (\<lambda>_. fail (ErrServiceUnavailable ''The document could not be retrieved for verification''))
     (\<lambda>h. ret (hex_encode h))"

section \<open>Anchor and ledger\<close>

text \<open>
  The latest anchor, through a variable the transaction's body assigns: what the body has read
  stays assigned when the transaction fails after it, and every error is only logged.
\<close>

definition latestAnchor :: "app_identity \<Rightarrow> uuid \<Rightarrow> anchor_row option op" where [run_defs]:
  "latestAnchor ident documentID w =
     (let opened = bindE (begin_tx ident) (\<lambda>_. bindE (infra (ret ())) (\<lambda>_. bindE (infra (ret ())) (\<lambda>_.
            q_GetLatestBlockchainAnchorByDocumentID documentID)));
          body = tryE (q_GetLatestBlockchainAnchorByDocumentID documentID)
            (\<lambda>e. if is_no_rows e then ret () else fail e) (\<lambda>_. ret ()) in
      (Inr (case fst (opened w) of Inr a \<Rightarrow> Some a | Inl e \<Rightarrow> None), snd (WithTx ident body w)))"

record ledger_view =
  lv_status :: string
  lv_hash :: "string option"
  lv_tx :: "string option"
  lv_at :: "time option"
  lv_org :: "string option"

definition no_ledger_view :: "string \<Rightarrow> ledger_view" where [run_defs]:
  "no_ledger_view status = \<lparr>lv_status = status, lv_hash = None, lv_tx = None, lv_at = None, lv_org = None\<rparr>"

definition seen_on_ledger :: "string \<Rightarrow> VerifyResult \<Rightarrow> ledger_view" where [run_defs]:
  "seen_on_ledger status r = \<lparr>lv_status = status, lv_hash = Some (vs_OnChainHash r),
     lv_tx = Some (vs_TransactionID r), lv_at = Some (vs_AnchoredAt r), lv_org = Some (vs_Organization r)\<rparr>"

definition ledger_verdict :: "VerifyResult \<Rightarrow> gerr option \<Rightarrow> ledger_view" where [run_defs]:
  "ledger_verdict r err = (case err of None \<Rightarrow> seen_on_ledger ''MATCH'' r
   | Some e \<Rightarrow>
       if wraps e ErrUnavailable then no_ledger_view ''BLOCKCHAIN_UNAVAILABLE''
       else if wraps e ErrNotFoundOnLedger then no_ledger_view ''BLOCKCHAIN_NOT_ANCHORED''
       else if wraps e ErrIntegrityMismatch then seen_on_ledger ''BLOCKCHAIN_MISMATCH'' r
       else no_ledger_view ''BLOCKCHAIN_UNAVAILABLE'')"

definition ask_ledger :: "AnchorService \<Rightarrow> uuid \<Rightarrow> string \<Rightarrow> anchor_row option \<Rightarrow> ledger_view op" where [run_defs]:
  "ask_ledger sv documentID storedHex anchor =
     (if \<not> bc_IsEnabled (as_blockchain sv) then ret (no_ledger_view ''BLOCKCHAIN_UNAVAILABLE'')
      else case anchor of None \<Rightarrow> ret (no_ledger_view ''BLOCKCHAIN_NOT_ANCHORED'')
      | Some a \<Rightarrow> if b_status a \<noteq> ''CONFIRMED'' then ret (no_ledger_view ''BLOCKCHAIN_NOT_ANCHORED'')
          else bindE (bc_VerifyEvidence (as_blockchain sv) \<lparr>vq_EvidenceID = documentID,
              vq_Version = b_document_version a, vq_Hash = storedHex\<rparr>)
            (\<lambda>(r, err). ret (ledger_verdict r err)))"

section \<open>The verdict\<close>

definition final_status :: "bool \<Rightarrow> bool \<Rightarrow> string \<Rightarrow> string" where [run_defs]:
  "final_status databaseMatch isStored blockchainStatus =
     (if \<not> databaseMatch then (if isStored then ''HASH_MISMATCH'' else ''INTEGRITY_FAILURE'')
      else if blockchainStatus = ''BLOCKCHAIN_MISMATCH'' then ''BLOCKCHAIN_MISMATCH''
      else ''VERIFIED'')"

definition verdict_details :: "bool \<Rightarrow> bool \<Rightarrow> string \<Rightarrow> string" where [run_defs]:
  "verdict_details databaseMatch blockchainMatch blockchainStatus =
     (if \<not> databaseMatch then
        (if blockchainMatch
         then ''Evidence modification detected in database record. Submitted file matches Hyperledger Fabric anchor.''
         else ''The submitted file differs from the cryptographic fingerprint recorded when the evidence was registered.'')
      else if blockchainStatus = ''BLOCKCHAIN_MISMATCH'' then ''The ledger record differs from the database fingerprint.''
      else if blockchainStatus = ''BLOCKCHAIN_UNAVAILABLE''
        then ''Evidence integrity confirmed against PostgreSQL database hash. Blockchain verification is currently unavailable.''
      else if blockchainStatus = ''BLOCKCHAIN_NOT_ANCHORED''
        then ''Evidence integrity confirmed against PostgreSQL database hash. Document is not anchored on blockchain.''
      else ''Evidence integrity confirmed. All cryptographic proofs match (Database and Blockchain).'')"

definition verdict_event ::
    "authenticated_user \<Rightarrow> document_row \<Rightarrow> uuid \<Rightarrow> string \<Rightarrow> string \<Rightarrow> string \<Rightarrow> string \<Rightarrow> ledger_view \<Rightarrow> event" where [run_defs]:
  "verdict_event user doc documentID source status storedHex computedHex v =
     (let ev = (\<lambda>act meta. \<lparr>ev_action = act, ev_resource_type = ''document'', ev_resource_id = Some documentID,
        ev_user_id = Some (au_ID user), ev_role = effectiveCaseRole user, ev_case_id = Some (d_case_id doc),
        ev_metadata = JObj meta\<rparr>) in
      if status = ''INTEGRITY_FAILURE'' \<or> status = ''HASH_MISMATCH'' then
        ev ''DOCUMENT_INTEGRITY_FAILURE'' [(''expected_hash'', JStr storedHex), (''actual_hash'', JStr computedHex),
          (''source'', JStr source), (''result'', JStr status)]
      else if status = ''BLOCKCHAIN_MISMATCH'' then
        ev ''BLOCKCHAIN_INTEGRITY_FAILURE'' [(''expected_hash'', JStr storedHex),
          (''chain_hash'', case lv_hash v of None \<Rightarrow> JNull | Some h \<Rightarrow> JStr h),
          (''source'', JStr source), (''result'', JStr ''BLOCKCHAIN_MISMATCH'')]
      else ev ''BLOCKCHAIN_VERIFICATION_COMPLETED'' [(''result'', JStr status), (''source'', JStr source),
          (''blockchain_status'', JStr (lv_status v))])"

definition verdict ::
    "AnchorService \<Rightarrow> document_row \<Rightarrow> uuid \<Rightarrow> bool \<Rightarrow> string \<Rightarrow> time \<Rightarrow> anchor_row option \<Rightarrow> ledger_view \<Rightarrow> BlockchainVerifyResult" where [run_defs]:
  "verdict sv doc documentID isStored computedHex verifiedAt anchor v =
     (let storedHex = HashToHex (d_sha256_hash doc); databaseMatch = (computedHex = storedHex);
          blockchainMatch = (lv_hash v = Some computedHex) in
      \<lparr>bv_Status = final_status databaseMatch isStored (lv_status v), bv_DocumentID = documentID,
       bv_Version = (case anchor of None \<Rightarrow> 1 | Some a \<Rightarrow> b_document_version a),
       bv_ExpectedHash = storedHex, bv_ActualHash = computedHex, bv_BlockchainHash = lv_hash v,
       bv_DatabaseMatch = databaseMatch, bv_BlockchainMatch = blockchainMatch,
       bv_BlockchainStatus = lv_status v, bv_FileHash = computedHex, bv_StoredHash = storedHex,
       bv_ChainHash = lv_hash v, bv_TransactionID = lv_tx v, bv_AnchoredAt = lv_at v, bv_Organization = lv_org v,
       bv_BlockchainEnabled = bc_IsEnabled (as_blockchain sv), bv_VerifiedAt = verifiedAt,
       bv_Source = (if isStored then ''stored'' else ''candidate''),
       bv_Details = verdict_details databaseMatch blockchainMatch (lv_status v)\<rparr>)"

section \<open>VerifyCandidate\<close>

definition verification_requested :: "authenticated_user \<Rightarrow> document_row \<Rightarrow> uuid \<Rightarrow> bool \<Rightarrow> string \<Rightarrow> event" where [run_defs]:
  "verification_requested user doc documentID isStored filename =
     \<lparr>ev_action = ''DOCUMENT_VERIFICATION_REQUESTED'', ev_resource_type = ''document'',
      ev_resource_id = Some documentID, ev_user_id = Some (au_ID user), ev_role = effectiveCaseRole user,
      ev_case_id = Some (d_case_id doc), ev_metadata = JObj
        [(''source'', JStr (if isStored then ''stored'' else ''candidate'')), (''filename'', JStr filename)]\<rparr>"

text \<open>From the digest of the file at hand to the answer.\<close>

definition compare_digest ::
    "AnchorService \<Rightarrow> authenticated_user \<Rightarrow> document_row \<Rightarrow> uuid \<Rightarrow> bool \<Rightarrow> time \<Rightarrow> string \<Rightarrow> BlockchainVerifyResult op" where [run_defs]:
  "compare_digest sv user doc documentID isStored verifiedAt computedHex =
     (let storedHex = HashToHex (d_sha256_hash doc) in
      bindE (if isStored then ignoring (reconcileTamperStatus (case_ident user) doc (computedHex = storedHex)) (ret ())
        else ret ()) (\<lambda>_.
      bindE (latestAnchor (case_ident user) documentID) (\<lambda>anchor.
      bindE (ask_ledger sv documentID storedHex anchor) (\<lambda>v.
      let res = verdict sv doc documentID isStored computedHex verifiedAt anchor v in
      bindE (Record (verdict_event user doc documentID (bv_Source res) (bv_Status res) storedHex computedHex v)) (\<lambda>_.
      ret res)))))"

definition VerifyCandidate ::
    "AnchorService \<Rightarrow> authenticated_user \<Rightarrow> uuid \<Rightarrow> reader option \<Rightarrow> int \<Rightarrow> string \<Rightarrow> bool \<Rightarrow> BlockchainVerifyResult op" where [run_defs]:
  "VerifyCandidate sv user documentID candidate maxSize filename isStored =
     need_access CanAccessDocument user documentID ''document:verify'' (
     load_document user documentID (\<lambda>doc.
     bindE (Record (verification_requested user doc documentID isStored filename)) (\<lambda>_.
     bindE time_now (\<lambda>verifiedAt.
     bindE (if isStored then stored_digest doc else candidate_digest candidate maxSize)
       (compare_digest sv user doc documentID isStored verifiedAt)))))"

definition VerifyDocumentBlockchain :: "AnchorService \<Rightarrow> authenticated_user \<Rightarrow> uuid \<Rightarrow> BlockchainVerifyResult op" where [run_defs]:
  "VerifyDocumentBlockchain sv user documentID =
     bindE (VerifyCandidate sv user documentID None 0 '''' True) (\<lambda>res. ret
       (if bv_DatabaseMatch res \<and> bv_BlockchainStatus res \<in> {''BLOCKCHAIN_UNAVAILABLE'', ''BLOCKCHAIN_NOT_ANCHORED''}
        then res\<lparr>bv_Status := bv_BlockchainStatus res\<rparr> else res))"

definition IsBlockchainEnabled :: "AnchorService \<Rightarrow> bool" where [run_defs]:
  "IsBlockchainEnabled sv = bc_IsEnabled (as_blockchain sv)"

section \<open>The job's error handler\<close>

definition isRetriesExhausted :: "int \<Rightarrow> int \<Rightarrow> gerr \<Rightarrow> bool" where [run_defs]:
  "isRetriesExhausted retried maxRetry e \<longleftrightarrow> err_is e (StdErr ''skip retry for the task'') \<or> maxRetry \<le> retried"

text \<open>After a failed attempt of an anchoring task; the handler's own failure is ignored.\<close>

definition anchor_error_handler :: "uuid \<Rightarrow> int \<Rightarrow> int \<Rightarrow> gerr \<Rightarrow> unit op" where [run_defs]:
  "anchor_error_handler anchorID retried maxRetry e =
     (if \<not> isRetriesExhausted retried maxRetry e then ret ()
      else ignoring (MarkAnchorOperationallyFailed anchorID (Some e)) (ret ()))"

end
