(* ===== verification/DocumentFacts.thy ===== *)
theory DocumentFacts
  imports DocumentService ServiceLogic Untouched
begin

text \<open>
  What the document operations do to the tables, the stored objects and the ledger: lemmas
  about the guards they share, the object store and the status of a document.
\<close>

section \<open>Operations that leave everything of interest alone\<close>

definition undisturbed :: "world \<Rightarrow> world \<Rightarrow> bool" where
  "undisturbed w w' \<longleftrightarrow> tables w' = tables w \<and> w_objects w' = w_objects w \<and> w_ledger w' = w_ledger w \<and>
     params_same w w'"

lemma undisturbed_refl [simp]: "undisturbed w w"
  by (simp add: undisturbed_def params_same_def)

lemma undisturbed_trans [trans]: "undisturbed w w' \<Longrightarrow> undisturbed w' w'' \<Longrightarrow> undisturbed w w''"
  by (simp add: undisturbed_def params_same_def)

definition calm :: "'a op \<Rightarrow> bool" where
  "calm m \<longleftrightarrow> audit_frame.guar m \<and> objects.kept m \<and> ledger.kept m \<and> param.guar m"

lemma calmI: "audit_frame.guar m \<Longrightarrow> objects.kept m \<Longrightarrow> ledger.kept m \<Longrightarrow> param.guar m \<Longrightarrow> calm m"
  by (simp add: calm_def)

lemma calmD:
  assumes "calm m" "m w = (r, w')" shows "undisturbed w w'"
proof -
  have m: "audit_frame.guar m" "objects.kept m" "ledger.kept m" "param.guar m"
    using assms(1) by (simp_all add: calm_def)
  show ?thesis
    using frame_tables [OF m(1) assms(2)] objects.keptD [OF m(2) assms(2)] ledger.keptD [OF m(3) assms(2)]
      param.guarD [OF m(4), of w] assms(2) by (simp add: undisturbed_def)
qed

lemma undisturbedD:
  assumes "undisturbed w w'"
  shows "tables w' = tables w" "w_objects w' = w_objects w" "w_ledger w' = w_ledger w" "w_lib w' = w_lib w"
  using assms by (simp_all add: undisturbed_def params_same_def)

lemma param_reader: "reader.guar m \<Longrightarrow> param.guar m"
  using reader.guarD [of m] by (auto simp: param.guar_def reads_only_def)

lemma param_exec [intro!]: "param.guar (exec q)"
  by (rule param.guar_exec) (simp add: params_same_def)

lemma param_exec_new [intro!]: "param.guar (exec_new q)"
  by (rule param.guar_exec_new) (simp add: params_same_def)

lemma param_gates [intro!]: "param.guar (CanAccessDocument u i a)" "param.guar (CanAccessCase u i a)"
proof -
  have d: "param.guar (deny_recorded u a rt i c wh r)" for u a rt i c wh r
    unfolding deny_recorded_def recordDenied_def by auto
  show "param.guar (CanAccessDocument u i a)" "param.guar (CanAccessCase u i a)"
    unfolding CanAccessDocument_def CanAccessCase_def
    by (auto intro!: d authz_readers [THEN param_reader])
qed

lemma calm_reader: "reader.guar m \<Longrightarrow> objects.kept m \<Longrightarrow> ledger.kept m \<Longrightarrow> calm m"
  by (simp add: calmI frame_reader param_reader)

lemma calm_events: "calm (Record ev)" "calm (publish a b c d)"
  by (auto intro!: calmI)

lemma calm_gates: "calm (CanAccessDocument u i a)" "calm (CanAccessCase u i a)"
  by (auto intro!: calmI)

lemmas Record_undisturbed = calmD [OF calm_events(1)]
lemmas publish_undisturbed = calmD [OF calm_events(2)]

section \<open>The guards\<close>

lemma document_gate_run:
  assumes "need_access CanAccessDocument user i act k w = (Inr x, w')" "au_ID user \<noteq> nil_uuid"
  shows "\<exists>w1. k w1 = (Inr x, w') \<and> undisturbed w w1 \<and> document_access w user i act"
proof -
  from assms(1) obtain dec w1 where d: "CanAccessDocument user i act w = (Inr dec, w1)" and
    k: "Allowed dec" "k w1 = (Inr x, w')"
    by (auto simp: need_access_def tryE_Inr fail_run ensure_run split: if_splits)
  show ?thesis using calmD [OF calm_gates(1) d] CanAccessDocument_run [OF d] k assms(2) by blast
qed

lemma case_gate_run:
  assumes "need_access CanAccessCase user i act k w = (Inr x, w')" "au_ID user \<noteq> nil_uuid"
  shows "\<exists>w1. k w1 = (Inr x, w') \<and> undisturbed w w1 \<and> case_access (w_db w) user i act"
proof -
  from assms(1) obtain dec w1 where d: "CanAccessCase user i act w = (Inr dec, w1)" and
    k: "Allowed dec" "k w1 = (Inr x, w')"
    by (auto simp: need_access_def tryE_Inr fail_run ensure_run split: if_splits)
  show ?thesis using calmD [OF calm_gates(2) d] CanAccessCase_run [OF d] k assms(2) by blast
qed

lemma load_document_run:
  assumes "load_document user i k w = (Inr x, w')"
  shows "\<exists>doc w1. doc \<in> set (t_documents (w_db w)) \<and> d_id doc = i \<and> k doc w1 = (Inr x, w') \<and> undisturbed w w1"
proof -
  from assms obtain doc w1 where q: "WithTx (case_ident user) (q_GetDocumentByID i) w = (Inr doc, w1)" and
    k: "k doc w1 = (Inr x, w')"
    by (auto simp: load_document_def tryE_Inr no_rows_as_def fail_run split: if_splits)
  have "doc \<in> set (t_documents (w_db w))" "d_id doc = i"
    using q by (auto simp: WithTx_run q_GetDocumentByID_def query_run visible_documents_def filter_eq_Cons_iff)
  moreover have "calm (WithTx (case_ident user) (q_GetDocumentByID i))"
    by (rule calm_reader) (auto simp: q_GetDocumentByID_def)
  then have "undisturbed w w1" using q by (rule calmD)
  ultimately show ?thesis using k by blast
qed

section \<open>The object store\<close>

lemma storage_error_run: "storage_error verb key e w = (Inr x, w') \<longleftrightarrow> False"
  by (simp add: storage_error_def tryE_Inr get_world_run fail_run)

lemma storage_get_run:
  assumes "storage_get key w = (Inr b, w')" shows "w_objects w key = Some b"
proof -
  from assms obtain found w1 where f: "infra (get_world (\<lambda>w. w_objects w key)) w = (Inr found, w1)"
    and k: "(case found of None \<Rightarrow> fail ErrObjectNotFound | Some b \<Rightarrow> ret b) w1 = (Inr b, w')"
    unfolding storage_get_def tryE_Inr storage_error_run by blast
  have "found = w_objects w key" using f by (simp add: infra_run get_world_run split: option.splits)
  then show ?thesis using k by (cases "w_objects w key") (simp_all add: ret_run fail_run)
qed

lemma storage_get_reader [intro!]: "reader.guar (storage_get key)" "objects.kept (storage_get key)"
    "ledger.kept (storage_get key)"
  unfolding storage_get_def storage_error_def by auto

lemma recompute_args [intro!]: "reader.guar (recomputeDocumentHash doc)" "objects.kept (recomputeDocumentHash doc)"
    "ledger.kept (recomputeDocumentHash doc)"
  unfolding recomputeDocumentHash_def by auto

lemma recompute_run:
  assumes "recomputeDocumentHash doc w = (Inr h, w')"
  shows "\<exists>b. w_objects w (d_storage_object_key doc) = Some b \<and> h = lib_sha256 (w_lib w) b"
proof -
  from assms obtain b w1 w2 where g: "storage_get (d_storage_object_key doc) w = (Inr b, w1)"
    and f: "infra (ret ()) w1 = (Inr (), w2)" and h: "h = lib_sha256 (w_lib w2) b"
    by (auto simp: recomputeDocumentHash_def tryE_Inr fail_run get_world_run)
  have "calm (storage_get (d_storage_object_key doc))" by (rule calm_reader) auto
  then have "undisturbed w w1" using g by (rule calmD)
  moreover have "w_lib w2 = w_lib w1" using f by (auto simp: infra_run ret_run split: option.splits)
  ultimately show ?thesis using storage_get_run [OF g] h undisturbedD(4) by auto
qed

section \<open>The status of a document\<close>

definition status_only :: "uuid \<Rightarrow> world \<Rightarrow> world \<Rightarrow> bool" where
  "status_only i w w' \<longleftrightarrow> (\<exists>ds. tables w' = (tables w)\<lparr>t_documents := ds\<rparr> \<and>
     list_all2 (\<lambda>d d'. d' = d \<or> d_id d = i \<and> (\<exists>s t. d' = d\<lparr>d_status := s, d_updated_at := t\<rparr>)) (t_documents (w_db w)) ds)"

lemma status_only_refl: "tables w' = tables w \<Longrightarrow> status_only i w w'"
  unfolding status_only_def by (rule exI [of _ "t_documents (w_db w)"]) (simp add: list_all2_same flip: tables_sel)

lemma UpdateDocumentStatus_run:
  assumes "q_UpdateDocumentStatus i s w = (Inr x, w')" shows "status_only i w w'"
proof -
  let ?p = "\<lambda>r. d_id r = i \<and> documents_select (w_db w) (w_tx_now w) (w_ctx w) r \<and> documents_update (w_db w) (w_ctx w) r"
  let ?ds = "update_where ?p (\<lambda>r. r\<lparr>d_status := s, d_updated_at := w_tx_now w\<rparr>) (t_documents (w_db w))"
  have "w_db w' = (w_db w)\<lparr>t_documents := ?ds\<rparr>"
    using assms by (auto simp: q_UpdateDocumentStatus_def exec_run Let_def split: if_splits)
  then have "tables w' = (tables w)\<lparr>t_documents := ?ds\<rparr>" by (simp add: tables_def)
  moreover have "list_all2 (\<lambda>d d'. d' = d \<or> d_id d = i \<and> (\<exists>s t. d' = d\<lparr>d_status := s, d_updated_at := t\<rparr>))
      (t_documents (w_db w)) ?ds"
    by (auto simp: update_where_def list_all2_map2 list_all2_same)
  ultimately show ?thesis unfolding status_only_def by blast
qed

lemma reconcile_run:
  assumes "reconcileTamperStatus ident doc b w = (r, w')"
  shows "status_only (d_id doc) w w' \<and> w_objects w' = w_objects w \<and> w_ledger w' = w_ledger w \<and> params_same w w'"
proof -
  have "objects.kept (reconcileTamperStatus ident doc b)" "ledger.kept (reconcileTamperStatus ident doc b)"
    "param.guar (reconcileTamperStatus ident doc b)"
    unfolding reconcileTamperStatus_def q_UpdateDocumentStatus_def by auto
  moreover have "status_only (d_id doc) w w'"
  proof (cases "want_status doc b")
    case None
    then show ?thesis using assms by (auto simp: reconcileTamperStatus_def ret_run intro: status_only_refl)
  next
    case (Some s)
    then have tx: "WithTx ident (q_UpdateDocumentStatus (d_id doc) s) w = (r, w')"
      using assms by (simp add: reconcileTamperStatus_def)
    show ?thesis
    proof (cases r)
      case (Inl e)
      then show ?thesis using tx by (intro status_only_refl) (blast dest: WithTx_tables)
    next
      case (Inr x)
      then obtain w2 where "q_UpdateDocumentStatus (d_id doc) s (started ident w) = (Inr x, w2)" "w_db w' = w_db w2"
        using tx by (auto simp: WithTx_run end_tx_def)
      then show ?thesis
        using UpdateDocumentStatus_run by (fastforce simp: status_only_def tables_def)
    qed
  qed
  ultimately show ?thesis
    using objects.keptD [of "reconcileTamperStatus ident doc b" w r w'] ledger.keptD [of "reconcileTamperStatus ident doc b" w r w']
      param.guarD [of "reconcileTamperStatus ident doc b" w] assms by simp
qed

end
