(* ===== verification/AnchorFacts.thy ===== *)
theory AnchorFacts
  imports FabricFacts CandidateVerification DocumentFacts
begin

text \<open>
  The anchors' table as a state machine: which steps the statements of the service make, that
  a row never leaves a final state, and that a confirmed row is on the ledger.
\<close>

section \<open>The machine\<close>

abbreviation anchors :: "world \<Rightarrow> anchor_row list" where
  "anchors w \<equiv> t_anchors (w_db w)"

definition pending :: "anchor_row \<Rightarrow> bool" where
  "pending a \<longleftrightarrow> b_status a = ''PENDING''"

definition constraints_hold :: "anchor_row \<Rightarrow> bool" where
  "constraints_hold a \<longleftrightarrow> list_all fst (anchor_valid a)"

definition same_evidence :: "anchor_row \<Rightarrow> anchor_row \<Rightarrow> bool" where
  "same_evidence a a' \<longleftrightarrow> b_id a' = b_id a \<and> b_document_id a' = b_document_id a \<and>
     b_document_version a' = b_document_version a \<and> b_document_hash a' = b_document_hash a \<and>
     b_event_type a' = b_event_type a"

text \<open>
  A table step appends a pending row with a fresh identifier, or rewrites the one pending row
  with an identifier; only the rows whose identifier satisfies the parameter may be confirmed.
\<close>

inductive anchors_step :: "(uuid \<Rightarrow> bool) \<Rightarrow> anchor_row list \<Rightarrow> anchor_row list \<Rightarrow> bool" for conf where
  created: "pending a \<Longrightarrow> constraints_hold a \<Longrightarrow> version_ok (b_document_version a) \<Longrightarrow> b_id a \<notin> b_id ` set as \<Longrightarrow>
     \<not> conf (b_id a) \<Longrightarrow> anchors_step conf as (as @ [a])"
| rewritten: "filter p as = a # rest \<Longrightarrow> (\<And>x. p x \<Longrightarrow> pending x \<and> b_id x = b_id a) \<Longrightarrow> (\<And>x. same_evidence x (f x)) \<Longrightarrow>
     constraints_hold (f a) \<Longrightarrow> (b_status (f a) = ''CONFIRMED'' \<Longrightarrow> conf (b_id a)) \<Longrightarrow>
     anchors_step conf as (update_where p f as)"

definition table_runs :: "(uuid \<Rightarrow> bool) \<Rightarrow> world \<Rightarrow> world \<Rightarrow> bool" where
  "table_runs conf w w' \<longleftrightarrow> (anchors_step conf)\<^sup>*\<^sup>* (anchors w) (anchors w')"

interpretation machine: guarantee "table_runs conf" for conf
  by unfold_locales (auto simp: table_runs_def)

lemma machine_frame: "audit_frame.guar m \<Longrightarrow> machine.guar conf m"
  by (rule machine.guarI) (metis audit_frame.guarD only_audit_tables tables_eqD(13) table_runs_def rtranclp.rtrancl_refl)

lemma machine_reader: "reader.guar m \<Longrightarrow> machine.guar conf m"
  by (rule machine_frame) (rule frame_reader)

section \<open>What the steps preserve\<close>

lemma step_ids:
  assumes "anchors_step conf as as'" "distinct (map b_id as)" shows "distinct (map b_id as')"
  using assms
proof (cases rule: anchors_step.cases)
  case (rewritten p a rest f)
  then have "map b_id as' = map b_id as"
    by (auto simp: same_evidence_def intro: map_update_where)
  with assms(2) show ?thesis by simp
qed auto

text \<open>Final rows stay as they are; a row keeps its evidence; new rows come at the end.\<close>

definition row_moves :: "anchor_row \<Rightarrow> anchor_row \<Rightarrow> bool" where
  "row_moves a a' \<longleftrightarrow> same_evidence a a' \<and> (\<not> pending a \<longrightarrow> a' = a)"

definition table_moves :: "anchor_row list \<Rightarrow> anchor_row list \<Rightarrow> bool" where
  "table_moves as as' \<longleftrightarrow> (\<exists>xs ys. as' = xs @ ys \<and> list_all2 row_moves as xs)"

lemma row_moves_refl: "row_moves a a"
  by (simp add: row_moves_def same_evidence_def)

lemma row_moves_trans: "row_moves a b \<Longrightarrow> row_moves b c \<Longrightarrow> row_moves a c"
  by (auto simp: row_moves_def same_evidence_def)

lemma table_moves_refl: "table_moves as as"
  unfolding table_moves_def
  by (rule exI [of _ as], rule exI [of _ "[]"]) (simp add: list_all2_refl row_moves_refl)

lemma table_moves_trans: "table_moves as bs \<Longrightarrow> table_moves bs cs \<Longrightarrow> table_moves as cs"
proof -
  assume "table_moves as bs" "table_moves bs cs"
  then obtain xs ys us vs where bs: "bs = xs @ ys" "list_all2 row_moves as xs"
    and cs: "cs = us @ vs" "list_all2 row_moves bs us" by (auto simp: table_moves_def)
  from cs(2) bs(1) obtain us1 us2 where us: "us = us1 @ us2" "list_all2 row_moves xs us1"
    by (auto simp: list_all2_append1)
  have "list_all2 row_moves as us1"
    by (rule list_all2_trans [OF _ bs(2) us(2)]) (rule row_moves_trans)
  then show ?thesis using us(1) cs(1) by (auto simp: table_moves_def)
qed

lemma step_moves: "anchors_step conf as as' \<Longrightarrow> table_moves as as'"
proof (erule anchors_step.cases)
  fix a xs
  assume "as = xs" "as' = xs @ [a]"
  then show "table_moves as as'"
    unfolding table_moves_def by (intro exI conjI) (auto intro: list_all2_refl row_moves_refl)
next
  fix p xs a rest f
  assume xs: "as = xs" "as' = update_where p f xs" and p: "\<And>x. p x \<Longrightarrow> pending x \<and> b_id x = b_id a"
    and f: "\<And>x. same_evidence x (f x)"
  have "row_moves x (if p x then f x else x)" for x
    using p [of x] f [of x] by (auto simp: row_moves_def same_evidence_def)
  then have "list_all2 row_moves as as'"
    by (simp add: xs update_where_def list_all2_map2 list_all2_same)
  then show "table_moves as as'"
    unfolding table_moves_def by (metis append_Nil2)
qed

lemma steps_move: "(anchors_step conf)\<^sup>*\<^sup>* as as' \<Longrightarrow> table_moves as as'"
  by (induction rule: rtranclp_induct) (auto intro: table_moves_refl table_moves_trans dest: step_moves)

section \<open>Confirmed rows are on the ledger\<close>

definition on_ledger :: "world \<Rightarrow> anchor_row \<Rightarrow> bool" where
  "on_ledger w a \<longleftrightarrow> (\<exists>r. ledger_at w (b_document_id a) (b_document_version a) = Some r \<and>
     er_Hash r = HashToHex (b_document_hash a))"

definition row_good :: "world \<Rightarrow> anchor_row \<Rightarrow> bool" where
  "row_good w a \<longleftrightarrow> version_ok (b_document_version a) \<and> constraints_hold a \<and>
     (b_status a = ''CONFIRMED'' \<longrightarrow> on_ledger w a)"

definition anchored :: "world \<Rightarrow> bool" where
  "anchored w \<longleftrightarrow> fabric_laws (w_lib w) \<and> ledger_good w \<and> distinct (map b_id (anchors w)) \<and>
     (\<forall>a\<in>set (anchors w). row_good w a)"

lemma on_ledger_same: "same_evidence a a' \<Longrightarrow> on_ledger w a' = on_ledger w a"
  by (simp add: on_ledger_def same_evidence_def)

lemma row_good_grows: "ledger_grows w w' \<Longrightarrow> row_good w a \<Longrightarrow> row_good w' a"
  by (auto simp: row_good_def on_ledger_def ledger_grows_def ledger_at_def map_le_def dom_def)

lemma anchored_grows:
  "anchored w \<Longrightarrow> ledger_grows w w' \<Longrightarrow> anchors w' = anchors w \<Longrightarrow> anchored w'"
  using row_good_grows by (fastforce simp: anchored_def ledger_grows_def)

lemma step_good:
  assumes "anchors_step conf as as'" "distinct (map b_id as)" "\<forall>a\<in>set as. row_good w a"
    and conf: "\<forall>a\<in>set as. conf (b_id a) \<longrightarrow> on_ledger w a"
  shows "(\<forall>a\<in>set as'. row_good w a) \<and> (\<forall>a\<in>set as'. conf (b_id a) \<longrightarrow> on_ledger w a)"
  using assms(1)
proof (cases rule: anchors_step.cases)
  case (created a)
  then show ?thesis using assms by (auto simp: row_good_def pending_def)
next
  case (rewritten p a rest f)
  have a: "a \<in> set as" "p a" using rewritten(2) by (auto simp: filter_eq_Cons_iff)
  have only: "x = a" if "x \<in> set as" "p x" for x
    using that a rewritten(3) assms(2) by (metis distinct_map inj_onD)
  have "row_good w (f a)"
    using assms(3) a conf rewritten(4,5,6) on_ledger_same [of a "f a" w]
    by (auto simp: row_good_def same_evidence_def)
  moreover have "on_ledger w (f x) = on_ledger w x" "b_id (f x) = b_id x" for x
    using rewritten(4) [of x] on_ledger_same [of x "f x" w] by (simp_all add: same_evidence_def)
  ultimately show ?thesis
    using assms(3) conf only unfolding rewritten(1) update_where_set by auto
qed

lemma runs_good:
  assumes "(anchors_step conf)\<^sup>*\<^sup>* as as'" "distinct (map b_id as)" "\<forall>a\<in>set as. row_good w a"
    and "\<forall>a\<in>set as. conf (b_id a) \<longrightarrow> on_ledger w a"
  shows "distinct (map b_id as') \<and> (\<forall>a\<in>set as'. row_good w a) \<and> (\<forall>a\<in>set as'. conf (b_id a) \<longrightarrow> on_ledger w a)"
  using assms
proof (induction rule: rtranclp_induct)
  case (step bs cs)
  then show ?case using step_good [OF step(2)] step_ids [OF step(2)] by blast
qed auto

lemma anchored_runs:
  assumes "anchored w" "table_runs conf w w'" "w_ledger w' = w_ledger w" "w_lib w' = w_lib w"
    and "\<forall>a\<in>set (anchors w). conf (b_id a) \<longrightarrow> on_ledger w a"
  shows "anchored w'"
proof -
  have "ledger_at w' = ledger_at w" "ledger_good w' = ledger_good w"
    using ledger_map_cong [OF assms(3,4)] ledger_good_cong [OF assms(3,4)] by (simp_all add: ledger_at_def fun_eq_iff)
  then have "row_good w' a = row_good w a" for a by (simp add: row_good_def on_ledger_def)
  then show ?thesis
    using runs_good [of conf "anchors w" "anchors w'" w] assms \<open>ledger_good w' = _\<close>
    by (simp add: anchored_def table_runs_def)
qed

section \<open>The statements are steps of the machine\<close>

lemma constraints_checked: "(\<forall>(ok, e)\<in>set (anchor_valid a). ok) = constraints_hold a"
  by (auto simp: constraints_hold_def list_all_iff)

lemma machine_create: "machine.guar conf (q_CreateBlockchainAnchor did 1 ev h ch cc org)"
  if "\<And>i. \<not> conf i"
  unfolding q_CreateBlockchainAnchor_def
proof (rule machine.guar_exec_new)
  fix i x d and w :: world
  let ?a = "\<lparr>b_id = i, b_document_id = did, b_document_version = 1, b_event_type = ev,
       b_document_hash = h, b_status = ''PENDING'', b_fabric_tx_id = None, b_fabric_channel = ch,
       b_fabric_chaincode = cc, b_organization = org, b_last_error = None, b_retry_count = 0,
       b_created_at = w_tx_now w, b_confirmed_at = None, b_updated_at = w_tx_now w\<rparr>"
  assume "(let a = ?a in checked (anchors_checks (w_db w) (w_tx_now w) (w_ctx w) a)
     (a, (w_db w)\<lparr>t_anchors := t_anchors (w_db w) @ [a]\<rparr>)) = Inr (x, d)"
  then have d: "d = (w_db w)\<lparr>t_anchors := anchors w @ [?a]\<rparr>"
    and valid: "constraints_hold ?a" and fresh: "b_id ?a \<notin> b_id ` set (anchors w)"
    by (auto simp: Let_def anchors_checks_def simp flip: constraints_checked simp: list_ex_iff)
  have "anchors_step conf (anchors w) (anchors w @ [?a])"
    by (rule created) (use valid fresh that in \<open>simp_all add: pending_def version_ok_def\<close>)
  then show "table_runs conf w (w\<lparr>w_db := d\<rparr>)" by (simp add: table_runs_def d)
qed

lemma machine_update:
  assumes f: "\<And>now x. same_evidence x (f now x)"
    and conf: "\<And>now x. b_status (f now x) = ''CONFIRMED'' \<Longrightarrow> pending x \<Longrightarrow> conf i"
  shows "machine.guar conf (update_anchor i f)"
  unfolding update_anchor_def
proof (rule machine.guar_exec)
  fix x d and w :: world
  let ?p = "pending_anchor (w_db w) (w_tx_now w) (w_ctx w) i" and ?f = "f (w_tx_now w)"
  assume "(case filter ?p (anchors w) of [] \<Rightarrow> Inl ErrNoRows
     | a # _ \<Rightarrow> checked (anchor_valid (?f a)) (?f a, (w_db w)\<lparr>t_anchors := update_where ?p ?f (anchors w)\<rparr>)) = Inr (x, d)"
  then obtain a rest where a: "filter ?p (anchors w) = a # rest" "constraints_hold (?f a)"
    and d: "d = (w_db w)\<lparr>t_anchors := update_where ?p ?f (anchors w)\<rparr>"
    by (auto simp flip: constraints_checked split: list.splits)
  have p: "?p y \<Longrightarrow> pending y \<and> b_id y = i" for y by (simp add: pending_anchor_def pending_def)
  then have i: "b_id a = i" "pending a" using a(1) by (metis filter_eq_ConsD)+
  have "anchors_step conf (anchors w) (update_where ?p ?f (anchors w))"
    by (rule rewritten [OF a(1) _ f a(2)]) (use p i conf in auto)
  then show "table_runs conf w (w\<lparr>w_db := d\<rparr>)" by (simp add: table_runs_def d)
qed

lemma machine_statements:
  "machine.guar conf (q_FailBlockchainAnchor i err n)" "machine.guar conf (q_IncrementBlockchainAnchorRetry i err)"
  "conf i \<Longrightarrow> machine.guar conf (q_ConfirmBlockchainAnchor i tx org)"
proof -
  show "machine.guar conf (q_FailBlockchainAnchor i err n)"
    unfolding q_FailBlockchainAnchor_def
    by (rule machine_update) (simp_all add: same_evidence_def)
  show "conf i \<Longrightarrow> machine.guar conf (q_ConfirmBlockchainAnchor i tx org)"
    unfolding q_ConfirmBlockchainAnchor_def
    by (rule machine_update) (simp_all add: same_evidence_def)
  show "machine.guar conf (q_IncrementBlockchainAnchorRetry i err)"
    unfolding q_IncrementBlockchainAnchorRetry_def
    by (intro machine.guar_rules machine_update) (simp_all add: same_evidence_def pending_def)
qed

section \<open>The operations\<close>

lemma machine_gates [intro!]: "machine.guar conf (CanAccessCase u i a)" "machine.guar conf (CanAccessDocument u i a)"
    "machine.guar conf (Record ev)"
  by (rule machine_frame; blast)+

lemma reader_anchor_queries [intro!]: "reader.guar (q_GetBlockchainAnchorByID i)"
    "reader.guar (q_GetLatestBlockchainAnchorByDocumentID i)" "reader.guar (q_ListBlockchainAnchorsByDocumentID i)"
    "reader.guar (q_GetDocumentByID i)"
  unfolding q_GetBlockchainAnchorByID_def q_GetLatestBlockchainAnchorByDocumentID_def
    q_ListBlockchainAnchorsByDocumentID_def q_GetDocumentByID_def by auto

lemma machine_enqueue [intro!]: "machine.guar conf (enqueue ty i)"
proof -
  have "machine.guar conf (infra (\<lambda>w. if (ty, i) \<in> set (w_jobs w)
       then (Inl (StdErr ''task ID conflicts with another task''), w)
       else (Inr (), w\<lparr>w_jobs := w_jobs w @ [(ty, i)]\<rparr>)))"
    by (rule machine.guar_infra) (auto simp: machine.guar_def table_runs_def)
  then show ?thesis unfolding enqueue_def by auto
qed

lemma machine_ops:
  "(\<And>i. \<not> conf i) \<Longrightarrow> machine.guar conf (CreateAnchorForDocument sv user did cid h ev)"
  "machine.guar conf (markFailed i msg n)" "machine.guar conf (incrementRetry i msg)"
  "machine.guar conf (MarkAnchorOperationallyFailed i c)"
  "conf i \<Longrightarrow> machine.guar conf (markConfirmed i tx org)"
  "machine.guar conf (anchor_error_handler i r mr e)"
  unfolding CreateAnchorForDocument_def EnqueueBlockchainAnchor_def markFailed_def incrementRetry_def
    MarkAnchorOperationallyFailed_def markConfirmed_def anchor_error_handler_def
  by (auto intro!: machine_create machine_statements)

lemma ledger_enqueue [intro!]: "ledger.kept (enqueue ty i)" "objects.kept (enqueue ty i)"
proof -
  have "ledger.kept (infra (\<lambda>w. if (ty, i) \<in> set (w_jobs w)
       then (Inl (StdErr ''task ID conflicts with another task''), w)
       else (Inr (), w\<lparr>w_jobs := w_jobs w @ [(ty, i)]\<rparr>)))"
    by (rule ledger.kept_infra) (auto simp: ledger.kept_def)
  then show "ledger.kept (enqueue ty i)" unfolding enqueue_def by auto
  have "objects.kept (infra (\<lambda>w. if (ty, i) \<in> set (w_jobs w)
       then (Inl (StdErr ''task ID conflicts with another task''), w)
       else (Inr (), w\<lparr>w_jobs := w_jobs w @ [(ty, i)]\<rparr>)))"
    by (rule objects.kept_infra) (auto simp: objects.kept_def)
  then show "objects.kept (enqueue ty i)" unfolding enqueue_def by auto
qed

lemma param_enqueue [intro!]: "param.guar (enqueue ty i)"
proof -
  have "param.guar (infra (\<lambda>w. if (ty, i) \<in> set (w_jobs w)
       then (Inl (StdErr ''task ID conflicts with another task''), w)
       else (Inr (), w\<lparr>w_jobs := w_jobs w @ [(ty, i)]\<rparr>)))"
    by (rule param.guar_infra) (auto simp: param.guar_def params_same_def)
  then show ?thesis unfolding enqueue_def by auto
qed

lemma ledger_anchor_ops [intro!]:
  "ledger.kept (CreateAnchorForDocument sv user did cid h ev)"
  "ledger.kept (markFailed i msg n)" "ledger.kept (incrementRetry i msg)"
  "ledger.kept (MarkAnchorOperationallyFailed i c)" "ledger.kept (markConfirmed i tx org)"
  "ledger.kept (anchor_error_handler i r mr e)"
  unfolding CreateAnchorForDocument_def EnqueueBlockchainAnchor_def markFailed_def incrementRetry_def
    MarkAnchorOperationallyFailed_def markConfirmed_def anchor_error_handler_def
    q_CreateBlockchainAnchor_def q_FailBlockchainAnchor_def q_IncrementBlockchainAnchorRetry_def
    q_ConfirmBlockchainAnchor_def update_anchor_def
  by auto

lemma param_anchor_ops [intro!]:
  "param.guar (CreateAnchorForDocument sv user did cid h ev)"
  "param.guar (markFailed i msg n)" "param.guar (incrementRetry i msg)"
  "param.guar (MarkAnchorOperationallyFailed i c)" "param.guar (markConfirmed i tx org)"
  "param.guar (anchor_error_handler i r mr e)"
  unfolding CreateAnchorForDocument_def EnqueueBlockchainAnchor_def markFailed_def incrementRetry_def
    MarkAnchorOperationallyFailed_def markConfirmed_def anchor_error_handler_def
    q_CreateBlockchainAnchor_def q_FailBlockchainAnchor_def q_IncrementBlockchainAnchorRetry_def
    q_ConfirmBlockchainAnchor_def update_anchor_def
  by auto

text \<open>An operation that confirms only what is on the ledger keeps the invariant.\<close>

lemma anchored_op:
  assumes "machine.guar conf m" "ledger.kept m" "param.guar m" "anchored w"
    and "\<forall>a\<in>set (anchors w). conf (b_id a) \<longrightarrow> on_ledger w a"
  shows "anchored (snd (m w))"
proof (rule anchored_runs [OF assms(4) _ _ _ assms(5)])
  show "table_runs conf w (snd (m w))" using assms(1) by (rule machine.guarD)
  show "w_ledger (snd (m w)) = w_ledger w" using assms(2) by (simp add: ledger.kept_def)
  show "w_lib (snd (m w)) = w_lib w" using param.guarD [OF assms(3), of w] by (simp add: params_same_def)
qed

lemma anchored_reader: "reader.guar m \<Longrightarrow> ledger.kept m \<Longrightarrow> anchored w \<Longrightarrow> anchored (snd (m w))"
  by (rule anchored_op [of "\<lambda>_. False"]) (auto intro: machine_reader param_reader)

lemma event_utf8: "constraints_hold a \<Longrightarrow> utf8_valid (b_event_type a)"
proof -
  assume "constraints_hold a"
  then have "b_event_type a \<in> {''DOCUMENT_UPLOADED'', ''DOCUMENT_REDACTED'', ''CERTIFICATE_ISSUED''}"
    by (simp add: constraints_hold_def anchor_valid_def)
  then show ?thesis by (auto intro!: utf8_ascii)
qed

context ledger_service
begin

lemma submit_anchored:
  assumes good: "anchored w" and a: "a \<in> set (anchors w)" and sv: "as_blockchain sv = svc" "utf8_valid (as_mspID sv)"
  shows "anchored (snd (submit_anchor sv a cid w))"
proof -
  let ?rq = "\<lparr>aq_EvidenceID = b_document_id a, aq_CaseReference = uuid_string cid,
    aq_Version = b_document_version a, aq_Hash = HashToHex (b_document_hash a), aq_EventType = b_event_type a,
    aq_ActorOrg = as_mspID sv, aq_AppRecordID = b_id a\<rparr>"
  obtain res w1 where run: "bc_AnchorEvidence svc ?rq w = (res, w1)" by fastforce
  have row: "row_good w a" using good a by (simp add: anchored_def)
  have ok: "request_ok ?rq"
    using row sv(2) event_utf8 [of a] by (simp add: request_ok_def row_good_def HashToHex_def)
  have g: "fabric_laws (w_lib w)" "ledger_good w" using good by (simp_all add: anchored_def)
  note step = anchors [OF g ok run]
  have w1: "anchored w1" "anchors w1 = anchors w"
    using anchored_grows [OF good] step anchor_tables [OF run] by simp_all
  show ?thesis
  proof (cases res)
    case (Inl e)
    have "anchored (snd ((if wraps e ErrUnavailable
        then ignoring (incrementRetry (b_id a) (err_text e))
            (fail (Wrap (''blockchain: anchor '' @ uuid_string (b_id a)) e))
        else ignoring (markFailed (b_id a) (err_text e) (b_retry_count a + 1)) (ret ())) w1))"
      by (rule anchored_op [of "\<lambda>_. False", OF _ _ _ w1(1)]) (auto intro: machine_ops)
    then show ?thesis by (simp add: submit_anchor_def tryE_def sv(1) run Inl)
  next
    case (Inr x)
    let ?conf = "\<lambda>i. i = b_id a"
    have "on_ledger w1 a" using step Inr by (simp add: on_ledger_def)
    moreover have "b = a" if "b \<in> set (anchors w1)" "?conf (b_id b)" for b
      using that good a w1(2) by (metis anchored_def distinct_map inj_onD)
    ultimately have conf: "\<forall>b\<in>set (anchors w1). ?conf (b_id b) \<longrightarrow> on_ledger w1 b" by blast
    let ?k = "ignoring (markConfirmed (b_id a) (an_TransactionID x) (an_Organization x)) (
          bindE (Record (anchor_event ''BLOCKCHAIN_ANCHOR_CONFIRMED'' None ''ADMIN'' (b_id a) cid
             [(''anchor_id'', JStr (uuid_string (b_id a))), (''tx_id'', JStr (an_TransactionID x)),
              (''document_id'', JStr (uuid_string (b_document_id a)))])) (\<lambda>_.
          publish ''BLOCKCHAIN_ANCHOR_CONFIRMED'' ''case'' (uuid_string cid)
             [(''anchor_id'', JStr (uuid_string (b_id a))),
              (''document_id'', JStr (uuid_string (b_document_id a))),
              (''case_id'', JStr (uuid_string cid)), (''status'', JStr ''CONFIRMED''),
              (''tx_id'', JStr (an_TransactionID x))]))"
    have "anchored (snd (?k w1))"
      by (rule anchored_op [OF _ _ _ w1(1) conf]) (auto intro!: machine_ops(5))
    then show ?thesis by (simp add: submit_anchor_def tryE_def sv(1) run Inr)
  qed
qed

lemma submit_moves: "as_blockchain sv = svc \<Longrightarrow> table_moves (anchors w) (anchors (snd (submit_anchor sv a cid w)))"
proof -
  assume sv: "as_blockchain sv = svc"
  have "machine.guar (\<lambda>_. True) (submit_anchor sv a cid)"
    unfolding submit_anchor_def sv by (auto intro!: machine_ops(2,3,5) machine_reader [OF reads(1)])
  then show ?thesis
    using machine.guarD [of "\<lambda>_. True" "submit_anchor sv a cid" w] by (auto simp: table_runs_def intro: steps_move)
qed

lemma RunAnchor_anchored:
  assumes good: "anchored w" and sv: "as_blockchain sv = svc" "utf8_valid (as_mspID sv)"
  shows "anchored (snd (RunAnchor sv i w))" and "table_moves (anchors w) (anchors (snd (RunAnchor sv i w)))"
proof -
  let ?load = "WithTx blockchainWorkerIdentity (q_GetBlockchainAnchorByID i)"
  obtain r w1 where load: "?load w = (r, w1)" by fastforce
  have w1: "anchored w1" "w_db w1 = w_db w"
    using anchored_reader [of ?load, OF _ _ good] reader_db [of ?load, OF _ load] load
    by (auto simp: q_GetBlockchainAnchorByID_def)
  have "anchored (snd (RunAnchor sv i w)) \<and> table_moves (anchors w) (anchors (snd (RunAnchor sv i w)))"
  proof (cases r)
    case (Inl e)
    then show ?thesis
      using w1 by (simp add: RunAnchor_def tryE_def load ret_def fail_def table_moves_refl)
  next
    case (Inr a)
    then have a: "a \<in> set (anchors w1)"
      using load w1(2) by (auto simp: WithTx_run q_GetBlockchainAnchorByID_def query_run visible_anchors_def
          filter_eq_Cons_iff)
    let ?doc = "WithTx blockchainWorkerIdentity (bindE (q_GetDocumentByID (b_document_id a)) (\<lambda>doc. ret (d_case_id doc)))"
    obtain s w2 where doc: "?doc w1 = (s, w2)" by fastforce
    have "reader.guar ?doc" "ledger.kept ?doc" by (auto simp: q_GetDocumentByID_def)
    then have w2: "anchored w2" "w_db w2 = w_db w1"
      using anchored_reader [of ?doc, OF _ _ w1(1)] reader_db [of ?doc, OF _ doc] doc by auto
    have a2: "a \<in> set (anchors w2)" using a w2(2) by simp
    show ?thesis
      using w1 w2 submit_anchored [OF w2(1) a2 sv] submit_moves [OF sv(1), of w2]
      by (cases s) (simp_all add: RunAnchor_def tryE_def load Inr doc ret_def fail_def table_moves_refl)
  qed
  then show "anchored (snd (RunAnchor sv i w))" "table_moves (anchors w) (anchors (snd (RunAnchor sv i w)))"
    by simp_all
qed

end

section \<open>Verification\<close>

lemma latestAnchor_world: "snd (latestAnchor ident i w) = snd (WithTx ident
    (tryE (q_GetLatestBlockchainAnchorByDocumentID i) (\<lambda>e. if is_no_rows e then ret () else fail e) (\<lambda>_. ret ())) w)"
  by (simp add: latestAnchor_def Let_def)

lemma latestAnchor_reads: "reader.guar (latestAnchor ident i)" "objects.kept (latestAnchor ident i)"
    "ledger.kept (latestAnchor ident i)"
proof -
  let ?m = "WithTx ident (tryE (q_GetLatestBlockchainAnchorByDocumentID i) (\<lambda>e. if is_no_rows e then ret () else fail e) (\<lambda>_. ret ()))"
  have "reader.guar ?m" "objects.kept ?m" "ledger.kept ?m"
    by (auto simp: q_GetLatestBlockchainAnchorByDocumentID_def)
  then show "reader.guar (latestAnchor ident i)" "objects.kept (latestAnchor ident i)" "ledger.kept (latestAnchor ident i)"
    by (simp_all add: reader.guar_def objects.kept_def ledger.kept_def latestAnchor_world)
qed

lemma one_mem: "one xs = Inr x \<Longrightarrow> x \<in> set xs"
  by (cases xs) (auto simp: one_def)

lemma latestAnchor_run:
  assumes "latestAnchor ident i w = (Inr a, w')"
  shows "undisturbed w w'" and "\<forall>x. a = Some x \<longrightarrow> x \<in> set (anchors w) \<and> b_document_id x = i"
proof -
  have "calm (latestAnchor ident i)" using latestAnchor_reads by (intro calm_reader)
  then show "undisturbed w w'" using assms by (rule calmD)
  let ?o = "bindE (begin_tx ident) (\<lambda>_. bindE (infra (ret ())) (\<lambda>_. bindE (infra (ret ())) (\<lambda>_.
     q_GetLatestBlockchainAnchorByDocumentID i)))"
  have "x \<in> set (anchors w) \<and> b_document_id x = i" if "a = Some x" for x
  proof -
    have "fst (?o w) = Inr x"
      using assms that by (cases "fst (?o w)") (auto simp: latestAnchor_def Let_def)
    then obtain w4 where "?o w = (Inr x, w4)" by (cases "?o w") auto
    then obtain w1 w2 w3 where env: "begin_tx ident w = (Inr (), w1)" "infra (ret ()) w1 = (Inr (), w2)"
      "infra (ret ()) w2 = (Inr (), w3)" and q: "q_GetLatestBlockchainAnchorByDocumentID i w3 = (Inr x, w4)"
      by (auto simp: tryE_Inr fail_run)
    from env have "w_db w1 = w_db w" "w_db w2 = w_db w1" "w_db w3 = w_db w2"
      by (auto simp: begin_tx_def infra_run ret_run split: option.splits)
    moreover have "x \<in> set (visible_anchors (w_db w3) (w_tx_now w3) (w_ctx w3)) \<and> b_document_id x = i"
    proof -
      from q have "one (sort_key (\<lambda>a. - b_created_at a) (filter (\<lambda>a. b_document_id a = i)
          (visible_anchors (w_db w3) (w_tx_now w3) (w_ctx w3)))) = Inr x"
        by (simp add: q_GetLatestBlockchainAnchorByDocumentID_def query_run)
      from one_mem [OF this] show ?thesis by simp
    qed
    ultimately show ?thesis by (simp add: visible_anchors_def)
  qed
  then show "\<forall>x. a = Some x \<longrightarrow> x \<in> set (anchors w) \<and> b_document_id x = i" by blast
qed

definition ledger_says :: "world \<Rightarrow> uuid \<Rightarrow> int \<Rightarrow> string \<Rightarrow> ledger_view \<Rightarrow> bool" where
  "ledger_says w i ver hex v \<longleftrightarrow>
     lv_status v \<in> {''MATCH'', ''BLOCKCHAIN_MISMATCH'', ''BLOCKCHAIN_NOT_ANCHORED'', ''BLOCKCHAIN_UNAVAILABLE''} \<and>
     (if lv_status v \<in> {''MATCH'', ''BLOCKCHAIN_MISMATCH''}
      then \<exists>e. ledger_at w i ver = Some e \<and> lv_hash v = Some (er_Hash e) \<and> (lv_status v = ''MATCH'') = (er_Hash e = hex)
      else lv_hash v = None)"

context ledger_service
begin

lemma ask_ledger_run:
  assumes run: "ask_ledger sv i hex anchor w = (Inr v, w')" and sv: "as_blockchain sv = svc" and good: "ledger_good w"
    and a: "\<forall>x. anchor = Some x \<longrightarrow> version_ok (b_document_version x)"
  shows "ledger_says w i (case anchor of None \<Rightarrow> 1 | Some x \<Rightarrow> b_document_version x) hex v"
proof (cases "\<exists>x. anchor = Some x \<and> b_status x = ''CONFIRMED'' \<and> bc_IsEnabled svc")
  case False
  then have "v \<in> {no_ledger_view ''BLOCKCHAIN_UNAVAILABLE'', no_ledger_view ''BLOCKCHAIN_NOT_ANCHORED''}"
    using run by (auto simp: ask_ledger_def sv ret_run split: if_splits option.splits)
  then show ?thesis by (auto simp: ledger_says_def no_ledger_view_def)
next
  case True
  then obtain x where x: "anchor = Some x" "version_ok (b_document_version x)" using a by auto
  let ?vq = "\<lparr>vq_EvidenceID = i, vq_Version = b_document_version x, vq_Hash = hex\<rparr>"
  from run True x obtain r err where ver: "bc_VerifyEvidence svc ?vq w = (Inr (r, err), w')"
    and v: "v = ledger_verdict r err"
    by (auto simp: ask_ledger_def sv tryE_Inr ret_run fail_run)
  note verified = verifies [OF good _ ver, simplified]
  show ?thesis
  proof (cases "err = None \<or> (\<exists>e. err = Some e \<and> wraps e ErrIntegrityMismatch)")
    case True
    then show ?thesis
      using verified x(2) unfolding v x(1)
      by (auto simp: ledger_says_def ledger_verdict_def seen_on_ledger_def no_ledger_view_def split: option.splits)
  next
    case False
    then show ?thesis
      unfolding v by (auto simp: ledger_says_def ledger_verdict_def no_ledger_view_def split: option.splits)
  qed
qed

lemma ask_ledger_calm: "as_blockchain sv = svc \<Longrightarrow> calm (ask_ledger sv i hex anchor)"
  unfolding ask_ledger_def
  by (erule ssubst) (rule calm_reader; auto intro!: reads(2) no_objects(2) queries(1))

lemma compare_run:
  assumes run: "compare_digest sv user doc i st at hex w = (Inr res, w')" and sv: "as_blockchain sv = svc"
    and good: "ledger_good w" and vs: "\<forall>x\<in>set (anchors w). version_ok (b_document_version x)"
  shows "\<exists>anchor v. res = verdict sv doc i st hex at anchor v \<and>
     ledger_says w i (bv_Version res) (HashToHex (d_sha256_hash doc)) v" (is ?thesis1)
    and "w_objects w' = w_objects w" "w_ledger w' = w_ledger w"
    and "if st then status_only (d_id doc) w w' else tables w' = tables w"
proof -
  let ?hex = "HashToHex (d_sha256_hash doc)"
  let ?rec = "if st then ignoring (reconcileTamperStatus (case_ident user) doc (hex = ?hex)) (ret ()) else ret ()"
  from run obtain w1 anchor w2 v w3 where
    r1: "?rec w = (Inr (), w1)" and r2: "latestAnchor (case_ident user) i w1 = (Inr anchor, w2)"
    and r3: "ask_ledger sv i ?hex anchor w2 = (Inr v, w3)"
    and res: "res = verdict sv doc i st hex at anchor v"
    and r4: "\<exists>ev. Record ev w3 = (Inr (), w')"
    by (fastforce simp: compare_digest_def Let_def tryE_Inr fail_run ret_run)
  have w1: "w_objects w1 = w_objects w" "w_ledger w1 = w_ledger w" "w_lib w1 = w_lib w"
    "if st then status_only (d_id doc) w w1 else tables w1 = tables w"
  proof -
    obtain r' w1' where rc: "reconcileTamperStatus (case_ident user) doc (hex = ?hex) w = (r', w1')" by fastforce
    have "st \<Longrightarrow> w1 = w1'" "\<not> st \<Longrightarrow> w1 = w" using r1 rc by (auto simp: ignoring_def ret_run split: if_splits)
    then show "w_objects w1 = w_objects w" "w_ledger w1 = w_ledger w" "w_lib w1 = w_lib w"
      "if st then status_only (d_id doc) w w1 else tables w1 = tables w"
      using reconcile_run [OF rc] by (cases st; simp add: params_same_def)+
  qed
  have anchors1: "anchors w1 = anchors w"
  proof (cases st)
    case True
    then obtain ds where "tables w1 = (tables w)\<lparr>t_documents := ds\<rparr>" using w1(4) by (auto simp: status_only_def)
    then have "t_anchors (tables w1) = t_anchors (tables w)" by simp
    then show ?thesis by simp
  next
    case False
    then have "tables w1 = tables w" using w1(4) by simp
    then show ?thesis by (rule tables_eqD)
  qed
  have u2: "undisturbed w1 w2" using latestAnchor_run(1) [OF r2] .
  have u3: "undisturbed w2 w3" using calmD [OF ask_ledger_calm [OF sv] r3] .
  have u4: "undisturbed w3 w'" using r4 Record_undisturbed by blast
  note u = undisturbed_trans [OF u2 undisturbed_trans [OF u3 u4]]
  have "w_ledger w2 = w_ledger w" "w_lib w2 = w_lib w" using undisturbedD [OF u2] w1 by simp_all
  then have led: "ledger_good w2" "ledger_at w2 = ledger_at w"
    using good ledger_good_cong [of w2 w] ledger_map_cong [of w2 w] by (simp_all add: ledger_at_def fun_eq_iff)
  have "\<forall>x. anchor = Some x \<longrightarrow> version_ok (b_document_version x)"
    using latestAnchor_run(2) [OF r2] vs anchors1 by auto
  from ask_ledger_run [OF r3 sv led(1) this]
  have "ledger_says w i (bv_Version res) ?hex v"
    unfolding ledger_says_def led(2) by (simp add: res verdict_def Let_def)
  with res show ?thesis1 by blast
  show "w_objects w' = w_objects w" "w_ledger w' = w_ledger w" using undisturbedD [OF u] w1 by simp_all
  show "if st then status_only (d_id doc) w w' else tables w' = tables w"
    using undisturbedD(1) [OF u] w1(4) by (simp add: status_only_def split: if_splits)
qed

end

end
