(* ===== verification/AnchorProps.thy ===== *)
theory AnchorProps
  imports AnchorFacts ChaincodeProps
begin

text \<open>
  Database and ledger together: what a confirmed anchor means, what the verification of a
  file concludes, and an anchor that can never be given up.
\<close>

section \<open>The outbox over many runs\<close>

text \<open>
  Any interleaving of the service's operations, each run to its end, with steps of the other
  services, which neither write the anchors' table nor the ledger.
\<close>

inductive anchor_runs :: "AnchorService \<Rightarrow> world \<Rightarrow> world \<Rightarrow> bool" for sv where
  start: "anchor_runs sv w w"
| run: "anchor_runs sv w w1 \<Longrightarrow> RunAnchor sv i w1 = (r, w2) \<Longrightarrow> anchor_runs sv w w2"
| create: "anchor_runs sv w w1 \<Longrightarrow> CreateAnchorForDocument sv user did cid h ev w1 = (r, w2) \<Longrightarrow> anchor_runs sv w w2"
| give_up: "anchor_runs sv w w1 \<Longrightarrow> anchor_error_handler i retried most e w1 = (r, w2) \<Longrightarrow> anchor_runs sv w w2"
| verify: "anchor_runs sv w w1 \<Longrightarrow> VerifyCandidate sv user i candidate most name st w1 = (r, w2) \<Longrightarrow> anchor_runs sv w w2"
| others: "anchor_runs sv w w1 \<Longrightarrow> anchors w2 = anchors w1 \<Longrightarrow> w_ledger w2 = w_ledger w1 \<Longrightarrow> w_lib w2 = w_lib w1 \<Longrightarrow>
     anchor_runs sv w w2"

lemma machine_reconcile [intro!]: "machine.guar conf (reconcileTamperStatus ident doc b)"
proof -
  have "machine.guar conf (q_UpdateDocumentStatus i s)" for i s
    unfolding q_UpdateDocumentStatus_def
    by (rule machine.guar_exec) (auto simp: Let_def table_runs_def split: if_splits)
  then show ?thesis unfolding reconcileTamperStatus_def by auto
qed

lemma verify_args:
  assumes "as_blockchain sv = fabric_service msp"
  shows "machine.guar conf (VerifyCandidate sv user i c m f st)" "ledger.kept (VerifyCandidate sv user i c m f st)"
    "param.guar (VerifyCandidate sv user i c m f st)"
proof -
  have ask: "reader.guar (ask_ledger sv i h a)" "ledger.kept (ask_ledger sv i h a)" for i h a
    using fabric.reads(2) fabric.queries(1) unfolding ask_ledger_def assms by auto
  have digests: "reader.guar (stored_digest d)" "ledger.kept (stored_digest d)"
    "reader.guar (candidate_digest r n)" "ledger.kept (candidate_digest r n)" for d r n
    unfolding stored_digest_def candidate_digest_def Let_def by auto
  have doc: "reader.guar (q_GetDocumentByID i)" "ledger.kept (q_GetDocumentByID i)" for i
    by (auto simp: q_GetDocumentByID_def)
  have rec: "ledger.kept (reconcileTamperStatus ident d b)" "param.guar (reconcileTamperStatus ident d b)" for ident d b
    unfolding reconcileTamperStatus_def q_UpdateDocumentStatus_def by auto
  note reads = ask(1) digests(1,3) doc(1) latestAnchor_reads(1)
  show "machine.guar conf (VerifyCandidate sv user i c m f st)"
    unfolding VerifyCandidate_def compare_digest_def need_access_def load_document_def no_rows_as_def Let_def
    by (auto intro!: reads [THEN machine_reader])
  show "ledger.kept (VerifyCandidate sv user i c m f st)"
    unfolding VerifyCandidate_def compare_digest_def need_access_def load_document_def no_rows_as_def Let_def
    by (auto intro!: ask(2) digests(2,4) doc(2) latestAnchor_reads(3) rec)
  show "param.guar (VerifyCandidate sv user i c m f st)"
    unfolding VerifyCandidate_def compare_digest_def need_access_def load_document_def no_rows_as_def Let_def
    by (auto intro!: reads [THEN param_reader] rec)
qed

lemma table_op_moves: "machine.guar conf m \<Longrightarrow> table_moves (anchors w) (anchors (snd (m w)))"
  using machine.guarD [of conf m w] by (auto simp: table_runs_def intro: steps_move)

lemma runs_anchored:
  assumes "anchor_runs sv w w'" "anchored w"
    and sv: "as_blockchain sv = fabric_service (as_mspID sv)" "utf8_valid (as_mspID sv)"
  shows "anchored w' \<and> table_moves (anchors w) (anchors w')"
  using assms(1,2)
proof (induction rule: anchor_runs.induct)
  case (start w)
  then show ?case by (simp add: table_moves_refl)
next
  case (run w w1 i r w2)
  then have "snd (RunAnchor sv i w1) = w2" by simp
  then show ?case
    using fabric.RunAnchor_anchored [OF _ sv, of w1 i] run table_moves_trans by blast
next
  case (create w w1 user did cid h ev r w2)
  let ?m = "CreateAnchorForDocument sv user did cid h ev"
  have m: "machine.guar (\<lambda>_. False) ?m" by (rule machine_ops) simp
  have w2: "snd (?m w1) = w2" using create by simp
  show ?case
    using anchored_op [OF m, of w1] table_op_moves [OF m, of w1] create.IH [OF create.prems] w2 table_moves_trans
    by (auto intro: ledger_anchor_ops param_anchor_ops)
next
  case (give_up w w1 i retried most e r w2)
  let ?m = "anchor_error_handler i retried most e"
  have m: "machine.guar (\<lambda>_. False) ?m" by (rule machine_ops)
  have w2: "snd (?m w1) = w2" using give_up by simp
  show ?case
    using anchored_op [OF m, of w1] table_op_moves [OF m, of w1] give_up.IH [OF give_up.prems] w2 table_moves_trans
    by (auto intro: ledger_anchor_ops param_anchor_ops)
next
  case (verify w w1 user i candidate most name st r w2)
  let ?m = "VerifyCandidate sv user i candidate most name st"
  note m = verify_args(1) [OF sv(1), of "\<lambda>_. False" user i candidate most name st]
    verify_args(2,3) [OF sv(1), of user i candidate most name st]
  have w2: "snd (?m w1) = w2" using verify by simp
  show ?case
    using anchored_op [OF m, of w1] table_op_moves [OF m(1), of w1] verify.IH [OF verify.prems] w2 table_moves_trans
    by auto
next
  case (others w w1 w2)
  have "anchored w2"
    using anchored_runs [of w1 "\<lambda>_. False" w2] others by (simp add: table_runs_def)
  then show ?case using others by simp
qed

text \<open>
  C26.  However the operations of the outbox are interleaved: an anchor the database shows as
  confirmed has its digest on the ledger, under its document and version; an anchor that has
  been confirmed or has failed never changes again; and no anchor disappears or changes its
  document, version or digest.
\<close>

theorem confirmed_on_ledger:
  assumes "anchored w" and "anchor_runs sv w w'"
    and "as_blockchain sv = fabric_service (as_mspID sv)" and "utf8_valid (as_mspID sv)"
  shows "(\<forall>a\<in>set (anchors w'). b_status a = ''CONFIRMED'' \<longrightarrow>
       (\<exists>r. ledger_at w' (b_document_id a) (b_document_version a) = Some r \<and>
          er_Hash r = hex_encode (b_document_hash a))) \<and>
     length (anchors w) \<le> length (anchors w') \<and>
     (\<forall>k<length (anchors w). let a = anchors w ! k; a' = anchors w' ! k in
        same_evidence a a' \<and> (b_status a \<noteq> ''PENDING'' \<longrightarrow> a' = a))"
proof -
  from runs_anchored [OF assms(2,1,3,4)] obtain xs ys where
    good: "anchored w'" and xs: "anchors w' = xs @ ys" "list_all2 row_moves (anchors w) xs"
    by (auto simp: table_moves_def)
  have "length (anchors w) = length xs" using xs(2) by (rule list_all2_lengthD)
  moreover have "row_moves (anchors w ! k) (anchors w' ! k)" if "k < length (anchors w)" for k
    using list_all2_nthD [OF xs(2) that] that calculation xs(1) by (simp add: nth_append)
  ultimately show ?thesis
    using good xs(1)
    by (auto simp: anchored_def row_good_def on_ledger_def HashToHex_def row_moves_def pending_def Let_def)
qed

section \<open>A world with a confirmed anchor\<close>

definition sample_anchor :: anchor_row where [run_defs]:
  "sample_anchor = \<lparr>b_id = 90, b_document_id = 70, b_document_version = 1, b_event_type = ''DOCUMENT_UPLOADED'',
     b_document_hash = replicate 32 (CHR 0x01), b_status = ''PENDING'', b_fabric_tx_id = None,
     b_fabric_channel = None, b_fabric_chaincode = None, b_organization = None, b_last_error = None,
     b_retry_count = 0, b_created_at = 1, b_confirmed_at = None, b_updated_at = 1\<rparr>"

definition confirmed_anchor :: anchor_row where [run_defs]:
  "confirmed_anchor = sample_anchor\<lparr>b_status := ''CONFIRMED'', b_fabric_tx_id := Some ''t'',
     b_confirmed_at := Some 2\<rparr>"

definition confirmed_record :: EvidenceRecord where
  "confirmed_record = \<lparr>er_EvidenceID = uuid_string 70, er_Version = 1,
     er_Hash = hex_encode (b_document_hash confirmed_anchor), er_EventType = ''DOCUMENT_UPLOADED'',
     er_CaseReference = uuid_string 50, er_ActorOrg = ''Org1'', er_AppRecordID = uuid_string 90,
     er_TxID = ''t'', er_AnchoredAt = ''1''\<rparr>"

definition anchor_world :: world where
  "anchor_world = flat_world\<lparr>w_db := sample_db\<lparr>t_anchors := [confirmed_anchor, sample_anchor\<lparr>b_id := 91\<rparr>]\<rparr>,
     w_ledger := [([uuid_string 70, dec_padded 10 1], encode_record (w_lib flat_world) confirmed_record)]\<rparr>"

definition sample_outbox :: AnchorService where
  "sample_outbox = \<lparr>as_blockchain = fabric_service ''Org1'', as_channel = ''c'', as_chaincode = ''e'',
     as_mspID = ''Org1''\<rparr>"

lemma sample_outbox_fabric: "as_blockchain sample_outbox = fabric_service (as_mspID sample_outbox)"
    "utf8_valid (as_mspID sample_outbox)"
  by (simp_all add: sample_outbox_def utf8_ascii del: utf8_valid.simps)

lemma confirmed_record_decodes:
  "decode_record (w_lib flat_world) (encode_record (w_lib flat_world) confirmed_record) = Inr confirmed_record"
proof (rule decode_encode)
  show "json_objects (w_lib flat_world)" using flat_world_laws by (simp add: fabric_laws_def)
  show "record_plain confirmed_record"
    by (simp add: record_plain_def confirmed_record_def utf8_ascii del: utf8_valid.simps)
qed

lemma anchor_world_ledger: "ledger_good anchor_world" "ledger_at anchor_world 70 1 = Some confirmed_record"
  using confirmed_record_decodes
  by (simp_all add: ledger_good_def entry_good_def ledger_at_def ledger_map_def anchor_world_def confirmed_record_def
      version_ok_def)

lemma anchor_world_good: "anchored anchor_world"
proof -
  have "row_good anchor_world (sample_anchor\<lparr>b_id := 91\<rparr>)"
    by (simp add: row_good_def constraints_hold_def anchor_valid_def sample_anchor_def version_ok_def)
  moreover have "row_good anchor_world confirmed_anchor"
    using anchor_world_ledger(2)
    by (simp add: row_good_def constraints_hold_def anchor_valid_def sample_anchor_def confirmed_anchor_def
        version_ok_def on_ledger_def confirmed_record_def HashToHex_def text_ok_def utf8_ascii del: utf8_valid.simps)
  moreover have "fabric_laws (w_lib anchor_world)" using flat_world_laws by (simp add: anchor_world_def)
  ultimately show ?thesis
    using anchor_world_ledger(1)
    by (simp add: anchored_def) (simp add: anchor_world_def confirmed_anchor_def sample_anchor_def)
qed

lemma confirmed_on_ledger_witness:
  "let w' = snd (RunAnchor sample_outbox 91 (snd (anchor_error_handler 90 5 5 ErrUnavailable anchor_world))) in
     anchors w' ! 0 = confirmed_anchor \<and> b_document_hash (anchors w' ! 1) = replicate 32 (CHR 0x01) \<and>
     (\<exists>r. ledger_at w' 70 1 = Some r \<and> er_Hash r = hex_encode (replicate 32 (CHR 0x01)))"
proof -
  let ?w = "snd (anchor_error_handler 90 5 5 ErrUnavailable anchor_world)"
  let ?w' = "snd (RunAnchor sample_outbox 91 ?w)"
  have "anchor_runs sample_outbox anchor_world ?w'"
    by (rule anchor_runs.run [OF anchor_runs.give_up [OF anchor_runs.start]]) (rule surjective_pairing)+
  note holds = confirmed_on_ledger [OF anchor_world_good this sample_outbox_fabric]
  have len: "2 \<le> length (anchors ?w')"
    using holds by (simp add: anchor_world_def)
  have rows: "anchors anchor_world ! 0 = confirmed_anchor" "anchors anchor_world ! 1 = sample_anchor\<lparr>b_id := 91\<rparr>"
    "length (anchors anchor_world) = 2"
    by (simp_all add: anchor_world_def)
  have first: "anchors ?w' ! 0 = confirmed_anchor"
    using holds rows by (auto simp: Let_def confirmed_anchor_def)
  have "b_document_hash (anchors ?w' ! 1) = replicate 32 (CHR 0x01)"
    using holds rows by (auto simp: Let_def same_evidence_def sample_anchor_def)
  moreover have "confirmed_anchor \<in> set (anchors ?w')"
    using first len by (metis nth_mem less_le_trans zero_less_numeral)
  then have "\<exists>r. ledger_at ?w' 70 1 = Some r \<and> er_Hash r = hex_encode (replicate 32 (CHR 0x01))"
    using holds by (force simp: confirmed_anchor_def sample_anchor_def)
  ultimately show ?thesis using first by (simp add: Let_def)
qed

section \<open>Verification of a file\<close>

lemma candidate_digest_run:
  "candidate_digest c n w = (Inr hex, w') \<Longrightarrow> w' = w \<and> (\<exists>r. c = Some r \<and> rd_error r = None \<and>
     int (length (content r)) \<le> (if n \<le> 0 then 52428800 else n) \<and> hex = hex_encode (lib_sha256 (w_lib w) (content r)))"
  by (auto simp: candidate_digest_def Let_def fail_run get_world_run split: option.splits if_splits)

lemma stored_digest_run:
  assumes "stored_digest doc w = (Inr hex, w')"
  shows "undisturbed w w' \<and> (\<exists>b. w_objects w (d_storage_object_key doc) = Some b \<and> hex = hex_encode (lib_sha256 (w_lib w) b))"
proof -
  from assms obtain h where h: "recomputeDocumentHash doc w = (Inr h, w')" "hex = hex_encode h"
    by (auto simp: stored_digest_def tryE_Inr ret_run fail_run)
  have "calm (recomputeDocumentHash doc)" by (rule calm_reader) auto
  then have "undisturbed w w'" using h(1) by (rule calmD)
  then show ?thesis using recompute_run [OF h(1)] h(2) by blast
qed

text \<open>
  The file a verification is about: the stored object, or the candidate that was sent.
\<close>

definition file_at_hand :: "world \<Rightarrow> document_row \<Rightarrow> reader option \<Rightarrow> bool \<Rightarrow> bytes option" where
  "file_at_hand w doc candidate st = (if st then w_objects w (d_storage_object_key doc)
     else (case candidate of None \<Rightarrow> None | Some r \<Rightarrow> Some (content r)))"

text \<open>
  C27.  A verification that answers is about a document the user may verify and is right about
  the file: its digests are those of the row and of the stored object or candidate, and it
  says that they match exactly when they are equal.  It answers VERIFIED exactly when the
  digests match and the ledger does not contradict the row, so also while the ledger cannot be
  reached or has no record, which only the field for the ledger's status tells (the helper
  evaluateIntegrity of integrity\_verify\_test.go, said to replicate this function, answers
  BLOCKCHAIN\_UNAVAILABLE and BLOCKCHAIN\_NOT\_ANCHORED there); a ledger status of MATCH (or
  BLOCKCHAIN\_MISMATCH) means that the record on the ledger for this document and version has
  (or has not) the row's digest.  Verifying a candidate changes no table but the audit log;
  verifying the stored object changes at most that document's status; no verification changes
  a stored object or the ledger.
\<close>

theorem candidate_verdict:
  assumes "VerifyCandidate sv user i candidate n name st w = (Inr res, w')" and "au_ID user \<noteq> nil_uuid"
    and "as_blockchain sv = fabric_service msp" and "anchored w"
  shows "\<exists>doc b. doc \<in> set (t_documents (w_db w)) \<and> d_id doc = i \<and> document_access w user i ''document:verify'' \<and>
     file_at_hand w doc candidate st = Some b \<and>
     bv_ExpectedHash res = hex_encode (d_sha256_hash doc) \<and>
     bv_ActualHash res = hex_encode (lib_sha256 (w_lib w) b) \<and>
     bv_DatabaseMatch res = (lib_sha256 (w_lib w) b = d_sha256_hash doc) \<and>
     (bv_Status res = ''VERIFIED'') = (bv_DatabaseMatch res \<and> bv_BlockchainStatus res \<noteq> ''BLOCKCHAIN_MISMATCH'') \<and>
     (bv_BlockchainStatus res \<in> {''MATCH'', ''BLOCKCHAIN_MISMATCH''} \<longrightarrow>
        (\<exists>e. ledger_at w i (bv_Version res) = Some e \<and> bv_BlockchainHash res = Some (er_Hash e) \<and>
           (bv_BlockchainStatus res = ''MATCH'') = (er_Hash e = hex_encode (d_sha256_hash doc)))) \<and>
     (if st then status_only i w w' else tables w' = tables w) \<and>
     w_objects w' = w_objects w \<and> w_ledger w' = w_ledger w"
proof -
  from document_gate_run [OF assms(1) [unfolded VerifyCandidate_def] assms(2)]
  obtain w1 where acc: "document_access w user i ''document:verify''" and u1: "undisturbed w w1" and
    r1: "load_document user i (\<lambda>doc. bindE (Record (verification_requested user doc i st name)) (\<lambda>_.
     bindE time_now (\<lambda>at. bindE (if st then stored_digest doc else candidate_digest candidate n)
       (compare_digest sv user doc i st at)))) w1 = (Inr res, w')" by blast
  from load_document_run [OF r1] obtain doc w2 where doc: "doc \<in> set (t_documents (w_db w1))" "d_id doc = i"
    and u2: "undisturbed w1 w2" and r2: "bindE (Record (verification_requested user doc i st name)) (\<lambda>_.
     bindE time_now (\<lambda>at. bindE (if st then stored_digest doc else candidate_digest candidate n)
       (compare_digest sv user doc i st at))) w2 = (Inr res, w')" by blast
  from r2 obtain w3 at w4 hex w5 where rec: "Record (verification_requested user doc i st name) w2 = (Inr (), w3)"
    and now: "time_now w3 = (Inr at, w4)"
    and dig: "(if st then stored_digest doc else candidate_digest candidate n) w4 = (Inr hex, w5)"
    and cmp: "compare_digest sv user doc i st at hex w5 = (Inr res, w')"
    by (auto simp: tryE_Inr fail_run)
  have "calm time_now" by (rule calm_reader) auto
  then have "undisturbed w3 w4" using now by (rule calmD)
  then have u4: "undisturbed w w4"
    using u1 u2 Record_undisturbed [OF rec] undisturbed_trans by blast
  have u5: "undisturbed w4 w5" and fb: "\<exists>b. file_at_hand w4 doc candidate st = Some b \<and> hex = hex_encode (lib_sha256 (w_lib w4) b)"
    using dig stored_digest_run [of doc w4 hex w5] candidate_digest_run [of candidate n w4 hex w5]
    by (auto simp: file_at_hand_def split: if_splits)
  note same4 = undisturbedD [OF u4] and same = undisturbedD [OF undisturbed_trans [OF u4 u5]]
  have good: "ledger_good w5" "\<forall>x\<in>set (anchors w5). version_ok (b_document_version x)"
    and at5: "ledger_at w5 = ledger_at w"
    using assms(4) same(3,4) ledger_good_cong [of w5 w] ledger_map_cong [of w5 w] tables_eqD(13) [OF same(1)]
    by (auto simp: anchored_def row_good_def ledger_at_def fun_eq_iff)
  obtain anchor v where res: "res = verdict sv doc i st hex at anchor v"
    and says: "ledger_says w i (bv_Version res) (hex_encode (d_sha256_hash doc)) v"
    using fabric.compare_run(1) [OF cmp assms(3) good]
    by (auto simp: ledger_says_def at5 HashToHex_def)
  obtain b where b: "file_at_hand w doc candidate st = Some b" "hex = hex_encode (lib_sha256 (w_lib w) b)"
    using fb unfolding file_at_hand_def same4(2,4) by blast
  have "doc \<in> set (t_documents (w_db w))" using doc(1) tables_eqD(9) [OF undisturbedD(1) [OF u1]] by simp
  moreover have "if st then status_only i w w' else tables w' = tables w"
    using fabric.compare_run(4) [OF cmp assms(3) good]
    unfolding status_only_def doc(2) same(1) tables_eqD(9) [OF same(1)] .
  moreover have "w_objects w' = w_objects w" "w_ledger w' = w_ledger w"
    using fabric.compare_run(2,3) [OF cmp assms(3) good] same(2,3) by simp_all
  moreover have "bv_ExpectedHash res = hex_encode (d_sha256_hash doc)" "bv_ActualHash res = hex"
    "bv_DatabaseMatch res = (hex = hex_encode (d_sha256_hash doc))" "bv_BlockchainStatus res = lv_status v"
    "bv_BlockchainHash res = lv_hash v"
    "bv_Status res = final_status (hex = hex_encode (d_sha256_hash doc)) st (lv_status v)"
    unfolding res by (simp_all add: verdict_def Let_def HashToHex_def)
  ultimately show ?thesis
    using doc(2) acc b says
    by (intro exI [of _ doc] exI [of _ b]) (auto simp: hex_encode_inject ledger_says_def final_status_def)
qed

section \<open>An anchor that cannot be given up\<close>

text \<open>
  C28.  When the queue gives up on an anchor, the attempt to mark it as failed writes a retry
  count of minus one, which the table's constraint refuses: whatever the anchor's state, the
  table is unchanged, so a pending anchor stays pending; and the handler never reports it.
\<close>

theorem anchor_never_given_up:
  "tables (snd (anchor_error_handler i retried most e w)) = tables w \<and>
   fst (anchor_error_handler i retried most e w) = Inr () \<and>
   (\<exists>err. fst (MarkAnchorOperationallyFailed i (Some e) w) = Inl err)"
proof -
  let ?m = "WithTx blockchainWorkerIdentity (bindE (q_FailBlockchainAnchor i (error_ptr (err_text e)) (- 1)) (\<lambda>_. ret ()))"
  have no: "q_FailBlockchainAnchor i (error_ptr (err_text e)) (- 1) v \<noteq> (Inr a, v')" for a v v'
    by (auto simp: q_FailBlockchainAnchor_def update_anchor_def exec_run anchor_valid_def split: list.splits)
  have mark: "MarkAnchorOperationallyFailed i (Some e) w = ?m w"
    by (simp add: MarkAnchorOperationallyFailed_def markFailed_def)
  obtain r w1 where run: "?m w = (r, w1)" by fastforce
  then obtain err where r: "r = Inl err"
    using no by (cases r) (auto simp: WithTx_run tryE_Inr fail_run)
  then have "tables w1 = tables w" using run WithTx_tables by blast
  then show ?thesis
    by (auto simp: anchor_error_handler_def ignoring_def ret_def mark run r)
qed

section \<open>A verification and an exhausted anchor\<close>

definition verify_db :: database where
  "verify_db = sample_db\<lparr>t_permissions := [\<lparr>p_id = 1, p_name = ''document:verify'', p_resource = ''document'', p_action = ''verify''\<rparr>],
     t_role_permissions := [\<lparr>rp_role_id = 1, rp_permission_id = 1\<rparr>],
     t_documents := [sample_document\<lparr>d_sha256_hash := sample_sha ''abc''\<rparr>]\<rparr>"

definition verify_lib :: library where
  "verify_lib = (w_lib flat_world)\<lparr>lib_json_decode := refuse_decode\<rparr>"

definition verify_world :: world where [run_defs]:
  "verify_world = (sample_world verify_db)\<lparr>w_lib := verify_lib\<rparr>"

lemma verify_db_tables [run_defs]:
  "t_roles verify_db = [\<lparr>r_id = 1, r_name = ''ADMIN'', r_description = None\<rparr>, \<lparr>r_id = 2, r_name = ''POLICE'', r_description = None\<rparr>]"
  "t_permissions verify_db = [\<lparr>p_id = 1, p_name = ''document:verify'', p_resource = ''document'', p_action = ''verify''\<rparr>]"
  "t_role_permissions verify_db = [\<lparr>rp_role_id = 1, rp_permission_id = 1\<rparr>]" "t_anchors verify_db = []"
  "t_documents verify_db = [sample_document\<lparr>d_sha256_hash := sample_sha ''abc''\<rparr>]" "t_cases verify_db = [sample_case]"
  by (simp_all add: verify_db_def sample_db_def empty_db_def)

lemma verify_lib_parts [run_defs]:
  "lib_sha256 verify_lib = sample_sha" "lib_json_decode verify_lib = refuse_decode"
  by (simp_all add: verify_lib_def flat_world_def sample_lib_def)

definition sample_candidate :: reader where [run_defs]:
  "sample_candidate = \<lparr>rd_pieces = [''ab'', ''c''], rd_error = None\<rparr>"

lemma verify_lib_marshal [run_defs]: "lib_json_marshal verify_lib v \<noteq> []"
  by (simp add: verify_lib_def flat_world_def flat_marshal_def unary_def split: json.splits)

lemma verify_run:
  "fst (bindE (VerifyCandidate sample_outbox (sample_actor 10 ''ADMIN'') 70 (Some sample_candidate) 0 ''f'' False)
     (\<lambda>r. ret (bv_Status r)) verify_world) = Inr ''VERIFIED''"
  supply run_congs [cong]
  by (simp add: run_defs sample_outbox_def del: uuid_string_def hex_encode_def sample_sha_def)

lemma candidate_verdict_witness:
  "\<exists>r. fst (VerifyCandidate sample_outbox (sample_actor 10 ''ADMIN'') 70 (Some sample_candidate) 0 ''f'' False verify_world) = Inr r \<and>
     bv_Status r = ''VERIFIED'' \<and> bv_DatabaseMatch r \<and> document_access verify_world (sample_actor 10 ''ADMIN'') 70 ''document:verify''"
proof -
  obtain r w' where run: "VerifyCandidate sample_outbox (sample_actor 10 ''ADMIN'') 70 (Some sample_candidate) 0 ''f'' False
      verify_world = (Inr r, w')" and status: "bv_Status r = ''VERIFIED''"
    using verify_run by (auto simp: tryE_def ret_def fail_def split: prod.splits sum.splits)
  have "anchored verify_world"
    using flat_world_laws
    by (simp add: anchored_def fabric_laws_def json_objects_def verify_world_def verify_lib_def ledger_good_def
        sample_world_def verify_db_tables)
  from candidate_verdict [OF run _ sample_outbox_fabric(1) this] run status show ?thesis
    by (auto simp: sample_actor_def)
qed

end
