(* ===== verification/Watermark.thy ===== *)
theory Watermark
  imports Storage JsonStruct AuditChain
begin

text \<open>
  backend/internal/service/watermark\_service.go: the forensic mark an exported file carries.
  The payload is encoded as JSON, sealed, written in base64, framed between two magic
  sentinels with its length, and placed behind the end marker of the file's format.
\<close>

section \<open>Searching in bytes\<close>

text \<open>\<^verbatim>\<open>bytes.Index\<close> and \<^verbatim>\<open>bytes.LastIndex\<close>.\<close>

fun find_sub :: "bytes \<Rightarrow> bytes \<Rightarrow> nat option" where
  "find_sub p [] = (if p = [] then Some 0 else None)"
| "find_sub p (c # cs) = (if take (length p) (c # cs) = p then Some 0
     else (case find_sub p cs of None \<Rightarrow> None | Some n \<Rightarrow> Some (Suc n)))"

fun last_sub :: "bytes \<Rightarrow> bytes \<Rightarrow> nat option" where
  "last_sub p [] = (if p = [] then Some 0 else None)"
| "last_sub p (c # cs) = (case last_sub p cs of Some n \<Rightarrow> Some (Suc n)
     | None \<Rightarrow> if take (length p) (c # cs) = p then Some 0 else None)"

declare find_sub.simps [run_defs] last_sub.simps [run_defs]

section \<open>The block\<close>

definition wmMagic :: bytes where [run_defs]:
  "wmMagic = [CHR 0xE7, CHR 0x1D, CHR 0xA0, CHR 0xF0, CHR 0x1C, CHR 0xE7, CHR 0x1D, CHR 0xA0]"

definition wmVersion :: int where [run_defs]:
  "wmVersion = 1"

text \<open>\<^verbatim>\<open>binary.BigEndian.PutUint32\<close> of the length as a \<^verbatim>\<open>uint32\<close>, and back.\<close>

definition put_be32 :: "nat \<Rightarrow> bytes" where [run_defs]:
  "put_be32 n = [char_of (n div 2 ^ 24 mod 256), char_of (n div 2 ^ 16 mod 256), char_of (n div 2 ^ 8 mod 256),
     char_of (n mod 256)]"

definition get_be32 :: "bytes \<Rightarrow> nat" where [run_defs]:
  "get_be32 b = foldl (\<lambda>acc c. acc * 256 + of_char c) 0 b"

definition buildBlock :: "bytes \<Rightarrow> bytes" where [run_defs]:
  "buildBlock enc = wmMagic @ put_be32 (length enc) @ enc @ wmMagic"

definition extractBlock :: "bytes \<Rightarrow> bytes option" where [run_defs]:
  "extractBlock d = (case find_sub wmMagic d of None \<Rightarrow> None
   | Some start \<Rightarrow>
       let rest = drop (start + length wmMagic) d in
       if length rest < 4 then None
       else let n = get_be32 (take 4 rest) in
         if length rest < 4 + n + length wmMagic then None
         else if take (length wmMagic) (drop (4 + n) rest) \<noteq> wmMagic then None
         else Some (take n (drop 4 rest)))"

section \<open>Embedding\<close>

definition embedAfterJPEGEOI :: "bytes \<Rightarrow> bytes \<Rightarrow> gerr + bytes" where [run_defs]:
  "embedAfterJPEGEOI d block = (case last_sub [CHR 0xFF, CHR 0xD9] d of
     None \<Rightarrow> Inl (StdErr ''JPEG EOI marker (0xFF 0xD9) not found'')
   | Some idx \<Rightarrow> Inr (take (idx + 2) d @ block))"

definition embedAfterPNGIEND :: "bytes \<Rightarrow> bytes \<Rightarrow> gerr + bytes" where [run_defs]:
  "embedAfterPNGIEND d block = (case last_sub ''IEND'' d of
     None \<Rightarrow> Inl (StdErr ''PNG IEND chunk not found'')
   | Some idx \<Rightarrow> (let end' = (if length d < idx + 8 then length d else idx + 8) in Inr (take end' d @ block)))"

definition embedAfterPDFEOF :: "bytes \<Rightarrow> bytes \<Rightarrow> gerr + bytes" where [run_defs]:
  "embedAfterPDFEOF d block = (case last_sub ''%%EOF'' d of
     None \<Rightarrow> Inl (StdErr ''PDF %%EOF marker not found'')
   | Some idx \<Rightarrow> Inr (take (idx + 5) d @ [CHR 0x0A] @ block))"

definition embedGeneric :: "bytes \<Rightarrow> bytes \<Rightarrow> gerr + bytes" where [run_defs]:
  "embedGeneric d block = Inr (d @ block)"

definition embed :: "string \<Rightarrow> bytes \<Rightarrow> bytes \<Rightarrow> gerr + bytes" where [run_defs]:
  "embed mimeType d block =
     (if mimeType \<in> {''image/jpeg'', ''image/jpg''} then embedAfterJPEGEOI d block
      else if mimeType = ''image/png'' then embedAfterPNGIEND d block
      else if mimeType = ''application/pdf'' then embedAfterPDFEOF d block
      else embedGeneric d block)"

section \<open>The payload\<close>

record WatermarkPayload =
  wp_Version :: int
  wp_ExportID :: string
  wp_DocumentID :: string
  wp_UserID :: string
  wp_ExportedAt :: string
  wp_ClientIP :: string
  wp_Fingerprint :: string

record WatermarkResult =
  wr_Stream :: bytes
  wr_WatermarkStatus :: string
  wr_WatermarkVersion :: int

definition payload_fields :: "WatermarkPayload \<Rightarrow> (string \<times> json) list" where [run_defs]:
  "payload_fields p = [(''v'', JInt (wp_Version p)), (''eid'', JStr (wp_ExportID p)), (''did'', JStr (wp_DocumentID p)),
     (''uid'', JStr (wp_UserID p)), (''at'', JStr (wp_ExportedAt p)), (''ip'', JStr (wp_ClientIP p)),
     (''fp'', JStr (wp_Fingerprint p))]"

definition payload_of_fields :: "(string \<times> json) list \<Rightarrow> WatermarkPayload option" where [run_defs]:
  "payload_of_fields kvs = (case map (field_str kvs) [''eid'', ''did'', ''uid'', ''at'', ''ip'', ''fp''] of
     [Some eid, Some did, Some uid, Some at, Some ip, Some fp] \<Rightarrow>
       (case field_int kvs ''v'' of None \<Rightarrow> None
        | Some v \<Rightarrow> Some \<lparr>wp_Version = v, wp_ExportID = eid, wp_DocumentID = did, wp_UserID = uid,
            wp_ExportedAt = at, wp_ClientIP = ip, wp_Fingerprint = fp\<rparr>)
   | _ \<Rightarrow> None)"

definition NewWatermarkService :: "library \<Rightarrow> string \<Rightarrow> bytes" where [run_defs]:
  "NewWatermarkService lib signingKey = lib_sha256 lib (''evidentia:watermark:v1:'' @ signingKey)"

text \<open>\<^verbatim>\<open>rand.Read\<close> into a buffer; a GCM nonce has twelve bytes.\<close>

definition rand_read :: "nat \<Rightarrow> bytes op" where [run_defs]:
  "rand_read k = infra (\<lambda>w. (Inr (lib_random_bytes (w_lib w) (w_rng_i w) k), w\<lparr>w_rng_i := Suc (w_rng_i w)\<rparr>))"

definition encrypt :: "bytes \<Rightarrow> WatermarkPayload \<Rightarrow> bytes op" where [run_defs]:
  "encrypt key p = bindE (rand_read 12) (\<lambda>nonce. get_world (\<lambda>w. lib_b64_encode (w_lib w)
     (nonce @ lib_seal (w_lib w) key nonce (lib_json_marshal (w_lib w) (JObj (payload_fields p))))))"

definition decrypt :: "library \<Rightarrow> bytes \<Rightarrow> bytes \<Rightarrow> gerr + WatermarkPayload" where [run_defs]:
  "decrypt lib key enc = (case lib_b64_decode lib enc of
     None \<Rightarrow> Inl (StdErr ''base64 decode'')
   | Some ciphertext \<Rightarrow>
       if length ciphertext < 12 then Inl (StdErr (''ciphertext too short '' @ emdash @ '' file may be corrupted or truncated''))
       else (case lib_open lib key (take 12 ciphertext) (drop 12 ciphertext) of
         None \<Rightarrow> Inl (StdErr (''watermark decryption failed '' @ emdash @ '' wrong server key or watermark has been tampered with''))
       | Some plain \<Rightarrow> (case decode_struct lib payload_of_fields plain of
           Inl e \<Rightarrow> Inl (Wrap ''unmarshal payload'' e) | Inr p \<Rightarrow> Inr p)))"

section \<open>Applying and extracting\<close>

definition ApplyWatermark :: "bytes \<Rightarrow> reader \<Rightarrow> string \<Rightarrow> WatermarkPayload \<Rightarrow> WatermarkResult op" where [run_defs]:
  "ApplyWatermark key original mimeType p = (case rd_error original of
     Some e \<Rightarrow> fail (Wrap ''read source for watermarking'' e)
   | None \<Rightarrow> try_wrap (encrypt key p) ''encrypt watermark payload'' (\<lambda>encrypted. ret
       (case embed mimeType (content original) (buildBlock encrypted) of
          Inl e \<Rightarrow> \<lparr>wr_Stream = content original, wr_WatermarkStatus = ''FAILED'', wr_WatermarkVersion = wmVersion\<rparr>
        | Inr out \<Rightarrow> \<lparr>wr_Stream = out, wr_WatermarkStatus = ''APPLIED'', wr_WatermarkVersion = wmVersion\<rparr>)))"

definition ExtractWatermark :: "library \<Rightarrow> bytes \<Rightarrow> bytes \<Rightarrow> gerr + WatermarkPayload" where [run_defs]:
  "ExtractWatermark lib key d = (case extractBlock d of
     None \<Rightarrow> Inl (StdErr ''no forensic watermark found in this file'')
   | Some enc \<Rightarrow> decrypt lib key enc)"

end
