(* ===== verification/WatermarkProps.thy ===== *)
theory WatermarkProps
  imports Watermark Sample Untouched
begin

text \<open>The watermark's round trip, and where the first of two marks wins.\<close>

section \<open>Slices\<close>

lemma find_sub_Some:
  assumes "p \<noteq> []"
  shows "find_sub p d = Some n \<longleftrightarrow> take (length p) (drop n d) = p \<and> (\<forall>m<n. take (length p) (drop m d) \<noteq> p)"
proof (induction p d arbitrary: n rule: find_sub.induct)
  case (1 p)
  then show ?case using assms by auto
next
  case (2 p c cs)
  show ?case
  proof (cases n)
    case 0
    then show ?thesis by (auto split: option.splits)
  next
    case (Suc k)
    have all: "(\<forall>m<Suc k. take (length p) (drop m (c # cs)) \<noteq> p) \<longleftrightarrow>
        take (length p) (c # cs) \<noteq> p \<and> (\<forall>m<k. take (length p) (drop m cs) \<noteq> p)"
      by (auto simp: less_Suc_eq_0_disj)
    show ?thesis
    proof (cases "take (length p) (c # cs) = p")
      case True
      then show ?thesis by (simp add: Suc) (metis drop0 zero_less_Suc)
    next
      case False
      then have "find_sub p (c # cs) = Some (Suc k) \<longleftrightarrow> find_sub p cs = Some k"
        by (auto split: option.splits)
      then show ?thesis using False 2 [OF False, of k] unfolding Suc all by simp
    qed
  qed
qed

lemma find_sub_append:
  assumes p: "p \<noteq> []" and first: "find_sub p (b @ p) = Some (length b)"
  shows "find_sub p (b @ p @ rest) = Some (length b)"
proof -
  have "take (length p) (drop m (b @ p @ rest)) = take (length p) (drop m (b @ p))" if "m < length b" for m
    using that by (simp flip: append_assoc)
  then show ?thesis using first unfolding find_sub_Some [OF p] by auto
qed

lemma get_put_be32: "n < 2 ^ 32 \<Longrightarrow> get_be32 (put_be32 n) = n"
proof -
  assume n: "n < 2 ^ 32"
  have d: "n div 16777216 = n div 65536 div 256" "n div 65536 = n div 256 div 256"
    by (simp_all flip: div_mult2_eq)
  have "n div 16777216 mod 256 = n div 16777216" using n by (simp add: less_mult_imp_div_less)
  moreover have "n = 256 * (n div 256) + n mod 256" by simp
  moreover have "n div 256 = 256 * (n div 65536) + n div 256 mod 256" unfolding d(2) by simp
  moreover have "n div 65536 = 256 * (n div 16777216) + n div 65536 mod 256" unfolding d(1) by simp
  ultimately have parts: "16777216 * (n div 16777216) + 65536 * (n div 65536 mod 256) +
      n div 256 mod 256 * 256 + n mod 256 = n" and top: "n div 16777216 mod 256 = n div 16777216" by linarith+
  have byte: "of_char (char_of m :: char) = m mod 256" for m :: nat by (simp add: of_char_of take_bit_nat_def)
  show ?thesis unfolding get_be32_def put_be32_def foldl.simps byte mod_mod_trivial using parts top
    by (simp add: algebra_simps)
qed

lemma extract_build:
  assumes first: "find_sub wmMagic (b @ wmMagic) = Some (length b)" and enc: "length enc < 2 ^ 32"
  shows "extractBlock (b @ buildBlock enc @ rest) = Some enc"
proof -
  have ne: "wmMagic \<noteq> []" and len: "length wmMagic = 8" "length (put_be32 n) = 4" for n
    by (simp_all add: wmMagic_def put_be32_def)
  have "find_sub wmMagic (b @ buildBlock enc @ rest) = Some (length b)"
    using find_sub_append [OF ne first] by (simp add: buildBlock_def)
  then show ?thesis
    by (simp add: extractBlock_def Let_def buildBlock_def len get_put_be32 [OF enc])
qed

lemma embed_kept: "embed mime d block = (case embed mime d [] of Inl e \<Rightarrow> Inl e | Inr b \<Rightarrow> Inr (b @ block))"
  by (simp add: embed_def embedAfterJPEGEOI_def embedAfterPNGIEND_def embedAfterPDFEOF_def embedGeneric_def Let_def
      split: option.splits)

section \<open>What the library promises\<close>

definition watermark_laws :: "library \<Rightarrow> bool" where
  "watermark_laws lib \<longleftrightarrow> json_objects lib \<and> (\<forall>n k. length (lib_random_bytes lib n k) = k) \<and>
     (\<forall>x. lib_b64_decode lib (lib_b64_encode lib x) = Some x) \<and>
     (\<forall>key nonce x. lib_open lib key nonce (lib_seal lib key nonce x) = Some x)"

definition payload_plain :: "WatermarkPayload \<Rightarrow> bool" where
  "payload_plain p \<longleftrightarrow> \<bar>wp_Version p\<bar> < 2 ^ 53 \<and> list_all utf8_valid [wp_ExportID p, wp_DocumentID p, wp_UserID p,
     wp_ExportedAt p, wp_ClientIP p, wp_Fingerprint p]"

lemma payload_round_trip:
  assumes "json_objects lib" "payload_plain p"
  shows "decode_struct lib payload_of_fields (lib_json_marshal lib (JObj (payload_fields p))) = Inr p"
proof (rule decode_encoded [OF assms(1)])
  show "flat_object (payload_fields p)"
    using assms(2) by (simp add: payload_plain_def payload_fields_def flat_object_def flat_value_def utf8_ascii
        del: utf8_valid.simps)
  fix kvs'
  assume "map_of kvs' = map_of (payload_fields p)"
  from field_cong [OF this] show "payload_of_fields kvs' = Some p"
    by (simp add: payload_of_fields_def field_str_def field_int_def payload_fields_def)
qed

lemma decrypt_encrypted:
  assumes "watermark_laws lib" "payload_plain p"
  shows "decrypt lib key (lib_b64_encode lib (lib_random_bytes lib n 12 @
     lib_seal lib key (lib_random_bytes lib n 12) (lib_json_marshal lib (JObj (payload_fields p))))) = Inr p"
  using assms payload_round_trip [OF _ assms(2), of lib]
  by (simp add: decrypt_def watermark_laws_def)

lemma encrypt_run:
  "encrypt key p w = (Inr e, w') \<Longrightarrow> \<exists>n. e = lib_b64_encode (w_lib w) (lib_random_bytes (w_lib w) n 12 @
     lib_seal (w_lib w) key (lib_random_bytes (w_lib w) n 12) (lib_json_marshal (w_lib w) (JObj (payload_fields p))))"
  by (auto simp: encrypt_def rand_read_def tryE_Inr fail_run get_world_run infra_run split: option.splits)

section \<open>The round trip\<close>

lemma ApplyWatermark_run:
  assumes "ApplyWatermark key r mime p w = (Inr res, w')"
  shows "rd_error r = None \<and> (\<exists>e w1. encrypt key p w = (Inr e, w1) \<and> (case embed mime (content r) [] of
       Inl err \<Rightarrow> wr_Stream res = content r \<and> wr_WatermarkStatus res = ''FAILED''
     | Inr body \<Rightarrow> wr_Stream res = body @ buildBlock e \<and> wr_WatermarkStatus res = ''APPLIED''))"
proof -
  from assms obtain e w1 where enc: "encrypt key p w = (Inr e, w1)" and
    res: "res = (case embed mime (content r) (buildBlock e) of
          Inl e \<Rightarrow> \<lparr>wr_Stream = content r, wr_WatermarkStatus = ''FAILED'', wr_WatermarkVersion = wmVersion\<rparr>
        | Inr out \<Rightarrow> \<lparr>wr_Stream = out, wr_WatermarkStatus = ''APPLIED'', wr_WatermarkVersion = wmVersion\<rparr>)"
    and "rd_error r = None"
    by (auto simp: ApplyWatermark_def tryE_Inr fail_run ret_run split: option.splits)
  then show ?thesis by (cases "embed mime (content r) []") (auto simp: embed_kept [of mime "content r" "buildBlock e"])
qed

lemma mark_extracts:
  assumes "encrypt key p w = (Inr e, w1)" "watermark_laws (w_lib w)" "payload_plain p"
    and "length (body @ buildBlock e) < 2 ^ 32" "find_sub wmMagic (body @ wmMagic) = Some (length body)"
  shows "ExtractWatermark (w_lib w) key (body @ buildBlock e @ rest) = Inr p"
proof -
  have "length e < 2 ^ 32" using assms(4) by (simp add: buildBlock_def)
  moreover have "decrypt (w_lib w) key e = Inr p"
    using encrypt_run [OF assms(1)] decrypt_encrypted [OF assms(2,3), of key] by auto
  ultimately show ?thesis using extract_build [OF assms(5)] by (simp add: ExtractWatermark_def)
qed


text \<open>
  In a file of a type without an end marker that is exported twice, the first mark is the one
  that is found: the second exporter is never named.
\<close>

lemma first_mark_wins:
  assumes "find_sub wmMagic (body @ wmMagic) = Some (length body)" "length e1 < 2 ^ 32"
  shows "embedGeneric (body @ buildBlock e1) (buildBlock e2) = Inr (body @ buildBlock e1 @ buildBlock e2) \<and>
     ExtractWatermark lib key (body @ buildBlock e1 @ buildBlock e2) = decrypt lib key e1"
  using extract_build [OF assms, of "buildBlock e2"] by (simp add: embedGeneric_def ExtractWatermark_def)

text \<open>The magic overlaps itself: bytes that happen to end in its first five hide the mark.\<close>

lemma overlapping_magic:
  "find_sub wmMagic ([CHR 0xE7, CHR 0x1D, CHR 0xA0, CHR 0xF0, CHR 0x1C] @ wmMagic) = Some 0"
  by (simp add: wmMagic_def)

definition mark_world :: world where
  "mark_world = (sample_world empty_db)\<lparr>w_lib := sample_lib\<lparr>lib_json_marshal := flat_marshal,
     lib_json_value := flat_unmarshal\<rparr>\<rparr>"

definition sample_payload :: WatermarkPayload where
  "sample_payload = \<lparr>wp_Version = 1, wp_ExportID = ''e'', wp_DocumentID = ''d'', wp_UserID = ''u'',
     wp_ExportedAt = ''t'', wp_ClientIP = ''i'', wp_Fingerprint = ''f''\<rparr>"

lemma mark_laws: "watermark_laws (w_lib mark_world)"
proof -
  have "take (length key + length nonce) (key @ nonce @ x) = key @ nonce" for key nonce x :: bytes by simp
  then show ?thesis
    using flat_json_objects [of sample_lib]
    by (simp add: watermark_laws_def mark_world_def sample_lib_def sample_bytes_def sample_b64_def sample_seal_def
        sample_open_def Let_def)
qed


end
