(* ===== verification/AuditQueries.thy ===== *)
theory AuditQueries
  imports Queries AuditChain
begin

text \<open>
  The list queries of backend/db/queries/audit.sql and the statements of
  audit\_verification.sql, over the table audit\_verifications of migration 000005 with its
  policies, its checks and its unique index on the one active run.
\<close>

section \<open>audit.sql\<close>

record AuditListFilter =
  al_UserID :: "uuid option"
  al_Role :: "string option"
  al_Action :: "string option"
  al_ResourceType :: "string option"
  al_ResourceID :: "uuid option"
  al_CaseID :: "uuid option"
  al_From :: "time option"
  al_To :: "time option"

definition audit_matches :: "AuditListFilter \<Rightarrow> audit_row \<Rightarrow> bool" where [run_defs]:
  "audit_matches f a \<longleftrightarrow> opt_filter (al_UserID f) (\<lambda>u. a_user_id a = Some u) \<and>
     opt_filter (al_Role f) (\<lambda>r. a_role a = Some r) \<and> opt_filter (al_Action f) (\<lambda>x. a_action a = x) \<and>
     opt_filter (al_ResourceType f) (\<lambda>x. a_resource_type a = x) \<and>
     opt_filter (al_ResourceID f) (\<lambda>x. a_resource_id a = Some x) \<and>
     opt_filter (al_CaseID f) (\<lambda>x. a_case_id a = Some x) \<and>
     opt_filter (al_From f) (\<lambda>t. t \<le> a_timestamp a) \<and> opt_filter (al_To f) (\<lambda>t. a_timestamp a < t)"

definition q_ListAuditEntriesFiltered :: "AuditListFilter \<Rightarrow> int \<Rightarrow> int \<Rightarrow> audit_row list op" where [run_defs]:
  "q_ListAuditEntriesFiltered f lim off = query (\<lambda>d c now. paged lim off (sort_key (\<lambda>a. - seq_of a)
     (filter (audit_matches f) (filter (audit_log_select d c) (t_audit_log d)))))"

definition q_CountAuditEntriesFiltered :: "AuditListFilter \<Rightarrow> int op" where [run_defs]:
  "q_CountAuditEntriesFiltered f = query (\<lambda>d c now.
     Inr (int (length (filter (audit_matches f) (filter (audit_log_select d c) (t_audit_log d))))))"

section \<open>audit_verification.sql\<close>

text \<open>The policies of the table let only administrators in.\<close>

definition verifications_select :: "app_ctx \<Rightarrow> bool" where [run_defs]:
  "verifications_select c \<longleftrightarrow> app_admin c"

definition verifications_insert :: "app_ctx \<Rightarrow> bool" where [run_defs]:
  "verifications_insert c \<longleftrightarrow> app_admin c \<and> cur_user c \<noteq> None"

definition verifications_update :: "app_ctx \<Rightarrow> bool" where [run_defs]:
  "verifications_update c \<longleftrightarrow> app_admin c"

definition verification_active :: "verification_row \<Rightarrow> bool" where [run_defs]:
  "verification_active v \<longleftrightarrow> v_status v \<in> {''QUEUED'', ''RUNNING''}"

definition verification_valid :: "verification_row \<Rightarrow> (bool \<times> gerr) list" where [run_defs]:
  "verification_valid v =
    [(list_all (\<lambda>t. case t of None \<Rightarrow> True | Some s \<Rightarrow> text_ok s)
        [v_requested_by_role v, v_failure_type v, v_failure_reason v], PgError ''22021'' ''''),
     (v_status v \<in> {''QUEUED'', ''RUNNING'', ''VERIFIED'', ''INTEGRITY_FAILURE'', ''FAILED''},
        PgError ''23514'' ''audit_verifications_status_check''),
     ((v_status v = ''QUEUED'' \<and> v_started_at v = None \<and> v_completed_at v = None) \<or>
      (v_status v = ''RUNNING'' \<and> v_started_at v \<noteq> None \<and> v_completed_at v = None) \<or>
      (v_status v \<in> {''VERIFIED'', ''INTEGRITY_FAILURE''} \<and> v_started_at v \<noteq> None \<and> v_completed_at v \<noteq> None) \<or>
      (v_status v = ''FAILED'' \<and> v_completed_at v \<noteq> None),
        PgError ''23514'' ''audit_verifications_lifecycle_timestamps_check''),
     ((v_status v \<in> {''INTEGRITY_FAILURE'', ''FAILED''} \<and> v_failure_type v \<noteq> None) \<or>
      (v_status v \<notin> {''INTEGRITY_FAILURE'', ''FAILED''} \<and> v_failed_entry_id v = None \<and> v_failed_seq v = None \<and>
       v_failure_type v = None \<and> v_failure_reason v = None),
        PgError ''23514'' ''audit_verifications_failure_fields_check'')]"

text \<open>The unique index over the constant 1 of the rows that are queued or running.\<close>

definition single_active :: "database \<Rightarrow> verification_row \<Rightarrow> bool" where [run_defs]:
  "single_active d v \<longleftrightarrow> \<not> verification_active v \<or>
     \<not> list_ex (\<lambda>x. v_id x \<noteq> v_id v \<and> verification_active x) (t_verifications d)"

definition active_conflict :: gerr where [run_defs]:
  "active_conflict = PgError ''23505'' ''idx_audit_verifications_single_active''"

definition verifications_checks :: "database \<Rightarrow> app_ctx \<Rightarrow> verification_row \<Rightarrow> (bool \<times> gerr) list" where [run_defs]:
  "verifications_checks d c v = (verifications_insert c \<and> verifications_select c, rls_error ''audit_verifications'') #
     verification_valid v @
    [(\<not> list_ex (\<lambda>x. v_id x = v_id v) (t_verifications d), PgError ''23505'' ''audit_verifications_pkey''),
     (single_active d v, active_conflict),
     (user_exists d (v_requested_by_user_id v), PgError ''23503'' ''audit_verifications_requested_by_user_id_fkey'')]"

definition q_CreateAuditVerification :: "uuid \<Rightarrow> string option \<Rightarrow> verification_row op" where [run_defs]:
  "q_CreateAuditVerification u role = exec_new (\<lambda>i lib d c now.
     let v = \<lparr>v_id = i, v_requested_by_user_id = u, v_requested_by_role = role, v_status = ''QUEUED'',
       v_entries_checked = 0, v_total_entries = None, v_last_seq_checked = None, v_failed_entry_id = None,
       v_failed_seq = None, v_failure_type = None, v_failure_reason = None, v_started_at = None,
       v_completed_at = None, v_created_at = now, v_updated_at = now\<rparr> in
     checked (verifications_checks d c v) (v, d\<lparr>t_verifications := t_verifications d @ [v]\<rparr>))"

definition visible_verifications :: "database \<Rightarrow> app_ctx \<Rightarrow> verification_row list" where [run_defs]:
  "visible_verifications d c = filter (\<lambda>_. verifications_select c) (t_verifications d)"

definition newest_first :: "verification_row list \<Rightarrow> verification_row list" where [run_defs]:
  "newest_first = sort_key (\<lambda>v. - v_created_at v)"

definition q_GetActiveAuditVerification :: "verification_row op" where [run_defs]:
  "q_GetActiveAuditVerification = query (\<lambda>d c now.
     one (newest_first (filter verification_active (visible_verifications d c))))"

definition q_GetAuditVerificationByID :: "uuid \<Rightarrow> verification_row op" where [run_defs]:
  "q_GetAuditVerificationByID i = query (\<lambda>d c now. one (filter (\<lambda>v. v_id v = i) (visible_verifications d c)))"

definition q_GetLatestAuditVerification :: "verification_row op" where [run_defs]:
  "q_GetLatestAuditVerification = query (\<lambda>d c now. one (newest_first (visible_verifications d c)))"

record VerificationListFilter =
  vf_Status :: "string option"
  vf_RequestedBy :: "uuid option"
  vf_From :: "time option"
  vf_To :: "time option"

definition verification_matches :: "VerificationListFilter \<Rightarrow> verification_row \<Rightarrow> bool" where [run_defs]:
  "verification_matches f v \<longleftrightarrow> opt_filter (vf_Status f) (\<lambda>s. v_status v = s) \<and>
     opt_filter (vf_RequestedBy f) (\<lambda>u. v_requested_by_user_id v = u) \<and>
     opt_filter (vf_From f) (\<lambda>t. t \<le> v_created_at v) \<and> opt_filter (vf_To f) (\<lambda>t. v_created_at v < t)"

definition q_ListAuditVerificationsFiltered ::
    "VerificationListFilter \<Rightarrow> int \<Rightarrow> int \<Rightarrow> verification_row list op" where [run_defs]:
  "q_ListAuditVerificationsFiltered f lim off = query (\<lambda>d c now.
     paged lim off (newest_first (filter (verification_matches f) (visible_verifications d c))))"

definition q_CountAuditVerificationsFiltered :: "VerificationListFilter \<Rightarrow> int op" where [run_defs]:
  "q_CountAuditVerificationsFiltered f = query (\<lambda>d c now.
     Inr (int (length (filter (verification_matches f) (visible_verifications d c)))))"

text \<open>An UPDATE of the row with an identifier, if its status allows.\<close>

definition update_verification ::
    "uuid \<Rightarrow> (string \<Rightarrow> bool) \<Rightarrow> (time \<Rightarrow> verification_row \<Rightarrow> verification_row) \<Rightarrow> verification_row op" where [run_defs]:
  "update_verification i from f = exec (\<lambda>lib d c now.
     let p = (\<lambda>v. v_id v = i \<and> from (v_status v) \<and> verifications_update c \<and> verifications_select c) in
     case filter p (t_verifications d) of
       [] \<Rightarrow> Inl ErrNoRows
     | v # _ \<Rightarrow> checked (verification_valid (f now v) @ [(single_active d (f now v), active_conflict)])
         (f now v, d\<lparr>t_verifications := update_where p (f now) (t_verifications d)\<rparr>))"

definition q_MarkAuditVerificationRunning :: "uuid \<Rightarrow> int \<Rightarrow> verification_row op" where [run_defs]:
  "q_MarkAuditVerificationRunning i n = update_verification i (\<lambda>s. s = ''QUEUED'') (\<lambda>now v.
     v\<lparr>v_status := ''RUNNING'', v_started_at := Some now, v_total_entries := Some n, v_updated_at := now\<rparr>)"

definition q_UpdateAuditVerificationProgress :: "uuid \<Rightarrow> int \<Rightarrow> int \<Rightarrow> unit op" where [run_defs]:
  "q_UpdateAuditVerificationProgress i n s = tryE (update_verification i (\<lambda>s. s = ''RUNNING'') (\<lambda>now v.
     v\<lparr>v_entries_checked := n, v_last_seq_checked := Some s, v_updated_at := now\<rparr>))
     (\<lambda>e. if is_no_rows e then ret () else fail e) (\<lambda>_. ret ())"

definition q_CompleteAuditVerification :: "uuid \<Rightarrow> string \<Rightarrow> int \<Rightarrow> uuid option \<Rightarrow> int option \<Rightarrow>
    string option \<Rightarrow> string option \<Rightarrow> verification_row op" where [run_defs]:
  "q_CompleteAuditVerification i status n failed_id failed_seq failure_type reason =
     update_verification i (\<lambda>_. True) (\<lambda>now v. v\<lparr>v_status := status, v_entries_checked := n,
       v_failed_entry_id := failed_id, v_failed_seq := failed_seq, v_failure_type := failure_type,
       v_failure_reason := reason, v_completed_at := Some now, v_updated_at := now\<rparr>)"

definition q_MarkAuditVerificationStale :: "uuid \<Rightarrow> string \<Rightarrow> verification_row op" where [run_defs]:
  "q_MarkAuditVerificationStale i reason = update_verification i (\<lambda>s. s \<in> {''QUEUED'', ''RUNNING''}) (\<lambda>now v.
     v\<lparr>v_status := ''FAILED'', v_failure_type := Some ''STALE_TIMEOUT'', v_failure_reason := Some reason,
       v_completed_at := Some now, v_updated_at := now\<rparr>)"

end
