(* ===== verification/Float64.thy ===== *)
theory Float64
  imports Prelude
begin

text \<open>
  Go's float64 as far as the program computes with it: the product, quotient and comparison
  of values that are not negative and neither subnormal nor infinite.  A value is a mantissa
  and an exponent of two; each operation rounds to 53 bits, to nearest, ties to even.
\<close>

type_synonym float64 = "int \<times> int"

definition round_half_even :: "int \<Rightarrow> int \<Rightarrow> int" where [run_defs]:
  "round_half_even a b = (let q = a div b; r = a mod b in
     if 2 * r < b \<or> (2 * r = b \<and> even q) then q else q + 1)"

fun bits :: "nat \<Rightarrow> nat" where
  "bits n = (if n = 0 then 0 else Suc (bits (n div 2)))"

declare bits.simps [simp del, run_defs]

text \<open>The float64 nearest to a quotient: the exponent leaves 53 bits before the point.\<close>

definition float_exponent :: "int \<Rightarrow> int \<Rightarrow> int" where [run_defs]:
  "float_exponent a b = (let k = int (bits (nat a)) - int (bits (nat b)) in
     if b * 2 ^ nat k \<le> a * 2 ^ nat (- k) then k - 52 else k - 53)"

definition float_round :: "int \<Rightarrow> int \<Rightarrow> float64" where [run_defs]:
  "float_round a b = (if a = 0 then (0, 0) else let e = float_exponent a b in
     (round_half_even (a * 2 ^ nat (- e)) (b * 2 ^ nat e), e))"

definition float_of_int :: "int \<Rightarrow> float64" where [run_defs]:
  "float_of_int n = float_round n 1"

definition float_div :: "float64 \<Rightarrow> float64 \<Rightarrow> float64" where [run_defs]:
  "float_div x y = (let (m, e) = float_round (fst x) (fst y) in (m, e + snd x - snd y))"

definition float_mult :: "float64 \<Rightarrow> float64 \<Rightarrow> float64" where [run_defs]:
  "float_mult x y = (let (m, e) = float_round (fst x * fst y) 1 in (m, e + snd x + snd y))"

definition float_less :: "float64 \<Rightarrow> float64 \<Rightarrow> bool" where [run_defs]:
  "float_less x y \<longleftrightarrow> fst x * 2 ^ nat (snd x - snd y) < fst y * 2 ^ nat (snd y - snd x)"

text \<open>\<^verbatim>\<open>float64(a) / float64(b) * 100\<close>.\<close>

definition float_percent :: "int \<Rightarrow> int \<Rightarrow> float64" where [run_defs]:
  "float_percent a b = float_mult (float_div (float_of_int a) (float_of_int b)) (float_of_int 100)"

end
