(* ===== verification/AuditService.thy ===== *)
theory AuditService
  imports AnchorService AuditQueries Float64
begin

text \<open>
  backend/internal/service/audit\_service.go and backend/internal/jobs/audit\_verification.go:
  reading the audit trail, and the runs that verify its chain in the background (requested,
  started by a worker, reported batch by batch, completed, or declared failed when they have
  gone silent).  The service owns the table audit\_verifications.
\<close>

section \<open>Constants and results\<close>

definition defaultVerifyBatchSize :: nat where [run_defs]:
  "defaultVerifyBatchSize = 1000"

definition staleQueuedThreshold :: time where [run_defs]:
  "staleQueuedThreshold = 5 * 60 * 1000000"

definition staleRunningThreshold :: time where [run_defs]:
  "staleRunningThreshold = 2 * 60 * 1000000"

definition workerIdentity :: app_identity where [run_defs]:
  "workerIdentity = \<lparr>UserID = 0xa002, Role = ''ADMIN''\<rparr>"

record AuditEntrySummary =
  es_ID :: uuid
  es_Seq :: int
  es_Timestamp :: time
  es_UserID :: "uuid option"
  es_Role :: "string option"
  es_Action :: string
  es_ResourceType :: string
  es_ResourceID :: "uuid option"
  es_CaseID :: "uuid option"
  es_Metadata :: bytes
  es_PrevHash :: string
  es_Hash :: string

record AuditListResult =
  ar_Entries :: "AuditEntrySummary list"
  ar_Meta :: Meta

record StartVerificationResult =
  sr_ID :: uuid
  sr_JobID :: string
  sr_Status :: string
  sr_CreatedAt :: time

record VerificationDetail =
  vd_ID :: uuid
  vd_JobID :: string
  vd_Status :: string
  vd_EntriesChecked :: int
  vd_TotalEntries :: "int option"
  vd_ProgressPercent :: "float64 option"
  vd_LastSeqChecked :: "int option"
  vd_FailedEntryID :: "uuid option"
  vd_FailedSeq :: "int option"
  vd_FailureType :: string
  vd_FailureReason :: string
  vd_RequestedByUserID :: uuid
  vd_RequestedByRole :: string
  vd_StartedAt :: "time option"
  vd_CompletedAt :: "time option"
  vd_CreatedAt :: time
  vd_UpdatedAt :: time

record VerificationListResult =
  vl_Verifications :: "VerificationDetail list"
  vl_Meta :: Meta

record IntegritySummary =
  is_TotalEntries :: int
  is_ChainHeadSeq :: "int option"
  is_ChainHeadHash :: string
  is_LastVerification :: "VerificationDetail option"

definition DeterministicTaskID :: "string \<Rightarrow> uuid \<Rightarrow> string" where [run_defs]:
  "DeterministicTaskID taskType i = taskType @ '':'' @ uuid_string i"

definition AuditVerifyChainJobID :: "uuid \<Rightarrow> string" where [run_defs]:
  "AuditVerifyChainJobID i = DeterministicTaskID ''audit:verify_chain'' i"

definition EnqueueVerifyAuditChain :: "uuid \<Rightarrow> unit op" where [run_defs]:
  "EnqueueVerifyAuditChain i = enqueue ''audit:verify_chain'' i"

definition stringOrEmpty :: "string option \<Rightarrow> string" where [run_defs]:
  "stringOrEmpty s = (case s of None \<Rightarrow> '''' | Some t \<Rightarrow> t)"

definition nilIfEmptyString :: "string \<Rightarrow> string option" where [run_defs]:
  "nilIfEmptyString s = (if s = '''' then None else Some s)"

definition hexOrEmpty :: "bytes option \<Rightarrow> string" where [run_defs]:
  "hexOrEmpty b = (if slice_bytes b = [] then '''' else hex_encode (slice_bytes b))"

definition toAuditEntrySummary :: "audit_row \<Rightarrow> AuditEntrySummary" where [run_defs]:
  "toAuditEntrySummary r = \<lparr>es_ID = a_id r, es_Seq = (case a_seq r of None \<Rightarrow> 0 | Some s \<Rightarrow> s),
     es_Timestamp = a_timestamp r, es_UserID = a_user_id r, es_Role = a_role r, es_Action = a_action r,
     es_ResourceType = a_resource_type r, es_ResourceID = a_resource_id r, es_CaseID = a_case_id r,
     es_Metadata = a_metadata r, es_PrevHash = hexOrEmpty (a_prev_hash r), es_Hash = hex_encode (a_hash r)\<rparr>"

definition clamped_percent :: "int \<Rightarrow> int \<Rightarrow> float64" where [run_defs]:
  "clamped_percent n total_entries = (let pct = float_percent n total_entries in
     if float_less (float_of_int 100) pct then float_of_int 100 else pct)"

definition toVerificationDetail :: "verification_row \<Rightarrow> VerificationDetail" where [run_defs]:
  "toVerificationDetail r = \<lparr>vd_ID = v_id r, vd_JobID = AuditVerifyChainJobID (v_id r), vd_Status = v_status r,
     vd_EntriesChecked = v_entries_checked r, vd_TotalEntries = v_total_entries r,
     vd_ProgressPercent = (case v_total_entries r of None \<Rightarrow> None
       | Some n \<Rightarrow> if 0 < n then Some (clamped_percent (v_entries_checked r) n) else None),
     vd_LastSeqChecked = v_last_seq_checked r, vd_FailedEntryID = v_failed_entry_id r,
     vd_FailedSeq = v_failed_seq r, vd_FailureType = stringOrEmpty (v_failure_type r),
     vd_FailureReason = stringOrEmpty (v_failure_reason r), vd_RequestedByUserID = v_requested_by_user_id r,
     vd_RequestedByRole = stringOrEmpty (v_requested_by_role r), vd_StartedAt = v_started_at r,
     vd_CompletedAt = v_completed_at r, vd_CreatedAt = v_created_at r, vd_UpdatedAt = v_updated_at r\<rparr>"

definition isActiveVerificationConflict :: "gerr \<Rightarrow> bool" where [run_defs]:
  "isActiveVerificationConflict e = (case as_pg_error e of None \<Rightarrow> False
     | Some (code, con) \<Rightarrow> code = ''23505'' \<and> con = ''idx_audit_verifications_single_active'')"

definition need_audit :: "authenticated_user \<Rightarrow> action \<Rightarrow> 'a op \<Rightarrow> 'a op" where [run_defs]:
  "need_audit user act k = tryE (HasPermission user act) (\<lambda>e. fail (ErrInternal e))
     (\<lambda>allowed. ensure allowed (ErrForbidden genericDocumentForbiddenMessage) k)"

section \<open>Reading the trail\<close>

definition listed_event :: "authenticated_user \<Rightarrow> nat \<Rightarrow> int \<Rightarrow> event" where [run_defs]:
  "listed_event user n found = \<lparr>ev_action = ''AUDIT_ACCESSED'', ev_resource_type = ''audit_log'',
     ev_resource_id = None, ev_user_id = Some (au_ID user), ev_role = effectiveCaseRole user, ev_case_id = None,
     ev_metadata = JObj [(''result_count'', JInt (int n)), (''total'', JInt found)]\<rparr>"

definition ListAudit :: "authenticated_user \<Rightarrow> AuditListFilter \<Rightarrow> Pagination \<Rightarrow> AuditListResult op" where [run_defs]:
  "ListAudit user f page = need_audit user ''audit:read'' (
     tryE (WithTx (case_ident user) (
         try_wrap (q_ListAuditEntriesFiltered f (sint (Limit page)) (sint (Offset page))) ''list audit entries'' (\<lambda>rows.
         bindE (q_CountAuditEntriesFiltered f) (\<lambda>n. ret (rows, n)))))
       (\<lambda>e. fail (ErrInternal e))
       (\<lambda>(rows, n). bindE (Record (listed_event user (length rows) n)) (\<lambda>_.
          ret \<lparr>ar_Entries = map toAuditEntrySummary rows, ar_Meta = BuildMeta page n\<rparr>)))"

section \<open>Requesting a run\<close>

definition requested_event :: "authenticated_user \<Rightarrow> uuid \<Rightarrow> bool \<Rightarrow> event" where [run_defs]:
  "requested_event user i createdNew = \<lparr>ev_action = ''AUDIT_CHAIN_VERIFICATION_REQUESTED'',
     ev_resource_type = ''audit_verification'', ev_resource_id = Some i, ev_user_id = Some (au_ID user),
     ev_role = effectiveCaseRole user, ev_case_id = None,
     ev_metadata = JObj [(''deduplicated_to_existing_run'', JBool (\<not> createdNew))]\<rparr>"

text \<open>The new run, or the active one that keeps it from being created; the flag tells which.\<close>

definition create_or_find :: "authenticated_user \<Rightarrow> (verification_row \<times> bool) op" where [run_defs]:
  "create_or_find user = tryE (WithTx (case_ident user)
       (q_CreateAuditVerification (au_ID user) (nilIfEmptyString (effectiveCaseRole user))))
     (\<lambda>e. if \<not> isActiveVerificationConflict e then fail (ErrInternal (Wrap ''create verification'' e))
        else tryE (WithTx (case_ident user) q_GetActiveAuditVerification)
          (\<lambda>e. fail (ErrInternal (Wrap ''load active verification after conflict'' e)))
          (\<lambda>row. ret (row, False)))
     (\<lambda>row. ret (row, True))"

definition StartVerification :: "authenticated_user \<Rightarrow> StartVerificationResult op" where [run_defs]:
  "StartVerification user = need_audit user ''audit:verify'' (
     bindE (create_or_find user) (\<lambda>(row, createdNew).
     bindE (if createdNew then tryE (EnqueueVerifyAuditChain (v_id row)) (\<lambda>e. fail (ErrInternal e)) ret
            else ret ()) (\<lambda>_.
     bindE (Record (requested_event user (v_id row) createdNew)) (\<lambda>_.
     ret \<lparr>sr_ID = v_id row, sr_JobID = AuditVerifyChainJobID (v_id row), sr_Status = v_status row,
          sr_CreatedAt = v_created_at row\<rparr>))))"

end
