(* ===== verification/AuditRun.thy ===== *)
theory AuditRun
  imports AuditService CandidateVerification
begin

text \<open>
  The background run of backend/internal/service/audit\_service.go: the worker's traversal of
  the chain in pages, its completion, the error handler of
  backend/internal/jobs/audit\_verification.go, and the reads that declare a silent run failed.
\<close>

section \<open>Silent runs\<close>

definition stale_after :: "string \<Rightarrow> time" where [run_defs]:
  "stale_after status = (if status = ''QUEUED'' then staleQueuedThreshold else staleRunningThreshold)"

definition staleReason :: string where [run_defs]:
  "staleReason = ''no progress was recorded for longer than expected '' @ emdash @
     '' the verification worker is presumed to have stopped unexpectedly''"

definition reconcileStale :: "verification_row \<Rightarrow> verification_row op" where [run_defs]:
  "reconcileStale row =
     (if v_status row \<noteq> ''QUEUED'' \<and> v_status row \<noteq> ''RUNNING'' then ret row
      else bindE time_now (\<lambda>now.
        if now - v_updated_at row < stale_after (v_status row) then ret row
        else tryE (q_MarkAuditVerificationStale (v_id row) staleReason)
          (\<lambda>e. if is_no_rows e then q_GetAuditVerificationByID (v_id row)
             else fail (Wrap ''mark verification stale'' e)) ret))"

definition GetVerification :: "authenticated_user \<Rightarrow> uuid \<Rightarrow> VerificationDetail op" where [run_defs]:
  "GetVerification user i = need_audit user ''audit:verify'' (
     tryE (WithTx (case_ident user) (bindE (q_GetAuditVerificationByID i) reconcileStale))
       (\<lambda>e. if is_no_rows e then fail (ErrNotFound ''Verification not found'') else fail (ErrInternal e))
       (\<lambda>row. ret (toVerificationDetail row)))"

definition ListVerifications ::
    "authenticated_user \<Rightarrow> VerificationListFilter \<Rightarrow> Pagination \<Rightarrow> VerificationListResult op" where [run_defs]:
  "ListVerifications user f page = need_audit user ''audit:verify'' (
     tryE (WithTx (case_ident user) (
         try_wrap (q_ListAuditVerificationsFiltered f (sint (Limit page)) (sint (Offset page))) ''list verifications''
         (\<lambda>rows. bindE (mapE (\<lambda>row. try_wrap (reconcileStale row)
             (''reconcile verification '' @ uuid_string (v_id row)) ret) rows) (\<lambda>reconciled.
         bindE (q_CountAuditVerificationsFiltered f) (\<lambda>n. ret (reconciled, n))))))
       (\<lambda>e. fail (ErrInternal e))
       (\<lambda>(rows, n). ret \<lparr>vl_Verifications = map toVerificationDetail rows, vl_Meta = BuildMeta page n\<rparr>))"

text \<open>A statement whose missing row is a value.\<close>

definition row_or_none :: "'a op \<Rightarrow> string \<Rightarrow> 'a option op" where [run_defs]:
  "row_or_none m msg = tryE m (\<lambda>e. if is_no_rows e then ret None else fail (Wrap msg e)) (\<lambda>x. ret (Some x))"

definition GetIntegritySummary :: "authenticated_user \<Rightarrow> IntegritySummary op" where [run_defs]:
  "GetIntegritySummary user = need_audit user ''audit:verify'' (
     tryE (WithTx (case_ident user) (
         try_wrap q_CountAuditEntries ''count audit entries'' (\<lambda>n.
         bindE (row_or_none q_GetLatestAuditEntry ''get chain head'') (\<lambda>latest.
         bindE (row_or_none q_GetLatestAuditVerification ''get latest verification'') (\<lambda>lastRun.
         bindE (case lastRun of None \<Rightarrow> ret None
            | Some v \<Rightarrow> try_wrap (reconcileStale v) ''reconcile latest verification''
                (\<lambda>v'. ret (Some (toVerificationDetail v')))) (\<lambda>detail.
         ret \<lparr>is_TotalEntries = n,
           is_ChainHeadSeq = (case latest of None \<Rightarrow> None | Some a \<Rightarrow> a_seq a),
           is_ChainHeadHash = (case latest of None \<Rightarrow> '''' | Some a \<Rightarrow> hex_encode (a_hash a)),
           is_LastVerification = detail\<rparr>))))))
       (\<lambda>e. fail (ErrInternal e)) ret)"

section \<open>Progress on the event bus\<close>

record AuditVerificationData =
  vp_VerificationID :: string
  vp_Status :: string
  vp_EntriesChecked :: int
  vp_TotalEntries :: "int option"
  vp_ProgressPct :: "float64 option"
  vp_FailedEntryID :: "string option"
  vp_FailureType :: string
  vp_FailureReason :: string

definition verification_data :: "uuid \<Rightarrow> string \<Rightarrow> int \<Rightarrow> AuditVerificationData" where [run_defs]:
  "verification_data i status n = \<lparr>vp_VerificationID = uuid_string i, vp_Status = status, vp_EntriesChecked = n,
     vp_TotalEntries = None, vp_ProgressPct = None, vp_FailedEntryID = None, vp_FailureType = '''',
     vp_FailureReason = ''''\<rparr>"

text \<open>The JSON members, without those that \<^verbatim>\<open>omitempty\<close> drops.\<close>

definition optional_member :: "string \<Rightarrow> json option \<Rightarrow> (string \<times> json) list" where [run_defs]:
  "optional_member k v = (case v of None \<Rightarrow> [] | Some j \<Rightarrow> [(k, j)])"

definition data_members :: "library \<Rightarrow> AuditVerificationData \<Rightarrow> (string \<times> json) list" where [run_defs]:
  "data_members lib d = [(''verification_id'', JStr (vp_VerificationID d)), (''status'', JStr (vp_Status d)),
     (''entries_checked'', JInt (vp_EntriesChecked d))] @
     optional_member ''total_entries'' (map_option JInt (vp_TotalEntries d)) @
     optional_member ''progress_percent'' (map_option (\<lambda>x. JNum (lib_float_text lib x)) (vp_ProgressPct d)) @
     optional_member ''failed_entry_id'' (map_option JStr (vp_FailedEntryID d)) @
     optional_member ''failure_type'' (map_option JStr (nilIfEmptyString (vp_FailureType d))) @
     optional_member ''failure_reason'' (map_option JStr (nilIfEmptyString (vp_FailureReason d)))"

definition publish_verification :: "string \<Rightarrow> uuid \<Rightarrow> AuditVerificationData \<Rightarrow> unit op" where [run_defs]:
  "publish_verification ty i d = bindE (get_world w_lib) (\<lambda>lib.
     publish ty ''audit_verification'' (uuid_string i) (data_members lib d))"

definition progressEventData :: "uuid \<Rightarrow> int \<Rightarrow> int \<Rightarrow> AuditVerificationData" where [run_defs]:
  "progressEventData i n n_all = (let d = verification_data i ''RUNNING'' n in
     if 0 < n_all then d\<lparr>vp_TotalEntries := Some n_all, vp_ProgressPct := Some (float_percent n n_all)\<rparr> else d)"

section \<open>The pages\<close>

text \<open>One iteration of the loop: it returns, or goes on from a hash, a position and a count.\<close>

datatype page = Finished int int "batch_result option" | More "bytes option" int int

definition next_seq :: "int \<Rightarrow> audit_row list \<Rightarrow> batch_result \<Rightarrow> int" where [run_defs]:
  "next_seq s rows result = (case (if br_OK result then a_seq (last rows) else br_FailedSeq result) of
     None \<Rightarrow> s | Some s' \<Rightarrow> s')"

definition page_after :: "int \<Rightarrow> int \<Rightarrow> audit_row list \<Rightarrow> batch_result \<Rightarrow> page" where [run_defs]:
  "page_after n s rows result =
     (if \<not> br_OK result then Finished n s (Some result)
      else if length rows < defaultVerifyBatchSize then Finished n s None
      else More (br_LastHash result) s n)"

definition verify_rows :: "uuid \<Rightarrow> int \<Rightarrow> int \<Rightarrow> int \<Rightarrow> audit_row list \<Rightarrow> batch_result \<Rightarrow> page op" where [run_defs]:
  "verify_rows i n_all s n rows result =
     (let n' = n + br_EntriesChecked result; s' = next_seq s rows result in
      try_wrap (WithTx workerIdentity (q_UpdateAuditVerificationProgress i n' s')) ''persist progress'' (\<lambda>_.
      bindE (publish_verification ''AUDIT_VERIFICATION_PROGRESS'' i (progressEventData i n' n_all)) (\<lambda>_.
      ret (page_after n' s' rows result))))"

definition verify_page :: "uuid \<Rightarrow> int \<Rightarrow> bytes option \<Rightarrow> int \<Rightarrow> int \<Rightarrow> page op" where [run_defs]:
  "verify_page i n_all expectedPrev s n =
     try_wrap (infra (ret ())) ''verification cancelled'' (\<lambda>_.
     try_wrap (WithTx workerIdentity (q_ListAuditEntriesFromSeq s defaultVerifyBatchSize))
       (''list audit entries from seq '' @ dec_int s) (\<lambda>rows.
     if rows = [] then ret (Finished n s None)
     else bindE (get_world (\<lambda>w. VerifyBatch (w_lib w) rows expectedPrev)) (verify_rows i n_all s n rows)))"

text \<open>
  A page that goes on has left the log alone and moved past a row of it, so the rows ahead
  become fewer: the loop ends.
\<close>

definition rows_ahead :: "int \<Rightarrow> world \<Rightarrow> nat" where
  "rows_ahead s w = length (filter (after_seq s) (t_audit_log (w_db w)))"

lemma update_verification_log:
  "update_verification i from f w = (r, w') \<Longrightarrow> t_audit_log (w_db w') = t_audit_log (w_db w)"
  unfolding update_verification_def exec_def Let_def
  by (auto simp: infra_run checked_def split: option.splits sum.splits prod.splits list.splits)

lemma progress_log:
  assumes "WithTx i (q_UpdateAuditVerificationProgress v n s) w = (Inr u, w')"
  shows "t_audit_log (w_db w') = t_audit_log (w_db w)"
  using assms unfolding q_UpdateAuditVerificationProgress_def
  by (auto simp: WithTx_run tryE_Inr ret_run fail_run dest!: update_verification_log split: if_splits)

lemma listed_ahead:
  assumes "WithTx i (q_ListAuditEntriesFromSeq s k) w = (Inr rows, w')"
  shows "w_db w' = w_db w" "set rows \<subseteq> set (filter (after_seq s) (t_audit_log (w_db w)))"
  using assms by (auto simp: WithTx_run q_ListAuditEntriesFromSeq_def query_run audit_visible_def dest!: in_set_takeD)

lemma filter_length_less:
  assumes "\<And>x. P x \<Longrightarrow> Q x" "y \<in> set xs" "Q y" "\<not> P y"
  shows "length (filter P xs) < length (filter Q xs)"
proof -
  have "filter P xs = filter P (filter Q xs)" using assms(1) by (auto intro!: filter_cong)
  moreover have "y \<in> set (filter Q xs)" using assms by simp
  then have "length (filter P (filter Q xs)) < length (filter Q xs)"
    using assms(4) by (rule length_filter_less)
  ultimately show ?thesis by simp
qed

lemma verify_page_advances:
  assumes "verify_page i n_all p s n w = (Inr (More p' s' n'), w')"
  shows "rows_ahead s' w' < rows_ahead s w"
proof -
  from assms obtain rows w1 w2 w3 u where
    list: "WithTx workerIdentity (q_ListAuditEntriesFromSeq s defaultVerifyBatchSize) (faulted w) = (Inr rows, w1)"
    and rows: "rows \<noteq> []" and ok: "br_OK (VerifyBatch (w_lib w1) rows p)"
    and s': "s' = next_seq s rows (VerifyBatch (w_lib w1) rows p)"
    and up: "WithTx workerIdentity (q_UpdateAuditVerificationProgress i u s') w1 = (Inr (), w2)"
    and w': "w_db w' = w_db w2"
    by (auto simp: verify_page_def verify_rows_def page_after_def Let_def publish_verification_def publish_def tryE_Inr ret_run fail_run get_world_run
        infra_run split: if_splits option.splits)
  have row: "last rows \<in> set (t_audit_log (w_db w))" "after_seq s (last rows)"
    using listed_ahead(2) [OF list] last_in_set [OF rows] by auto
  have log: "t_audit_log (w_db w') = t_audit_log (w_db w)"
    using progress_log [OF up] listed_ahead(1) [OF list] w' by simp
  from row(2) obtain t where t: "a_seq (last rows) = Some t" "s < t" by (auto simp: after_seq_def split: option.splits)
  then have "s' = t" using s' ok by (simp add: next_seq_def)
  then show ?thesis unfolding rows_ahead_def log using row t
    by (intro filter_length_less [where y = "last rows"]) (auto simp: after_seq_def split: option.splits)
qed

function verify_loop :: "uuid \<Rightarrow> int \<Rightarrow> bytes option \<Rightarrow> int \<Rightarrow> int \<Rightarrow> (int \<times> int \<times> batch_result option) op" where
  "verify_loop i n_all p s n w = (case verify_page i n_all p s n w of
     (Inl e, w1) \<Rightarrow> (Inl e, w1)
   | (Inr (Finished n' s' failure), w1) \<Rightarrow> (Inr (n', s', failure), w1)
   | (Inr (More p' s' n'), w1) \<Rightarrow> verify_loop i n_all p' s' n' w1)"
  by pat_completeness auto

termination
  by (relation "measure (\<lambda>(i, n_all, p, s, n, w). rows_ahead s w)") (auto intro: verify_page_advances [OF sym])

declare verify_loop.simps [simp del]

definition verifyBatches :: "uuid \<Rightarrow> int \<Rightarrow> (int \<times> int \<times> batch_result option) op" where [run_defs]:
  "verifyBatches i n_all = verify_loop i n_all None 0 0"

section \<open>The run\<close>

definition completed_data :: "uuid \<Rightarrow> int \<Rightarrow> batch_result option \<Rightarrow> AuditVerificationData" where [run_defs]:
  "completed_data i n failure = (case failure of None \<Rightarrow> verification_data i ''VERIFIED'' n
     | Some b \<Rightarrow> (verification_data i ''INTEGRITY_FAILURE'' n)\<lparr>
         vp_FailedEntryID := map_option uuid_string (br_FailedEntryID b),
         vp_FailureType := br_FailureType b, vp_FailureReason := br_Reason b\<rparr>)"

definition completeVerification :: "uuid \<Rightarrow> int \<Rightarrow> batch_result option \<Rightarrow> verification_row op" where [run_defs]:
  "completeVerification i n failure =
     bindE (WithTx workerIdentity (case failure of
         None \<Rightarrow> q_CompleteAuditVerification i ''VERIFIED'' n None None None None
       | Some b \<Rightarrow> q_CompleteAuditVerification i ''INTEGRITY_FAILURE'' n (br_FailedEntryID b) (br_FailedSeq b)
           (nilIfEmptyString (br_FailureType b)) (nilIfEmptyString (br_Reason b)))) (\<lambda>completed.
     bindE (publish_verification (if failure = None then ''AUDIT_VERIFICATION_COMPLETED'' else ''AUDIT_INTEGRITY_FAILURE'')
       i (completed_data i n failure)) (\<lambda>_. ret completed))"

definition completed_event :: "uuid \<Rightarrow> uuid \<Rightarrow> verification_row \<Rightarrow> event" where [run_defs]:
  "completed_event i requester final = \<lparr>ev_action = ''AUDIT_CHAIN_VERIFICATION_COMPLETED'',
     ev_resource_type = ''audit_verification'', ev_resource_id = Some i, ev_user_id = Some requester,
     ev_role = ''ADMIN'', ev_case_id = None,
     ev_metadata = JObj [(''status'', JStr (v_status final)), (''entries_checked'', JInt (v_entries_checked final))]\<rparr>"

definition RunVerification :: "uuid \<Rightarrow> unit op" where [run_defs]:
  "RunVerification i =
     try_wrap (WithTx workerIdentity q_CountAuditEntries) ''count audit entries'' (\<lambda>n_all.
     tryE (WithTx workerIdentity (q_MarkAuditVerificationRunning i n_all))
       (\<lambda>e. if is_no_rows e then ret () else fail (Wrap ''mark verification running'' e))
       (\<lambda>v. bindE (publish_verification ''AUDIT_VERIFICATION_STARTED'' i
              ((verification_data i ''RUNNING'' 0)\<lparr>vp_TotalEntries := Some n_all\<rparr>)) (\<lambda>_.
          try_wrap (verifyBatches i n_all) ''verify batches'' (\<lambda>(n, s, failure).
          try_wrap (completeVerification i n failure) ''persist verification result'' (\<lambda>final.
          Record (completed_event i (v_requested_by_user_id v) final))))))"

section \<open>Operational failure\<close>

definition DeadlineExceeded :: gerr where [run_defs]:
  "DeadlineExceeded = DbFault ''context deadline exceeded''"

definition operational_failure :: "gerr \<Rightarrow> string \<times> string" where [run_defs]:
  "operational_failure cause = (if wraps cause DeadlineExceeded
     then (''TIMEOUT'', ''verification did not complete within the allotted time'')
     else (''DATABASE_ERROR'', ''verification could not complete due to an operational error''))"

definition MarkVerificationOperationallyFailed :: "uuid \<Rightarrow> gerr \<Rightarrow> unit op" where [run_defs]:
  "MarkVerificationOperationallyFailed i cause = (let (ft, reason) = operational_failure cause in
     WithTx workerIdentity (
       bindE (q_GetAuditVerificationByID i) (\<lambda>row.
       if v_status row \<noteq> ''QUEUED'' \<and> v_status row \<noteq> ''RUNNING'' then ret ()
       else bindE (q_CompleteAuditVerification i ''FAILED'' (v_entries_checked row) None None (Some ft) (Some reason)) (\<lambda>_.
         publish_verification ''AUDIT_VERIFICATION_FAILED'' i ((verification_data i ''FAILED'' (v_entries_checked row))
           \<lparr>vp_FailureType := ft, vp_FailureReason := reason\<rparr>)))))"

text \<open>After a failed attempt of a verification task; a failure of the handler is only logged.\<close>

definition verification_error_handler :: "uuid \<Rightarrow> int \<Rightarrow> int \<Rightarrow> gerr \<Rightarrow> unit op" where [run_defs]:
  "verification_error_handler i retried maxRetry e =
     (if \<not> isRetriesExhausted retried maxRetry e then ret ()
      else ignoring (MarkVerificationOperationallyFailed i e) (ret ()))"

end
