(* ===== verification/AuditRunFacts.thy ===== *)
theory AuditRunFacts
  imports AuditRun DocumentFacts
begin

text \<open>
  The verification run: what a page reads and decides, that pages of an ordered log compose
  to one verification of the whole log, and what the statements do to the row of a run.
\<close>

section \<open>Counting round trips\<close>

definition calls :: "nat \<Rightarrow> 'a op \<Rightarrow> bool" where
  "calls k m \<longleftrightarrow> (\<forall>w. w_fault_i (snd (m w)) \<le> w_fault_i w + k)"

lemma callsD: "calls k m \<Longrightarrow> m w = (r, w') \<Longrightarrow> w_fault_i w' \<le> w_fault_i w + k"
  by (metis calls_def snd_conv)

lemma calls_none: "calls 0 (ret x)" "calls 0 (fail e)" "calls 0 (get_world g)" "calls 0 (publish a b c d)"
  by (simp_all add: calls_def ret_def fail_def get_world_def publish_def)

lemma calls_infra:
  assumes "calls k m" shows "calls (Suc k) (infra m)"
proof -
  have "w_fault_i (snd (m (w\<lparr>w_fault_i := Suc (w_fault_i w)\<rparr>))) \<le> Suc (w_fault_i w) + k" for w
    using assms [unfolded calls_def, rule_format, of "w\<lparr>w_fault_i := Suc (w_fault_i w)\<rparr>"] by simp
  then show ?thesis by (auto simp: calls_def infra_def Let_def split: option.splits)
qed

lemma calls_tryE:
  assumes "calls k m" "\<And>e. calls l (h e)" "\<And>x. calls l (c x)" shows "calls (k + l) (tryE m h c)"
  unfolding calls_def
proof
  fix w
  obtain r w1 where m: "m w = (r, w1)" by fastforce
  have k: "w_fault_i w1 \<le> w_fault_i w + k" by (rule callsD [OF assms(1) m])
  show "w_fault_i (snd (tryE m h c w)) \<le> w_fault_i w + (k + l)"
  proof (cases r)
    case (Inl e)
    have "w_fault_i (snd (h e w1)) \<le> w_fault_i w1 + l" using assms(2) by (simp add: calls_def)
    with k show ?thesis by (simp add: tryE_def m Inl)
  next
    case (Inr x)
    have "w_fault_i (snd (c x w1)) \<le> w_fault_i w1 + l" using assms(3) by (simp add: calls_def)
    with k show ?thesis by (simp add: tryE_def m Inr)
  qed
qed

lemma calls_mono: "calls k m \<Longrightarrow> k \<le> l \<Longrightarrow> calls l m"
  unfolding calls_def by (meson add_left_mono order_trans)

lemma calls_statement: "calls 1 (query q)" "calls 1 (exec x)"
proof -
  have "calls 0 (\<lambda>w. (q (w_db w) (w_ctx w) (w_tx_now w), w))" for q :: "database \<Rightarrow> app_ctx \<Rightarrow> time \<Rightarrow> gerr + 'a"
    by (simp add: calls_def)
  from calls_infra [OF this] show "calls 1 (query q)" unfolding query_def by simp
  have "calls 0 (\<lambda>w. case x (w_lib w) (w_db w) (w_ctx w) (w_tx_now w) of
      Inl e \<Rightarrow> (Inl e, w) | Inr (y, d) \<Rightarrow> (Inr y, w\<lparr>w_db := d\<rparr>))"
    by (auto simp: calls_def split: sum.splits)
  from calls_infra [OF this] show "calls 1 (exec x)" unfolding exec_def by simp
qed

lemma calls_WithTx: "calls k fn \<Longrightarrow> calls (k + 4) (WithTx i fn)"
proof -
  let ?m = "try_wrap (begin_tx i) ''repository: begin transaction'' (\<lambda>_.
     try_wrap (infra (ret ())) ''repository: set app.user_id'' (\<lambda>_.
     try_wrap (infra (ret ())) ''repository: set app.role'' (\<lambda>_.
     bindE fn (\<lambda>x. try_wrap commit_tx ''repository: commit transaction'' (\<lambda>_. ret x)))))"
  assume fn: "calls k fn"
  have b: "calls 1 (begin_tx i)" unfolding begin_tx_def One_nat_def by (rule calls_infra) (simp add: calls_def)
  have u: "calls 1 (infra (ret ()))" unfolding One_nat_def by (rule calls_infra) (rule calls_none)
  have c: "calls 1 commit_tx" using u by (simp add: commit_tx_def)
  have f: "calls l (fail e)" for l and e :: gerr by (rule calls_mono [OF calls_none(2)]) simp
  have "calls (1 + (1 + (1 + (k + (1 + 0))))) ?m"
    by (intro calls_tryE b u c fn f calls_none(1))
  then have m: "calls (k + 4) ?m" by (rule calls_mono) simp
  show ?thesis unfolding calls_def
  proof
    fix w
    define body where "body = ?m"
    obtain r w1 where r: "body w = (r, w1)" by (rule prod.exhaust)
    have "w_fault_i w1 \<le> w_fault_i w + (k + 4)" by (rule callsD [OF m [folded body_def] r])
    moreover have "w_fault_i (snd (WithTx i fn w)) = w_fault_i w1"
      unfolding WithTx_def body_def [symmetric] r by (cases r) (simp_all add: rollback_def end_tx_def)
    ultimately show "w_fault_i (snd (WithTx i fn w)) \<le> w_fault_i w + (k + 4)" by simp
  qed
qed

section \<open>Pages of an ordered log\<close>

abbreviation audit_log :: "world \<Rightarrow> audit_row list" where
  "audit_log w \<equiv> t_audit_log (w_db w)"

definition ordered :: "audit_row list \<Rightarrow> bool" where
  "ordered log \<longleftrightarrow> sorted_wrt (<) (map seq_of log) \<and> (\<forall>a\<in>set log. a_seq a \<noteq> None)"

definition ahead :: "int \<Rightarrow> world \<Rightarrow> audit_row list" where
  "ahead s w = filter (after_seq s) (audit_log w)"

lemma after_seq_of: "a_seq a \<noteq> None \<Longrightarrow> after_seq s a \<longleftrightarrow> s < seq_of a"
  by (auto simp: after_seq_def seq_of_def)

lemma worker_admin [simp]: "app_admin (ident_ctx workerIdentity)"
  by (simp add: app_admin_def ident_ctx_def workerIdentity_def)

lemma ordered_ahead: "ordered (audit_log w) \<Longrightarrow> ordered (ahead s w)"
  unfolding ordered_def ahead_def by (auto simp: sorted_wrt_map intro: sorted_wrt_filter)

lemma listed_page:
  assumes "WithTx workerIdentity (q_ListAuditEntriesFromSeq s k) w = (Inr rows, w')" "ordered (audit_log w)"
  shows "rows = take k (ahead s w)"
proof -
  have "audit_visible (w_db w) (ident_ctx workerIdentity) = audit_log w"
    by (rule audit_visible_admin) (use assms(2) in \<open>simp_all add: ordered_def\<close>)
  then show ?thesis using assms(1) by (auto simp: WithTx_run q_ListAuditEntriesFromSeq_def query_run ahead_def)
qed

text \<open>The rows behind the last one of a page are the rest.\<close>

lemma ordered_split:
  assumes "ordered (xs @ ys)" "xs \<noteq> []"
  shows "filter (after_seq (seq_of (last xs))) (xs @ ys) = ys"
proof -
  have some: "a_seq a \<noteq> None" if "a \<in> set (xs @ ys)" for a using assms(1) that by (auto simp: ordered_def)
  have ys: "after_seq (seq_of (last xs)) y" if "y \<in> set ys" for y
    using that assms some [of y] by (auto simp: ordered_def sorted_wrt_append after_seq_of)
  have xs: "\<not> after_seq (seq_of (last xs)) x" if x: "x \<in> set xs" for x
  proof -
    obtain us vs where "xs = us @ x # vs" using x by (meson split_list)
    moreover have "sorted_wrt (<) (map seq_of xs)" using assms(1) by (simp add: ordered_def sorted_wrt_append)
    ultimately have "seq_of x \<le> seq_of (last xs)"
      by (cases vs rule: rev_cases) (auto simp: sorted_wrt_append)
    then show ?thesis using some [of x] x by (simp add: after_seq_of)
  qed
  show ?thesis using xs ys by (simp add: filter_empty_conv filter_id_conv)
qed

lemma ahead_next:
  assumes "ordered (audit_log w)" "audit_log w' = audit_log w" "rows = take k (ahead s w)" "rows \<noteq> []"
    and "a_seq (last rows) = Some t"
  shows "s < t" "ahead t w' = drop k (ahead s w)"
proof -
  have last: "last rows \<in> set (ahead s w)" using assms(3,4) by (metis in_set_takeD last_in_set)
  then show st: "s < t" using assms(5) by (auto simp: ahead_def after_seq_def)
  have "ahead t w' = filter (after_seq t) (ahead s w)"
    using st by (auto simp: ahead_def assms(2) after_seq_def intro!: filter_cong split: option.splits)
  also have "\<dots> = filter (after_seq (seq_of (last rows))) (rows @ drop k (ahead s w))"
    using assms(3,5) by (simp add: seq_of_def)
  also have "\<dots> = drop k (ahead s w)"
    by (rule ordered_split) (use ordered_ahead [OF assms(1), of s] assms(3,4) in simp_all)
  finally show "ahead t w' = drop k (ahead s w)" .
qed

section \<open>One page\<close>

lemma calls_update: "calls 1 (q_UpdateAuditVerificationProgress i m t)"
proof -
  have "calls (1 + 0) (q_UpdateAuditVerificationProgress i m t)"
    unfolding q_UpdateAuditVerificationProgress_def update_verification_def
    by (intro calls_tryE calls_statement) (simp_all add: calls_none)
  then show ?thesis by simp
qed

lemma calls_fail: "calls l (fail e)"
  by (rule calls_mono [OF calls_none(2)]) simp

lemma calls_publish: "calls 0 (publish_verification ty i d)"
proof -
  have "calls (0 + 0) (publish_verification ty i d)"
    unfolding publish_verification_def by (intro calls_tryE calls_none)
  then show ?thesis by simp
qed

lemma calls_verify_rows: "calls 5 (verify_rows i n_all s n rows result)"
proof -
  have "calls ((1 + 4) + (0 + 0)) (verify_rows i n_all s n rows result)"
    unfolding verify_rows_def Let_def
    by (intro calls_tryE calls_WithTx calls_update calls_publish calls_fail calls_none)
  then show ?thesis by simp
qed

lemma verify_page_calls: "calls 11 (verify_page i n_all p s n)"
proof -
  have c: "calls 1 (infra (ret ()))" unfolding One_nat_def by (intro calls_infra calls_none)
  have l: "calls 1 (q_ListAuditEntriesFromSeq s k)" for k
    unfolding q_ListAuditEntriesFromSeq_def by (rule calls_statement)
  have "calls (0 + 5) (bindE (get_world g) (verify_rows i n_all s n rows))" for g rows
    by (intro calls_tryE calls_none calls_fail calls_verify_rows)
  then have r: "calls 5 (if rows = [] then ret (Finished n s None) else bindE (get_world g) (verify_rows i n_all s n rows))"
    for g rows by (simp add: calls_mono [OF calls_none(1)])
  have "calls (1 + ((1 + 4) + 5)) (verify_page i n_all p s n)"
    unfolding verify_page_def by (intro calls_tryE c l calls_fail calls_WithTx r)
  then show ?thesis by simp
qed

text \<open>A run of a page that does not fail, in the parts that its callers look at.\<close>

lemma param_page: "param.guar (verify_page i n_all p s n)"
  unfolding verify_page_def verify_rows_def publish_verification_def q_ListAuditEntriesFromSeq_def
    q_UpdateAuditVerificationProgress_def update_verification_def Let_def
  by (auto intro!: param.guar_exec simp: params_same_def)

lemma verify_rows_run:
  "verify_rows i n_all s n rows result w = (Inr pg, w') \<Longrightarrow>
     pg = page_after (n + br_EntriesChecked result) (next_seq s rows result) rows result \<and>
     (\<exists>w2. WithTx workerIdentity (q_UpdateAuditVerificationProgress i (n + br_EntriesChecked result)
        (next_seq s rows result)) w = (Inr (), w2) \<and> w_db w' = w_db w2)"
  by (auto simp: verify_rows_def Let_def tryE_Inr fail_run ret_run get_world_run publish_verification_def publish_def)

lemma verify_page_run:
  assumes "verify_page i n_all p s n w = (Inr pg, w')" "ordered (audit_log w)"
  defines "rows \<equiv> take defaultVerifyBatchSize (ahead s w)"
  defines "result \<equiv> VerifyBatch (w_lib w) rows p"
  shows "if rows = [] then pg = Finished n s None \<and> w_db w' = w_db w
      else pg = page_after (n + br_EntriesChecked result) (next_seq s rows result) rows result \<and>
        (\<exists>w1 w2. w_db w1 = w_db w \<and> w_db w' = w_db w2 \<and> WithTx workerIdentity
          (q_UpdateAuditVerificationProgress i (n + br_EntriesChecked result) (next_seq s rows result)) w1 = (Inr (), w2))"
    and "w_lib w' = w_lib w" "audit_log w' = audit_log w"
proof -
  show "w_lib w' = w_lib w"
    using param.guarD [OF param_page, of w] assms(1) by (metis params_same_def snd_conv)
  from assms(1) obtain rows' w1 where
    list: "WithTx workerIdentity (q_ListAuditEntriesFromSeq s defaultVerifyBatchSize) (faulted w) = (Inr rows', w1)"
    and rest: "(if rows' = [] then ret (Finished n s None)
       else bindE (get_world (\<lambda>w. VerifyBatch (w_lib w) rows' p)) (verify_rows i n_all s n rows')) w1 = (Inr pg, w')"
    by (auto simp: verify_page_def tryE_Inr ret_run fail_run infra_run split: option.splits)
  have rows: "rows' = rows"
    using listed_page [OF list] assms(2) by (simp add: rows_def ahead_def)
  have w1: "w_db w1 = w_db w" using listed_ahead(1) [OF list] by simp
  have "param.guar (WithTx workerIdentity (q_ListAuditEntriesFromSeq s defaultVerifyBatchSize))"
    unfolding q_ListAuditEntriesFromSeq_def by auto
  from param.guarD [OF this, of "faulted w"] have "w_lib w1 = w_lib w" by (simp add: list params_same_def)
  with rest have run: "rows \<noteq> [] \<Longrightarrow> verify_rows i n_all s n rows result w1 = (Inr pg, w')"
    and none: "rows = [] \<Longrightarrow> pg = Finished n s None \<and> w' = w1"
    by (simp_all add: rows ret_run fail_run tryE_Inr get_world_run result_def)
  show main: "if rows = [] then pg = Finished n s None \<and> w_db w' = w_db w
      else pg = page_after (n + br_EntriesChecked result) (next_seq s rows result) rows result \<and>
        (\<exists>w1 w2. w_db w1 = w_db w \<and> w_db w' = w_db w2 \<and> WithTx workerIdentity
          (q_UpdateAuditVerificationProgress i (n + br_EntriesChecked result) (next_seq s rows result)) w1 = (Inr (), w2))"
    using none w1 verify_rows_run [OF run] by auto
  show "audit_log w' = audit_log w"
    using main progress_log by (auto split: if_splits)
qed

section \<open>The loop\<close>

text \<open>The verdict of a run against the one of a single verification of the same rows.\<close>

definition same_verdict :: "batch_result option \<Rightarrow> batch_result \<Rightarrow> bool" where
  "same_verdict failure r \<longleftrightarrow> (case failure of None \<Rightarrow> br_OK r
     | Some b \<Rightarrow> \<not> br_OK r \<and> b = r\<lparr>br_EntriesChecked := br_EntriesChecked b\<rparr>)"

text \<open>A page that goes on is full, and the rest of the rows is ahead of the next one.\<close>

lemma page_goes_on:
  assumes "verify_page i n_all p s n w = (Inr (More p' s' n'), w')" "ordered (audit_log w)"
  defines "rows \<equiv> take defaultVerifyBatchSize (ahead s w)"
  shows "length rows = defaultVerifyBatchSize" "ahead s' w' = drop defaultVerifyBatchSize (ahead s w)"
    and "br_OK (VerifyBatch (w_lib w) rows p)" "p' = br_LastHash (VerifyBatch (w_lib w) rows p)"
    and "n' = n + br_EntriesChecked (VerifyBatch (w_lib w) rows p)"
proof -
  note run = verify_page_run [OF assms(1,2), folded rows_def]
  have ne: "rows \<noteq> []" using run(1) by auto
  with run(1) have ok: "br_OK (VerifyBatch (w_lib w) rows p)" "p' = br_LastHash (VerifyBatch (w_lib w) rows p)"
    "n' = n + br_EntriesChecked (VerifyBatch (w_lib w) rows p)" and
    s': "s' = next_seq s rows (VerifyBatch (w_lib w) rows p)" and "\<not> length rows < defaultVerifyBatchSize"
    by (auto simp: page_after_def split: if_splits)
  then show "length rows = defaultVerifyBatchSize" by (simp add: rows_def)
  show "br_OK (VerifyBatch (w_lib w) rows p)" "p' = br_LastHash (VerifyBatch (w_lib w) rows p)"
    "n' = n + br_EntriesChecked (VerifyBatch (w_lib w) rows p)" by (rule ok)+
  have "last rows \<in> set (audit_log w)"
    using last_in_set [OF ne] by (auto simp: rows_def ahead_def dest: in_set_takeD)
  then obtain t where t: "a_seq (last rows) = Some t" using assms(2) by (auto simp: ordered_def)
  then have "s' = t" by (simp add: s' next_seq_def ok(1))
  then show "ahead s' w' = drop defaultVerifyBatchSize (ahead s w)"
    using ahead_next(2) [OF assms(2) run(3) rows_def [THEN meta_eq_to_obj_eq] ne t] by simp
qed

lemma verify_loop_result:
  assumes "verify_loop i n_all p s n w = (Inr (n', s', failure), w')" "ordered (audit_log w)"
  shows "n' = n + br_EntriesChecked (VerifyBatch (w_lib w) (ahead s w) p) \<and>
    same_verdict failure (VerifyBatch (w_lib w) (ahead s w) p) \<and>
    w_lib w' = w_lib w \<and> audit_log w' = audit_log w"
  using assms
proof (induction i n_all p s n w rule: verify_loop.induct)
  case (1 i n_all p s n w)
  let ?rows = "take defaultVerifyBatchSize (ahead s w)"
  let ?r = "VerifyBatch (w_lib w) ?rows p"
  from "1.prems"(1) obtain pg w1 where page: "verify_page i n_all p s n w = (Inr pg, w1)"
    by (auto simp: verify_loop.simps split: prod.splits sum.splits)
  note run = verify_page_run [OF page "1.prems"(2)]
  have none: "VerifyBatch (w_lib w) [] p = no_result\<lparr>br_OK := True, br_EntriesChecked := 0, br_LastHash := p\<rparr>"
    by (simp add: VerifyBatch_def)
  show ?case
  proof (cases pg)
    case (Finished m t f)
    then have fin: "n' = m" "failure = f" "w' = w1"
      using "1.prems"(1) page by (simp_all add: verify_loop.simps)
    show ?thesis
    proof (cases "?rows = []")
      case True
      then have "ahead s w = []" by (simp add: defaultVerifyBatchSize_def)
      then show ?thesis using run True Finished fin by (simp add: none same_verdict_def)
    next
      case False
      then have pg: "Finished m t f = page_after (n + br_EntriesChecked ?r) (next_seq s ?rows ?r) ?rows ?r"
        using run(1) Finished by simp
      have all: "ahead s w = ?rows @ drop defaultVerifyBatchSize (ahead s w)" by simp
      show ?thesis
      proof (cases "br_OK ?r")
        case True
        with pg have short: "length ?rows < defaultVerifyBatchSize" "f = None" "m = n + br_EntriesChecked ?r"
          by (auto simp: page_after_def split: if_splits)
        then have "?rows = ahead s w" by simp
        then show ?thesis using True short fin run(2,3) by (simp add: same_verdict_def)
      next
        case notok: False
        then have "VerifyBatch (w_lib w) (ahead s w) p = ?r"
          using verify_append [of "w_lib w" ?rows "drop defaultVerifyBatchSize (ahead s w)" p] by (simp add: Let_def)
        then show ?thesis using notok pg fin run(2,3) by (simp add: same_verdict_def page_after_def)
      qed
    qed
  next
    case (More p1 s1 n1)
    note goes_on = page_goes_on [OF page [unfolded More] "1.prems"(2)]
    have "verify_loop i n_all p1 s1 n1 w1 = (Inr (n', s', failure), w')"
      using "1.prems"(1) page More by (simp add: verify_loop.simps [of i n_all p])
    from "1.IH" [OF page [symmetric] refl More this] run(3) "1.prems"(2)
    have ih: "n' = n1 + br_EntriesChecked (VerifyBatch (w_lib w1) (ahead s1 w1) p1)"
      "same_verdict failure (VerifyBatch (w_lib w1) (ahead s1 w1) p1)" "w_lib w' = w_lib w1" "audit_log w' = audit_log w1"
      by simp_all
    have "VerifyBatch (w_lib w) (ahead s w) p = (let t = VerifyBatch (w_lib w1) (ahead s1 w1) p1 in
        t\<lparr>br_EntriesChecked := br_EntriesChecked ?r + br_EntriesChecked t\<rparr>)"
      using verify_append [of "w_lib w" ?rows "drop defaultVerifyBatchSize (ahead s w)" p] goes_on run(2)
      by (simp add: Let_def)
    then show ?thesis using ih goes_on(5) run(2,3)
      by (auto simp: same_verdict_def Let_def split: option.splits)
  qed
qed

lemma verify_loop_calls:
  assumes "ordered (audit_log w)"
  shows "w_fault_i (snd (verify_loop i n_all p s n w)) \<le> w_fault_i w + 11 * (length (ahead s w) div defaultVerifyBatchSize + 1)"
  using assms
proof (induction i n_all p s n w rule: verify_loop.induct)
  case (1 i n_all p s n w)
  obtain r w1 where page: "verify_page i n_all p s n w = (r, w1)" by fastforce
  then have one: "w_fault_i w1 \<le> w_fault_i w + 11" by (rule callsD [OF verify_page_calls])
  show ?case
  proof (cases "\<exists>p1 s1 n1. r = Inr (More p1 s1 n1)")
    case True
    then obtain p1 s1 n1 where r: "r = Inr (More p1 s1 n1)" by auto
    note goes_on = page_goes_on [OF page [unfolded r] "1.prems"]
    have "ordered (audit_log w1)" using verify_page_run(3) [OF page [unfolded r] "1.prems"] "1.prems" by simp
    then have ih: "w_fault_i (snd (verify_loop i n_all p1 s1 n1 w1)) \<le>
        w_fault_i w1 + 11 * (length (ahead s1 w1) div defaultVerifyBatchSize + 1)"
      using "1.IH" page r by metis
    have "length (ahead s w) = defaultVerifyBatchSize + length (ahead s1 w1)"
      using goes_on(1,2) by (simp add: min_def split: if_splits)
    then have "length (ahead s w) div defaultVerifyBatchSize = 1 + length (ahead s1 w1) div defaultVerifyBatchSize"
      by (simp add: defaultVerifyBatchSize_def)
    then show ?thesis using ih one by (simp add: verify_loop.simps [of i n_all p] page r)
  next
    case False
    then have "snd (verify_loop i n_all p s n w) = w1"
      by (auto simp: verify_loop.simps page split: sum.splits page.splits)
    then show ?thesis using one by simp
  qed
qed

section \<open>The row of a run\<close>

definition row_of :: "uuid \<Rightarrow> world \<Rightarrow> verification_row list" where
  "row_of i w = filter (\<lambda>v. v_id v = i) (t_verifications (w_db w))"

definition row_valid :: "verification_row \<Rightarrow> bool" where
  "row_valid v \<longleftrightarrow> list_all fst (verification_valid v)"

definition alone :: "uuid \<Rightarrow> world \<Rightarrow> bool" where
  "alone i w \<longleftrightarrow> (\<forall>x\<in>set (t_verifications (w_db w)). verification_active x \<longrightarrow> v_id x = i)"

definition faulty :: "world \<Rightarrow> bool" where
  "faulty w \<longleftrightarrow> (\<exists>k. w_faults w k \<noteq> None)"

lemma row_of_cong: "t_verifications (w_db w') = t_verifications (w_db w) \<Longrightarrow> row_of i w' = row_of i w"
  by (simp add: row_of_def)

lemma row_of_id: "row_of i w = [v] \<Longrightarrow> v_id v = i \<and> v \<in> set (t_verifications (w_db w))"
  by (auto simp: row_of_def filter_eq_Cons_iff)

lemma row_of_update:
  assumes "\<And>x. v_id (f x) = v_id x" "t_verifications d' = update_where p f (t_verifications (w_db w))"
  shows "filter (\<lambda>v. v_id v = i) (t_verifications d') = map (\<lambda>v. if p v then f v else v) (row_of i w)"
proof -
  have "((\<lambda>v. v_id v = i) \<circ> (\<lambda>v. if p v then f v else v)) = (\<lambda>v. v_id v = i)"
    using assms(1) by (auto simp: fun_eq_iff)
  then show ?thesis by (simp add: assms(2) update_where_def filter_map row_of_def)
qed

lemma update_rows:
  "filter (\<lambda>v. v_id v = i \<and> from (v_status v) \<and> verifications_update (ident_ctx workerIdentity) \<and>
     verifications_select (ident_ctx workerIdentity)) (t_verifications (w_db w)) =
   filter (\<lambda>v. from (v_status v)) (row_of i w)"
  by (simp add: row_of_def verifications_update_def verifications_select_def filter_filter)

lemma param_update [intro!]: "param.guar (update_verification i from f)"
  unfolding update_verification_def by (rule param_exec)

lemma update_run:
  assumes "update_verification i from f (started workerIdentity w) = (Inr v', w')" "row_of i w = [v]"
    and id: "\<And>t x. v_id (f t x) = v_id x"
  shows "from (v_status v) \<and> (\<exists>t. v' = f t v) \<and> row_of i w' = [v'] \<and> row_valid v' \<and>
    set (t_verifications (w_db w')) \<subseteq> set (t_verifications (w_db w)) \<union> {x. v_id x = i}"
proof -
  let ?c = "ident_ctx workerIdentity" and ?t = "w_clock w (w_clock_i w)"
  let ?p = "\<lambda>v. v_id v = i \<and> from (v_status v) \<and> verifications_update ?c \<and> verifications_select ?c"
  have p: "filter ?p (t_verifications (w_db w)) = (if from (v_status v) then [v] else [])"
    unfolding update_rows assms(2) by simp
  from assms(1) have v': "from (v_status v)" "v' = f ?t v" "row_valid v'" and
    tab: "t_verifications (w_db w') = update_where ?p (f ?t) (t_verifications (w_db w))"
    by (auto simp: update_verification_def exec_run Let_def p row_valid_def list_all_iff split: if_splits)
  have "v_id v = i" using row_of_id [OF assms(2)] by simp
  then have "?p v" using v'(1) by (simp add: verifications_update_def verifications_select_def)
  then have "row_of i w' = [v']"
    unfolding row_of_def [of i w'] row_of_update [where f = "f ?t", OF id tab] assms(2) by (simp add: v'(2))
  moreover have "set (t_verifications (w_db w')) \<subseteq> set (t_verifications (w_db w)) \<union> {x. v_id x = i}"
    unfolding tab update_where_def by (auto simp: id)
  ultimately show ?thesis using v' by blast
qed

lemma update_fails:
  assumes "update_verification i from f (started workerIdentity w) = (Inl e, w')" "row_of i w = [v]"
    and "from (v_status v)" "alone i w" "\<not> faulty w" and id: "\<And>t x. v_id (f t x) = v_id x"
  shows "\<exists>t. \<not> row_valid (f t v)"
proof -
  let ?c = "ident_ctx workerIdentity" and ?t = "w_clock w (w_clock_i w)"
  let ?p = "\<lambda>v. v_id v = i \<and> from (v_status v) \<and> verifications_update ?c \<and> verifications_select ?c"
  have p: "filter ?p (t_verifications (w_db w)) = [v]"
    unfolding update_rows assms(2) by (simp add: assms(3))
  have vi: "v_id v = i" using row_of_id [OF assms(2)] by simp
  have "single_active (w_db w) (f ?t v)"
    using assms(4) by (auto simp: single_active_def alone_def list_ex_iff id vi)
  moreover have "w_faults w k = None" for k using assms(5) by (simp add: faulty_def)
  ultimately have "violated (verification_valid (f ?t v) @ [(single_active (w_db w) (f ?t v), active_conflict)]) \<noteq> None"
    using assms(1) by (auto simp: update_verification_def exec_def infra_run Let_def p checked_def split: option.splits)
  with \<open>single_active _ _\<close> show ?thesis
    unfolding violated_None row_valid_def list_all_iff by (intro exI [of _ ?t]) fastforce
qed

lemma tx_fails:
  assumes "WithTx i fn w = (Inl e, w')" "param.guar fn" "\<not> faulty w"
  shows "\<exists>e2 w2. fn (started i w) = (Inl e2, w2)"
proof (rule ccontr)
  assume "\<not> ?thesis"
  then obtain x w2 where ok: "fn (started i w) = (Inr x, w2)" by (metis old.sum.exhaust surj_pair)
  have "w_faults w2 = w_faults w"
    using param.guarD [OF assms(2), of "started i w"] by (simp add: ok params_same_def)
  moreover have "w_faults w k = None" for k using assms(3) by (simp add: faulty_def)
  ultimately have "WithTx i fn w = (Inr x, end_tx w (faulted w2))"
    unfolding WithTx_run using ok by simp
  with assms(1) show False by simp
qed

lemma worker_update_run:
  assumes "WithTx workerIdentity (update_verification i from f) w = (Inr v', w')" "row_of i w = [v]"
    and "\<And>t x. v_id (f t x) = v_id x"
  shows "from (v_status v) \<and> (\<exists>t. v' = f t v) \<and> row_of i w' = [v'] \<and> row_valid v' \<and> (alone i w \<longrightarrow> alone i w') \<and>
    audit_log w' = audit_log w"
proof -
  from assms(1) obtain w2 where w2: "update_verification i from f (started workerIdentity w) = (Inr v', w2)"
    and w': "w_db w' = w_db w2" by (auto simp: WithTx_run)
  show ?thesis using update_run [OF w2 assms(2,3)] update_verification_log [OF w2]
    by (auto simp: w' alone_def row_of_def)
qed

lemma worker_update_fails:
  assumes "WithTx workerIdentity (update_verification i from f) w = (Inl e, w')" "row_of i w = [v]"
    and "from (v_status v)" "alone i w" "\<not> faulty w" "\<And>t x. v_id (f t x) = v_id x"
  shows "\<exists>t. \<not> row_valid (f t v)"
proof -
  obtain e2 w2 where "update_verification i from f (started workerIdentity w) = (Inl e2, w2)"
    using tx_fails [OF assms(1) param_update assms(5)] by blast
  then show ?thesis using assms(2-6) by (rule update_fails)
qed

section \<open>The row while the loop runs\<close>

definition progressed :: "verification_row \<Rightarrow> verification_row \<Rightarrow> bool" where
  "progressed v v' \<longleftrightarrow> (\<exists>n s t. v' = v\<lparr>v_entries_checked := n, v_last_seq_checked := s, v_updated_at := t\<rparr>)"

definition in_progress :: "uuid \<Rightarrow> verification_row \<Rightarrow> world \<Rightarrow> bool" where
  "in_progress i v w \<longleftrightarrow> alone i w \<and> row_valid v \<and> v_status v = ''RUNNING'' \<and> (\<exists>v'. row_of i w = [v'] \<and> progressed v v')"

lemma progressed_refl: "progressed v v"
  unfolding progressed_def by (intro exI [of _ "v_entries_checked v"] exI [of _ "v_last_seq_checked v"] exI [of _ "v_updated_at v"]) simp

lemma progressed_trans: "progressed v v' \<Longrightarrow> progressed v' v'' \<Longrightarrow> progressed v v''"
  unfolding progressed_def by (elim exE, simp) blast

lemma row_valid_progress [simp]:
  "row_valid (v\<lparr>v_entries_checked := n, v_last_seq_checked := s, v_updated_at := t\<rparr>) = row_valid v"
  by (simp add: row_valid_def verification_valid_def)

lemma progressed_sel:
  assumes "progressed v v'"
  shows "v_status v' = v_status v" "row_valid v' = row_valid v"
  using assms by (auto simp: progressed_def)

lemma in_progress_db: "in_progress i v w \<Longrightarrow> w_db w' = w_db w \<Longrightarrow> in_progress i v w'"
  by (simp add: in_progress_def alone_def row_of_def)

lemma exec_Inl_db: "exec q w = (Inl e, w') \<Longrightarrow> w_db w' = w_db w"
  by (auto simp: exec_def infra_run split: option.splits sum.splits)

lemma progress_row:
  assumes "WithTx workerIdentity (q_UpdateAuditVerificationProgress i n s) w = (Inr u, w')" "in_progress i v w"
  shows "in_progress i v w'"
proof -
  let ?f = "\<lambda>now v. v\<lparr>v_entries_checked := n, v_last_seq_checked := Some s, v_updated_at := now\<rparr>"
  let ?up = "update_verification i (\<lambda>s. s = ''RUNNING'') ?f"
  from assms(1) obtain w2 where w2: "q_UpdateAuditVerificationProgress i n s (started workerIdentity w) = (Inr u, w2)"
    and w': "w_db w' = w_db w2" by (auto simp: WithTx_run)
  from assms(2) obtain v' where v': "row_of i w = [v']" "progressed v v'" by (auto simp: in_progress_def)
  from w2 consider (did) r where "?up (started workerIdentity w) = (Inr r, w2)"
    | (none) e where "?up (started workerIdentity w) = (Inl e, w2)" "is_no_rows e"
    by (auto simp: q_UpdateAuditVerificationProgress_def tryE_Inr ret_run fail_run split: if_splits)
  then show ?thesis
  proof cases
    case did
    from update_run [OF did v'(1)] obtain t where t: "r = ?f t v'" "row_of i w2 = [r]"
      "set (t_verifications (w_db w2)) \<subseteq> set (t_verifications (w_db w)) \<union> {x. v_id x = i}" by auto
    have "progressed v' r" unfolding t(1) progressed_def by blast
    with v'(2) have "progressed v r" by (rule progressed_trans)
    with t(2,3) assms(2) show ?thesis by (auto simp: in_progress_def alone_def w' row_of_def)
  next
    case none
    have "w_db w2 = w_db w" using exec_Inl_db [OF none(1) [unfolded update_verification_def]] by simp
    with w' show ?thesis by (intro in_progress_db [OF assms(2)]) simp
  qed
qed

lemma progress_fails:
  assumes "WithTx workerIdentity (q_UpdateAuditVerificationProgress i n s) w = (Inl e, w')" "in_progress i v w"
  shows "faulty w"
proof (rule ccontr)
  let ?f = "\<lambda>now v. v\<lparr>v_entries_checked := n, v_last_seq_checked := Some s, v_updated_at := now\<rparr>"
  let ?up = "update_verification i (\<lambda>s. s = ''RUNNING'') ?f"
  assume ok: "\<not> faulty w"
  have "param.guar (q_UpdateAuditVerificationProgress i n s)"
    unfolding q_UpdateAuditVerificationProgress_def by auto
  from tx_fails [OF assms(1) this ok] obtain e2 w2 where
    "q_UpdateAuditVerificationProgress i n s (started workerIdentity w) = (Inl e2, w2)" by blast
  then obtain e3 w3 where "?up (started workerIdentity w) = (Inl e3, w3)"
    by (auto simp: q_UpdateAuditVerificationProgress_def tryE_Inl ret_run fail_run split: if_splits)
  moreover from assms(2) obtain v' where v': "row_of i w = [v']" "v_status v' = ''RUNNING''" "row_valid v'" "alone i w"
    by (auto simp: in_progress_def progressed_sel)
  ultimately have "\<exists>t. \<not> row_valid (?f t v')"
    using update_fails [of i "\<lambda>s. s = ''RUNNING''" ?f w e3 w3 v'] ok by simp
  then show False using v'(3) by simp
qed

lemma list_fails:
  assumes "WithTx workerIdentity (q_ListAuditEntriesFromSeq s k) w = (Inl e, w')" shows "faulty w"
proof (rule ccontr)
  assume ok: "\<not> faulty w"
  have "param.guar (q_ListAuditEntriesFromSeq s k)" unfolding q_ListAuditEntriesFromSeq_def by auto
  from tx_fails [OF assms this ok] ok show False
    by (auto simp: q_ListAuditEntriesFromSeq_def query_Inl faulty_def)
qed

lemma verify_rows_row:
  assumes "verify_rows i n_all s n rows result w = (r, w')" "in_progress i v w"
  shows "in_progress i v w' \<and> (\<forall>e. r = Inl e \<longrightarrow> faulty w)"
proof -
  let ?up = "WithTx workerIdentity (q_UpdateAuditVerificationProgress i (n + br_EntriesChecked result) (next_seq s rows result))"
  obtain u w1 where up: "?up w = (u, w1)" by fastforce
  show ?thesis
  proof (cases u)
    case (Inl e)
    then have "w_db w1 = w_db w" using WithTx_atomic up by blast
    moreover have "w' = w1" using assms(1) up Inl by (simp add: verify_rows_def Let_def tryE_def fail_def)
    ultimately show ?thesis
      using in_progress_db [OF assms(2)] progress_fails [OF up [unfolded Inl] assms(2)] by simp
  next
    case (Inr x)
    have "w_db w' = w_db w1" "\<exists>pg. r = Inr pg"
      using assms(1) up Inr by (auto simp: verify_rows_def Let_def tryE_def ret_def publish_verification_def get_world_def publish_def)
    then show ?thesis using in_progress_db [OF progress_row [OF up [unfolded Inr] assms(2)]] by auto
  qed
qed

lemma verify_page_row:
  assumes "verify_page i n_all p s n w = (r, w')" "in_progress i v w"
  shows "in_progress i v w' \<and> (\<forall>e. r = Inl e \<longrightarrow> faulty w)"
proof (cases "w_faults w (w_fault_i w)")
  case (Some f)
  then have "w' = faulted w" "faulty w"
    using assms(1) by (auto simp: verify_page_def tryE_def infra_def fail_def faulted_def faulty_def)
  then show ?thesis using in_progress_db [OF assms(2)] by simp
next
  case None
  let ?li = "WithTx workerIdentity (q_ListAuditEntriesFromSeq s defaultVerifyBatchSize)"
  obtain u w1 where li: "?li (faulted w) = (u, w1)" by fastforce
  have par: "param.guar ?li" unfolding q_ListAuditEntriesFromSeq_def by auto
  have same: "faulty w1 = faulty w"
    using param.guarD [OF par, of "faulted w"] by (simp add: li params_same_def faulty_def)
  have run: "verify_page i n_all p s n w = (case u of Inl e \<Rightarrow> (Inl (Wrap (''list audit entries from seq '' @ dec_int s) e), w1)
      | Inr rows \<Rightarrow> if rows = [] then (Inr (Finished n s None), w1)
          else verify_rows i n_all s n rows (VerifyBatch (w_lib w1) rows p) w1)"
    using None li by (simp add: verify_page_def tryE_def infra_def ret_def fail_def get_world_def faulted_def Let_def split: sum.splits)
  show ?thesis
  proof (cases u)
    case (Inl e)
    have "w_db w1 = w_db w" using WithTx_atomic [OF li [unfolded Inl]] by simp
    moreover have "faulty (faulted w)" by (rule list_fails [OF li [unfolded Inl]])
    ultimately show ?thesis using assms(1) run Inl in_progress_db [OF assms(2)] by (auto simp: faulty_def)
  next
    case (Inr rows)
    have db: "w_db w1 = w_db w" using listed_ahead(1) [OF li [unfolded Inr]] by simp
    show ?thesis
    proof (cases "rows = []")
      case True
      then show ?thesis using assms(1) run Inr in_progress_db [OF assms(2) db] by auto
    next
      case False
      then have "verify_rows i n_all s n rows (VerifyBatch (w_lib w1) rows p) w1 = (r, w')"
        using run Inr assms(1) by simp
      from verify_rows_row [OF this in_progress_db [OF assms(2) db]] show ?thesis using same by simp
    qed
  qed
qed

lemma verify_loop_row:
  assumes "verify_loop i n_all p s n w = (r, w')" "in_progress i v w"
  shows "in_progress i v w' \<and> (\<forall>e. r = Inl e \<longrightarrow> faulty w)"
  using assms
proof (induction i n_all p s n w rule: verify_loop.induct)
  case (1 i n_all p s n w)
  obtain u w1 where page: "verify_page i n_all p s n w = (u, w1)" by fastforce
  note row = verify_page_row [OF page "1.prems"(2)]
  show ?case
  proof (cases "\<exists>p1 s1 n1. u = Inr (More p1 s1 n1)")
    case True
    then obtain p1 s1 n1 where u: "u = Inr (More p1 s1 n1)" by auto
    have "verify_loop i n_all p1 s1 n1 w1 = (r, w')"
      using "1.prems"(1) page u by (simp add: verify_loop.simps [of i n_all p])
    moreover have "faulty w1 = faulty w"
      using param.guarD [OF param_page, of w i n_all p s n] by (simp add: page params_same_def faulty_def)
    ultimately show ?thesis using "1.IH" [OF page [symmetric] u refl] row by simp
  next
    case False
    then show ?thesis using "1.prems"(1) row
      by (auto simp: verify_loop.simps [of i n_all p] page split: sum.splits page.splits)
  qed
qed

section \<open>The run\<close>

lemma tx_no_rows:
  assumes "WithTx i fn w = (Inl e, w')" "is_no_rows e"
  shows "\<exists>w2. fn (started i w) = (Inl e, w2)"
proof -
  have start: "w\<lparr>w_ctx := ident_ctx i, w_tx_now := w_clock w (w_clock_i w), w_clock_i := Suc (w_clock_i w),
     w_fault_i := Suc (Suc (Suc (w_fault_i w)))\<rparr> = started i w"
    by (simp add: started_def eval_nat_numeral)
  show ?thesis using assms start unfolding WithTx_def begin_tx_def commit_tx_def
    by (auto simp: tryE_def fail_def ret_def infra_def Let_def split: option.splits sum.splits prod.splits)
qed

lemma tx_error:
  assumes "WithTx i fn w = (Inl e, w')" "param.guar fn" "\<not> faulty w"
  shows "\<exists>w2. fn (started i w) = (Inl e, w2)"
proof -
  have start: "w\<lparr>w_ctx := ident_ctx i, w_tx_now := w_clock w (w_clock_i w), w_clock_i := Suc (w_clock_i w),
     w_fault_i := Suc (Suc (Suc (w_fault_i w)))\<rparr> = started i w"
    by (simp add: started_def eval_nat_numeral)
  obtain e2 w2 where fn: "fn (started i w) = (Inl e2, w2)" using tx_fails [OF assms] by blast
  have "w_faults w k = None" for k using assms(3) by (simp add: faulty_def)
  then have "e2 = e" using assms(1) fn start unfolding WithTx_def begin_tx_def commit_tx_def
    by (auto simp: tryE_def fail_def ret_def infra_def Let_def split: option.splits sum.splits prod.splits)
  with fn show ?thesis by simp
qed

text \<open>A queued run is found when it is marked running; a run in another state is not.\<close>

definition run_started :: "int \<Rightarrow> time \<Rightarrow> verification_row \<Rightarrow> verification_row" where
  "run_started n now v = v\<lparr>v_status := ''RUNNING'', v_started_at := Some now, v_total_entries := Some n, v_updated_at := now\<rparr>"

lemma mark_running_def:
  "q_MarkAuditVerificationRunning i n = update_verification i (\<lambda>s. s = ''QUEUED'') (run_started n)"
  unfolding q_MarkAuditVerificationRunning_def
  by (rule arg_cong [where f = "update_verification i (\<lambda>s. s = ''QUEUED'')"]) (simp add: run_started_def fun_eq_iff)

lemma run_started_id: "v_id (run_started n t v) = v_id v"
  by (simp add: run_started_def)

lemma queued_started: "row_valid v \<Longrightarrow> v_status v = ''QUEUED'' \<Longrightarrow> row_valid (run_started n t v)"
  by (simp add: row_valid_def verification_valid_def run_started_def)

lemma mark_running_ok:
  assumes "WithTx workerIdentity (q_MarkAuditVerificationRunning i n) w = (Inr v1, w')" "row_of i w = [v]" "alone i w"
  shows "v_status v = ''QUEUED'' \<and> in_progress i v1 w' \<and> row_of i w' = [v1] \<and> audit_log w' = audit_log w"
proof -
  note u = worker_update_run [OF assms(1) [unfolded mark_running_def] assms(2) run_started_id]
  then have "v_status v1 = ''RUNNING''" by (auto simp: run_started_def)
  then show ?thesis using u assms(3) progressed_refl [of v1] by (auto simp: in_progress_def)
qed

lemma mark_running_fails:
  assumes "WithTx workerIdentity (q_MarkAuditVerificationRunning i n) w = (Inl e, w')" "row_of i w = [v]"
    and "alone i w" "row_valid v" "v_status v = ''QUEUED''"
  shows "\<not> is_no_rows e \<and> faulty w"
proof -
  have "faulty w"
    using worker_update_fails [OF assms(1) [unfolded mark_running_def] assms(2) _ assms(3)] run_started_id
      queued_started [OF assms(4,5)] assms(5) by blast
  moreover have "\<not> is_no_rows e"
  proof
    assume "is_no_rows e"
    from tx_no_rows [OF assms(1) this] obtain w2 where
      w2: "update_verification i (\<lambda>s. s = ''QUEUED'') (run_started n) (started workerIdentity w) = (Inl e, w2)"
      by (auto simp: mark_running_def)
    have p: "filter (\<lambda>x. v_id x = i \<and> v_status x = ''QUEUED'' \<and> verifications_update (ident_ctx workerIdentity) \<and>
       verifications_select (ident_ctx workerIdentity)) (t_verifications (w_db w)) = [v]"
      using update_rows [of i "\<lambda>s. s = ''QUEUED''" w] by (simp add: assms(2,5))
    have pg: "\<forall>x\<in>set cs. \<not> is_no_rows (snd x) \<Longrightarrow> violated cs = Some y \<Longrightarrow> \<not> is_no_rows y" for cs y
      by (induction cs rule: violated.induct) (auto split: if_splits)
    define cs where "cs = verification_valid (run_started n (w_clock w (w_clock_i w)) v) @
      [(single_active (w_db w) (run_started n (w_clock w (w_clock_i w)) v), active_conflict)]"
    have cs: "\<forall>x\<in>set cs. \<not> is_no_rows (snd x)" by (simp add: cs_def verification_valid_def active_conflict_def)
    from exec_Inl [OF w2 [unfolded update_verification_def Let_def]]
    have "(\<exists>f. e = fault_error f) \<or> violated cs = Some e"
      unfolding started_simps p by (simp add: checked_def flip: cs_def split: option.splits)
    then show False using \<open>is_no_rows e\<close> pg [OF cs] by auto
  qed
  ultimately show ?thesis by simp
qed

lemma mark_running_other:
  assumes "WithTx workerIdentity (q_MarkAuditVerificationRunning i n) w = (Inl e, w')" "row_of i w = [v]"
    and "v_status v \<noteq> ''QUEUED''"
  shows "is_no_rows e \<or> faulty w"
proof (rule ccontr)
  assume no: "\<not> ?thesis"
  have "param.guar (q_MarkAuditVerificationRunning i n)" unfolding mark_running_def by auto
  with tx_error [OF assms(1)] no obtain w2 where
    w2: "update_verification i (\<lambda>s. s = ''QUEUED'') (run_started n) (started workerIdentity w) = (Inl e, w2)"
    by (auto simp: mark_running_def)
  have "w_faults w k = None" for k using no by (simp add: faulty_def)
  moreover have p: "filter (\<lambda>x. v_id x = i \<and> v_status x = ''QUEUED'' \<and> verifications_update (ident_ctx workerIdentity) \<and>
     verifications_select (ident_ctx workerIdentity)) (t_verifications (w_db w)) = []"
    using update_rows [of i "\<lambda>s. s = ''QUEUED''" w] by (simp add: assms(2,3))
  ultimately show False using w2 no by (simp add: update_verification_def exec_def infra_run Let_def p)
qed

section \<open>Completion\<close>

definition verdict_of :: "batch_result \<Rightarrow> verification_row \<Rightarrow> bool" where
  "verdict_of r v \<longleftrightarrow> v_status v = (if br_OK r then ''VERIFIED'' else ''INTEGRITY_FAILURE'') \<and>
     v_entries_checked v = br_EntriesChecked r \<and> v_failed_entry_id v = br_FailedEntryID r \<and>
     v_failed_seq v = br_FailedSeq r \<and> v_failure_type v = nilIfEmptyString (br_FailureType r) \<and>
     v_failure_reason v = nilIfEmptyString (br_Reason r) \<and> v_completed_at v \<noteq> None"

definition run_completed :: "int \<Rightarrow> batch_result option \<Rightarrow> time \<Rightarrow> verification_row \<Rightarrow> verification_row" where
  "run_completed n failure now v = (case failure of
     None \<Rightarrow> v\<lparr>v_status := ''VERIFIED'', v_entries_checked := n, v_failed_entry_id := None, v_failed_seq := None,
       v_failure_type := None, v_failure_reason := None, v_completed_at := Some now, v_updated_at := now\<rparr>
   | Some b \<Rightarrow> v\<lparr>v_status := ''INTEGRITY_FAILURE'', v_entries_checked := n, v_failed_entry_id := br_FailedEntryID b,
       v_failed_seq := br_FailedSeq b, v_failure_type := nilIfEmptyString (br_FailureType b),
       v_failure_reason := nilIfEmptyString (br_Reason b), v_completed_at := Some now, v_updated_at := now\<rparr>)"

lemma complete_update:
  "(case failure of
      None \<Rightarrow> q_CompleteAuditVerification i ''VERIFIED'' n None None None None
    | Some b \<Rightarrow> q_CompleteAuditVerification i ''INTEGRITY_FAILURE'' n (br_FailedEntryID b) (br_FailedSeq b)
        (nilIfEmptyString (br_FailureType b)) (nilIfEmptyString (br_Reason b))) =
   update_verification i (\<lambda>_. True) (run_completed n failure)"
  by (cases failure) (simp_all only: q_CompleteAuditVerification_def option.case run_completed_def [abs_def])

lemma run_completed_id: "v_id (run_completed n failure t v) = v_id v"
  by (simp add: run_completed_def split: option.splits)

lemma success_fields:
  "br_OK (VerifyBatch lib es p) \<Longrightarrow> br_FailedEntryID (VerifyBatch lib es p) = None \<and>
     br_FailedSeq (VerifyBatch lib es p) = None \<and> br_FailureType (VerifyBatch lib es p) = '''' \<and>
     br_Reason (VerifyBatch lib es p) = ''''"
  unfolding VerifyBatch_def verify_from_OK by (simp add: verify_from_success no_result_def)

lemma failure_type:
  assumes "\<not> br_OK (VerifyBatch lib es p)"
  shows "br_FailureType (VerifyBatch lib es p) \<in>
    {''GENESIS_INVALID'', ''PREVIOUS_HASH_MISMATCH'', ''CANONICALIZATION_ERROR'', ''ENTRY_HASH_MISMATCH''}"
proof -
  from verify_from_failure [of lib es p 0] assms obtain q e where "br_FailureType (VerifyBatch lib es p) = failure_of lib q e"
    by (auto simp: VerifyBatch_def verify_from_OK)
  then show ?thesis by (simp add: failure_of_def)
qed

lemma completed_verdict:
  assumes "same_verdict failure r" "r = VerifyBatch lib es p" "n = br_EntriesChecked r"
  shows "verdict_of r (run_completed n failure t v)"
proof (cases failure)
  case None
  then have "br_OK r" using assms(1) by (simp add: same_verdict_def)
  then show ?thesis using success_fields [of lib es p] assms(2,3) None
    by (simp add: verdict_of_def run_completed_def nilIfEmptyString_def)
next
  case (Some b)
  then have "\<not> br_OK r" "b = r\<lparr>br_EntriesChecked := br_EntriesChecked b\<rparr>" using assms(1) by (simp_all add: same_verdict_def)
  then show ?thesis using assms(3) Some by (cases r; cases b) (simp add: verdict_of_def run_completed_def)
qed

lemma text_option: "text_ok s \<Longrightarrow> case nilIfEmptyString s of None \<Rightarrow> True | Some t \<Rightarrow> text_ok t"
  by (simp add: nilIfEmptyString_def)

lemma completed_valid:
  assumes "same_verdict failure r" "r = VerifyBatch lib es p" "text_ok (br_Reason r)"
    and "row_valid v" "v_status v = ''RUNNING''"
  shows "row_valid (run_completed n failure t v)"
proof (cases failure)
  case None
  then show ?thesis using assms(4,5)
    by (simp add: row_valid_def verification_valid_def run_completed_def)
next
  case (Some b)
  then have b: "br_Reason b = br_Reason r" "br_FailureType b = br_FailureType r" "\<not> br_OK r"
    using assms(1) by (cases r; cases b; simp add: same_verdict_def)+
  have ft: "br_FailureType r \<in> {''GENESIS_INVALID'', ''PREVIOUS_HASH_MISMATCH'', ''CANONICALIZATION_ERROR'', ''ENTRY_HASH_MISMATCH''}"
    using failure_type [of lib es p] b(3) assms(2) by simp
  then have "text_ok (br_FailureType r)" "br_FailureType r \<noteq> ''''"
    by (auto simp: text_ok_def utf8_ascii simp del: utf8_valid.simps)
  then show ?thesis using assms(3-5) Some
    by (auto simp: row_valid_def verification_valid_def run_completed_def b nilIfEmptyString_def)
qed

end
