(* ===== verification/AuditRunProps.thy ===== *)
theory AuditRunProps
  imports AuditRunFacts
begin

text \<open>The properties of the verification runs, and the concrete runs that witness them.\<close>

section \<open>The stages of a run\<close>

lemma completeVerification_run:
  assumes "completeVerification i n failure w = (r, w')" "in_progress i v w"
    and same: "same_verdict failure rr" "rr = VerifyBatch lib es p" "n = br_EntriesChecked rr"
  shows "case r of Inr final \<Rightarrow> row_of i w' = [final] \<and> verdict_of rr final
     | Inl e \<Rightarrow> in_progress i v w' \<and> (faulty w \<or> \<not> text_ok (br_Reason rr))"
proof -
  let ?tx = "WithTx workerIdentity (update_verification i (\<lambda>_. True) (run_completed n failure))"
  obtain u w1 where tx: "?tx w = (u, w1)" by fastforce
  from assms(2) obtain v' where v': "row_of i w = [v']" "alone i w" "row_valid v'" "v_status v' = ''RUNNING''"
    by (auto simp: in_progress_def progressed_sel)
  show ?thesis
  proof (cases u)
    case (Inl e)
    then have r: "r = Inl e" "w' = w1"
      using assms(1) tx by (simp_all add: completeVerification_def complete_update tryE_def fail_def)
    have "w_db w1 = w_db w" using WithTx_atomic tx Inl by blast
    moreover have "faulty w \<or> \<not> text_ok (br_Reason rr)"
      using worker_update_fails [OF tx [unfolded Inl] v'(1) _ v'(2) _ run_completed_id]
        completed_valid [OF same(1,2) _ v'(3,4)] by blast
    ultimately show ?thesis using in_progress_db [OF assms(2)] r by simp
  next
    case (Inr final)
    from worker_update_run [OF tx [unfolded Inr] v'(1) run_completed_id]
    have "row_of i w1 = [final]" "verdict_of rr final" using completed_verdict [OF same] by auto
    moreover have "r = Inr final" "w_db w' = w_db w1"
      using assms(1) tx Inr by (auto simp: completeVerification_def complete_update tryE_def publish_verification_def
          get_world_def publish_def ret_def)
    ultimately show ?thesis by (simp add: row_of_def)
  qed
qed

lemma publish_verification_run:
  "\<exists>w2. publish_verification ty i d w = (Inr (), w2) \<and> w_db w2 = w_db w \<and> w_lib w2 = w_lib w \<and> w_faults w2 = w_faults w"
  by (simp add: publish_verification_def tryE_def get_world_def publish_def)

text \<open>From the row marked running to the end.\<close>

lemma param_verify_loop: "w_faults (snd (verify_loop i n_all p s n w)) = w_faults w"
proof (induction i n_all p s n w rule: verify_loop.induct)
  case (1 i n_all p s n w)
  obtain u w1 where page: "verify_page i n_all p s n w = (u, w1)" by fastforce
  have "w_faults w1 = w_faults w"
    using param.guarD [OF param_page, of w i n_all p s n] by (simp add: page params_same_def)
  then show ?case using "1.IH" [OF page [symmetric]]
    by (auto simp: verify_loop.simps [of i n_all p] page split: sum.splits page.splits)
qed

definition running_to_end :: "uuid \<Rightarrow> int \<Rightarrow> uuid \<Rightarrow> unit op" where
  "running_to_end i n_all requester =
     try_wrap (verifyBatches i n_all) ''verify batches'' (\<lambda>(n, s, failure).
     try_wrap (completeVerification i n failure) ''persist verification result'' (\<lambda>final.
     Record (completed_event i requester final)))"

lemma running_to_end_run:
  assumes "running_to_end i n_all requester w = (r, w')" "in_progress i v w" "ordered (audit_log w)" "ahead 0 w = audit_log w"
  defines "rr \<equiv> VerifyBatch (w_lib w) (audit_log w) None"
  shows "case r of Inr u \<Rightarrow> \<exists>v'. row_of i w' = [v'] \<and> verdict_of rr v'
     | Inl e \<Rightarrow> in_progress i v w' \<and> (faulty w \<or> \<not> text_ok (br_Reason rr))"
proof -
  obtain u w1 where loop: "verify_loop i n_all None 0 0 w = (u, w1)" by fastforce
  note row = verify_loop_row [OF loop assms(2)]
  show ?thesis
  proof (cases u)
    case (Inl e)
    then show ?thesis using assms(1) loop row
      by (auto simp: running_to_end_def verifyBatches_def tryE_def fail_def)
  next
    case (Inr nsf)
    obtain n s failure where nsf: "nsf = (n, s, failure)" by (cases nsf)
    note res = verify_loop_result [OF loop [unfolded Inr nsf] assms(3), unfolded assms(4), folded rr_def]
    obtain c w2 where c: "completeVerification i n failure w1 = (c, w2)" by fastforce
    have "faulty w1 = faulty w" using param_verify_loop [of i n_all None 0 0 w] by (simp add: loop faulty_def)
    then have fin: "case c of Inr final \<Rightarrow> row_of i w2 = [final] \<and> verdict_of rr final
        | Inl e \<Rightarrow> in_progress i v w2 \<and> (faulty w \<or> \<not> text_ok (br_Reason rr))"
      using completeVerification_run [OF c, of v rr "w_lib w" "audit_log w" None] row res
      by (cases c) (simp_all add: rr_def)
    have run: "running_to_end i n_all requester w = (case c of Inl e \<Rightarrow> (Inl (Wrap ''persist verification result'' e), w2)
        | Inr final \<Rightarrow> Record (completed_event i requester final) w2)"
      unfolding running_to_end_def verifyBatches_def tryE_def loop Inr nsf by (cases c) (simp_all add: c fail_def)
    show ?thesis
    proof (cases c)
      case (Inl e)
      then show ?thesis using run fin assms(1) by simp
    next
      case (Inr final)
      then have rec: "Record (completed_event i requester final) w2 = (r, w')" using run assms(1) by simp
      from Record_run [OF rec] have done': "r = Inr ()" and tables: "tables w' = tables w2" by simp_all
      have "row_of i w' = row_of i w2" by (rule row_of_cong) (rule tables_eqD(12) [OF tables])
      then show ?thesis using fin Inr done' by simp
    qed
  qed
qed

lemma RunVerification_unfold:
  "RunVerification i =
     try_wrap (WithTx workerIdentity q_CountAuditEntries) ''count audit entries'' (\<lambda>n_all.
     tryE (WithTx workerIdentity (q_MarkAuditVerificationRunning i n_all))
       (\<lambda>e. if is_no_rows e then ret () else fail (Wrap ''mark verification running'' e))
       (\<lambda>v. bindE (publish_verification ''AUDIT_VERIFICATION_STARTED'' i
              ((verification_data i ''RUNNING'' 0)\<lparr>vp_TotalEntries := Some n_all\<rparr>))
            (\<lambda>_. running_to_end i n_all (v_requested_by_user_id v))))"
  by (simp add: RunVerification_def running_to_end_def)

text \<open>The worker's reads and the table of a run.\<close>

lemma count_run:
  assumes "WithTx workerIdentity q_CountAuditEntries w = (r, w')"
  shows "w_db w' = w_db w \<and> w_lib w' = w_lib w \<and> faulty w' = faulty w \<and> (\<forall>e. r = Inl e \<longrightarrow> faulty w)"
proof -
  have rd: "reader.guar (WithTx workerIdentity q_CountAuditEntries)" unfolding q_CountAuditEntries_def by auto
  have "faulty w" if "r = Inl e" for e
  proof (rule ccontr)
    assume ok: "\<not> faulty w"
    have "param.guar q_CountAuditEntries" unfolding q_CountAuditEntries_def by auto
    from tx_fails [OF assms [unfolded that] this ok] ok show False
      by (auto simp: q_CountAuditEntries_def query_Inl faulty_def)
  qed
  then show ?thesis using reader.guarD [OF rd, of w] by (auto simp: assms reads_only_def params_same_def faulty_def)
qed

section \<open>The run's verdict\<close>

text \<open>
  C30.  Whatever calls fail on the way, a queued verification run that reports no error has
  left its row with the verdict that one verification of the whole log from genesis gives:
  VERIFIED, or INTEGRITY_FAILURE with the first bad entry, its number, its category and the
  entries checked before it, although the run reads the log in pages of a thousand rows.  A
  run that reports an error has left the row active, for a retry, and has met a failing call
  (or a failure text the database refuses): without one it always completes.  A retry, which
  finds the row running, changes nothing.
\<close>

theorem verification_run:
  assumes "row_of i w = [v]" and "alone i w" and "row_valid v" and "ordered (audit_log w)" and "ahead 0 w = audit_log w"
  defines "verified \<equiv> VerifyBatch (w_lib w) (audit_log w) None"
  shows "case RunVerification i w of
      (Inr u, w') \<Rightarrow> (if v_status v = ''QUEUED'' then \<exists>v'. row_of i w' = [v'] \<and> verdict_of verified v'
         else t_verifications (w_db w') = t_verifications (w_db w))
    | (Inl e, w') \<Rightarrow> (faulty w \<or> \<not> text_ok (br_Reason verified)) \<and>
        (if v_status v = ''QUEUED'' then \<exists>v'. row_of i w' = [v'] \<and> verification_active v'
         else t_verifications (w_db w') = t_verifications (w_db w))"
proof -
  obtain c w0 where c: "WithTx workerIdentity q_CountAuditEntries w = (c, w0)" by fastforce
  note cr = count_run [OF c]
  have active: "verification_active v" if "v_status v = ''QUEUED''" using that by (simp add: verification_active_def)
  show ?thesis
  proof (cases c)
    case (Inl e)
    then show ?thesis using cr assms(1) active
      by (auto simp: RunVerification_unfold tryE_def fail_def c row_of_def)
  next
    case (Inr n_all)
    have row0: "row_of i w0 = [v]" "alone i w0" using assms(1,2) cr by (simp_all add: row_of_def alone_def)
    obtain m w1 where m: "WithTx workerIdentity (q_MarkAuditVerificationRunning i n_all) w0 = (m, w1)" by fastforce
    have par: "param.guar (WithTx workerIdentity (q_MarkAuditVerificationRunning i n_all))"
      unfolding mark_running_def by auto
    have lib1: "w_lib w1 = w_lib w" "faulty w1 = faulty w"
      using param.guarD [OF par, of w0] cr by (simp_all add: m params_same_def faulty_def)
    show ?thesis
    proof (cases m)
      case Inl': (Inl e)
      have db: "w_db w1 = w_db w" using WithTx_atomic [OF m [unfolded Inl']] cr by simp
      have run: "RunVerification i w = (if is_no_rows e then (Inr (), w1) else (Inl (Wrap ''mark verification running'' e), w1))"
        by (simp add: RunVerification_unfold tryE_def c Inr m Inl' fail_def ret_def)
      show ?thesis
      proof (cases "v_status v = ''QUEUED''")
        case True
        from mark_running_fails [OF m [unfolded Inl'] row0 assms(3) True] have "\<not> is_no_rows e" "faulty w"
          using cr by auto
        then show ?thesis using run True active db assms(1) by (simp add: row_of_def)
      next
        case False
        have "is_no_rows e \<or> faulty w"
          using mark_running_other [OF m [unfolded Inl'] row0(1) False] cr by simp
        then show ?thesis using run False db by auto
      qed
    next
      case Inr': (Inr v1)
      note mr = mark_running_ok [OF m [unfolded Inr'] row0]
      obtain r w' where r: "RunVerification i w = (r, w')" by fastforce
      obtain w2 where w2: "w_db w2 = w_db w1" "w_lib w2 = w_lib w1" "w_faults w2 = w_faults w1"
        and pub: "publish_verification ''AUDIT_VERIFICATION_STARTED'' i
          ((verification_data i ''RUNNING'' 0)\<lparr>vp_TotalEntries := Some n_all\<rparr>) w1 = (Inr (), w2)"
        using publish_verification_run by blast
      have rest: "running_to_end i n_all (v_requested_by_user_id v1) w2 = (r, w')"
        using r by (simp add: RunVerification_unfold tryE_def c Inr m Inr' pub)
      have "in_progress i v1 w2" using in_progress_db mr w2(1) by blast
      moreover have "audit_log w2 = audit_log w" "ahead 0 w2 = audit_log w2" "faulty w2 = faulty w"
        using mr w2 cr assms(5) lib1 by (simp_all add: ahead_def faulty_def)
      ultimately have "case r of Inr u \<Rightarrow> \<exists>v'. row_of i w' = [v'] \<and> verdict_of verified v'
          | Inl e \<Rightarrow> in_progress i v1 w' \<and> (faulty w \<or> \<not> text_ok (br_Reason verified))"
        using running_to_end_run [OF rest, of v1] assms(4) w2(2) lib1 by (cases r) (simp_all add: verified_def)
      moreover have "verification_active v'" if "progressed v1 v'" "in_progress i v1 w'" for v' w'
        using that by (simp add: in_progress_def progressed_sel verification_active_def)
      ultimately show ?thesis using mr r by (auto simp: in_progress_def split: sum.splits)
    qed
  qed
qed

definition queued_run :: verification_row where
  "queued_run = \<lparr>v_id = 7, v_requested_by_user_id = 10, v_requested_by_role = Some ''ADMIN'', v_status = ''QUEUED'',
     v_entries_checked = 0, v_total_entries = None, v_last_seq_checked = None, v_failed_entry_id = None,
     v_failed_seq = None, v_failure_type = None, v_failure_reason = None, v_started_at = None,
     v_completed_at = None, v_created_at = 3, v_updated_at = 3\<rparr>"

definition run_world :: world where
  "run_world = (sample_world (empty_db\<lparr>t_audit_log := [sample_row], t_verifications := [queued_run]\<rparr>))\<lparr>w_lib := text_lib\<rparr>"

lemma run_world_simps:
  "audit_log run_world = [sample_row]" "row_of 7 run_world = [queued_run]" "w_lib run_world = text_lib"
  "\<not> faulty run_world" "alone 7 run_world" "row_valid queued_run" "ordered (audit_log run_world)"
  "ahead 0 run_world = audit_log run_world"
proof -
  show log: "audit_log run_world = [sample_row]" "row_of 7 run_world = [queued_run]" "w_lib run_world = text_lib"
    "\<not> faulty run_world" "alone 7 run_world"
    by (simp_all add: run_world_def row_of_def queued_run_def faulty_def no_faults_def sample_world_def alone_def)
  show "row_valid queued_run"
    by (simp add: row_valid_def queued_run_def verification_valid_def text_ok_def utf8_ascii del: utf8_valid.simps)
  show "ordered (audit_log run_world)" "ahead 0 run_world = audit_log run_world"
    by (simp_all add: log ordered_def ahead_def after_seq_def sample_row_def sample_bad_row_def)
qed

lemma sample_row_verifies:
  "VerifyBatch text_lib [sample_row] None =
     no_result\<lparr>br_OK := True, br_EntriesChecked := 1, br_LastHash := Some (a_hash sample_row)\<rparr>"
proof -
  have "CanonicalizeMetadata text_lib ''{}'' = Inr ''{}''"
    by (simp add: text_lib_def run_defs)
  then have "row_ok text_lib None sample_row"
    by (simp add: row_ok_def sample_row_def sample_bad_row_def row_text_def
        ComputeEntryHash_def entry_of_row_def roleOrEmpty_def) (simp add: text_lib_def)
  then show ?thesis
    using verify_from_success [of text_lib "[sample_row]" None 0]
    by (simp add: VerifyBatch_def head_hash_def del: verify_from.simps)
qed

lemma verification_run_witness:
  "\<exists>w' v'. RunVerification 7 run_world = (Inr (), w') \<and> row_of 7 w' = [v'] \<and> v_status v' = ''VERIFIED'' \<and>
     v_entries_checked v' = 1"
proof -
  have "text_ok (br_Reason (VerifyBatch (w_lib run_world) (audit_log run_world) None))"
    by (simp add: run_world_simps sample_row_verifies no_result_def text_ok_def)
  with verification_run [OF run_world_simps(2,5-8)] show ?thesis
    by (auto simp: run_world_simps verdict_of_def sample_row_verifies queued_run_def split: prod.splits sum.splits)
qed

section \<open>Its end\<close>

text \<open>
  C31.  The run ends, whatever calls fail and on any number of rows: the loop is a total
  function, and over a log of n rows it makes at most 11 round trips to the database for
  each full page of a thousand rows and 11 more.
\<close>

theorem verification_ends:
  assumes "ordered (audit_log w)"
  shows "w_fault_i (snd (verifyBatches i n_all w)) \<le>
     w_fault_i w + 11 * (length (audit_log w) div defaultVerifyBatchSize + 1)"
proof -
  have "length (ahead 0 w) \<le> length (audit_log w)" by (simp add: ahead_def)
  then have "length (ahead 0 w) div defaultVerifyBatchSize \<le> length (audit_log w) div defaultVerifyBatchSize"
    by (rule div_le_mono)
  then show ?thesis
    using verify_loop_calls [OF assms, of i n_all None 0 0] by (simp add: verifyBatches_def)
qed

lemma verification_ends_witness: "w_fault_i (snd (verifyBatches 7 1 run_world)) \<le> 11"
  using verification_ends [OF run_world_simps(7), of 7 1]
  by (simp add: run_world_simps defaultVerifyBatchSize_def) (simp add: run_world_def sample_world_def)

end
