(* ===== verification/RunTableProps.thy ===== *)
theory RunTableProps
  imports AuditRunProps
begin

text \<open>
  The table of verification runs as a typed state machine: what every statement of the audit
  service keeps of it, under any interleaving of its operations.
\<close>

abbreviation runs :: "world \<Rightarrow> verification_row list" where
  "runs w \<equiv> t_verifications (w_db w)"

section \<open>The machine\<close>

text \<open>The constraints of the table: one identifier each, every row valid, one active row at most.\<close>

definition run_table :: "verification_row list \<Rightarrow> bool" where
  "run_table vs \<longleftrightarrow> distinct (map v_id vs) \<and> list_all row_valid vs \<and>
     (\<forall>x\<in>set vs. \<forall>y\<in>set vs. verification_active x \<longrightarrow> verification_active y \<longrightarrow> v_id x = v_id y)"

text \<open>What happens to a row: it keeps its origin, and once it is final it stays final.\<close>

definition run_kept :: "verification_row \<Rightarrow> verification_row \<Rightarrow> bool" where
  "run_kept v v' \<longleftrightarrow> v_id v' = v_id v \<and> v_requested_by_user_id v' = v_requested_by_user_id v \<and>
     v_requested_by_role v' = v_requested_by_role v \<and> v_created_at v' = v_created_at v \<and>
     (verification_active v' \<longrightarrow> verification_active v) \<and> (v_status v' = ''QUEUED'' \<longrightarrow> v_status v = ''QUEUED'')"

definition table_extends :: "verification_row list \<Rightarrow> verification_row list \<Rightarrow> bool" where
  "table_extends vs vs' \<longleftrightarrow> length vs \<le> length vs' \<and> (\<forall>k<length vs. run_kept (vs ! k) (vs' ! k))"

definition runs_step :: "world \<Rightarrow> world \<Rightarrow> bool" where
  "runs_step w w' \<longleftrightarrow> table_extends (runs w) (runs w') \<and> (run_table (runs w) \<longrightarrow> run_table (runs w'))"

lemma run_kept_refl [simp]: "run_kept v v"
  by (simp add: run_kept_def)

lemma table_extends_refl [simp]: "table_extends vs vs"
  by (simp add: table_extends_def)

lemma run_kept_trans: "run_kept u v \<Longrightarrow> run_kept v w \<Longrightarrow> run_kept u w"
  by (auto simp: run_kept_def)

lemma table_extends_trans:
  assumes "table_extends us vs" "table_extends vs ws" shows "table_extends us ws"
proof -
  have "run_kept (us ! k) (ws ! k)" if k: "k < length us" for k
  proof -
    have "run_kept (us ! k) (vs ! k)" "k < length vs" using assms(1) k by (auto simp: table_extends_def)
    moreover from this have "run_kept (vs ! k) (ws ! k)" using assms(2) by (simp add: table_extends_def)
    ultimately show ?thesis using run_kept_trans by blast
  qed
  moreover have "length us \<le> length ws" using assms by (simp add: table_extends_def)
  ultimately show ?thesis by (simp add: table_extends_def)
qed

interpretation runs: guarantee runs_step
  by unfold_locales (auto simp: runs_step_def intro: table_extends_trans)

lemma runs_frame: "audit_frame.guar m \<Longrightarrow> runs.guar m"
  by (rule runs.guarI) (metis audit_frame.guarD only_audit_tables tables_eqD(12) runs_step_def table_extends_refl)

lemma runs_reader: "reader.guar m \<Longrightarrow> runs.guar m"
  by (rule runs_frame) (rule frame_reader)

lemma row_valid_checks: "(\<forall>(ok, e)\<in>set (verification_valid v). ok) = row_valid v"
  by (auto simp: row_valid_def list_all_iff)

section \<open>The statements\<close>

lemma runs_create: "runs.guar (q_CreateAuditVerification u role)"
  unfolding q_CreateAuditVerification_def
proof (rule runs.guar_exec_new)
  fix i x d and w :: world
  let ?v = "\<lparr>v_id = i, v_requested_by_user_id = u, v_requested_by_role = role, v_status = ''QUEUED'',
       v_entries_checked = 0, v_total_entries = None, v_last_seq_checked = None, v_failed_entry_id = None,
       v_failed_seq = None, v_failure_type = None, v_failure_reason = None, v_started_at = None,
       v_completed_at = None, v_created_at = w_tx_now w, v_updated_at = w_tx_now w\<rparr>"
  assume "(let v = ?v in checked (verifications_checks (w_db w) (w_ctx w) v)
     (v, (w_db w)\<lparr>t_verifications := runs w @ [v]\<rparr>)) = Inr (x, d)"
  then have d: "d = (w_db w)\<lparr>t_verifications := runs w @ [?v]\<rparr>" and valid: "row_valid ?v"
    and fresh: "v_id ?v \<notin> v_id ` set (runs w)" and single: "single_active (w_db w) ?v"
    by (auto simp: Let_def verifications_checks_def simp flip: row_valid_checks simp: list_ex_iff)
  from single fresh have alone: "\<not> verification_active y" if "y \<in> set (runs w)" for y
    using that by (auto simp: single_active_def verification_active_def list_ex_iff)
  have "table_extends (runs w) (runs w @ [?v])"
    by (simp add: table_extends_def nth_append)
  moreover have "run_table (runs w @ [?v])" if "run_table (runs w)"
    using that valid fresh alone by (auto simp: run_table_def list_all_iff)
  ultimately show "runs_step w (w\<lparr>w_db := d\<rparr>)" by (simp add: runs_step_def d)
qed

lemma runs_update:
  assumes f: "\<And>now x. from (v_status x) \<Longrightarrow> run_kept x (f now x)" and id: "\<And>now x. v_id (f now x) = v_id x"
  shows "runs.guar (update_verification i from f)"
  unfolding update_verification_def
proof (rule runs.guar_exec)
  fix x d and w :: world
  let ?p = "\<lambda>v. v_id v = i \<and> from (v_status v) \<and> verifications_update (w_ctx w) \<and> verifications_select (w_ctx w)"
  let ?f = "f (w_tx_now w)"
  assume "(let p = ?p in case filter p (runs w) of [] \<Rightarrow> Inl ErrNoRows
     | v # _ \<Rightarrow> checked (verification_valid (?f v) @ [(single_active (w_db w) (?f v), active_conflict)])
         (?f v, (w_db w)\<lparr>t_verifications := update_where p ?f (runs w)\<rparr>)) = Inr (x, d)"
  then obtain v vs where v: "filter ?p (runs w) = v # vs" and valid: "row_valid (?f v)"
    and single: "single_active (w_db w) (?f v)" and d: "d = (w_db w)\<lparr>t_verifications := update_where ?p ?f (runs w)\<rparr>"
    by (auto simp: Let_def simp flip: row_valid_checks split: list.splits)
  have kept: "table_extends (runs w) (update_where ?p ?f (runs w))"
    using f by (simp add: table_extends_def update_where_def)
  have "v \<in> set (filter ?p (runs w))" by (simp add: v)
  then have vin: "v \<in> set (runs w)" "?p v" by simp_all
  have "run_table (update_where ?p ?f (runs w))" if t: "run_table (runs w)"
  proof -
    have only: "y = v" if "y \<in> set (runs w)" "?p y" for y
      using t that vin unfolding run_table_def distinct_map by (metis inj_onD)
    have ids: "map v_id (update_where ?p ?f (runs w)) = map v_id (runs w)"
      by (simp add: update_where_def id)
    have rows: "y = ?f v \<or> y \<in> set (runs w) \<and> v_id y \<noteq> i \<or> y \<in> set (runs w) \<and> \<not> ?p y"
      if "y \<in> set (update_where ?p ?f (runs w))" for y
      using that only by (auto simp: update_where_def split: if_splits)
    have other: "\<not> verification_active y" if "verification_active (?f v)" "y \<in> set (runs w)" "v_id y \<noteq> v_id v" for y
      using single that by (auto simp: single_active_def list_ex_iff id)
    have act: "v_id y = v_id z" if y: "y \<in> set (update_where ?p ?f (runs w))" "verification_active y"
      and z: "z \<in> set (update_where ?p ?f (runs w))" "verification_active z" for y z
      using rows [OF y(1)] rows [OF z(1)] y z other t id [of "w_tx_now w" v] unfolding run_table_def by metis
    have old: "row_valid y" if "y \<in> set (runs w)" for y
      using t that by (simp add: run_table_def list_all_iff)
    have "row_valid y" if "y \<in> set (update_where ?p ?f (runs w))" for y
      using rows [OF that] valid old by blast
    moreover have "distinct (map v_id (runs w))" using t by (simp add: run_table_def)
    ultimately show ?thesis
      unfolding run_table_def ids list_all_iff using act by blast
  qed
  with kept show "runs_step w (w\<lparr>w_db := d\<rparr>)" by (simp add: runs_step_def d)
qed

lemma runs_statements:
  "runs.guar (q_MarkAuditVerificationRunning i n)" "runs.guar (q_UpdateAuditVerificationProgress i n s)"
  "status \<in> {''VERIFIED'', ''INTEGRITY_FAILURE'', ''FAILED''} \<Longrightarrow> runs.guar (q_CompleteAuditVerification i status n a b c e)"
  "runs.guar (q_MarkAuditVerificationStale i reason)"
proof -
  show "runs.guar (q_MarkAuditVerificationRunning i n)" "runs.guar (q_MarkAuditVerificationStale i reason)"
    unfolding q_MarkAuditVerificationRunning_def q_MarkAuditVerificationStale_def
    by (rule runs_update; simp add: run_kept_def verification_active_def)+
  show "runs.guar (q_UpdateAuditVerificationProgress i n s)"
    unfolding q_UpdateAuditVerificationProgress_def
    by (intro runs.guar_rules runs_update) (simp_all add: run_kept_def verification_active_def)
  show "runs.guar (q_CompleteAuditVerification i status n a b c e)"
    if "status \<in> {''VERIFIED'', ''INTEGRITY_FAILURE'', ''FAILED''}"
    unfolding q_CompleteAuditVerification_def
    by (rule runs_update) (use that in \<open>auto simp: run_kept_def verification_active_def\<close>)
qed

section \<open>The operations\<close>

lemma runs_events [intro!]: "runs.guar (Record ev)" "runs.guar (HasPermission u a)"
  by (auto intro: runs_frame runs_reader reader_HasPermission)

lemma runs_queries [intro!]:
  "runs.guar (q_ListAuditEntriesFromSeq s k)" "runs.guar q_CountAuditEntries" "runs.guar q_GetLatestAuditEntry"
  "runs.guar (q_GetAuditVerificationByID i)" "runs.guar q_GetActiveAuditVerification"
  "runs.guar q_GetLatestAuditVerification" "runs.guar (q_ListAuditVerificationsFiltered f l m)"
  "runs.guar (q_CountAuditVerificationsFiltered f)" "runs.guar (q_ListAuditEntriesFiltered g l m)"
  "runs.guar (q_CountAuditEntriesFiltered g)"
  unfolding q_ListAuditEntriesFromSeq_def q_CountAuditEntries_def q_GetLatestAuditEntry_def
    q_GetAuditVerificationByID_def q_GetActiveAuditVerification_def q_GetLatestAuditVerification_def
    q_ListAuditVerificationsFiltered_def q_CountAuditVerificationsFiltered_def q_ListAuditEntriesFiltered_def
    q_CountAuditEntriesFiltered_def
  by blast+

lemma runs_enqueue [intro!]: "runs.guar (enqueue ty i)"
proof -
  have "runs.guar (infra (\<lambda>w. if (ty, i) \<in> set (w_jobs w)
       then (Inl (StdErr ''task ID conflicts with another task''), w)
       else (Inr (), w\<lparr>w_jobs := w_jobs w @ [(ty, i)]\<rparr>)))"
    by (rule runs.guar_infra) (auto simp: runs.guar_def runs_step_def)
  then show ?thesis unfolding enqueue_def by auto
qed

lemma runs_publish [intro!]: "runs.guar (publish_verification ty i d)"
  unfolding publish_verification_def by auto

lemma runs_reconcile [intro!]: "runs.guar (reconcileStale row)"
  unfolding reconcileStale_def by (auto intro!: runs_statements)

lemma runs_page: "runs.guar (verify_page i n_all p s n)"
  unfolding verify_page_def verify_rows_def Let_def by (auto intro!: runs_statements)

lemma runs_loop [intro!]: "runs.guar (verify_loop i n_all p s n)"
proof (rule runs.guarI)
  fix w
  show "runs_step w (snd (verify_loop i n_all p s n w))"
  proof (induction i n_all p s n w rule: verify_loop.induct)
    case (1 i n_all p s n w)
    obtain u w1 where page: "verify_page i n_all p s n w = (u, w1)" by fastforce
    have "runs_step w w1" using runs.guarD [OF runs_page, of w i n_all p s n] by (simp add: page)
    then show ?case using "1.IH" [OF page [symmetric]]
      by (auto simp: verify_loop.simps [of i n_all p] page split: sum.splits page.splits intro: runs.trans)
  qed
qed

lemma runs_operations:
  "runs.guar (ListAudit user g page)" "runs.guar (StartVerification user)" "runs.guar (GetVerification user i)"
  "runs.guar (ListVerifications user f page)" "runs.guar (GetIntegritySummary user)" "runs.guar (RunVerification i)"
  "runs.guar (verification_error_handler i retried most e)"
  unfolding ListAudit_def StartVerification_def GetVerification_def ListVerifications_def GetIntegritySummary_def
    RunVerification_def verification_error_handler_def MarkVerificationOperationallyFailed_def need_audit_def
    create_or_find_def EnqueueVerifyAuditChain_def row_or_none_def verifyBatches_def completeVerification_def Let_def
  by (auto intro!: runs_create runs_statements)

text \<open>
  Any interleaving of the service's operations, each with any outcome, with steps of the rest
  of the program, which does not write the table.
\<close>

inductive audit_service_runs :: "world \<Rightarrow> world \<Rightarrow> bool" where
  start: "audit_service_runs w w"
| list_trail: "audit_service_runs w w1 \<Longrightarrow> ListAudit user g pg w1 = (r1, w2) \<Longrightarrow> audit_service_runs w w2"
| request: "audit_service_runs w w1 \<Longrightarrow> StartVerification user w1 = (r2, w2) \<Longrightarrow> audit_service_runs w w2"
| read_one: "audit_service_runs w w1 \<Longrightarrow> GetVerification user i w1 = (r3, w2) \<Longrightarrow> audit_service_runs w w2"
| read_all: "audit_service_runs w w1 \<Longrightarrow> ListVerifications user f pg w1 = (r4, w2) \<Longrightarrow> audit_service_runs w w2"
| summary: "audit_service_runs w w1 \<Longrightarrow> GetIntegritySummary user w1 = (r5, w2) \<Longrightarrow> audit_service_runs w w2"
| work: "audit_service_runs w w1 \<Longrightarrow> RunVerification i w1 = (r6, w2) \<Longrightarrow> audit_service_runs w w2"
| give_up: "audit_service_runs w w1 \<Longrightarrow> verification_error_handler i retried most e w1 = (r7, w2) \<Longrightarrow> audit_service_runs w w2"
| others: "audit_service_runs w w1 \<Longrightarrow> runs w2 = runs w1 \<Longrightarrow> audit_service_runs w w2"

lemma operation_step: "runs.guar m \<Longrightarrow> runs_step w w1 \<Longrightarrow> m w1 = (r, w2) \<Longrightarrow> runs_step w w2"
  using runs.guarD [of m w1] runs.trans by auto

lemma service_runs_step: "audit_service_runs w w' \<Longrightarrow> runs_step w w'"
proof (induction rule: audit_service_runs.induct)
  case start
  show ?case by (rule runs.refl)
next
  case list_trail
  show ?case by (rule operation_step [OF runs_operations(1) list_trail.IH list_trail.hyps(2)])
next
  case request
  show ?case by (rule operation_step [OF runs_operations(2) request.IH request.hyps(2)])
next
  case read_one
  show ?case by (rule operation_step [OF runs_operations(3) read_one.IH read_one.hyps(2)])
next
  case read_all
  show ?case by (rule operation_step [OF runs_operations(4) read_all.IH read_all.hyps(2)])
next
  case summary
  show ?case by (rule operation_step [OF runs_operations(5) summary.IH summary.hyps(2)])
next
  case work
  show ?case by (rule operation_step [OF runs_operations(6) work.IH work.hyps(2)])
next
  case give_up
  show ?case by (rule operation_step [OF runs_operations(7) give_up.IH give_up.hyps(2)])
next
  case others
  then show ?case by (simp add: runs_step_def)
qed

text \<open>
  C32.  Whatever the audit service's operations do, in any order and with any call failing,
  the table of runs stays well-formed: the identifiers stay distinct, every row satisfies the
  checks of the schema (its time stamps and failure fields fit its status), and at most one
  run is queued or running.  No run disappears or changes its requester, its role or its time
  of creation, none goes back to the queue, and none that has ended becomes active again.
\<close>

theorem runs_well_formed:
  assumes "audit_service_runs w w'" and "run_table (runs w)"
  shows "distinct (map v_id (runs w')) \<and> list_all row_valid (runs w') \<and>
     length (filter verification_active (runs w')) \<le> 1 \<and>
     length (runs w) \<le> length (runs w') \<and> (\<forall>k<length (runs w). run_kept (runs w ! k) (runs w' ! k))"
proof -
  have step: "table_extends (runs w) (runs w')" "run_table (runs w')"
    using service_runs_step [OF assms(1)] assms(2) by (simp_all add: runs_step_def)
  let ?a = "filter verification_active (runs w')"
  have dist: "distinct (map v_id ?a)" using step(2) by (simp add: run_table_def distinct_map_filter)
  have same: "v_id x = v_id y" if "x \<in> set ?a" "y \<in> set ?a" for x y
    using that step(2) unfolding run_table_def by simp
  have "length ?a \<le> 1"
  proof (rule ccontr)
    assume "\<not> length ?a \<le> 1"
    then obtain x y xs where a: "?a = x # y # xs"
      by (metis One_nat_def Suc_le_eq le_refl list.size(3,4) list.exhaust nat_le_linear not_less_eq_eq add.commute plus_1_eq_Suc)
    have "v_id x = v_id y" by (rule same) (simp_all add: a)
    then show False using dist unfolding a by simp
  qed
  then show ?thesis using step by (simp add: run_table_def table_extends_def)
qed

lemma runs_well_formed_witness:
  "let w' = snd (verification_error_handler 7 3 3 ErrNoRows (snd (RunVerification 7 run_world))) in
     length (filter verification_active (runs w')) \<le> 1 \<and> v_requested_by_user_id (runs w' ! 0) = 10 \<and> v_id (runs w' ! 0) = 7"
proof -
  let ?w' = "snd (verification_error_handler 7 3 3 ErrNoRows (snd (RunVerification 7 run_world)))"
  have path: "audit_service_runs run_world ?w'"
    by (rule audit_service_runs.give_up [OF audit_service_runs.work [OF audit_service_runs.start]]) (rule surjective_pairing)+
  have rows: "runs run_world = [queued_run]" by (simp add: run_world_def sample_world_def)
  then have "run_table (runs run_world)" using run_world_simps(6) by (simp add: run_table_def)
  from runs_well_formed [OF path this] show ?thesis
    by (simp add: rows run_kept_def Let_def) (simp add: queued_run_def)
qed

text \<open>
  A run that has been declared failed because it was silent is still completed when its
  worker comes back: the final status is overwritten.
\<close>

lemma late_completion:
  assumes "row_of i w = [v]" "alone i w" "\<not> faulty w" "row_valid v" "v_status v = ''FAILED''" "v_started_at v \<noteq> None"
  shows "\<exists>v' w'. completeVerification i n None w = (Inr v', w') \<and> row_of i w' = [v'] \<and> v_status v' = ''VERIFIED''"
proof -
  let ?tx = "WithTx workerIdentity (update_verification i (\<lambda>_. True) (run_completed n None))"
  have valid: "row_valid (run_completed n None t v)" for t
    using assms(4,6) by (simp add: row_valid_def verification_valid_def run_completed_def)
  obtain r w1 where tx: "?tx w = (r, w1)" by fastforce
  have "r \<noteq> Inl e" for e
  proof
    assume "r = Inl e"
    with tx have "?tx w = (Inl e, w1)" by simp
    from worker_update_fails [OF this assms(1) _ assms(2,3) run_completed_id] valid show False by blast
  qed
  then obtain v' where r: "r = Inr v'" by (cases r) auto
  from worker_update_run [OF tx [unfolded r] assms(1) run_completed_id]
  have "row_of i w1 = [v']" "v_status v' = ''VERIFIED''" by (auto simp: run_completed_def)
  moreover obtain w2 where pub: "publish_verification ''AUDIT_VERIFICATION_COMPLETED'' i (completed_data i n None) w1 = (Inr (), w2)"
    and db: "w_db w2 = w_db w1" using publish_verification_run by blast
  moreover have "completeVerification i n None w = (Inr v', w2)"
    unfolding completeVerification_def complete_update by (simp add: tryE_def tx [unfolded r] pub ret_def)
  moreover have "row_of i w2 = row_of i w1" by (rule row_of_cong) (simp add: db)
  ultimately show ?thesis by auto
qed

end
