(* ===== verification/Certificates.thy ===== *)
theory Certificates
  imports DocumentService JsonStruct
begin

text \<open>
  backend/internal/service/certificate\_service.go with the statements of
  backend/db/queries/certificates.sql and the signing of backend/pkg/crypto: a certificate is
  bound to the digest of a document that has just been checked, signed over a canonical text,
  stored once per document and digest, and can be verified again from the stored row.  The
  service owns the table compliance\_certificates.
\<close>

section \<open>certificates.sql\<close>

definition pair_taken :: "database \<Rightarrow> certificate_row \<Rightarrow> bool" where [run_defs]:
  "pair_taken d r \<longleftrightarrow> list_ex (\<lambda>x. cc_document_id x = cc_document_id r \<and>
     cc_document_hash x = cc_document_hash r) (t_certificates d)"

text \<open>
  ON CONFLICT ON CONSTRAINT ... DO NOTHING: when the pair of document and digest is taken the
  statement returns no row.  The policies and the check of the table come first.
\<close>

definition certificates_checks :: "database \<Rightarrow> time \<Rightarrow> app_ctx \<Rightarrow> certificate_row \<Rightarrow> (bool \<times> gerr) list" where [run_defs]:
  "certificates_checks d now c r =
    [(certificates_insert d now c r \<and> certificates_select d now c r, rls_error ''compliance_certificates''),
     (length (cc_document_hash r) = 32,
        PgError ''23514'' ''compliance_certificates_document_hash_length_check''),
     (\<not> pair_taken d r, ErrNoRows),
     (\<not> list_ex (\<lambda>x. cc_id x = cc_id r) (t_certificates d), PgError ''23505'' ''compliance_certificates_pkey''),
     (document_exists d (cc_document_id r), PgError ''23503'' ''compliance_certificates_document_id_fkey''),
     (user_exists d (cc_generated_by r), PgError ''23503'' ''compliance_certificates_generated_by_fkey'')]"

definition q_CreateCertificate :: "certificate_row \<Rightarrow> certificate_row op" where [run_defs]:
  "q_CreateCertificate p = exec (\<lambda>lib d c now.
     case lib_jsonb lib (cc_certificate_data p) of None \<Rightarrow> Inl (PgError ''22P02'' '''')
     | Some m \<Rightarrow> let r = p\<lparr>cc_certificate_data := m, cc_created_at := now\<rparr> in
         checked (certificates_checks d now c r) (r, d\<lparr>t_certificates := t_certificates d @ [r]\<rparr>))"

definition visible_certificates :: "database \<Rightarrow> time \<Rightarrow> app_ctx \<Rightarrow> certificate_row list" where [run_defs]:
  "visible_certificates d now c = filter (certificates_select d now c) (t_certificates d)"

definition q_GetCertificateByDocumentAndHash :: "uuid \<Rightarrow> bytes \<Rightarrow> certificate_row op" where [run_defs]:
  "q_GetCertificateByDocumentAndHash did h = query (\<lambda>d c now. one (filter
     (\<lambda>r. cc_document_id r = did \<and> cc_document_hash r = h) (visible_certificates d now c)))"

section \<open>Signing\<close>

text \<open>backend/pkg/crypto/ecdsa\_sign.go; the key is the one the service was built with.\<close>

definition SignECDSA :: "bytes \<Rightarrow> bytes op" where [run_defs]:
  "SignECDSA payload w = (let w' = w\<lparr>w_rng_i := Suc (w_rng_i w)\<rparr> in
     case lib_sign (w_lib w) (w_rng_i w) (lib_sha256 (w_lib w) payload) of
       Inl m \<Rightarrow> (Inl (Wrap ''crypto: sign payload'' (StdErr m)), w')
     | Inr sig \<Rightarrow> (Inr sig, w'))"

definition VerifyECDSA :: "library \<Rightarrow> bytes \<Rightarrow> bytes \<Rightarrow> bool" where [run_defs]:
  "VerifyECDSA lib payload sig = lib_verify_sig lib (lib_sha256 lib payload) sig"

text \<open>\<^verbatim>\<open>hex.DecodeString\<close>; the character an error text would name is left out.\<close>

definition unhex :: "char \<Rightarrow> nat option" where [run_defs]:
  "unhex c = (let n = of_char c in
     if 0x30 \<le> n \<and> n \<le> 0x39 then Some (n - 0x30)
     else if 0x61 \<le> n \<and> n \<le> 0x66 then Some (n - 0x57)
     else if 0x41 \<le> n \<and> n \<le> 0x46 then Some (n - 0x37) else None)"

fun hex_decode :: "string \<Rightarrow> string + bytes" where
  "hex_decode [] = Inr []"
| "hex_decode [c] = Inl (if unhex c = None then ''encoding/hex: invalid byte''
     else ''encoding/hex: odd length hex string'')"
| "hex_decode (a # b # s) = (case unhex a of None \<Rightarrow> Inl ''encoding/hex: invalid byte''
     | Some x \<Rightarrow> (case unhex b of None \<Rightarrow> Inl ''encoding/hex: invalid byte''
       | Some y \<Rightarrow> (case hex_decode s of Inl e \<Rightarrow> Inl e
         | Inr bs \<Rightarrow> Inr (char_of (16 * x + y) # bs))))"

declare hex_decode.simps [run_defs]

section \<open>Constants, payload and results\<close>

definition certificateFormatVersion :: string where [run_defs]:
  "certificateFormatVersion = ''1.0''"

definition signatureAlgorithmECDSA :: string where [run_defs]:
  "signatureAlgorithmECDSA = ''ECDSA-P256-SHA256''"

definition certificateIssuer :: string where [run_defs]:
  "certificateIssuer = ''Evidentia''"

record certificatePayloadData =
  pd_SignatureAlgorithm :: string
  pd_Signature :: string
  pd_Issuer :: string

definition payload_members :: "certificatePayloadData \<Rightarrow> (string \<times> json) list" where [run_defs]:
  "payload_members p = [(''signature_algorithm'', JStr (pd_SignatureAlgorithm p))] @
     (if pd_Signature p = '''' then [] else [(''signature'', JStr (pd_Signature p))]) @
     [(''issuer'', JStr (pd_Issuer p))]"

definition payload_of :: "(string \<times> json) list \<Rightarrow> certificatePayloadData option" where [run_defs]:
  "payload_of kvs = (case field_str kvs ''signature_algorithm'' of None \<Rightarrow> None | Some a \<Rightarrow>
     (case field_str kvs ''signature'' of None \<Rightarrow> None | Some s \<Rightarrow>
     (case field_str kvs ''issuer'' of None \<Rightarrow> None | Some i \<Rightarrow>
        Some \<lparr>pd_SignatureAlgorithm = a, pd_Signature = s, pd_Issuer = i\<rparr>)))"

text \<open>A decode whose error is dropped: the fields that do decode are set, the others stay empty.\<close>

definition payload_best_effort :: "library \<Rightarrow> bytes \<Rightarrow> certificatePayloadData" where [run_defs]:
  "payload_best_effort lib b =
     (let kvs = (case lib_json_value lib b of Inr (JObj kvs) \<Rightarrow> kvs | _ \<Rightarrow> []);
          str = (\<lambda>k. case field_str kvs k of None \<Rightarrow> '''' | Some s \<Rightarrow> s) in
      \<lparr>pd_SignatureAlgorithm = str ''signature_algorithm'', pd_Signature = str ''signature'',
        pd_Issuer = str ''issuer''\<rparr>)"

definition payload_line :: "string \<Rightarrow> string \<Rightarrow> string" where [run_defs]:
  "payload_line k v = [CHR 0x0A] @ k @ ''='' @ v"

definition canonicalCertificatePayload ::
    "library \<Rightarrow> uuid \<Rightarrow> uuid \<Rightarrow> bytes \<Rightarrow> string \<Rightarrow> time \<Rightarrow> string \<Rightarrow> uuid \<Rightarrow> bytes" where [run_defs]:
  "canonicalCertificatePayload lib certID documentID h version issuedAt issuer generatedBy =
     ''evidentia-compliance-certificate'' @
     payload_line ''certificate_id'' (uuid_string certID) @
     payload_line ''document_id'' (uuid_string documentID) @
     payload_line ''document_hash'' (hex_encode h) @
     payload_line ''certificate_version'' version @
     payload_line ''issued_at'' (lib_rfc3339 lib issuedAt) @
     payload_line ''issuer'' issuer @
     payload_line ''generated_by'' (uuid_string generatedBy)"

record CertificateSummary =
  cs_ID :: uuid
  cs_DocumentID :: uuid
  cs_DocumentHash :: string
  cs_CertificateVersion :: string
  cs_SignatureAlgorithm :: string
  cs_Signature :: string
  cs_Issuer :: string
  cs_GeneratedBy :: uuid
  cs_GeneratedAt :: time

definition toCertificateSummary :: "library \<Rightarrow> certificate_row \<Rightarrow> CertificateSummary" where [run_defs]:
  "toCertificateSummary lib c = (let p = payload_best_effort lib (cc_certificate_data c) in
     \<lparr>cs_ID = cc_id c, cs_DocumentID = cc_document_id c, cs_DocumentHash = hex_encode (cc_document_hash c),
       cs_CertificateVersion = cc_certificate_version c, cs_SignatureAlgorithm = pd_SignatureAlgorithm p,
       cs_Signature = pd_Signature p, cs_Issuer = pd_Issuer p, cs_GeneratedBy = cc_generated_by c,
       cs_GeneratedAt = cc_generated_at c\<rparr>)"

section \<open>VerifyCertificateIntegrity\<close>

text \<open>The code returns a result beside an error, for no caller to use; here an error has none.\<close>

record CertificateVerificationResult =
  cv_HashMatches :: bool
  cv_SignatureChecked :: bool
  cv_SignatureValid :: bool

definition VerifyCertificateIntegrity ::
    "library \<Rightarrow> certificate_row \<Rightarrow> bytes \<Rightarrow> gerr + CertificateVerificationResult" where [run_defs]:
  "VerifyCertificateIntegrity lib cert current =
     (let res = \<lparr>cv_HashMatches = (cc_document_hash cert = current), cv_SignatureChecked = False,
          cv_SignatureValid = False\<rparr> in
      case decode_struct lib payload_of (cc_certificate_data cert) of
        Inl e \<Rightarrow> Inl (Wrap ''parse certificate_data'' e)
      | Inr data \<Rightarrow> if pd_SignatureAlgorithm data = '''' \<or> pd_Signature data = '''' then Inr res
          else (case hex_decode (pd_Signature data) of
            Inl m \<Rightarrow> Inl (Wrap ''decode certificate signature'' (StdErr m))
          | Inr sig \<Rightarrow> Inr (res\<lparr>cv_SignatureChecked := True, cv_SignatureValid :=
              VerifyECDSA lib (canonicalCertificatePayload lib (cc_id cert) (cc_document_id cert)
                (cc_document_hash cert) (cc_certificate_version cert) (cc_generated_at cert)
                (pd_Issuer data) (cc_generated_by cert)) sig\<rparr>)))"

section \<open>GetOrCreateCertificate\<close>

definition fetchCertificate :: "app_identity \<Rightarrow> uuid \<Rightarrow> bytes \<Rightarrow> certificate_row option op" where [run_defs]:
  "fetchCertificate ident did h = WithTx ident (tryE (q_GetCertificateByDocumentAndHash did h)
     (\<lambda>e. if is_no_rows e then ret None else fail e) (\<lambda>c. ret (Some c)))"

text \<open>The row of a certificate as the service fills it.\<close>

definition certificate_of :: "library \<Rightarrow> document_row \<Rightarrow> uuid \<Rightarrow> uuid \<Rightarrow> time \<Rightarrow> bytes \<Rightarrow> certificate_row" where [run_defs]:
  "certificate_of lib doc by i issuedAt sig = \<lparr>cc_id = i, cc_document_id = d_id doc,
     cc_document_hash = d_sha256_hash doc, cc_certificate_version = certificateFormatVersion,
     cc_certificate_data = lib_json_marshal lib (JObj (payload_members
       \<lparr>pd_SignatureAlgorithm = signatureAlgorithmECDSA, pd_Signature = hex_encode sig,
         pd_Issuer = certificateIssuer\<rparr>)),
     cc_generated_by = by, cc_generated_at = issuedAt, cc_created_at = 0\<rparr>"

definition persistCertificate :: "app_identity \<Rightarrow> certificate_row \<Rightarrow> certificate_row op" where [run_defs]:
  "persistCertificate ident r = WithTx ident (tryE (q_CreateCertificate r)
     (\<lambda>e. if is_no_rows e then q_GetCertificateByDocumentAndHash (cc_document_id r) (cc_document_hash r)
        else fail e) ret)"

definition certificate_event :: "authenticated_user \<Rightarrow> document_row \<Rightarrow> uuid \<Rightarrow> event" where [run_defs]:
  "certificate_event user doc i = \<lparr>ev_action = ''CERTIFICATE_CREATED'',
     ev_resource_type = ''compliance_certificate'', ev_resource_id = Some i, ev_user_id = Some (au_ID user),
     ev_role = effectiveCaseRole user, ev_case_id = Some (d_case_id doc),
     ev_metadata = JObj [(''document_id'', JStr (uuid_string (d_id doc))),
       (''document_hash'', JStr (hex_encode (d_sha256_hash doc)))]\<rparr>"

definition certificate_published :: "document_row \<Rightarrow> uuid \<Rightarrow> unit op" where [run_defs]:
  "certificate_published doc i = publish ''CERTIFICATE_GENERATION_COMPLETED'' ''case''
     (uuid_string (d_case_id doc)) [(''certificate_id'', JStr (uuid_string i)),
       (''document_id'', JStr (uuid_string (d_id doc))), (''case_id'', JStr (uuid_string (d_case_id doc))),
       (''document_hash'', JStr (hex_encode (d_sha256_hash doc)))]"

text \<open>Signing, storing and announcing a certificate for a document that has just been checked.\<close>

definition issueCertificate :: "app_identity \<Rightarrow> authenticated_user \<Rightarrow> document_row \<Rightarrow> CertificateSummary op" where [run_defs]:
  "issueCertificate ident user doc = bindE uuid_new (\<lambda>i. bindE time_now (\<lambda>issuedAt. bindE (get_world w_lib) (\<lambda>lib.
     tryE (SignECDSA (canonicalCertificatePayload lib i (d_id doc) (d_sha256_hash doc)
         certificateFormatVersion issuedAt certificateIssuer (au_ID user)))
       (\<lambda>e. fail (ErrInternal (Wrap ''sign certificate payload'' e)))
       (\<lambda>sig. tryE (persistCertificate ident (certificate_of lib doc (au_ID user) i issuedAt sig))
          (\<lambda>e. fail (ErrInternal (Wrap ''persist compliance certificate'' e)))
          (\<lambda>created. bindE (Record (certificate_event user doc (cc_id created))) (\<lambda>_.
             bindE (certificate_published doc (cc_id created)) (\<lambda>_.
             ret (toCertificateSummary lib created))))))))"

definition generateCertificate :: "app_identity \<Rightarrow> authenticated_user \<Rightarrow> document_row \<Rightarrow> CertificateSummary op" where [run_defs]:
  "generateCertificate ident user doc = tryE (recomputeDocumentHash doc)
     (\<lambda>_. fail (ErrServiceUnavailable ''The document could not be retrieved to generate a certificate''))
     (\<lambda>computed. tryE (reconcileTamperStatus ident doc (computed = d_sha256_hash doc)) (\<lambda>e. fail (ErrInternal e))
        (\<lambda>_. if computed \<noteq> d_sha256_hash doc then
            bindE (Record (document_event ''DOCUMENT_INTEGRITY_FAILURE'' user doc
               [(''stored_hash'', JStr (hex_encode (d_sha256_hash doc))),
                (''computed_hash'', JStr (hex_encode computed)),
                (''context'', JStr ''certificate_generation'')])) (\<lambda>_.
            fail (ErrConflict ''Cannot generate a compliance certificate: the document failed integrity verification''))
          else issueCertificate ident user doc))"

definition GetOrCreateCertificate :: "authenticated_user \<Rightarrow> uuid \<Rightarrow> CertificateSummary op" where [run_defs]:
  "GetOrCreateCertificate user documentID = need_access CanAccessDocument user documentID ''certificate:read'' (
     load_document user documentID (\<lambda>doc.
     tryE (fetchCertificate (case_ident user) (d_id doc) (d_sha256_hash doc)) (\<lambda>e. fail (ErrInternal e))
       (\<lambda>existing. case existing of
          Some c \<Rightarrow> get_world (\<lambda>w. toCertificateSummary (w_lib w) c)
        | None \<Rightarrow> tryE (CanAccessDocument user documentID ''certificate:create'') (\<lambda>e. fail (ErrInternal e))
            (\<lambda>dec. ensure (Allowed dec) (ErrNotFound ''No compliance certificate exists for this document'')
               (generateCertificate (case_ident user) user doc)))))"

end
