(* ===== verification/Guards.thy ===== *)
theory Guards
  imports DocumentFacts
begin

text \<open>
  What the services on documents share: single steps of an operation, the guards on every
  outcome, and the operations that leave the tables alone when they fail.
\<close>

section \<open>Steps\<close>

lemma tryE_steps:
  "tryE uuid_new h k w = k (w_rng w (w_rng_i w)) (w\<lparr>w_rng_i := Suc (w_rng_i w)\<rparr>)"
  "tryE time_now h j w = j (w_clock w (w_clock_i w)) (w\<lparr>w_clock_i := Suc (w_clock_i w)\<rparr>)"
  "tryE (get_world f) h l w = l (f w) w"
  "tryE (publish a b c e) h m w = m () (snd (publish a b c e w))"
  by (simp_all add: tryE_def uuid_new_def time_now_def get_world_def publish_def)

section \<open>The guards\<close>

lemma document_gate_cases:
  assumes "need_access CanAccessDocument user i act k w = (r, w')" "au_ID user \<noteq> nil_uuid"
  shows "(\<exists>e. r = Inl e) \<and> undisturbed w w' \<or>
    (\<exists>w1. k w1 = (r, w') \<and> undisturbed w w1 \<and> document_access w user i act)"
proof -
  obtain d w1 where d: "CanAccessDocument user i act w = (d, w1)" by fastforce
  have "undisturbed w w1" using calmD [OF calm_gates(1) d] .
  then show ?thesis
    using assms d CanAccessDocument_run [of user i act w _ w1]
    by (cases d) (auto simp: need_access_def tryE_def fail_def ensure_def split: if_splits)
qed

lemma load_document_cases:
  assumes "load_document user i k w = (r, w')"
  shows "(\<exists>e. r = Inl e) \<and> undisturbed w w' \<or>
    (\<exists>doc w1. doc \<in> set (t_documents (w_db w)) \<and> d_id doc = i \<and> k doc w1 = (r, w') \<and> undisturbed w w1)"
proof -
  let ?q = "WithTx (case_ident user) (q_GetDocumentByID i)"
  obtain d w1 where d: "?q w = (d, w1)" by fastforce
  have "calm ?q" by (rule calm_reader) (auto simp: q_GetDocumentByID_def)
  then have u: "undisturbed w w1" using d by (rule calmD)
  show ?thesis
  proof (cases d)
    case (Inl e)
    then show ?thesis using assms d u by (auto simp: load_document_def tryE_def no_rows_as_def fail_def)
  next
    case (Inr doc)
    have "doc \<in> set (t_documents (w_db w))" "d_id doc = i"
      using d Inr by (auto simp: WithTx_run q_GetDocumentByID_def query_run visible_documents_def filter_eq_Cons_iff)
    then show ?thesis using assms d u Inr by (auto simp: load_document_def tryE_def)
  qed
qed

end
