(* ===== verification/CertificateFacts.thy ===== *)
theory CertificateFacts
  imports Certificates Guards AuditRunFacts FabricFacts
begin

text \<open>
  Certificates: hexadecimal text round-trips, the signed text binds every field of a row, and
  what issuing a certificate does to the table.
\<close>

section \<open>Hexadecimal text\<close>

lemma unhex_digit: "n < 16 \<Longrightarrow> unhex (hex_digit n) = Some n"
proof -
  assume "n < 16"
  then have "n \<in> set [0..<16]" by simp
  moreover have "list_all (\<lambda>n. unhex (hex_digit n) = Some n) [0..<16]"
    by (simp add: upt_rec unhex_def hex_digit_def)
  ultimately show ?thesis by (simp add: list_all_iff)
qed

lemma hex_decode_byte: "hex_decode (hex_byte c @ s) = (case hex_decode s of Inl e \<Rightarrow> Inl e | Inr bs \<Rightarrow> Inr (c # bs))"
proof -
  let ?n = "of_char c :: nat"
  have n: "?n div 16 < 16" "?n mod 16 < 16" using nat_of_char_less_256 [of c] by (simp_all add: less_mult_imp_div_less)
  have "hex_byte c = [hex_digit (?n div 16), hex_digit (?n mod 16)]"
    using n by (simp add: hex_byte_def numeral_2_eq_2)
  moreover have "char_of (16 * (?n div 16) + ?n mod 16) = c" by simp
  ultimately show ?thesis using n by (cases "hex_decode s") (simp_all add: unhex_digit)
qed

lemma hex_round_trip [simp]: "hex_decode (hex_encode b) = Inr b"
  by (induction b) (simp_all add: hex_decode_byte)

section \<open>The statements\<close>

lemma persist_run:
  assumes "persistCertificate ident p w = (r, w')"
  shows "case r of Inl e \<Rightarrow> tables w' = tables w
    | Inr c \<Rightarrow> cc_document_id c = cc_document_id p \<and> cc_document_hash c = cc_document_hash p \<and>
       (tables w' = tables w \<and> c \<in> set (t_certificates (w_db w)) \<or>
        (\<exists>m t. lib_jsonb (w_lib w) (cc_certificate_data p) = Some m \<and>
           c = p\<lparr>cc_certificate_data := m, cc_created_at := t\<rparr> \<and> \<not> pair_taken (w_db w) c \<and>
           tables w' = (tables w)\<lparr>t_certificates := t_certificates (w_db w) @ [c]\<rparr>))"
proof (cases r)
  case (Inl e)
  then show ?thesis using assms by (auto simp: persistCertificate_def dest: WithTx_tables)
next
  case (Inr c)
  let ?w = "started ident w"
  from assms Inr obtain w2 where body: "tryE (q_CreateCertificate p)
     (\<lambda>e. if is_no_rows e then q_GetCertificateByDocumentAndHash (cc_document_id p) (cc_document_hash p)
        else fail e) ret ?w = (Inr c, w2)" and w': "w_db w' = w_db w2"
    by (auto simp: persistCertificate_def WithTx_run end_tx_def)
  from body consider
    (made) "q_CreateCertificate p ?w = (Inr c, w2)"
  | (lost) e w1 where "q_CreateCertificate p ?w = (Inl e, w1)"
      "q_GetCertificateByDocumentAndHash (cc_document_id p) (cc_document_hash p) w1 = (Inr c, w2)"
    by (auto simp: tryE_Inr ret_run fail_run split: if_splits)
  then show ?thesis
  proof cases
    case made
    then obtain m where m: "lib_jsonb (w_lib w) (cc_certificate_data p) = Some m"
      and c: "c = p\<lparr>cc_certificate_data := m, cc_created_at := w_tx_now ?w\<rparr>" "\<not> pair_taken (w_db w) c"
      and db: "w_db w2 = (w_db w)\<lparr>t_certificates := t_certificates (w_db w) @ [c]\<rparr>"
      by (auto simp: q_CreateCertificate_def exec_run Let_def certificates_checks_def split: option.splits)
    have "tables w' = (tables w)\<lparr>t_certificates := t_certificates (w_db w) @ [c]\<rparr>"
      using w' db by (simp add: tables_def)
    then show ?thesis using Inr m c by auto
  next
    case lost
    have "w_db w1 = w_db w" using lost(1) exec_Inl_db by (fastforce simp: q_CreateCertificate_def)
    then have "w_db w' = w_db w" and "c \<in> set (t_certificates (w_db w))" "cc_document_id c = cc_document_id p"
      "cc_document_hash c = cc_document_hash p"
      using lost(2) w' by (auto simp: q_GetCertificateByDocumentAndHash_def query_run visible_certificates_def
          filter_eq_Cons_iff)
    then show ?thesis using Inr by (simp add: tables_def)
  qed
qed

lemma persist_param: "param.guar (persistCertificate ident p)"
  unfolding persistCertificate_def q_CreateCertificate_def q_GetCertificateByDocumentAndHash_def by auto

lemma fetch_run:
  assumes "fetchCertificate ident did h w = (Inr (Some c), w')"
  shows "c \<in> set (t_certificates (w_db w)) \<and> cc_document_id c = did \<and> cc_document_hash c = h"
  using assms
  by (auto simp: fetchCertificate_def WithTx_run tryE_Inr ret_run fail_run q_GetCertificateByDocumentAndHash_def
      query_run visible_certificates_def filter_eq_Cons_iff split: if_splits)

lemma fetch_calm [intro!]: "calm (fetchCertificate ident did h)"
  by (rule calm_reader) (auto simp: fetchCertificate_def q_GetCertificateByDocumentAndHash_def)

section \<open>What a certificate means\<close>

text \<open>
  The laws of the library.  An object of plain members written to a jsonb column reads back
  with the same members; a signature over a digest verifies and is not empty.
\<close>

definition certificate_laws :: "library \<Rightarrow> bool" where
  "certificate_laws lib \<longleftrightarrow>
     (\<forall>kvs b. flat_object kvs \<longrightarrow> lib_jsonb lib (lib_json_marshal lib (JObj kvs)) = Some b \<longrightarrow>
        (\<exists>kvs'. lib_json_value lib b = Inr (JObj kvs') \<and> map_of kvs' = map_of kvs)) \<and>
     (\<forall>n p s. lib_sign lib n (lib_sha256 lib p) = Inr s \<longrightarrow>
        s \<noteq> [] \<and> lib_verify_sig lib (lib_sha256 lib p) s)"

definition certificate_valid :: "library \<Rightarrow> certificate_row \<Rightarrow> bool" where
  "certificate_valid lib c \<longleftrightarrow> VerifyCertificateIntegrity lib c (cc_document_hash c) =
     Inr \<lparr>cv_HashMatches = True, cv_SignatureChecked = True, cv_SignatureValid = True\<rparr>"

definition certificate_key :: "certificate_row \<Rightarrow> uuid \<times> bytes" where
  "certificate_key c = (cc_document_id c, cc_document_hash c)"

abbreviation certificates :: "world \<Rightarrow> certificate_row list" where
  "certificates w \<equiv> t_certificates (w_db w)"

definition certificates_good :: "world \<Rightarrow> bool" where
  "certificates_good w \<longleftrightarrow> list_all (certificate_valid (w_lib w)) (certificates w) \<and>
     distinct (map certificate_key (certificates w))"

lemma issued_valid:
  assumes laws: "certificate_laws lib"
    and sig: "lib_sign lib n (lib_sha256 lib (canonicalCertificatePayload lib i (d_id doc) (d_sha256_hash doc)
        certificateFormatVersion t certificateIssuer by)) = Inr sig"
    and m: "lib_jsonb lib (cc_certificate_data (certificate_of lib doc by i t sig)) = Some m"
  shows "certificate_valid lib ((certificate_of lib doc by i t sig)\<lparr>cc_certificate_data := m, cc_created_at := u\<rparr>)"
proof -
  let ?p = "\<lparr>pd_SignatureAlgorithm = signatureAlgorithmECDSA, pd_Signature = hex_encode sig, pd_Issuer = certificateIssuer\<rparr>"
  have sig2: "sig \<noteq> []" "lib_verify_sig lib (lib_sha256 lib (canonicalCertificatePayload lib i (d_id doc)
      (d_sha256_hash doc) certificateFormatVersion t certificateIssuer by)) sig"
    using laws sig unfolding certificate_laws_def by blast+
  have ne: "hex_encode sig \<noteq> ''''" using sig2(1) by (cases sig) (auto simp: hex_byte_def numeral_2_eq_2)
  have "flat_object (payload_members ?p)"
    by (simp add: flat_object_def payload_members_def ne flat_value_def signatureAlgorithmECDSA_def certificateIssuer_def
        utf8_ascii del: utf8_valid.simps)
  moreover have "lib_jsonb lib (lib_json_marshal lib (JObj (payload_members ?p))) = Some m"
    using m by (simp add: certificate_of_def)
  ultimately obtain kvs' where v: "lib_json_value lib m = Inr (JObj kvs')" "map_of kvs' = map_of (payload_members ?p)"
    using laws unfolding certificate_laws_def by blast
  have "payload_of kvs' = payload_of (payload_members ?p)"
    unfolding payload_of_def field_cong [OF v(2)] ..
  also have "\<dots> = Some ?p" by (simp add: payload_of_def field_str_def payload_members_def ne)
  finally have "decode_struct lib payload_of m = Inr ?p" by (simp add: decode_struct_def v)
  then show ?thesis
    using sig2 ne by (simp add: certificate_valid_def VerifyCertificateIntegrity_def certificate_of_def VerifyECDSA_def
        signatureAlgorithmECDSA_def)
qed

section \<open>Issuing\<close>

lemma issue_run:
  assumes run: "issueCertificate ident user doc w = (r, w')"
    and laws: "certificate_laws (w_lib w)" and good: "certificates_good w"
  shows "certificates_good w' \<and> (case r of Inl e \<Rightarrow> certificates w' = certificates w
    | Inr s \<Rightarrow> \<exists>c\<in>set (certificates w'). s = toCertificateSummary (w_lib w) c \<and>
        certificate_key c = (d_id doc, d_sha256_hash doc) \<and>
        (certificates w' = certificates w \<or>
         certificates w' = certificates w @ [c] \<and> cc_generated_by c = au_ID user))"
proof -
  let ?i = "w_rng w (w_rng_i w)" and ?t = "w_clock w (w_clock_i w)"
  let ?p = "canonicalCertificatePayload (w_lib w) ?i (d_id doc) (d_sha256_hash doc) certificateFormatVersion ?t
      certificateIssuer (au_ID user)"
  let ?w = "w\<lparr>w_rng_i := Suc (w_rng_i w), w_clock_i := Suc (w_clock_i w)\<rparr>"
  let ?rest = "\<lambda>sig. tryE (persistCertificate ident (certificate_of (w_lib w) doc (au_ID user) ?i ?t sig))
          (\<lambda>e. fail (ErrInternal (Wrap ''persist compliance certificate'' e)))
          (\<lambda>created. bindE (Record (certificate_event user doc (cc_id created))) (\<lambda>_.
             bindE (certificate_published doc (cc_id created)) (\<lambda>_.
             ret (toCertificateSummary (w_lib w) created))))"
  have unfolded: "tryE (SignECDSA ?p) (\<lambda>e. fail (ErrInternal (Wrap ''sign certificate payload'' e))) ?rest ?w = (r, w')"
    using run by (simp add: issueCertificate_def tryE_steps)
  let ?w1 = "?w\<lparr>w_rng_i := Suc (w_rng_i ?w)\<rparr>"
  show ?thesis
  proof (cases "lib_sign (w_lib w) (Suc (w_rng_i w)) (lib_sha256 (w_lib w) ?p)")
    case (Inl m)
    then have "r = Inl (ErrInternal (Wrap ''sign certificate payload'' (Wrap ''crypto: sign payload'' (StdErr m))))" "w' = ?w1"
      using unfolded by (simp_all add: tryE_def SignECDSA_def fail_def Let_def)
    then show ?thesis using good by (simp add: certificates_good_def)
  next
    case sig: (Inr sig)
    let ?row = "certificate_of (w_lib w) doc (au_ID user) ?i ?t sig"
    have rest: "?rest sig ?w1 = (r, w')"
      using unfolded sig by (simp add: tryE_def [of "SignECDSA ?p"] SignECDSA_def Let_def)
    obtain r2 w2 where p: "persistCertificate ident ?row ?w1 = (r2, w2)" by fastforce
    note stored = persist_run [OF p]
    show ?thesis
    proof (cases r2)
      case (Inl e)
      then have "w' = w2" "\<exists>e'. r = Inl e'" using rest p by (auto simp: tryE_def fail_def)
      moreover have "tables w2 = tables ?w1" using stored Inl by simp
      moreover have "param.guar (persistCertificate ident ?row)" by (rule persist_param)
      then have "w_lib w2 = w_lib w" using param.guarD [of "persistCertificate ident ?row" ?w1] p
        by (simp add: params_same_def)
      ultimately show ?thesis using good tables_eqD(14) [of w2 ?w1] by (auto simp: certificates_good_def)
    next
      case (Inr c)
      let ?w3 = "snd (Record (certificate_event user doc (cc_id c)) w2)"
      have fin: "r = Inr (toCertificateSummary (w_lib w) c)" "w_db w' = w_db ?w3" "w_lib w' = w_lib ?w3"
        using rest unfolding tryE_def [of "persistCertificate ident ?row"] p Inr prod.case sum.case Record_then
        by (auto simp: certificate_published_def publish_def tryE_steps ret_def)
      have "undisturbed w2 ?w3" by (rule Record_undisturbed) (rule surjective_pairing)
      moreover have "param.guar (persistCertificate ident ?row)" by (rule persist_param)
      then have "w_lib w2 = w_lib w" using param.guarD [of "persistCertificate ident ?row" ?w1] p
        by (simp add: params_same_def)
      ultimately have same: "certificates w' = certificates w2" "w_lib w' = w_lib w"
        using fin undisturbedD(1,4) [of w2 ?w3] tables_eqD(14) [of ?w3 w2] by simp_all
      have key: "certificate_key c = (d_id doc, d_sha256_hash doc)"
        using stored Inr by (auto simp: certificate_key_def certificate_of_def)
      from stored Inr consider (lost) "tables w2 = tables ?w1" "c \<in> set (certificates ?w1)"
        | (made) m u where "lib_jsonb (w_lib w) (cc_certificate_data ?row) = Some m"
          "c = ?row\<lparr>cc_certificate_data := m, cc_created_at := u\<rparr>" "\<not> pair_taken (w_db w) c"
          "tables w2 = (tables ?w1)\<lparr>t_certificates := certificates ?w1 @ [c]\<rparr>" by auto
      then show ?thesis
      proof cases
        case lost
        then have "certificates w' = certificates w" using same(1) tables_eqD(14) [of w2 ?w1] by simp
        then show ?thesis using lost(2) fin(1) good key same(2) by (auto simp: certificates_good_def)
      next
        case made
        have "certificates w2 = t_certificates (tables w2)" by simp
        also have "\<dots> = certificates w @ [c]" using made(4) by simp
        finally have all: "certificates w' = certificates w @ [c]" using same(1) by simp
        have "certificate_valid (w_lib w) c" unfolding made(2) using laws sig made(1) by (rule issued_valid)
        moreover have "certificate_key c \<notin> certificate_key ` set (certificates w)"
          using made(3) by (auto simp: pair_taken_def certificate_key_def list_ex_iff)
        moreover have "cc_generated_by c = au_ID user" by (simp add: made(2) certificate_of_def)
        ultimately show ?thesis using all fin(1) good key same(2) by (auto simp: certificates_good_def)
      qed
    qed
  qed
qed

section \<open>The whole operation\<close>

lemma undisturbed_certificates:
  "undisturbed w w' \<Longrightarrow> certificates w' = certificates w"
  "undisturbed w w' \<Longrightarrow> certificates_good w' = certificates_good w"
  using undisturbedD(1,4) [of w w'] tables_eqD(14) [of w' w] by (simp_all add: certificates_good_def)

definition issued :: "world \<Rightarrow> authenticated_user \<Rightarrow> document_row \<Rightarrow> gerr + CertificateSummary \<Rightarrow> world \<Rightarrow> bool" where
  "issued w user doc r w' \<longleftrightarrow> (case r of Inl e \<Rightarrow> certificates w' = certificates w
    | Inr s \<Rightarrow> \<exists>c\<in>set (certificates w'). s = toCertificateSummary (w_lib w) c \<and>
        certificate_key c = (d_id doc, d_sha256_hash doc) \<and>
        (certificates w' = certificates w \<or>
         certificates w' = certificates w @ [c] \<and> cc_generated_by c = au_ID user \<and>
         (\<exists>b. w_objects w (d_storage_object_key doc) = Some b \<and> lib_sha256 (w_lib w) b = d_sha256_hash doc)))"

lemma issued_from:
  "issued w user doc r w' \<Longrightarrow> certificates w = certificates v \<Longrightarrow> w_lib w = w_lib v \<Longrightarrow>
     w_objects w = w_objects v \<Longrightarrow> issued v user doc r w'"
  by (cases r) (simp_all add: issued_def)

lemma generate_run:
  assumes run: "generateCertificate ident user doc w = (r, w')"
    and laws: "certificate_laws (w_lib w)" and good: "certificates_good w"
  shows "certificates_good w' \<and> issued w user doc r w'"
proof -
  obtain d w1 where d: "recomputeDocumentHash doc w = (d, w1)" by fastforce
  have "calm (recomputeDocumentHash doc)" by (rule calm_reader) auto
  then have u: "undisturbed w w1" using d by (rule calmD)
  show ?thesis
  proof (cases d)
    case (Inl e)
    then have "w' = w1" "\<exists>e. r = Inl e" using run d by (auto simp: generateCertificate_def tryE_def fail_def)
    then show ?thesis using u good by (auto simp: issued_def undisturbed_certificates)
  next
    case (Inr h)
    obtain d2 w2 where d2: "reconcileTamperStatus ident doc (h = d_sha256_hash doc) w1 = (d2, w2)" by fastforce
    obtain b where b: "w_objects w (d_storage_object_key doc) = Some b" "h = lib_sha256 (w_lib w) b"
      using recompute_run d Inr by blast
    have s: "status_only (d_id doc) w1 w2" "w_objects w2 = w_objects w1" "w_lib w2 = w_lib w1"
      using reconcile_run [OF d2] by (auto simp: params_same_def)
    have c: "certificates w2 = certificates w1"
    proof -
      have "certificates w2 = t_certificates (tables w2)" by simp
      also have "\<dots> = certificates w1" using s(1) by (auto simp: status_only_def simp del: tables_sel) simp
      finally show ?thesis .
    qed
    have same: "certificates w2 = certificates w" "w_lib w2 = w_lib w" "w_objects w2 = w_objects w"
      using c s u undisturbed_certificates(1) [OF u] undisturbedD [OF u] by simp_all
    then have good2: "certificates_good w2" using good by (simp add: certificates_good_def)
    show ?thesis
    proof (cases "(\<exists>e. d2 = Inl e) \<or> h \<noteq> d_sha256_hash doc")
      case True
      have "(\<exists>e. r = Inl e) \<and> undisturbed w2 w'"
      proof (cases d2)
        case (Inl e)
        then show ?thesis using run d d2 Inr by (auto simp: generateCertificate_def tryE_def fail_def)
      next
        case d2u: (Inr u)
        then obtain ev msg where "bindE (Record ev) (\<lambda>_. fail (ErrConflict msg)) w2 = (r, w')"
          using run d d2 Inr True by (auto simp: generateCertificate_def tryE_def)
        then have "r = Inl (ErrConflict msg)" "w' = snd (Record ev w2)" by (simp_all add: Record_then fail_def)
        then show ?thesis using Record_undisturbed [of ev w2] by (metis surjective_pairing)
      qed
      then show ?thesis using same good2 undisturbed_certificates [of w2 w'] by (auto simp: issued_def)
    next
      case False
      then have "issueCertificate ident user doc w2 = (r, w')"
        using run d d2 Inr by (cases d2) (auto simp: generateCertificate_def tryE_def)
      then show ?thesis
        using issue_run [of ident user doc w2 r w'] laws good2 same b False
        by (auto simp: issued_def split: sum.splits)
    qed
  qed
qed

lemma GetOrCreate_run:
  assumes run: "GetOrCreateCertificate user i w = (r, w')" and id: "au_ID user \<noteq> nil_uuid"
    and laws: "certificate_laws (w_lib w)" and good: "certificates_good w"
  shows "certificates_good w' \<and> ((\<exists>e. r = Inl e) \<and> certificates w' = certificates w \<or>
    document_access w user i ''certificate:read'' \<and> (\<exists>doc\<in>set (t_documents (w_db w)). d_id doc = i \<and>
       issued w user doc r w' \<and> (certificates w' = certificates w \<or> permitted (w_db w) user ''certificate:create'')))"
    (is "_ \<and> (?fails \<or> ?works)")
proof -
  from document_gate_cases [OF run [unfolded GetOrCreateCertificate_def] id] consider
    (no) e where "r = Inl e" "undisturbed w w'"
  | (gate) w1 where "load_document user i (\<lambda>doc.
     tryE (fetchCertificate (case_ident user) (d_id doc) (d_sha256_hash doc)) (\<lambda>e. fail (ErrInternal e))
       (\<lambda>existing. case existing of
          Some c \<Rightarrow> get_world (\<lambda>w. toCertificateSummary (w_lib w) c)
        | None \<Rightarrow> tryE (CanAccessDocument user i ''certificate:create'') (\<lambda>e. fail (ErrInternal e))
            (\<lambda>dec. ensure (Allowed dec) (ErrNotFound ''No compliance certificate exists for this document'')
               (generateCertificate (case_ident user) user doc)))) w1 = (r, w')" "undisturbed w w1"
       "document_access w user i ''certificate:read''" by blast
  then show ?thesis
  proof cases
    case no
    then show ?thesis using good undisturbed_certificates by simp
  next
    case gate
    from load_document_cases [OF gate(1)] show ?thesis
    proof (elim disjE exE conjE)
      fix e assume u: "undisturbed w1 w'" and "r = Inl e"
      moreover have "undisturbed w w'" using gate(2) u by (rule undisturbed_trans)
      ultimately show ?thesis using good undisturbed_certificates [of w w'] by simp
    next
      fix doc w2
      assume doc: "doc \<in> set (t_documents (w_db w1))" "d_id doc = i" and u2: "undisturbed w1 w2"
        and k: "tryE (fetchCertificate (case_ident user) (d_id doc) (d_sha256_hash doc)) (\<lambda>e. fail (ErrInternal e))
          (\<lambda>existing. case existing of
             Some c \<Rightarrow> get_world (\<lambda>w. toCertificateSummary (w_lib w) c)
           | None \<Rightarrow> tryE (CanAccessDocument user i ''certificate:create'') (\<lambda>e. fail (ErrInternal e))
               (\<lambda>dec. ensure (Allowed dec) (ErrNotFound ''No compliance certificate exists for this document'')
                  (generateCertificate (case_ident user) user doc))) w2 = (r, w')"
      obtain f w3 where f: "fetchCertificate (case_ident user) (d_id doc) (d_sha256_hash doc) w2 = (f, w3)" by fastforce
      have u3: "undisturbed w w3"
        using gate(2) u2 calmD [OF fetch_calm f] by (blast intro: undisturbed_trans)
      have inw: "doc \<in> set (t_documents (w_db w))"
        using doc(1) gate(2) undisturbedD(1) tables_eqD(9) by metis
      show ?thesis
      proof (cases "\<exists>c. f = Inr (Some c)")
        case True
        then obtain c where c: "f = Inr (Some c)" by blast
        then have out: "r = Inr (toCertificateSummary (w_lib w3) c)" "w' = w3"
          using k f by (auto simp: tryE_def get_world_def)
        have "c \<in> set (certificates w2)" "certificate_key c = (i, d_sha256_hash doc)"
          using fetch_run f c doc(2) by (auto simp: certificate_key_def)
        then have "issued w user doc r w'"
          using out u3 undisturbedD(4) [OF u3] undisturbed_certificates(1) [OF u3] doc(2)
            undisturbed_certificates(1) [OF calmD [OF fetch_calm f]]
          by (auto simp: issued_def)
        then show ?thesis using out(2) u3 good undisturbed_certificates gate(3) inw doc(2) by auto
      next
        case False
        obtain d w4 where d: "CanAccessDocument user i ''certificate:create'' w3 = (d, w4)" by fastforce
        have u4: "undisturbed w w4" using u3 calmD [OF calm_gates(1) d] by (rule undisturbed_trans)
        consider (stop) e where "r = Inl e" "w' = w3 \<or> w' = w4"
          | (go) dec where "d = Inr dec" "Allowed dec" "generateCertificate (case_ident user) user doc w4 = (r, w')"
          using k f d False
          by (cases f; cases d) (auto simp: tryE_def fail_def ensure_def split: option.splits if_splits)
        then show ?thesis
        proof cases
          case stop
          then show ?thesis using u3 u4 good undisturbed_certificates by auto
        next
          case go
          have "document_access w3 user i ''certificate:create''"
            using CanAccessDocument_sound [OF d [unfolded go(1)] id go(2)] .
          then have "permitted (w_db w3) user ''certificate:create''" by (simp add: document_access_def)
          then have "permitted (w_db w) user ''certificate:create''"
            using tables_eqD(2,3,5) [of w3 w] undisturbedD(1) [OF u3]
            by (simp add: permitted_def permissions_of_def)
          moreover have "certificates_good w' \<and> issued w4 user doc r w'"
            using generate_run [OF go(3)] laws good u4 undisturbed_certificates(2) undisturbedD(4) by metis
          then have "certificates_good w'" "issued w user doc r w'"
            using issued_from undisturbedD(2,4) [OF u4] undisturbed_certificates(1) [OF u4] by auto
          ultimately show ?thesis using gate(3) inw doc(2) by blast
        qed
      qed
    qed
  qed
qed

section \<open>What the signed text binds\<close>

lemma payload_text:
  "canonicalCertificatePayload lib i d h v t issuer by =
     concat (map (\<lambda>l. l @ nl) [''evidentia-compliance-certificate'', ''certificate_id='' @ uuid_string i,
       ''document_id='' @ uuid_string d, ''document_hash='' @ hex_encode h, ''certificate_version='' @ v,
       ''issued_at='' @ lib_rfc3339 lib t]) @ ''issuer='' @ issuer @ nl @ ''generated_by='' @ uuid_string by"
  by (simp add: canonicalCertificatePayload_def payload_line_def nl_def)

lemma payload_inject:
  assumes "rfc3339_laws lib" "single_line v" "single_line v'"
  shows "canonicalCertificatePayload lib i d h v t issuer by = canonicalCertificatePayload lib i' d' h' v' t' issuer by' \<longleftrightarrow>
     i = i' \<and> d = d' \<and> h = h' \<and> v = v' \<and> t = t' \<and> by = by'"
proof -
  let ?ls = "\<lambda>i d h v t. [''evidentia-compliance-certificate'', ''certificate_id='' @ uuid_string i,
       ''document_id='' @ uuid_string d, ''document_hash='' @ hex_encode h, ''certificate_version='' @ v,
       ''issued_at='' @ lib_rfc3339 lib t]"
  have "canonicalCertificatePayload lib i d h v t issuer by = canonicalCertificatePayload lib i' d' h' v' t' issuer by' \<longleftrightarrow>
    ?ls i d h v t = ?ls i' d' h' v' t' \<and> ''issuer='' @ issuer @ nl @ ''generated_by='' @ uuid_string by =
      ''issuer='' @ issuer @ nl @ ''generated_by='' @ uuid_string by'"
    unfolding payload_text by (rule lines_split) (use assms in \<open>simp_all add: rfc3339_laws_def\<close>)
  then show ?thesis
    using assms(1) by (auto simp: rfc3339_laws_def uuid_string_inject hex_encode_inject)
qed

text \<open>The payload of a row, given the issuer its data names.\<close>

definition row_payload :: "library \<Rightarrow> string \<Rightarrow> certificate_row \<Rightarrow> bytes" where
  "row_payload lib issuer c = canonicalCertificatePayload lib (cc_id c) (cc_document_id c) (cc_document_hash c)
     (cc_certificate_version c) (cc_generated_at c) issuer (cc_generated_by c)"

lemma verified_signature:
  assumes "VerifyCertificateIntegrity lib c h = Inr res" "cv_SignatureValid res"
  shows "\<exists>p sig. decode_struct lib payload_of (cc_certificate_data c) = Inr p \<and>
     hex_decode (pd_Signature p) = Inr sig \<and> VerifyECDSA lib (row_payload lib (pd_Issuer p) c) sig"
  using assms by (auto simp: VerifyCertificateIntegrity_def row_payload_def Let_def split: sum.splits if_splits)

lemma param_sign [intro!]: "param.guar (SignECDSA p)"
  by (auto simp: param.guar_def params_same_def SignECDSA_def Let_def split: sum.splits)

lemma GetOrCreate_param: "param.guar (GetOrCreateCertificate user i)"
proof -
  have issue: "param.guar (issueCertificate ident user doc)" for ident doc
    unfolding issueCertificate_def certificate_published_def by (auto intro!: persist_param)
  have "param.guar (generateCertificate ident user doc)" for ident doc
    unfolding generateCertificate_def reconcileTamperStatus_def q_UpdateDocumentStatus_def
    by (auto intro!: issue param_reader [OF recompute_args(1)])
  moreover have "param.guar (fetchCertificate ident d h)" for ident d h
    unfolding fetchCertificate_def q_GetCertificateByDocumentAndHash_def by auto
  ultimately show ?thesis
    unfolding GetOrCreateCertificate_def need_access_def load_document_def no_rows_as_def q_GetDocumentByID_def by auto
qed

end
