(* ===== verification/CertificateProps.thy ===== *)
theory CertificateProps
  imports CertificateFacts ChaincodeProps
begin

text \<open>The properties of the certificates, each with the input it is run on.\<close>

section \<open>Issuing a certificate\<close>

text \<open>
  C33.  GetOrCreateCertificate keeps every certificate of the table verifiable and the table
  free of a second one for the same document and digest.  When it fails the table is as it
  was.  When it succeeds the caller may read certificates of the document, and the answer
  shows a stored certificate of that document under the digest the database holds; if the
  certificate is new, it is the only change of the table, it names the caller, who holds the
  permission to create certificates, and the bytes in the object store had that digest when
  it was issued: no certificate is ever issued for a document whose object has been altered.
\<close>

theorem certificate_issued:
  assumes "GetOrCreateCertificate user i w = (r, w')" and "au_ID user \<noteq> nil_uuid"
    and "certificate_laws (w_lib w)" and "certificates_good w"
  shows "certificates_good w' \<and> (case r of Inl e \<Rightarrow> certificates w' = certificates w
    | Inr s \<Rightarrow> document_access w user i ''certificate:read'' \<and>
       (\<exists>doc\<in>set (t_documents (w_db w)). \<exists>c\<in>set (certificates w'). d_id doc = i \<and>
          s = toCertificateSummary (w_lib w) c \<and> certificate_key c = (i, d_sha256_hash doc) \<and>
          (certificates w' = certificates w \<or>
           certificates w' = certificates w @ [c] \<and> cc_generated_by c = au_ID user \<and>
           permitted (w_db w) user ''certificate:create'' \<and>
           (\<exists>b. w_objects w (d_storage_object_key doc) = Some b \<and> lib_sha256 (w_lib w) b = d_sha256_hash doc))))"
  using GetOrCreate_run [OF assms] unfolding issued_def by (cases r) fastforce+

definition flat_lib :: library where [run_defs]:
  "flat_lib = sample_lib\<lparr>lib_json_marshal := flat_marshal, lib_json_value := flat_unmarshal\<rparr>"

lemma flat_lib_laws: "certificate_laws flat_lib" "rfc3339_laws flat_lib"
proof -
  have "flat_object kvs \<Longrightarrow> \<exists>kvs'. flat_unmarshal (flat_marshal (JObj kvs)) = Inr (JObj kvs') \<and> map_of kvs' = map_of kvs" for kvs
    by (auto simp: flat_round_trip)
  then show "certificate_laws flat_lib"
    by (auto simp: certificate_laws_def flat_lib_def sample_lib_def sample_sign_def sample_verify_def sample_sha_def)
  show "rfc3339_laws flat_lib"
    using sample_rfc3339_laws by (simp add: rfc3339_laws_def flat_lib_def)
qed

text \<open>A world where user 11 may read and create certificates, and an object that has its digest.\<close>

definition sample_bytes_of :: bytes where [run_defs]:
  "sample_bytes_of = ''pdf''"

definition certificate_world :: world where [run_defs]:
  "certificate_world = (sample_world (sample_db\<lparr>
     t_permissions := [\<lparr>p_id = 7, p_name = ''certificate:read'', p_resource = ''certificate'', p_action = ''read''\<rparr>,
       \<lparr>p_id = 8, p_name = ''certificate:create'', p_resource = ''certificate'', p_action = ''create''\<rparr>],
     t_role_permissions := [\<lparr>rp_role_id = 2, rp_permission_id = 7\<rparr>, \<lparr>rp_role_id = 2, rp_permission_id = 8\<rparr>],
     t_documents := [sample_document\<lparr>d_sha256_hash := sample_sha sample_bytes_of\<rparr>]\<rparr>))
     \<lparr>w_lib := flat_lib, w_objects := [''k'' \<mapsto> sample_bytes_of]\<rparr>"

lemma certificate_run:
  "map cc_generated_by (certificates (snd (GetOrCreateCertificate (sample_actor 11 ''POLICE'') 70 certificate_world))) = [11]"
  supply run_congs [cong]
  by (simp add: run_defs)

lemma certificate_issued_witness:
  "\<exists>r w' c. GetOrCreateCertificate (sample_actor 11 ''POLICE'') 70 certificate_world = (r, w') \<and>
     certificates w' = [c] \<and> certificate_valid flat_lib c \<and> certificate_key c = (70, sample_sha ''pdf'')"
proof -
  let ?u = "sample_actor 11 ''POLICE''" and ?w = certificate_world
  obtain r w' where run: "GetOrCreateCertificate ?u 70 ?w = (r, w')" by fastforce
  have world: "w_lib ?w = flat_lib" "certificates ?w = []"
      "t_documents (w_db ?w) = [sample_document\<lparr>d_sha256_hash := sample_sha ''pdf''\<rparr>]"
    by (simp_all add: certificate_world_def sample_world_def sample_db_def empty_db_def sample_bytes_of_def)
  have laws: "certificate_laws (w_lib ?w)" "certificates_good ?w" "au_ID ?u \<noteq> nil_uuid"
    using flat_lib_laws(1) by (simp_all add: world certificates_good_def sample_actor_def)
  have one: "length (certificates w') = 1"
    using arg_cong [OF certificate_run, of length] run by simp
  note res = certificate_issued [OF run laws(3,1,2)]
  obtain s where r: "r = Inr s" using res one world(2) by (cases r) auto
  then obtain c where c: "certificates w' = [c]" "certificate_key c = (70, sample_sha ''pdf'')"
    using res one world by auto
  moreover have "certificate_valid (w_lib w') c" using res c(1) by (simp add: certificates_good_def)
  moreover have "w_lib w' = flat_lib"
    using param.guarD [OF GetOrCreate_param, of ?w ?u 70] run world(1) by (simp add: params_same_def)
  ultimately show ?thesis using run by auto
qed

section \<open>A certificate cannot be passed off for another\<close>

text \<open>
  C34.  A certificate that the service issued binds what it says.  Take any other row that
  carries the same certificate\_data, so the same issuer and the same signature, and that
  VerifyCertificateIntegrity accepts too: the texts signed for the two rows both verify under
  that one signature, and they are the same text exactly when the rows agree in their id,
  document, digest, version, author and time of issue (all their columns but created\_at,
  which is not signed).  So passing the certificate off for a row that differs in one of them
  takes a signature that covers two texts: a collision of SHA-256 or a forgery.
\<close>

theorem certificate_binds:
  assumes "rfc3339_laws lib" and "certificate_valid lib c"
    and "single_line (cc_certificate_version c)" and "single_line (cc_certificate_version c')"
    and "cc_certificate_data c' = cc_certificate_data c"
    and "VerifyCertificateIntegrity lib c' h = Inr res" and "cv_SignatureValid res"
  shows "\<exists>p sig. decode_struct lib payload_of (cc_certificate_data c) = Inr p \<and>
     hex_decode (pd_Signature p) = Inr sig \<and>
     VerifyECDSA lib (row_payload lib (pd_Issuer p) c) sig \<and>
     VerifyECDSA lib (row_payload lib (pd_Issuer p) c') sig \<and>
     (row_payload lib (pd_Issuer p) c = row_payload lib (pd_Issuer p) c' \<longleftrightarrow>
        cc_id c' = cc_id c \<and> cc_document_id c' = cc_document_id c \<and> cc_document_hash c' = cc_document_hash c \<and>
        cc_certificate_version c' = cc_certificate_version c \<and> cc_generated_by c' = cc_generated_by c \<and>
        cc_generated_at c' = cc_generated_at c)"
proof -
  obtain p sig where p: "decode_struct lib payload_of (cc_certificate_data c) = Inr p" "hex_decode (pd_Signature p) = Inr sig"
      "VerifyECDSA lib (row_payload lib (pd_Issuer p) c) sig"
    using verified_signature [OF assms(2) [unfolded certificate_valid_def]] by auto
  obtain p' sig' where p': "decode_struct lib payload_of (cc_certificate_data c') = Inr p'" "hex_decode (pd_Signature p') = Inr sig'"
      "VerifyECDSA lib (row_payload lib (pd_Issuer p') c') sig'"
    using verified_signature [OF assms(6,7)] by auto
  have "p' = p" "sig' = sig" using p(1,2) p'(1,2) assms(5) by auto
  moreover have "row_payload lib (pd_Issuer p) c = row_payload lib (pd_Issuer p) c' \<longleftrightarrow>
      cc_id c' = cc_id c \<and> cc_document_id c' = cc_document_id c \<and> cc_document_hash c' = cc_document_hash c \<and>
      cc_certificate_version c' = cc_certificate_version c \<and> cc_generated_by c' = cc_generated_by c \<and>
      cc_generated_at c' = cc_generated_at c"
    unfolding row_payload_def payload_inject [OF assms(1,3,4)] by auto
  ultimately show ?thesis using p p'(3) by blast
qed

definition sample_certificate :: certificate_row where [run_defs]:
  "sample_certificate = certificate_of flat_lib sample_document 11 1000 10 (sample_sha
     (canonicalCertificatePayload flat_lib 1000 70 (d_sha256_hash sample_document) ''1.0'' 10 ''Evidentia'' 11))"

lemma sample_certificate_valid: "certificate_valid flat_lib sample_certificate"
proof -
  let ?sig = "sample_sha (canonicalCertificatePayload flat_lib 1000 70 (d_sha256_hash sample_document) ''1.0'' 10 ''Evidentia'' 11)"
  let ?c = "certificate_of flat_lib sample_document 11 1000 10 ?sig"
  have "certificate_valid flat_lib (?c\<lparr>cc_certificate_data := cc_certificate_data ?c, cc_created_at := cc_created_at ?c\<rparr>)"
    by (rule issued_valid [OF flat_lib_laws(1), of 0])
      (simp_all add: flat_lib_def sample_lib_def sample_sign_def sample_document_def certificateFormatVersion_def
        certificateIssuer_def)
  then show ?thesis by (simp add: sample_certificate_def)
qed

text \<open>
  The issued row with another creation time: the same text.  The issued row with another
  author: the sample digest counts bytes, so it is accepted too, and the two texts differ.
\<close>

lemma sample_certificate_accepted:
  assumes "c' = sample_certificate\<lparr>cc_created_at := 99\<rparr> \<or> c' = sample_certificate\<lparr>cc_generated_by := 12\<rparr>"
  shows "VerifyCertificateIntegrity flat_lib c' (cc_document_hash c') =
      Inr \<lparr>cv_HashMatches = True, cv_SignatureChecked = True, cv_SignatureValid = True\<rparr>"
    and "single_line (cc_certificate_version sample_certificate)" "single_line (cc_certificate_version c')"
    and "cc_certificate_data c' = cc_certificate_data sample_certificate"
proof -
  have "length (uuid_string u) = 36" for u by (simp add: uuid_string_def dashed_def)
  then have "VerifyECDSA flat_lib (canonicalCertificatePayload flat_lib i d h v t iss 12) sig =
      VerifyECDSA flat_lib (canonicalCertificatePayload flat_lib i d h v t iss 11) sig" for i d h v t iss sig
    by (simp add: VerifyECDSA_def flat_lib_def sample_lib_def sample_sha_def canonicalCertificatePayload_def payload_line_def)
  moreover have "cc_generated_by sample_certificate = 11" by (simp add: sample_certificate_def certificate_of_def)
  ultimately have "VerifyCertificateIntegrity flat_lib c' (cc_document_hash c') =
      VerifyCertificateIntegrity flat_lib sample_certificate (cc_document_hash sample_certificate)"
    using assms by (auto simp: VerifyCertificateIntegrity_def Let_def split: sum.split)
  then show "VerifyCertificateIntegrity flat_lib c' (cc_document_hash c') =
      Inr \<lparr>cv_HashMatches = True, cv_SignatureChecked = True, cv_SignatureValid = True\<rparr>"
    using sample_certificate_valid by (simp add: certificate_valid_def)
  show "single_line (cc_certificate_version sample_certificate)" "single_line (cc_certificate_version c')"
    "cc_certificate_data c' = cc_certificate_data sample_certificate"
    using assms by (auto simp: sample_certificate_def certificate_of_def certificateFormatVersion_def)
qed

lemma certificate_binds_witness:
  "\<exists>(p :: certificatePayloadData) sig. VerifyECDSA flat_lib (row_payload flat_lib (pd_Issuer p) (sample_certificate\<lparr>cc_created_at := 99\<rparr>)) sig \<and>
     row_payload flat_lib (pd_Issuer p) sample_certificate =
       row_payload flat_lib (pd_Issuer p) (sample_certificate\<lparr>cc_created_at := 99\<rparr>) \<and>
     row_payload flat_lib (pd_Issuer p) sample_certificate \<noteq>
       row_payload flat_lib (pd_Issuer p) (sample_certificate\<lparr>cc_generated_by := 12\<rparr>)"
proof -
  let ?a = "sample_certificate\<lparr>cc_created_at := 99\<rparr>" and ?b = "sample_certificate\<lparr>cc_generated_by := 12\<rparr>"
  have both: "?a = ?a \<or> ?a = ?b" "?b = ?a \<or> ?b = ?b" by simp_all
  note accepted = sample_certificate_accepted [OF both(1)] sample_certificate_accepted [OF both(2)]
  obtain p sig where a: "decode_struct flat_lib payload_of (cc_certificate_data sample_certificate) = Inr p"
      "VerifyECDSA flat_lib (row_payload flat_lib (pd_Issuer p) ?a) sig"
      "row_payload flat_lib (pd_Issuer p) sample_certificate = row_payload flat_lib (pd_Issuer p) ?a"
    using certificate_binds [OF flat_lib_laws(2) sample_certificate_valid accepted(2-4) accepted(1)] by auto
  obtain q where b: "decode_struct flat_lib payload_of (cc_certificate_data sample_certificate) = Inr q"
      "row_payload flat_lib (pd_Issuer q) sample_certificate = row_payload flat_lib (pd_Issuer q) ?b \<longrightarrow>
         cc_generated_by ?b = cc_generated_by sample_certificate"
    using certificate_binds [OF flat_lib_laws(2) sample_certificate_valid accepted(6-8) accepted(5)] by auto
  have "cc_generated_by sample_certificate = 11" by (simp add: sample_certificate_def certificate_of_def)
  moreover have "q = p" using a(1) b(1) by simp
  ultimately have ne: "row_payload flat_lib (pd_Issuer p) sample_certificate \<noteq> row_payload flat_lib (pd_Issuer p) ?b"
    using b(2) by auto
  show ?thesis by (rule exI [of _ p], rule exI [of _ sig], intro conjI a(2) a(3) ne)
qed

end
