(* ===== verification/DocumentShare.thy ===== *)
theory DocumentShare
  imports DocumentService UserService
begin

text \<open>
  backend/internal/service/document\_share.go: giving a user access to one document without
  membership of its case, listing and revoking such shares, the documents shared with a user,
  and the search for a recipient.  The service owns the table document\_shares.
\<close>

section \<open>Constants, inputs and results\<close>

definition maxShareReasonLen :: nat where [run_defs]:
  "maxShareReasonLen = 2000"

definition minRecipientSearchLen :: nat where [run_defs]:
  "minRecipientSearchLen = 2"

definition maxRecipientSearchLen :: nat where [run_defs]:
  "maxRecipientSearchLen = 255"

definition maxRecipientResults :: int where [run_defs]:
  "maxRecipientResults = 10"

definition sharePermissions :: "string list" where [run_defs]:
  "sharePermissions = [''VIEW'', ''VERIFY'']"

record CreateShareInput =
  si_RecipientUserID :: uuid
  si_Permission :: string
  si_ExpiresAt :: "time option"
  si_Reason :: "string option"

record ShareSummary =
  ss_ShareID :: uuid
  ss_DocumentID :: uuid
  ss_RecipientUserID :: uuid
  ss_CreatedByUserID :: uuid
  ss_Permission :: string
  ss_Status :: string
  ss_EffectiveStatus :: string
  ss_ExpiresAt :: "time option"
  ss_Reason :: "string option"
  ss_CreatedAt :: time
  ss_RevokedAt :: "time option"
  ss_RevokedByUserID :: "uuid option"

record SharedDocumentSummary =
  sd_ShareID :: uuid
  sd_Permission :: string
  sd_ExpiresAt :: "time option"
  sd_SharedAt :: time
  sd_SharedByUserID :: uuid
  sd_Document :: DocumentSummary

record SharedWithMeResult =
  sw_Documents :: "SharedDocumentSummary list"
  sw_Meta :: Meta

record RecipientCandidate =
  rc_ID :: uuid
  rc_FirstName :: string
  rc_LastName :: string
  rc_DisplayName :: "string option"
  rc_Email :: string
  rc_Roles :: "string list"

section \<open>Summaries\<close>

text \<open>\<^verbatim>\<open>time.Now\<close> is only read when the share is active and has an expiry.\<close>

definition effective_status :: "share_row \<Rightarrow> string op" where [run_defs]:
  "effective_status s = (case s_expires_at s of
     Some e \<Rightarrow> if s_status s = ''ACTIVE''
       then bindE time_now (\<lambda>t. ret (if t < e then s_status s else ''EXPIRED''))
       else ret (s_status s)
   | None \<Rightarrow> ret (s_status s))"

definition share_summary :: "share_row \<Rightarrow> string \<Rightarrow> ShareSummary" where [run_defs]:
  "share_summary s effective = \<lparr>ss_ShareID = s_id s, ss_DocumentID = s_document_id s,
     ss_RecipientUserID = s_shared_with_user_id s, ss_CreatedByUserID = s_created_by_user_id s,
     ss_Permission = s_permission s, ss_Status = s_status s, ss_EffectiveStatus = effective,
     ss_ExpiresAt = s_expires_at s, ss_Reason = s_reason s, ss_CreatedAt = s_created_at s,
     ss_RevokedAt = s_revoked_at s, ss_RevokedByUserID = s_revoked_by_user_id s\<rparr>"

definition toShareSummary :: "share_row \<Rightarrow> ShareSummary op" where [run_defs]:
  "toShareSummary s = bindE (effective_status s) (\<lambda>effective. ret (share_summary s effective))"

definition shared_document :: "share_row \<times> document_row \<Rightarrow> SharedDocumentSummary" where [run_defs]:
  "shared_document = (\<lambda>(s, d). \<lparr>sd_ShareID = s_id s, sd_Permission = s_permission s,
     sd_ExpiresAt = s_expires_at s, sd_SharedAt = s_created_at s,
     sd_SharedByUserID = s_created_by_user_id s, sd_Document = toDocumentSummary d\<rparr>)"

section \<open>CreateShare\<close>

definition validateRecipient :: "uuid \<Rightarrow> 'a op \<Rightarrow> 'a op" where [run_defs]:
  "validateRecipient recipientID k = tryE (WithTx anonymous (q_GetUserByID recipientID))
     (no_rows_as (ErrBadRequest ''Invalid or inactive recipient''))
     (\<lambda>profile. ensure (u_status profile = ''active'') (ErrBadRequest ''Invalid or inactive recipient'') k)"

text \<open>The clock is read only when an expiry was asked for.\<close>

definition check_expiry :: "time option \<Rightarrow> 'a op \<Rightarrow> 'a op" where [run_defs]:
  "check_expiry expires k = (case expires of None \<Rightarrow> k
     | Some e \<Rightarrow> bindE time_now (\<lambda>t. ensure (t < e) (ErrBadRequest ''expires_at must be in the future'') k))"

definition share_published :: "string \<Rightarrow> uuid \<Rightarrow> uuid \<Rightarrow> uuid \<Rightarrow> unit op" where [run_defs]:
  "share_published ty i documentID caseID = publish ty ''case'' (uuid_string caseID)
     [(''share_id'', JStr (uuid_string i)), (''document_id'', JStr (uuid_string documentID)),
      (''case_id'', JStr (uuid_string caseID))]"

definition shared_event ::
    "authenticated_user \<Rightarrow> document_row \<Rightarrow> uuid \<Rightarrow> uuid \<Rightarrow> CreateShareInput \<Rightarrow> event" where [run_defs]:
  "shared_event user doc documentID i input = \<lparr>ev_action = ''DOCUMENT_SHARED'',
     ev_resource_type = ''document_share'', ev_resource_id = Some i, ev_user_id = Some (au_ID user),
     ev_role = effectiveCaseRole user, ev_case_id = Some (d_case_id doc),
     ev_metadata = JObj [(''document_id'', JStr (uuid_string documentID)),
       (''recipient_user_id'', JStr (uuid_string (si_RecipientUserID input))),
       (''permission'', JStr (si_Permission input)),
       (''has_expiration'', JBool (si_ExpiresAt input \<noteq> None))]\<rparr>"

text \<open>From the validated request to the row, its record and its event.\<close>

definition register_share ::
    "authenticated_user \<Rightarrow> uuid \<Rightarrow> CreateShareInput \<Rightarrow> document_row \<Rightarrow> ShareSummary op" where [run_defs]:
  "register_share user documentID input doc = bindE uuid_new (\<lambda>i.
     tryE (WithTx (case_ident user) (q_CreateDocumentShare i documentID (si_RecipientUserID input) (au_ID user)
         (si_Permission input) (si_ExpiresAt input) (si_Reason input)))
       (\<lambda>e. fail (if isUniqueViolation e ''document_shares_active_unique''
          then ErrConflict ''An active share already exists for this recipient on this document''
          else ErrInternal (Wrap ''create document share'' e)))
       (\<lambda>created. bindE (Record (shared_event user doc documentID (s_id created) input)) (\<lambda>_.
          bindE (share_published ''SHARE_CREATED'' (s_id created) documentID (d_case_id doc)) (\<lambda>_.
          toShareSummary created))))"

definition CreateShare :: "authenticated_user \<Rightarrow> uuid \<Rightarrow> CreateShareInput \<Rightarrow> ShareSummary op" where [run_defs]:
  "CreateShare user documentID input = need_access CanAccessDocument user documentID ''document:share'' (
     ensure (si_Permission input \<in> set sharePermissions) (ErrBadRequest ''permission must be VIEW or VERIFY'') (
     ensure (case si_Reason input of None \<Rightarrow> True | Some r \<Rightarrow> length r \<le> maxShareReasonLen)
       (ErrBadRequest ''reason must be at most 2000 characters'') (
     check_expiry (si_ExpiresAt input) (
     ensure (si_RecipientUserID input \<noteq> au_ID user) (ErrBadRequest ''cannot share a document with yourself'') (
     load_document user documentID (\<lambda>doc.
     validateRecipient (si_RecipientUserID input) (register_share user documentID input doc)))))))"

section \<open>Listing and revoking\<close>

definition ListShares :: "authenticated_user \<Rightarrow> uuid \<Rightarrow> ShareSummary list op" where [run_defs]:
  "ListShares user documentID = need_access CanAccessDocument user documentID ''document:share'' (
     tryE (WithTx (case_ident user) (q_ListDocumentSharesForDocument documentID)) (\<lambda>e. fail (ErrInternal e))
       (mapE toShareSummary))"

definition revoked_event :: "authenticated_user \<Rightarrow> uuid \<Rightarrow> share_row \<Rightarrow> event" where [run_defs]:
  "revoked_event user documentID s = \<lparr>ev_action = ''DOCUMENT_SHARE_REVOKED'',
     ev_resource_type = ''document_share'', ev_resource_id = Some (s_id s), ev_user_id = Some (au_ID user),
     ev_role = effectiveCaseRole user, ev_case_id = None,
     ev_metadata = JObj [(''document_id'', JStr (uuid_string documentID)),
       (''recipient_user_id'', JStr (uuid_string (s_shared_with_user_id s)))]\<rparr>"

definition RevokeShare :: "authenticated_user \<Rightarrow> uuid \<Rightarrow> uuid \<Rightarrow> ShareSummary op" where [run_defs]:
  "RevokeShare user documentID shareID = need_access CanAccessDocument user documentID ''document:share'' (
     tryE (WithTx (case_ident user) (bindE (q_RevokeDocumentShare shareID documentID (au_ID user)) (\<lambda>revoked.
         bindE (q_GetDocumentByID documentID) (\<lambda>doc. ret (revoked, doc)))))
       (\<lambda>e. fail (if is_no_rows e then ErrNotFound ''Share not found or already revoked''
          else ErrInternal (Wrap ''revoke document share'' e)))
       (\<lambda>(revoked, doc). bindE (Record (revoked_event user documentID revoked)) (\<lambda>_.
          bindE (share_published ''SHARE_REVOKED'' (s_id revoked) documentID (d_case_id doc)) (\<lambda>_.
          toShareSummary revoked))))"

definition ListSharedWithMe :: "authenticated_user \<Rightarrow> Pagination \<Rightarrow> SharedWithMeResult op" where [run_defs]:
  "ListSharedWithMe user page = tryE (WithTx (case_ident user) (
         bindE (q_ListSharedWithMe (au_ID user) (sint (Limit page)) (sint (Offset page))) (\<lambda>rows.
         bindE (q_CountSharedWithMe (au_ID user)) (\<lambda>n. ret (rows, n)))))
     (\<lambda>e. fail (ErrInternal e))
     (\<lambda>(rows, n). ret \<lparr>sw_Documents = map shared_document rows, sw_Meta = BuildMeta page n\<rparr>)"

section \<open>SearchRecipients\<close>

definition recipientRoles :: "app_identity \<Rightarrow> uuid \<Rightarrow> string list op" where [run_defs]:
  "recipientRoles ident userID = WithTx ident (bindE (q_ListRolesForUser userID) (\<lambda>rs. ret (roleNames rs)))"

definition candidate_of :: "user_row \<Rightarrow> string list \<Rightarrow> RecipientCandidate" where [run_defs]:
  "candidate_of u roles = \<lparr>rc_ID = u_id u, rc_FirstName = u_first_name u, rc_LastName = u_last_name u,
     rc_DisplayName = u_display_name u, rc_Email = u_email u, rc_Roles = roles\<rparr>"

definition SearchRecipients :: "authenticated_user \<Rightarrow> string \<Rightarrow> RecipientCandidate list op" where [run_defs]:
  "SearchRecipients user text = (let q = TrimSpace text in
     ensure (minRecipientSearchLen \<le> length q) (ErrBadRequest ''search query must be at least 2 characters'') (
     ensure (length q \<le> maxRecipientSearchLen) (ErrBadRequest ''search query is too long'') (
     tryE (WithTx (case_ident user) (q_ListUsersFiltered (Some ''active'') None (Some q) maxRecipientResults 0))
       (\<lambda>e. fail (ErrInternal e))
       (\<lambda>rows. mapE (\<lambda>r. tryE (recipientRoles (case_ident user) (u_id r)) (\<lambda>e. fail (ErrInternal e))
            (\<lambda>roles. ret (candidate_of r roles)))
          (filter (\<lambda>r. u_id r \<noteq> au_ID user) rows)))))"

end
