(* ===== verification/ShareFacts.thy ===== *)
theory ShareFacts
  imports DocumentShare Guards UserFacts PagingProps
begin

text \<open>
  Shares: what creating and revoking one does, the table of shares as a state machine, and
  what a list of shared documents shows.
\<close>

abbreviation shares :: "world \<Rightarrow> share_row list" where
  "shares w \<equiv> t_shares (w_db w)"

section \<open>Helpers\<close>

lemma effective_run: "\<exists>e w'. effective_status s w = (Inr e, w') \<and> w_db w' = w_db w \<and> w_lib w' = w_lib w \<and>
    (e = s_status s \<or> e = ''EXPIRED'' \<and> s_status s = ''ACTIVE'' \<and> s_expires_at s \<noteq> None)"
  by (auto simp: effective_status_def ret_def tryE_steps split: option.splits)

lemma summary_run: "\<exists>e w'. toShareSummary s w = (Inr (share_summary s e), w') \<and> w_db w' = w_db w \<and>
    (e = s_status s \<or> e = ''EXPIRED'' \<and> s_status s = ''ACTIVE'' \<and> s_expires_at s \<noteq> None)"
  using effective_run [of s w] by (auto simp: toShareSummary_def tryE_def ret_def)

lemma summary_frame [intro!]: "reader.guar (toShareSummary s)"
  unfolding toShareSummary_def effective_status_def by auto

lemma summary_never_fails: "never_fails (toShareSummary s)"
  unfolding never_fails_def fails_only_def using summary_run [of s] by (metis Inl_Inr_False prod.inject)

lemma check_expiry_run:
  assumes "check_expiry ex k w = (r, w')"
  shows "(\<exists>m. r = Inl (ErrBadRequest m)) \<and> tables w' = tables w \<or>
    (\<exists>w1. k w1 = (r, w') \<and> undisturbed w w1 \<and> (case ex of None \<Rightarrow> True | Some e \<Rightarrow> w_clock w (w_clock_i w) < e))"
proof (cases ex)
  case None
  then show ?thesis using assms by (auto simp: check_expiry_def)
next
  case (Some e)
  have "undisturbed w (w\<lparr>w_clock_i := Suc (w_clock_i w)\<rparr>)"
    by (simp add: undisturbed_def tables_def params_same_def)
  then show ?thesis
    using assms Some by (auto simp: check_expiry_def tryE_steps ensure_def fail_def tables_def split: if_splits)
qed

lemma validateRecipient_cases:
  assumes "validateRecipient u k w = (r, w')"
  shows "(\<exists>e. r = Inl e \<and> client_safe e) \<and> tables w' = tables w \<or>
    (\<exists>p w1. p \<in> set (t_users (w_db w)) \<and> u_id p = u \<and> u_status p = ''active'' \<and> k w1 = (r, w') \<and> undisturbed w w1)"
proof -
  let ?q = "WithTx anonymous (q_GetUserByID u)"
  obtain d w1 where d: "?q w = (d, w1)" by fastforce
  have "calm ?q" by (rule calm_reader) (auto simp: q_GetUserByID_def)
  then have und: "undisturbed w w1" using d by (rule calmD)
  show ?thesis
  proof (cases d)
    case (Inl e)
    then show ?thesis using assms d und undisturbedD(1) [OF und]
      by (auto simp: validateRecipient_def tryE_def no_rows_as_def fail_def)
  next
    case (Inr p)
    have "p \<in> set (t_users (w_db w))" "u_id p = u"
      using d Inr by (auto simp: WithTx_run q_GetUserByID_def query_run filter_eq_Cons_iff)
    then show ?thesis using assms d Inr und undisturbedD(1) [OF und]
      by (auto simp: validateRecipient_def tryE_def ensure_def fail_def split: if_splits)
  qed
qed

section \<open>Creating a share\<close>

definition share_made :: "authenticated_user \<Rightarrow> uuid \<Rightarrow> CreateShareInput \<Rightarrow> share_row \<Rightarrow> bool" where
  "share_made user documentID input s \<longleftrightarrow> s_document_id s = documentID \<and>
     s_shared_with_user_id s = si_RecipientUserID input \<and> s_created_by_user_id s = au_ID user \<and>
     s_permission s = si_Permission input \<and> s_status s = ''ACTIVE'' \<and> s_expires_at s = si_ExpiresAt input \<and>
     s_reason s = si_Reason input \<and> s_revoked_at s = None \<and> s_revoked_by_user_id s = None"

text \<open>No second active share for one document and recipient, and no identifier twice.\<close>

definition share_free :: "share_row list \<Rightarrow> share_row \<Rightarrow> bool" where
  "share_free ss s \<longleftrightarrow> (\<forall>x\<in>set ss. s_id x \<noteq> s_id s \<and>
     (s_status x = ''ACTIVE'' \<longrightarrow> s_document_id x = s_document_id s \<longrightarrow>
        s_shared_with_user_id x \<noteq> s_shared_with_user_id s))"

lemma CreateDocumentShare_run:
  assumes "q_CreateDocumentShare i did u by p ex re w = (Inr s, w')"
  shows "w_db w' = (w_db w)\<lparr>t_shares := shares w @ [s]\<rparr> \<and> share_free (shares w) s \<and>
    s = \<lparr>s_id = i, s_document_id = did, s_shared_with_user_id = u, s_created_by_user_id = by, s_permission = p,
       s_status = ''ACTIVE'', s_expires_at = ex, s_reason = re, s_created_at = w_tx_now w, s_revoked_at = None,
       s_revoked_by_user_id = None\<rparr> \<and> (p = ''VIEW'' \<or> p = ''VERIFY'') \<and> u \<noteq> by"
  using assms
  by (auto simp: q_CreateDocumentShare_def exec_run Let_def shares_checks_def list_ex_iff share_free_def)

lemma register_run:
  assumes "register_share user did input doc w = (r, w')"
  shows "case r of Inl e \<Rightarrow> tables w' = tables w \<and> client_safe e
    | Inr sm \<Rightarrow> \<exists>s e. tables w' = (tables w)\<lparr>t_shares := shares w @ [s]\<rparr> \<and> share_made user did input s \<and>
        share_free (shares w) s \<and> sm = share_summary s e"
proof -
  let ?i = "w_rng w (w_rng_i w)" and ?w = "w\<lparr>w_rng_i := Suc (w_rng_i w)\<rparr>"
  let ?tx = "WithTx (case_ident user) (q_CreateDocumentShare ?i did (si_RecipientUserID input) (au_ID user)
         (si_Permission input) (si_ExpiresAt input) (si_Reason input))"
  obtain d w1 where d: "?tx ?w = (d, w1)" by fastforce
  note rest = assms [unfolded register_share_def tryE_steps(1), unfolded tryE_def [of ?tx] d prod.case]
  show ?thesis
  proof (cases d)
    case (Inl e)
    have "tables w1 = tables ?w" using d Inl WithTx_tables by blast
    then show ?thesis using rest Inl by (auto simp: fail_def tables_def)
  next
    case (Inr s)
    then obtain w2 where q: "q_CreateDocumentShare ?i did (si_RecipientUserID input) (au_ID user)
         (si_Permission input) (si_ExpiresAt input) (si_Reason input) (started (case_ident user) ?w) = (Inr s, w2)"
      and w1: "w_db w1 = w_db w2" using d by (auto simp: WithTx_run end_tx_def)
    note made = CreateDocumentShare_run [OF q]
    let ?w3 = "snd (publish ''SHARE_CREATED'' ''case'' (uuid_string (d_case_id doc))
       [(''share_id'', JStr (uuid_string (s_id s))), (''document_id'', JStr (uuid_string did)),
        (''case_id'', JStr (uuid_string (d_case_id doc)))] (snd (Record (shared_event user doc did (s_id s) input) w1)))"
    have "toShareSummary s ?w3 = (r, w')"
      using rest by (simp add: Inr Record_then share_published_def tryE_steps)
    then obtain e where r: "r = Inr (share_summary s e)" "w_db w' = w_db ?w3"
      using summary_run [of s ?w3] by auto
    have "tables w' = tables (snd (Record (shared_event user doc did (s_id s) input) w1))"
      using r(2) by (simp add: tables_def publish_def)
    also have "\<dots> = tables w1" using Record_run by (metis surjective_pairing)
    also have "\<dots> = (tables w)\<lparr>t_shares := shares w @ [s]\<rparr>" using w1 made by (simp add: tables_def)
    finally have "tables w' = (tables w)\<lparr>t_shares := shares w @ [s]\<rparr>" .
    moreover have "share_made user did input s" "share_free (shares w) s" using made by (auto simp: share_made_def)
    ultimately show ?thesis using r(1) by auto
  qed
qed

lemma undisturbed_tables: "undisturbed w w' \<Longrightarrow> tables w' = tables w"
  by (rule undisturbedD)

lemma CreateShare_run:
  assumes run: "CreateShare user did input w = (r, w')" and id: "au_ID user \<noteq> nil_uuid"
  shows "case r of Inl e \<Rightarrow> tables w' = tables w
    | Inr sm \<Rightarrow> document_access w user did ''document:share'' \<and>
       (\<exists>p\<in>set (t_users (w_db w)). u_id p = si_RecipientUserID input \<and> u_status p = ''active'') \<and>
       (\<exists>d\<in>set (t_documents (w_db w)). d_id d = did) \<and>
       si_RecipientUserID input \<noteq> au_ID user \<and> si_Permission input \<in> {''VIEW'', ''VERIFY''} \<and>
       (case si_ExpiresAt input of None \<Rightarrow> True | Some e \<Rightarrow> \<exists>n. w_clock w n < e) \<and>
       (\<exists>s e. tables w' = (tables w)\<lparr>t_shares := shares w @ [s]\<rparr> \<and> share_made user did input s \<and>
          share_free (shares w) s \<and> sm = share_summary s e)"
proof -
  let ?load = "load_document user did (\<lambda>doc.
     validateRecipient (si_RecipientUserID input) (register_share user did input doc))"
  let ?self = "ensure (si_RecipientUserID input \<noteq> au_ID user) (ErrBadRequest ''cannot share a document with yourself'') ?load"
  from document_gate_cases [OF run [unfolded CreateShare_def] id] consider
    (no) e where "r = Inl e" "undisturbed w w'"
  | (gate) w1 where "ensure (si_Permission input \<in> set sharePermissions) (ErrBadRequest ''permission must be VIEW or VERIFY'') (
     ensure (case si_Reason input of None \<Rightarrow> True | Some r \<Rightarrow> length r \<le> maxShareReasonLen)
       (ErrBadRequest ''reason must be at most 2000 characters'') (
     check_expiry (si_ExpiresAt input) ?self)) w1 = (r, w')" "undisturbed w w1"
       "document_access w user did ''document:share''" by blast
  then show ?thesis
  proof cases
    case no
    then show ?thesis by (simp add: undisturbed_tables)
  next
    case gate
    consider (bad) e where "r = Inl e" "w' = w1"
      | (ok) "si_Permission input \<in> set sharePermissions" "check_expiry (si_ExpiresAt input) ?self w1 = (r, w')"
      using gate(1) by (auto simp: ensure_def fail_def split: if_splits)
    then show ?thesis
    proof cases
      case bad
      then show ?thesis using gate(2) by (simp add: undisturbed_tables)
    next
      case ok
      from check_expiry_run [OF ok(2)] show ?thesis
      proof (elim disjE exE conjE)
        fix m assume "r = Inl (ErrBadRequest m)" "tables w' = tables w1"
        then show ?thesis using gate(2) by (simp add: undisturbed_tables)
      next
        fix w2 assume k: "?self w2 = (r, w')" and u2: "undisturbed w1 w2"
          and ex: "case si_ExpiresAt input of None \<Rightarrow> True | Some e \<Rightarrow> w_clock w1 (w_clock_i w1) < e"
        have uw: "undisturbed w w2" using gate(2) u2 by (rule undisturbed_trans)
        have expiry: "case si_ExpiresAt input of None \<Rightarrow> True | Some e \<Rightarrow> \<exists>n. w_clock w n < e"
          using ex gate(2) by (auto simp: undisturbed_def params_same_def split: option.splits)
        consider (self) e where "r = Inl e" "w' = w2" | (other) "si_RecipientUserID input \<noteq> au_ID user" "?load w2 = (r, w')"
          using k by (auto simp: ensure_def fail_def split: if_splits)
        then show ?thesis
        proof cases
          case self
          then show ?thesis using uw by (simp add: undisturbed_tables)
        next
          case other
          from load_document_cases [OF other(2)] show ?thesis
          proof (elim disjE exE conjE)
            fix e assume "undisturbed w2 w'" "r = Inl e"
            then show ?thesis using uw by (simp add: undisturbed_tables)
          next
            fix doc w3
            assume doc: "doc \<in> set (t_documents (w_db w2))" "d_id doc = did" and u3: "undisturbed w2 w3"
              and v: "validateRecipient (si_RecipientUserID input) (register_share user did input doc) w3 = (r, w')"
            have uw3: "undisturbed w w3" using uw u3 by (rule undisturbed_trans)
            from validateRecipient_cases [OF v] show ?thesis
            proof (elim disjE exE conjE)
              fix e assume "r = Inl e" "tables w' = tables w3"
              then show ?thesis using uw3 by (simp add: undisturbed_tables)
            next
              fix p w4
              assume p: "p \<in> set (t_users (w_db w3))" "u_id p = si_RecipientUserID input" "u_status p = ''active''"
                and reg: "register_share user did input doc w4 = (r, w')" and u4: "undisturbed w3 w4"
              have uw4: "undisturbed w w4" using uw3 u4 by (rule undisturbed_trans)
              have t: "tables w4 = tables w" "shares w4 = shares w" "t_users (w_db w3) = t_users (w_db w)"
                  "t_documents (w_db w2) = t_documents (w_db w)"
                using undisturbed_tables [OF uw4] undisturbed_tables [OF uw3] undisturbed_tables [OF uw]
                  tables_eqD(10) [of w4 w] tables_eqD(1) [of w3 w] tables_eqD(9) [of w2 w] by simp_all
              show ?thesis
                using register_run [OF reg] gate(3) p doc other(1) ok(1) expiry
                by (cases r) (auto simp: t sharePermissions_def)
            qed
          qed
        qed
      qed
    qed
  qed
qed

section \<open>Revoking a share\<close>

definition share_revoked :: "uuid \<Rightarrow> time \<Rightarrow> share_row \<Rightarrow> share_row" where
  "share_revoked by t s = s\<lparr>s_status := ''REVOKED'', s_revoked_at := Some t, s_revoked_by_user_id := Some by\<rparr>"

lemma RevokeDocumentShare_run:
  assumes "q_RevokeDocumentShare i did by w = (Inr s, w')"
  shows "\<exists>p s0. (\<forall>x. p x \<longrightarrow> s_id x = i \<and> s_document_id x = did \<and> s_status x = ''ACTIVE'') \<and>
     s0 \<in> set (shares w) \<and> p s0 \<and> s = share_revoked by (w_tx_now w) s0 \<and>
     w_db w' = (w_db w)\<lparr>t_shares := update_where p (share_revoked by (w_tx_now w)) (shares w)\<rparr>"
proof -
  let ?p = "\<lambda>s. s_id s = i \<and> s_document_id s = did \<and> s_status s = ''ACTIVE'' \<and>
        shares_select (w_db w) (w_tx_now w) (w_ctx w) s \<and> shares_update (w_db w) (w_tx_now w) (w_ctx w) s"
  obtain s0 ys where f: "filter ?p (shares w) = s0 # ys" "s = share_revoked by (w_tx_now w) s0"
    "w_db w' = (w_db w)\<lparr>t_shares := update_where ?p (share_revoked by (w_tx_now w)) (shares w)\<rparr>"
    using assms by (auto simp: q_RevokeDocumentShare_def exec_run update_one_Inr share_revoked_def [abs_def])
  have "s0 \<in> set (filter ?p (shares w))" by (simp add: f(1))
  then show ?thesis using f(2,3) by (intro exI [of _ ?p] exI [of _ s0]) auto
qed

lemma RevokeShare_run:
  assumes run: "RevokeShare user did i w = (r, w')" and id: "au_ID user \<noteq> nil_uuid"
  shows "case r of Inl e \<Rightarrow> tables w' = tables w
    | Inr sm \<Rightarrow> document_access w user did ''document:share'' \<and>
       (\<exists>p s0 t e. (\<forall>x. p x \<longrightarrow> s_id x = i \<and> s_document_id x = did \<and> s_status x = ''ACTIVE'') \<and>
          s0 \<in> set (shares w) \<and> p s0 \<and> sm = share_summary (share_revoked (au_ID user) t s0) e \<and>
          tables w' = (tables w)\<lparr>t_shares := update_where p (share_revoked (au_ID user) t) (shares w)\<rparr>)"
proof -
  let ?tx = "WithTx (case_ident user) (bindE (q_RevokeDocumentShare i did (au_ID user)) (\<lambda>revoked.
         bindE (q_GetDocumentByID did) (\<lambda>doc. ret (revoked, doc))))"
  let ?h = "\<lambda>e. fail (if is_no_rows e then ErrNotFound ''Share not found or already revoked''
          else ErrInternal (Wrap ''revoke document share'' e))"
  let ?k = "\<lambda>(revoked, doc). bindE (Record (revoked_event user did revoked)) (\<lambda>_.
          bindE (share_published ''SHARE_REVOKED'' (s_id revoked) did (d_case_id doc)) (\<lambda>_.
          toShareSummary revoked))"
  from document_gate_cases [OF run [unfolded RevokeShare_def] id] consider
    (no) e where "r = Inl e" "undisturbed w w'"
  | (gate) w1 where "tryE ?tx ?h ?k w1 = (r, w')" "undisturbed w w1" "document_access w user did ''document:share''"
    by blast
  then show ?thesis
  proof cases
    case no
    then show ?thesis by (simp add: undisturbed_tables)
  next
    case gate
    note same = undisturbed_tables [OF gate(2)]
    obtain d w2 where d: "?tx w1 = (d, w2)" by fastforce
    note rest = gate(1) [unfolded tryE_def [of ?tx] d prod.case]
    show ?thesis
    proof (cases d)
      case (Inl e)
      have "tables w2 = tables w1" using d Inl WithTx_tables by blast
      then show ?thesis using rest Inl same by (auto simp: fail_def)
    next
      case (Inr x)
      obtain s doc where x: "x = (s, doc)" by fastforce
      let ?w1 = "started (case_ident user) w1"
      obtain w3 w4 where q: "q_RevokeDocumentShare i did (au_ID user) ?w1 = (Inr s, w3)"
        and g: "q_GetDocumentByID did w3 = (Inr doc, w4)" and w2: "w_db w2 = w_db w4"
        using d Inr x by (auto simp: WithTx_run end_tx_def tryE_Inr fail_run ret_run)
      have w4: "w_db w4 = w_db w3" using g by (auto simp: q_GetDocumentByID_def query_run)
      from RevokeDocumentShare_run [OF q] obtain p s0 where p: "\<forall>x. p x \<longrightarrow> s_id x = i \<and> s_document_id x = did \<and> s_status x = ''ACTIVE''"
        and s0: "s0 \<in> set (shares w1)" "p s0" "s = share_revoked (au_ID user) (w_tx_now ?w1) s0"
        and db: "w_db w3 = (w_db w1)\<lparr>t_shares := update_where p (share_revoked (au_ID user) (w_tx_now ?w1)) (shares w1)\<rparr>"
        by auto
      let ?w5 = "snd (publish ''SHARE_REVOKED'' ''case'' (uuid_string (d_case_id doc))
       [(''share_id'', JStr (uuid_string (s_id s))), (''document_id'', JStr (uuid_string did)),
        (''case_id'', JStr (uuid_string (d_case_id doc)))] (snd (Record (revoked_event user did s) w2)))"
      have "toShareSummary s ?w5 = (r, w')"
        using rest by (simp add: Inr x Record_then share_published_def tryE_steps)
      then obtain e where r: "r = Inr (share_summary s e)" "w_db w' = w_db ?w5"
        using summary_run [of s ?w5] by auto
      have "tables w' = tables (snd (Record (revoked_event user did s) w2))"
        using r(2) by (simp add: tables_def publish_def)
      also have "\<dots> = tables w2" using Record_run by (metis surjective_pairing)
      also have "\<dots> = (tables w1)\<lparr>t_shares := update_where p (share_revoked (au_ID user) (w_tx_now ?w1)) (shares w1)\<rparr>"
        using w2 w4 db by (simp add: tables_def)
      also have "\<dots> = (tables w)\<lparr>t_shares := update_where p (share_revoked (au_ID user) (w_tx_now ?w1)) (shares w1)\<rparr>"
        unfolding same ..
      finally show ?thesis using p s0 r(1) gate(3) tables_eqD(10) [OF same] by auto
    qed
  qed
qed

end
