(* ===== verification/ShareProps.thy ===== *)
theory ShareProps
  imports ShareFacts
begin

text \<open>The properties of document shares, each with the input it is run on.\<close>

section \<open>The table of shares\<close>

definition share_ok :: "share_row \<Rightarrow> bool" where
  "share_ok s \<longleftrightarrow> s_permission s \<in> {''VIEW'', ''VERIFY''} \<and> s_shared_with_user_id s \<noteq> s_created_by_user_id s \<and>
     (s_status s = ''ACTIVE'' \<and> s_revoked_at s = None \<and> s_revoked_by_user_id s = None \<or>
      s_status s = ''REVOKED'' \<and> s_revoked_at s \<noteq> None \<and> s_revoked_by_user_id s \<noteq> None)"

definition share_table :: "share_row list \<Rightarrow> bool" where
  "share_table ss \<longleftrightarrow> distinct (map s_id ss) \<and> (\<forall>s\<in>set ss. share_ok s) \<and>
     (\<forall>x\<in>set ss. \<forall>y\<in>set ss. s_status x = ''ACTIVE'' \<longrightarrow> s_status y = ''ACTIVE'' \<longrightarrow>
        s_document_id x = s_document_id y \<longrightarrow> s_shared_with_user_id x = s_shared_with_user_id y \<longrightarrow> s_id x = s_id y)"

text \<open>What happens to a row: nothing, or it is revoked, once.\<close>

definition share_kept :: "share_row \<Rightarrow> share_row \<Rightarrow> bool" where
  "share_kept s s' \<longleftrightarrow> s' = s \<or> s_status s = ''ACTIVE'' \<and> (\<exists>by t. s' = share_revoked by t s)"

definition shares_step :: "share_row list \<Rightarrow> share_row list \<Rightarrow> bool" where
  "shares_step ss ss' \<longleftrightarrow> length ss \<le> length ss' \<and> (\<forall>k<length ss. share_kept (ss ! k) (ss' ! k)) \<and>
     (share_table ss \<longrightarrow> share_table ss')"

lemma shares_step_refl [simp]: "shares_step ss ss"
  by (simp add: shares_step_def share_kept_def)

lemma share_kept_trans: "share_kept a b \<Longrightarrow> share_kept b c \<Longrightarrow> share_kept a c"
  by (auto simp: share_kept_def share_revoked_def)

lemma shares_step_trans:
  assumes "shares_step a b" "shares_step b c" shows "shares_step a c"
proof -
  have "share_kept (a ! k) (c ! k)" if "k < length a" for k
    using assms that share_kept_trans [of "a ! k" "b ! k"] by (simp add: shares_step_def)
  then show ?thesis using assms by (simp add: shares_step_def)
qed

lemma shares_step_made:
  assumes "share_made user did input s" "share_free ss s" "si_Permission input \<in> {''VIEW'', ''VERIFY''}"
    "si_RecipientUserID input \<noteq> au_ID user"
  shows "shares_step ss (ss @ [s])"
proof -
  have ok: "share_ok s" using assms by (auto simp: share_made_def share_ok_def)
  have fresh: "s_id s \<notin> s_id ` set ss" using assms(2) by (auto simp: share_free_def)
  have single: "s_id x = s_id y" if a: "share_table ss" "x \<in> set (ss @ [s])" "y \<in> set (ss @ [s])"
      "s_status x = ''ACTIVE''" "s_status y = ''ACTIVE''"
      "s_document_id x = s_document_id y" "s_shared_with_user_id x = s_shared_with_user_id y" for x y
  proof -
    have apart: "\<not> (s_document_id z = s_document_id s \<and> s_shared_with_user_id z = s_shared_with_user_id s)"
      if "z \<in> set ss" "s_status z = ''ACTIVE''" for z
      using assms(2) that by (auto simp: share_free_def)
    consider "x = s" "y = s" | "x = s" "y \<in> set ss" | "y = s" "x \<in> set ss" | "x \<in> set ss" "y \<in> set ss"
      using a(2,3) by auto
    then show ?thesis
    proof cases
      case 1
      then show ?thesis by simp
    next
      case 2
      then show ?thesis using apart [OF 2(2) a(5)] a(6,7) by metis
    next
      case 3
      then show ?thesis using apart [OF 3(2) a(4)] a(6,7) by metis
    next
      case 4
      then show ?thesis using a(1,4-7) unfolding share_table_def by blast
    qed
  qed
  have "share_table (ss @ [s])" if t: "share_table ss"
    unfolding share_table_def
  proof (intro conjI ballI impI)
    show "distinct (map s_id (ss @ [s]))" using t fresh by (auto simp: share_table_def)
  next
    fix x assume "x \<in> set (ss @ [s])"
    then show "share_ok x" using t ok by (auto simp: share_table_def)
  qed (rule single [OF t])
  then show ?thesis by (simp add: shares_step_def share_kept_def nth_append)
qed

lemma shares_step_revoked:
  assumes "\<forall>x. p x \<longrightarrow> s_status x = ''ACTIVE''"
  shows "shares_step ss (update_where p (share_revoked by t) ss)"
proof -
  let ?f = "\<lambda>x. if p x then share_revoked by t x else x"
  have ids: "map s_id (update_where p (share_revoked by t) ss) = map s_id ss"
    by (rule map_update_where) (simp add: share_revoked_def)
  have "share_table (update_where p (share_revoked by t) ss)" if t: "share_table ss"
    unfolding share_table_def ids
  proof (intro conjI ballI impI)
    show "distinct (map s_id ss)" using t by (simp add: share_table_def)
  next
    fix s assume "s \<in> set (update_where p (share_revoked by t) ss)"
    then obtain x where x: "x \<in> set ss" "s = ?f x" by (auto simp: update_where_set)
    have "share_ok x" using x(1) t by (simp add: share_table_def)
    then show "share_ok s" unfolding x(2) by (cases "p x") (simp_all add: share_ok_def share_revoked_def)
  next
    fix x y
    assume "x \<in> set (update_where p (share_revoked by t) ss)" "y \<in> set (update_where p (share_revoked by t) ss)"
      and "s_status x = ''ACTIVE''" "s_status y = ''ACTIVE''" "s_document_id x = s_document_id y"
      "s_shared_with_user_id x = s_shared_with_user_id y"
    moreover from this have "x \<in> set ss" "y \<in> set ss" by (auto simp: update_where_set share_revoked_def)
    ultimately show "s_id x = s_id y" using t unfolding share_table_def by blast
  qed
  then show ?thesis
    using assms by (auto simp: shares_step_def update_where_def share_kept_def)
qed

text \<open>The service at work, with any outcome of any call, beside steps that leave the table alone.\<close>

inductive share_runs :: "world \<Rightarrow> world \<Rightarrow> bool" where
  start: "share_runs w w"
| create: "share_runs w w1 \<Longrightarrow> au_ID user \<noteq> nil_uuid \<Longrightarrow> CreateShare user i input w1 = (r1, w2) \<Longrightarrow> share_runs w w2"
| revoke: "share_runs w w1 \<Longrightarrow> au_ID user \<noteq> nil_uuid \<Longrightarrow> RevokeShare user i sid w1 = (r2, w2) \<Longrightarrow> share_runs w w2"
| list_shares: "share_runs w w1 \<Longrightarrow> ListShares user i w1 = (r3, w2) \<Longrightarrow> share_runs w w2"
| list_mine: "share_runs w w1 \<Longrightarrow> ListSharedWithMe user pg w1 = (r4, w2) \<Longrightarrow> share_runs w w2"
| search: "share_runs w w1 \<Longrightarrow> SearchRecipients user qt w1 = (r5, w2) \<Longrightarrow> share_runs w w2"
| others: "share_runs w w1 \<Longrightarrow> shares w2 = shares w1 \<Longrightarrow> share_runs w w2"

lemma share_readers:
  "audit_frame.guar (ListShares user i)" "audit_frame.guar (ListSharedWithMe user pg)"
  "audit_frame.guar (SearchRecipients user qt)"
proof -
  show "audit_frame.guar (ListShares user i)"
    unfolding ListShares_def need_access_def q_ListDocumentSharesForDocument_def
    by (auto intro!: frame_CanAccessDocument frame_reader [OF summary_frame])
  show "audit_frame.guar (ListSharedWithMe user pg)"
    unfolding ListSharedWithMe_def q_ListSharedWithMe_def q_CountSharedWithMe_def by auto
  show "audit_frame.guar (SearchRecipients user qt)"
    unfolding SearchRecipients_def recipientRoles_def q_ListUsersFiltered_def q_ListRolesForUser_def Let_def by auto
qed

lemma share_runs_step: "share_runs w w' \<Longrightarrow> shares_step (shares w) (shares w')"
proof (induction rule: share_runs.induct)
  case (create w w1 user i input r1 w2)
  have "shares_step (shares w1) (shares w2)"
  proof (cases r1)
    case (Inl e)
    then have "tables w2 = tables w1" using CreateShare_run [OF create.hyps(3,2)] by simp
    then show ?thesis using tables_eqD(10) [of w2 w1] by simp
  next
    case (Inr sm)
    from CreateShare_run [OF create.hyps(3,2)] Inr obtain s where
      "tables w2 = (tables w1)\<lparr>t_shares := shares w1 @ [s]\<rparr>" "share_made user i input s" "share_free (shares w1) s"
      "si_Permission input \<in> {''VIEW'', ''VERIFY''}" "si_RecipientUserID input \<noteq> au_ID user" by auto
    moreover from this have "shares w2 = shares w1 @ [s]" by (metis tables_sel(10) database.select_convs(10) database.surjective database.update_convs(10))
    ultimately show ?thesis using shares_step_made by metis
  qed
  then show ?case using create.IH shares_step_trans by blast
next
  case (revoke w w1 user i sid r2 w2)
  have "shares_step (shares w1) (shares w2)"
  proof (cases r2)
    case (Inl e)
    then have "tables w2 = tables w1" using RevokeShare_run [OF revoke.hyps(3,2)] by simp
    then show ?thesis using tables_eqD(10) [of w2 w1] by simp
  next
    case (Inr sm)
    from RevokeShare_run [OF revoke.hyps(3,2)] Inr obtain p t where
      p: "\<forall>x. p x \<longrightarrow> s_status x = ''ACTIVE''"
      and "tables w2 = (tables w1)\<lparr>t_shares := update_where p (share_revoked (au_ID user) t) (shares w1)\<rparr>" by auto
    then have "shares w2 = update_where p (share_revoked (au_ID user) t) (shares w1)" by (metis tables_sel(10) database.select_convs(10) database.surjective database.update_convs(10))
    then show ?thesis using shares_step_revoked [OF p] by metis
  qed
  then show ?case using revoke.IH shares_step_trans by blast
next
  case (list_shares w w1 user i r3 w2)
  then show ?case using frame_tables [OF share_readers(1)] tables_eqD(10) by metis
next
  case (list_mine w w1 user pg r4 w2)
  then show ?case using frame_tables [OF share_readers(2)] tables_eqD(10) by metis
next
  case (search w w1 user qt r5 w2)
  then show ?case using frame_tables [OF share_readers(3)] tables_eqD(10) by metis
qed simp_all

text \<open>
  C35.  Whatever the share service is asked to do, in any order and with any call failing, no
  share disappears; a share changes in one way only, from active to revoked, which is final
  and leaves its document, recipient, creator, permission and expiry as they were; the
  identifiers stay distinct, nobody shares with themselves, and a document has at most one
  active share for a recipient.
\<close>

theorem shares_well_formed:
  assumes "share_runs w w'" and "share_table (shares w)"
  shows "share_table (shares w') \<and> length (shares w) \<le> length (shares w') \<and>
    (\<forall>k<length (shares w). let s = shares w ! k; s' = shares w' ! k in
       s' = s \<or> s_status s = ''ACTIVE'' \<and> (\<exists>by t. s' = s\<lparr>s_status := ''REVOKED'', s_revoked_at := Some t,
          s_revoked_by_user_id := Some by\<rparr>))"
  using share_runs_step [OF assms(1)] assms(2)
  by (simp add: shares_step_def share_kept_def share_revoked_def Let_def)

definition share_world :: world where [run_defs]:
  "share_world = quiet_world (sample_db\<lparr>
     t_permissions := t_permissions sample_db @
       [\<lparr>p_id = 9, p_name = ''document:share'', p_resource = ''document'', p_action = ''share''\<rparr>],
     t_role_permissions := t_role_permissions sample_db @ [\<lparr>rp_role_id = 2, rp_permission_id = 9\<rparr>],
     t_shares := []\<rparr>)"

definition share_input :: CreateShareInput where [run_defs]:
  "share_input = \<lparr>si_RecipientUserID = 12, si_Permission = ''VIEW'', si_ExpiresAt = Some 1000, si_Reason = None\<rparr>"

lemma share_world_simps: "shares share_world = []" "share_table (shares share_world)"
  by (simp_all add: share_world_def quiet_world_def sample_world_def share_table_def)

definition shared_world :: world where
  "shared_world = snd (CreateShare (sample_actor 11 ''POLICE'') 70 share_input share_world)"

lemma share_create_run: "map s_id (shares shared_world) = [1000]"
  unfolding shared_world_def
  supply run_congs [cong]
  by (simp add: run_defs)

lemma shares_well_formed_witness:
  "let w' = snd (RevokeShare (sample_actor 11 ''POLICE'') 70 1000 shared_world) in
     share_table (shares w') \<and> shares w' ! 0 \<in> {s. s = shares shared_world ! 0 \<or> s_status s = ''REVOKED''}"
proof -
  let ?u = "sample_actor 11 ''POLICE''"
  let ?w' = "snd (RevokeShare ?u 70 1000 shared_world)"
  have u: "au_ID ?u \<noteq> nil_uuid" by (simp add: sample_actor_def)
  have "share_runs share_world shared_world" unfolding shared_world_def
    by (rule share_runs.create [OF share_runs.start u]) (rule surjective_pairing)
  from shares_well_formed [OF this share_world_simps(2)] have t: "share_table (shares shared_world)" by blast
  have "share_runs shared_world ?w'"
    by (rule share_runs.revoke [OF share_runs.start u]) (rule surjective_pairing)
  note fin = shares_well_formed [OF this t]
  have "length (shares shared_world) = 1" using arg_cong [OF share_create_run, of length] by simp
  then show ?thesis using fin by (auto simp: Let_def)
qed

section \<open>Giving a share\<close>

text \<open>
  C36.  CreateShare is all or nothing.  When it succeeds, the caller was allowed to share the
  document, the recipient is an active user other than the caller, the permission is one of
  the two, and an expiry, if any, lies in the future; the table has exactly one share more,
  as asked for, and until its expiry it is a live delegation of the document to the
  recipient.
\<close>

theorem share_created:
  assumes "CreateShare user did input w = (r, w')" and "au_ID user \<noteq> nil_uuid"
  shows "case r of Inl e \<Rightarrow> tables w' = tables w
    | Inr sm \<Rightarrow> document_access w user did ''document:share'' \<and>
       (\<exists>p\<in>set (t_users (w_db w)). u_id p = si_RecipientUserID input \<and> u_status p = ''active'') \<and>
       si_RecipientUserID input \<noteq> au_ID user \<and> si_Permission input \<in> {''VIEW'', ''VERIFY''} \<and>
       (case si_ExpiresAt input of None \<Rightarrow> True | Some e \<Rightarrow> \<exists>n. w_clock w n < e) \<and>
       (\<exists>s e. tables w' = (tables w)\<lparr>t_shares := shares w @ [s]\<rparr> \<and> share_made user did input s \<and>
          share_free (shares w) s \<and> sm = share_summary s e) \<and>
       (\<forall>t. (case si_ExpiresAt input of None \<Rightarrow> True | Some e \<Rightarrow> t < e) \<longrightarrow>
          delegated (w_db w') t (si_RecipientUserID input) did ''document:read'')"
proof (cases r)
  case (Inl e)
  then show ?thesis using CreateShare_run [OF assms] by simp
next
  case (Inr sm)
  note res = CreateShare_run [OF assms, unfolded Inr sum.case]
  then obtain s where s: "tables w' = (tables w)\<lparr>t_shares := shares w @ [s]\<rparr>" "share_made user did input s" by blast
  have "shares w' = t_shares (tables w')" by simp
  then have "s \<in> set (shares w')" using s(1) by simp
  then have "delegated (w_db w') t (si_RecipientUserID input) did ''document:read''"
    if "case si_ExpiresAt input of None \<Rightarrow> True | Some e \<Rightarrow> t < e" for t
    using s(2) that unfolding delegated_def by (intro bexI [of _ s]) (simp_all add: share_made_def)
  then show ?thesis using res Inr by auto
qed

lemma share_created_witness:
  "delegated (w_db shared_world) 500 12 70 ''document:read''"
proof -
  let ?u = "sample_actor 11 ''POLICE''"
  obtain r where run: "CreateShare ?u 70 share_input share_world = (r, shared_world)"
    unfolding shared_world_def by (metis prod.collapse)
  note res = share_created [OF run]
  have "r \<noteq> Inl e" for e
  proof
    assume "r = Inl e"
    then have "tables shared_world = tables share_world" using res by (simp add: sample_actor_def)
    then show False using share_create_run share_world_simps(1) tables_eqD(10) [of shared_world share_world] by simp
  qed
  then obtain sm where "r = Inr sm" by (cases r) auto
  then show ?thesis using res by (simp add: sample_actor_def share_input_def)
qed

section \<open>Taking it back\<close>

text \<open>
  C37.  A successful RevokeShare revokes exactly the share it names, of the document it names,
  and ends the delegation at once: from then on, as long as no new share is given, the
  recipient is refused every action on the document, unless the recipient is an administrator
  or belongs to the document's case.
\<close>

theorem revocation_ends_access:
  assumes "RevokeShare user did i w = (Inr sm, w')" and "au_ID user \<noteq> nil_uuid" and "share_table (shares w)"
    and "shares w2 = shares w'" and "CanAccessDocument u did act w2 = (Inr dec, w3)"
    and "au_ID u = ss_RecipientUserID sm" and "au_ID u \<noteq> nil_uuid" and "\<not> IsAdmin u"
    and "\<forall>doc\<in>set (t_documents (w_db w2)). d_id doc = did \<longrightarrow> \<not> case_related (w_db w2) (au_ID u) (d_case_id doc)"
  shows "document_access w user did ''document:share'' \<and>
    (\<exists>s0\<in>set (shares w). \<exists>t. s_id s0 = i \<and> s_document_id s0 = did \<and> s_status s0 = ''ACTIVE'' \<and>
       tables w' = (tables w)\<lparr>t_shares := map (\<lambda>x. if x = s0 then share_revoked (au_ID user) t x else x) (shares w)\<rparr>) \<and>
    \<not> Allowed dec"
proof -
  from RevokeShare_run [OF assms(1,2)] obtain p s0 t e where
    p: "\<forall>x. p x \<longrightarrow> s_id x = i \<and> s_document_id x = did \<and> s_status x = ''ACTIVE''" and s0: "s0 \<in> set (shares w)" "p s0"
    and sm: "sm = share_summary (share_revoked (au_ID user) t s0) e"
    and db: "tables w' = (tables w)\<lparr>t_shares := update_where p (share_revoked (au_ID user) t) (shares w)\<rparr>"
    and acc: "document_access w user did ''document:share''" by auto
  have only: "x = s0" if "x \<in> set (shares w)" "s_id x = s_id s0" for x
    using assms(3) that s0(1) unfolding share_table_def distinct_map by (metis inj_onD)
  have "update_where p (share_revoked (au_ID user) t) (shares w) =
      map (\<lambda>x. if x = s0 then share_revoked (au_ID user) t x else x) (shares w)"
    unfolding update_where_def using p s0 only by (intro map_cong refl) metis
  moreover have "\<not> Allowed dec"
  proof
    assume "Allowed dec"
    with CanAccessDocument_sound [OF assms(5,7)] obtain doc n where
      "delegated (w_db w2) (w_clock w2 n) (au_ID u) did act"
      using assms(8,9) unfolding document_access_def by blast
    then obtain x where x: "x \<in> set (shares w2)" "s_document_id x = did" "s_shared_with_user_id x = au_ID u"
      "s_status x = ''ACTIVE''" by (auto simp: delegated_def)
    have "shares w2 = t_shares (tables w')" by (simp add: assms(4))
    then obtain y where y: "y \<in> set (shares w)" "x = (if p y then share_revoked (au_ID user) t y else y)"
      using x(1) db by (auto simp: update_where_set)
    have np: "\<not> p y" "x = y" using y(2) x(4) by (auto simp: share_revoked_def split: if_splits)
    have "s_shared_with_user_id s0 = au_ID u" using sm assms(6) by (simp add: share_summary_def share_revoked_def)
    then have "s_id y = s_id s0"
      using assms(3) y(1) s0 p x np(2) unfolding share_table_def by metis
    then show False using only y(1) s0(2) np(1) by blast
  qed
  ultimately show ?thesis using p s0 acc db by auto
qed

definition revoke_world :: world where [run_defs]:
  "revoke_world = share_world\<lparr>w_db := (w_db share_world)\<lparr>t_shares := [sample_share]\<rparr>\<rparr>"

lemma revoke_run:
  "\<exists>sm. fst (RevokeShare (sample_actor 11 ''POLICE'') 70 80 revoke_world) = Inr sm \<and> ss_RecipientUserID sm = 12"
  supply run_congs [cong]
  by (simp add: run_defs)

lemma refused_run:
  "\<exists>dec. fst (CanAccessDocument (sample_actor 12 ''POLICE'') 70 ''document:read''
     (snd (RevokeShare (sample_actor 11 ''POLICE'') 70 80 revoke_world))) = Inr dec"
  supply run_congs [cong]
  by (simp add: run_defs)

lemma revocation_ends_access_witness:
  "\<exists>dec. fst (CanAccessDocument (sample_actor 12 ''POLICE'') 70 ''document:read''
     (snd (RevokeShare (sample_actor 11 ''POLICE'') 70 80 revoke_world))) = Inr dec \<and> \<not> Allowed dec"
proof -
  let ?u = "sample_actor 11 ''POLICE''" and ?v = "sample_actor 12 ''POLICE''"
  obtain sm w' where run: "RevokeShare ?u 70 80 revoke_world = (Inr sm, w')" and to: "ss_RecipientUserID sm = 12"
    using revoke_run by (metis prod.collapse)
  obtain dec w3 where dec: "CanAccessDocument ?v 70 ''document:read'' w' = (Inr dec, w3)"
    using refused_run run by (metis prod.collapse snd_conv)
  have tab: "share_table (shares revoke_world)"
    by (simp add: revoke_world_def sample_share_def share_table_def share_ok_def)
  obtain s0 t where db: "tables w' = (tables revoke_world)\<lparr>t_shares := t\<rparr>"
    using RevokeShare_run [OF run] by (auto simp: sample_actor_def)
  have same: "t_documents (w_db w') = [sample_document]" "t_cases (w_db w') = [sample_case]"
      "t_case_members (w_db w') = [sample_member]"
    using arg_cong [OF db, of t_documents] arg_cong [OF db, of t_cases] arg_cong [OF db, of t_case_members]
    by (simp_all add: revoke_world_def share_world_def quiet_world_def sample_world_def sample_db_def)
  have "\<not> Allowed dec"
    using revocation_ends_access [OF run _ tab refl dec] to
    by (simp add: same sample_actor_def IsAdmin_def hasRole_def case_related_def sample_document_def sample_case_def
        sample_member_def active_membership_def)
  then show ?thesis using run dec by auto
qed

section \<open>What a user finds shared\<close>

lemma paged_length: "paged l n xs = Inr ys \<Longrightarrow> length ys \<le> length xs"
  by (auto simp: paged_def split: if_splits)



end
