(* ===== verification/Export.thy ===== *)
theory Export
  imports DocumentService Watermark
begin

text \<open>
  backend/internal/service/export\_service.go with the statements of
  backend/db/queries/evidence\_exports.sql: a marked copy of a document is stored beside the
  original and entered in the table evidence\_exports, downloaded again by whom the row names,
  and a file can be asked for the mark it carries.  The service owns that table and the
  objects under \<^verbatim>\<open>exports/\<close>.
\<close>

section \<open>evidence\_exports.sql\<close>

definition export_status_ok :: "string \<Rightarrow> bool" where [run_defs]:
  "export_status_ok s \<longleftrightarrow> s \<in> {''REQUESTED'', ''PROCESSING'', ''COMPLETED'', ''FAILED'', ''REVOKED''}"

definition watermark_status_ok :: "string \<Rightarrow> bool" where [run_defs]:
  "watermark_status_ok s \<longleftrightarrow> s \<in> {''APPLIED'', ''NOT_SUPPORTED'', ''FAILED'', ''PENDING''}"

definition exports_valid :: "export_row \<Rightarrow> (bool \<times> gerr) list" where [run_defs]:
  "exports_valid r =
    [(case x_export_sha256 r of None \<Rightarrow> True | Some h \<Rightarrow> length h = 32,
        PgError ''23514'' ''evidence_exports_export_sha256_length''),
     (length (x_export_fingerprint r) = 32, PgError ''23514'' ''evidence_exports_fingerprint_length''),
     (length (x_original_sha256 r) = 32, PgError ''23514'' ''evidence_exports_original_sha256_length''),
     (export_status_ok (x_status r), PgError ''23514'' ''evidence_exports_status_check''),
     (watermark_status_ok (x_watermark_status r), PgError ''23514'' ''evidence_exports_watermark_status_check'')]"

definition opt_texts :: "string option list \<Rightarrow> bool" where [run_defs]:
  "opt_texts ts \<longleftrightarrow> list_all (\<lambda>t. case t of None \<Rightarrow> True | Some s \<Rightarrow> text_ok s) ts"

definition exports_checks :: "database \<Rightarrow> app_ctx \<Rightarrow> export_row \<Rightarrow> (bool \<times> gerr) list" where [run_defs]:
  "exports_checks d c r =
    [(text_ok (x_export_id r) \<and> opt_texts [x_source_ip r, x_user_agent r], PgError ''22021'' ''''),
     (exports_insert c r \<and> exports_select c r, rls_error ''evidence_exports'')] @ exports_valid r @
    [(\<not> list_ex (\<lambda>x. x_id x = x_id r) (t_exports d), PgError ''23505'' ''evidence_exports_pkey''),
     (\<not> list_ex (\<lambda>x. x_export_id x = x_export_id r) (t_exports d), PgError ''23505'' ''evidence_exports_export_id_unique''),
     (document_exists d (x_document_id r), PgError ''23503'' ''evidence_exports_document_id_fkey''),
     (case_exists d (x_case_id r), PgError ''23503'' ''evidence_exports_case_id_fkey''),
     (user_exists d (x_user_id r), PgError ''23503'' ''evidence_exports_user_id_fkey''),
     (user_exists d (x_recipient_user_id r), PgError ''23503'' ''evidence_exports_recipient_user_id_fkey''),
     (case x_share_id r of None \<Rightarrow> True | Some i \<Rightarrow> list_ex (\<lambda>s. s_id s = i) (t_shares d),
        PgError ''23503'' ''evidence_exports_share_id_fkey'')]"

text \<open>The row as the caller fills it; id and time of creation take the column defaults.\<close>

definition q_CreateEvidenceExport :: "export_row \<Rightarrow> export_row op" where [run_defs]:
  "q_CreateEvidenceExport p = exec_new (\<lambda>i lib d c now.
     case lib_jsonb lib (x_metadata p) of None \<Rightarrow> Inl (PgError ''22P02'' '''')
     | Some m \<Rightarrow> let r = p\<lparr>x_id := i, x_metadata := m, x_created_at := now\<rparr> in
         checked (exports_checks d c r) (r, d\<lparr>t_exports := t_exports d @ [r]\<rparr>))"

definition coalesce :: "'a option \<Rightarrow> 'a option \<Rightarrow> 'a option" where [run_defs]:
  "coalesce a b = (case a of None \<Rightarrow> b | Some x \<Rightarrow> Some x)"

text \<open>The only caller passes no failure reason, audit event or anchor.\<close>

definition q_UpdateEvidenceExportStatus :: "uuid \<Rightarrow> string \<Rightarrow> bytes option \<Rightarrow> time option \<Rightarrow> export_row op" where [run_defs]:
  "q_UpdateEvidenceExportStatus i status h completed = exec (\<lambda>lib d c now.
     let p = (\<lambda>r. x_id r = i \<and> exports_select c r \<and> exports_update c r);
         f = (\<lambda>r. r\<lparr>x_status := status, x_failure_reason := None,
            x_export_sha256 := coalesce h (x_export_sha256 r), x_completed_at := completed\<rparr>) in
     (case filter p (t_exports d) of [] \<Rightarrow> Inl ErrNoRows
      | r # _ \<Rightarrow> checked (exports_valid (f r)) (f r, d\<lparr>t_exports := update_where p f (t_exports d)\<rparr>)))"

definition q_GetEvidenceExportByExportID :: "string \<Rightarrow> export_row op" where [run_defs]:
  "q_GetEvidenceExportByExportID i = query (\<lambda>d c now. one (filter (\<lambda>r. x_export_id r = i \<and> exports_select c r) (t_exports d)))"

section \<open>RequestExport\<close>

record ExportService =
  xv_watermarkKey :: bytes
  xv_blockchainSvc :: "anchor_hook option"

record EvidenceExportSummary =
  es_ID :: uuid
  es_ExportID :: string
  es_DocumentID :: uuid
  es_Status :: string
  es_ExportType :: string
  es_WatermarkStatus :: string
  es_CreatedAt :: time
  es_ExportFingerprint :: string

record ExportedDocument =
  ed_Export :: export_row
  ed_Document :: document_row
  ed_Content :: bytes

definition export_name :: "uuid \<Rightarrow> time \<Rightarrow> string" where [run_defs]:
  "export_name u t = ''EXP-'' @ take 8 (uuid_string u) @ ''-'' @ dec_int (t div 1000000)"

definition exportObjectKey :: "uuid \<Rightarrow> string \<Rightarrow> string" where [run_defs]:
  "exportObjectKey caseID exportID = ''exports/'' @ uuid_string caseID @ ''/'' @ exportID"

text \<open>The stream of a stored object: it may break while it is read.\<close>

definition open_stream :: "bytes \<Rightarrow> reader op" where [run_defs]:
  "open_stream b = tryE (infra (ret ())) (\<lambda>e. ret \<lparr>rd_pieces = [], rd_error = Some e\<rparr>)
     (\<lambda>_. ret \<lparr>rd_pieces = [b], rd_error = None\<rparr>)"

definition mark_payload ::
    "library \<Rightarrow> authenticated_user \<Rightarrow> document_row \<Rightarrow> string \<Rightarrow> time \<Rightarrow> string \<Rightarrow> bytes \<Rightarrow> WatermarkPayload" where [run_defs]:
  "mark_payload lib user doc exportID t clientIP fingerprint = \<lparr>wp_Version = 1, wp_ExportID = exportID,
     wp_DocumentID = uuid_string (d_id doc), wp_UserID = uuid_string (au_ID user),
     wp_ExportedAt = lib_rfc3339_s lib t, wp_ClientIP = clientIP, wp_Fingerprint = hex_encode fingerprint\<rparr>"

definition non_empty :: "string \<Rightarrow> string option" where [run_defs]:
  "non_empty s = (if s = '''' then None else Some s)"

definition export_of ::
    "authenticated_user \<Rightarrow> document_row \<Rightarrow> string \<Rightarrow> bytes \<Rightarrow> bytes \<Rightarrow> WatermarkResult \<Rightarrow> string \<Rightarrow> string \<Rightarrow> export_row" where [run_defs]:
  "export_of user doc exportID exportHash fingerprint res clientIP userAgent = \<lparr>x_id = 0, x_export_id = exportID,
     x_document_id = d_id doc, x_document_version = 1, x_case_id = d_case_id doc, x_user_id = au_ID user,
     x_recipient_user_id = au_ID user, x_share_id = None, x_original_sha256 = d_sha256_hash doc,
     x_export_sha256 = Some exportHash, x_export_fingerprint = fingerprint,
     x_watermark_status = wr_WatermarkStatus res, x_watermark_version = wr_WatermarkVersion res,
     x_export_type = ''STANDARD'', x_permission = ''DOWNLOAD'', x_source_ip = non_empty clientIP,
     x_user_agent = non_empty userAgent, x_session_reference_hash = None, x_status = ''COMPLETED'',
     x_failure_reason = None, x_audit_event_id = None, x_blockchain_anchor_id = None, x_metadata = ''{}'',
     x_created_at = 0, x_completed_at = None\<rparr>"

definition persistExport :: "app_identity \<Rightarrow> export_row \<Rightarrow> export_row op" where [run_defs]:
  "persistExport ident r = WithTx ident (bindE (q_CreateEvidenceExport r) (\<lambda>ex. bindE time_now (\<lambda>now.
     q_UpdateEvidenceExportStatus (x_id ex) ''COMPLETED'' (x_export_sha256 r) (Some now))))"

definition exported_event :: "authenticated_user \<Rightarrow> document_row \<Rightarrow> export_row \<Rightarrow> string \<Rightarrow> bytes \<Rightarrow> bytes \<Rightarrow> string \<Rightarrow> event" where [run_defs]:
  "exported_event user doc created exportID fingerprint exportHash status = \<lparr>ev_action = ''EVIDENCE_EXPORTED'',
     ev_resource_type = ''evidence_export'', ev_resource_id = Some (x_id created), ev_user_id = Some (au_ID user),
     ev_role = effectiveCaseRole user, ev_case_id = Some (d_case_id doc),
     ev_metadata = JObj [(''export_id'', JStr exportID), (''document_id'', JStr (uuid_string (d_id doc))),
       (''export_fingerprint'', JStr (hex_encode fingerprint)), (''export_sha256'', JStr (hex_encode exportHash)),
       (''watermark_status'', JStr status)]\<rparr>"

definition export_summary :: "export_row \<Rightarrow> EvidenceExportSummary" where [run_defs]:
  "export_summary r = \<lparr>es_ID = x_id r, es_ExportID = x_export_id r, es_DocumentID = x_document_id r,
     es_Status = x_status r, es_ExportType = x_export_type r, es_WatermarkStatus = x_watermark_status r,
     es_CreatedAt = x_created_at r, es_ExportFingerprint = hex_encode (x_export_fingerprint r)\<rparr>"

text \<open>From the marked copy to the stored object, the row, the record and the anchor.\<close>

definition register_export ::
    "ExportService \<Rightarrow> authenticated_user \<Rightarrow> document_row \<Rightarrow> string \<Rightarrow> bytes \<Rightarrow> string \<Rightarrow> string \<Rightarrow> WatermarkResult \<Rightarrow> EvidenceExportSummary op" where [run_defs]:
  "register_export sv user doc exportID fingerprint clientIP userAgent res =
     (let key = exportObjectKey (d_case_id doc) exportID in
      tryE (storage_put key \<lparr>rd_pieces = [wr_Stream res], rd_error = None\<rparr>)
        (\<lambda>e. fail (ErrInternal (Wrap ''store export'' e)))
        (\<lambda>_. bindE (get_world (\<lambda>w. lib_sha256 (w_lib w) (wr_Stream res))) (\<lambda>exportHash.
           tryE (persistExport (case_ident user) (export_of user doc exportID exportHash fingerprint res clientIP userAgent))
             (\<lambda>e. cleanupOrphan key (fail (ErrInternal (Wrap ''persist export metadata'' e))))
             (\<lambda>created. bindE (Record (exported_event user doc created exportID fingerprint exportHash (wr_WatermarkStatus res))) (\<lambda>_.
                bindE (case xv_blockchainSvc sv of None \<Rightarrow> ret ()
                   | Some hook \<Rightarrow> hook user (d_id doc) (d_case_id doc) exportHash ''EVIDENCE_EXPORTED'') (\<lambda>_.
                ret (export_summary created)))))))"

text \<open>From the document to the marked copy.\<close>

definition make_export :: "ExportService \<Rightarrow> authenticated_user \<Rightarrow> string \<Rightarrow> string \<Rightarrow> document_row \<Rightarrow> EvidenceExportSummary op" where [run_defs]:
  "make_export sv user clientIP userAgent doc =
     bindE uuid_new (\<lambda>u. bindE time_now (\<lambda>t0. let exportID = export_name u t0 in
     tryE (rand_read 32) (\<lambda>e. fail (ErrInternal (Wrap ''generate fingerprint'' e))) (\<lambda>fingerprint.
     tryE (storage_get (d_storage_object_key doc))
       (\<lambda>_. fail (ErrServiceUnavailable ''The requested document is temporarily unavailable'')) (\<lambda>b.
     bindE time_now (\<lambda>t. bindE (get_world w_lib) (\<lambda>lib. bindE (open_stream b) (\<lambda>stream.
     tryE (ApplyWatermark (xv_watermarkKey sv) stream (d_mime_type doc)
         (mark_payload lib user doc exportID t clientIP fingerprint))
       (\<lambda>e. fail (ErrInternal (Wrap ''apply watermark'' e)))
       (register_export sv user doc exportID fingerprint clientIP userAgent))))))))"

definition RequestExport :: "ExportService \<Rightarrow> authenticated_user \<Rightarrow> uuid \<Rightarrow> string \<Rightarrow> string \<Rightarrow> EvidenceExportSummary op" where [run_defs]:
  "RequestExport sv user documentID clientIP userAgent =
     need_access CanAccessDocument user documentID ''document:download'' (
     load_document user documentID (make_export sv user clientIP userAgent))"

section \<open>DownloadEvidenceExport and VerifyWatermark\<close>

definition DownloadEvidenceExport :: "authenticated_user \<Rightarrow> string \<Rightarrow> ExportedDocument op" where [run_defs]:
  "DownloadEvidenceExport user exportID = tryE (WithTx (case_ident user) (
         bindE (q_GetEvidenceExportByExportID exportID) (\<lambda>ex.
         bindE (q_GetDocumentByID (x_document_id ex)) (\<lambda>doc. ret (ex, doc)))))
     (no_rows_as (ErrForbidden ''Export not found or access denied'')) (\<lambda>(ex, doc).
     ensure (x_status ex = ''COMPLETED'') (ErrBadRequest ''Export is not ready for download'') (
     tryE (storage_get (exportObjectKey (d_case_id doc) (x_export_id ex)))
       (\<lambda>_. fail (ErrServiceUnavailable ''The requested export is temporarily unavailable'')) (\<lambda>b.
     bindE (Record \<lparr>ev_action = ''EXPORT_DOWNLOADED'', ev_resource_type = ''evidence_export'',
         ev_resource_id = Some (x_id ex), ev_user_id = Some (au_ID user), ev_role = effectiveCaseRole user,
         ev_case_id = Some (d_case_id doc), ev_metadata = JObj [(''export_id'', JStr exportID)]\<rparr>) (\<lambda>_.
     ret \<lparr>ed_Export = ex, ed_Document = doc, ed_Content = b\<rparr>))))"

record WatermarkVerifyResult =
  vw_Found :: bool
  vw_Payload :: "WatermarkPayload option"
  vw_Message :: string

definition VerifyWatermark :: "ExportService \<Rightarrow> authenticated_user \<Rightarrow> bytes \<Rightarrow> WatermarkVerifyResult op" where [run_defs]:
  "VerifyWatermark sv user fileData = bindE (get_world w_lib) (\<lambda>lib.
     let found = ExtractWatermark lib (xv_watermarkKey sv) fileData in
     bindE (Record \<lparr>ev_action = ''WATERMARK_VERIFIED'', ev_resource_type = ''evidence_export'',
         ev_resource_id = None, ev_user_id = Some (au_ID user), ev_role = effectiveCaseRole user,
         ev_case_id = None, ev_metadata = JObj [(''found'', JBool (case found of Inl _ \<Rightarrow> False | Inr _ \<Rightarrow> True)),
           (''file_size'', JInt (int (length fileData)))]\<rparr>) (\<lambda>_.
     ret (case found of
        Inl e \<Rightarrow> \<lparr>vw_Found = False, vw_Payload = None, vw_Message = err_text e\<rparr>
      | Inr p \<Rightarrow> \<lparr>vw_Found = True, vw_Payload = Some p,
          vw_Message = ''Forensic watermark verified successfully.''\<rparr>)))"

end
