(* ===== verification/ExportFacts.thy ===== *)
theory ExportFacts
  imports Export Guards FabricFacts WatermarkProps AnchorProps
begin

text \<open>
  Exports: what the steps before the copy is stored leave alone, what storing and entering it
  does, and the contract of the hook that anchors it.
\<close>

abbreviation exports :: "world \<Rightarrow> export_row list" where
  "exports w \<equiv> t_exports (w_db w)"

section \<open>Steps that leave everything of interest alone\<close>

lemma calm_step:
  assumes "tryE m (\<lambda>e. fail (g e)) k w = (r, w')" "calm m"
  shows "(\<exists>e. r = Inl e) \<and> undisturbed w w' \<or>
    (\<exists>x w1. m w = (Inr x, w1) \<and> k x w1 = (r, w') \<and> undisturbed w w1)"
proof -
  obtain d w1 where d: "m w = (d, w1)" by fastforce
  show ?thesis using calmD [OF assms(2) d] assms(1) d by (cases d) (auto simp: tryE_def fail_def)
qed

lemma calm_basic: "calm uuid_new" "calm time_now" "calm (get_world f)" "calm (ret x)" "calm (fail e)"
  by (auto intro!: calmI)

lemma calm_rand [intro!]: "calm (rand_read k)"
proof -
  let ?m = "\<lambda>w. (Inr (lib_random_bytes (w_lib w) (w_rng_i w) k), w\<lparr>w_rng_i := Suc (w_rng_i w)\<rparr>)"
  have "audit_frame.guar ?m" "objects.kept ?m" "ledger.kept ?m" "param.guar ?m"
    by (simp_all add: audit_frame.guar_def only_audit_def objects.kept_def ledger.kept_def param.guar_def params_same_def)
  then show ?thesis unfolding rand_read_def by (intro calmI) blast+
qed

lemma calm_get: "calm (storage_get key)" "calm (open_stream b)"
  by (auto intro!: calm_reader simp: open_stream_def)

lemma calm_tryE: "calm m \<Longrightarrow> (\<And>e. calm (h e)) \<Longrightarrow> (\<And>x. calm (k x)) \<Longrightarrow> calm (tryE m h k)"
  unfolding calm_def by blast

lemma calm_apply: "calm (ApplyWatermark key r mime p)"
  unfolding ApplyWatermark_def encrypt_def
  by (cases "rd_error r") (auto intro!: calm_tryE calm_rand calm_basic)

section \<open>The hook that anchors an export\<close>

text \<open>What the export service relies on: the hook writes anchors, and it cannot fail.\<close>

locale anchor_creator =
  fixes hook :: anchor_hook
  assumes keeps_objects: "objects.kept (hook u d c h e)"
    and only_anchors: "(tables (snd (hook u d c h e w)))\<lparr>t_anchors := []\<rparr> = (tables w)\<lparr>t_anchors := []\<rparr>"
    and returns: "fst (hook u d c h e w) = Inr ()"
begin

lemma then_hook: "tryE (hook u d c h e) g k w = k () (snd (hook u d c h e w))"
  using returns [of u d c h e w] by (cases "hook u d c h e w") (simp add: tryE_def)

lemma hook_frame:
  "exports (snd (hook u d c h e w)) = exports w"
  "w_objects (snd (hook u d c h e w)) = w_objects w"
  using arg_cong [OF only_anchors, of t_exports] keeps_objects [unfolded objects.kept_def] by simp_all

end

definition anchors_only :: "world \<Rightarrow> world \<Rightarrow> bool" where
  "anchors_only w w' \<longleftrightarrow> (tables w')\<lparr>t_anchors := []\<rparr> = (tables w)\<lparr>t_anchors := []\<rparr>"

interpretation anchoring: guarantee anchors_only
  by unfold_locales (auto simp: anchors_only_def tables_def)

lemma anchoring_enqueue [intro!]: "anchoring.guar (enqueue ty i)"
proof -
  have "anchoring.guar (infra (\<lambda>w. if (ty, i) \<in> set (w_jobs w)
       then (Inl (StdErr ''task ID conflicts with another task''), w)
       else (Inr (), w\<lparr>w_jobs := w_jobs w @ [(ty, i)]\<rparr>)))"
    by (rule anchoring.guar_infra) (auto simp: anchoring.guar_def anchors_only_def tables_def)
  then show ?thesis unfolding enqueue_def by auto
qed

lemma anchoring_create: "anchoring.guar (CreateAnchorForDocument sv u d c h e)"
proof -
  have "anchoring.guar (q_CreateBlockchainAnchor d ver e h ch cc org)" for ver ch cc org
    unfolding q_CreateBlockchainAnchor_def
    by (rule anchoring.guar_exec_new) (auto simp: anchors_only_def tables_def Let_def)
  moreover have "anchoring.guar (Record ev)" for ev
    by (rule anchoring.guarI) (metis Record_run anchors_only_def prod.collapse)
  ultimately show ?thesis
    unfolding CreateAnchorForDocument_def EnqueueBlockchainAnchor_def by auto
qed

interpretation outbox: anchor_creator "CreateAnchorForDocument sv" for sv
proof
  fix u d c h e w
  show "objects.kept (CreateAnchorForDocument sv u d c h e)"
    unfolding CreateAnchorForDocument_def EnqueueBlockchainAnchor_def q_CreateBlockchainAnchor_def by auto
  show "(tables (snd (CreateAnchorForDocument sv u d c h e w)))\<lparr>t_anchors := []\<rparr> = (tables w)\<lparr>t_anchors := []\<rparr>"
    using anchoring.guarD [OF anchoring_create] by (simp add: anchors_only_def)
  show "fst (CreateAnchorForDocument sv u d c h e w) = Inr ()"
    by (auto simp: CreateAnchorForDocument_def ret_def tryE_def [of "WithTx _ _"] Record_then ignoring_def
        split: sum.splits prod.splits)
qed

interpretation unanchored: anchor_creator "\<lambda>u d c h e. ret ()"
  by unfold_locales (simp_all add: objects.kept_def ret_def)

text \<open>The event type of an export is not one the table of anchors admits.\<close>

lemma export_not_anchored: "t_anchors (w_db (snd (CreateAnchorForDocument sv u d c h ''EVIDENCE_EXPORTED'' w))) = t_anchors (w_db w)"
proof (cases "bc_IsEnabled (as_blockchain sv)")
  case True
  let ?q = "q_CreateBlockchainAnchor d 1 ''EVIDENCE_EXPORTED'' h (Some (as_channel sv)) (Some (as_chaincode sv)) (Some (as_mspID sv))"
  have no: "?q v \<noteq> (Inr x, v')" for v x v'
    by (auto simp: q_CreateBlockchainAnchor_def exec_new_run Let_def anchors_checks_def anchor_valid_def)
  have "\<not> (\<exists>x w1. WithTx (case_ident u) ?q w = (Inr x, w1))" using no by (auto simp: WithTx_run)
  then obtain err w1 where tx: "WithTx (case_ident u) ?q w = (Inl err, w1)" by (metis old.sum.exhaust prod.collapse)
  then have "tables w1 = tables w" by (rule WithTx_tables)
  then show ?thesis
    using True tx tables_eqD(13) [of w1 w] by (simp add: CreateAnchorForDocument_def tryE_def ret_def)
next
  case False
  then show ?thesis by (simp add: CreateAnchorForDocument_def ret_def)
qed

section \<open>Storing the copy and entering it\<close>

lemma put_run:
  assumes "storage_put key \<lparr>rd_pieces = [b], rd_error = None\<rparr> w = (r, w')"
  shows "tables w' = tables w \<and> w_lib w' = w_lib w \<and>
    (case r of Inl e \<Rightarrow> w_objects w' = w_objects w \<or> w_objects w' = (w_objects w)(key \<mapsto> b)
     | Inr u \<Rightarrow> w_objects w' = (w_objects w)(key \<mapsto> b))"
  using assms
  by (auto simp: storage_put_def put_connect_def put_stream_def storage_error_def tryE_def infra_def Let_def ret_def
      fail_def get_world_def content_def tables_def split: option.splits)

lemma cleanup_run: "cleanupOrphan key (fail e) w = (r, w') \<Longrightarrow> r = Inl e \<and> tables w' = tables w \<and>
    (w_objects w' = w_objects w \<or> w_objects w' = (w_objects w)(key := None))"
  by (auto simp: cleanupOrphan_def ignoring_def storage_delete_def storage_error_def tryE_def infra_def Let_def ret_def
      fail_def get_world_def tables_def split: option.splits)

lemma persistExport_run:
  assumes "persistExport ident p w = (r, w')"
  shows "case r of Inl e \<Rightarrow> tables w' = tables w
    | Inr c \<Rightarrow> tables w' = (tables w)\<lparr>t_exports := exports w @ [c]\<rparr> \<and>
       (\<exists>i m t t'. c = p\<lparr>x_id := i, x_metadata := m, x_created_at := t, x_status := ''COMPLETED'',
          x_failure_reason := None, x_completed_at := Some t'\<rparr> \<and> x_export_id c \<notin> x_export_id ` set (exports w))"
proof (cases r)
  case (Inl e)
  then show ?thesis using assms by (auto simp: persistExport_def dest: WithTx_tables)
next
  case (Inr c)
  let ?w = "started ident w"
  from assms Inr obtain ex w1 w2 where cr: "q_CreateEvidenceExport p ?w = (Inr ex, w1)"
    and up: "q_UpdateEvidenceExportStatus (x_id ex) ''COMPLETED'' (x_export_sha256 p) (Some (w_clock w1 (w_clock_i w1)))
        (w1\<lparr>w_clock_i := Suc (w_clock_i w1)\<rparr>) = (Inr c, w2)" and w': "w_db w' = w_db w2"
    by (auto simp: persistExport_def WithTx_run end_tx_def tryE_Inr fail_run time_now_def)
  obtain i m where ex: "ex = p\<lparr>x_id := i, x_metadata := m, x_created_at := w_tx_now ?w\<rparr>"
    and db1: "w_db w1 = (w_db w)\<lparr>t_exports := exports w @ [ex]\<rparr>"
    and fresh: "\<forall>x\<in>set (exports w). x_id x \<noteq> i \<and> x_export_id x \<noteq> x_export_id p"
    using cr by (auto simp: q_CreateEvidenceExport_def exec_new_run Let_def exports_checks_def list_ex_iff split: option.splits)
  let ?p = "\<lambda>r. x_id r = x_id ex \<and> exports_select (w_ctx w1) r \<and> exports_update (w_ctx w1) r"
  let ?f = "\<lambda>r. r\<lparr>x_status := ''COMPLETED'', x_failure_reason := None,
            x_export_sha256 := coalesce (x_export_sha256 p) (x_export_sha256 r), x_completed_at := Some (w_clock w1 (w_clock_i w1))\<rparr>"
  have none: "\<forall>x\<in>set (exports w). \<not> ?p x" using fresh ex by auto
  obtain y ys where f: "filter ?p (exports w1) = y # ys" "c = ?f y"
    and db2: "w_db w2 = (w_db w1)\<lparr>t_exports := update_where ?p ?f (exports w1)\<rparr>"
    using up by (auto simp: q_UpdateEvidenceExportStatus_def exec_run Let_def split: list.splits)
  have "filter ?p (exports w) = []" using none by (auto simp: filter_empty_conv)
  then have y: "y = ex" "?p ex" using f(1) db1 by (auto split: if_splits)
  then have "exports w2 = exports w @ [c]" using db1 db2 none f(2) by (simp add: update_where_none)
  then have "tables w' = (tables w)\<lparr>t_exports := exports w @ [c]\<rparr>" using w' db1 db2 by (simp add: tables_def)
  moreover have "c = p\<lparr>x_id := i, x_metadata := m, x_created_at := w_tx_now ?w, x_status := ''COMPLETED'',
          x_failure_reason := None, x_completed_at := Some (w_clock w1 (w_clock_i w1))\<rparr>"
    using f(2) y(1) ex by (cases "x_export_sha256 p") (simp_all add: coalesce_def)
  moreover from this have "x_export_id c \<notin> x_export_id ` set (exports w)" using fresh by auto
  ultimately show ?thesis using Inr by auto
qed

section \<open>From the marked copy to the end\<close>

definition anchor_hook_ok :: "ExportService \<Rightarrow> bool" where
  "anchor_hook_ok sv \<longleftrightarrow> (case xv_blockchainSvc sv of None \<Rightarrow> True | Some hook \<Rightarrow> \<exists>bs. hook = CreateAnchorForDocument bs)"

lemma anchors_eq: "d\<lparr>t_anchors := []\<rparr> = d'\<lparr>t_anchors := []\<rparr> \<Longrightarrow> t_anchors d = t_anchors d' \<Longrightarrow> d = (d' :: database)"
  by (cases d, cases d') simp

lemma persist_objects: "objects.kept (persistExport ident p)"
  unfolding persistExport_def q_CreateEvidenceExport_def q_UpdateEvidenceExportStatus_def by auto

lemma hook_run:
  assumes "anchor_hook_ok sv"
    and "bindE (case xv_blockchainSvc sv of None \<Rightarrow> ret () | Some hook \<Rightarrow> hook user d c h ''EVIDENCE_EXPORTED'') k w = (r, w')"
  shows "\<exists>w1. k () w1 = (r, w') \<and> tables w1 = tables w \<and> w_objects w1 = w_objects w"
proof (cases "xv_blockchainSvc sv")
  case None
  then show ?thesis using assms(2) by (auto simp: tryE_def ret_def)
next
  case (Some hook)
  then obtain bs where hook: "hook = CreateAnchorForDocument bs" using assms(1) by (auto simp: anchor_hook_ok_def)
  let ?w1 = "snd (CreateAnchorForDocument bs user d c h ''EVIDENCE_EXPORTED'' w)"
  have "tables ?w1 = tables w"
    by (rule anchors_eq) (simp_all add: outbox.only_anchors export_not_anchored)
  then show ?thesis
    using assms(2) Some hook outbox.hook_frame(2) [of bs user d c h "''EVIDENCE_EXPORTED''" w]
    by (intro exI [of _ ?w1]) (simp add: outbox.then_hook)
qed

abbreviation outside_exports :: "world \<Rightarrow> world \<Rightarrow> bool" where
  "outside_exports w w' \<equiv> \<forall>k. \<not> prefix ''exports/'' k \<longrightarrow> w_objects w' k = w_objects w k"

lemma key_prefix [simp]: "prefix ''exports/'' (exportObjectKey c i)"
  by (simp add: exportObjectKey_def)

lemma export_register_run:
  assumes run: "register_export sv user doc eid fp ip ua res w = (r, w')" and hook: "anchor_hook_ok sv"
  shows "case r of Inl e \<Rightarrow> tables w' = tables w \<and> outside_exports w w'
    | Inr s \<Rightarrow> (\<exists>i m t t'. let x = (export_of user doc eid (lib_sha256 (w_lib w) (wr_Stream res)) fp res ip ua)
          \<lparr>x_id := i, x_metadata := m, x_created_at := t, x_completed_at := Some t'\<rparr> in
        s = export_summary x \<and> eid \<notin> x_export_id ` set (exports w) \<and> tables w' = (tables w)\<lparr>t_exports := exports w @ [x]\<rparr> \<and>
        w_objects w' = (w_objects w)(exportObjectKey (d_case_id doc) eid \<mapsto> wr_Stream res))"
proof -
  let ?key = "exportObjectKey (d_case_id doc) eid"
  define h where "h = lib_sha256 (w_lib w) (wr_Stream res)"
  let ?E = "export_of user doc eid h fp res ip ua"
  note run = run [unfolded register_export_def Let_def]
  obtain d1 w1 where put: "storage_put ?key \<lparr>rd_pieces = [wr_Stream res], rd_error = None\<rparr> w = (d1, w1)" by fastforce
  note p = put_run [OF put]
  show ?thesis
  proof (cases d1)
    case (Inl e)
    then show ?thesis using run put p by (auto simp: tryE_def fail_def)
  next
    case (Inr u)
    let ?tx = "persistExport (case_ident user) ?E"
    have h1: "lib_sha256 (w_lib w1) (wr_Stream res) = h" using p by (simp add: h_def)
    obtain d2 w2 where tx: "?tx w1 = (d2, w2)" by fastforce
    note rest = run [unfolded tryE_def [of "storage_put _ _"] put Inr prod.case sum.case tryE_steps h1 tryE_def [of ?tx] tx]
    have o: "w_objects w2 = (w_objects w)(?key \<mapsto> wr_Stream res)" "tables w1 = tables w"
      using objects.keptD [OF persist_objects, of "case_ident user" ?E w1 d2 w2] tx p Inr by simp_all
    note x = persistExport_run [OF tx]
    show ?thesis
    proof (cases d2)
      case (Inl e)
      then have c: "cleanupOrphan ?key (fail (ErrInternal (Wrap ''persist export metadata'' e))) w2 = (r, w')"
        using rest by simp
      show ?thesis using cleanup_run [OF c] x o Inl by auto
    next
      case (Inr created)
      let ?ev = "exported_event user doc created eid fp h (wr_WatermarkStatus res)"
      let ?w3 = "snd (Record ?ev w2)"
      have u: "undisturbed w2 ?w3" using Record_undisturbed [of ?ev w2] by (cases "Record ?ev w2") simp
      from rest Inr have "bindE (case xv_blockchainSvc sv of None \<Rightarrow> ret ()
          | Some hook \<Rightarrow> hook user (d_id doc) (d_case_id doc) h ''EVIDENCE_EXPORTED'')
          (\<lambda>_. ret (export_summary created)) ?w3 = (r, w')" by (simp add: Record_then)
      from hook_run [OF hook this] obtain w4 where w4: "r = Inr (export_summary created)" "tables w' = tables ?w3"
        "w_objects w' = w_objects ?w3" by (auto simp: ret_def)
      from x Inr obtain i m t t' where created: "created = ?E\<lparr>x_id := i, x_metadata := m, x_created_at := t, x_completed_at := Some t'\<rparr>"
        and new: "tables w2 = (tables w1)\<lparr>t_exports := exports w1 @ [created]\<rparr>" "x_export_id created \<notin> x_export_id ` set (exports w1)"
        by (auto simp: export_of_def)
      have e: "exports w1 = exports w" using tables_eqD(15) [OF o(2)] .
      show ?thesis
        using w4 new created e o undisturbedD(1,2) [OF u] by (simp add: Let_def h_def export_of_def) blast
    qed
  qed
qed

section \<open>From the request to the marked copy\<close>

lemma open_stream_run: "open_stream b w = (Inr rd, w') \<Longrightarrow> rd_error rd = None \<Longrightarrow> rd = \<lparr>rd_pieces = [b], rd_error = None\<rparr>"
  by (auto simp: open_stream_def tryE_Inr ret_run)

lemma open_stream_Inr: "fst (open_stream b w) \<noteq> Inl e"
  by (simp add: open_stream_def tryE_def ret_def split: prod.splits sum.splits)

lemma mark_made:
  assumes "bindE (open_stream b) (\<lambda>stream. tryE (ApplyWatermark key stream mime p) (\<lambda>e. fail (g e)) k) w = (r, w')"
  shows "(\<exists>e. r = Inl e) \<and> undisturbed w w' \<or> (\<exists>res wa w1. undisturbed w wa \<and> undisturbed w w1 \<and>
     ApplyWatermark key \<lparr>rd_pieces = [b], rd_error = None\<rparr> mime p wa = (Inr res, w1) \<and> k res w1 = (r, w'))"
proof -
  obtain rd wa where o: "open_stream b w = (Inr rd, wa)"
    using open_stream_Inr [of b w] by (cases "open_stream b w", cases "fst (open_stream b w)") auto
  have u: "undisturbed w wa" using calmD [OF calm_get(2) o] .
  from assms o have "tryE (ApplyWatermark key rd mime p) (\<lambda>e. fail (g e)) k wa = (r, w')" by (simp add: tryE_def [of "open_stream _"])
  from calm_step [OF this calm_apply] show ?thesis
    using undisturbed_trans [OF u] u ApplyWatermark_run open_stream_run [OF o] by (metis (no_types))
qed

definition prepared :: "ExportService \<Rightarrow> authenticated_user \<Rightarrow> string \<Rightarrow> string \<Rightarrow> document_row \<Rightarrow> world \<Rightarrow>
    bytes \<Rightarrow> string \<Rightarrow> time \<Rightarrow> bytes \<Rightarrow> WatermarkResult \<Rightarrow> world \<Rightarrow> bool" where
  "prepared sv user ip ua doc w b eid t fp res w1 \<longleftrightarrow> w_objects w (d_storage_object_key doc) = Some b \<and>
     (\<exists>u t0. eid = export_name u t0) \<and> undisturbed w w1 \<and> (\<exists>wa. undisturbed w wa \<and>
       ApplyWatermark (xv_watermarkKey sv) \<lparr>rd_pieces = [b], rd_error = None\<rparr> (d_mime_type doc)
         (mark_payload (w_lib w) user doc eid t ip fp) wa = (Inr res, w1))"

lemma make_export_cases:
  assumes "make_export sv user ip ua doc w = (r, w')"
  shows "(\<exists>e. r = Inl e) \<and> undisturbed w w' \<or>
    (\<exists>b eid t fp res w1. prepared sv user ip ua doc w b eid t fp res w1 \<and> register_export sv user doc eid fp ip ua res w1 = (r, w'))"
proof -
  obtain u w0 where u: "uuid_new w = (Inr u, w0)" by (simp add: uuid_new_def)
  obtain t0 w1 where t0: "time_now w0 = (Inr t0, w1)" by (simp add: time_now_def)
  have u1: "undisturbed w w1" using undisturbed_trans [OF calmD [OF calm_basic(1) u] calmD [OF calm_basic(2) t0]] .
  note run = assms [unfolded make_export_def Let_def tryE_def [of uuid_new _ _ w] u prod.case sum.case
      tryE_def [of time_now _ _ w0] t0]
  from calm_step [OF run calm_rand] show ?thesis
  proof (elim disjE exE conjE)
    fix fp w2 assume u2: "undisturbed w1 w2" and run: "tryE (storage_get (d_storage_object_key doc))
       (\<lambda>_. fail (ErrServiceUnavailable ''The requested document is temporarily unavailable'')) (\<lambda>b.
     bindE time_now (\<lambda>t. bindE (get_world w_lib) (\<lambda>lib. bindE (open_stream b) (\<lambda>stream.
     tryE (ApplyWatermark (xv_watermarkKey sv) stream (d_mime_type doc)
         (mark_payload lib user doc (export_name u t0) t ip fp))
       (\<lambda>e. fail (ErrInternal (Wrap ''apply watermark'' e)))
       (register_export sv user doc (export_name u t0) fp ip ua))))) w2 = (r, w')"
    note u2 = undisturbed_trans [OF u1 u2]
    from calm_step [OF run calm_get(1)] show ?thesis
    proof (elim disjE exE conjE)
      fix b w3 assume g: "storage_get (d_storage_object_key doc) w2 = (Inr b, w3)" and u3: "undisturbed w2 w3" and
        run: "bindE time_now (\<lambda>t. bindE (get_world w_lib) (\<lambda>lib. bindE (open_stream b) (\<lambda>stream.
     tryE (ApplyWatermark (xv_watermarkKey sv) stream (d_mime_type doc)
         (mark_payload lib user doc (export_name u t0) t ip fp))
       (\<lambda>e. fail (ErrInternal (Wrap ''apply watermark'' e)))
       (register_export sv user doc (export_name u t0) fp ip ua)))) w3 = (r, w')"
      obtain t w4 where t: "time_now w3 = (Inr t, w4)" by (simp add: time_now_def)
      have u4: "undisturbed w w4"
        using undisturbed_trans [OF undisturbed_trans [OF u2 u3] calmD [OF calm_basic(2) t]] .
      have b: "w_objects w (d_storage_object_key doc) = Some b"
        using storage_get_run [OF g] undisturbedD(2) [OF u2] by simp
      note run = run [unfolded tryE_def [of time_now _ _ w3] t prod.case sum.case tryE_steps(3) undisturbedD(4) [OF u4]]
      from mark_made [OF run] show ?thesis
        using undisturbed_trans [OF u4] b unfolding prepared_def by metis
    qed (use undisturbed_trans [OF u2] in blast)
  qed (use undisturbed_trans [OF u1] in blast)
qed

lemma export_cases:
  assumes "RequestExport sv user i ip ua w = (r, w')" "au_ID user \<noteq> nil_uuid"
  shows "(\<exists>e. r = Inl e) \<and> undisturbed w w' \<or>
    (\<exists>doc b eid t fp res w1. document_access w user i ''document:download'' \<and> doc \<in> set (t_documents (w_db w)) \<and> d_id doc = i \<and>
       prepared sv user ip ua doc w b eid t fp res w1 \<and> register_export sv user doc eid fp ip ua res w1 = (r, w'))"
  using document_gate_cases [OF assms [unfolded RequestExport_def]]
proof (elim disjE exE conjE)
  fix w1 assume u1: "undisturbed w w1" and acc: "document_access w user i ''document:download''"
    and run: "load_document user i (make_export sv user ip ua) w1 = (r, w')"
  from load_document_cases [OF run] show ?thesis
  proof (elim disjE exE conjE)
    fix doc w2 assume doc: "doc \<in> set (t_documents (w_db w1))" "d_id doc = i" and u2: "undisturbed w1 w2"
      and run: "make_export sv user ip ua doc w2 = (r, w')"
    note u2 = undisturbed_trans [OF u1 u2]
    have docs: "doc \<in> set (t_documents (w_db w))" using doc(1) tables_eqD(9) [OF undisturbedD(1) [OF u1]] by simp
    have "prepared sv user ip ua doc w b eid t fp res w1" if "prepared sv user ip ua doc w2 b eid t fp res w1" for b eid t fp res w1
      using that undisturbedD(2,4) [OF u2] undisturbed_trans [OF u2] unfolding prepared_def by metis
    then show ?thesis using make_export_cases [OF run] undisturbed_trans [OF u2] acc docs doc(2) by blast
  qed (use undisturbed_trans [OF u1] in blast)
qed blast

section \<open>What is downloaded\<close>

lemma calm_ensure: "calm m \<Longrightarrow> calm (ensure c e m)"
  by (cases c) (simp_all add: ensure_def calm_basic)

lemma ident_user: "au_ID user \<noteq> nil_uuid \<Longrightarrow> cur_user (ident_ctx (case_ident user)) = Some (au_ID user)"
  by (simp add: ident_ctx_def case_ident_def)

lemma ident_admin: "au_ID user \<noteq> nil_uuid \<Longrightarrow> app_admin (ident_ctx (case_ident user)) \<Longrightarrow> IsAdmin user"
  by (auto simp: ident_ctx_def case_ident_def app_admin_def effectiveCaseRole_def IsAdmin_def hasRole_def
      split: list.splits if_splits)

lemma export_rows:
  assumes "WithTx (case_ident user) (bindE (q_GetEvidenceExportByExportID eid) (\<lambda>ex.
         bindE (q_GetDocumentByID (x_document_id ex)) (\<lambda>doc. ret (ex, doc)))) w = (Inr (ex, doc), w')"
    and "au_ID user \<noteq> nil_uuid"
  shows "ex \<in> set (exports w) \<and> x_export_id ex = eid \<and>
     (IsAdmin user \<or> au_ID user = x_user_id ex \<or> au_ID user = x_recipient_user_id ex) \<and>
     doc \<in> set (t_documents (w_db w)) \<and> d_id doc = x_document_id ex"
proof -
  from assms(1) obtain w1 w2 where e: "q_GetEvidenceExportByExportID eid (started (case_ident user) w) = (Inr ex, w1)"
    and d: "q_GetDocumentByID (x_document_id ex) w1 = (Inr doc, w2)"
    by (auto simp: WithTx_run tryE_Inr fail_run ret_run)
  from e have ex: "ex \<in> set (exports w)" "x_export_id ex = eid" "exports_select (ident_ctx (case_ident user)) ex" and w1: "w_db w1 = w_db w"
    by (auto simp: q_GetEvidenceExportByExportID_def query_run filter_eq_Cons_iff)
  have "doc \<in> set (t_documents (w_db w))" "d_id doc = x_document_id ex"
    using d w1 by (auto simp: q_GetDocumentByID_def query_run visible_documents_def filter_eq_Cons_iff)
  then show ?thesis
    using ex ident_admin [OF assms(2)] by (auto simp: exports_select_def ident_user [OF assms(2)])
qed

lemma download_run:
  assumes "DownloadEvidenceExport user eid w = (r, w')" "au_ID user \<noteq> nil_uuid"
  shows "undisturbed w w' \<and> (case r of Inl e \<Rightarrow> True | Inr d \<Rightarrow>
     ed_Export d \<in> set (exports w) \<and> x_export_id (ed_Export d) = eid \<and> x_status (ed_Export d) = ''COMPLETED'' \<and>
     (IsAdmin user \<or> au_ID user = x_user_id (ed_Export d) \<or> au_ID user = x_recipient_user_id (ed_Export d)) \<and>
     ed_Document d \<in> set (t_documents (w_db w)) \<and> d_id (ed_Document d) = x_document_id (ed_Export d) \<and>
     w_objects w (exportObjectKey (d_case_id (ed_Document d)) eid) = Some (ed_Content d))"
proof -
  let ?q = "bindE (q_GetEvidenceExportByExportID eid) (\<lambda>ex.
         bindE (q_GetDocumentByID (x_document_id ex)) (\<lambda>doc. ret (ex, doc)))"
  have "reader.guar ?q" "objects.kept ?q" "ledger.kept ?q"
    by (auto simp: q_GetEvidenceExportByExportID_def q_GetDocumentByID_def)
  then have tx: "calm (WithTx (case_ident user) ?q)" by (intro calm_reader) auto
  have "calm (DownloadEvidenceExport user eid)"
    unfolding DownloadEvidenceExport_def no_rows_as_def
    by (auto intro!: calm_tryE tx calm_ensure calm_get calm_events calm_basic split: prod.splits)
  then have u: "undisturbed w w'" using assms(1) by (rule calmD)
  show ?thesis
  proof (cases r)
    case (Inr d)
    with assms(1) obtain ex doc w1 b w2 w3 where t: "WithTx (case_ident user) ?q w = (Inr (ex, doc), w1)"
      and st: "x_status ex = ''COMPLETED''" and g: "storage_get (exportObjectKey (d_case_id doc) (x_export_id ex)) w1 = (Inr b, w2)"
      and d: "d = \<lparr>ed_Export = ex, ed_Document = doc, ed_Content = b\<rparr>"
      unfolding DownloadEvidenceExport_def
      by (auto simp: tryE_Inr no_rows_as_def fail_run ret_run ensure_run split: if_splits prod.splits)
    have "w_objects w1 = w_objects w" using undisturbedD(2) [OF calmD [OF tx t]] .
    then show ?thesis using u export_rows [OF t assms(2)] st storage_get_run [OF g] d Inr by simp
  qed (use u in simp)
qed

end
