(* ===== verification/ExportProps.thy ===== *)
theory ExportProps
  imports ExportFacts
begin

text \<open>The properties of the exports, each with the input it is run on.\<close>

section \<open>The payload of an export\<close>

lemma digit_ascii: "digit_value c \<noteq> None \<Longrightarrow> of_char c < (128 :: nat)"
  by (auto simp: digit_value_def Let_def split: if_splits)

lemma dec_int_ascii: "c \<in> set (dec_int i) \<Longrightarrow> of_char c < (128 :: nat)"
proof -
  assume "c \<in> set (dec_int i)"
  then have "c \<in> set ''-'' \<or> (\<exists>n. c \<in> set (dec_nat n))"
    unfolding dec_int_def by (simp only: set_append Un_iff split: if_splits) blast+
  then show ?thesis
  proof (elim disjE exE)
    fix n assume "c \<in> set (dec_nat n)"
    then show ?thesis by (rule digit_ascii [OF dec_nat_digits])
  qed simp
qed

lemma uuid_ascii: "c \<in> set (take n (uuid_string u)) \<Longrightarrow> of_char c < (128 :: nat)"
proof -
  assume "c \<in> set (take n (uuid_string u))"
  then have "c \<in> insert (CHR ''-'') (set ''0123456789abcdef'')"
    by (rule subsetD [OF uuid_string_set in_set_takeD])
  then show "of_char c < (128 :: nat)" by auto
qed

lemma export_name_utf8 [simp]: "utf8_valid (export_name u t)"
  unfolding export_name_def by (rule utf8_ascii) (auto dest: dec_int_ascii uuid_ascii)

lemma mark_plain: "utf8_valid (lib_rfc3339_s lib t) \<Longrightarrow> utf8_valid ip \<Longrightarrow>
    payload_plain (mark_payload lib user doc (export_name u t0) t ip fp)"
  by (simp add: payload_plain_def mark_payload_def del: utf8_valid.simps)

text \<open>
  Where the formats end: the last occurrence of a marker in a file, and the part of the file
  that a copy keeps, in terms of the bytes and not of the search.
\<close>

definition last_at :: "bytes \<Rightarrow> bytes \<Rightarrow> bytes \<Rightarrow> bytes \<Rightarrow> bool" where
  "last_at p b pre suf \<longleftrightarrow> b = pre @ p @ suf \<and> (\<forall>pre' suf'. b = pre' @ p @ suf' \<longrightarrow> length pre' \<le> length pre)"

definition end_marker :: "string \<Rightarrow> bytes" where
  "end_marker mime = (if mime \<in> {''image/jpeg'', ''image/jpg''} then [CHR 0xFF, CHR 0xD9]
     else if mime = ''image/png'' then ''IEND'' else if mime = ''application/pdf'' then ''%%EOF'' else [])"

definition kept_part :: "string \<Rightarrow> bytes \<Rightarrow> bytes \<Rightarrow> bool" where
  "kept_part mime b body \<longleftrightarrow> (if end_marker mime = [] then body = b
     else \<exists>pre suf. last_at (end_marker mime) b pre suf \<and> body = pre @ end_marker mime @
       (if mime = ''image/png'' then take 4 suf else if mime = ''application/pdf'' then [CHR 0x0A] else []))"

lemma last_sub_None: "p \<noteq> [] \<Longrightarrow> last_sub p d = None \<Longrightarrow> d \<noteq> pre @ p @ suf"
proof (induction p d arbitrary: pre rule: last_sub.induct)
  case (2 p c cs)
  then have none: "\<And>pre. cs \<noteq> pre @ p @ suf" "take (length p) (c # cs) \<noteq> p"
    by (auto split: option.splits if_splits)
  show ?case
  proof (cases pre)
    case Nil
    then show ?thesis using none(2) by (metis append_Nil append_eq_conv_conj)
  next
    case (Cons x xs)
    then show ?thesis using none(1) [of xs] by simp
  qed
qed simp

lemma last_sub_Some:
  "p \<noteq> [] \<Longrightarrow> last_sub p d = Some i \<Longrightarrow> \<exists>suf. i \<le> length d \<and> last_at p d (take i d) suf"
proof (induction p d arbitrary: i rule: last_sub.induct)
  case (2 p c cs)
  show ?case
  proof (cases "last_sub p cs")
    case (Some j)
    then have i: "i = Suc j" using 2 by simp
    obtain suf where IH: "j \<le> length cs" "last_at p cs (take j cs) suf" using 2(1) [OF 2(2) Some] by blast
    have "length pre \<le> Suc j" if "c # cs = pre @ p @ s" for pre s
      using that IH by (cases pre) (auto simp: last_at_def)
    then show ?thesis using IH i by (intro exI [of _ suf]) (auto simp: last_at_def)
  next
    case None
    with 2 have i: "i = 0" "take (length p) (c # cs) = p" by (auto split: if_splits)
    have "length pre \<le> 0" if "c # cs = pre @ p @ suf" for pre suf
      using that last_sub_None [OF 2(2) None] by (cases pre) auto
    moreover have "c # cs = p @ drop (length p) (c # cs)" using i(2) by (metis append_take_drop_id)
    ultimately show ?thesis
      using i(1) unfolding last_at_def by (intro exI [of _ "drop (length p) (c # cs)"]) simp
  qed
qed simp

lemma embed_kept_part: "case embed mime b [] of
     Inl e \<Rightarrow> end_marker mime \<noteq> [] \<and> (\<nexists>pre suf. b = pre @ end_marker mime @ suf)
   | Inr body \<Rightarrow> kept_part mime b body"
proof (cases "end_marker mime = []")
  case True
  then show ?thesis by (auto simp: end_marker_def embed_def embedGeneric_def kept_part_def split: if_splits)
next
  case False
  let ?p = "end_marker mime"
  show ?thesis
  proof (cases "last_sub ?p b")
    case None
    then show ?thesis using False last_sub_None [OF False None]
      by (auto simp: end_marker_def embed_def embedAfterJPEGEOI_def embedAfterPNGIEND_def embedAfterPDFEOF_def
          split: if_splits)
  next
    case (Some i)
    obtain suf where at: "i \<le> length b" "last_at ?p b (take i b) suf" using last_sub_Some [OF False Some] by blast
    then have b: "b = take i b @ ?p @ suf" by (simp add: last_at_def)
    have cut: "take (i + k) b = take i b @ take k (?p @ suf)" for k
      using at(1) by (subst b) simp
    have len: "(if length b < i + 8 then length b else i + 8) = length b \<or>
        (if length b < i + 8 then length b else i + 8) = i + 8" by simp
    have png: "take (if length b < i + 8 then length b else i + 8) b = take (i + 8) b" by simp
    have "embed mime b [] = Inr (take i b @ ?p @ (if mime = ''image/png'' then take 4 suf
        else if mime = ''application/pdf'' then [CHR 0x0A] else []))"
      using False Some cut [of 8] cut [of 2] cut [of 5] png
      by (auto simp: end_marker_def embed_def embedAfterJPEGEOI_def embedAfterPNGIEND_def embedAfterPDFEOF_def Let_def
          split: if_splits)
    then show ?thesis using False at(2) by (auto simp: kept_part_def)
  qed
qed

text \<open>The copy that was made of a file, and the mark it carries.\<close>

definition marked_copy :: "library \<Rightarrow> bytes \<Rightarrow> string \<Rightarrow> export_row \<Rightarrow> bytes \<Rightarrow> bytes \<Rightarrow> bool" where
  "marked_copy lib key mime x b out \<longleftrightarrow>
     end_marker mime \<noteq> [] \<and> (\<nexists>pre suf. b = pre @ end_marker mime @ suf) \<and>
       x_watermark_status x = ''FAILED'' \<and> out = b \<or>
     (\<exists>body enc. kept_part mime b body \<and> x_watermark_status x = ''APPLIED'' \<and> out = body @ buildBlock enc \<and>
       (find_sub wmMagic (body @ wmMagic) = Some (length body) \<and> length out < 2 ^ 32 \<longrightarrow>
         (\<forall>rest. \<exists>p. ExtractWatermark lib key (out @ rest) = Inr p \<and> wp_ExportID p = x_export_id x \<and>
            wp_DocumentID p = uuid_string (x_document_id x) \<and> wp_UserID p = uuid_string (x_user_id x) \<and>
            wp_Fingerprint p = hex_encode (x_export_fingerprint x))))"

lemma prepared_mark:
  assumes "prepared sv user ip ua doc w b eid t fp res w1" "watermark_laws (w_lib w)"
    and "\<forall>t. utf8_valid (lib_rfc3339_s (w_lib w) t)" "utf8_valid ip"
    and x: "x_export_id x = eid" "x_document_id x = d_id doc" "x_user_id x = au_ID user" "x_export_fingerprint x = fp"
      "x_watermark_status x = wr_WatermarkStatus res"
  shows "marked_copy (w_lib w) (xv_watermarkKey sv) (d_mime_type doc) x b (wr_Stream res)"
proof -
  let ?p = "mark_payload (w_lib w) user doc eid t ip fp"
  from assms(1) obtain wa u t0 where eid: "eid = export_name u t0" and wa: "undisturbed w wa" and
    run: "ApplyWatermark (xv_watermarkKey sv) \<lparr>rd_pieces = [b], rd_error = None\<rparr> (d_mime_type doc) ?p wa = (Inr res, w1)"
    by (auto simp: prepared_def)
  have plain: "payload_plain ?p" using assms(3,4) by (simp add: eid mark_plain)
  have lib: "w_lib wa = w_lib w" using undisturbedD(4) [OF wa] .
  have c: "content \<lparr>rd_pieces = [b], rd_error = None\<rparr> = b" by (simp add: content_def)
  from ApplyWatermark_run [OF run] obtain e w2 where enc: "encrypt (xv_watermarkKey sv) ?p wa = (Inr e, w2)" and
    s: "case embed (d_mime_type doc) b [] of
       Inl err \<Rightarrow> wr_Stream res = b \<and> wr_WatermarkStatus res = ''FAILED''
     | Inr body \<Rightarrow> wr_Stream res = body @ buildBlock e \<and> wr_WatermarkStatus res = ''APPLIED''" unfolding c by blast
  have fs: "wp_ExportID ?p = eid" "wp_DocumentID ?p = uuid_string (d_id doc)" "wp_UserID ?p = uuid_string (au_ID user)"
    "wp_Fingerprint ?p = hex_encode fp" by (simp_all add: mark_payload_def)
  note ex = mark_extracts [OF enc, unfolded lib, OF assms(2) plain]
  show ?thesis
  proof (cases "embed (d_mime_type doc) b []")
    case (Inl err)
    then show ?thesis using s x(5) embed_kept_part [of "d_mime_type doc" b] by (simp add: marked_copy_def)
  next
    case (Inr body)
    then have s: "wr_Stream res = body @ buildBlock e" "wr_WatermarkStatus res = ''APPLIED''" using s by simp_all
    have kept: "kept_part (d_mime_type doc) b body" using Inr embed_kept_part [of "d_mime_type doc" b] by simp
    show ?thesis unfolding marked_copy_def s(1) x(5) s(2) append_assoc
      by (rule disjI2, rule exI [of _ body], rule exI [of _ e]) (use kept ex [of body] fs x in simp)
  qed
qed

section \<open>An export names who took it\<close>

lemma export_made:
  assumes "RequestExport sv user i ip ua w = (r, w')" "au_ID user \<noteq> nil_uuid" "anchor_hook_ok sv"
  shows "case r of Inl e \<Rightarrow> tables w' = tables w \<and> outside_exports w w'
     | Inr s \<Rightarrow> document_access w user i ''document:download'' \<and> (\<exists>doc b t fp res w1 x. doc \<in> set (t_documents (w_db w)) \<and>
         d_id doc = i \<and> prepared sv user ip ua doc w b (x_export_id x) t fp res w1 \<and>
         tables w' = (tables w)\<lparr>t_exports := exports w @ [x]\<rparr> \<and> s = export_summary x \<and>
         w_objects w' = (w_objects w)(exportObjectKey (d_case_id doc) (x_export_id x) \<mapsto> wr_Stream res) \<and>
         x_export_id x \<notin> x_export_id ` set (exports w) \<and> x_status x = ''COMPLETED'' \<and>
         x_user_id x = au_ID user \<and> x_recipient_user_id x = au_ID user \<and> x_document_id x = i \<and>
         x_original_sha256 x = d_sha256_hash doc \<and> x_export_sha256 x = Some (lib_sha256 (w_lib w) (wr_Stream res)) \<and>
         x_export_fingerprint x = fp \<and> x_watermark_status x = wr_WatermarkStatus res)"
  using export_cases [OF assms(1,2)]
proof (elim disjE exE conjE)
  fix doc b eid t fp res w1
  assume acc: "document_access w user i ''document:download''" and doc: "doc \<in> set (t_documents (w_db w))" "d_id doc = i"
    and prep: "prepared sv user ip ua doc w b eid t fp res w1" and reg: "register_export sv user doc eid fp ip ua res w1 = (r, w')"
  have u: "undisturbed w w1" using prep by (auto simp: prepared_def)
  note same = undisturbedD [OF u] and ex = tables_eqD(15) [OF undisturbedD(1) [OF u]]
  show ?thesis
  proof (cases r)
    case (Inl e)
    then show ?thesis using export_register_run [OF reg assms(3)] same by simp
  next
    case (Inr s)
    from export_register_run [OF reg assms(3)] Inr same ex obtain m t' t'' j where
      new: "let x = (export_of user doc eid (lib_sha256 (w_lib w) (wr_Stream res)) fp res ip ua)
          \<lparr>x_id := j, x_metadata := m, x_created_at := t', x_completed_at := Some t''\<rparr> in
        s = export_summary x \<and> eid \<notin> x_export_id ` set (exports w) \<and> tables w' = (tables w)\<lparr>t_exports := exports w @ [x]\<rparr> \<and>
        w_objects w' = (w_objects w)(exportObjectKey (d_case_id doc) eid \<mapsto> wr_Stream res)" by auto
    let ?x = "(export_of user doc eid (lib_sha256 (w_lib w) (wr_Stream res)) fp res ip ua)
          \<lparr>x_id := j, x_metadata := m, x_created_at := t', x_completed_at := Some t''\<rparr>"
    show ?thesis using new acc doc prep unfolding Inr Let_def sum.case
      by (intro conjI exI [of _ doc] exI [of _ b] exI [of _ t] exI [of _ fp] exI [of _ res] exI [of _ w1] exI [of _ ?x])
        (simp_all add: export_of_def)
  qed
qed (auto simp: undisturbedD)

text \<open>
  C39.  RequestExport is all or nothing on the tables and on the objects outside the prefix of
  the exports, whatever fails on the way.  When it succeeds, the caller may download the
  document; exactly one row is new, under an export id no other row has, and it names the
  caller, the document, the digest registered at upload and the digest of the copy; the copy
  is stored under that id and nothing else is stored.  The copy of a JPEG, PNG or PDF file in
  which the format's end marker never occurs is the file itself, and the row says FAILED.
  Otherwise the row says APPLIED and the copy is the kept part of the file (up to and
  including the last end marker, with the four bytes after it for PNG and a line feed for PDF;
  the whole file for any other type) followed by one framed mark.  Provided that the magic
  bytes do not occur in the copy before the mark's own, and the copy is shorter than 4 GiB, the
  service's key reads the export, the document, the user and the fingerprint of the row back
  from the copy, whatever is appended to it.  The first condition is a real one: a file of
  another type that already carries a mark, as an exported copy does, keeps it in front of the
  new one, and the old mark is the one that is read back.  The table of anchors is unchanged:
  the event type of an export is not one it admits.
\<close>

theorem export_traceable:
  assumes "RequestExport sv user i ip ua w = (r, w')" and "au_ID user \<noteq> nil_uuid" and "anchor_hook_ok sv"
    and "watermark_laws (w_lib w)" and "\<forall>t. utf8_valid (lib_rfc3339_s (w_lib w) t)" and "utf8_valid ip"
  shows "case r of Inl e \<Rightarrow> tables w' = tables w \<and> outside_exports w w'
     | Inr s \<Rightarrow> document_access w user i ''document:download'' \<and> (\<exists>doc b out x. doc \<in> set (t_documents (w_db w)) \<and>
         d_id doc = i \<and> w_objects w (d_storage_object_key doc) = Some b \<and>
         tables w' = (tables w)\<lparr>t_exports := exports w @ [x]\<rparr> \<and> s = export_summary x \<and>
         w_objects w' = (w_objects w)(exportObjectKey (d_case_id doc) (x_export_id x) \<mapsto> out) \<and>
         x_export_id x \<notin> x_export_id ` set (exports w) \<and> x_status x = ''COMPLETED'' \<and>
         x_user_id x = au_ID user \<and> x_recipient_user_id x = au_ID user \<and> x_document_id x = i \<and>
         x_original_sha256 x = d_sha256_hash doc \<and> x_export_sha256 x = Some (lib_sha256 (w_lib w) out) \<and>
         (end_marker (d_mime_type doc) \<noteq> [] \<and> (\<nexists>pre suf. b = pre @ end_marker (d_mime_type doc) @ suf) \<and>
             x_watermark_status x = ''FAILED'' \<and> out = b \<or>
           (\<exists>body enc. kept_part (d_mime_type doc) b body \<and> x_watermark_status x = ''APPLIED'' \<and>
             out = body @ buildBlock enc \<and>
             (find_sub wmMagic (body @ wmMagic) = Some (length body) \<and> length out < 2 ^ 32 \<longrightarrow>
               (\<forall>rest. \<exists>p. ExtractWatermark (w_lib w) (xv_watermarkKey sv) (out @ rest) = Inr p \<and>
                  wp_ExportID p = x_export_id x \<and> wp_DocumentID p = uuid_string (x_document_id x) \<and>
                  wp_UserID p = uuid_string (x_user_id x) \<and> wp_Fingerprint p = hex_encode (x_export_fingerprint x))))))"
proof (cases r)
  case (Inr s)
  with export_made [OF assms(1-3)] obtain doc b t fp res w1 x where acc: "document_access w user i ''document:download''"
    and doc: "doc \<in> set (t_documents (w_db w))" "d_id doc = i" and prep: "prepared sv user ip ua doc w b (x_export_id x) t fp res w1"
    and new: "tables w' = (tables w)\<lparr>t_exports := exports w @ [x]\<rparr>" "s = export_summary x"
      "w_objects w' = (w_objects w)(exportObjectKey (d_case_id doc) (x_export_id x) \<mapsto> wr_Stream res)"
      "x_export_id x \<notin> x_export_id ` set (exports w)" "x_status x = ''COMPLETED''"
    and x: "x_user_id x = au_ID user" "x_recipient_user_id x = au_ID user" "x_document_id x = i"
      "x_original_sha256 x = d_sha256_hash doc" "x_export_sha256 x = Some (lib_sha256 (w_lib w) (wr_Stream res))"
      "x_export_fingerprint x = fp" "x_watermark_status x = wr_WatermarkStatus res" by auto
  have mark: "marked_copy (w_lib w) (xv_watermarkKey sv) (d_mime_type doc) x b (wr_Stream res)"
    by (rule prepared_mark [OF prep assms(4-6)]) (simp_all add: x doc)
  have b: "w_objects w (d_storage_object_key doc) = Some b" using prep by (simp add: prepared_def)
  show ?thesis unfolding Inr sum.case
    by (rule conjI [OF acc], rule exI [of _ doc], rule exI [of _ b], rule exI [of _ "wr_Stream res"], rule exI [of _ x])
      (intro conjI; fact doc b new x mark [unfolded marked_copy_def])
qed (use export_made [OF assms(1-3)] in simp)

text \<open>A document that may be exported, with its object and a library that keeps the laws.\<close>

definition export_world :: world where [run_defs]:
  "export_world = (quiet_world (sample_db\<lparr>
     t_permissions := t_permissions sample_db @
       [\<lparr>p_id = 9, p_name = ''document:download'', p_resource = ''document'', p_action = ''download''\<rparr>],
     t_role_permissions := t_role_permissions sample_db @ [\<lparr>rp_role_id = 2, rp_permission_id = 9\<rparr>]\<rparr>))
     \<lparr>w_lib := sample_lib\<lparr>lib_json_decode := refuse_decode, lib_json_marshal := flat_marshal, lib_json_value := flat_unmarshal\<rparr>,
       w_objects := [''k'' \<mapsto> ''ab%%EOF'']\<rparr>"

definition export_service :: ExportService where [run_defs]:
  "export_service = \<lparr>xv_watermarkKey = ''key'', xv_blockchainSvc = None\<rparr>"

lemma export_laws: "watermark_laws (w_lib export_world)" "utf8_valid (lib_rfc3339_s (w_lib export_world) t)"
    "anchor_hook_ok export_service"
proof -
  have "take (length key + length nonce) (key @ nonce @ x) = key @ nonce" for key nonce x :: bytes by simp
  then show "watermark_laws (w_lib export_world)"
    using flat_json_objects [of "sample_lib\<lparr>lib_json_decode := refuse_decode\<rparr>"]
    by (simp add: watermark_laws_def export_world_def sample_lib_def sample_bytes_def sample_b64_def sample_seal_def
        sample_open_def Let_def)
  show "utf8_valid (lib_rfc3339_s (w_lib export_world) t)"
    by (simp add: export_world_def sample_lib_def sample_time_def utf8_ascii del: utf8_valid.simps)
qed (simp add: anchor_hook_ok_def export_service_def)

lemma export_run:
  "\<exists>s. fst (RequestExport export_service (sample_actor 11 ''POLICE'') 70 ''i'' ''a'' export_world) = Inr s"
  supply run_congs [cong]
  by (simp add: run_defs)

lemma export_traceable_witness:
  "\<exists>s w' x. RequestExport export_service (sample_actor 11 ''POLICE'') 70 ''i'' ''a'' export_world = (Inr s, w') \<and>
     exports w' = [x] \<and> x_user_id x = 11 \<and> x_document_id x = 70 \<and> es_ExportID s = x_export_id x"
proof -
  obtain s w' where run: "RequestExport export_service (sample_actor 11 ''POLICE'') 70 ''i'' ''a'' export_world = (Inr s, w')"
    using export_run by (metis prod.collapse)
  have "au_ID (sample_actor 11 ''POLICE'') = 11" "(11 :: uuid) \<noteq> nil_uuid" by (simp_all add: sample_actor_def)
  moreover have "utf8_valid ''i''" by (rule utf8_ascii) simp
  moreover have "exports export_world = []" by (simp add: export_world_def quiet_world_def sample_world_def sample_db_def empty_db_def)
  ultimately obtain x where
    x: "tables w' = (tables export_world)\<lparr>t_exports := [x]\<rparr>" "s = export_summary x" "x_user_id x = 11" "x_document_id x = 70"
    using export_traceable [OF run _ export_laws(3,1)] export_laws(2) by auto
  have "exports w' = [x]" using arg_cong [OF x(1), of t_exports] by simp
  with run x show ?thesis by (auto simp: export_summary_def)
qed

section \<open>What is downloaded\<close>

section \<open>What is downloaded\<close>

text \<open>
  C40.  Downloading an export right after it was made, as far as the tables, the objects and
  the library are concerned, changes nothing, and when it succeeds it delivers the very copy
  that was registered: the row is that export, its digest is the digest of the bytes delivered,
  and the caller is an administrator or the user the export was made for.
\<close>

theorem export_download_intact:
  assumes "RequestExport sv user i ip ua w = (Inr s, w1)" and "undisturbed w1 w2"
    and "DownloadEvidenceExport user' (es_ExportID s) w2 = (r, w3)"
    and "au_ID user \<noteq> nil_uuid" and "au_ID user' \<noteq> nil_uuid" and "anchor_hook_ok sv"
    and "distinct (map d_id (t_documents (w_db w)))"
  shows "undisturbed w2 w3 \<and> (case r of Inl e \<Rightarrow> True | Inr d \<Rightarrow> export_summary (ed_Export d) = s \<and>
     x_export_sha256 (ed_Export d) = Some (lib_sha256 (w_lib w) (ed_Content d)) \<and>
     d_id (ed_Document d) = i \<and> x_original_sha256 (ed_Export d) = d_sha256_hash (ed_Document d) \<and>
     (IsAdmin user' \<or> au_ID user' = au_ID user))"
proof (cases r)
  case (Inr d)
  from export_made [OF assms(1,4,6), unfolded sum.case] obtain doc x and res :: WatermarkResult where doc: "doc \<in> set (t_documents (w_db w))" "d_id doc = i"
    and new: "tables w1 = (tables w)\<lparr>t_exports := exports w @ [x]\<rparr>" "s = export_summary x"
      "w_objects w1 = (w_objects w)(exportObjectKey (d_case_id doc) (x_export_id x) \<mapsto> wr_Stream res)"
      "x_export_id x \<notin> x_export_id ` set (exports w)"
    and x: "x_user_id x = au_ID user" "x_recipient_user_id x = au_ID user" "x_document_id x = i"
      "x_original_sha256 x = d_sha256_hash doc" "x_export_sha256 x = Some (lib_sha256 (w_lib w) (wr_Stream res))" by blast
  have t2: "tables w2 = (tables w)\<lparr>t_exports := exports w @ [x]\<rparr>" using undisturbedD(1) [OF assms(2)] new(1) by simp
  have tabs: "exports w2 = exports w @ [x]" "t_documents (w_db w2) = t_documents (w_db w)"
    using arg_cong [OF t2, of t_exports] arg_cong [OF t2, of t_documents] by simp_all
  have eid: "es_ExportID s = x_export_id x" by (simp add: new(2) export_summary_def)
  note d = download_run [OF assms(3,5), unfolded Inr sum.case tabs eid]
  have "ed_Export d \<in> set (exports w @ [x])" "x_export_id (ed_Export d) = x_export_id x" using d by blast+
  then have row: "ed_Export d = x" using new(4) by (metis Un_iff image_eqI set_append set_ConsD empty_iff empty_set)
  then have "ed_Document d = doc"
    using d doc x(3) assms(7) by (simp add: distinct_map inj_on_def)
  moreover have "w_objects w2 (exportObjectKey (d_case_id doc) (x_export_id x)) = Some (wr_Stream res)"
    using undisturbedD(2) [OF assms(2)] new(3) by simp
  ultimately show ?thesis using d row x new(2) doc Inr by auto
qed (use download_run [OF assms(3,5)] in simp)

definition download_world :: world where [run_defs]:
  "download_world = export_world\<lparr>w_lib := sample_lib\<lparr>lib_json_decode := refuse_decode\<rparr>\<rparr>"

lemma export_download_run:
  "\<exists>d. fst (bindE (RequestExport export_service (sample_actor 11 ''POLICE'') 70 ''i'' ''a'')
     (\<lambda>s. DownloadEvidenceExport (sample_actor 11 ''POLICE'') (es_ExportID s)) download_world) = Inr d"
  supply run_congs [cong]
  by (simp add: run_defs)

lemma export_download_intact_witness:
  "\<exists>s w1 d w2. RequestExport export_service (sample_actor 11 ''POLICE'') 70 ''i'' ''a'' download_world = (Inr s, w1) \<and>
     DownloadEvidenceExport (sample_actor 11 ''POLICE'') (es_ExportID s) w1 = (Inr d, w2) \<and>
     x_export_sha256 (ed_Export d) = Some (lib_sha256 (w_lib download_world) (ed_Content d))"
proof -
  let ?u = "sample_actor 11 ''POLICE''"
  from export_download_run obtain d w2 where "bindE (RequestExport export_service ?u 70 ''i'' ''a'')
     (\<lambda>s. DownloadEvidenceExport ?u (es_ExportID s)) download_world = (Inr d, w2)" by (metis prod.collapse)
  then obtain s w1 where run: "RequestExport export_service ?u 70 ''i'' ''a'' download_world = (Inr s, w1)"
    and get: "DownloadEvidenceExport ?u (es_ExportID s) w1 = (Inr d, w2)"
    by (auto simp: tryE_Inr fail_run)
  have "au_ID ?u \<noteq> nil_uuid" by (simp add: sample_actor_def)
  moreover have "distinct (map d_id (t_documents (w_db download_world)))"
    by (simp add: download_world_def quiet_world_def export_world_def sample_world_def sample_db_def)
  ultimately show ?thesis
    using run get export_download_intact [OF run undisturbed_refl get _ _ export_laws(3)] by auto
qed

end
