(* ===== verification/Spec2Isabelle.thy ===== *)
theory Spec2Isabelle
  imports AuditProps AuthzProps PagingProps CaseProps UserProps AuthProps MiddlewareProps ChaincodeProps AnchorProps WatermarkProps RunTableProps CertificateProps ShareProps ExportProps
begin

text \<open>
  A verification development for EVIDENTIA, a system that keeps digital evidence: cases and
  their members, documents whose SHA-256 digest is fixed at upload, a hash-chained audit log,
  a copy of every digest on a Hyperledger Fabric channel, certificates of integrity, shares
  and marked exports.  The code is the Go backend (backend/internal, backend/pkg, the
  statements in backend/db) and the chaincode (chaincode/evidentia).


  \<^bold>\<open>How the program is put together.\<close>
  A request passes the middleware (identity, permission, access to the case) and a handler,
  which calls one operation of a service.  A service asks the policies of internal/authz,
  reads and writes PostgreSQL in transactions that carry the identity of the caller (row-level
  security filters every statement by it), streams files from and to an object store, records
  what happened in the audit log and publishes an event.  A worker takes tasks from a queue:
  it submits pending anchors to the Fabric channel, where the chaincode stores them, and it
  verifies the audit chain in the background.


  \<^bold>\<open>The world and its operations.\<close>
  An operation has the type \<^verbatim>\<open>world => (gerr + 'a) * world\<close>: a Go function
  that returns a value and an error, with everything it can read or change made explicit.
  \<^verbatim>\<open>Database\<close> holds the rows of each table as a list of records, with the
  row-level policies of backend/db/migrations as boolean functions of the database, the
  identity of the transaction and the row.  \<^verbatim>\<open>Runtime\<close> holds the record
  \<^verbatim>\<open>world\<close> (database, transaction, clock, random source, published events,
  task queue, stored objects, Redis counters, ledger), the error values with
  \<^verbatim>\<open>errors.Is\<close> and \<^verbatim>\<open>errors.As\<close>, the sequencing
  of fallible steps and transactions (begin, two set\_config calls, body, commit; any other
  end restores the tables).  Every round trip to a service outside the process consults a
  schedule of failures that is part of the world, so a theorem about every world is a theorem
  about every pattern of failures.  Only the effects of the program change the world: no
  theorem assumes that calls succeed unless its premises say so.

  Code outside the repository is the record \<^verbatim>\<open>library\<close> of functions, a
  field of the world: SHA-256, bcrypt, JSON, time formatting, base64, the cipher, signatures,
  MIME detection.  Nothing is assumed of them except in named predicates that state what they
  document (\<^verbatim>\<open>rfc3339_laws\<close>, \<^verbatim>\<open>json_laws\<close>,
  \<^verbatim>\<open>watermark_laws\<close> and the like), and \<^verbatim>\<open>Sample\<close>
  has concrete functions that satisfy them, on which every theorem with a premise is run.


  \<^bold>\<open>Theories and the code they model.\<close>
  For each component, \<^verbatim>\<open>X\<close> holds the definitions,
  \<^verbatim>\<open>XFacts\<close> the lemmas and \<^verbatim>\<open>XProps\<close> the
  properties with the inputs they are run on.

  \<^item> Base: \<^verbatim>\<open>Prelude\<close> (types, hexadecimal, UUIDs),
    \<^verbatim>\<open>Utf8\<close>, \<^verbatim>\<open>Decimal\<close>,
    \<^verbatim>\<open>Float64\<close> and \<^verbatim>\<open>JsonStruct\<close> (what the
    program uses of the Go library), \<^verbatim>\<open>Database\<close> (backend/db/migrations),
    \<^verbatim>\<open>Runtime\<close> (internal/apperrors, internal/repository, internal/events),
    \<^verbatim>\<open>Queries\<close> (backend/db/generated), \<^verbatim>\<open>Sample\<close>.
  \<^item> \<^verbatim>\<open>AuditChain\<close>: internal/audit (canonical metadata, entry hash,
    batch verifier, writer, recorders).  \<^verbatim>\<open>Record\<close> is
    \<^verbatim>\<open>chain.record\<close> with its retries.
  \<^item> \<^verbatim>\<open>AuditQueries\<close>, \<^verbatim>\<open>AuditService\<close>,
    \<^verbatim>\<open>AuditRun\<close>: service/audit\_service.go and
    jobs/audit\_verification.go (the trail, and the runs that verify it).
  \<^item> \<^verbatim>\<open>Authz\<close>: internal/authz.  \<^verbatim>\<open>Paging\<close>:
    utils/pagination.go and validator.go.  \<^verbatim>\<open>Middleware\<close>: the gates of
    internal/middleware.
  \<^item> \<^verbatim>\<open>TwoRuns\<close>: two runs of one operation on databases that differ where
    it must not matter; \<^verbatim>\<open>PartyFacts\<close> (the witnesses of a case) and
    \<^verbatim>\<open>LoginFacts\<close> (two failing logins) rest on it.
  \<^item> \<^verbatim>\<open>CaseService\<close>, \<^verbatim>\<open>UserService\<close>,
    \<^verbatim>\<open>AuthService\<close>: the service of that name, the last one with
    internal/auth and internal/ratelimit.
  \<^item> \<^verbatim>\<open>Storage\<close>, \<^verbatim>\<open>DocumentService\<close>,
    \<^verbatim>\<open>DocumentShare\<close>: internal/storage, document\_service.go and
    document\_share.go.
  \<^item> \<^verbatim>\<open>Chaincode\<close>: chaincode/evidentia/chaincode.go.
    \<^verbatim>\<open>Fabric\<close>: internal/blockchain.
    \<^verbatim>\<open>AnchorService\<close> and
    \<^verbatim>\<open>CandidateVerification\<close>:
    service/blockchain\_anchor\_service.go and its job.
  \<^item> \<^verbatim>\<open>Watermark\<close>: watermark\_service.go.
    \<^verbatim>\<open>Certificates\<close>: certificate\_service.go and pkg/crypto.
  \<^item> \<^verbatim>\<open>Export\<close>: service/export\_service.go, the service that
    makes marked copies.

  \<^bold>\<open>What the theorems show.\<close>

  \<^item> The audit log: every call of the writer keeps it verifiable from genesis and only
    extends it, an append is all or nothing and determines every column of its row, the verifier accepts exactly the linked and
    correctly hashed batches, and two verified logs with the same head commit to the same
    entries unless SHA-256 collides.  A background run ends with the verdict of one
    verification of the whole log, whatever the pages, or claims nothing.  Neither can see
    that the tail of a log is gone (\<^verbatim>\<open>truncation_verifies\<close>).
  \<^item> Authorization: each policy is compared with a declarative rule read off the tables;
    shares never confer what they do not name; the names and metadata of witnesses do not
    influence the answer an unprivileged user gets for a case, and a failing login answers the
    same whatever made it fail.
  \<^item> Services: each operation is all or nothing, its success is described exactly, its
    failure leaves the tables alone, and the tables keep an invariant under any interleaving
    of the calls (the creator stays a member of the case, some administrator stays active, a
    closed session stays closed, one active share per document and recipient).
  \<^item> Ledger: the contract refines an abstract write-once map; under any interleaving of
    the steps of the outbox a confirmed anchor has its digest on the ledger; the verification
    of a file is right about the file, the row and the ledger.
  \<^item> Certificates and marks: a certificate is issued only for a document whose stored
    bytes have its digest; the text that is signed for a row determines every signed column of
    it; a mark is read back as it was written, where the magic does not occur earlier in the
    file.


  \<^bold>\<open>Interfaces.\<close>
  \<^verbatim>\<open>guarantee\<close> is a transitive relation between the worlds before and
  after a step; its rules carry it through every control structure of
  \<^verbatim>\<open>Runtime\<close>, so that an invariant needs a proof for the statements that
  write the table and for nothing else.  It is interpreted on the steps of the audit log, of
  sessions, of anchors, of runs, on the identity of the parameters and on reading;
  \<^verbatim>\<open>state_invariant\<close> is its instance for a predicate of the database
  (cases, users), \<^verbatim>\<open>untouched\<close> the variant for a component of the world
  (objects, ledger).  \<^verbatim>\<open>recorder\<close> is the Go interface
  audit.Recorder, interpreted on the chain writer and on the one that only logs;
  \<^verbatim>\<open>authorizer\<close> the interface between policies and services,
  interpreted on the policies of cases, documents and users;
  \<^verbatim>\<open>ledger_service\<close> is blockchain.Service, interpreted on the gateway
  and on the implementation that is switched off;
  \<^verbatim>\<open>anchor\_creator\<close> is the hook through which the services hand a digest to
  the outbox, interpreted on the one that writes anchors and on the absent one.


  \<^bold>\<open>Bounds and fuel.\<close>
  The audit writer tries an append three times, as the code does: the recursion is on that
  number.  The traversal of the chain is a \<^verbatim>\<open>function\<close> whose measure is
  the number of rows beyond the last one read, so it is total, and its number of round trips
  is bounded by the number of full pages of 1000 rows.  Page numbers and offsets are 32-bit
  words and wrap; versions are 64-bit words where the code parses them; float64 is a mantissa of 53 bits
  and an exponent.  Lists of rows are unbounded.  No definition has any other fuel.


  \<^bold>\<open>Not modelled.\<close>
  Handlers, router, server start-up, configuration, logging, the server-sent event stream,
  connection pools and metrics: they translate requests into the calls modelled here and keep
  no state the theorems are about.  Redaction of documents
  draws on images and PDF files with library code.  Two transactions do not interleave
  statement by statement: a transaction is one step, as the isolation the program relies on
  makes it, and what happens between two transactions of an operation is left open only
  where a theorem says so (the steps of the outbox, the retries of the writer, the runs).
  A COMMIT that reports an error has not taken effect: the server's answer to a commit that
  did is never lost.  Comparisons without case (CITEXT, ILIKE) fold the letters of ASCII only.
  Rows hold the columns the statements read or write.  Time is a clock that the world
  advances and nothing orders; where an order matters a theorem states it.
\<close>

end
